(* ===== verification/Prelude.thy ===== *)
theory Prelude
  imports Main
begin

section \<open>Shared vocabulary of the development\<close>

text \<open>
  What every component uses: Go error values with their wrapping chain, decimal
  rendering, results of fallible calls, and generic facts about lists and maps.
  Nothing here models a file of the repository by itself.
\<close>

subsection \<open>Go errors\<close>

text \<open>
  A Go error is a sentinel (\<open>errors.New\<close> at package level, compared by identity), a
  formatted error without \<open>%w\<close>, an error that wraps one other error with text around it
  (\<open>fmt.Errorf\<close> with \<open>%w\<close>), or \<open>errors.Join\<close> of several. \<open>errors_is\<close> follows the wrapping
  chain as \<open>errors.Is\<close> does; \<open>err_text\<close> is \<open>Error()\<close>.
\<close>

datatype goerr =
    ErrNew string
  | ErrF string
  | ErrWrap string goerr string
  | ErrJoin "goerr list"

fun errors_is :: "goerr \<Rightarrow> goerr \<Rightarrow> bool" where
  "errors_is (ErrNew n) t = (ErrNew n = t)"
| "errors_is (ErrF m) t = (ErrF m = t)"
| "errors_is (ErrWrap p e q) t = (ErrWrap p e q = t \<or> errors_is e t)"
| "errors_is (ErrJoin es) t = (ErrJoin es = t \<or> list_ex (\<lambda>e. errors_is e t) es)"

fun intersperse_concat :: "string \<Rightarrow> string list \<Rightarrow> string" where
  "intersperse_concat sep [] = []"
| "intersperse_concat sep [x] = x"
| "intersperse_concat sep (x # y # xs) = x @ sep @ intersperse_concat sep (y # xs)"

fun err_text :: "goerr \<Rightarrow> string" where
  "err_text (ErrNew n) = n"
| "err_text (ErrF m) = m"
| "err_text (ErrWrap p e q) = p @ err_text e @ q"
| "err_text (ErrJoin es) = intersperse_concat [CHR 10] (map err_text es)"

text \<open>\<open>errors.Join(acc, e)\<close>, where a nil accumulator is dropped.\<close>

definition errors_join :: "goerr option \<Rightarrow> goerr \<Rightarrow> goerr" where
  "errors_join acc e = (case acc of None \<Rightarrow> ErrJoin [e] | Some a \<Rightarrow> ErrJoin [a, e])"

lemma errors_is_join [simp]:
  "errors_is (errors_join acc e) (ErrNew n) \<longleftrightarrow>
     (case acc of None \<Rightarrow> False | Some a \<Rightarrow> errors_is a (ErrNew n)) \<or> errors_is e (ErrNew n)"
  by (cases acc) (simp_all add: errors_join_def)

subsection \<open>Decimal rendering (\<open>%d\<close>)\<close>

definition digit_char :: "nat \<Rightarrow> char" where
  "digit_char d = char_of (48 + d)"

fun string_of_nat :: "nat \<Rightarrow> string" where
  "string_of_nat n =
     (if n < 10 then [digit_char n] else string_of_nat (n div 10) @ [digit_char (n mod 10)])"

declare string_of_nat.simps [simp del]

definition string_of_int :: "int \<Rightarrow> string" where
  "string_of_int i = (if i < 0 then CHR ''-'' # string_of_nat (nat (- i)) else string_of_nat (nat i))"

lemma string_of_nat_nonempty [simp]: "string_of_nat n \<noteq> []"
  by (subst string_of_nat.simps) simp

text \<open>The UTF-8 bytes of the right arrow and of the dash that some messages contain, and \<open>%q\<close> of plain text.\<close>

definition arrow :: string where
  "arrow = [CHR 0xE2, CHR 0x86, CHR 0x92]"

definition em_dash :: string where
  "em_dash = [CHR 0xE2, CHR 0x80, CHR 0x94]"

definition quoted :: "string \<Rightarrow> string" where
  "quoted s = CHR 0x22 # s @ [CHR 0x22]"

subsection \<open>Fallible calls\<close>

type_synonym 'a res = "goerr + 'a"

definition is_ok :: "'a res \<Rightarrow> bool" where
  "is_ok r = (case r of Inl _ \<Rightarrow> False | Inr _ \<Rightarrow> True)"

lemma is_ok_simps [simp]: "is_ok (Inr x)" "\<not> is_ok (Inl e)"
  by (simp_all add: is_ok_def)

named_theorems step_defs \<open>definitions a component's step proofs unfold\<close>

subsection \<open>Lists and maps\<close>

lemma find_map_of:
  "distinct (map fst xs) \<Longrightarrow> (k, v) \<in> set xs \<Longrightarrow> map_of xs k = Some v"
  by (simp add: map_of_is_SomeI)

lemma filter_key_absent: "k \<notin> f ` set xs \<Longrightarrow> filter (\<lambda>x. f x \<noteq> k) xs = xs"
  by (induction xs) auto

definition first_index :: "'a list \<Rightarrow> 'a \<Rightarrow> nat" where
  "first_index xs x = length (takeWhile (\<lambda>y. y \<noteq> x) xs)"

lemma first_index_nth: "x \<in> set xs \<Longrightarrow> first_index xs x < length xs \<and> xs ! first_index xs x = x"
  by (induction xs) (auto simp: first_index_def)

lemma first_index_take: "x \<in> set (take n xs) \<Longrightarrow> first_index xs x < n"
  by (induction xs arbitrary: n) (auto simp: first_index_def take_Cons split: nat.splits)

lemma list_ex_append_single [simp]: "list_ex P (xs @ [x]) \<longleftrightarrow> list_ex P xs \<or> P x"
  by auto

lemma set_takeWhile_prefix: "takeWhile P xs @ dropWhile P xs = xs"
  by simp

end
