(* ===== verification/MigState.thy ===== *)
theory MigState
  imports Prelude
begin

section \<open>The migration lifecycle state machine (\<open>migration/state.go\<close>)\<close>

text \<open>
  The typed lifecycle states, their two string renderings, the transition table and the
  validated state machine. Every other component of the migration engine moves a migration
  through these states. \<open>UnknownState n\<close> is any integer outside the declared constants, which
  the \<open>default\<close> branches of the code answer.
\<close>

subsection \<open>States\<close>

datatype MigrationState =
    StateCreated | StatePlanning | StateDiscovery | StateCompatibilityCheck
  | StateRiskAssessment | StateBackup | StateSnapshot | StateTransferring
  | StateApplying | StateVerifying | StateProvisionTarget | StateInstallDependencies
  | StateInitialSync | StateLiveReplication | StateVerification | StatePreCutover
  | StateTrafficSwitch | StatePostVerification | StateObservation | StateCommitted
  | StateFailed | StateRollback | StateRolledBack | StateRollbackDegraded
  | StateInterrupted | StatePaused | StateResuming | StateCancelled
  | StateAwaitingCutover | StateNeedsManualIntervention
  | UnknownState int

fun State_String :: "MigrationState \<Rightarrow> string" where
  "State_String StateCreated = ''created''"
| "State_String StatePlanning = ''planning''"
| "State_String StateDiscovery = ''discovery''"
| "State_String StateCompatibilityCheck = ''compatibility_check''"
| "State_String StateRiskAssessment = ''risk_assessment''"
| "State_String StateBackup = ''backup''"
| "State_String StateSnapshot = ''snapshot''"
| "State_String StateTransferring = ''transferring''"
| "State_String StateApplying = ''applying''"
| "State_String StateVerifying = ''verifying''"
| "State_String StateProvisionTarget = ''provision_target''"
| "State_String StateInstallDependencies = ''install_dependencies''"
| "State_String StateInitialSync = ''initial_sync''"
| "State_String StateLiveReplication = ''live_replication''"
| "State_String StateVerification = ''verification''"
| "State_String StatePreCutover = ''pre_cutover''"
| "State_String StateTrafficSwitch = ''traffic_switch''"
| "State_String StatePostVerification = ''post_verification''"
| "State_String StateObservation = ''observation''"
| "State_String StateCommitted = ''committed''"
| "State_String StateFailed = ''failed''"
| "State_String StateRollback = ''rollback''"
| "State_String StateRolledBack = ''rolled_back''"
| "State_String StateRollbackDegraded = ''rollback_degraded''"
| "State_String StateInterrupted = ''interrupted''"
| "State_String StatePaused = ''paused''"
| "State_String StateResuming = ''resuming''"
| "State_String StateCancelled = ''cancelled''"
| "State_String StateAwaitingCutover = ''awaiting_cutover''"
| "State_String StateNeedsManualIntervention = ''needs_manual_intervention''"
| "State_String (UnknownState n) = ''unknown('' @ string_of_int n @ '')''"

definition IsTerminal :: "MigrationState \<Rightarrow> bool" where
  "IsTerminal s \<longleftrightarrow> s = StateCommitted \<or> s = StateRolledBack \<or> s = StateRollbackDegraded
     \<or> s = StateCancelled \<or> s = StateNeedsManualIntervention"

fun IsRunning :: "MigrationState \<Rightarrow> bool" where
  "IsRunning s =
     (s \<in> set [StateCreated, StatePlanning, StateDiscovery, StateCompatibilityCheck,
        StateRiskAssessment, StateBackup, StateSnapshot, StateTransferring,
        StateApplying, StateVerifying, StateProvisionTarget, StateInstallDependencies,
        StateInitialSync, StateLiveReplication, StateVerification,
        StatePreCutover, StateTrafficSwitch, StatePostVerification,
        StateObservation, StateRollback, StateResuming])"

definition CanResume :: "MigrationState \<Rightarrow> bool" where
  "CanResume s \<longleftrightarrow> s = StateInterrupted \<or> s = StatePaused"

subsection \<open>The strings of the database\<close>

definition stateString :: "(MigrationState \<times> string) list" where
  "stateString =
    [(StateCreated, ''planned''), (StatePlanning, ''planning''),
     (StateDiscovery, ''discovery''), (StateCompatibilityCheck, ''compatibility_check''),
     (StateRiskAssessment, ''risk_assessment''), (StateBackup, ''backup''),
     (StateSnapshot, ''snapshot''), (StateTransferring, ''transferring''),
     (StateApplying, ''applying''), (StateVerifying, ''verifying''),
     (StateProvisionTarget, ''provision_target''),
     (StateInstallDependencies, ''install_dependencies''),
     (StateInitialSync, ''initial_sync''), (StateLiveReplication, ''live_replication''),
     (StateVerification, ''verification''), (StatePreCutover, ''pre_cutover''),
     (StateTrafficSwitch, ''traffic_switch''), (StatePostVerification, ''post_verification''),
     (StateObservation, ''observation''), (StateCommitted, ''completed''),
     (StateFailed, ''failed''), (StateRollback, ''rolling_back''),
     (StateRolledBack, ''rolled_back''), (StateRollbackDegraded, ''rollback_degraded''),
     (StateInterrupted, ''interrupted''), (StatePaused, ''paused''),
     (StateResuming, ''resuming''), (StateCancelled, ''cancelled''),
     (StateAwaitingCutover, ''awaiting_cutover''),
     (StateNeedsManualIntervention, ''needs_manual_intervention'')]"

text \<open>\<open>init()\<close> fills the reverse map by ranging over \<open>stateString\<close>.\<close>

definition stringState :: "(string \<times> MigrationState) list" where
  "stringState = map (\<lambda>(state, str). (str, state)) stateString"

definition StateFromString :: "string \<Rightarrow> MigrationState res" where
  "StateFromString s = (case map_of stringState s of
       None \<Rightarrow> Inl (ErrF (''unknown migration state: '' @ quoted s))
     | Some state \<Rightarrow> Inr state)"

definition StateString :: "MigrationState \<Rightarrow> string" where
  "StateString s = (case map_of stateString s of Some str \<Rightarrow> str | None \<Rightarrow> ''unknown'')"

subsection \<open>Transitions\<close>

fun transitionTable :: "MigrationState \<Rightarrow> MigrationState list option" where
  "transitionTable StateCreated = Some [StatePlanning]"
| "transitionTable StatePlanning =
     Some [StateDiscovery, StateBackup, StateFailed, StateInterrupted, StatePaused]"
| "transitionTable StateDiscovery =
     Some [StateCompatibilityCheck, StateFailed, StateInterrupted, StatePaused]"
| "transitionTable StateCompatibilityCheck =
     Some [StateRiskAssessment, StateFailed, StateInterrupted, StatePaused]"
| "transitionTable StateRiskAssessment =
     Some [StateBackup, StateFailed, StateInterrupted, StatePaused]"
| "transitionTable StateBackup =
     Some [StateProvisionTarget, StateSnapshot, StateFailed, StateInterrupted, StatePaused]"
| "transitionTable StateSnapshot =
     Some [StateTransferring, StateFailed, StateInterrupted, StatePaused]"
| "transitionTable StateTransferring =
     Some [StateApplying, StateCommitted, StateFailed, StateInterrupted, StatePaused]"
| "transitionTable StateApplying =
     Some [StateVerifying, StateCommitted, StateFailed, StateInterrupted, StatePaused, StateRollback]"
| "transitionTable StateVerifying =
     Some [StatePreCutover, StateCommitted, StateApplying, StateFailed, StateInterrupted,
       StatePaused, StateRollback]"
| "transitionTable StateProvisionTarget =
     Some [StateInstallDependencies, StateFailed, StateInterrupted, StatePaused]"
| "transitionTable StateInstallDependencies =
     Some [StateInitialSync, StateFailed, StateInterrupted, StatePaused]"
| "transitionTable StateInitialSync =
     Some [StateLiveReplication, StateFailed, StateInterrupted, StatePaused]"
| "transitionTable StateLiveReplication =
     Some [StateVerification, StateFailed, StateInterrupted, StatePaused]"
| "transitionTable StateVerification =
     Some [StatePreCutover, StateFailed, StateInterrupted, StatePaused]"
| "transitionTable StatePreCutover =
     Some [StateTrafficSwitch, StateFailed, StateInterrupted, StatePaused]"
| "transitionTable StateTrafficSwitch =
     Some [StatePostVerification, StateFailed, StateInterrupted, StatePaused, StateRollback]"
| "transitionTable StatePostVerification =
     Some [StateObservation, StateFailed, StateInterrupted, StatePaused, StateRollback]"
| "transitionTable StateObservation =
     Some [StateCommitted, StateFailed, StateInterrupted, StatePaused, StateRollback]"
| "transitionTable StateCommitted = Some []"
| "transitionTable StateFailed = Some [StateRollback, StateInterrupted]"
| "transitionTable StateRollback =
     Some [StateRolledBack, StateRollbackDegraded, StateNeedsManualIntervention, StateFailed]"
| "transitionTable StateRolledBack = Some []"
| "transitionTable StateRollbackDegraded = Some []"
| "transitionTable StateInterrupted = Some [StateResuming, StateFailed, StateCancelled]"
| "transitionTable StatePaused = Some [StateResuming, StateFailed, StateCancelled]"
| "transitionTable StateResuming =
     Some [StatePlanning, StateDiscovery, StateCompatibilityCheck, StateRiskAssessment,
       StateBackup, StateSnapshot, StateTransferring, StateApplying, StateVerifying,
       StateProvisionTarget, StateInstallDependencies, StateInitialSync,
       StateLiveReplication, StateVerification, StatePreCutover, StateTrafficSwitch,
       StatePostVerification, StateObservation, StateFailed, StateInterrupted,
       StateCommitted]"
| "transitionTable StateCancelled = Some []"
| "transitionTable StateAwaitingCutover =
     Some [StateCommitted, StateNeedsManualIntervention, StateRollback, StateFailed]"
| "transitionTable StateNeedsManualIntervention = Some []"
| "transitionTable (UnknownState n) = None"

fun candidate_loop :: "MigrationState list \<Rightarrow> MigrationState \<Rightarrow> bool" where
  "candidate_loop [] to = False"
| "candidate_loop (candidate # allowed) to = (if candidate = to then True else candidate_loop allowed to)"

definition IsValidTransition :: "MigrationState \<Rightarrow> MigrationState \<Rightarrow> bool" where
  "IsValidTransition from to = (case transitionTable from of
       None \<Rightarrow> False
     | Some allowed \<Rightarrow> candidate_loop allowed to)"

subsection \<open>The state machine\<close>

text \<open>
  The mutex makes each method one atomic step, so the machine is its \<open>state\<close> field and every
  method a function on it.
\<close>

record StateMachine =
  sm_state :: MigrationState

definition NewStateMachine :: "MigrationState \<Rightarrow> StateMachine" where
  "NewStateMachine initial = \<lparr>sm_state = initial\<rparr>"

definition Transition :: "StateMachine \<Rightarrow> MigrationState \<Rightarrow> goerr option \<times> StateMachine" where
  "Transition sm to =
     (let from = sm_state sm in
      if \<not> IsValidTransition from to
      then (Some (ErrF (''invalid state transition: '' @ State_String from @ '' '' @ arrow @ '' ''
              @ State_String to)), sm)
      else (None, sm\<lparr>sm_state := to\<rparr>))"

definition ForceTransition :: "StateMachine \<Rightarrow> MigrationState \<Rightarrow> StateMachine" where
  "ForceTransition sm to = sm\<lparr>sm_state := to\<rparr>"

text \<open>\<open>MustTransition\<close> panics on an invalid transition: \<open>None\<close> is the panic.\<close>

definition MustTransition :: "StateMachine \<Rightarrow> MigrationState \<Rightarrow> StateMachine option" where
  "MustTransition sm to = (case Transition sm to of (Some _, _) \<Rightarrow> None | (None, sm') \<Rightarrow> Some sm')"

definition sm_IsTerminal :: "StateMachine \<Rightarrow> bool" where
  "sm_IsTerminal sm = IsTerminal (sm_state sm)"

definition sm_IsRunning :: "StateMachine \<Rightarrow> bool" where
  "sm_IsRunning sm = IsRunning (sm_state sm)"

definition sm_CanResume :: "StateMachine \<Rightarrow> bool" where
  "sm_CanResume sm = CanResume (sm_state sm)"


subsection \<open>Reading the table\<close>

lemma candidate_loop_iff [simp]: "candidate_loop xs t \<longleftrightarrow> t \<in> set xs"
  by (induction xs) auto

lemma IsValidTransition_iff:
  "IsValidTransition s t \<longleftrightarrow> (\<exists>allowed. transitionTable s = Some allowed \<and> t \<in> set allowed)"
  by (simp add: IsValidTransition_def split: option.split)

lemma valid_to_Committed_iff:
  "IsValidTransition s StateCommitted \<longleftrightarrow>
     s \<in> {StateTransferring, StateApplying, StateVerifying, StateObservation, StateResuming,
          StateAwaitingCutover}"
  by (cases s) (simp_all add: IsValidTransition_iff)

lemma valid_to_Rollback_iff:
  "IsValidTransition s StateRollback \<longleftrightarrow>
     s \<in> {StateApplying, StateVerifying, StateTrafficSwitch, StatePostVerification,
          StateObservation, StateFailed, StateAwaitingCutover}"
  by (cases s) (simp_all add: IsValidTransition_iff)

lemma valid_to_Cancelled_iff:
  "IsValidTransition s StateCancelled \<longleftrightarrow> s \<in> {StateInterrupted, StatePaused}"
  by (cases s) (simp_all add: IsValidTransition_iff)

lemma valid_to_Resuming_iff:
  "IsValidTransition s StateResuming \<longleftrightarrow> s \<in> {StateInterrupted, StatePaused}"
  by (cases s) (simp_all add: IsValidTransition_iff)

lemma valid_to_Paused_iff:
  "IsValidTransition s StatePaused \<longleftrightarrow>
     s \<in> {StatePlanning, StateDiscovery, StateCompatibilityCheck, StateRiskAssessment,
          StateBackup, StateSnapshot, StateTransferring, StateApplying, StateVerifying,
          StateProvisionTarget, StateInstallDependencies, StateInitialSync,
          StateLiveReplication, StateVerification, StatePreCutover, StateTrafficSwitch,
          StatePostVerification, StateObservation}"
  by (cases s) (simp_all add: IsValidTransition_iff)

lemma valid_from_Rollback_iff:
  "IsValidTransition StateRollback t \<longleftrightarrow>
     t \<in> {StateRolledBack, StateRollbackDegraded, StateNeedsManualIntervention, StateFailed}"
  by (auto simp: IsValidTransition_iff)

lemma no_edge_into_AwaitingCutover: "\<not> IsValidTransition s StateAwaitingCutover"
  by (cases s) (simp_all add: IsValidTransition_iff)

lemma Transition_ok_iff:
  "fst (Transition sm t) = None \<longleftrightarrow> IsValidTransition (sm_state sm) t"
  by (simp add: Transition_def Let_def)

lemma Transition_state:
  "sm_state (snd (Transition sm t)) = (if IsValidTransition (sm_state sm) t then t else sm_state sm)"
  by (simp add: Transition_def Let_def)

lemma IsRunning_not_terminal: "IsRunning s \<Longrightarrow> \<not> IsTerminal s"
  by (cases s) (simp_all add: IsTerminal_def)

lemma CanResume_not_running: "CanResume s \<Longrightarrow> \<not> IsRunning s \<and> \<not> IsTerminal s"
  by (auto simp: CanResume_def IsTerminal_def)

subsection \<open>Runs of validated transitions\<close>

text \<open>
  \<open>sm_run sm ts sm'\<close>: the machine went from \<open>sm\<close> to \<open>sm'\<close> by successful \<open>Transition\<close> calls to the
  states \<open>ts\<close>, in that order.
\<close>

inductive sm_run :: "StateMachine \<Rightarrow> MigrationState list \<Rightarrow> StateMachine \<Rightarrow> bool" where
  sm_run_nil: "sm_run sm [] sm"
| sm_run_snoc: "sm_run sm ts sm' \<Longrightarrow> Transition sm' t = (None, sm'') \<Longrightarrow> sm_run sm (ts @ [t]) sm''"

inductive_cases sm_run_nilE: "sm_run sm [] sm'"

lemma Transition_None_iff:
  "Transition sm t = (None, sm') \<longleftrightarrow> IsValidTransition (sm_state sm) t \<and> sm' = sm\<lparr>sm_state := t\<rparr>"
  by (auto simp: Transition_def Let_def)

lemma sm_run_single: "IsValidTransition (sm_state sm) t \<Longrightarrow> sm_run sm [t] (sm\<lparr>sm_state := t\<rparr>)"
  using sm_run_snoc [OF sm_run_nil, of sm t "sm\<lparr>sm_state := t\<rparr>"] by (simp add: Transition_None_iff)

lemma sm_run_extend:
  "sm_run sm ts sm' \<Longrightarrow> IsValidTransition (sm_state sm') t \<Longrightarrow> u = sm'\<lparr>sm_state := t\<rparr> \<Longrightarrow>
     sm_run sm (ts @ [t]) u"
  by (rule sm_run_snoc) (simp_all add: Transition_None_iff)

text \<open>
  A set that contains the start and is closed under the edges that avoid \<open>A\<close> contains the end of
  every run that avoids \<open>A\<close>.
\<close>

lemma sm_run_confined:
  assumes "sm_run sm ts sm'" and "sm_state sm \<in> R" and "set ts \<inter> A = {}"
    and closed: "\<And>s t. s \<in> R \<Longrightarrow> IsValidTransition s t \<Longrightarrow> t \<notin> A \<Longrightarrow> t \<in> R"
  shows "sm_state sm' \<in> R"
  using assms(1-3)
proof (induction rule: sm_run.induct)
  case (sm_run_snoc sm ts sm' t sm'')
  then show ?case by (auto simp: Transition_None_iff intro: closed)
qed

text \<open>What a run from the initial state can reach before any backup, and without a resume.\<close>

definition pre_backup :: "MigrationState set" where
  "pre_backup = {StateCreated, StatePlanning, StateDiscovery, StateCompatibilityCheck,
     StateRiskAssessment, StateFailed, StateInterrupted, StatePaused, StateRollback,
     StateRolledBack, StateRollbackDegraded, StateCancelled, StateNeedsManualIntervention}"

lemma pre_backup_closed:
  "s \<in> pre_backup \<Longrightarrow> IsValidTransition s t \<Longrightarrow> t \<notin> {StateBackup, StateResuming} \<Longrightarrow> t \<in> pre_backup"
  by (auto simp: pre_backup_def IsValidTransition_iff)

text \<open>No run of validated transitions commits a migration that never entered the backup
  phase, unless it went through a resume.\<close>

theorem commit_needs_backup_or_resume:
  assumes "sm_run (NewStateMachine StateCreated) ts sm" and "sm_state sm = StateCommitted"
  shows "StateBackup \<in> set ts \<or> StateResuming \<in> set ts"
proof (rule ccontr)
  assume "\<not> ?thesis"
  then have "sm_state sm \<in> pre_backup"
    using sm_run_confined [OF assms(1), of pre_backup "{StateBackup, StateResuming}"]
      pre_backup_closed by (auto simp: NewStateMachine_def pre_backup_def)
  with assms(2) show False by (simp add: pre_backup_def)
qed

lemma run_to_commit_example:
  "sm_run (NewStateMachine StateCreated)
     [StatePlanning, StateBackup, StateSnapshot, StateTransferring, StateCommitted]
     (NewStateMachine StateCommitted)"
proof -
  have "sm_run (NewStateMachine StateCreated)
      ((((([] @ [StatePlanning]) @ [StateBackup]) @ [StateSnapshot]) @ [StateTransferring]) @ [StateCommitted])
      (NewStateMachine StateCommitted)"
    by (rule sm_run_extend sm_run_nil | simp add: NewStateMachine_def IsValidTransition_iff)+
  then show ?thesis by simp
qed

theorem commit_needs_backup_or_resume_witness:
  "StateBackup \<in> set [StatePlanning, StateBackup, StateSnapshot, StateTransferring, StateCommitted]
   \<or> StateResuming \<in> set [StatePlanning, StateBackup, StateSnapshot, StateTransferring, StateCommitted]"
  by (rule commit_needs_backup_or_resume [OF run_to_commit_example]) (simp add: NewStateMachine_def)

text \<open>A declared state is terminal exactly when the table allows no transition out of it.\<close>

theorem terminal_iff_no_successor:
  "(transitionTable s \<noteq> None \<and> (\<forall>t. fst (Transition (NewStateMachine s) t) \<noteq> None)) \<longleftrightarrow> IsTerminal s"
  by (cases s) (auto simp: Transition_ok_iff IsValidTransition_iff IsTerminal_def NewStateMachine_def)

lemma stateString_distinct: "distinct (map fst stateString)" "distinct (map snd stateString)"
  by (simp_all add: stateString_def)

lemma stringState_lookup:
  "map_of stringState str = Some st \<longleftrightarrow> (st, str) \<in> set stateString"
proof -
  have "distinct (map fst stringState)"
    using stateString_distinct(2) by (simp add: stringState_def comp_def split_def)
  then have "map_of stringState str = Some st \<longleftrightarrow> (str, st) \<in> set stringState"
    by (simp add: map_of_eq_Some_iff)
  then show ?thesis by (auto simp: stringState_def)
qed

text \<open>The database string of every declared state reads back as that state, and every string
  that reads as a state is that state's database string.\<close>

theorem state_string_roundtrip:
  "(transitionTable st \<noteq> None \<and> StateString st = str) \<longleftrightarrow> StateFromString str = Inr st"
proof -
  have "transitionTable st \<noteq> None \<longleftrightarrow> st \<in> dom (map_of stateString)"
    unfolding dom_map_of_conv_image_fst by (cases st) (simp_all add: stateString_def)
  then have "(transitionTable st \<noteq> None \<and> StateString st = str) \<longleftrightarrow> map_of stateString st = Some str"
    by (auto simp: StateString_def)
  also have "\<dots> \<longleftrightarrow> map_of stringState str = Some st"
    by (simp add: stringState_lookup map_of_eq_Some_iff stateString_distinct(1))
  also have "\<dots> \<longleftrightarrow> StateFromString str = Inr st"
    by (auto simp: StateFromString_def split: option.splits)
  finally show ?thesis .
qed

text \<open>Runs compose.\<close>

lemma sm_run_Nil_append:
  "sm_run sm ts sm' \<Longrightarrow> sm_run sm' us sm'' \<Longrightarrow> sm_run sm (ts @ us) sm''"
proof (induction us arbitrary: sm'' rule: rev_induct)
  case Nil
  then show ?case by (auto elim: sm_run.cases)
next
  case (snoc u us)
  from snoc.prems(2) obtain sm3 where "sm_run sm' us sm3" "Transition sm3 u = (None, sm'')"
    by (auto elim: sm_run.cases)
  with snoc have "sm_run sm ((ts @ us) @ [u]) sm''"
    by (blast intro: sm_run_snoc)
  then show ?case by simp
qed

end
