(* ===== verification/World.thy ===== *)
theory World
  imports Prelude
begin

section \<open>The environment a component runs in\<close>

text \<open>
  The database, the clock and the failures of the environment. The code's SQL statements act on a
  database value; every statement (and every call of an external driver) is one tick, and the
  environment decides what happens at each tick: it succeeds, it fails before it took effect
  (a cancelled context, a refused statement), or it took effect and still reported an error (a
  result whose row count or key could not be read). The environment is arbitrary, so a theorem
  for every \<open>w_env\<close> holds for every pattern of failures, crashes included: a crash after tick \<open>n\<close>
  is an environment that fails everything from \<open>n\<close> on. The clock is a function of the tick, in
  nanoseconds.
\<close>

datatype fault = NoFault | FailBefore goerr | FailAfter goerr

record ('db, 'e) world =
  w_db :: 'db
  w_log :: "'e list"
  w_tick :: nat
  w_env :: "nat \<Rightarrow> fault"
  w_clock :: "nat \<Rightarrow> int"

definition w_now :: "('db, 'e) world \<Rightarrow> int" where
  "w_now w = w_clock w (w_tick w)"

definition tick :: "('db, 'e) world \<Rightarrow> ('db, 'e) world" where
  "tick w = w\<lparr>w_tick := Suc (w_tick w)\<rparr>"

definition db_read :: "('db \<Rightarrow> 'a res) \<Rightarrow> ('db, 'e) world \<Rightarrow> 'a res \<times> ('db, 'e) world" where
  "db_read f w = (case w_env w (w_tick w) of
       NoFault \<Rightarrow> (f (w_db w), tick w)
     | FailBefore e \<Rightarrow> (Inl e, tick w)
     | FailAfter e \<Rightarrow> (Inl e, tick w))"

text \<open>The statement sees the current time, for \<open>CURRENT_TIMESTAMP\<close>.\<close>

definition db_write ::
  "(int \<Rightarrow> 'db \<Rightarrow> 'a res \<times> 'db) \<Rightarrow> ('db, 'e) world \<Rightarrow> 'a res \<times> ('db, 'e) world" where
  "db_write f w = (case w_env w (w_tick w) of
       NoFault \<Rightarrow> (let (r, d) = f (w_now w) (w_db w) in (r, tick (w\<lparr>w_db := d\<rparr>)))
     | FailBefore e \<Rightarrow> (Inl e, tick w)
     | FailAfter e \<Rightarrow> (Inl e, tick (w\<lparr>w_db := snd (f (w_now w) (w_db w))\<rparr>)))"

subsection \<open>What reads and writes keep\<close>

lemma tick_fields [simp]:
  "w_db (tick w) = w_db w" "w_log (tick w) = w_log w" "w_env (tick w) = w_env w"
  "w_clock (tick w) = w_clock w" "w_tick (tick w) = Suc (w_tick w)"
  by (simp_all add: tick_def)

lemma db_read_frame:
  assumes "db_read f w = (r, w')"
  shows "w_db w' = w_db w" "w_log w' = w_log w" "w_env w' = w_env w" "w_clock w' = w_clock w"
    "w_tick w' = Suc (w_tick w)"
  using assms by (auto simp: db_read_def split: fault.splits)

lemma db_read_frames:
  "db_read f w = (r, w') \<Longrightarrow> w_db w' = w_db w \<and> w_log w' = w_log w \<and> w_env w' = w_env w \<and>
     w_clock w' = w_clock w \<and> w_tick w' = Suc (w_tick w)"
  by (simp add: db_read_frame)

lemma db_read_ok: "db_read f w = (Inr x, w') \<Longrightarrow> f (w_db w) = Inr x"
  by (auto simp: db_read_def split: fault.splits)

lemma db_write_frame:
  assumes "db_write f w = (r, w')"
  shows "w_log w' = w_log w" "w_env w' = w_env w" "w_clock w' = w_clock w"
    "w_tick w' = Suc (w_tick w)"
  using assms by (auto simp: db_write_def split: fault.splits prod.splits)

lemma db_write_frames:
  "db_write f w = (r, w') \<Longrightarrow>
     w_log w' = w_log w \<and> w_env w' = w_env w \<and> w_clock w' = w_clock w \<and> w_tick w' = Suc (w_tick w)"
  by (simp add: db_write_frame)

lemma db_write_db:
  "db_write f w = (r, w') \<Longrightarrow>
     w_db w' = w_db w \<or> (\<exists>q. f (w_now w) (w_db w) = (q, w_db w'))"
  by (auto simp: db_write_def split: fault.splits prod.splits) (metis prod.collapse)

lemma db_write_snd:
  "db_write f w = (r, w') \<Longrightarrow> w_db w' = w_db w \<or> w_db w' = snd (f (w_now w) (w_db w))"
  by (auto simp: db_write_def split: fault.splits prod.splits)

lemma db_write_ok:
  "db_write f w = (Inr x, w') \<Longrightarrow> f (w_now w) (w_db w) = (Inr x, w_db w')"
  by (auto simp: db_write_def split: fault.splits prod.splits)

lemma db_write_ok_snd:
  "db_write f w = (Inr x, w') \<Longrightarrow> w_db w' = snd (f (w_now w) (w_db w))"
  by (drule db_write_ok) simp

text \<open>Without faults from the current tick on, statements do what they say.\<close>

definition fault_free :: "('db, 'e) world \<Rightarrow> bool" where
  "fault_free w \<longleftrightarrow> (\<forall>n \<ge> w_tick w. w_env w n = NoFault)"

lemma fault_free_read: "fault_free w \<Longrightarrow> db_read f w = (f (w_db w), tick w)"
  by (simp add: db_read_def fault_free_def)

lemma fault_free_write:
  "fault_free w \<Longrightarrow> db_write f w =
     (fst (f (w_now w) (w_db w)), tick (w\<lparr>w_db := snd (f (w_now w) (w_db w))\<rparr>))"
  by (simp add: db_write_def fault_free_def split: prod.split)

lemma fault_free_tick [simp]: "fault_free w \<Longrightarrow> fault_free (tick w)"
  by (simp add: fault_free_def)

lemma fault_free_db [simp]: "fault_free (w\<lparr>w_db := d\<rparr>) = fault_free w"
  by (simp add: fault_free_def)

text \<open>A clock that never runs backwards.\<close>

definition clock_mono :: "('db, 'e) world \<Rightarrow> bool" where
  "clock_mono w \<longleftrightarrow> (\<forall>m n. m \<le> n \<longrightarrow> w_clock w m \<le> w_clock w n)"

text \<open>Durations are nanoseconds.\<close>

definition second :: int where
  "second = 1000000000"

text \<open>A concrete world without faults, whose clock advances one second per tick.\<close>

definition calm_world :: "'db \<Rightarrow> ('db, 'e) world" where
  "calm_world d = \<lparr>w_db = d, w_log = [], w_tick = 0, w_env = (\<lambda>_. NoFault), w_clock = (\<lambda>n. int n * second)\<rparr>"

end
