(* ===== verification/Fencing.thy ===== *)
theory Fencing
  imports World
begin

section \<open>The fencing authority (\<open>migration/fencing_authority.go\<close>)\<close>

text \<open>
  The durable lease that lets one holder at a time run the mutating steps of a cutover. The rows
  of \<open>migration_fence_leases\<close> and the SQL of \<open>pipeline_repo_stages.go\<close> are the provider; the
  authority's \<open>Acquire\<close>, \<open>Renew\<close>, \<open>Release\<close>, \<open>SetState\<close>, \<open>AssertHolds\<close> and \<open>Load\<close> are the client.
\<close>

subsection \<open>Time stamps, leases and errors\<close>

text \<open>
  Time stamps are RFC 3339 text with a resolution of one second: \<open>Stamp s\<close> is a text that parses
  to second \<open>s\<close>, \<open>BadStamp\<close> one that does not parse. Times are nanoseconds.
\<close>

datatype stamp = Stamp int | BadStamp

definition formatTime :: "int \<Rightarrow> stamp" where
  "formatTime t = Stamp (t div second)"

definition parseTime :: "stamp \<Rightarrow> int res" where
  "parseTime s = (case s of Stamp n \<Rightarrow> Inr (n * second) | BadStamp \<Rightarrow> Inl (ErrF ''cannot parse time''))"

definition FenceTTL :: int where
  "FenceTTL = 5 * 60 * second"

record FenceLease =
  fl_ID :: int
  fl_MigrationID :: int
  fl_Holder :: string
  fl_FenceToken :: int
  fl_State :: string
  fl_AcquiredAt :: stamp
  fl_ExpiresAt :: stamp
  fl_RenewedAt :: "stamp option"
  fl_ReleasedAt :: "stamp option"

definition ErrFenceLeaseNotHeld :: goerr where
  "ErrFenceLeaseNotHeld = ErrNew ''fence lease not held by caller''"

definition ErrFenceLeaseConflict :: goerr where
  "ErrFenceLeaseConflict = ErrNew ''fence lease held by another holder''"

definition ErrFenceLeaseStale :: goerr where
  "ErrFenceLeaseStale = ErrNew ''fence lease expired without release (stale)''"

subsection \<open>The lease table\<close>

record fence_db =
  fence_rows :: "FenceLease list"
  fence_seq :: int

text \<open>\<open>INSERT\<close> under \<open>UNIQUE(migration_id)\<close> with an autoincremented key.\<close>

definition CreateFenceLease ::
  "FenceLease \<Rightarrow> ('x fence_db_scheme, 'e) world \<Rightarrow> int res \<times> ('x fence_db_scheme, 'e) world" where
  "CreateFenceLease l = db_write (\<lambda>now d.
     if \<exists>r \<in> set (fence_rows d). fl_MigrationID r = fl_MigrationID l
     then (Inl (ErrF ''UNIQUE constraint failed: migration_fence_leases.migration_id''), d)
     else (Inr (fence_seq d + 1),
           d\<lparr>fence_rows := fence_rows d @ [l\<lparr>fl_ID := fence_seq d + 1\<rparr>],
             fence_seq := fence_seq d + 1\<rparr>))"

definition UpdateFenceLeaseState ::
  "int \<Rightarrow> string \<Rightarrow> ('x fence_db_scheme, 'e) world \<Rightarrow> unit res \<times> ('x fence_db_scheme, 'e) world" where
  "UpdateFenceLeaseState i state = db_write (\<lambda>now d.
     (Inr (), d\<lparr>fence_rows := map (\<lambda>r. if fl_ID r = i then r\<lparr>fl_State := state\<rparr> else r) (fence_rows d)\<rparr>))"

definition matches_lease :: "int \<Rightarrow> string \<Rightarrow> int \<Rightarrow> FenceLease \<Rightarrow> bool" where
  "matches_lease i holder token r \<longleftrightarrow>
     fl_ID r = i \<and> fl_Holder r = holder \<and> fl_FenceToken r = token \<and> fl_ReleasedAt r = None"

definition RenewFenceLease ::
  "int \<Rightarrow> string \<Rightarrow> int \<Rightarrow> int \<Rightarrow> ('x fence_db_scheme, 'e) world
     \<Rightarrow> unit res \<times> ('x fence_db_scheme, 'e) world" where
  "RenewFenceLease i holder token expiresAt = db_write (\<lambda>now d.
     if \<exists>r \<in> set (fence_rows d). matches_lease i holder token r
     then (Inr (), d\<lparr>fence_rows := map (\<lambda>r. if matches_lease i holder token r
             then r\<lparr>fl_ExpiresAt := formatTime expiresAt, fl_RenewedAt := Some (formatTime now)\<rparr>
             else r) (fence_rows d)\<rparr>)
     else (Inl ErrFenceLeaseNotHeld, d))"

definition ReleaseFenceLease ::
  "int \<Rightarrow> string \<Rightarrow> int \<Rightarrow> ('x fence_db_scheme, 'e) world
     \<Rightarrow> unit res \<times> ('x fence_db_scheme, 'e) world" where
  "ReleaseFenceLease i holder token = db_write (\<lambda>now d.
     if \<exists>r \<in> set (fence_rows d). matches_lease i holder token r
     then (Inr (), d\<lparr>fence_rows := map (\<lambda>r. if matches_lease i holder token r
             then r\<lparr>fl_ReleasedAt := Some (formatTime now)\<rparr> else r) (fence_rows d)\<rparr>)
     else (Inl ErrFenceLeaseNotHeld, d))"

text \<open>\<open>ORDER BY id DESC LIMIT 1\<close>.\<close>

fun greatest_id :: "FenceLease list \<Rightarrow> FenceLease option" where
  "greatest_id [] = None"
| "greatest_id (r # rs) = (case greatest_id rs of
       None \<Rightarrow> Some r
     | Some m \<Rightarrow> Some (if fl_ID m < fl_ID r then r else m))"

definition lease_of :: "'x fence_db_scheme \<Rightarrow> int \<Rightarrow> FenceLease option" where
  "lease_of d mid = greatest_id (filter (\<lambda>r. fl_MigrationID r = mid) (fence_rows d))"

definition GetFenceLease ::
  "int \<Rightarrow> ('x fence_db_scheme, 'e) world
     \<Rightarrow> FenceLease option res \<times> ('x fence_db_scheme, 'e) world" where
  "GetFenceLease mid = db_read (\<lambda>d. Inr (lease_of d mid))"

definition reactivateFenceLease ::
  "int \<Rightarrow> string \<Rightarrow> int \<Rightarrow> string \<Rightarrow> stamp \<Rightarrow> stamp \<Rightarrow> ('x fence_db_scheme, 'e) world
     \<Rightarrow> unit res \<times> ('x fence_db_scheme, 'e) world" where
  "reactivateFenceLease mid holder token state acquiredAt expiresAt = db_write (\<lambda>now d.
     if \<exists>r \<in> set (fence_rows d). fl_MigrationID r = mid
     then (Inr (), d\<lparr>fence_rows := map (\<lambda>r. if fl_MigrationID r = mid
             then r\<lparr>fl_Holder := holder, fl_FenceToken := token, fl_State := state,
                    fl_AcquiredAt := acquiredAt, fl_ExpiresAt := expiresAt,
                    fl_RenewedAt := None, fl_ReleasedAt := None\<rparr>
             else r) (fence_rows d)\<rparr>)
     else (Inl ErrFenceLeaseConflict, d))"

subsection \<open>The authority\<close>

record FencingAuthority =
  fa_ttl :: int

definition NewFencingAuthority :: FencingAuthority where
  "NewFencingAuthority = \<lparr>fa_ttl = FenceTTL\<rparr>"

text \<open>The part of \<open>Acquire\<close> after the checks: no lease, or a cleanly released one.\<close>

definition acquire_fresh ::
  "FencingAuthority \<Rightarrow> int \<Rightarrow> string \<Rightarrow> string \<Rightarrow> FenceLease option \<Rightarrow> int
     \<Rightarrow> ('x fence_db_scheme, 'e) world \<Rightarrow> FenceLease res \<times> ('x fence_db_scheme, 'e) world" where
  "acquire_fresh a mid holder state existing now w =
     (let token = (case existing of
              Some l \<Rightarrow> if 1 \<le> fl_FenceToken l then fl_FenceToken l + 1 else 1
            | None \<Rightarrow> 1);
          lease = \<lparr>fl_ID = 0, fl_MigrationID = mid, fl_Holder = holder, fl_FenceToken = token,
                   fl_State = state, fl_AcquiredAt = formatTime now,
                   fl_ExpiresAt = formatTime (now + fa_ttl a),
                   fl_RenewedAt = None, fl_ReleasedAt = None\<rparr>
      in case existing of
           Some l \<Rightarrow>
             (case reactivateFenceLease mid holder token state (fl_AcquiredAt lease)
                     (fl_ExpiresAt lease) w of
                (Inl err, w') \<Rightarrow> (Inl err, w')
              | (Inr _, w') \<Rightarrow> (Inr (lease\<lparr>fl_ID := fl_ID l\<rparr>), w'))
         | None \<Rightarrow>
             (case CreateFenceLease lease w of
                (Inl err, w') \<Rightarrow> (Inl (ErrWrap '''' ErrFenceLeaseConflict ('': '' @ err_text err)), w')
              | (Inr i, w') \<Rightarrow> (Inr (lease\<lparr>fl_ID := i\<rparr>), w')))"

definition Acquire ::
  "FencingAuthority \<Rightarrow> int \<Rightarrow> string \<Rightarrow> string \<Rightarrow> ('x fence_db_scheme, 'e) world
     \<Rightarrow> FenceLease res \<times> ('x fence_db_scheme, 'e) world" where
  "Acquire a mid holder state w =
     (case GetFenceLease mid w of
        (Inl err, w1) \<Rightarrow> (Inl err, w1)
      | (Inr existing, w1) \<Rightarrow>
          (let now = w_now w1 in
           case existing of
             Some l \<Rightarrow>
               if fl_ReleasedAt l = None then
                 (case parseTime (fl_ExpiresAt l) of
                    Inl _ \<Rightarrow> (Inl ErrFenceLeaseStale, w1)
                  | Inr expires \<Rightarrow>
                      if now < expires then
                        (if fl_Holder l \<noteq> holder then (Inl ErrFenceLeaseConflict, w1)
                         else (Inr l, w1))
                      else (Inl ErrFenceLeaseStale, w1))
               else acquire_fresh a mid holder state existing now w1
           | None \<Rightarrow> acquire_fresh a mid holder state existing now w1))"

text \<open>A nil lease is refused before the repository is called.\<close>

definition Renew ::
  "FencingAuthority \<Rightarrow> FenceLease option \<Rightarrow> ('x fence_db_scheme, 'e) world
     \<Rightarrow> unit res \<times> ('x fence_db_scheme, 'e) world" where
  "Renew a lease w = (case lease of
       None \<Rightarrow> (Inl ErrFenceLeaseNotHeld, w)
     | Some l \<Rightarrow> RenewFenceLease (fl_ID l) (fl_Holder l) (fl_FenceToken l) (w_now w + fa_ttl a) w)"

definition Release ::
  "FencingAuthority \<Rightarrow> FenceLease option \<Rightarrow> ('x fence_db_scheme, 'e) world
     \<Rightarrow> unit res \<times> ('x fence_db_scheme, 'e) world" where
  "Release a lease w = (case lease of
       None \<Rightarrow> (Inl ErrFenceLeaseNotHeld, w)
     | Some l \<Rightarrow> ReleaseFenceLease (fl_ID l) (fl_Holder l) (fl_FenceToken l) w)"

definition SetState ::
  "FencingAuthority \<Rightarrow> FenceLease option \<Rightarrow> string \<Rightarrow> ('x fence_db_scheme, 'e) world
     \<Rightarrow> unit res \<times> ('x fence_db_scheme, 'e) world" where
  "SetState a lease state w = (case lease of
       None \<Rightarrow> (Inl ErrFenceLeaseNotHeld, w)
     | Some l \<Rightarrow> UpdateFenceLeaseState (fl_ID l) state w)"

definition AssertHolds ::
  "FencingAuthority \<Rightarrow> int \<Rightarrow> string \<Rightarrow> int \<Rightarrow> string \<Rightarrow> ('x fence_db_scheme, 'e) world
     \<Rightarrow> FenceLease res \<times> ('x fence_db_scheme, 'e) world" where
  "AssertHolds a mid holder token expectedState w =
     (case GetFenceLease mid w of
        (Inl err, w1) \<Rightarrow> (Inl err, w1)
      | (Inr None, w1) \<Rightarrow> (Inl ErrFenceLeaseNotHeld, w1)
      | (Inr (Some l), w1) \<Rightarrow>
          if fl_ReleasedAt l \<noteq> None then (Inl ErrFenceLeaseNotHeld, w1)
          else if fl_Holder l \<noteq> holder \<or> fl_FenceToken l \<noteq> token
          then (Inl ErrFenceLeaseConflict, w1)
          else (case parseTime (fl_ExpiresAt l) of
                  Inl _ \<Rightarrow> (Inl ErrFenceLeaseStale, w1)
                | Inr expires \<Rightarrow>
                    if \<not> w_now w1 < expires then (Inl ErrFenceLeaseStale, w1)
                    else if expectedState \<noteq> '''' \<and> fl_State l \<noteq> expectedState
                    then (Inl (ErrWrap '''' ErrFenceLeaseNotHeld
                            ('': state='' @ quoted (fl_State l) @ '' want='' @ quoted expectedState)), w1)
                    else (Inr l, w1)))"

text \<open>\<open>Load\<close> may return a lease together with an error: the pair is both results.\<close>

definition fence_Load ::
  "FencingAuthority \<Rightarrow> int \<Rightarrow> ('x fence_db_scheme, 'e) world
     \<Rightarrow> (FenceLease option \<times> goerr option) \<times> ('x fence_db_scheme, 'e) world" where
  "fence_Load a mid w =
     (case GetFenceLease mid w of
        (Inl err, w1) \<Rightarrow> ((None, Some err), w1)
      | (Inr None, w1) \<Rightarrow> ((None, None), w1)
      | (Inr (Some l), w1) \<Rightarrow>
          if fl_ReleasedAt l \<noteq> None then ((Some l, None), w1)
          else (case parseTime (fl_ExpiresAt l) of
                  Inl _ \<Rightarrow> ((Some l, Some ErrFenceLeaseStale), w1)
                | Inr expires \<Rightarrow>
                    if \<not> w_now w1 < expires then ((Some l, Some ErrFenceLeaseStale), w1)
                    else ((Some l, None), w1)))"

subsection \<open>The table as a map from migrations to leases\<close>

definition fence_wf :: "'x fence_db_scheme \<Rightarrow> bool" where
  "fence_wf d \<longleftrightarrow> distinct (map fl_MigrationID (fence_rows d)) \<and> distinct (map fl_ID (fence_rows d))
     \<and> (\<forall>r \<in> set (fence_rows d). fl_ID r \<le> fence_seq d)"

lemma greatest_id_mem: "greatest_id rs = Some r \<Longrightarrow> r \<in> set rs"
  by (induction rs arbitrary: r) (auto split: option.splits if_splits)

lemma greatest_id_None [simp]: "greatest_id rs = None \<longleftrightarrow> rs = []"
  by (cases rs) (auto split: option.splits)

lemma filter_key_unique:
  assumes "distinct (map f rs)" and "r \<in> set rs"
  shows "filter (\<lambda>x. f x = f r) rs = [r]"
  using assms
proof (induction rs)
  case (Cons x xs)
  then show ?case by (cases "r = x") (auto simp: filter_empty_conv image_iff)
qed simp

lemma lease_of_Some_iff:
  assumes "fence_wf d"
  shows "lease_of d mid = Some l \<longleftrightarrow> l \<in> set (fence_rows d) \<and> fl_MigrationID l = mid"
proof
  show "lease_of d mid = Some l \<Longrightarrow> l \<in> set (fence_rows d) \<and> fl_MigrationID l = mid"
    by (auto simp: lease_of_def dest: greatest_id_mem)
  assume l: "l \<in> set (fence_rows d) \<and> fl_MigrationID l = mid"
  then have "filter (\<lambda>r. fl_MigrationID r = mid) (fence_rows d) = [l]"
    using assms filter_key_unique [of fl_MigrationID "fence_rows d" l] by (auto simp: fence_wf_def)
  then show "lease_of d mid = Some l" by (simp add: lease_of_def)
qed

lemma lease_of_None_iff:
  "lease_of d mid = None \<longleftrightarrow> (\<forall>r \<in> set (fence_rows d). fl_MigrationID r \<noteq> mid)"
  by (auto simp: lease_of_def filter_empty_conv)

lemma lease_of_mid: "lease_of d mid = Some l \<Longrightarrow> fl_MigrationID l = mid"
  by (auto simp: lease_of_def dest: greatest_id_mem)

lemma lease_of_db [simp]:
  "lease_of (fence_seq_update f d) = lease_of d"
  by (simp add: lease_of_def fun_eq_iff)

text \<open>Updating rows in place, keeping their keys, is a pointwise update of the map.\<close>

lemma fence_wf_map:
  assumes "fence_wf d" and "\<And>r. fl_ID (f r) = fl_ID r" and "\<And>r. fl_MigrationID (f r) = fl_MigrationID r"
  shows "fence_wf (d\<lparr>fence_rows := map f (fence_rows d)\<rparr>)"
  using assms by (simp add: fence_wf_def comp_def)

lemma greatest_id_map:
  "(\<And>r. fl_ID (f r) = fl_ID r) \<Longrightarrow> greatest_id (map f rs) = map_option f (greatest_id rs)"
  by (induction rs) (auto split: option.splits)

lemma lease_of_map:
  assumes "\<And>r. fl_ID (f r) = fl_ID r" and "\<And>r. fl_MigrationID (f r) = fl_MigrationID r"
  shows "lease_of (d\<lparr>fence_rows := map f (fence_rows d)\<rparr>) mid = map_option f (lease_of d mid)"
  using assms by (simp add: lease_of_def filter_map comp_def greatest_id_map)

lemma lease_of_insert:
  assumes "fence_wf d" and "lease_of d (fl_MigrationID l) = None"
  defines "d' \<equiv> d\<lparr>fence_rows := fence_rows d @ [l\<lparr>fl_ID := fence_seq d + 1\<rparr>], fence_seq := fence_seq d + 1\<rparr>"
  shows "fence_wf d'"
    and "lease_of d' mid = (if mid = fl_MigrationID l then Some (l\<lparr>fl_ID := fence_seq d + 1\<rparr>) else lease_of d mid)"
proof -
  have fresh: "\<forall>r \<in> set (fence_rows d). fl_MigrationID r \<noteq> fl_MigrationID l"
    using assms(2) by (simp add: lease_of_None_iff)
  show wf: "fence_wf d'"
    using assms(1) fresh unfolding fence_wf_def d'_def by fastforce
  show "lease_of d' mid = (if mid = fl_MigrationID l then Some (l\<lparr>fl_ID := fence_seq d + 1\<rparr>) else lease_of d mid)"
  proof (cases "mid = fl_MigrationID l")
    case True
    then show ?thesis using lease_of_Some_iff [OF wf, of mid "l\<lparr>fl_ID := fence_seq d + 1\<rparr>"]
      by (simp add: d'_def)
  next
    case False
    then show ?thesis by (simp add: lease_of_def d'_def)
  qed
qed

subsection \<open>What one statement can do to the lease of one migration\<close>

text \<open>
  \<open>lease_change f\<close>: the statement keeps the table well formed, and either leaves it as it was or
  applies \<open>f\<close> to the lease of every migration. Statements that report an error may have run.
\<close>

definition lease_change ::
  "(int \<Rightarrow> FenceLease option \<Rightarrow> FenceLease option) \<Rightarrow> 'x fence_db_scheme \<Rightarrow> 'x fence_db_scheme \<Rightarrow> bool" where
  "lease_change f d d' \<longleftrightarrow> fence_wf d' \<and> (\<forall>m. lease_of d' m = f m (lease_of d m))"

lemma fence_wf_rows_map_if:
  "d\<lparr>fence_rows := map f (fence_rows d)\<rparr> = d' \<Longrightarrow> fence_wf d \<Longrightarrow>
     (\<And>r. fl_ID (f r) = fl_ID r) \<Longrightarrow> (\<And>r. fl_MigrationID (f r) = fl_MigrationID r) \<Longrightarrow>
     lease_change (\<lambda>m. map_option f) d d'"
  by (auto simp: lease_change_def fence_wf_map lease_of_map)

lemma lease_change_contra:
  "\<not> lease_change (\<lambda>m. map_option f) d d' \<Longrightarrow> d\<lparr>fence_rows := map f (fence_rows d)\<rparr> = d' \<Longrightarrow>
     fence_wf d \<Longrightarrow> (\<And>r. fl_ID (f r) = fl_ID r) \<Longrightarrow> (\<And>r. fl_MigrationID (f r) = fl_MigrationID r) \<Longrightarrow> P"
  using fence_wf_rows_map_if by blast

lemma UpdateFenceLeaseState_change:
  assumes "UpdateFenceLeaseState i st w = (r, w')" and "fence_wf (w_db w)"
  shows "w_db w' = w_db w \<or>
    lease_change (\<lambda>m. map_option (\<lambda>l. if fl_ID l = i then l\<lparr>fl_State := st\<rparr> else l)) (w_db w) (w_db w')"
  using db_write_db [OF assms(1) [unfolded UpdateFenceLeaseState_def]] assms(2)
  by (auto elim: lease_change_contra)

lemma RenewFenceLease_change:
  assumes "RenewFenceLease i h t e w = (r, w')" and "fence_wf (w_db w)"
  shows "w_db w' = w_db w \<or>
    lease_change (\<lambda>m. map_option (\<lambda>l. if matches_lease i h t l
       then l\<lparr>fl_ExpiresAt := formatTime e, fl_RenewedAt := Some (formatTime (w_now w))\<rparr> else l))
      (w_db w) (w_db w')"
  using db_write_db [OF assms(1) [unfolded RenewFenceLease_def]] assms(2)
  by (auto elim: lease_change_contra split: if_splits)

lemma ReleaseFenceLease_change:
  assumes "ReleaseFenceLease i h t w = (r, w')" and "fence_wf (w_db w)"
  shows "w_db w' = w_db w \<or>
    lease_change (\<lambda>m. map_option (\<lambda>l. if matches_lease i h t l
       then l\<lparr>fl_ReleasedAt := Some (formatTime (w_now w))\<rparr> else l)) (w_db w) (w_db w')"
  using db_write_db [OF assms(1) [unfolded ReleaseFenceLease_def]] assms(2)
  by (auto elim: lease_change_contra split: if_splits)

lemma reactivateFenceLease_change:
  assumes "reactivateFenceLease mid h t st acq ex w = (r, w')" and "fence_wf (w_db w)"
  shows "w_db w' = w_db w \<or>
    lease_change (\<lambda>m. map_option (\<lambda>l. if fl_MigrationID l = mid
       then l\<lparr>fl_Holder := h, fl_FenceToken := t, fl_State := st, fl_AcquiredAt := acq,
              fl_ExpiresAt := ex, fl_RenewedAt := None, fl_ReleasedAt := None\<rparr> else l))
      (w_db w) (w_db w')"
  using db_write_db [OF assms(1) [unfolded reactivateFenceLease_def]] assms(2)
  by (auto elim: lease_change_contra split: if_splits)

lemma CreateFenceLease_change:
  assumes "CreateFenceLease l w = (r, w')" and wf: "fence_wf (w_db w)"
  shows "w_db w' = w_db w \<or> (lease_of (w_db w) (fl_MigrationID l) = None \<and>
    lease_change (\<lambda>m x. if m = fl_MigrationID l then Some (l\<lparr>fl_ID := fence_seq (w_db w) + 1\<rparr>) else x)
      (w_db w) (w_db w'))"
proof (cases "lease_of (w_db w) (fl_MigrationID l) = None")
  case True
  let ?d = "w_db w\<lparr>fence_rows := fence_rows (w_db w) @ [l\<lparr>fl_ID := fence_seq (w_db w) + 1\<rparr>],
    fence_seq := fence_seq (w_db w) + 1\<rparr>"
  from True have "w_db w' = w_db w \<or> w_db w' = ?d"
    using db_write_db [OF assms(1) [unfolded CreateFenceLease_def]] by (auto split: if_splits)
  moreover have "lease_change (\<lambda>m x. if m = fl_MigrationID l
      then Some (l\<lparr>fl_ID := fence_seq (w_db w) + 1\<rparr>) else x) (w_db w) ?d"
    using lease_of_insert [OF wf True] unfolding lease_change_def by blast
  ultimately show ?thesis using True by auto
next
  case False
  then show ?thesis
    using db_write_db [OF assms(1) [unfolded CreateFenceLease_def]]
    by (auto simp: lease_of_None_iff split: if_splits)
qed

lemma GetFenceLease_frame:
  assumes "GetFenceLease mid w = (r, w')"
  shows "w_db w' = w_db w" "w_log w' = w_log w" "w_env w' = w_env w" "w_clock w' = w_clock w"
    "w_tick w' = Suc (w_tick w)" "\<And>x. r = Inr x \<Longrightarrow> x = lease_of (w_db w) mid"
  using assms db_read_frame [of _ w r w'] unfolding GetFenceLease_def
  by (auto dest: db_read_ok)

subsection \<open>\<open>AssertHolds\<close>\<close>

definition live_lease ::
  "'x fence_db_scheme \<Rightarrow> int \<Rightarrow> int \<Rightarrow> string \<Rightarrow> int \<Rightarrow> string \<Rightarrow> FenceLease \<Rightarrow> bool" where
  "live_lease d now mid h tok st l \<longleftrightarrow>
     lease_of d mid = Some l \<and> fl_ReleasedAt l = None \<and> fl_Holder l = h \<and> fl_FenceToken l = tok
     \<and> (case fl_ExpiresAt l of Stamp e \<Rightarrow> now < e * second | BadStamp \<Rightarrow> False)
     \<and> (st = '''' \<or> fl_State l = st)"

lemma AssertHolds_frame:
  assumes "AssertHolds a mid h tok st w = (r, w')"
  shows "w' = tick w"
  using assms
  by (auto simp: AssertHolds_def GetFenceLease_def db_read_def
      split: prod.splits sum.splits option.splits fault.splits if_splits)

text \<open>\<open>AssertHolds\<close> succeeds exactly when its one statement does not fail and the stored lease
  of the migration is unreleased, unexpired, held by the caller under the caller's token, and (when
  a state is expected) in that state; it changes nothing.\<close>

theorem assert_holds_iff:
  "AssertHolds a mid h tok st w = (Inr l, w') \<longleftrightarrow>
     w_env w (w_tick w) = NoFault \<and> w' = tick w
     \<and> live_lease (w_db w) (w_clock w (Suc (w_tick w))) mid h tok st l"
  by (auto simp: AssertHolds_def GetFenceLease_def db_read_def live_lease_def parseTime_def w_now_def
      split: prod.splits sum.splits option.splits fault.splits if_splits stamp.splits)

lemma AssertHolds_ok:
  "AssertHolds a mid h tok st w = (Inr l, w') \<Longrightarrow>
     live_lease (w_db w) (w_clock w (Suc (w_tick w))) mid h tok st l"
  by (auto simp: AssertHolds_def GetFenceLease_def db_read_def live_lease_def parseTime_def w_now_def
      split: prod.splits sum.splits option.splits fault.splits if_splits stamp.splits)

lemma assert_holds_eq:
  "w_env w (w_tick w) = NoFault \<Longrightarrow> live_lease (w_db w) (w_clock w (Suc (w_tick w))) mid h tok st l \<Longrightarrow>
     AssertHolds a mid h tok st w = (Inr l, tick w)"
  by (auto simp: AssertHolds_def GetFenceLease_def db_read_def live_lease_def parseTime_def w_now_def
      split: stamp.splits)

text \<open>A lease that expired without release; nothing but a renewal makes it usable again.\<close>

definition stale_lease :: "int \<Rightarrow> FenceLease \<Rightarrow> bool" where
  "stale_lease now l \<longleftrightarrow> fl_ReleasedAt l = None
     \<and> (case fl_ExpiresAt l of Stamp e \<Rightarrow> e * second \<le> now | BadStamp \<Rightarrow> True)"

lemma stale_not_live: "stale_lease now l \<Longrightarrow> lease_of d mid = Some l \<Longrightarrow> \<not> live_lease d now mid h tok st x"
  by (auto simp: live_lease_def stale_lease_def split: stamp.splits)

lemma stale_lease_mono: "stale_lease now l \<Longrightarrow> now \<le> now' \<Longrightarrow> stale_lease now' l"
  by (auto simp: stale_lease_def split: stamp.splits)

subsection \<open>\<open>Acquire\<close>\<close>

lemma lease_change_one:
  assumes "lease_change (\<lambda>m. map_option (\<lambda>l. if fl_MigrationID l = m0 then f l else l)) d d'"
    and "lease_of d m0 = Some l0"
  shows "lease_change (\<lambda>m x. if m = m0 then Some (f l0) else x) d d'"
  unfolding lease_change_def
proof (intro conjI allI)
  show "fence_wf d'" using assms(1) by (simp add: lease_change_def)
  show "lease_of d' m = (if m = m0 then Some (f l0) else lease_of d m)" for m
    using assms lease_of_mid [of d] by (cases "lease_of d m") (auto simp: lease_change_def)
qed

lemma acquire_fresh_cases:
  assumes "acquire_fresh a mid h st ex now w = (r, w')" and "fence_wf (w_db w)"
    and "lease_of (w_db w) mid = ex"
  shows "w_db w' = w_db w \<or> (\<exists>l. fl_MigrationID l = mid \<and> fl_Holder l = h \<and> fl_ReleasedAt l = None
      \<and> (case ex of None \<Rightarrow> 1 \<le> fl_FenceToken l | Some l0 \<Rightarrow> fl_FenceToken l0 < fl_FenceToken l)
      \<and> lease_change (\<lambda>m x. if m = mid then Some l else x) (w_db w) (w_db w'))"
proof (cases ex)
  case None
  let ?l = "\<lparr>fl_ID = 0, fl_MigrationID = mid, fl_Holder = h, fl_FenceToken = 1, fl_State = st,
    fl_AcquiredAt = formatTime now, fl_ExpiresAt = formatTime (now + fa_ttl a),
    fl_RenewedAt = None, fl_ReleasedAt = None\<rparr>"
  obtain r' where "CreateFenceLease ?l w = (r', w')"
    using assms(1) None by (auto simp: acquire_fresh_def Let_def split: prod.splits sum.splits)
  from CreateFenceLease_change [OF this assms(2)] show ?thesis
    using None by (fastforce intro: exI [of _ "?l\<lparr>fl_ID := fence_seq (w_db w) + 1\<rparr>"])
next
  case (Some l0)
  let ?t = "if 1 \<le> fl_FenceToken l0 then fl_FenceToken l0 + 1 else 1"
  let ?l = "l0\<lparr>fl_Holder := h, fl_FenceToken := ?t, fl_State := st, fl_AcquiredAt := formatTime now,
    fl_ExpiresAt := formatTime (now + fa_ttl a), fl_RenewedAt := None, fl_ReleasedAt := None\<rparr>"
  obtain r' where "reactivateFenceLease mid h ?t st (formatTime now) (formatTime (now + fa_ttl a)) w = (r', w')"
    using assms(1) Some by (auto simp: acquire_fresh_def Let_def split: prod.splits sum.splits)
  from reactivateFenceLease_change [OF this assms(2)]
  have "w_db w' = w_db w \<or> lease_change (\<lambda>m x. if m = mid then Some ?l else x) (w_db w) (w_db w')"
    using assms(3) Some by (fastforce dest: lease_change_one)
  moreover have "fl_MigrationID ?l = mid" using assms(3) Some lease_of_mid by simp
  ultimately show ?thesis using Some by fastforce
qed

lemma Acquire_cases:
  assumes "Acquire a mid h st w = (r, w')" and "fence_wf (w_db w)"
  shows "w_db w' = w_db w \<or> (\<exists>l. fl_MigrationID l = mid \<and> fl_Holder l = h \<and> fl_ReleasedAt l = None
      \<and> (case lease_of (w_db w) mid of None \<Rightarrow> 1 \<le> fl_FenceToken l
         | Some l0 \<Rightarrow> fl_ReleasedAt l0 \<noteq> None \<and> fl_FenceToken l0 < fl_FenceToken l)
      \<and> lease_change (\<lambda>m x. if m = mid then Some l else x) (w_db w) (w_db w'))"
proof -
  obtain g w1 where g: "GetFenceLease mid w = (g, w1)" by (cases "GetFenceLease mid w")
  note frame = GetFenceLease_frame [OF g]
  have fresh: ?thesis if "acquire_fresh a mid h st ex (w_now w1) w1 = (r, w')"
    and "ex = lease_of (w_db w) mid" and "\<And>l0. ex = Some l0 \<Longrightarrow> fl_ReleasedAt l0 \<noteq> None" for ex
    using acquire_fresh_cases [OF that(1)] that(2,3) assms(2) frame(1) by (auto split: option.splits)
  show ?thesis
  proof (cases g)
    case (Inl e)
    then show ?thesis using assms(1) g frame(1) by (simp add: Acquire_def)
  next
    case (Inr ex)
    then have ex: "ex = lease_of (w_db w) mid" by (rule frame(6))
    show ?thesis
    proof (cases ex)
      case None
      then show ?thesis using assms(1) g Inr None ex fresh by (simp add: Acquire_def Let_def)
    next
      case (Some l0)
      show ?thesis
      proof (cases "fl_ReleasedAt l0 = None")
        case True
        then have "w' = w1"
          using assms(1) g Inr Some by (simp add: Acquire_def Let_def split: sum.splits if_splits)
        with frame(1) show ?thesis by simp
      next
        case False
        then show ?thesis using assms(1) g Inr Some ex fresh by (auto simp: Acquire_def Let_def)
      qed
    qed
  qed
qed

text \<open>What a successful \<open>Acquire\<close> returns is the stored lease.\<close>

lemma CreateFenceLease_ok:
  assumes "CreateFenceLease l w = (Inr i, w')" and "fence_wf (w_db w)"
  shows "lease_of (w_db w') (fl_MigrationID l) = Some (l\<lparr>fl_ID := i\<rparr>)"
proof -
  from db_write_ok [OF assms(1) [unfolded CreateFenceLease_def]]
  have "lease_of (w_db w) (fl_MigrationID l) = None" "i = fence_seq (w_db w) + 1"
    "w_db w' = w_db w\<lparr>fence_rows := fence_rows (w_db w) @ [l\<lparr>fl_ID := i\<rparr>], fence_seq := i\<rparr>"
    by (auto simp: lease_of_None_iff split: if_splits)
  then show ?thesis using lease_of_insert(2) [OF assms(2)] by simp
qed

lemma reactivateFenceLease_ok:
  assumes "reactivateFenceLease mid h t st acq ex w = (Inr u, w')" and "lease_of (w_db w) mid = Some l0"
  shows "lease_of (w_db w') mid = Some (l0\<lparr>fl_Holder := h, fl_FenceToken := t, fl_State := st,
    fl_AcquiredAt := acq, fl_ExpiresAt := ex, fl_RenewedAt := None, fl_ReleasedAt := None\<rparr>)"
proof -
  let ?f = "\<lambda>r. if fl_MigrationID r = mid then r\<lparr>fl_Holder := h, fl_FenceToken := t, fl_State := st,
    fl_AcquiredAt := acq, fl_ExpiresAt := ex, fl_RenewedAt := None, fl_ReleasedAt := None\<rparr> else r"
  have "w_db w' = w_db w\<lparr>fence_rows := map ?f (fence_rows (w_db w))\<rparr>"
    using db_write_ok [OF assms(1) [unfolded reactivateFenceLease_def]] by (simp split: if_splits)
  then have "lease_of (w_db w') mid = map_option ?f (lease_of (w_db w) mid)"
    by (simp add: lease_of_map)
  then show ?thesis using assms(2) lease_of_mid [OF assms(2)] by simp
qed

lemma Acquire_ok:
  assumes "Acquire a mid h st w = (Inr l, w')" and wf: "fence_wf (w_db w)"
  shows "lease_of (w_db w') mid = Some l \<and> fl_Holder l = h \<and> fl_ReleasedAt l = None"
proof -
  obtain g w1 where g: "GetFenceLease mid w = (g, w1)" by (cases "GetFenceLease mid w")
  note frame = GetFenceLease_frame [OF g]
  from assms(1) g have gok: "g = Inr (lease_of (w_db w) mid)"
    using frame(6) by (auto simp: Acquire_def split: sum.splits)
  have wf1: "fence_wf (w_db w1)" using wf frame(1) by simp
  show ?thesis
  proof (cases "lease_of (w_db w) mid")
    case None
    then show ?thesis
      using assms(1) g gok wf1
      by (auto simp: Acquire_def acquire_fresh_def Let_def split: prod.splits sum.splits
          dest!: CreateFenceLease_ok)
  next
    case (Some l0)
    show ?thesis
    proof (cases "fl_ReleasedAt l0 = None")
      case True
      then show ?thesis
        using assms(1) g gok Some frame(1)
        by (auto simp: Acquire_def Let_def split: sum.splits if_splits)
    next
      case False
      have "lease_of (w_db w1) mid = Some l0" using Some frame(1) by simp
      with False show ?thesis
        using assms(1) g gok Some lease_of_mid [OF Some]
        by (auto simp: Acquire_def acquire_fresh_def Let_def split: prod.splits sum.splits
            dest!: reactivateFenceLease_ok)
    qed
  qed
qed

subsection \<open>Holders operating on the authority\<close>

text \<open>
  One call of the authority by the holder \<open>h\<close>: with any arguments, with lease objects that name
  \<open>h\<close>, and with any outcome. \<open>ao_other\<close> is any tick that leaves the lease table alone.
\<close>

inductive auth_op ::
  "FencingAuthority \<Rightarrow> string \<Rightarrow> ('x fence_db_scheme, 'e) world \<Rightarrow> ('x fence_db_scheme, 'e) world \<Rightarrow> bool"
  for a where
  ao_acquire: "Acquire a mid h st w = (r, w') \<Longrightarrow> auth_op a h w w'"
| ao_renew: "Renew a (Some l) w = (r, w') \<Longrightarrow> fl_Holder l = h \<Longrightarrow> auth_op a h w w'"
| ao_release: "Release a (Some l) w = (r, w') \<Longrightarrow> fl_Holder l = h \<Longrightarrow> auth_op a h w w'"
| ao_set_state: "SetState a (Some l) st w = (r, w') \<Longrightarrow> fl_Holder l = h \<Longrightarrow> auth_op a h w w'"
| ao_assert: "AssertHolds a mid h tok st w = (r, w') \<Longrightarrow> auth_op a h w w'"
| ao_load: "fence_Load a mid w = (r, w') \<Longrightarrow> auth_op a h w w'"
| ao_other: "w' = tick w \<Longrightarrow> auth_op a h w w'"

lemma fence_Load_frame: "fence_Load a mid w = (r, w') \<Longrightarrow> w' = tick w"
  by (auto simp: fence_Load_def GetFenceLease_def db_read_def
      split: prod.splits sum.splits option.splits fault.splits if_splits)

lemma GetFenceLease_tick: "GetFenceLease mid w = (r, w') \<Longrightarrow> w' = tick w"
  by (auto simp: GetFenceLease_def db_read_def split: fault.splits)

lemma acquire_fresh_clock:
  "acquire_fresh a mid h st ex now w = (r, w') \<Longrightarrow>
     w_clock w' = w_clock w \<and> w_tick w' = Suc (w_tick w)"
  by (auto simp: acquire_fresh_def CreateFenceLease_def reactivateFenceLease_def Let_def
      split: option.splits prod.splits sum.splits dest!: db_write_frames)

lemma Acquire_clock:
  "Acquire a mid h st w = (r, w') \<Longrightarrow> w_clock w' = w_clock w \<and> Suc (w_tick w) \<le> w_tick w'"
  by (auto simp: Acquire_def Let_def
      split: option.splits prod.splits sum.splits if_splits
      dest!: GetFenceLease_tick acquire_fresh_clock)

lemma auth_op_clock:
  "auth_op a h w w' \<Longrightarrow> w_clock w' = w_clock w \<and> w_tick w < w_tick w'"
  by (induction rule: auth_op.induct)
    (auto simp: Renew_def Release_def SetState_def RenewFenceLease_def ReleaseFenceLease_def
        UpdateFenceLeaseState_def dest!: Acquire_clock AssertHolds_frame fence_Load_frame db_write_frames)

lemma auth_op_wf:
  "auth_op a h w w' \<Longrightarrow> fence_wf (w_db w) \<Longrightarrow> fence_wf (w_db w')"
proof (induction rule: auth_op.induct)
  case (ao_acquire mid h st w r w')
  then show ?case using Acquire_cases [OF ao_acquire(1)] by (auto simp: lease_change_def)
next
  case (ao_renew l w r w' h)
  then show ?case using RenewFenceLease_change [of "fl_ID l" "fl_Holder l"]
    by (fastforce simp: Renew_def lease_change_def)
next
  case (ao_release l w r w' h)
  then show ?case using ReleaseFenceLease_change [of "fl_ID l" "fl_Holder l"]
    by (fastforce simp: Release_def lease_change_def)
next
  case (ao_set_state l st w r w' h)
  then show ?case using UpdateFenceLeaseState_change [of "fl_ID l" st]
    by (fastforce simp: SetState_def lease_change_def)
qed (auto dest: AssertHolds_frame fence_Load_frame)

text \<open>A call by a holder who is not the holder of a live lease can change its state text only.\<close>

lemma Acquire_foreign:
  assumes "Acquire a mid h st w = (r, w')" and "fence_wf (w_db w)" and "lease_of (w_db w) m = Some l"
    and "fl_ReleasedAt l = None"
  shows "lease_of (w_db w') m = Some l"
  using Acquire_cases [OF assms(1,2)] assms(3,4) by (auto simp: lease_change_def)

lemma auth_op_foreign:
  assumes "auth_op a h w w'" and "fence_wf (w_db w)" and "lease_of (w_db w) m = Some l"
    and "fl_ReleasedAt l = None" and "fl_Holder l \<noteq> h"
  shows "\<exists>st. lease_of (w_db w') m = Some (l\<lparr>fl_State := st\<rparr>)"
  using assms
proof (induction rule: auth_op.induct)
  case (ao_acquire mid h st w r w')
  then have "lease_of (w_db w') m = Some (l\<lparr>fl_State := fl_State l\<rparr>)"
    using Acquire_foreign [OF ao_acquire(1)] by simp
  then show ?case by blast
next
  case (ao_renew l' w r w' h)
  then have "lease_of (w_db w') m = Some (l\<lparr>fl_State := fl_State l\<rparr>)"
    using RenewFenceLease_change [of "fl_ID l'" "fl_Holder l'"]
    by (fastforce simp: Renew_def lease_change_def matches_lease_def)
  then show ?case by blast
next
  case (ao_release l' w r w' h)
  then have "lease_of (w_db w') m = Some (l\<lparr>fl_State := fl_State l\<rparr>)"
    using ReleaseFenceLease_change [of "fl_ID l'" "fl_Holder l'"]
    by (fastforce simp: Release_def lease_change_def matches_lease_def)
  then show ?case by blast
next
  case (ao_set_state l' st w r w' h)
  from ao_set_state.prems have "lease_of (w_db w') m = Some (l\<lparr>fl_State := fl_State l\<rparr>)
      \<or> lease_of (w_db w') m = Some (l\<lparr>fl_State := st\<rparr>)"
    using UpdateFenceLeaseState_change [of "fl_ID l'" st w r w'] ao_set_state.hyps
    by (auto simp: SetState_def lease_change_def)
  then show ?case by blast
qed (auto dest!: AssertHolds_frame fence_Load_frame intro!: exI [of _ "fl_State l"])

text \<open>A stored token never decreases, and no call removes a lease.\<close>

lemma auth_op_token:
  assumes "auth_op a h w w'" and "fence_wf (w_db w)" and "lease_of (w_db w) m = Some l"
  shows "\<exists>l'. lease_of (w_db w') m = Some l' \<and> fl_FenceToken l \<le> fl_FenceToken l'"
  using assms
proof (induction rule: auth_op.induct)
  case (ao_acquire mid h st w r w')
  then show ?case using Acquire_cases [OF ao_acquire(1,2)]
    by (cases "m = mid") (auto simp: lease_change_def)
next
  case (ao_renew l' w r w' h)
  then show ?case using RenewFenceLease_change [of "fl_ID l'" "fl_Holder l'"]
    by (fastforce simp: Renew_def lease_change_def)
next
  case (ao_release l' w r w' h)
  then show ?case using ReleaseFenceLease_change [of "fl_ID l'" "fl_Holder l'"]
    by (fastforce simp: Release_def lease_change_def)
next
  case (ao_set_state l' st w r w' h)
  then show ?case using UpdateFenceLeaseState_change [of "fl_ID l'" st]
    by (fastforce simp: SetState_def lease_change_def)
qed (auto dest: AssertHolds_frame fence_Load_frame)

subsection \<open>The contract of a fencing authority\<close>

text \<open>
  The cutover relies on an authority through three laws only: a call keeps the store well formed, a
  call by one holder leaves the unreleased lease of another alone (up to its state text), and tokens
  never decrease. Their consequences for whole runs are proved once, for any such authority.
\<close>

locale exclusive_lease =
  fixes oper :: "string \<Rightarrow> 'w \<Rightarrow> 'w \<Rightarrow> bool"
    and lease :: "'w \<Rightarrow> int \<Rightarrow> FenceLease option"
    and good :: "'w \<Rightarrow> bool"
  assumes good_oper: "oper h w w' \<Longrightarrow> good w \<Longrightarrow> good w'"
    and foreign_oper: "oper h w w' \<Longrightarrow> good w \<Longrightarrow> lease w m = Some l \<Longrightarrow> fl_ReleasedAt l = None \<Longrightarrow>
      fl_Holder l \<noteq> h \<Longrightarrow> \<exists>st. lease w' m = Some (l\<lparr>fl_State := st\<rparr>)"
begin

lemma good_run: "(\<lambda>u v. \<exists>h \<in> H. oper h u v)\<^sup>*\<^sup>* w w' \<Longrightarrow> good w \<Longrightarrow> good w'"
  by (induction rule: rtranclp_induct) (auto intro: good_oper)

lemma foreign_run:
  assumes "(\<lambda>u v. \<exists>h \<in> H. oper h u v)\<^sup>*\<^sup>* w w'" and "good w" and "lease w m = Some l"
    and "fl_ReleasedAt l = None" and "fl_Holder l \<notin> H"
  shows "\<exists>st. lease w' m = Some (l\<lparr>fl_State := st\<rparr>)"
  using assms(1)
proof (induction rule: rtranclp_induct)
  case base
  show ?case using assms(3) by (intro exI [of _ "fl_State l"]) simp
next
  case (step u v)
  then obtain st h where u: "lease u m = Some (l\<lparr>fl_State := st\<rparr>)" and h: "h \<in> H" "oper h u v"
    by blast
  have "good u" using step.hyps(1) assms(2) by (rule good_run)
  from foreign_oper [OF h(2) this u] show ?case using assms(4,5) h(1) by force
qed

end

locale monotone_lease = exclusive_lease +
  assumes token_oper: "oper h w w' \<Longrightarrow> good w \<Longrightarrow> lease w m = Some l \<Longrightarrow>
    \<exists>l'. lease w' m = Some l' \<and> fl_FenceToken l \<le> fl_FenceToken l'"
begin

lemma token_run:
  assumes "(\<lambda>u v. \<exists>h \<in> H. oper h u v)\<^sup>*\<^sup>* w w'" and "good w" and "lease w m = Some l"
  shows "\<exists>l'. lease w' m = Some l' \<and> fl_FenceToken l \<le> fl_FenceToken l'"
  using assms(1)
proof (induction rule: rtranclp_induct)
  case base
  show ?case using assms(3) by simp
next
  case (step u v)
  have "good u" using step.hyps(1) assms(2) by (rule good_run)
  with step obtain l1 where l1: "lease u m = Some l1" "fl_FenceToken l \<le> fl_FenceToken l1" by blast
  from step.hyps(2) obtain h where "oper h u v" by blast
  from token_oper [OF this \<open>good u\<close> l1(1)] l1(2) show ?case by force
qed

end

interpretation fence: monotone_lease "auth_op a" "\<lambda>w. lease_of (w_db w)" "\<lambda>w. fence_wf (w_db w)" for a
  by unfold_locales (blast intro: auth_op_wf auth_op_foreign auth_op_token)+

subsection \<open>Properties of the authority\<close>

text \<open>A concrete environment for the witnesses: no faults, one second per tick.\<close>

definition demo_lease :: "string \<Rightarrow> int \<Rightarrow> stamp \<Rightarrow> stamp option \<Rightarrow> FenceLease" where
  "demo_lease h tok e rel = \<lparr>fl_ID = 1, fl_MigrationID = 7, fl_Holder = h, fl_FenceToken = tok,
     fl_State = ''Preflight'', fl_AcquiredAt = Stamp 0, fl_ExpiresAt = e, fl_RenewedAt = None,
     fl_ReleasedAt = rel\<rparr>"

definition demo_db :: "FenceLease \<Rightarrow> fence_db" where
  "demo_db l = \<lparr>fence_rows = [l], fence_seq = 1\<rparr>"

lemma demo_wf [simp]: "fence_wf (demo_db (demo_lease h tok e rel))"
  by (simp add: fence_wf_def demo_db_def demo_lease_def)

lemma demo_lookup [simp]: "lease_of (demo_db (demo_lease h tok e rel)) 7 = Some (demo_lease h tok e rel)"
  by (simp add: lease_of_def demo_db_def demo_lease_def)

text \<open>\<open>C8\<close>: no sequence of calls by other holders, successful or not and under any pattern of
  database failures, takes an unreleased lease from its holder or changes its token or expiry.\<close>

theorem foreign_calls_keep_lease:
  fixes w w' :: "('x fence_db_scheme, 'e) world"
  assumes "(\<lambda>u v. \<exists>h \<in> H. auth_op a h u v)\<^sup>*\<^sup>* w w'" and "fence_wf (w_db w)"
    and "lease_of (w_db w) mid = Some l" and "fl_ReleasedAt l = None" and "fl_Holder l \<notin> H"
  shows "\<exists>st. lease_of (w_db w') mid = Some (l\<lparr>fl_State := st\<rparr>)"
  using assms by (rule fence.foreign_run)

theorem foreign_calls_keep_lease_witness:
  "\<exists>st. lease_of (w_db (snd (Acquire NewFencingAuthority 7 ''b'' ''Seed''
       (calm_world (demo_db (demo_lease ''a'' 3 (Stamp 300) None)) :: (fence_db, unit) world)))) 7
     = Some ((demo_lease ''a'' 3 (Stamp 300) None)\<lparr>fl_State := st\<rparr>)"
proof (rule foreign_calls_keep_lease [where H = "{''b''}" and a = NewFencingAuthority])
  let ?w = "calm_world (demo_db (demo_lease ''a'' 3 (Stamp 300) None)) :: (fence_db, unit) world"
  show "(\<lambda>u v. \<exists>h \<in> {''b''}. auth_op NewFencingAuthority h u v)\<^sup>*\<^sup>* ?w
      (snd (Acquire NewFencingAuthority 7 ''b'' ''Seed'' ?w))"
    by (rule r_into_rtranclp) (auto intro: ao_acquire prod.collapse [symmetric])
qed (simp_all add: calm_world_def, simp_all add: demo_lease_def)

text \<open>Whatever calls came in between, a lease acquired after a release carries a strictly
  higher fence token than any earlier lease of the migration.\<close>

theorem reacquire_token_increases:
  fixes w w' w'' :: "('x fence_db_scheme, 'e) world"
  assumes "(\<lambda>u v. \<exists>h \<in> UNIV. auth_op a h u v)\<^sup>*\<^sup>* w w'" and "fence_wf (w_db w)"
    and "lease_of (w_db w) mid = Some l"
    and "lease_of (w_db w') mid = Some l1" and "fl_ReleasedAt l1 \<noteq> None"
    and "Acquire a mid h st w' = (Inr l2, w'')"
  shows "fl_FenceToken l < fl_FenceToken l2"
proof -
  have wf: "fence_wf (w_db w')" using fence.good_run [OF assms(1)] assms(2) by simp
  have "fl_FenceToken l \<le> fl_FenceToken l1"
    using fence.token_run [OF assms(1-3)] assms(4) by simp
  moreover have "lease_of (w_db w'') mid = Some l2" "fl_ReleasedAt l2 = None"
    using Acquire_ok [OF assms(6) wf] by simp_all
  ultimately show ?thesis
    using Acquire_cases [OF assms(6) wf] assms(4,5) by (auto simp: lease_change_def)
qed

theorem reacquire_token_increases_witness:
  "3 < fl_FenceToken (projr (fst (Acquire NewFencingAuthority 7 ''b'' ''Preflight''
     (calm_world (demo_db (demo_lease ''a'' 3 (Stamp 300) (Some (Stamp 9)))) :: (fence_db, unit) world))))"
proof -
  let ?l = "demo_lease ''a'' 3 (Stamp 300) (Some (Stamp 9))"
  let ?w = "calm_world (demo_db ?l) :: (fence_db, unit) world"
  obtain l2 w'' where ok: "Acquire NewFencingAuthority 7 ''b'' ''Preflight'' ?w = (Inr l2, w'')"
    by (simp add: Acquire_def GetFenceLease_def db_read_def calm_world_def acquire_fresh_def
        reactivateFenceLease_def db_write_def demo_db_def demo_lease_def Let_def lease_of_def)
  have "fl_FenceToken ?l < fl_FenceToken l2"
    by (rule reacquire_token_increases [OF rtranclp.rtrancl_refl _ _ _ _ ok])
      (simp_all add: calm_world_def, simp add: demo_lease_def)
  then show ?thesis using ok by (simp add: demo_lease_def)
qed

lemma Acquire_stale:
  assumes "lease_of (w_db w) mid = Some l" and "stale_lease (w_clock w (Suc (w_tick w))) l"
  shows "\<exists>e. fst (Acquire a mid h st w) = Inl e"
  using assms
  by (cases "w_env w (w_tick w)")
    (auto simp: Acquire_def GetFenceLease_def db_read_def stale_lease_def parseTime_def w_now_def Let_def
      split: stamp.splits)

lemma AssertHolds_stale:
  assumes "lease_of (w_db w) mid = Some l" and "stale_lease (w_clock w (Suc (w_tick w))) l"
  shows "\<exists>e. fst (AssertHolds a mid h tok st w) = Inl e"
proof (cases "AssertHolds a mid h tok st w")
  case (Pair r w')
  then show ?thesis
    using AssertHolds_ok [of a mid h tok st w _ w'] stale_not_live [OF assms(2,1)]
    by (cases r) auto
qed

text \<open>An expired, unreleased lease fails closed for everyone: after any calls by holders other
  than its own, neither \<open>Acquire\<close> nor \<open>AssertHolds\<close> succeeds for any caller, its own holder included.\<close>

theorem stale_lease_fails_closed:
  fixes w w' :: "('x fence_db_scheme, 'e) world"
  assumes "(\<lambda>u v. \<exists>h \<in> H. auth_op a h u v)\<^sup>*\<^sup>* w w'" and "fence_wf (w_db w)"
    and "lease_of (w_db w) mid = Some l" and "fl_Holder l \<notin> H" and "stale_lease now l"
    and "now \<le> w_clock w' (Suc (w_tick w'))"
  shows "(\<exists>e. fst (Acquire a mid h st w') = Inl e) \<and> (\<exists>e. fst (AssertHolds a mid h tok st' w') = Inl e)"
proof -
  have "fl_ReleasedAt l = None" using assms(5) by (simp add: stale_lease_def)
  with fence.foreign_run [OF assms(1-3)] assms(4)
  obtain s where l': "lease_of (w_db w') mid = Some (l\<lparr>fl_State := s\<rparr>)" by blast
  have "stale_lease (w_clock w' (Suc (w_tick w'))) (l\<lparr>fl_State := s\<rparr>)"
    using stale_lease_mono [OF assms(5,6)] by (simp add: stale_lease_def)
  with l' show ?thesis using Acquire_stale AssertHolds_stale by blast
qed

theorem stale_lease_fails_closed_witness:
  fixes w :: "(fence_db, unit) world"
  defines "w \<equiv> calm_world (demo_db (demo_lease ''a'' 3 (Stamp 0) None))"
  shows "(\<exists>e. fst (Acquire NewFencingAuthority 7 ''a'' ''Seed'' w) = Inl e)
    \<and> (\<exists>e. fst (AssertHolds NewFencingAuthority 7 ''a'' 3 ''Preflight'' w) = Inl e)"
  by (rule stale_lease_fails_closed [where H = "{}" and w = w and l = "demo_lease ''a'' 3 (Stamp 0) None" and now = 0])
    (simp_all add: w_def calm_world_def, simp_all add: demo_lease_def stale_lease_def second_def)

text \<open>\<open>Renew\<close> does not look at the expiry: renewing an expired lease that was not released
  succeeds, and \<open>AssertHolds\<close> accepts it again, for any ttl of at least two seconds and a clock
  that has moved on by less than the ttl minus one second.\<close>

theorem renew_revives_expired_lease:
  fixes w :: "('x fence_db_scheme, 'e) world"
  assumes "fault_free w" and "lease_of (w_db w) mid = Some l" and "stale_lease (w_now w) l"
    and "w_clock w (Suc (Suc (w_tick w))) \<le> w_now w + fa_ttl a - second"
  shows "\<exists>w1 l'. Renew a (Some l) w = (Inr (), w1) \<and>
    fst (AssertHolds a mid (fl_Holder l) (fl_FenceToken l) (fl_State l) w1) = Inr l'"
proof -
  let ?i = "fl_ID l" and ?h = "fl_Holder l" and ?t = "fl_FenceToken l"
  let ?e = "w_now w + fa_ttl a"
  let ?f = "\<lambda>r. if matches_lease ?i ?h ?t r
    then r\<lparr>fl_ExpiresAt := formatTime ?e, fl_RenewedAt := Some (formatTime (w_now w))\<rparr> else r"
  let ?d = "w_db w\<lparr>fence_rows := map ?f (fence_rows (w_db w))\<rparr>"
  have m: "matches_lease ?i ?h ?t l"
    using assms(3) by (simp add: matches_lease_def stale_lease_def)
  have "l \<in> set (fence_rows (w_db w))"
    using assms(2) by (auto simp: lease_of_def dest: greatest_id_mem)
  with m have renew: "Renew a (Some l) w = (Inr (), tick (w\<lparr>w_db := ?d\<rparr>))"
    using assms(1) by (auto simp: Renew_def RenewFenceLease_def fault_free_write)
  have "lease_of ?d mid = Some (?f l)"
    using assms(2) by (simp add: lease_of_map matches_lease_def)
  moreover have "w_clock w (Suc (Suc (w_tick w))) < ?e div second * second"
    using assms(4) by (simp add: second_def)
  ultimately have "live_lease ?d (w_clock w (Suc (Suc (w_tick w)))) mid ?h ?t (fl_State l) (?f l)"
    using m by (simp add: live_lease_def formatTime_def matches_lease_def)
  then have "AssertHolds a mid ?h ?t (fl_State l) (tick (w\<lparr>w_db := ?d\<rparr>))
      = (Inr (?f l), tick (tick (w\<lparr>w_db := ?d\<rparr>)))"
    using assms(1) by (subst assert_holds_eq) (simp_all add: fault_free_def)
  with renew show ?thesis by auto
qed

theorem renew_revives_expired_lease_witness:
  fixes w :: "(fence_db, unit) world"
  defines "w \<equiv> (calm_world (demo_db (demo_lease ''a'' 3 (Stamp 0) None)))"
  shows "\<exists>w1 l'. Renew NewFencingAuthority (Some (demo_lease ''a'' 3 (Stamp 0) None)) w = (Inr (), w1) \<and>
    fst (AssertHolds NewFencingAuthority 7 (fl_Holder (demo_lease ''a'' 3 (Stamp 0) None))
      (fl_FenceToken (demo_lease ''a'' 3 (Stamp 0) None)) (fl_State (demo_lease ''a'' 3 (Stamp 0) None)) w1) = Inr l'"
  by (rule renew_revives_expired_lease)
    (simp_all add: w_def calm_world_def fault_free_def NewFencingAuthority_def FenceTTL_def second_def w_now_def,
     simp add: stale_lease_def demo_lease_def)

text \<open>\<open>Acquire\<close> is a read followed by a write. When another holder's complete \<open>Acquire\<close> runs between
  the two, after a release, both calls succeed with the same token and the second write replaces the
  lease the first caller just obtained; the fence check of the replaced holder then fails.\<close>

theorem acquire_race_replaces_live_lease:
  fixes w1 :: "('x fence_db_scheme, 'e) world"
  assumes "fence_wf (w_db w1)" and "fault_free w2" and "h1 \<noteq> h2"
    and read1: "GetFenceLease mid w = (Inr (Some l0), w1)" and "fl_ReleasedAt l0 \<noteq> None"
    and acq2: "Acquire a mid h2 st2 w1 = (Inr l2, w2)"
  shows "\<exists>l1 w3. acquire_fresh a mid h1 st1 (Some l0) now w2 = (Inr l1, w3)
    \<and> lease_of (w_db w3) mid = Some l1 \<and> fl_Holder l1 = h1
    \<and> fl_FenceToken l1 = fl_FenceToken l2
    \<and> (\<exists>e. fst (AssertHolds a mid h2 (fl_FenceToken l2) st w3) = Inl e)"
proof -
  let ?t = "if 1 \<le> fl_FenceToken l0 then fl_FenceToken l0 + 1 else 1"
  have at1: "lease_of (w_db w1) mid = Some l0"
    using GetFenceLease_frame(1,6) [OF read1] by simp
  have tok2: "fl_FenceToken l2 = ?t"
    using acq2 at1 assms(5)
    by (auto simp: Acquire_def acquire_fresh_def Let_def GetFenceLease_def db_read_def
        split: fault.splits prod.splits sum.splits)
  have id2: "fl_ID l2 = fl_ID l0"
    using acq2 at1 assms(5)
    by (auto simp: Acquire_def acquire_fresh_def Let_def GetFenceLease_def db_read_def
        split: fault.splits prod.splits sum.splits)
  have at2: "lease_of (w_db w2) mid = Some l2" using Acquire_ok [OF acq2 assms(1)] by simp
  note mid2 = lease_of_mid [OF at2]
  have "\<exists>r \<in> set (fence_rows (w_db w2)). fl_MigrationID r = mid"
    using at2 by (auto simp: lease_of_def dest!: greatest_id_mem)
  then obtain w3 where re: "reactivateFenceLease mid h1 ?t st1 (formatTime now)
      (formatTime (now + fa_ttl a)) w2 = (Inr (), w3)"
    using assms(2) by (auto simp: reactivateFenceLease_def fault_free_write)
  from reactivateFenceLease_ok [OF re at2]
  have at3: "lease_of (w_db w3) mid = Some (l2\<lparr>fl_Holder := h1, fl_FenceToken := ?t, fl_State := st1,
      fl_AcquiredAt := formatTime now, fl_ExpiresAt := formatTime (now + fa_ttl a),
      fl_RenewedAt := None, fl_ReleasedAt := None\<rparr>)" (is "_ = Some ?l3") .
  have "\<nexists>x w4. AssertHolds a mid h2 (fl_FenceToken l2) st w3 = (Inr x, w4)"
    using at3 assms(3) by (auto dest!: AssertHolds_ok simp: live_lease_def)
  then have "\<exists>e. fst (AssertHolds a mid h2 (fl_FenceToken l2) st w3) = Inl e"
    by (metis prod.collapse sum.exhaust)
  moreover have "acquire_fresh a mid h1 st1 (Some l0) now w2 = (Inr ?l3, w3)"
    using re id2 mid2 by (simp add: acquire_fresh_def Let_def)
  ultimately show ?thesis using at3 tok2 by auto
qed

theorem acquire_race_replaces_live_lease_witness:
  fixes w :: "(fence_db, unit) world"
  defines "w \<equiv> calm_world (demo_db (demo_lease ''a'' 3 (Stamp 300) (Some (Stamp 9))))"
  shows "\<exists>l1 w3. acquire_fresh NewFencingAuthority 7 ''a'' ''Preflight''
      (Some (demo_lease ''a'' 3 (Stamp 300) (Some (Stamp 9)))) second
      (snd (Acquire NewFencingAuthority 7 ''b'' ''Preflight'' (tick w))) = (Inr l1, w3)
    \<and> lease_of (w_db w3) 7 = Some l1 \<and> fl_Holder l1 = ''a''
    \<and> fl_FenceToken l1 = fl_FenceToken (projr (fst (Acquire NewFencingAuthority 7 ''b'' ''Preflight'' (tick w))))
    \<and> (\<exists>e. fst (AssertHolds NewFencingAuthority 7 ''b''
        (fl_FenceToken (projr (fst (Acquire NewFencingAuthority 7 ''b'' ''Preflight'' (tick w))))) '''' w3) = Inl e)"
proof (rule acquire_race_replaces_live_lease [where ?w1.0 = "tick w" and w = w and ?st2.0 = "''Preflight''"])
  let ?l = "demo_lease ''a'' 3 (Stamp 300) (Some (Stamp 9))"
  show "GetFenceLease 7 w = (Inr (Some ?l), tick w)"
    by (simp add: w_def calm_world_def GetFenceLease_def db_read_def)
  show "fault_free (snd (Acquire NewFencingAuthority 7 ''b'' ''Preflight'' (tick w)))"
    using Acquire_clock [OF prod.collapse [symmetric], of NewFencingAuthority 7 "''b''" "''Preflight''" "tick w"]
    by (auto simp: fault_free_def w_def calm_world_def Acquire_def GetFenceLease_def db_read_def acquire_fresh_def
        reactivateFenceLease_def db_write_def Let_def split: sum.split option.split prod.split)
  show "Acquire NewFencingAuthority 7 ''b'' ''Preflight'' (tick w) =
      (Inr (projr (fst (Acquire NewFencingAuthority 7 ''b'' ''Preflight'' (tick w)))),
       snd (Acquire NewFencingAuthority 7 ''b'' ''Preflight'' (tick w)))"
    by (simp add: w_def Acquire_def GetFenceLease_def db_read_def calm_world_def acquire_fresh_def
        reactivateFenceLease_def db_write_def demo_db_def demo_lease_def Let_def lease_of_def)
qed (simp_all add: w_def calm_world_def, simp add: demo_lease_def)

end
