(* ===== verification/CutoverState.thy ===== *)
theory CutoverState
  imports Prelude
begin

section \<open>The sub-states of a fenced cutover (\<open>migration/cutover_substate.go\<close>)\<close>

text \<open>
  The twelve sub-states, the legal edges between them and the checkpoint that records which steps
  are done. The string type of the code is a datatype of its constants and the zero value.
\<close>

datatype CutoverSubState =
    SubNone
  | SubPreflight
  | SubSeed
  | SubReplicating
  | SubVerifying
  | SubAwaitingCutover
  | SubFencingSource
  | SubCatchingUp
  | SubVerifyingTarget
  | SubSwitching
  | SubPromoting
  | SubObserving
  | SubCompleted

primrec sub_str :: "CutoverSubState \<Rightarrow> string" where
  "sub_str SubNone = ''''"
| "sub_str SubPreflight = ''Preflight''"
| "sub_str SubSeed = ''Seed''"
| "sub_str SubReplicating = ''Replicating''"
| "sub_str SubVerifying = ''Verifying''"
| "sub_str SubAwaitingCutover = ''AwaitingCutover''"
| "sub_str SubFencingSource = ''FencingSource''"
| "sub_str SubCatchingUp = ''CatchingUp''"
| "sub_str SubVerifyingTarget = ''VerifyingTarget''"
| "sub_str SubSwitching = ''SwitchingTraffic''"
| "sub_str SubPromoting = ''PromotingTarget''"
| "sub_str SubObserving = ''Observing''"
| "sub_str SubCompleted = ''Completed''"

lemma sub_str_inject [simp]: "sub_str a = sub_str b \<longleftrightarrow> a = b"
  by (cases a; cases b) simp_all

lemma sub_str_empty [simp]: "sub_str a = '''' \<longleftrightarrow> a = SubNone"
  by (cases a) simp_all

text \<open>The sub-states can be listed, so equality of checkpoints is executable.\<close>

instantiation CutoverSubState :: enum
begin

definition enum_CutoverSubState :: "CutoverSubState list" where
  "enum_CutoverSubState = [SubNone, SubPreflight, SubSeed, SubReplicating, SubVerifying, SubAwaitingCutover, SubFencingSource, SubCatchingUp, SubVerifyingTarget, SubSwitching, SubPromoting, SubObserving, SubCompleted]"

definition enum_all_CutoverSubState :: "(CutoverSubState \<Rightarrow> bool) \<Rightarrow> bool" where
  "enum_all_CutoverSubState P = list_all P enum_class.enum"

definition enum_ex_CutoverSubState :: "(CutoverSubState \<Rightarrow> bool) \<Rightarrow> bool" where
  "enum_ex_CutoverSubState P = list_ex P enum_class.enum"

instance
proof
  show all: "(UNIV :: CutoverSubState set) = set enum_class.enum"
    unfolding enum_CutoverSubState_def by (auto, rename_tac s, case_tac s, simp_all)
  show "distinct (enum_class.enum :: CutoverSubState list)" by (simp add: enum_CutoverSubState_def)
  show "enum_class.enum_all P \<longleftrightarrow> Ball UNIV P" for P :: "CutoverSubState \<Rightarrow> bool"
    by (simp add: enum_all_CutoverSubState_def all list_all_iff)
  show "enum_class.enum_ex P \<longleftrightarrow> Bex UNIV P" for P :: "CutoverSubState \<Rightarrow> bool"
    by (simp add: enum_ex_CutoverSubState_def all list_ex_iff)
qed

end

text \<open>The table of legal edges: a row per source, with the destinations marked true. The zero value has
  no row.\<close>

primrec cutoverTransitions :: "CutoverSubState \<Rightarrow> CutoverSubState list option" where
  "cutoverTransitions SubNone = None"
| "cutoverTransitions SubPreflight = Some [SubSeed, SubPreflight]"
| "cutoverTransitions SubSeed = Some [SubReplicating, SubSeed]"
| "cutoverTransitions SubReplicating = Some [SubVerifying, SubReplicating]"
| "cutoverTransitions SubVerifying = Some [SubAwaitingCutover, SubVerifying]"
| "cutoverTransitions SubAwaitingCutover = Some [SubFencingSource, SubAwaitingCutover]"
| "cutoverTransitions SubFencingSource = Some [SubCatchingUp, SubFencingSource]"
| "cutoverTransitions SubCatchingUp = Some [SubVerifyingTarget, SubCatchingUp]"
| "cutoverTransitions SubVerifyingTarget = Some [SubSwitching, SubVerifyingTarget]"
| "cutoverTransitions SubSwitching = Some [SubPromoting, SubSwitching]"
| "cutoverTransitions SubPromoting = Some [SubObserving, SubPromoting]"
| "cutoverTransitions SubObserving = Some [SubCompleted, SubObserving]"
| "cutoverTransitions SubCompleted = Some []"

definition validCutoverTransition :: "CutoverSubState \<Rightarrow> CutoverSubState \<Rightarrow> bool" where
  "validCutoverTransition from to =
     (if from = to then True
      else case cutoverTransitions from of None \<Rightarrow> False | Some dests \<Rightarrow> List.member dests to)"

subsection \<open>The checkpoint\<close>

text \<open>A nil \<open>Steps\<close> map and an empty one read alike and are written alike (\<open>omitempty\<close>); both are the
  empty map.\<close>

record cutoverCheckpoint =
  ck_SubState :: CutoverSubState
  ck_Token :: int
  ck_Holder :: string
  ck_Steps :: "CutoverSubState \<rightharpoonup> string"

definition empty_checkpoint :: cutoverCheckpoint where
  "empty_checkpoint = \<lparr>ck_SubState = SubNone, ck_Token = 0, ck_Holder = '''', ck_Steps = Map.empty\<rparr>"

text \<open>Reading a key that is absent, or a nil map, gives the empty string.\<close>

definition step_result :: "cutoverCheckpoint \<Rightarrow> CutoverSubState \<Rightarrow> string" where
  "step_result cp s = (case ck_Steps cp s of None \<Rightarrow> '''' | Some v \<Rightarrow> v)"

definition StepDone :: "cutoverCheckpoint option \<Rightarrow> CutoverSubState \<Rightarrow> bool" where
  "StepDone c step = (case c of
       None \<Rightarrow> False
     | Some cp \<Rightarrow> step_result cp step \<noteq> '''')"

lemma StepDone_Some [simp]: "StepDone (Some cp) s \<longleftrightarrow> step_result cp s \<noteq> ''''"
  by (simp add: StepDone_def)

definition ErrCutoverIllegalTransition :: goerr where
  "ErrCutoverIllegalTransition = ErrNew ''illegal cutover sub-state transition''"

definition ErrCutoverReentryDone :: goerr where
  "ErrCutoverReentryDone = ErrNew ''cutover step already completed (skip on re-entry)''"

subsection \<open>The edges form one chain\<close>

text \<open>The position of a sub-state on the way to \<open>Completed\<close>.\<close>

primrec sub_rank :: "CutoverSubState \<Rightarrow> nat" where
  "sub_rank SubNone = 0"
| "sub_rank SubPreflight = 1"
| "sub_rank SubSeed = 2"
| "sub_rank SubReplicating = 3"
| "sub_rank SubVerifying = 4"
| "sub_rank SubAwaitingCutover = 5"
| "sub_rank SubFencingSource = 6"
| "sub_rank SubCatchingUp = 7"
| "sub_rank SubVerifyingTarget = 8"
| "sub_rank SubSwitching = 9"
| "sub_rank SubPromoting = 10"
| "sub_rank SubObserving = 11"
| "sub_rank SubCompleted = 12"

lemma sub_rank_inject [simp]: "sub_rank a = sub_rank b \<longleftrightarrow> a = b"
  by (cases a; cases b) simp_all

instantiation CutoverSubState :: linorder
begin

definition less_eq_CutoverSubState :: "CutoverSubState \<Rightarrow> CutoverSubState \<Rightarrow> bool" where
  "less_eq_CutoverSubState a b \<longleftrightarrow> sub_rank a \<le> sub_rank b"

definition less_CutoverSubState :: "CutoverSubState \<Rightarrow> CutoverSubState \<Rightarrow> bool" where
  "less_CutoverSubState a b \<longleftrightarrow> sub_rank a < sub_rank b"

instance
  by standard (auto simp: less_eq_CutoverSubState_def less_CutoverSubState_def)

end

lemma validCutoverTransition_rank:
  "validCutoverTransition from to \<longleftrightarrow>
     from = to \<or> (from \<noteq> SubNone \<and> sub_rank to = Suc (sub_rank from))"
  by (cases "from"; cases to) (simp_all add: validCutoverTransition_def)

text \<open>Every path of legal edges that leaves a sub-state before \<open>FencingSource\<close> and reaches one
  after it passes through it, and the same holds for every other sub-state: no step of the chain can be
  jumped over.\<close>

theorem cutover_path_skips_nothing:
  assumes "validCutoverTransition\<^sup>*\<^sup>* a b" and "a \<le> m" and "m \<le> b"
  shows "validCutoverTransition\<^sup>*\<^sup>* a m \<and> validCutoverTransition\<^sup>*\<^sup>* m b"
  using assms
proof (induction rule: rtranclp_induct)
  case base
  then show ?case by (simp add: order_antisym)
next
  case (step b c)
  show ?case
  proof (cases "m \<le> b")
    case True
    with step show ?thesis by (auto intro: rtranclp.rtrancl_into_rtrancl)
  next
    case False
    with step.hyps(2) step.prems(2) have "m = c"
      by (auto simp: validCutoverTransition_rank less_eq_CutoverSubState_def not_le order_antisym
          simp flip: sub_rank_inject)
    with step.hyps show ?thesis by (auto intro: rtranclp.rtrancl_into_rtrancl)
  qed
qed

theorem cutover_path_skips_nothing_witness:
  "validCutoverTransition\<^sup>*\<^sup>* SubCatchingUp SubCatchingUp \<and> validCutoverTransition\<^sup>*\<^sup>* SubCatchingUp SubVerifyingTarget"
proof (rule cutover_path_skips_nothing)
  show "validCutoverTransition\<^sup>*\<^sup>* SubCatchingUp SubVerifyingTarget"
    by (rule r_into_rtranclp) (simp add: validCutoverTransition_rank)
qed (simp_all add: less_eq_CutoverSubState_def)

lemma sub_rank_pos [simp]: "0 < sub_rank s \<longleftrightarrow> s \<noteq> SubNone"
  by (cases s) simp_all

lemma SubNone_less [simp]: "SubNone < s \<longleftrightarrow> s \<noteq> SubNone"
  by (cases s) (simp_all add: less_CutoverSubState_def)

end
