(* ===== verification/StageRepo.thy ===== *)
theory StageRepo
  imports Fencing CutoverState
begin

section \<open>Stage rows and traffic-switch rows (\<open>migration/pipeline_repo_stages.go\<close>)\<close>

text \<open>
  The tables \<open>migration_stages\<close> (unique per migration and stage name) and \<open>traffic_switch_config\<close>, beside
  the lease table, and the SQL statements on them. A statement that checks \<open>ctx.Err\<close> first fails without
  effect when the environment says so. The database record is extended by later theories.
\<close>

subsection \<open>Rows\<close>

datatype StageState =
    StageStatePending
  | StageStateRunning
  | StageStateCompleted
  | StageStateFailed
  | StageStateSkipped
  | StageStateRetrying
  | StageStateRolledBack

record stageCheckpoint =
  sc_Stage :: string
  sc_State :: string
  sc_Attempt :: int
  sc_StageTotal :: int

text \<open>
  What a checkpoint column holds: nothing, the cutover's checkpoint, the pipeline's own record of a
  completed stage, or text that is not valid JSON for either. The JSON encoding of the two records is
  read back unchanged; they have no field name in common.
\<close>

datatype checkpoint_blob =
    CkEmpty
  | CkCutover cutoverCheckpoint
  | CkStage stageCheckpoint
  | CkMalformed

definition stageCheckpointJSON :: "string \<Rightarrow> int \<Rightarrow> int \<Rightarrow> checkpoint_blob" where
  "stageCheckpointJSON stageName attempt stageTotal =
     CkStage \<lparr>sc_Stage = stageName, sc_State = ''completed'', sc_Attempt = attempt,
       sc_StageTotal = stageTotal\<rparr>"

record PipelineStage =
  ps_ID :: int
  ps_MigrationID :: int
  ps_StageName :: string
  ps_StageIndex :: int
  ps_State :: StageState
  ps_AttemptCount :: int
  ps_CheckpointData :: checkpoint_blob
  ps_ResultData :: string
  ps_Error :: string
  ps_StartedAt :: "stamp option"
  ps_CompletedAt :: "stamp option"

record TrafficSwitchConfig =
  ts_ID :: int
  ts_MigrationID :: int
  ts_Provider :: string
  ts_OriginalConfig :: string
  ts_NewConfig :: string
  ts_SwitchState :: string
  ts_HealthCheckURL :: string
  ts_RollbackConfig :: string

record stage_db = fence_db +
  stage_rows :: "PipelineStage list"
  stage_seq :: int
  switch_rows :: "TrafficSwitchConfig list"
  switch_seq :: int

subsection \<open>Stages\<close>

definition is_stage :: "int \<Rightarrow> string \<Rightarrow> PipelineStage \<Rightarrow> bool" where
  "is_stage mid name r \<longleftrightarrow> ps_MigrationID r = mid \<and> ps_StageName r = name"

text \<open>\<open>INSERT \<dots> ON CONFLICT DO UPDATE\<close>: a row that exists keeps its key, its attempts, its checkpoint
  and its result.\<close>

definition upsert_stage :: "int \<Rightarrow> string \<Rightarrow> int \<Rightarrow> int \<Rightarrow> 'x stage_db_scheme \<Rightarrow> 'x stage_db_scheme" where
  "upsert_stage mid name idx now d =
     (if \<exists>r \<in> set (stage_rows d). is_stage mid name r
      then d\<lparr>stage_rows := map (\<lambda>r. if is_stage mid name r
             then r\<lparr>ps_StageIndex := idx, ps_State := StageStatePending, ps_Error := '''',
                    ps_StartedAt := Some (formatTime now), ps_CompletedAt := None\<rparr>
             else r) (stage_rows d)\<rparr>
      else d\<lparr>stage_rows := stage_rows d @
               [\<lparr>ps_ID = stage_seq d + 1, ps_MigrationID = mid, ps_StageName = name, ps_StageIndex = idx,
                 ps_State = StageStatePending, ps_AttemptCount = 0, ps_CheckpointData = CkEmpty,
                 ps_ResultData = '''', ps_Error = '''', ps_StartedAt = Some (formatTime now),
                 ps_CompletedAt = None\<rparr>],
             stage_seq := stage_seq d + 1\<rparr>)"

definition stage_of :: "'x stage_db_scheme \<Rightarrow> int \<Rightarrow> string \<Rightarrow> PipelineStage option" where
  "stage_of d mid name = List.find (is_stage mid name) (stage_rows d)"

definition CreateStage ::
  "int \<Rightarrow> string \<Rightarrow> int \<Rightarrow> ('x stage_db_scheme, 'e) world \<Rightarrow> int res \<times> ('x stage_db_scheme, 'e) world" where
  "CreateStage mid name idx w =
     (case db_write (\<lambda>now d. (Inr (), upsert_stage mid name idx now d)) w of
        (Inl err, w1) \<Rightarrow> (Inl err, w1)
      | (Inr _, w1) \<Rightarrow>
          db_read (\<lambda>d. case stage_of d mid name of
                          None \<Rightarrow> Inl (ErrF ''sql: no rows in result set'')
                        | Some r \<Rightarrow> Inr (ps_ID r)) w1)"

definition on_stage ::
  "int \<Rightarrow> (PipelineStage \<Rightarrow> PipelineStage) \<Rightarrow> 'x stage_db_scheme \<Rightarrow> 'x stage_db_scheme" where
  "on_stage i f d = d\<lparr>stage_rows := map (\<lambda>r. if ps_ID r = i then f r else r) (stage_rows d)\<rparr>"

definition UpdateStageState ::
  "int \<Rightarrow> StageState \<Rightarrow> string \<Rightarrow> ('x stage_db_scheme, 'e) world
     \<Rightarrow> unit res \<times> ('x stage_db_scheme, 'e) world" where
  "UpdateStageState i state msg = db_write (\<lambda>now d.
     (Inr (), on_stage i (\<lambda>r. r\<lparr>ps_State := state, ps_Error := msg,
                                ps_CompletedAt := Some (formatTime now)\<rparr>) d))"

definition UpdateStageCheckpoint ::
  "int \<Rightarrow> checkpoint_blob \<Rightarrow> ('x stage_db_scheme, 'e) world
     \<Rightarrow> unit res \<times> ('x stage_db_scheme, 'e) world" where
  "UpdateStageCheckpoint i blob = db_write (\<lambda>now d.
     (Inr (), on_stage i (\<lambda>r. r\<lparr>ps_CheckpointData := blob\<rparr>) d))"

definition UpdateStageResult ::
  "int \<Rightarrow> string \<Rightarrow> ('x stage_db_scheme, 'e) world
     \<Rightarrow> unit res \<times> ('x stage_db_scheme, 'e) world" where
  "UpdateStageResult i text = db_write (\<lambda>now d.
     (Inr (), on_stage i (\<lambda>r. r\<lparr>ps_ResultData := text\<rparr>) d))"

definition IncrementStageAttempt ::
  "int \<Rightarrow> ('x stage_db_scheme, 'e) world \<Rightarrow> unit res \<times> ('x stage_db_scheme, 'e) world" where
  "IncrementStageAttempt i = db_write (\<lambda>now d.
     (Inr (), on_stage i (\<lambda>r. r\<lparr>ps_AttemptCount := ps_AttemptCount r + 1\<rparr>) d))"

definition GetStages ::
  "int \<Rightarrow> ('x stage_db_scheme, 'e) world \<Rightarrow> PipelineStage list res \<times> ('x stage_db_scheme, 'e) world" where
  "GetStages mid = db_read (\<lambda>d.
     Inr (sort_key ps_StageIndex (filter (\<lambda>r. ps_MigrationID r = mid) (stage_rows d))))"

definition GetStageByName ::
  "int \<Rightarrow> string \<Rightarrow> ('x stage_db_scheme, 'e) world
     \<Rightarrow> PipelineStage res \<times> ('x stage_db_scheme, 'e) world" where
  "GetStageByName mid name = db_read (\<lambda>d. case stage_of d mid name of
       None \<Rightarrow> Inl (ErrF (''stage not found: migration_id='' @ string_of_int mid @ '' stage_name='' @ name))
     | Some r \<Rightarrow> Inr r)"

definition GetCompletedStages ::
  "int \<Rightarrow> ('x stage_db_scheme, 'e) world \<Rightarrow> PipelineStage list res \<times> ('x stage_db_scheme, 'e) world" where
  "GetCompletedStages mid = db_read (\<lambda>d.
     Inr (sort_key ps_StageIndex
       (filter (\<lambda>r. ps_MigrationID r = mid \<and> ps_State r = StageStateCompleted) (stage_rows d))))"

subsection \<open>The traffic-switch configuration\<close>

definition CreateTrafficSwitchConfig ::
  "TrafficSwitchConfig \<Rightarrow> ('x stage_db_scheme, 'e) world
     \<Rightarrow> int res \<times> ('x stage_db_scheme, 'e) world" where
  "CreateTrafficSwitchConfig cfg = db_write (\<lambda>now d.
     (Inr (switch_seq d + 1),
      d\<lparr>switch_rows := switch_rows d @ [cfg\<lparr>ts_ID := switch_seq d + 1\<rparr>],
        switch_seq := switch_seq d + 1\<rparr>))"

definition UpdateTrafficSwitchState ::
  "int \<Rightarrow> string \<Rightarrow> ('x stage_db_scheme, 'e) world
     \<Rightarrow> unit res \<times> ('x stage_db_scheme, 'e) world" where
  "UpdateTrafficSwitchState i state = db_write (\<lambda>now d.
     (Inr (), d\<lparr>switch_rows := map (\<lambda>r. if ts_ID r = i then r\<lparr>ts_SwitchState := state\<rparr> else r)
                  (switch_rows d)\<rparr>))"

definition UpdateTrafficSwitchConfig ::
  "TrafficSwitchConfig \<Rightarrow> ('x stage_db_scheme, 'e) world
     \<Rightarrow> unit res \<times> ('x stage_db_scheme, 'e) world" where
  "UpdateTrafficSwitchConfig cfg = db_write (\<lambda>now d.
     (Inr (), d\<lparr>switch_rows := map (\<lambda>r. if ts_ID r = ts_ID cfg
         then r\<lparr>ts_OriginalConfig := ts_OriginalConfig cfg, ts_NewConfig := ts_NewConfig cfg,
                ts_SwitchState := ts_SwitchState cfg, ts_HealthCheckURL := ts_HealthCheckURL cfg,
                ts_RollbackConfig := ts_RollbackConfig cfg\<rparr>
         else r) (switch_rows d)\<rparr>))"

fun last_switch :: "TrafficSwitchConfig list \<Rightarrow> TrafficSwitchConfig option" where
  "last_switch [] = None"
| "last_switch (r # rs) = (case last_switch rs of
       None \<Rightarrow> Some r
     | Some m \<Rightarrow> Some (if ts_ID m < ts_ID r then r else m))"

definition GetTrafficSwitchConfig ::
  "int \<Rightarrow> ('x stage_db_scheme, 'e) world
     \<Rightarrow> TrafficSwitchConfig option res \<times> ('x stage_db_scheme, 'e) world" where
  "GetTrafficSwitchConfig mid = db_read (\<lambda>d.
     Inr (last_switch (filter (\<lambda>r. ts_MigrationID r = mid) (switch_rows d))))"

subsection \<open>The stage table as a map\<close>

definition stage_wf :: "'x stage_db_scheme \<Rightarrow> bool" where
  "stage_wf d \<longleftrightarrow>
     distinct (map (\<lambda>r. (ps_MigrationID r, ps_StageName r)) (stage_rows d)) \<and>
     distinct (map ps_ID (stage_rows d)) \<and> (\<forall>r \<in> set (stage_rows d). ps_ID r \<le> stage_seq d)"

lemma stage_of_mem: "stage_of d mid name = Some r \<Longrightarrow> r \<in> set (stage_rows d) \<and> is_stage mid name r"
  by (auto simp: stage_of_def find_Some_iff)

lemma stage_of_None: "stage_of d mid name = None \<longleftrightarrow> (\<forall>r \<in> set (stage_rows d). \<not> is_stage mid name r)"
  by (auto simp: stage_of_def find_None_iff)

lemma find_map_keep:
  "(\<And>r. P (f r) = P r) \<Longrightarrow> List.find P (map f xs) = map_option f (List.find P xs)"
  by (induction xs) auto

lemma stage_of_on_stage:
  assumes "\<And>r. ps_MigrationID (f r) = ps_MigrationID r" "\<And>r. ps_StageName (f r) = ps_StageName r"
  shows "stage_of (on_stage i f d) mid name =
    map_option (\<lambda>r. if ps_ID r = i then f r else r) (stage_of d mid name)"
  unfolding stage_of_def on_stage_def
  by (simp add: find_map_keep is_stage_def assms)

lemma on_stage_other_fields [simp]:
  "fence_rows (on_stage i f d) = fence_rows d" "fence_seq (on_stage i f d) = fence_seq d"
  "stage_seq (on_stage i f d) = stage_seq d" "switch_rows (on_stage i f d) = switch_rows d"
  "switch_seq (on_stage i f d) = switch_seq d"
  by (simp_all add: on_stage_def)

lemma lease_of_on_stage [simp]: "lease_of (on_stage i f d) mid = lease_of d mid"
  by (simp add: lease_of_def)

lemma fence_wf_on_stage [simp]: "fence_wf (on_stage i f d) = fence_wf d"
  by (simp add: fence_wf_def)

lemma stage_wf_on_stage [simp]:
  assumes "\<And>r. ps_MigrationID (f r) = ps_MigrationID r" "\<And>r. ps_StageName (f r) = ps_StageName r"
    "\<And>r. ps_ID (f r) = ps_ID r"
  shows "stage_wf (on_stage i f d) = stage_wf d"
proof -
  have 1: "map (\<lambda>r. (ps_MigrationID r, ps_StageName r)) (map (\<lambda>r. if ps_ID r = i then f r else r) rs)
      = map (\<lambda>r. (ps_MigrationID r, ps_StageName r)) rs" for rs
    using assms by (induction rs) auto
  have 2: "map ps_ID (map (\<lambda>r. if ps_ID r = i then f r else r) rs) = map ps_ID rs" for rs
    using assms by (induction rs) auto
  have 3: "(\<forall>r \<in> set (map (\<lambda>r. if ps_ID r = i then f r else r) rs). ps_ID r \<le> n)
      \<longleftrightarrow> (\<forall>r \<in> set rs. ps_ID r \<le> n)" for rs n
    using assms by (induction rs) auto
  show ?thesis unfolding stage_wf_def on_stage_def
    using 1 2 3 by (simp del: map_map)
qed

lemma stage_wf_same_id:
  assumes "stage_wf d" "stage_of d mid name = Some r" "stage_of d mid' name' = Some r'" "ps_ID r = ps_ID r'"
  shows "mid = mid' \<and> name = name'"
  using assms stage_of_mem [OF assms(2)] stage_of_mem [OF assms(3)]
  by (auto simp: stage_wf_def is_stage_def distinct_map inj_on_def)

lemma stage_of_upsert_same:
  "\<exists>r'. stage_of (upsert_stage mid name idx now d) mid name = Some r' \<and> ps_State r' = StageStatePending \<and>
     (case stage_of d mid name of
        None \<Rightarrow> ps_ID r' = stage_seq d + 1 \<and> ps_CheckpointData r' = CkEmpty \<and> ps_AttemptCount r' = 0
      | Some r \<Rightarrow> ps_ID r' = ps_ID r \<and> ps_CheckpointData r' = ps_CheckpointData r
          \<and> ps_AttemptCount r' = ps_AttemptCount r \<and> ps_ResultData r' = ps_ResultData r)"
proof (cases "stage_of d mid name")
  case None
  then have "\<not> (\<exists>r \<in> set (stage_rows d). is_stage mid name r)" by (simp add: stage_of_None)
  moreover have "List.find P (xs @ [y]) = (case List.find P xs of None \<Rightarrow> if P y then Some y else None | Some x \<Rightarrow> Some x)"
    for P xs and y :: PipelineStage
    by (induction xs) auto
  ultimately show ?thesis
    using None by (auto simp: upsert_stage_def stage_of_def is_stage_def)
next
  case (Some r)
  then have "\<exists>r \<in> set (stage_rows d). is_stage mid name r" using stage_of_mem by blast
  moreover have "is_stage mid name r" using stage_of_mem [OF Some] by simp
  ultimately show ?thesis
    using Some unfolding upsert_stage_def stage_of_def
    by (simp add: find_map_keep is_stage_def)
qed

lemma upsert_stage_wf:
  assumes "stage_wf d"
  shows "stage_wf (upsert_stage mid name idx now d)"
proof (cases "\<exists>r \<in> set (stage_rows d). is_stage mid name r")
  case True
  let ?f = "\<lambda>r. if is_stage mid name r then r\<lparr>ps_StageIndex := idx, ps_State := StageStatePending, ps_Error := '''',
    ps_StartedAt := Some (formatTime now), ps_CompletedAt := None\<rparr> else r"
  have "map (\<lambda>r. (ps_MigrationID r, ps_StageName r)) (map ?f rs) = map (\<lambda>r. (ps_MigrationID r, ps_StageName r)) rs"
    "map ps_ID (map ?f rs) = map ps_ID rs" "(\<forall>r \<in> set (map ?f rs). ps_ID r \<le> n) = (\<forall>r \<in> set rs. ps_ID r \<le> n)" for rs n
    by (induction rs) auto
  with True assms show ?thesis by (simp add: upsert_stage_def stage_wf_def del: map_map)
next
  case False
  then show ?thesis using assms
    by (force simp: upsert_stage_def stage_wf_def is_stage_def)
qed

text \<open>Creating a stage that exists, as every retry does, resets its state to pending and
  keeps its key, its attempt count, its checkpoint and its result; the id returned is the row's.\<close>

theorem create_stage_keeps_checkpoint:
  assumes "CreateStage mid name idx w = (Inr i, w')" and "stage_of (w_db w) mid name = Some r"
  shows "\<exists>r'. stage_of (w_db w') mid name = Some r' \<and> i = ps_ID r \<and> ps_ID r' = ps_ID r
    \<and> ps_State r' = StageStatePending \<and> ps_CheckpointData r' = ps_CheckpointData r
    \<and> ps_AttemptCount r' = ps_AttemptCount r \<and> ps_ResultData r' = ps_ResultData r"
proof -
  obtain u w1 where w1: "db_write (\<lambda>now d. (Inr (), upsert_stage mid name idx now d)) w = (Inr u, w1)"
    and rd: "db_read (\<lambda>d. case stage_of d mid name of None \<Rightarrow> Inl (ErrF ''sql: no rows in result set'')
        | Some r \<Rightarrow> Inr (ps_ID r)) w1 = (Inr i, w')"
    using assms(1) by (auto simp: CreateStage_def split: prod.splits sum.splits)
  have "w_db w1 = upsert_stage mid name idx (w_now w) (w_db w)"
    using db_write_ok [OF w1] by simp
  moreover have "w_db w' = w_db w1" using db_read_frame [OF rd] by simp
  moreover have "(case stage_of (w_db w1) mid name of None \<Rightarrow> Inl (ErrF ''sql: no rows in result set'')
      | Some r \<Rightarrow> Inr (ps_ID r)) = (Inr i :: int res)"
    using db_read_ok [OF rd] .
  ultimately show ?thesis
    using stage_of_upsert_same [of mid name idx "w_now w" "w_db w"] assms(2) by auto
qed

definition demo_stage_row :: "checkpoint_blob \<Rightarrow> PipelineStage" where
  "demo_stage_row ck = \<lparr>ps_ID = 1, ps_MigrationID = 7, ps_StageName = ''traffic_switch'', ps_StageIndex = 9,
     ps_State = StageStateFailed, ps_AttemptCount = 2, ps_CheckpointData = ck, ps_ResultData = ''r'',
     ps_Error = ''e'', ps_StartedAt = None, ps_CompletedAt = None\<rparr>"

definition demo_stage_db :: "FenceLease list \<Rightarrow> checkpoint_blob \<Rightarrow> stage_db" where
  "demo_stage_db ls ck = \<lparr>fence_rows = ls, fence_seq = 1, stage_rows = [demo_stage_row ck], stage_seq = 1,
     switch_rows = [], switch_seq = 0\<rparr>"

lemma demo_stage_of [simp]:
  "stage_of (demo_stage_db ls ck) 7 ''traffic_switch'' = Some (demo_stage_row ck)"
  by (simp add: stage_of_def demo_stage_db_def demo_stage_row_def is_stage_def)

lemma demo_stage_wf [simp]: "stage_wf (demo_stage_db ls ck)"
  by (simp add: stage_wf_def demo_stage_db_def demo_stage_row_def)

theorem create_stage_keeps_checkpoint_witness:
  fixes w :: "(stage_db, unit) world"
  defines "w \<equiv> calm_world (demo_stage_db [] CkMalformed)"
  shows "\<exists>r'. stage_of (w_db (snd (CreateStage 7 ''traffic_switch'' 9 w))) 7 ''traffic_switch'' = Some r'
    \<and> 1 = ps_ID (demo_stage_row CkMalformed) \<and> ps_ID r' = ps_ID (demo_stage_row CkMalformed)
    \<and> ps_State r' = StageStatePending \<and> ps_CheckpointData r' = ps_CheckpointData (demo_stage_row CkMalformed)
    \<and> ps_AttemptCount r' = ps_AttemptCount (demo_stage_row CkMalformed)
    \<and> ps_ResultData r' = ps_ResultData (demo_stage_row CkMalformed)"
proof (rule create_stage_keeps_checkpoint [where w = w and idx = 9])
  show "CreateStage 7 ''traffic_switch'' 9 w = (Inr 1, snd (CreateStage 7 ''traffic_switch'' 9 w))"
    by (simp add: w_def calm_world_def CreateStage_def db_write_def db_read_def upsert_stage_def
        demo_stage_db_def demo_stage_row_def is_stage_def stage_of_def)
qed (simp add: w_def calm_world_def)

end
