(* ===== verification/CutoverMachine.thy ===== *)
theory CutoverMachine
  imports StageRepo
begin

section \<open>The persisted cutover machine (\<open>migration/cutover_substate.go\<close>)\<close>

text \<open>
  \<open>Load\<close>, \<open>Save\<close> and \<open>MarkStep\<close> over the stage's checkpoint column and the lease's state column. The
  checkpoint a caller passes is a pointer that \<open>Save\<close> and \<open>MarkStep\<close> write through: both return the
  checkpoint as they leave it, also when they fail.
\<close>

definition StageTrafficSwitch :: string where
  "StageTrafficSwitch = ''traffic_switch''"

record cutoverMachine =
  cm_authority :: FencingAuthority
  cm_migrationID :: int
  cm_stageName :: string

definition newCutoverMachine :: "FencingAuthority \<Rightarrow> int \<Rightarrow> cutoverMachine" where
  "newCutoverMachine a mid =
     \<lparr>cm_authority = a, cm_migrationID = mid, cm_stageName = StageTrafficSwitch\<rparr>"

text \<open>What \<open>json.Unmarshal\<close> makes of a checkpoint column that is not empty. The pipeline's own stage
  record has none of the cutover's field names, so it reads as a checkpoint of zero values.\<close>

definition unmarshal_checkpoint :: "checkpoint_blob \<Rightarrow> cutoverCheckpoint res" where
  "unmarshal_checkpoint blob = (case blob of
       CkEmpty \<Rightarrow> Inl (ErrF ''unexpected end of JSON input'')
     | CkCutover cp \<Rightarrow> Inr cp
     | CkStage _ \<Rightarrow> Inr empty_checkpoint
     | CkMalformed \<Rightarrow> Inl (ErrF ''invalid character''))"

definition cutover_Load ::
  "cutoverMachine \<Rightarrow> ('x stage_db_scheme, 'e) world
     \<Rightarrow> cutoverCheckpoint res \<times> ('x stage_db_scheme, 'e) world" where
  "cutover_Load m w =
     (case GetStageByName (cm_migrationID m) (cm_stageName m) w of
        (Inl err, w1) \<Rightarrow> (Inl err, w1)
      | (Inr stage, w1) \<Rightarrow>
          if ps_CheckpointData stage = CkEmpty then (Inr empty_checkpoint, w1)
          else (case unmarshal_checkpoint (ps_CheckpointData stage) of
              Inl err \<Rightarrow> (Inl (ErrWrap ''cutover checkpoint unmarshal: '' err ''''), w1)
            | Inr cp \<Rightarrow>
                if ck_Holder cp = '''' \<or> ck_Token cp = 0 then (Inr cp, w1)
                else if ck_SubState cp = SubCompleted then (Inr cp, w1)
                else (case AssertHolds (cm_authority m) (cm_migrationID m) (ck_Holder cp)
                             (ck_Token cp) '''' w1 of
                    (Inl err, w2) \<Rightarrow> (Inl err, w2)
                  | (Inr _, w2) \<Rightarrow> (Inr cp, w2))))"

definition with_lease :: "FenceLease option \<Rightarrow> cutoverCheckpoint \<Rightarrow> cutoverCheckpoint" where
  "with_lease lease cp = (case lease of
       None \<Rightarrow> cp
     | Some l \<Rightarrow> cp\<lparr>ck_Token := fl_FenceToken l, ck_Holder := fl_Holder l\<rparr>)"

definition cutover_Save ::
  "cutoverMachine \<Rightarrow> cutoverCheckpoint \<Rightarrow> FenceLease option \<Rightarrow> ('x stage_db_scheme, 'e) world
     \<Rightarrow> unit res \<times> cutoverCheckpoint \<times> ('x stage_db_scheme, 'e) world" where
  "cutover_Save m cp lease w =
     (case GetStageByName (cm_migrationID m) (cm_stageName m) w of
        (Inl err, w1) \<Rightarrow> (Inl err, cp, w1)
      | (Inr stage, w1) \<Rightarrow>
          (let cp1 = with_lease lease cp in
           case UpdateStageCheckpoint (ps_ID stage) (CkCutover cp1) w1 of
             (Inl err, w2) \<Rightarrow> (Inl err, cp1, w2)
           | (Inr _, w2) \<Rightarrow>
               (case lease of
                  None \<Rightarrow> (Inr (), cp1, w2)
                | Some l \<Rightarrow>
                    (case SetState (cm_authority m) (Some l) (sub_str (ck_SubState cp1)) w2 of
                       (Inl err, w3) \<Rightarrow> (Inl err, cp1, w3)
                     | (Inr _, w3) \<Rightarrow> (Inr (), cp1, w3)))))"

definition MarkStep ::
  "cutoverMachine \<Rightarrow> cutoverCheckpoint \<Rightarrow> FenceLease option \<Rightarrow> CutoverSubState \<Rightarrow> CutoverSubState
     \<Rightarrow> string \<Rightarrow> ('x stage_db_scheme, 'e) world
     \<Rightarrow> unit res \<times> cutoverCheckpoint \<times> ('x stage_db_scheme, 'e) world" where
  "MarkStep m cp lease from to resultData w =
     (if ck_SubState cp \<noteq> from then
        (Inl (ErrWrap '''' ErrCutoverIllegalTransition
           ('': cp='' @ quoted (sub_str (ck_SubState cp)) @ '' from='' @ quoted (sub_str from))), cp, w)
      else if \<not> validCutoverTransition from to then
        (Inl (ErrWrap '''' ErrCutoverIllegalTransition
           ('': '' @ sub_str from @ arrow @ sub_str to)), cp, w)
      else if step_result cp from \<noteq> '''' then (Inl ErrCutoverReentryDone, cp, w)
      else cutover_Save m
        (with_lease lease (cp\<lparr>ck_Steps := (ck_Steps cp)(from \<mapsto> resultData), ck_SubState := to\<rparr>)) lease w)"

end
