(* ===== verification/Orchestrator.thy ===== *)
theory Orchestrator
  imports CutoverMachine
begin

section \<open>The cutover orchestrator (\<open>migration/cutover_orchestrator.go\<close>)\<close>

text \<open>
  \<open>Run\<close> drives the eleven steps from the persisted sub-state to \<open>Completed\<close>. The replication driver and
  the traffic switcher are interfaces of the code: a record of functions from the tick of the call to its
  result, so each call may answer differently. The log of the world records which step's action ran and
  with which result; it is not read by any definition.
\<close>

subsection \<open>The drivers\<close>

record CutoverPreflightResult =
  pf_SourceVersionNum :: int
  pf_TargetVersionNum :: int
  pf_SourceInRecovery :: bool
  pf_TargetInRecovery :: bool
  pf_TargetDiskMB :: int
  pf_ReplicatorOK :: bool
  pf_Notes :: string

record TrafficSwitchResult =
  tr_Switched :: bool
  tr_ConfigTestOK :: bool
  tr_ReloadOK :: bool
  tr_Verified :: bool

record cutover_drivers =
  dr_CutoverPreflight :: "nat \<Rightarrow> bool \<Rightarrow> CutoverPreflightResult \<times> goerr option"
  dr_WaitForCatchUp :: "nat \<Rightarrow> int \<Rightarrow> goerr option"
  dr_CutoverFreezeSource :: "nat \<Rightarrow> goerr option"
  dr_CutoverPromote :: "nat \<Rightarrow> goerr option"
  dr_Switch :: "nat \<Rightarrow> TrafficSwitchResult option \<times> goerr option"
  dr_ctxDone :: "nat \<Rightarrow> goerr option"

definition ErrNoSourceFreeze :: goerr where
  "ErrNoSourceFreeze = ErrNew ''source write-freeze not supported for engine''"

definition PGCatchUpMaxLag :: int where
  "PGCatchUpMaxLag = 1"

subsection \<open>Request and outcome\<close>

record CutoverRequest =
  cr_MigrationID :: int
  cr_Holder :: string
  cr_DatabaseType :: string
  cr_MaxLagSeconds :: int
  cr_ObserveFor :: int

record CutoverOutcome =
  co_Completed :: bool
  co_FinalState :: CutoverSubState
  co_Holder :: string
  co_Token :: int
  co_Steps :: "string \<rightharpoonup> string"
  co_Preflight :: "CutoverPreflightResult option"
  co_Switch :: "TrafficSwitchResult option"
  co_Degraded :: "string list"
  co_Failure :: string

definition new_outcome :: CutoverOutcome where
  "new_outcome = \<lparr>co_Completed = False, co_FinalState = SubNone, co_Holder = '''', co_Token = 0,
     co_Steps = Map.empty, co_Preflight = None, co_Switch = None, co_Degraded = [], co_Failure = ''''\<rparr>"

text \<open>The ghost log: the step whose action ran, the tick it started at, and its result.\<close>

record cut_event =
  ev_step :: CutoverSubState
  ev_tick :: nat
  ev_result :: "string res"

type_synonym 'x cut_world = "('x stage_db_scheme, cut_event) world"

subsection \<open>Step actions\<close>

text \<open>An action sees the tick, the lease and the outcome built so far.\<close>

type_synonym step_action = "nat \<Rightarrow> FenceLease \<Rightarrow> CutoverOutcome \<Rightarrow> string res \<times> CutoverOutcome"

definition bool_str :: "bool \<Rightarrow> string" where
  "bool_str b = (if b then ''true'' else ''false'')"

definition stepPreflight :: "cutover_drivers \<Rightarrow> CutoverRequest \<Rightarrow> step_action" where
  "stepPreflight dr cfg n lease out =
     (let (r, err) = dr_CutoverPreflight dr n False; out1 = out\<lparr>co_Preflight := Some r\<rparr> in
      case err of
        Some e \<Rightarrow> (Inl e, out1)
      | None \<Rightarrow> (Inr (''ok src='' @ string_of_int (pf_SourceVersionNum r) @ '' tgt='' @
            string_of_int (pf_TargetVersionNum r) @ '' replicator='' @ bool_str (pf_ReplicatorOK r)), out1))"

definition stepSeed :: "cutover_drivers \<Rightarrow> CutoverRequest \<Rightarrow> step_action" where
  "stepSeed dr cfg n lease out =
     (let (r, err) = dr_CutoverPreflight dr n False in
      case err of
        Some e \<Rightarrow> (Inl (ErrWrap ''seed boundary: '' e ''''), out)
      | None \<Rightarrow> (Inr (''ok target-standby='' @ bool_str (pf_TargetInRecovery r)), out))"

definition max_lag :: "CutoverRequest \<Rightarrow> int" where
  "max_lag cfg = (if cr_MaxLagSeconds cfg < 0 then PGCatchUpMaxLag else cr_MaxLagSeconds cfg)"

definition stepReplicating :: "cutover_drivers \<Rightarrow> CutoverRequest \<Rightarrow> step_action" where
  "stepReplicating dr cfg n lease out =
     (case dr_WaitForCatchUp dr n (max_lag cfg) of
        Some e \<Rightarrow> (Inl (ErrWrap ''replicating: '' e ''''), out)
      | None \<Rightarrow> (Inr (''ok lag<='' @ string_of_int (max_lag cfg)), out))"

definition stepVerifying :: "cutover_drivers \<Rightarrow> CutoverRequest \<Rightarrow> step_action" where
  "stepVerifying dr cfg n lease out =
     (case dr_WaitForCatchUp dr n (max_lag cfg) of
        Some e \<Rightarrow> (Inl (ErrWrap ''verifying: '' e ''''), out)
      | None \<Rightarrow> (Inr ''ok verified'', out))"

definition stepAwaitingCutover :: "cutover_drivers \<Rightarrow> CutoverRequest \<Rightarrow> step_action" where
  "stepAwaitingCutover dr cfg n lease out = (Inr ''ok auto-cutover-opted-in'', out)"

definition stepFencingSource :: "cutover_drivers \<Rightarrow> CutoverRequest \<Rightarrow> step_action" where
  "stepFencingSource dr cfg n lease out =
     (case dr_CutoverFreezeSource dr n of
        Some e \<Rightarrow>
          if errors_is e ErrNoSourceFreeze then
            (Inr (''degraded: source freeze unsupported for '' @ cr_DatabaseType cfg @
                  '' (manual freeze required) holder='' @ fl_Holder lease @ '' token='' @
                  string_of_int (fl_FenceToken lease)),
             out\<lparr>co_Degraded := co_Degraded out @ [''source_freeze_not_supported:'' @ cr_DatabaseType cfg]\<rparr>)
          else (Inl (ErrWrap ''fencing source: '' e ''''), out)
      | None \<Rightarrow> (Inr (''ok frozen holder='' @ fl_Holder lease @ '' token='' @
            string_of_int (fl_FenceToken lease)), out))"

definition stepCatchingUp :: "cutover_drivers \<Rightarrow> CutoverRequest \<Rightarrow> step_action" where
  "stepCatchingUp dr cfg n lease out =
     (case dr_WaitForCatchUp dr n (max_lag cfg) of
        Some e \<Rightarrow> (Inl (ErrWrap ''catching-up: '' e ''''), out)
      | None \<Rightarrow> (Inr ''ok caught-up'', out))"

definition stepVerifyingTarget :: "cutover_drivers \<Rightarrow> CutoverRequest \<Rightarrow> step_action" where
  "stepVerifyingTarget dr cfg n lease out =
     (let (r, err) = dr_CutoverPreflight dr n True in
      case err of
        Some e \<Rightarrow> (Inl (ErrWrap ''verifying-target: '' e ''''), out)
      | None \<Rightarrow>
          if \<not> pf_TargetInRecovery r then
            (Inl (ErrNew ''verifying-target: target not a standby before switch (promoted out-of-band?)''), out)
          else (Inr ''ok target-standby'', out))"

text \<open>A switcher that returned neither a result nor an error would be a nil dereference.\<close>

definition stepSwitching :: "cutover_drivers \<Rightarrow> CutoverRequest \<Rightarrow> step_action" where
  "stepSwitching dr cfg n lease out =
     (let (res, err) = dr_Switch dr n; out1 = out\<lparr>co_Switch := res\<rparr> in
      case err of
        Some e \<Rightarrow> (Inl (ErrWrap ''switching: '' e ''''), out1)
      | None \<Rightarrow>
          (case res of
             None \<Rightarrow> (Inl (ErrF ''panic: nil pointer dereference''), out1)
           | Some r \<Rightarrow> (Inr (''ok switched='' @ bool_str (tr_Switched r) @ '' verified='' @
                 bool_str (tr_Verified r)), out1)))"

definition stepPromoting :: "cutover_drivers \<Rightarrow> CutoverRequest \<Rightarrow> step_action" where
  "stepPromoting dr cfg n lease out =
     (case dr_CutoverPromote dr n of
        Some e \<Rightarrow> (Inl (ErrWrap ''promoting: '' e ''''), out)
      | None \<Rightarrow> (Inr ''ok promoted'', out))"

definition stepObserving :: "cutover_drivers \<Rightarrow> CutoverRequest \<Rightarrow> step_action" where
  "stepObserving dr cfg n lease out =
     (if 0 < cr_ObserveFor cfg then
        (case dr_ctxDone dr n of
           Some e \<Rightarrow> (Inl e, out)
         | None \<Rightarrow> (Inr ''ok observed'', out))
      else (Inr ''ok observed'', out))"

record cutoverStep =
  cs_from :: CutoverSubState
  cs_to :: CutoverSubState
  cs_action :: step_action

definition cutover_steps :: "cutover_drivers \<Rightarrow> CutoverRequest \<Rightarrow> cutoverStep list" where
  "cutover_steps dr cfg =
     [\<lparr>cs_from = SubPreflight, cs_to = SubSeed, cs_action = stepPreflight dr cfg\<rparr>,
      \<lparr>cs_from = SubSeed, cs_to = SubReplicating, cs_action = stepSeed dr cfg\<rparr>,
      \<lparr>cs_from = SubReplicating, cs_to = SubVerifying, cs_action = stepReplicating dr cfg\<rparr>,
      \<lparr>cs_from = SubVerifying, cs_to = SubAwaitingCutover, cs_action = stepVerifying dr cfg\<rparr>,
      \<lparr>cs_from = SubAwaitingCutover, cs_to = SubFencingSource, cs_action = stepAwaitingCutover dr cfg\<rparr>,
      \<lparr>cs_from = SubFencingSource, cs_to = SubCatchingUp, cs_action = stepFencingSource dr cfg\<rparr>,
      \<lparr>cs_from = SubCatchingUp, cs_to = SubVerifyingTarget, cs_action = stepCatchingUp dr cfg\<rparr>,
      \<lparr>cs_from = SubVerifyingTarget, cs_to = SubSwitching, cs_action = stepVerifyingTarget dr cfg\<rparr>,
      \<lparr>cs_from = SubSwitching, cs_to = SubPromoting, cs_action = stepSwitching dr cfg\<rparr>,
      \<lparr>cs_from = SubPromoting, cs_to = SubObserving, cs_action = stepPromoting dr cfg\<rparr>,
      \<lparr>cs_from = SubObserving, cs_to = SubCompleted, cs_action = stepObserving dr cfg\<rparr>]"

subsection \<open>The driver loop\<close>

text \<open>Running an action takes a tick and is logged.\<close>

definition run_action ::
  "cutoverStep \<Rightarrow> FenceLease \<Rightarrow> CutoverOutcome \<Rightarrow> 'x cut_world
     \<Rightarrow> string res \<times> CutoverOutcome \<times> 'x cut_world" where
  "run_action st lease out w =
     (let (r, out1) = cs_action st (w_tick w) lease out in
      (r, out1, tick (w\<lparr>w_log := w_log w @
         [\<lparr>ev_step = cs_from st, ev_tick = w_tick w, ev_result = r\<rparr>]\<rparr>)))"

definition advance ::
  "cutoverMachine \<Rightarrow> FencingAuthority \<Rightarrow> cutoverCheckpoint \<Rightarrow> FenceLease \<Rightarrow> cutoverStep
     \<Rightarrow> CutoverOutcome \<Rightarrow> 'x cut_world
     \<Rightarrow> unit res \<times> cutoverCheckpoint \<times> CutoverOutcome \<times> 'x cut_world" where
  "advance m a cp lease st out w =
     (if StepDone (Some cp) (cs_from st) then (Inl ErrCutoverReentryDone, cp, out, w)
      else (case AssertHolds a (cm_migrationID m) (fl_Holder lease) (fl_FenceToken lease)
                   (sub_str (cs_from st)) w of
          (Inl err, w1) \<Rightarrow>
            (Inl (ErrWrap (''cutover '' @ sub_str (cs_from st) @ '': fence not held: '') err ''''), cp, out, w1)
        | (Inr _, w1) \<Rightarrow>
            (case run_action st lease out w1 of
               (Inl err, out1, w2) \<Rightarrow>
                 (Inl (ErrWrap (''cutover '' @ sub_str (cs_from st) @ '': '') err ''''), cp, out1, w2)
             | (Inr data, out1, w2) \<Rightarrow>
                 (case MarkStep m cp (Some lease) (cs_from st) (cs_to st) data w2 of
                    (r, cp1, w3) \<Rightarrow> (r, cp1, out1, w3)))))"

definition acquireOrRecover ::
  "cutoverMachine \<Rightarrow> FencingAuthority \<Rightarrow> CutoverRequest \<Rightarrow> cutoverCheckpoint
     \<Rightarrow> ('x stage_db_scheme, 'e) world \<Rightarrow> FenceLease res \<times> ('x stage_db_scheme, 'e) world" where
  "acquireOrRecover m a cfg cp w =
     (if ck_Holder cp \<noteq> '''' \<and> ck_Token cp \<noteq> 0 then
        (case AssertHolds a (cm_migrationID m) (ck_Holder cp) (ck_Token cp) (sub_str (ck_SubState cp)) w of
           (Inl err, w1) \<Rightarrow> (Inl (ErrWrap ''recover prior lease: '' err ''''), w1)
         | (Inr lease, w1) \<Rightarrow> (Inr lease, w1))
      else Acquire a (cr_MigrationID cfg) (cr_Holder cfg) (sub_str (ck_SubState cp)) w)"

text \<open>The loop over the steps. The checkpoint is one object for the whole run; a step that failed is
  followed by a last \<open>Save\<close> whose error is dropped.\<close>

fun run_steps ::
  "(string \<Rightarrow> string) \<Rightarrow> cutoverMachine \<Rightarrow> FencingAuthority \<Rightarrow> cutoverCheckpoint \<Rightarrow> FenceLease
     \<Rightarrow> cutoverStep list \<Rightarrow> CutoverOutcome \<Rightarrow> 'x cut_world
     \<Rightarrow> (CutoverOutcome \<times> goerr option) \<times> 'x cut_world" where
  "run_steps san m a cp lease [] out w =
     (let (_, w1) = Release a (Some lease) w in
      ((out\<lparr>co_Completed := True, co_FinalState := SubCompleted\<rparr>, None), w1))"
| "run_steps san m a cp lease (st # sts) out w =
     (case advance m a cp lease st out w of
        (Inr _, cp1, out1, w1) \<Rightarrow>
          run_steps san m a cp1 lease sts (out1\<lparr>co_FinalState := ck_SubState cp1\<rparr>) w1
      | (Inl err, cp1, out1, w1) \<Rightarrow>
          if errors_is err ErrCutoverReentryDone then
            run_steps san m a cp1 lease sts (out1\<lparr>co_FinalState := ck_SubState cp1\<rparr>) w1
          else (let (_, _, w2) = cutover_Save m cp1 (Some lease) w1 in
                ((out1\<lparr>co_FinalState := ck_SubState cp1, co_Failure := san (err_text err)\<rparr>, Some err), w2)))"

definition Run ::
  "(string \<Rightarrow> string) \<Rightarrow> cutoverMachine \<Rightarrow> FencingAuthority \<Rightarrow> cutover_drivers \<Rightarrow> CutoverRequest
     \<Rightarrow> 'x cut_world \<Rightarrow> (CutoverOutcome option \<times> goerr option) \<times> 'x cut_world" where
  "Run san m a dr cfg w =
     (if cr_MigrationID cfg \<le> 0 then ((None, Some (ErrNew ''cutover: migrationID required'')), w)
      else if cr_Holder cfg = '''' then ((None, Some (ErrNew ''cutover: holder required'')), w)
      else (case cutover_Load m w of
          (Inl err, w1) \<Rightarrow>
            ((Some (new_outcome\<lparr>co_Failure := san (err_text err)\<rparr>), Some (ErrWrap ''cutover load: '' err '''')), w1)
        | (Inr cp0, w1) \<Rightarrow>
            (let cp = (if ck_SubState cp0 = SubNone then cp0\<lparr>ck_SubState := SubPreflight\<rparr> else cp0);
                 out = new_outcome\<lparr>co_FinalState := ck_SubState cp\<rparr> in
             if ck_SubState cp = SubCompleted then ((Some (out\<lparr>co_Completed := True\<rparr>), None), w1)
             else (case acquireOrRecover m a cfg cp w1 of
                 (Inl err, w2) \<Rightarrow>
                   ((Some (out\<lparr>co_Failure := san (err_text err)\<rparr>), Some (ErrWrap ''cutover fence: '' err '''')), w2)
               | (Inr lease, w2) \<Rightarrow>
                   (let out1 = out\<lparr>co_Holder := fl_Holder lease, co_Token := fl_FenceToken lease\<rparr> in
                    case cutover_Save m cp (Some lease) w2 of
                      (Inl err, _, w3) \<Rightarrow>
                        ((Some (out1\<lparr>co_Failure := san (err_text err)\<rparr>),
                          Some (ErrWrap ''cutover initial save: '' err '''')), w3)
                    | (Inr _, cp1, w3) \<Rightarrow>
                        (let ((out2, e), w4) = run_steps san m a cp1 lease (cutover_steps dr cfg) out1 w3 in
                         ((Some out2, e), w4)))))))"

end
