(* ===== verification/CutoverProofs.thy ===== *)
theory CutoverProofs
  imports Orchestrator
begin

section \<open>What the fenced cutover guarantees\<close>

text \<open>
  Lemmas and properties of \<open>CutoverMachine\<close> and \<open>Orchestrator\<close>: the order of the steps across any
  number of crashes and restarts, the fence around every action, what a stale lease or a crash between
  two writes leads to, and that a cutover without faults runs to its end from any sub-state.
\<close>

subsection \<open>What the machine's writes change\<close>

lemma with_lease_steps [simp]:
  "ck_Steps (with_lease l cp) = ck_Steps cp" "ck_SubState (with_lease l cp) = ck_SubState cp"
  by (simp_all add: with_lease_def split: option.split)

lemma with_lease_idem [simp]: "with_lease l (with_lease l cp) = with_lease l cp"
  by (simp add: with_lease_def split: option.split)

lemma step_result_with_lease [simp]: "step_result (with_lease l cp) = step_result cp"
  by (simp add: step_result_def fun_eq_iff)

lemma stage_of_fence_rows [simp]:
  "stage_of (d\<lparr>fence_rows := rs\<rparr>) mid name = stage_of d mid name"
  by (simp add: stage_of_def)

lemma stage_wf_fence_rows [simp]: "stage_wf (d\<lparr>fence_rows := rs\<rparr>) = stage_wf d"
  by (simp add: stage_wf_def)

text \<open>The database after \<open>Save\<close>: unchanged, the checkpoint written, or also the lease's state mirrored.\<close>

definition put_checkpoint :: "cutoverMachine \<Rightarrow> cutoverCheckpoint \<Rightarrow> 'x stage_db_scheme \<Rightarrow> 'x stage_db_scheme" where
  "put_checkpoint m cp d = (case stage_of d (cm_migrationID m) (cm_stageName m) of
       None \<Rightarrow> d
     | Some r \<Rightarrow> on_stage (ps_ID r) (\<lambda>r. r\<lparr>ps_CheckpointData := CkCutover cp\<rparr>) d)"

definition put_lease_state :: "int \<Rightarrow> string \<Rightarrow> 'x stage_db_scheme \<Rightarrow> 'x stage_db_scheme" where
  "put_lease_state i st d =
     d\<lparr>fence_rows := map (\<lambda>r. if fl_ID r = i then r\<lparr>fl_State := st\<rparr> else r) (fence_rows d)\<rparr>"

lemma GetStageByName_eq:
  assumes "GetStageByName mid name w = (r, w')"
  shows "w' = tick w" "r = Inr x \<Longrightarrow> stage_of (w_db w) mid name = Some x"
  using assms by (auto simp: GetStageByName_def db_read_def split: fault.splits option.splits)

lemma cutover_Save_cases:
  assumes "cutover_Save m cp (Some l) w = (r, cp', w')"
  obtains (nothing) e where "r = Inl e" "w_db w' = w_db w" "cp' = cp \<or> cp' = with_lease (Some l) cp"
  | (checkpoint) e where "r = Inl e" "cp' = with_lease (Some l) cp" "w_db w' = put_checkpoint m cp' (w_db w)"
  | (both) "cp' = with_lease (Some l) cp"
      "w_db w' = put_lease_state (fl_ID l) (sub_str (ck_SubState cp)) (put_checkpoint m cp' (w_db w))"
proof -
  obtain g w1 where g: "GetStageByName (cm_migrationID m) (cm_stageName m) w = (g, w1)" by fastforce
  show thesis
  proof (cases g)
    case (Inl e)
    then have "r = Inl e" "cp' = cp" "w' = tick w"
      using assms g GetStageByName_eq(1) [OF g] by (auto simp: cutover_Save_def)
    then show thesis by - (rule nothing [of e], simp_all)
  next
    case (Inr x)
    let ?cp = "with_lease (Some l) cp"
    have x: "stage_of (w_db w1) (cm_migrationID m) (cm_stageName m) = Some x" and w1: "w_db w1 = w_db w"
      using GetStageByName_eq [OF g] Inr by auto
    obtain u w2 where u: "UpdateStageCheckpoint (ps_ID x) (CkCutover ?cp) w1 = (u, w2)" by fastforce
    have dbu: "w_db w2 = w_db w1 \<or> w_db w2 = put_checkpoint m ?cp (w_db w1)"
      "\<And>y. u = Inr y \<Longrightarrow> w_db w2 = put_checkpoint m ?cp (w_db w1)"
      using u x by (auto simp: UpdateStageCheckpoint_def put_checkpoint_def db_write_def split: fault.splits)
    show thesis
    proof (cases u)
      case (Inl e)
      then have "r = Inl e" "cp' = ?cp" "w' = w2"
        using assms g \<open>g = Inr x\<close> u by (auto simp: cutover_Save_def Let_def)
      moreover from dbu(1) have "w_db w2 = w_db w \<or> w_db w2 = put_checkpoint m ?cp (w_db w)" using w1 by simp
      ultimately show thesis
        by (elim disjE) (rule nothing [of e], simp_all, rule checkpoint [of e], simp_all)
    next
      case (Inr y)
      obtain v w3 where v: "SetState (cm_authority m) (Some l) (sub_str (ck_SubState cp)) w2 = (v, w3)"
        by fastforce
      have dbv: "w_db w3 = w_db w2 \<and> (\<exists>e. v = Inl e)
          \<or> w_db w3 = put_lease_state (fl_ID l) (sub_str (ck_SubState cp)) (w_db w2)"
        using v by (auto simp: SetState_def UpdateFenceLeaseState_def put_lease_state_def db_write_def
            split: fault.splits)
      have res: "cp' = ?cp" "w' = w3" "r = v"
        using assms g \<open>g = Inr x\<close> u Inr v by (auto simp: cutover_Save_def Let_def split: sum.splits)
      from dbv show thesis
        using checkpoint both res dbu(2) [OF Inr] w1 by auto
    qed
  qed
qed

lemma cutover_Save_ok:
  assumes "cutover_Save m cp (Some l) w = (Inr u, cp', w')"
  shows "cp' = with_lease (Some l) cp \<and>
    w_db w' = put_lease_state (fl_ID l) (sub_str (ck_SubState cp)) (put_checkpoint m cp' (w_db w))"
  using assms
  by (auto simp: cutover_Save_def Let_def SetState_def UpdateFenceLeaseState_def UpdateStageCheckpoint_def
      put_lease_state_def put_checkpoint_def GetStageByName_def db_write_def db_read_def
      split: prod.splits sum.splits fault.splits option.splits)

lemma cutover_Save_frame:
  assumes "cutover_Save m cp l w = (r, cp', w')"
  shows "w_log w' = w_log w \<and> w_clock w' = w_clock w \<and> w_env w' = w_env w"
  using assms
  by (auto simp: cutover_Save_def Let_def SetState_def UpdateFenceLeaseState_def UpdateStageCheckpoint_def
      split: prod.splits sum.splits option.splits
      dest!: db_write_frames GetStageByName_eq(1))

lemma put_facts [simp]:
  "stage_wf (put_checkpoint m cp d) = stage_wf d" "stage_wf (put_lease_state i st d) = stage_wf d"
  "fence_wf (put_checkpoint m cp d) = fence_wf d"
  "lease_of (put_checkpoint m cp d) mid = lease_of d mid"
  "stage_of (put_lease_state i st d) mid name = stage_of d mid name"
  by (simp_all add: put_checkpoint_def put_lease_state_def split: option.split)

lemma fence_wf_put_lease_state [simp]: "fence_wf d \<Longrightarrow> fence_wf (put_lease_state i st d)"
  unfolding put_lease_state_def by (rule fence_wf_map) auto

lemma lease_of_put_lease_state:
  "lease_of (put_lease_state i st d) mid =
     map_option (\<lambda>r. if fl_ID r = i then r\<lparr>fl_State := st\<rparr> else r) (lease_of d mid)"
  unfolding put_lease_state_def by (subst lease_of_map) auto

lemma stage_of_put_checkpoint:
  assumes "stage_of (put_checkpoint m cp d) (cm_migrationID m) (cm_stageName m) = Some r"
  shows "ps_CheckpointData r = CkCutover cp"
  using assms by (auto simp: put_checkpoint_def stage_of_on_stage split: option.splits)

subsection \<open>The order of the steps, across crashes\<close>

definition acted :: "cut_event list \<Rightarrow> CutoverSubState \<Rightarrow> bool" where
  "acted es s \<longleftrightarrow> (\<exists>e \<in> set es. ev_step e = s \<and> is_ok (ev_result e))"

text \<open>An action of a step runs only after a successful action of every step before it.\<close>

definition log_ok :: "cut_event list \<Rightarrow> bool" where
  "log_ok es \<longleftrightarrow> (\<forall>i < length es. \<forall>s.
     SubNone < s \<and> s < ev_step (es ! i) \<longrightarrow> acted (take i es) s)"

lemma log_ok_Nil [simp]: "log_ok []"
  by (simp add: log_ok_def)

lemma log_ok_snoc:
  "log_ok (es @ [e]) \<longleftrightarrow> log_ok es \<and> (\<forall>s. SubNone < s \<and> s < ev_step e \<longrightarrow> acted es s)"
  by (auto simp: log_ok_def less_Suc_eq nth_append)

lemma acted_append [simp]: "acted (es @ fs) s \<longleftrightarrow> acted es s \<or> acted fs s"
  by (auto simp: acted_def)

lemma acted_single [simp]: "acted [e] s \<longleftrightarrow> ev_step e = s \<and> is_ok (ev_result e)"
  by (simp add: acted_def)

text \<open>A checkpoint marks exactly the steps before its sub-state, and each of them did act.\<close>

definition ck_ok :: "cutoverCheckpoint \<Rightarrow> bool" where
  "ck_ok cp \<longleftrightarrow> (\<forall>s. step_result cp s \<noteq> '''' \<longleftrightarrow> SubNone < s \<and> s < ck_SubState cp)"

definition covers :: "cut_event list \<Rightarrow> cutoverCheckpoint \<Rightarrow> bool" where
  "covers es cp \<longleftrightarrow> (\<forall>s. SubNone < s \<and> s < ck_SubState cp \<longrightarrow> acted es s)"

lemma ck_ok_with_lease [simp]: "ck_ok (with_lease l cp) = ck_ok cp"
  by (simp add: ck_ok_def)

lemma covers_with_lease [simp]: "covers es (with_lease l cp) = covers es cp"
  by (simp add: covers_def)

lemma covers_append: "covers es cp \<Longrightarrow> covers (es @ fs) cp"
  by (auto simp: covers_def)

definition db_ok :: "cutoverMachine \<Rightarrow> 'x cut_world \<Rightarrow> bool" where
  "db_ok m w \<longleftrightarrow> fence_wf (w_db w) \<and> stage_wf (w_db w) \<and> log_ok (w_log w) \<and>
     (\<forall>r cp. stage_of (w_db w) (cm_migrationID m) (cm_stageName m) = Some r
        \<and> ps_CheckpointData r = CkCutover cp \<longrightarrow> ck_ok cp \<and> covers (w_log w) cp)"

text \<open>While a run has checkpoint \<open>cp\<close> in memory, the lease is the one the run started with, up to its
  state, and that state is one of the sub-states up to the checkpoint's own.\<close>

definition lease_le :: "cutoverMachine \<Rightarrow> FenceLease \<Rightarrow> cutoverCheckpoint \<Rightarrow> 'x cut_world \<Rightarrow> bool" where
  "lease_le m x cp w \<longleftrightarrow> (\<forall>l. lease_of (w_db w) (cm_migrationID m) = Some l \<longrightarrow>
     (\<exists>s \<le> ck_SubState cp. l = x\<lparr>fl_State := sub_str s\<rparr>))"

definition run_inv :: "cutoverMachine \<Rightarrow> FenceLease \<Rightarrow> cutoverCheckpoint \<Rightarrow> 'x cut_world \<Rightarrow> bool" where
  "run_inv m x cp w \<longleftrightarrow> db_ok m w \<and> ck_ok cp \<and> covers (w_log w) cp \<and> SubNone < ck_SubState cp \<and> lease_le m x cp w"

lemma lease_le_mono:
  "lease_le m x cp w \<Longrightarrow> ck_SubState cp \<le> ck_SubState cp' \<Longrightarrow> lease_le m x cp' w"
  unfolding lease_le_def by (meson order_trans)

lemma db_ok_cong:
  assumes "w_db w' = w_db w" "w_log w' = w_log w"
  shows "db_ok m w' = db_ok m w" "lease_le m x cp w' = lease_le m x cp w"
  using assms by (simp_all add: db_ok_def lease_le_def)

lemma db_ok_put_checkpoint:
  assumes "db_ok m w" "ck_ok cp" "covers (w_log w) cp"
    and "w_db w' = put_checkpoint m cp (w_db w)" "w_log w' = w_log w"
  shows "db_ok m w'"
  using assms by (auto simp: db_ok_def dest!: stage_of_put_checkpoint)

lemma cutover_Save_db_ok:
  assumes "cutover_Save m cp (Some l) w = (r, cp', w')"
    and "db_ok m w" "ck_ok cp" "covers (w_log w) cp"
  shows "db_ok m w' \<and> ck_ok cp' \<and> covers (w_log w') cp' \<and> ck_SubState cp' = ck_SubState cp"
proof -
  have lg: "w_log w' = w_log w" using cutover_Save_frame [OF assms(1)] by simp
  from assms(1) show ?thesis
  proof (cases rule: cutover_Save_cases)
    case (nothing e)
    then show ?thesis using assms(2-4) lg db_ok_cong(1) [of w' w m] by auto
  next
    case (checkpoint e)
    then show ?thesis using db_ok_put_checkpoint [OF assms(2), of cp' w'] assms(3,4) lg by simp
  next
    case both
    have "db_ok m (w\<lparr>w_db := put_checkpoint m cp' (w_db w)\<rparr>)"
      using db_ok_put_checkpoint [OF assms(2), of cp'] assms(3,4) both by simp
    then have "db_ok m w'" using both lg by (simp add: db_ok_def) blast
    then show ?thesis using both assms(3,4) lg by simp
  qed
qed

lemma cutover_Save_lease_le:
  assumes "cutover_Save m cp (Some l) w = (r, cp', w')" and "lease_le m x cp w"
  shows "lease_le m x cp' w'"
  using assms(1)
proof (cases rule: cutover_Save_cases)
  case both
  then show ?thesis using assms(2)
    by (auto simp: lease_le_def lease_of_put_lease_state split: if_splits) (metis order_refl)
qed (use assms(2) in \<open>auto simp: lease_le_def\<close>)

lemma cutover_Save_inv:
  assumes "cutover_Save m cp (Some l) w = (r, cp', w')" and "run_inv m x cp w"
  shows "run_inv m x cp' w' \<and> ck_SubState cp' = ck_SubState cp"
  using assms(2) cutover_Save_db_ok [OF assms(1), of] cutover_Save_lease_le [OF assms(1), of x]
  by (auto simp: run_inv_def)

lemma cutover_Save_mirror:
  assumes "cutover_Save m cp (Some l) w = (Inr u, cp', w')" and "lease_of (w_db w) (cm_migrationID m) = Some l"
  shows "lease_of (w_db w') (cm_migrationID m) = Some (l\<lparr>fl_State := sub_str (ck_SubState cp)\<rparr>)"
  using cutover_Save_ok [OF assms(1)] assms(2) by (simp add: lease_of_put_lease_state)

lemma advance_unfold:
  assumes "advance m a cp lease st out w = (r, cp', out', w')"
  obtains (skip) "StepDone (Some cp) (cs_from st)" "r = Inl ErrCutoverReentryDone" "cp' = cp" "out' = out" "w' = w"
  | (fence) e where "\<not> StepDone (Some cp) (cs_from st)"
      "AssertHolds a (cm_migrationID m) (fl_Holder lease) (fl_FenceToken lease) (sub_str (cs_from st)) w = (Inl e, w')"
      "r = Inl (ErrWrap (''cutover '' @ sub_str (cs_from st) @ '': fence not held: '') e '''')" "cp' = cp" "out' = out"
  | (act) x w1 d w2 where "\<not> StepDone (Some cp) (cs_from st)"
      "AssertHolds a (cm_migrationID m) (fl_Holder lease) (fl_FenceToken lease) (sub_str (cs_from st)) w = (Inr x, w1)"
      "run_action st lease out w1 = (d, out', w2)"
      "case d of Inl e \<Rightarrow> r = Inl (ErrWrap (''cutover '' @ sub_str (cs_from st) @ '': '') e '''') \<and> cp' = cp \<and> w' = w2
        | Inr data \<Rightarrow> MarkStep m cp (Some lease) (cs_from st) (cs_to st) data w2 = (r, cp', w')"
  using assms unfolding advance_def
  by (auto split: if_splits prod.splits sum.splits)

lemma run_action_effect:
  assumes "run_action st lease out w = (d, out', w')"
  shows "w_db w' = w_db w \<and> w_clock w' = w_clock w \<and> w_env w' = w_env w \<and> w_tick w' = Suc (w_tick w) \<and>
    w_log w' = w_log w @ [\<lparr>ev_step = cs_from st, ev_tick = w_tick w, ev_result = d\<rparr>]"
  using assms by (auto simp: run_action_def split: prod.splits)

text \<open>What the table of steps guarantees of each step: its edge is legal and its result is not empty.\<close>

definition step_sane :: "cutoverStep \<Rightarrow> bool" where
  "step_sane st \<longleftrightarrow> cs_from st \<noteq> SubNone \<and> sub_rank (cs_to st) = Suc (sub_rank (cs_from st)) \<and>
     (\<forall>n l out data. fst (cs_action st n l out) = Inr data \<longrightarrow> data \<noteq> '''')"

lemma cutover_steps_sane: "st \<in> set (cutover_steps dr cfg) \<Longrightarrow> step_sane st"
  by (auto simp: cutover_steps_def step_sane_def stepPreflight_def stepSeed_def stepReplicating_def
      stepVerifying_def stepAwaitingCutover_def stepFencingSource_def stepCatchingUp_def
      stepVerifyingTarget_def stepSwitching_def stepPromoting_def stepObserving_def Let_def
      split: prod.splits option.splits if_splits)

lemma less_next: "sub_rank t = Suc (sub_rank f) \<Longrightarrow> s < t \<longleftrightarrow> s = f \<or> s < f"
  by (auto simp: less_CutoverSubState_def less_Suc_eq)

lemma MarkStep_inv:
  assumes "MarkStep m cp (Some l) from to data w = (r, cp', w')"
    and "db_ok m w" "ck_ok cp" "covers (w_log w) cp" "SubNone < ck_SubState cp" "lease_le m x cp w"
    and "acted (w_log w) from" "sub_rank to = Suc (sub_rank from)" "data \<noteq> ''''"
  shows "run_inv m x cp' w' \<and> w_log w' = w_log w"
proof (cases "ck_SubState cp = from \<and> step_result cp from = ''''")
  case False
  moreover have "validCutoverTransition from to" if "ck_SubState cp = from"
    using that assms(5,8) by (auto simp: validCutoverTransition_rank)
  ultimately show ?thesis
    using assms by (auto simp: MarkStep_def run_inv_def split: if_splits)
next
  case True
  let ?cp = "with_lease (Some l) (cp\<lparr>ck_Steps := (ck_Steps cp)(from \<mapsto> data), ck_SubState := to\<rparr>)"
  have "validCutoverTransition from to" using True assms(5,8) by (auto simp: validCutoverTransition_rank)
  with True assms(1) have save: "cutover_Save m ?cp (Some l) w = (r, cp', w')"
    by (simp add: MarkStep_def)
  have up: "s < to \<longleftrightarrow> s = from \<or> s < from" for s using assms(8) by (rule less_next)
  have "ck_ok ?cp"
    using assms(3,5,9) True up by (auto simp: ck_ok_def step_result_def)
  moreover have "covers (w_log w) ?cp" using assms(4,7) True up by (auto simp: covers_def)
  moreover have "SubNone < to" using assms(5) True up by auto
  moreover have "lease_le m x ?cp w"
    using lease_le_mono [OF assms(6)] assms(8) True by (simp add: less_eq_CutoverSubState_def)
  ultimately have "run_inv m x ?cp w" using assms(2) by (simp add: run_inv_def)
  then show ?thesis using cutover_Save_inv [OF save] cutover_Save_frame [OF save] by simp
qed

text \<open>Every event lies before the lease's expiry.\<close>

definition fenced_events :: "(nat \<Rightarrow> int) \<Rightarrow> FenceLease \<Rightarrow> cut_event list \<Rightarrow> bool" where
  "fenced_events clk l es \<longleftrightarrow> (\<forall>e \<in> set es. fl_ReleasedAt l = None \<and>
     (\<exists>n. fl_ExpiresAt l = Stamp n \<and> clk (ev_tick e) < n * second))"

lemma advance_inv:
  assumes "advance m a cp lease st out w = (r, cp', out', w')"
    and inv: "run_inv m x cp w" and "step_sane st"
  shows "run_inv m x cp' w' \<and> w_clock w' = w_clock w
    \<and> (\<exists>new. w_log w' = w_log w @ new \<and> fenced_events (w_clock w) x new
        \<and> (\<forall>e \<in> set new. ev_step e = cs_from st \<and> cs_from st = ck_SubState cp))"
  using assms(1)
proof (cases rule: advance_unfold)
  case skip
  then show ?thesis using inv by (simp add: fenced_events_def)
next
  case (fence e)
  then have "w' = tick w" by (simp add: AssertHolds_frame)
  then show ?thesis using fence inv
    by (simp add: run_inv_def db_ok_cong [of "tick w" w] fenced_events_def)
next
  case (act l w1 d w2)
  have w1: "w1 = tick w" using AssertHolds_frame [OF act(2)] .
  note live = AssertHolds_ok [OF act(2)]
  note eff = run_action_effect [OF act(3)]
  have i: "db_ok m w" "ck_ok cp" "covers (w_log w) cp" "SubNone < ck_SubState cp" "lease_le m x cp w"
    using inv by (auto simp: run_inv_def)
  have sane: "cs_from st \<noteq> SubNone" "sub_rank (cs_to st) = Suc (sub_rank (cs_from st))"
    using assms(3) by (auto simp: step_sane_def)
  obtain s where s: "s \<le> ck_SubState cp" "l = x\<lparr>fl_State := sub_str s\<rparr>"
    using live i(5) by (auto simp: live_lease_def lease_le_def)
  have "s = cs_from st" using live s sane by (simp add: live_lease_def)
  moreover have "\<not> (SubNone < cs_from st \<and> cs_from st < ck_SubState cp)"
    using act(1) i(2) unfolding ck_ok_def StepDone_Some by blast
  ultimately have here: "cs_from st = ck_SubState cp"
    using s(1) sane(1) SubNone_less by (auto simp: order_le_less)
  let ?e = "\<lparr>ev_step = cs_from st, ev_tick = w_tick w1, ev_result = d\<rparr>"
  have log2: "w_log w2 = w_log w @ [?e]" and db2: "w_db w2 = w_db w" using eff w1 by auto
  have fenced: "fenced_events (w_clock w) x [?e]"
    using live s(2) w1 by (auto simp: fenced_events_def live_lease_def split: stamp.splits)
  have db_ok2: "db_ok m w2" "covers (w_log w2) cp" "lease_le m x cp w2"
    using i log2 db2 here covers_append by (auto simp: db_ok_def log_ok_snoc covers_def lease_le_def)
  show ?thesis
  proof (cases d)
    case (Inl err)
    then have "cp' = cp" "w' = w2" using act(4) by auto
    then show ?thesis using db_ok2 i log2 fenced here eff w1
      by (auto simp: run_inv_def intro!: exI [of _ "[?e]"])
  next
    case (Inr data)
    then have mark: "MarkStep m cp (Some lease) (cs_from st) (cs_to st) data w2 = (r, cp', w')"
      using act(4) by simp
    have "data \<noteq> ''''"
      using act(3) Inr assms(3) unfolding run_action_def step_sane_def
      by (metis (no_types, lifting) Pair_inject case_prod_beta)
    moreover have "acted (w_log w2) (cs_from st)" using log2 Inr by simp
    ultimately have "run_inv m x cp' w' \<and> w_log w' = w_log w2"
      using MarkStep_inv [OF mark db_ok2(1) i(2) db_ok2(2) i(4) db_ok2(3)] sane by simp
    moreover have "w_clock w' = w_clock w"
      using mark eff w1 by (auto simp: MarkStep_def split: if_splits dest!: cutover_Save_frame)
    ultimately show ?thesis using log2 fenced here
      by (auto intro!: exI [of _ "[?e]"])
  qed
qed

lemma MarkStep_mono:
  assumes "MarkStep m cp l from to data w = (r, cp', w')"
  shows "ck_SubState cp \<le> ck_SubState cp'"
proof -
  have "ck_SubState cp' = ck_SubState c" if "cutover_Save m c l w = (r, cp', w')" for c
    using that by (auto simp: cutover_Save_def Let_def split: prod.splits sum.splits option.splits)
  then show ?thesis using assms
    by (auto simp: MarkStep_def validCutoverTransition_rank less_eq_CutoverSubState_def split: if_splits)
qed

lemma advance_mono:
  assumes "advance m a cp lease st out w = (r, cp', out', w')"
  shows "ck_SubState cp \<le> ck_SubState cp'"
  using assms by (cases rule: advance_unfold) (auto split: sum.splits dest: MarkStep_mono)

lemma fenced_events_append [simp]:
  "fenced_events clk l (es @ fs) \<longleftrightarrow> fenced_events clk l es \<and> fenced_events clk l fs"
  by (auto simp: fenced_events_def)

lemma Release_frame:
  assumes "Release a (Some l) w = (r, w')"
  shows "w_log w' = w_log w" "w_clock w' = w_clock w"
  using assms by (auto simp: Release_def ReleaseFenceLease_def dest: db_write_frames)

lemma Release_stages:
  assumes "Release a (Some l) w = (r, w')"
  shows "stage_rows (w_db w') = stage_rows (w_db w) \<and> stage_seq (w_db w') = stage_seq (w_db w)"
  using assms by (auto simp: Release_def ReleaseFenceLease_def db_write_def split: fault.splits if_splits)

lemma Release_wf:
  assumes "Release a (Some l) w = (r, w')" "fence_wf (w_db w)"
  shows "fence_wf (w_db w')"
  using assms ReleaseFenceLease_change [of "fl_ID l" "fl_Holder l" "fl_FenceToken l" w r w']
  by (auto simp: Release_def lease_change_def)

lemma db_ok_fence_change:
  assumes "db_ok m w" "stage_rows (w_db w') = stage_rows (w_db w)" "stage_seq (w_db w') = stage_seq (w_db w)"
    "w_log w' = w_log w" "fence_wf (w_db w')"
  shows "db_ok m w'"
  using assms by (auto simp: db_ok_def stage_wf_def stage_of_def)

lemma run_steps_inv:
  assumes "run_steps san m a cp lease sts out w = (res, w')"
    and "run_inv m x cp w" and "\<forall>st \<in> set sts. step_sane st"
  shows "db_ok m w' \<and> w_clock w' = w_clock w \<and> (\<exists>new. w_log w' = w_log w @ new
    \<and> fenced_events (w_clock w) x new \<and> (\<forall>e \<in> set new. ck_SubState cp \<le> ev_step e))"
  using assms
proof (induction sts arbitrary: cp out w)
  case Nil
  obtain u where rel: "Release a (Some lease) w = (u, w')"
    using Nil.prems(1) by (auto split: prod.splits)
  have ok: "db_ok m w" using Nil.prems(2) by (simp add: run_inv_def)
  then have "fence_wf (w_db w')" using Release_wf [OF rel] by (simp add: db_ok_def)
  with Release_stages [OF rel] Release_frame [OF rel] have "db_ok m w'"
    by (intro db_ok_fence_change [OF ok]) auto
  then show ?case using Release_frame [OF rel] by (simp add: fenced_events_def)
next
  case (Cons st sts)
  obtain r cp1 out1 w1 where adv: "advance m a cp lease st out w = (r, cp1, out1, w1)"
    by (metis prod_cases4)
  have sane: "step_sane st" "\<forall>st \<in> set sts. step_sane st" using Cons.prems(3) by auto
  from advance_inv [OF adv Cons.prems(2) sane(1)] obtain new where
    inv1: "run_inv m x cp1 w1" and clk: "w_clock w1 = w_clock w" and log1: "w_log w1 = w_log w @ new"
    and new: "fenced_events (w_clock w) x new" "\<forall>e \<in> set new. ev_step e = ck_SubState cp"
    by auto
  show ?case
  proof (cases "\<exists>out2. run_steps san m a cp1 lease sts out2 w1 = (res, w')")
    case True
    then obtain out2 where "run_steps san m a cp1 lease sts out2 w1 = (res, w')" ..
    from Cons.IH [OF this inv1 sane(2)] obtain new2 where
      "db_ok m w'" "w_clock w' = w_clock w1" "w_log w' = w_log w1 @ new2"
      "fenced_events (w_clock w1) x new2" "\<forall>e \<in> set new2. ck_SubState cp1 \<le> ev_step e"
      by auto
    moreover have "ck_SubState cp \<le> ck_SubState cp1" using advance_mono [OF adv] sane(1) by simp
    ultimately show ?thesis using clk log1 new by (auto intro!: exI [of _ "new @ new2"])
  next
    case False
    then obtain s cp2 where save: "cutover_Save m cp1 (Some lease) w1 = (s, cp2, w')"
      using Cons.prems(1) adv by (auto simp: Let_def split: sum.splits if_splits prod.splits)
    then have "db_ok m w'" using cutover_Save_inv [OF save inv1] by (simp add: run_inv_def)
    then show ?thesis using cutover_Save_frame [OF save] clk log1 new by auto
  qed
qed

lemma cutover_Load_ok:
  assumes "cutover_Load m w = (r, w')"
  shows "w_db w' = w_db w \<and> w_log w' = w_log w \<and> w_clock w' = w_clock w"
    and "r = Inr cp \<Longrightarrow> cp = empty_checkpoint \<or> (\<exists>row. ps_CheckpointData row = CkCutover cp
      \<and> stage_of (w_db w) (cm_migrationID m) (cm_stageName m) = Some row)"
  using assms
  by (auto simp: cutover_Load_def unmarshal_checkpoint_def
      split: prod.splits sum.splits if_splits checkpoint_blob.splits
      dest!: AssertHolds_frame dest: GetStageByName_eq)

lemma db_ok_checkpoint:
  assumes "cutover_Load m w = (Inr cp, w')" and "db_ok m w"
  shows "ck_ok cp \<and> covers (w_log w) cp"
  using cutover_Load_ok(2) [OF assms(1) refl] assms(2)
  by (auto simp: db_ok_def ck_ok_def covers_def empty_checkpoint_def step_result_def less_CutoverSubState_def)

lemma acquireOrRecover_ok:
  assumes "acquireOrRecover m a cfg cp w = (Inr l, w')" and "fence_wf (w_db w)"
    and "cr_MigrationID cfg = cm_migrationID m"
  shows "lease_of (w_db w') (cm_migrationID m) = Some l"
proof (cases "ck_Holder cp \<noteq> '''' \<and> ck_Token cp \<noteq> 0")
  case True
  then have "AssertHolds a (cm_migrationID m) (ck_Holder cp) (ck_Token cp) (sub_str (ck_SubState cp)) w = (Inr l, w')"
    using assms(1) by (auto simp: acquireOrRecover_def split: prod.splits sum.splits)
  from AssertHolds_ok [OF this] AssertHolds_frame [OF this] show ?thesis
    by (simp add: live_lease_def)
next
  case False
  then show ?thesis
    using assms Acquire_ok [of a "cr_MigrationID cfg" "cr_Holder cfg" "sub_str (ck_SubState cp)" w l w']
    by (auto simp: acquireOrRecover_def)
qed

lemma acquire_fresh_stages:
  assumes "acquire_fresh a mid h st ex now w = (r, w')"
  shows "stage_rows (w_db w') = stage_rows (w_db w) \<and> stage_seq (w_db w') = stage_seq (w_db w)
    \<and> w_log w' = w_log w"
  using assms
  by (auto simp: acquire_fresh_def Let_def reactivateFenceLease_def CreateFenceLease_def db_write_def
      split: option.splits prod.splits sum.splits fault.splits if_splits)

lemma Acquire_stages:
  assumes "Acquire a mid h st w = (r, w')"
  shows "stage_rows (w_db w') = stage_rows (w_db w) \<and> stage_seq (w_db w') = stage_seq (w_db w)
    \<and> w_log w' = w_log w"
  using assms
  by (auto simp: Acquire_def Let_def split: option.splits prod.splits sum.splits if_splits
      dest!: acquire_fresh_stages GetFenceLease_tick)

lemma acquireOrRecover_frame:
  assumes "acquireOrRecover m a cfg cp w = (r, w')" and "db_ok m w"
  shows "db_ok m w' \<and> w_log w' = w_log w \<and> w_clock w' = w_clock w"
proof (cases "ck_Holder cp \<noteq> '''' \<and> ck_Token cp \<noteq> 0")
  case True
  then have "w' = tick w" using assms(1)
    by (auto simp: acquireOrRecover_def split: prod.splits sum.splits dest!: AssertHolds_frame)
  then show ?thesis using assms(2) db_ok_cong(1) [of w' w m] by simp
next
  case False
  then have acq: "Acquire a (cr_MigrationID cfg) (cr_Holder cfg) (sub_str (ck_SubState cp)) w = (r, w')"
    using assms(1) by (auto simp: acquireOrRecover_def)
  have "fence_wf (w_db w)" using assms(2) by (simp add: db_ok_def)
  with acq have "fence_wf (w_db w')"
    using auth_op_wf [OF ao_acquire [OF acq]] by simp
  with Acquire_stages [OF acq] Acquire_clock [OF acq] show ?thesis
    using db_ok_fence_change [OF assms(2)] by auto
qed

lemma step_result_state [simp]: "step_result (cp\<lparr>ck_SubState := s\<rparr>) = step_result cp"
  by (simp add: step_result_def fun_eq_iff)

lemma not_before_Preflight [simp]: "s < SubPreflight \<longleftrightarrow> s = SubNone"
  by (cases s) (simp_all add: less_CutoverSubState_def)

lemma not_before_None [simp]: "\<not> s < SubNone"
  by (simp add: less_CutoverSubState_def)

lemma SubNone_le [simp]: "SubNone \<le> s"
  by (simp add: less_eq_CutoverSubState_def)

lemma ck_start:
  assumes "ck_ok cp" "covers es cp"
  shows "ck_ok (if ck_SubState cp = SubNone then cp\<lparr>ck_SubState := SubPreflight\<rparr> else cp)
    \<and> covers es (if ck_SubState cp = SubNone then cp\<lparr>ck_SubState := SubPreflight\<rparr> else cp)
    \<and> SubNone < ck_SubState (if ck_SubState cp = SubNone then cp\<lparr>ck_SubState := SubPreflight\<rparr> else cp)
    \<and> ck_SubState cp \<le> ck_SubState (if ck_SubState cp = SubNone then cp\<lparr>ck_SubState := SubPreflight\<rparr> else cp)"
  using assms by (cases "ck_SubState cp = SubNone") (simp_all add: ck_ok_def covers_def)

text \<open>The events a run adds: under the lease the outcome names, before its expiry, and none of a step that
  the persisted checkpoint already marks.\<close>

lemma Run_inv:
  assumes run: "Run san m a dr cfg w = ((out, err), w')" and ok: "db_ok m w"
    and mid: "cr_MigrationID cfg = cm_migrationID m"
  shows "db_ok m w' \<and> (\<exists>new. w_log w' = w_log w @ new \<and> (new = [] \<or>
    (\<exists>cp w1 l w2. cutover_Load m w = (Inr cp, w1) \<and> ck_SubState cp \<noteq> SubCompleted
      \<and> acquireOrRecover m a cfg (if ck_SubState cp = SubNone then cp\<lparr>ck_SubState := SubPreflight\<rparr> else cp) w1 = (Inr l, w2)
      \<and> fenced_events (w_clock w) l new
      \<and> (\<forall>e \<in> set new. ck_SubState cp \<le> ev_step e))))"
proof -
  obtain ld w1 where ld: "cutover_Load m w = (ld, w1)" by fastforce
  note L = cutover_Load_ok(1) [OF ld]
  have ok1: "db_ok m w1" using ok L db_ok_cong(1) [of w1 w m] by simp
  consider (stop) "w' = w \<or> w' = w1"
    | (go) cp0 where "ld = Inr cp0" "ck_SubState cp0 \<noteq> SubCompleted"
      "\<not> (w' = w \<or> w' = w1)"
    using run ld by (cases ld) (auto simp: Run_def Let_def split: if_splits)
  then show ?thesis
  proof cases
    case stop
    then show ?thesis using ok ok1 L by auto
  next
    case go
    let ?cp = "if ck_SubState cp0 = SubNone then cp0\<lparr>ck_SubState := SubPreflight\<rparr> else cp0"
    obtain q w2 where acq: "acquireOrRecover m a cfg ?cp w1 = (q, w2)" by fastforce
    note A = acquireOrRecover_frame [OF acq ok1]
    show ?thesis
    proof (cases q)
      case (Inl e)
      then have "w' = w2" using run ld go acq by (auto simp: Run_def Let_def split: if_splits)
      then show ?thesis using A L by simp
    next
      case (Inr l)
      obtain s cp1 w3 where save: "cutover_Save m ?cp (Some l) w2 = (s, cp1, w3)" by (metis prod_cases3)
      have ck: "ck_ok cp0" "covers (w_log w) cp0"
        using db_ok_checkpoint [of m w cp0 w1] ld go(1) ok by auto
      have ck: "ck_ok ?cp \<and> covers (w_log w) ?cp \<and> SubNone < ck_SubState ?cp \<and> ck_SubState cp0 \<le> ck_SubState ?cp"
        using ck_start [OF ck] .
      from cutover_Save_db_ok [OF save] A L ck
      have S: "db_ok m w3" "ck_ok cp1" "covers (w_log w3) cp1" "ck_SubState cp1 = ck_SubState ?cp" by auto
      note F = cutover_Save_frame [OF save]
      show ?thesis
      proof (cases s)
        case (Inl e)
        then have "w' = w3" using run ld go acq save \<open>q = Inr l\<close> by (auto simp: Run_def Let_def split: if_splits)
        then show ?thesis using S F A L by simp
      next
        case (Inr u)
        have "lease_of (w_db w2) (cm_migrationID m) = Some l"
          using acquireOrRecover_ok [OF _ _ mid] acq \<open>q = Inr l\<close> ok1 by (auto simp: db_ok_def)
        from cutover_Save_mirror [OF _ this] save Inr
        have "lease_le m l cp1 w3" using S(4) by (auto simp: lease_le_def)
        with S ck have inv: "run_inv m l cp1 w3" by (simp add: run_inv_def)
        obtain res where steps: "run_steps san m a cp1 l (cutover_steps dr cfg)
            (new_outcome\<lparr>co_FinalState := ck_SubState ?cp, co_Holder := fl_Holder l, co_Token := fl_FenceToken l\<rparr>) w3 = (res, w')"
          using run ld go acq save Inr \<open>q = Inr l\<close>
          by (auto simp: Run_def Let_def split: if_splits prod.splits)
        from run_steps_inv [OF steps inv] cutover_steps_sane
        obtain new where "db_ok m w'" "w_log w' = w_log w3 @ new" "fenced_events (w_clock w3) l new"
          "\<forall>e \<in> set new. ck_SubState cp1 \<le> ev_step e" by blast
        moreover have "ck_SubState cp0 \<le> ck_SubState cp1" using ck S(4) by simp
        ultimately show ?thesis
          using F A L ld go acq \<open>q = Inr l\<close> by (auto intro!: exI [of _ new])
      qed
    qed
  qed
qed

subsection \<open>Runs, restarts and the pipeline around them\<close>

text \<open>What happens to the database between and around runs: any authority call of any process, the
  pipeline's own statements on stage rows, and runs of the orchestrator, each with its own drivers,
  request and faults. A crash inside a run is a run whose remaining statements all fail.\<close>

inductive cut_step :: "cutoverMachine \<Rightarrow> 'x cut_world \<Rightarrow> 'x cut_world \<Rightarrow> bool" for m where
  cs_run: "Run san m a dr cfg w = (res, w') \<Longrightarrow> cr_MigrationID cfg = cm_migrationID m \<Longrightarrow> cut_step m w w'"
| cs_fence: "auth_op a h w w' \<Longrightarrow> cut_step m w w'"
| cs_create: "CreateStage mid name idx w = (r, w') \<Longrightarrow> cut_step m w w'"
| cs_state: "UpdateStageState i st msg w = (r, w') \<Longrightarrow> cut_step m w w'"
| cs_attempt: "IncrementStageAttempt i w = (r, w') \<Longrightarrow> cut_step m w w'"
| cs_result: "UpdateStageResult i tx w = (r, w') \<Longrightarrow> cut_step m w w'"
| cs_stage_done: "UpdateStageCheckpoint i (stageCheckpointJSON name att tot) w = (r, w') \<Longrightarrow> cut_step m w w'"

lemma auth_op_stages:
  assumes "auth_op a h w w'"
  shows "stage_rows (w_db w') = stage_rows (w_db w) \<and> stage_seq (w_db w') = stage_seq (w_db w) \<and> w_log w' = w_log w"
  using assms
proof cases
  case (ao_renew l r)
  then show ?thesis
    by (auto simp: Renew_def RenewFenceLease_def db_write_def split: fault.splits if_splits)
next
  case (ao_set_state l st r)
  then show ?thesis
    by (auto simp: SetState_def UpdateFenceLeaseState_def db_write_def split: fault.splits)
next
  case (ao_release l r)
  then show ?thesis using Release_stages Release_frame(1) by blast
qed (auto dest: Acquire_stages AssertHolds_frame fence_Load_frame)

lemma db_ok_on_stage:
  assumes "db_ok m w" and "w_db w' = w_db w \<or> w_db w' = on_stage i f (w_db w)" and "w_log w' = w_log w"
    and keep: "\<And>r. ps_MigrationID (f r) = ps_MigrationID r" "\<And>r. ps_StageName (f r) = ps_StageName r"
      "\<And>r. ps_ID (f r) = ps_ID r"
    and ck: "\<And>r. ps_CheckpointData (f r) = ps_CheckpointData r \<or> (\<exists>c. ps_CheckpointData (f r) = CkStage c)"
  shows "db_ok m w'"
  using assms(2)
proof
  assume "w_db w' = w_db w" then show ?thesis using assms(1,3) db_ok_cong(1) [of w' w m] by simp
next
  assume db: "w_db w' = on_stage i f (w_db w)"
  have "ck_ok cp \<and> covers (w_log w) cp"
    if "stage_of (w_db w') (cm_migrationID m) (cm_stageName m) = Some r" "ps_CheckpointData r = CkCutover cp" for r cp
  proof -
    have "map_option (\<lambda>r. if ps_ID r = i then f r else r) (stage_of (w_db w) (cm_migrationID m) (cm_stageName m)) = Some r"
      using that(1) db by (simp add: stage_of_on_stage [of f, OF keep(1,2)])
    then obtain r0 where "stage_of (w_db w) (cm_migrationID m) (cm_stageName m) = Some r0"
      and "r = (if ps_ID r0 = i then f r0 else r0)" 
      by (cases "stage_of (w_db w) (cm_migrationID m) (cm_stageName m)") auto
    moreover from this have "ps_CheckpointData r0 = CkCutover cp"
      using that(2) ck [of r0] by (auto split: if_splits)
    ultimately show ?thesis using assms(1) unfolding db_ok_def by blast
  qed
  then show ?thesis using assms(1,3) db keep by (simp add: db_ok_def)
qed

lemma stage_of_upsert_other:
  assumes "(mid', name') \<noteq> (mid, name)"
  shows "stage_of (upsert_stage mid name idx now d) mid' name' = stage_of d mid' name'"
proof -
  have other: "is_stage mid' name' r \<Longrightarrow> \<not> is_stage mid name r" for r
    using assms by (auto simp: is_stage_def)
  have "List.find (is_stage mid' name') (map (\<lambda>r. if is_stage mid name r then f r else r) rs) = List.find (is_stage mid' name') rs"
    if "\<And>r. is_stage mid' name' (f r) = is_stage mid' name' r" for f rs
    using that other by (induction rs) auto
  moreover have "List.find P (xs @ [y]) = List.find P xs" if "\<not> P y" for P xs and y :: PipelineStage
    using that by (induction xs) auto
  ultimately show ?thesis using assms
    by (auto simp: upsert_stage_def stage_of_def is_stage_def)
qed

lemma db_ok_upsert:
  assumes "db_ok m w" and "w_db w' = upsert_stage mid name idx now (w_db w)" and "w_log w' = w_log w"
  shows "db_ok m w'"
proof -
  have "ck_ok cp \<and> covers (w_log w) cp"
    if s: "stage_of (w_db w') (cm_migrationID m) (cm_stageName m) = Some r" "ps_CheckpointData r = CkCutover cp" for r cp
  proof (cases "(cm_migrationID m, cm_stageName m) = (mid, name)")
    case True
    then show ?thesis
      using s assms stage_of_upsert_same [of mid name idx now "w_db w"]
      by (auto simp: db_ok_def split: option.splits)
  next
    case False
    then have "stage_of (w_db w) (cm_migrationID m) (cm_stageName m) = Some r"
      using s(1) assms(2) by (simp add: stage_of_upsert_other [OF False])
    then show ?thesis using s(2) assms(1) unfolding db_ok_def by blast
  qed
  moreover have "fence_wf (w_db w')"
    using assms by (simp add: db_ok_def fence_wf_def upsert_stage_def)
  ultimately show ?thesis using assms upsert_stage_wf [of "w_db w"] by (simp add: db_ok_def)
qed

lemma db_write_plain:
  "db_write (\<lambda>now d. (q, f now d)) w = (r, w') \<Longrightarrow>
     (w_db w' = w_db w \<or> w_db w' = f (w_now w) (w_db w)) \<and> w_log w' = w_log w"
  by (auto simp: db_write_def split: fault.splits)

lemma cut_step_db_ok:
  assumes "cut_step m w w'" "db_ok m w"
  shows "db_ok m w'"
  using assms(1)
proof cases
  case (cs_run san a dr cfg res)
  obtain out err where "Run san m a dr cfg w = ((out, err), w')"
    using cs_run(1) by (metis prod.collapse)
  then show ?thesis using Run_inv assms(2) cs_run(2) by blast
next
  case (cs_fence a h)
  then have "fence_wf (w_db w')" using auth_op_wf assms(2) by (auto simp: db_ok_def)
  with auth_op_stages [OF cs_fence] show ?thesis by (intro db_ok_fence_change [OF assms(2)]) auto
next
  case (cs_create mid name idx r)
  obtain u w1 where u: "db_write (\<lambda>now d. (Inr () :: unit res, upsert_stage mid name idx now d)) w = (u, w1)" by fastforce
  then have "w_db w' = w_db w1" "w_log w' = w_log w1"
    using cs_create by (auto simp: CreateStage_def split: sum.splits dest: db_read_frame)
  moreover have "w_db w1 = w_db w \<or> w_db w1 = upsert_stage mid name idx (w_now w) (w_db w)" "w_log w1 = w_log w"
    using db_write_db [OF u] db_write_frame [OF u] by auto
  ultimately show ?thesis
    using db_ok_upsert [OF assms(2)] db_ok_cong(1) [of w' w m] assms(2) by auto
next
  case (cs_state i st msg r)
  show ?thesis
    by (rule db_ok_on_stage [OF assms(2), where i = i and f = "\<lambda>r. r\<lparr>ps_State := st, ps_Error := msg, ps_CompletedAt := Some (formatTime (w_now w))\<rparr>"])
      (use cs_state in \<open>auto simp: UpdateStageState_def dest!: db_write_plain\<close>)
next
  case (cs_attempt i r)
  show ?thesis
    by (rule db_ok_on_stage [OF assms(2), where i = i and f = "\<lambda>r. r\<lparr>ps_AttemptCount := ps_AttemptCount r + 1\<rparr>"])
      (use cs_attempt in \<open>auto simp: IncrementStageAttempt_def dest!: db_write_plain\<close>)
next
  case (cs_result i tx r)
  show ?thesis
    by (rule db_ok_on_stage [OF assms(2), where i = i and f = "\<lambda>r. r\<lparr>ps_ResultData := tx\<rparr>"])
      (use cs_result in \<open>auto simp: UpdateStageResult_def dest!: db_write_plain\<close>)
next
  case (cs_stage_done i name att tot r)
  show ?thesis
    by (rule db_ok_on_stage [OF assms(2), where i = i and f = "\<lambda>r. r\<lparr>ps_CheckpointData := stageCheckpointJSON name att tot\<rparr>"])
      (use cs_stage_done in \<open>auto simp: UpdateStageCheckpoint_def stageCheckpointJSON_def dest!: db_write_plain\<close>)
qed

lemma cut_steps_db_ok: "(cut_step m)\<^sup>*\<^sup>* w w' \<Longrightarrow> db_ok m w \<Longrightarrow> db_ok m w'"
  by (induction rule: rtranclp_induct) (auto intro: cut_step_db_ok)

text \<open>A migration whose cutover has not begun.\<close>

definition cutover_fresh :: "cutoverMachine \<Rightarrow> 'x cut_world \<Rightarrow> bool" where
  "cutover_fresh m w \<longleftrightarrow> fence_wf (w_db w) \<and> stage_wf (w_db w) \<and> w_log w = [] \<and>
     (case stage_of (w_db w) (cm_migrationID m) (cm_stageName m) of
        None \<Rightarrow> True | Some r \<Rightarrow> \<forall>cp. ps_CheckpointData r \<noteq> CkCutover cp)"

lemma cutover_fresh_db_ok: "cutover_fresh m w \<Longrightarrow> db_ok m w"
  by (auto simp: cutover_fresh_def db_ok_def)


text \<open>A restarted run never repeats a step that the persisted checkpoint marks: every action it runs
  is one of the checkpoint's sub-state or a later one.\<close>

theorem restart_skips_done_steps:
  assumes "(cut_step m)\<^sup>*\<^sup>* w0 w" and "cutover_fresh m w0"
    and "stage_of (w_db w) (cm_migrationID m) (cm_stageName m) = Some row" and "ps_CheckpointData row = CkCutover cp"
    and "Run san m a dr cfg w = (res, w')" and "cr_MigrationID cfg = cm_migrationID m"
  shows "\<exists>new. w_log w' = w_log w @ new \<and> (\<forall>e \<in> set new. ck_SubState cp \<le> ev_step e)"
proof -
  have ok: "db_ok m w" using cut_steps_db_ok [OF assms(1) cutover_fresh_db_ok [OF assms(2)]] .
  obtain out err where run: "Run san m a dr cfg w = ((out, err), w')" using assms(5) by (metis prod.collapse)
  from Run_inv [OF run ok assms(6)] obtain new where new: "w_log w' = w_log w @ new"
    "new = [] \<or> (\<exists>cp w1. cutover_Load m w = (Inr cp, w1) \<and> (\<forall>e \<in> set new. ck_SubState cp \<le> ev_step e))" by blast
  have "c = cp" if "cutover_Load m w = (Inr c, w1)" for c w1
    using that assms(3,4)
    by (auto simp: cutover_Load_def GetStageByName_def db_read_def unmarshal_checkpoint_def
        split: prod.splits sum.splits if_splits fault.splits)
  with new show ?thesis by fastforce
qed

text \<open>Whatever a run does, it does under one lease: the lease that \<open>acquireOrRecover\<close> gave it, not
  released, and every action starts before that lease expires.\<close>

theorem actions_run_before_expiry:
  assumes "(cut_step m)\<^sup>*\<^sup>* w0 w" and "cutover_fresh m w0"
    and "Run san m a dr cfg w = (res, w')" and "cr_MigrationID cfg = cm_migrationID m"
    and "w_log w' \<noteq> w_log w"
  shows "\<exists>cp w1 l w2 n new. acquireOrRecover m a cfg cp w1 = (Inr l, w2) \<and> w_db w1 = w_db w
    \<and> w_log w1 = w_log w \<and> fl_ReleasedAt l = None \<and> fl_ExpiresAt l = Stamp n
    \<and> w_log w' = w_log w @ new \<and> (\<forall>e \<in> set new. w_clock w (ev_tick e) < n * second)"
proof -
  have ok: "db_ok m w" using cut_steps_db_ok [OF assms(1) cutover_fresh_db_ok [OF assms(2)]] .
  obtain out err where run: "Run san m a dr cfg w = ((out, err), w')" using assms(3) by (metis prod.collapse)
  from Run_inv [OF run ok assms(4)] assms(5)
  obtain new cp cp' w1 l w2 where new: "w_log w' = w_log w @ new" "new \<noteq> []"
    and "cutover_Load m w = (Inr cp', w1)" and acq: "acquireOrRecover m a cfg cp w1 = (Inr l, w2)"
    and fen: "fenced_events (w_clock w) l new" by auto
  then have "w_db w1 = w_db w" "w_log w1 = w_log w" using cutover_Load_ok(1) by blast+
  moreover obtain e where "e \<in> set new" using new(2) by (cases new) auto
  with fen obtain n where "fl_ReleasedAt l = None" "fl_ExpiresAt l = Stamp n" by (auto simp: fenced_events_def)
  moreover from this fen have "\<forall>e \<in> set new. w_clock w (ev_tick e) < n * second"
    by (auto simp: fenced_events_def)
  ultimately show ?thesis using acq new(1) by blast
qed

lemma AssertHolds_refused:
  assumes "lease_of (w_db w) mid = Some l" and "\<not> live_lease (w_db w) (w_clock w (Suc (w_tick w))) mid h tok st l"
  shows "\<exists>e. AssertHolds a mid h tok st w = (Inl e, tick w)"
proof -
  obtain r w' where r: "AssertHolds a mid h tok st w = (r, w')" by fastforce
  have "w' = tick w" using AssertHolds_frame [OF r] .
  moreover have "\<exists>e. r = Inl e"
  proof (cases r)
    case (Inr x)
    then show ?thesis using AssertHolds_ok [of a mid h tok st w x w'] r assms
      by (simp add: live_lease_def)
  qed simp
  ultimately show ?thesis using r by auto
qed

text \<open>A run that \<open>acquireOrRecover\<close> refuses changes nothing.\<close>

lemma Run_refused:
  assumes "Run san m a dr cfg w = (res, w')"
    and "\<And>cp w1. cutover_Load m w = (Inr cp, w1) \<Longrightarrow> ck_SubState cp \<noteq> SubCompleted \<and>
      (\<exists>e w2. acquireOrRecover m a cfg (if ck_SubState cp = SubNone then cp\<lparr>ck_SubState := SubPreflight\<rparr> else cp) w1
         = (Inl e, w2) \<and> w_db w2 = w_db w1 \<and> w_log w2 = w_log w1)"
  shows "w_db w' = w_db w \<and> w_log w' = w_log w \<and> snd res \<noteq> None"
proof -
  obtain ld w1 where ld: "cutover_Load m w = (ld, w1)" by fastforce
  note L = cutover_Load_ok(1) [OF ld]
  show ?thesis
  proof (cases ld)
    case (Inl e)
    then show ?thesis using assms(1) ld L by (auto simp: Run_def split: if_splits)
  next
    case (Inr cp)
    then obtain e w2 where "acquireOrRecover m a cfg (if ck_SubState cp = SubNone
        then cp\<lparr>ck_SubState := SubPreflight\<rparr> else cp) w1 = (Inl e, w2)" "w_db w2 = w_db w1" "w_log w2 = w_log w1"
      "ck_SubState cp \<noteq> SubCompleted"
      using assms(2) ld by blast
    then show ?thesis using assms(1) ld L Inr by (auto simp: Run_def Let_def split: if_splits)
  qed
qed

lemma cutover_Load_clock:
  assumes "cutover_Load m w = (r, w')"
  shows "w_clock w' = w_clock w \<and> w_tick w \<le> w_tick w'"
  using assms
  by (auto simp: cutover_Load_def split: prod.splits sum.splits if_splits
      dest!: AssertHolds_frame GetStageByName_eq(1))

text \<open>With a lease that expired without release, a cutover that is not complete does nothing at all:
  no action runs, the database keeps its contents and the run reports an error.\<close>

theorem stale_lease_stops_cutover:
  assumes "lease_of (w_db w) (cm_migrationID m) = Some l" and "stale_lease now l"
    and "\<forall>n \<ge> w_tick w. now \<le> w_clock w n" and "cr_MigrationID cfg = cm_migrationID m"
    and "\<forall>row cp. stage_of (w_db w) (cm_migrationID m) (cm_stageName m) = Some row
      \<and> ps_CheckpointData row = CkCutover cp \<longrightarrow> ck_SubState cp \<noteq> SubCompleted"
    and "Run san m a dr cfg w = (res, w')"
  shows "w_db w' = w_db w \<and> w_log w' = w_log w \<and> snd res \<noteq> None"
proof (rule Run_refused [OF assms(6)])
  fix cp w1 assume ld: "cutover_Load m w = (Inr cp, w1)"
  have db1: "w_db w1 = w_db w" using cutover_Load_ok(1) [OF ld] by simp
  have stale: "stale_lease (w_clock w1 (Suc (w_tick w1))) l"
    using stale_lease_mono [OF assms(2)] assms(3) cutover_Load_clock [OF ld] by simp
  have lease: "lease_of (w_db w1) (cm_migrationID m) = Some l" using db1 assms(1) by simp
  let ?cp = "if ck_SubState cp = SubNone then cp\<lparr>ck_SubState := SubPreflight\<rparr> else cp"
  have "\<exists>e. acquireOrRecover m a cfg ?cp w1 = (Inl e, tick w1)"
  proof (cases "ck_Holder ?cp \<noteq> '''' \<and> ck_Token ?cp \<noteq> 0")
    case True
    obtain e where "AssertHolds a (cm_migrationID m) (ck_Holder ?cp) (ck_Token ?cp) (sub_str (ck_SubState ?cp)) w1
        = (Inl e, tick w1)"
      using AssertHolds_refused [OF lease] stale_not_live [OF stale lease] by blast
    with True show ?thesis by (simp add: acquireOrRecover_def)
  next
    case False
    then show ?thesis
      using stale lease assms(4)
      by (cases "w_env w1 (w_tick w1)")
        (auto simp: acquireOrRecover_def Acquire_def GetFenceLease_def db_read_def stale_lease_def parseTime_def
          w_now_def Let_def split: stamp.splits)
  qed
  moreover have "ck_SubState cp \<noteq> SubCompleted"
    using cutover_Load_ok(2) [OF ld refl] assms(5) by (auto simp: empty_checkpoint_def)
  ultimately show "ck_SubState cp \<noteq> SubCompleted \<and>
      (\<exists>e w2. acquireOrRecover m a cfg ?cp w1 = (Inl e, w2) \<and> w_db w2 = w_db w1 \<and> w_log w2 = w_log w1)"
    by auto
qed


subsection \<open>Completion\<close>

text \<open>Drivers that do what they are asked; a source that cannot be frozen is allowed.\<close>

definition drivers_ok :: "cutover_drivers \<Rightarrow> bool" where
  "drivers_ok dr \<longleftrightarrow>
     (\<forall>n b. snd (dr_CutoverPreflight dr n b) = None \<and> pf_TargetInRecovery (fst (dr_CutoverPreflight dr n b))) \<and>
     (\<forall>n k. dr_WaitForCatchUp dr n k = None) \<and>
     (\<forall>n. dr_CutoverFreezeSource dr n \<in> {None, Some ErrNoSourceFreeze}) \<and>
     (\<forall>n. dr_CutoverPromote dr n = None) \<and>
     (\<forall>n. snd (dr_Switch dr n) = None \<and> fst (dr_Switch dr n) \<noteq> None) \<and>
     (\<forall>n. dr_ctxDone dr n = None)"

lemma ErrNoSourceFreeze_is [simp]: "errors_is ErrNoSourceFreeze ErrNoSourceFreeze"
  by (simp add: ErrNoSourceFreeze_def)

lemma drivers_act:
  assumes "drivers_ok dr" and "st \<in> set (cutover_steps dr cfg)"
  shows "\<exists>data out'. cs_action st n l out = (Inr data, out')"
proof -
  have freeze: "dr_CutoverFreezeSource dr n = None \<or> dr_CutoverFreezeSource dr n = Some ErrNoSourceFreeze"
    using assms(1) by (auto simp: drivers_ok_def)
  obtain res where "dr_Switch dr n = (Some res, None)"
    using assms(1) unfolding drivers_ok_def by (metis not_None_eq prod.collapse)
  moreover obtain r1 r2 where "dr_CutoverPreflight dr n True = (r1, None)" "pf_TargetInRecovery r1"
    "dr_CutoverPreflight dr n False = (r2, None)"
    using assms(1) unfolding drivers_ok_def by (metis prod.collapse)
  moreover have "dr_WaitForCatchUp dr n k = None" "dr_CutoverPromote dr n = None" "dr_ctxDone dr n = None" for k
    using assms(1) by (auto simp: drivers_ok_def)
  ultimately show ?thesis
    using freeze assms(2)
    by (elim disjE) (auto simp: cutover_steps_def stepPreflight_def stepSeed_def stepReplicating_def
        stepVerifying_def stepAwaitingCutover_def stepFencingSource_def stepCatchingUp_def
        stepVerifyingTarget_def stepSwitching_def stepPromoting_def stepObserving_def)
qed

fun chained :: "CutoverSubState \<Rightarrow> cutoverStep list \<Rightarrow> bool" where
  "chained c [] \<longleftrightarrow> c = SubCompleted"
| "chained c (st # sts) \<longleftrightarrow> cs_from st = c \<and> chained (cs_to st) sts"

lemma chained_cutover_steps: "chained SubPreflight (cutover_steps dr cfg)"
  by (simp add: cutover_steps_def)

text \<open>A world in which a run can go on: no faults, the lease of the run live up to tick \<open>T\<close> and in the
  checkpoint's sub-state, the checkpoint persisted.\<close>

definition calm_run :: "cutoverMachine \<Rightarrow> nat \<Rightarrow> FenceLease \<Rightarrow> cutoverCheckpoint \<Rightarrow> 'x cut_world \<Rightarrow> bool" where
  "calm_run m T l cp w \<longleftrightarrow> fault_free w \<and> ck_ok cp
     \<and> lease_of (w_db w) (cm_migrationID m) = Some (l\<lparr>fl_State := sub_str (ck_SubState cp)\<rparr>)
     \<and> fl_ReleasedAt l = None
     \<and> (\<exists>n. fl_ExpiresAt l = Stamp n \<and> (\<forall>t \<le> T. w_clock w t < n * second))
     \<and> (\<exists>row. stage_of (w_db w) (cm_migrationID m) (cm_stageName m) = Some row
          \<and> ps_CheckpointData row = CkCutover cp)"

lemma cutover_Save_calm:
  assumes "fault_free w" and "stage_of (w_db w) (cm_migrationID m) (cm_stageName m) = Some row"
  shows "\<exists>w'. cutover_Save m cp (Some l) w = (Inr (), with_lease (Some l) cp, w')
    \<and> w_db w' = put_lease_state (fl_ID l) (sub_str (ck_SubState cp)) (put_checkpoint m (with_lease (Some l) cp) (w_db w))
    \<and> w_log w' = w_log w \<and> w_clock w' = w_clock w \<and> w_tick w' = w_tick w + 3 \<and> fault_free w'"
proof -
  have g: "GetStageByName (cm_migrationID m) (cm_stageName m) w = (Inr row, tick w)"
    using assms by (simp add: GetStageByName_def fault_free_read)
  let ?d = "put_checkpoint m (with_lease (Some l) cp) (w_db w)"
  have u: "UpdateStageCheckpoint (ps_ID row) (CkCutover (with_lease (Some l) cp)) (tick w)
      = (Inr (), tick (tick w\<lparr>w_db := ?d\<rparr>))"
    using assms by (simp add: UpdateStageCheckpoint_def fault_free_write put_checkpoint_def)
  have s: "SetState (cm_authority m) (Some l) (sub_str (ck_SubState cp)) (tick (tick w\<lparr>w_db := ?d\<rparr>))
      = (Inr (), tick (tick (tick w\<lparr>w_db := ?d\<rparr>)\<lparr>w_db := put_lease_state (fl_ID l) (sub_str (ck_SubState cp)) ?d\<rparr>))"
    using assms(1) by (simp add: SetState_def UpdateFenceLeaseState_def fault_free_write put_lease_state_def)
  show ?thesis using assms(1) by (simp add: cutover_Save_def g u s Let_def)
qed

lemma stage_of_put_checkpoint_eq:
  assumes "stage_of d (cm_migrationID m) (cm_stageName m) = Some row"
  shows "stage_of (put_checkpoint m cp d) (cm_migrationID m) (cm_stageName m)
    = Some (row\<lparr>ps_CheckpointData := CkCutover cp\<rparr>)"
  using assms by (simp add: put_checkpoint_def stage_of_on_stage)

lemma advance_calm:
  assumes calm: "calm_run m T l cp w" and tm: "Suc (w_tick w) \<le> T"
    and st: "step_sane st" "cs_from st = ck_SubState cp"
    and act: "\<And>n out. \<exists>data out'. cs_action st n l out = (Inr data, out')"
  shows "\<exists>cp' out' w' e. advance m a cp l st out w = (Inr (), cp', out', w') \<and> ck_SubState cp' = cs_to st
    \<and> calm_run m T l cp' w' \<and> w_tick w' = w_tick w + 5 \<and> w_log w' = w_log w @ [e]
    \<and> ev_step e = cs_from st \<and> is_ok (ev_result e)"
proof -
  have c: "fault_free w" "ck_ok cp" "fl_ReleasedAt l = None"
    "lease_of (w_db w) (cm_migrationID m) = Some (l\<lparr>fl_State := sub_str (ck_SubState cp)\<rparr>)"
    using calm by (auto simp: calm_run_def)
  obtain n where n: "fl_ExpiresAt l = Stamp n" "\<forall>t \<le> T. w_clock w t < n * second"
    using calm by (auto simp: calm_run_def)
  obtain row where row: "stage_of (w_db w) (cm_migrationID m) (cm_stageName m) = Some row"
    using calm by (auto simp: calm_run_def)
  have sane: "cs_from st \<noteq> SubNone" "sub_rank (cs_to st) = Suc (sub_rank (cs_from st))"
    using st(1) by (auto simp: step_sane_def)
  have todo: "step_result cp (cs_from st) = ''''" using c(2) st(2) unfolding ck_ok_def by (metis less_irrefl)
  have hold: "AssertHolds a (cm_migrationID m) (fl_Holder l) (fl_FenceToken l) (sub_str (cs_from st)) w
      = (Inr (l\<lparr>fl_State := sub_str (ck_SubState cp)\<rparr>), tick w)"
    by (rule assert_holds_eq) (use c n tm st(2) in \<open>auto simp: fault_free_def live_lease_def\<close>)
  obtain data out' where d: "cs_action st (Suc (w_tick w)) l out = (Inr data, out')" using act by blast
  have data: "data \<noteq> ''''" using st(1) d unfolding step_sane_def by (metis fst_conv)
  let ?e = "\<lparr>ev_step = cs_from st, ev_tick = Suc (w_tick w), ev_result = Inr data\<rparr>"
  let ?w2 = "tick (tick w\<lparr>w_log := w_log w @ [?e]\<rparr>)"
  have run: "run_action st l out (tick w) = (Inr data, out', ?w2)" using d by (simp add: run_action_def)
  let ?cp = "with_lease (Some l) (cp\<lparr>ck_Steps := (ck_Steps cp)(cs_from st \<mapsto> data), ck_SubState := cs_to st\<rparr>)"
  have "fault_free ?w2" using c(1) by (simp add: fault_free_def)
  from cutover_Save_calm [OF this, of m row ?cp l] row obtain w' where
    save: "cutover_Save m ?cp (Some l) ?w2 = (Inr (), ?cp, w')"
    and db: "w_db w' = put_lease_state (fl_ID l) (sub_str (cs_to st)) (put_checkpoint m ?cp (w_db w))"
    and rest: "w_log w' = w_log w @ [?e]" "w_clock w' = w_clock w" "w_tick w' = w_tick w + 5" "fault_free w'"
    by auto
  have "MarkStep m cp (Some l) (cs_from st) (cs_to st) data ?w2 = (Inr (), ?cp, w')"
    using save todo st(2) sane by (simp add: MarkStep_def validCutoverTransition_rank)
  then have adv: "advance m a cp l st out w = (Inr (), ?cp, out', w')"
    using todo hold run by (simp add: advance_def)
  have "ck_ok ?cp"
    using c(2) data st(2) sane less_next [OF sane(2)] by (auto simp: ck_ok_def step_result_def)
  moreover have "lease_of (w_db w') (cm_migrationID m) = Some (l\<lparr>fl_State := sub_str (cs_to st)\<rparr>)"
    using db c(4) by (simp add: lease_of_put_lease_state)
  moreover have "stage_of (w_db w') (cm_migrationID m) (cm_stageName m) = Some (row\<lparr>ps_CheckpointData := CkCutover ?cp\<rparr>)"
    using db stage_of_put_checkpoint_eq [OF row] by simp
  ultimately have "calm_run m T l ?cp w'" using c n rest by (simp add: calm_run_def)
  with adv rest show ?thesis by fastforce
qed

lemma chained_le:
  "chained c sts \<Longrightarrow> \<forall>st \<in> set sts. step_sane st \<Longrightarrow> st \<in> set sts \<Longrightarrow> c \<le> cs_from st"
proof (induction sts arbitrary: c)
  case (Cons s sts)
  have "cs_from s < cs_to s" using Cons.prems(2) by (simp add: step_sane_def less_CutoverSubState_def)
  with Cons show ?case by fastforce
qed simp

lemma Release_calm:
  assumes "fault_free w" and "lease_of (w_db w) mid = Some (l\<lparr>fl_State := st\<rparr>)" and "fl_ReleasedAt l = None"
  shows "\<exists>w'. Release a (Some l) w = (Inr (), w') \<and> w_log w' = w_log w
    \<and> stage_rows (w_db w') = stage_rows (w_db w)
    \<and> lease_of (w_db w') mid = Some (l\<lparr>fl_State := st, fl_ReleasedAt := Some (formatTime (w_now w))\<rparr>)"
proof -
  let ?f = "\<lambda>r. if matches_lease (fl_ID l) (fl_Holder l) (fl_FenceToken l) r
    then r\<lparr>fl_ReleasedAt := Some (formatTime (w_now w))\<rparr> else r"
  have "l\<lparr>fl_State := st\<rparr> \<in> set (fence_rows (w_db w))"
    using assms(2) by (auto simp: lease_of_def dest!: greatest_id_mem)
  then have "\<exists>r \<in> set (fence_rows (w_db w)). matches_lease (fl_ID l) (fl_Holder l) (fl_FenceToken l) r"
    by (rule bexI [rotated]) (simp add: matches_lease_def assms(3))
  moreover have "lease_of (w_db w\<lparr>fence_rows := map ?f (fence_rows (w_db w))\<rparr>) mid = map_option ?f (lease_of (w_db w) mid)"
    by (rule lease_of_map) (auto simp: matches_lease_def)
  ultimately show ?thesis
    using assms by (simp add: Release_def ReleaseFenceLease_def fault_free_write matches_lease_def)
qed

lemma run_steps_completes:
  assumes "chained c sts" and "c \<le> ck_SubState cp" and "calm_run m T l cp w"
    and "w_tick w + 5 * length sts \<le> T"
    and "\<forall>st \<in> set sts. step_sane st \<and> (\<forall>n out. \<exists>data out'. cs_action st n l out = (Inr data, out'))"
  shows "\<exists>out' w' new l' row cp'. run_steps san m a cp l sts out w = ((out', None), w')
    \<and> co_Completed out' \<and> co_FinalState out' = SubCompleted
    \<and> w_log w' = w_log w @ new \<and> map ev_step new = filter (\<lambda>s. ck_SubState cp \<le> s) (map cs_from sts)
    \<and> (\<forall>e \<in> set new. is_ok (ev_result e))
    \<and> lease_of (w_db w') (cm_migrationID m) = Some l' \<and> fl_ReleasedAt l' \<noteq> None
    \<and> stage_of (w_db w') (cm_migrationID m) (cm_stageName m) = Some row
    \<and> ps_CheckpointData row = CkCutover cp' \<and> ck_SubState cp' = SubCompleted"
  using assms
proof (induction sts arbitrary: c cp out w)
  case Nil
  then have fin: "ck_SubState cp = SubCompleted"
    by (cases "ck_SubState cp") (simp_all add: less_eq_CutoverSubState_def)
  obtain row where row: "stage_of (w_db w) (cm_migrationID m) (cm_stageName m) = Some row"
    "ps_CheckpointData row = CkCutover cp" using Nil.prems(3) by (auto simp: calm_run_def)
  have "fault_free w" "fl_ReleasedAt l = None"
    "lease_of (w_db w) (cm_migrationID m) = Some (l\<lparr>fl_State := sub_str SubCompleted\<rparr>)"
    using Nil.prems(3) fin by (simp_all add: calm_run_def)
  from Release_calm [OF this(1,3,2), of a] obtain w' where "Release a (Some l) w = (Inr (), w')"
    "w_log w' = w_log w" "stage_rows (w_db w') = stage_rows (w_db w)"
    "\<exists>l'. lease_of (w_db w') (cm_migrationID m) = Some l' \<and> fl_ReleasedAt l' \<noteq> None" by auto
  with row fin show ?case by (auto simp: stage_of_def)
next
  case (Cons st sts)
  have sane: "step_sane st" "\<And>n out. \<exists>data out'. cs_action st n l out = (Inr data, out')"
    using Cons.prems(5) by auto
  have cst: "c = cs_from st" "chained (cs_to st) sts" using Cons.prems(1) by auto
  have nxt: "s < cs_to st \<longleftrightarrow> s = cs_from st \<or> s < cs_from st" for s
    using sane(1) by (auto simp: step_sane_def intro!: less_next)
  have pos: "cs_from st \<noteq> SubNone" using sane(1) by (simp add: step_sane_def)
  show ?case
  proof (cases "cs_from st = ck_SubState cp")
    case True
    from advance_calm [OF Cons.prems(3) _ sane(1) True sane(2), of a out] Cons.prems(4)
    obtain cp1 out1 w1 e where adv: "advance m a cp l st out w = (Inr (), cp1, out1, w1)"
      and st1: "ck_SubState cp1 = cs_to st" and calm1: "calm_run m T l cp1 w1" "w_tick w1 = w_tick w + 5"
      and e: "w_log w1 = w_log w @ [e]" "ev_step e = cs_from st" "is_ok (ev_result e)" by auto
    have "w_tick w1 + 5 * length sts \<le> T" using calm1(2) Cons.prems(4) by simp
    from Cons.IH [OF cst(2) _ calm1(1) this, of "out1\<lparr>co_FinalState := ck_SubState cp1\<rparr>"] st1 Cons.prems(5)
    obtain out' w' new l' row cp' where rec:
      "run_steps san m a cp1 l sts (out1\<lparr>co_FinalState := ck_SubState cp1\<rparr>) w1 = ((out', None), w')"
      "co_Completed out'" "co_FinalState out' = SubCompleted" "w_log w' = w_log w1 @ new"
      "map ev_step new = filter (\<lambda>s. cs_to st \<le> s) (map cs_from sts)" "\<forall>e \<in> set new. is_ok (ev_result e)"
      "lease_of (w_db w') (cm_migrationID m) = Some l'" "fl_ReleasedAt l' \<noteq> None"
      "stage_of (w_db w') (cm_migrationID m) (cm_stageName m) = Some row"
      "ps_CheckpointData row = CkCutover cp'" "ck_SubState cp' = SubCompleted" by auto
    have "filter (\<lambda>s. cs_to st \<le> s) (map cs_from sts) = filter (\<lambda>s. ck_SubState cp \<le> s) (map cs_from sts)"
    proof (rule filter_cong)
      fix s assume "s \<in> set (map cs_from sts)"
      then have "cs_to st \<le> s" using chained_le [OF cst(2)] Cons.prems(5) by auto
      then show "(cs_to st \<le> s) = (ck_SubState cp \<le> s)" using nxt True by (metis leD leI)
    qed simp
    then show ?thesis using adv rec e True by (intro exI [of _ "e # new"] exI) auto
  next
    case False
    then have before: "cs_from st < ck_SubState cp" using cst(1) Cons.prems(2) by auto
    then have "StepDone (Some cp) (cs_from st)"
      using Cons.prems(3) pos unfolding calm_run_def ck_ok_def by auto
    then have adv: "advance m a cp l st out w = (Inl ErrCutoverReentryDone, cp, out, w)"
      by (simp add: advance_def)
    have "cs_to st \<le> ck_SubState cp" using before nxt by (metis leI less_asym less_irrefl)
    from Cons.IH [OF cst(2) this Cons.prems(3), of "out\<lparr>co_FinalState := ck_SubState cp\<rparr>"] Cons.prems(4,5)
    have rec: "\<exists>out' w' new l' row cp'. run_steps san m a cp l sts (out\<lparr>co_FinalState := ck_SubState cp\<rparr>) w = ((out', None), w')
      \<and> co_Completed out' \<and> co_FinalState out' = SubCompleted
      \<and> w_log w' = w_log w @ new \<and> map ev_step new = filter (\<lambda>s. ck_SubState cp \<le> s) (map cs_from sts)
      \<and> (\<forall>e \<in> set new. is_ok (ev_result e))
      \<and> lease_of (w_db w') (cm_migrationID m) = Some l' \<and> fl_ReleasedAt l' \<noteq> None
      \<and> stage_of (w_db w') (cm_migrationID m) (cm_stageName m) = Some row
      \<and> ps_CheckpointData row = CkCutover cp' \<and> ck_SubState cp' = SubCompleted" by simp
    have "\<not> ck_SubState cp \<le> cs_from st" using before by (simp add: not_le)
    with rec show ?thesis using adv by (simp add: ErrCutoverReentryDone_def)
  qed
qed

definition completed_run :: "cutoverMachine \<Rightarrow> CutoverSubState \<Rightarrow> 'x cut_world
    \<Rightarrow> (CutoverOutcome option \<times> goerr option) \<times> 'x cut_world \<Rightarrow> bool" where
  "completed_run m s w r \<longleftrightarrow> (\<exists>out w' new l' row cp'. r = ((Some out, None), w')
    \<and> co_Completed out \<and> co_FinalState out = SubCompleted
    \<and> w_log w' = w_log w @ new
    \<and> map ev_step new = filter (\<lambda>t. s \<le> t) [SubPreflight, SubSeed, SubReplicating, SubVerifying,
        SubAwaitingCutover, SubFencingSource, SubCatchingUp, SubVerifyingTarget, SubSwitching, SubPromoting, SubObserving]
    \<and> (\<forall>e \<in> set new. is_ok (ev_result e))
    \<and> lease_of (w_db w') (cm_migrationID m) = Some l' \<and> fl_ReleasedAt l' \<noteq> None
    \<and> stage_of (w_db w') (cm_migrationID m) (cm_stageName m) = Some row
    \<and> ps_CheckpointData row = CkCutover cp' \<and> ck_SubState cp' = SubCompleted)"

lemma Run_completes:
  assumes cfg: "0 < cr_MigrationID cfg" "cr_Holder cfg \<noteq> ''''" and dr: "drivers_ok dr"
    and ld: "cutover_Load m w = (Inr cp0, w1)"
    and cp: "cp = (if ck_SubState cp0 = SubNone then cp0\<lparr>ck_SubState := SubPreflight\<rparr> else cp0)"
    and ok: "ck_ok cp" "ck_SubState cp \<noteq> SubCompleted"
    and acq: "acquireOrRecover m a cfg cp w1 = (Inr l, w2)" and w2: "fault_free w2" "w_log w2 = w_log w"
    and row: "stage_of (w_db w2) (cm_migrationID m) (cm_stageName m) = Some row"
    and lease: "lease_of (w_db w2) (cm_migrationID m) = Some l" "fl_ReleasedAt l = None" "fl_ExpiresAt l = Stamp n"
    and tm: "\<forall>t \<le> T. w_clock w2 t < n * second" "w_tick w2 + 58 \<le> T"
  shows "completed_run m (ck_SubState cp) w (Run san m a dr cfg w)"
proof -
  let ?cp = "with_lease (Some l) cp"
  from cutover_Save_calm [OF w2(1) row, of cp l] obtain w3 where
    save: "cutover_Save m cp (Some l) w2 = (Inr (), ?cp, w3)"
    and db: "w_db w3 = put_lease_state (fl_ID l) (sub_str (ck_SubState cp)) (put_checkpoint m ?cp (w_db w2))"
    and w3: "w_log w3 = w_log w" "w_clock w3 = w_clock w2" "w_tick w3 = w_tick w2 + 3" "fault_free w3"
    using w2(2) by auto
  have calm: "calm_run m T l ?cp w3"
    unfolding calm_run_def using db w3 ok(1) lease tm(1) stage_of_put_checkpoint_eq [OF row]
    by (simp add: lease_of_put_lease_state)
  have pre: "SubPreflight \<le> ck_SubState ?cp"
    using cp by (cases "ck_SubState cp0") (simp_all add: less_eq_CutoverSubState_def)
  have steps: "\<forall>st \<in> set (cutover_steps dr cfg). step_sane st \<and>
      (\<forall>n out. \<exists>data out'. cs_action st n l out = (Inr data, out'))"
    using cutover_steps_sane drivers_act [OF dr] by blast
  have tick: "w_tick w3 + 5 * length (cutover_steps dr cfg) \<le> T"
    using tm(2) w3(3) by (simp add: cutover_steps_def)
  let ?out = "new_outcome\<lparr>co_FinalState := ck_SubState cp, co_Holder := fl_Holder l, co_Token := fl_FenceToken l\<rparr>"
  from run_steps_completes [OF chained_cutover_steps pre calm tick steps, of san a ?out]
  obtain out' w' new l' row' cp' where rec:
    "run_steps san m a ?cp l (cutover_steps dr cfg) ?out w3 = ((out', None), w')"
    "co_Completed out'" "co_FinalState out' = SubCompleted" "w_log w' = w_log w3 @ new"
    "map ev_step new = filter (\<lambda>s. ck_SubState ?cp \<le> s) (map cs_from (cutover_steps dr cfg))"
    "\<forall>e \<in> set new. is_ok (ev_result e)" "lease_of (w_db w') (cm_migrationID m) = Some l'" "fl_ReleasedAt l' \<noteq> None"
    "stage_of (w_db w') (cm_migrationID m) (cm_stageName m) = Some row'"
    "ps_CheckpointData row' = CkCutover cp'" "ck_SubState cp' = SubCompleted" by blast
  have "Run san m a dr cfg w = ((Some out', None), w')"
    using cfg ld ok(2) acq save rec(1) by (simp add: Run_def Let_def flip: cp)
  moreover have "map cs_from (cutover_steps dr cfg) = [SubPreflight, SubSeed, SubReplicating, SubVerifying,
      SubAwaitingCutover, SubFencingSource, SubCatchingUp, SubVerifyingTarget, SubSwitching, SubPromoting, SubObserving]"
    by (simp add: cutover_steps_def)
  ultimately show ?thesis unfolding completed_run_def
    using rec w3(1) by (intro exI [of _ out'] exI [of _ w'] exI [of _ new] exI [of _ l'] exI [of _ row'] exI [of _ cp'])
      (simp only: with_lease_steps, simp)
qed

text \<open>\<open>C3\<close>: without faults and with drivers that work, a cutover that stopped at any sub-state resumes there:
  it runs exactly the steps from that sub-state on, once each and in order, ends completed with the
  checkpoint at \<open>Completed\<close>, and releases the lease. Sixty statements fit before the lease expires.\<close>

theorem resumed_cutover_completes:
  fixes w :: "'x cut_world"
  assumes "0 < cr_MigrationID cfg" and "cr_Holder cfg \<noteq> ''''" and "drivers_ok dr" and "fault_free w"
    and row: "stage_of (w_db w) (cm_migrationID m) (cm_stageName m) = Some row" "ps_CheckpointData row = CkCutover cp"
    and cp: "ck_ok cp" "ck_SubState cp \<noteq> SubNone" "ck_SubState cp \<noteq> SubCompleted"
      "ck_Holder cp \<noteq> ''''" "ck_Token cp \<noteq> 0"
    and lease: "lease_of (w_db w) (cm_migrationID m) = Some l" "fl_ReleasedAt l = None" "fl_ExpiresAt l = Stamp n"
      "fl_Holder l = ck_Holder cp" "fl_FenceToken l = ck_Token cp" "fl_State l = sub_str (ck_SubState cp)"
    and tm: "\<forall>t \<le> w_tick w + 61. w_clock w t < n * second"
  shows "completed_run m (ck_SubState cp) w (Run san m (cm_authority m) dr cfg w)"
proof -
  have hold: "AssertHolds (cm_authority m) (cm_migrationID m) (ck_Holder cp) (ck_Token cp) st v = (Inr l, tick v)"
    if "w_db v = w_db w" "w_clock v = w_clock w" "w_tick v \<le> w_tick w + 2" "fault_free v"
      "st = '''' \<or> st = sub_str (ck_SubState cp)" for st v
    by (rule assert_holds_eq) (use that lease tm in \<open>auto simp: fault_free_def live_lease_def\<close>)
  have ld: "cutover_Load m w = (Inr cp, tick (tick w))"
    using row cp assms(4) hold [of "tick w" "''''"]
    by (simp add: cutover_Load_def GetStageByName_def fault_free_read unmarshal_checkpoint_def)
  have acq: "acquireOrRecover m (cm_authority m) cfg cp (tick (tick w)) = (Inr l, tick (tick (tick w)))"
    using cp hold [of "tick (tick w)" "sub_str (ck_SubState cp)"] assms(4)
    by (simp add: acquireOrRecover_def)
  show ?thesis
    by (rule Run_completes [OF assms(1-3) ld _ _ _ acq, where T = "w_tick w + 61" and row = row and n = n])
      (use assms in simp_all)
qed

lemma fresh_run_completes:
  fixes w :: "'x cut_world"
  assumes "0 < cr_MigrationID cfg" and "cr_Holder cfg \<noteq> ''''" and "drivers_ok dr" and "fault_free w"
    and mid: "cr_MigrationID cfg = cm_migrationID m" and wf: "fence_wf (w_db w)"
    and row: "stage_of (w_db w) (cm_migrationID m) (cm_stageName m) = Some row" "ps_CheckpointData row = CkEmpty"
    and lease: "lease_of (w_db w) (cm_migrationID m) = None"
    and tm: "\<forall>t \<le> w_tick w + 61. w_clock w t \<le> w_clock w (w_tick w + 2) + fa_ttl (cm_authority m) - second"
  shows "completed_run m SubPreflight w (Run san m (cm_authority m) dr cfg w)"
proof -
  let ?a = "cm_authority m" and ?mid = "cm_migrationID m"
  let ?now = "w_clock w (w_tick w + 2)"
  let ?l = "\<lparr>fl_ID = 0, fl_MigrationID = ?mid, fl_Holder = cr_Holder cfg, fl_FenceToken = 1,
    fl_State = sub_str SubPreflight, fl_AcquiredAt = formatTime ?now,
    fl_ExpiresAt = formatTime (?now + fa_ttl ?a), fl_RenewedAt = None, fl_ReleasedAt = None\<rparr>"
  let ?i = "fence_seq (w_db w) + 1"
  let ?d = "w_db w\<lparr>fence_rows := fence_rows (w_db w) @ [?l\<lparr>fl_ID := ?i\<rparr>], fence_seq := ?i\<rparr>"
  let ?cp = "empty_checkpoint\<lparr>ck_SubState := SubPreflight\<rparr>"
  have ld: "cutover_Load m w = (Inr empty_checkpoint, tick w)"
    using row assms(4) by (simp add: cutover_Load_def GetStageByName_def fault_free_read)
  have "\<forall>r \<in> set (fence_rows (w_db w)). fl_MigrationID r \<noteq> ?mid"
    using lease by (simp add: lease_of_None_iff)
  then have "CreateFenceLease ?l (tick (tick w)) = (Inr ?i, tick (tick (tick w)\<lparr>w_db := ?d\<rparr>))"
    using assms(4) by (auto simp: CreateFenceLease_def fault_free_write)
  moreover have "w_now (tick (tick w)) = ?now" by (simp add: w_now_def)
  ultimately have "Acquire ?a ?mid (cr_Holder cfg) (sub_str SubPreflight) (tick w)
      = (Inr (?l\<lparr>fl_ID := ?i\<rparr>), tick (tick (tick w)\<lparr>w_db := ?d\<rparr>))"
    using lease assms(4) by (simp add: Acquire_def GetFenceLease_def fault_free_read acquire_fresh_def Let_def)
  then have acq: "acquireOrRecover m ?a cfg ?cp (tick w) = (Inr (?l\<lparr>fl_ID := ?i\<rparr>), tick (tick (tick w)\<lparr>w_db := ?d\<rparr>))"
    using mid by (simp add: acquireOrRecover_def empty_checkpoint_def)
  have lease2: "lease_of ?d ?mid = Some (?l\<lparr>fl_ID := ?i\<rparr>)"
    using lease_of_insert [OF wf, of ?l] lease by simp
  have "x < (x + b) div second * second + second - b" for x b :: int by (simp add: second_def)
  then have "\<forall>t \<le> w_tick w + 61. w_clock w t < (?now + fa_ttl ?a) div second * second"
    using tm by (smt (verit, best))
  then have "completed_run m (ck_SubState ?cp) w (Run san m ?a dr cfg w)"
    by (intro Run_completes [OF assms(1-3) ld _ _ _ acq, where T = "w_tick w + 61" and row = row
          and n = "(?now + fa_ttl ?a) div second"])
      (use lease2 row assms(4) in \<open>auto simp: empty_checkpoint_def ck_ok_def step_result_def formatTime_def stage_of_def\<close>)
  then show ?thesis by simp
qed

subsection \<open>What a reported completion means\<close>

text \<open>\<open>ErrCutoverReentryDone\<close> is private to the machine: neither the database nor a driver returns an
  error that wraps it.\<close>

definition honest :: "goerr \<Rightarrow> bool" where
  "honest e \<longleftrightarrow> \<not> errors_is e ErrCutoverReentryDone"

definition env_honest :: "('db, 'e) world \<Rightarrow> bool" where
  "env_honest w \<longleftrightarrow> (\<forall>n. case w_env w n of NoFault \<Rightarrow> True | FailBefore e \<Rightarrow> honest e | FailAfter e \<Rightarrow> honest e)"

definition drivers_honest :: "cutover_drivers \<Rightarrow> bool" where
  "drivers_honest dr \<longleftrightarrow> (\<forall>n b k e.
     (snd (dr_CutoverPreflight dr n b) = Some e \<or> dr_WaitForCatchUp dr n k = Some e
      \<or> dr_CutoverFreezeSource dr n = Some e \<or> dr_CutoverPromote dr n = Some e
      \<or> snd (dr_Switch dr n) = Some e \<or> dr_ctxDone dr n = Some e) \<longrightarrow> honest e)"

lemma honest_simps [simp]:
  "honest (ErrF t)" "honest (ErrWrap p e q) = honest e"
  "honest ErrFenceLeaseStale" "honest ErrFenceLeaseNotHeld" "honest ErrFenceLeaseConflict"
  "honest ErrCutoverIllegalTransition" "\<not> honest ErrCutoverReentryDone"
  by (simp_all add: honest_def ErrCutoverReentryDone_def ErrFenceLeaseStale_def ErrFenceLeaseNotHeld_def
      ErrFenceLeaseConflict_def ErrCutoverIllegalTransition_def)

lemma drivers_honestD:
  assumes "drivers_honest dr"
  shows "dr_CutoverPreflight dr n b = (p, Some e) \<Longrightarrow> honest e" "dr_WaitForCatchUp dr n k = Some e \<Longrightarrow> honest e"
    "dr_CutoverFreezeSource dr n = Some e \<Longrightarrow> honest e" "dr_CutoverPromote dr n = Some e \<Longrightarrow> honest e"
    "dr_Switch dr n = (q, Some e) \<Longrightarrow> honest e" "dr_ctxDone dr n = Some e \<Longrightarrow> honest e"
  using assms unfolding drivers_honest_def by (metis snd_conv)+

lemma honest_new: "honest (ErrNew t) \<longleftrightarrow> ErrNew t \<noteq> ErrCutoverReentryDone"
  by (simp add: honest_def)

lemma drivers_honest_act:
  assumes dr: "drivers_honest dr" and "st \<in> set (cutover_steps dr cfg)" and "fst (cs_action st n l out) = Inl e"
  shows "honest e"
  using assms(2,3)
  by (auto simp: cutover_steps_def stepPreflight_def stepSeed_def stepReplicating_def
      stepVerifying_def stepAwaitingCutover_def stepFencingSource_def stepCatchingUp_def
      stepVerifyingTarget_def stepSwitching_def stepPromoting_def stepObserving_def Let_def
      honest_new ErrCutoverReentryDone_def
      split: prod.splits option.splits if_splits dest: drivers_honestD [OF dr])
    (erule drivers_honestD [OF dr])+

lemma db_read_honest:
  "db_read f w = (Inl e, w') \<Longrightarrow> env_honest w \<Longrightarrow> f (w_db w) = Inl e \<or> honest e"
  by (auto simp: db_read_def env_honest_def split: fault.splits)

lemma AssertHolds_honest:
  assumes "AssertHolds a mid h tok st w = (Inl e, w')" and "env_honest w"
  shows "honest e"
  using assms
  by (auto simp: AssertHolds_def GetFenceLease_def split: prod.splits sum.splits option.splits if_splits
      dest!: db_read_honest)

lemma db_write_honest:
  "db_write (\<lambda>now d. (Inr x, f now d)) w = (Inl e, w') \<Longrightarrow> env_honest w \<Longrightarrow> honest e"
  by (auto simp: db_write_def env_honest_def split: fault.splits)

lemma env_honest_cong: "w_env w' = w_env w \<Longrightarrow> env_honest w' = env_honest w"
  by (simp add: env_honest_def)

lemma cutover_Save_honest:
  assumes "cutover_Save m cp (Some l) w = (Inl e, cp', w')" and "env_honest w"
  shows "honest e"
proof -
  have 1: "honest e'" if "GetStageByName mid nm w = (Inl e', v)" for e' v mid nm
    using that assms(2) by (auto simp: GetStageByName_def split: option.splits dest!: db_read_honest)
  have 2: "honest e'" if "UpdateStageCheckpoint i b v = (Inl e', v')" "w_env v = w_env w" for e' v v' i b
    using that env_honest_cong [OF that(2)] assms(2) by (auto simp: UpdateStageCheckpoint_def dest!: db_write_honest)
  have 3: "honest e'" if "SetState q (Some l) b v = (Inl e', v')" "w_env v = w_env w" for e' v v' b q
    using that env_honest_cong [OF that(2)] assms(2)
    by (auto simp: SetState_def UpdateFenceLeaseState_def dest!: db_write_honest)
  have 4: "w_env v' = w_env v" if "UpdateStageCheckpoint i b v = (r, v')" for i b v r v'
    using that db_write_frames by (auto simp: UpdateStageCheckpoint_def)
  obtain g w1 where g: "GetStageByName (cm_migrationID m) (cm_stageName m) w = (g, w1)" by fastforce
  have env1: "w_env w1 = w_env w" using GetStageByName_eq(1) [OF g] by simp
  show ?thesis
  proof (cases g)
    case (Inl e1)
    then show ?thesis using assms(1) g 1 [of _ _ e1] by (simp add: cutover_Save_def)
  next
    case (Inr row)
    obtain u w2 where u: "UpdateStageCheckpoint (ps_ID row) (CkCutover (with_lease (Some l) cp)) w1 = (u, w2)" by fastforce
    show ?thesis
    proof (cases u)
      case (Inl e2)
      then show ?thesis using assms(1) g \<open>g = Inr row\<close> u 2 [of _ _ w1 e2] env1 by (simp add: cutover_Save_def Let_def)
    next
      case (Inr y)
      obtain v w3 where v: "SetState (cm_authority m) (Some l) (sub_str (ck_SubState cp)) w2 = (v, w3)" by fastforce
      then have "v = Inl e" using assms(1) g \<open>g = Inr row\<close> u Inr
        by (auto simp: cutover_Save_def Let_def split: sum.splits)
      then show ?thesis using v 3 [of _ _ w2 e w3] 4 [OF u] env1 by simp
    qed
  qed
qed

lemma MarkStep_honest:
  assumes "MarkStep m cp (Some l) from to data w = (Inl e, cp', w')" and "env_honest w" and "step_result cp from = ''''"
  shows "honest e"
  using assms cutover_Save_honest [of m _ l w e cp' w'] by (auto simp: MarkStep_def split: if_splits)

lemma MarkStep_env:
  "MarkStep m cp l from to data w = (r, cp', w') \<Longrightarrow> w_env w' = w_env w"
  by (auto simp: MarkStep_def split: if_splits dest: cutover_Save_frame)

lemma advance_env: "advance m a cp lease st out w = (r, cp', out', w') \<Longrightarrow> w_env w' = w_env w"
  by (erule advance_unfold) (auto split: sum.splits dest!: MarkStep_env AssertHolds_frame run_action_effect)

text \<open>When nothing forges the sentinel, a step is passed over only if the checkpoint marks it.\<close>

lemma advance_passes:
  assumes "advance m a cp lease st out w = (r, cp', out', w')" and "env_honest w"
    and "\<And>n out e. fst (cs_action st n lease out) = Inl e \<Longrightarrow> honest e"
    and "\<And>e. r = Inl e \<Longrightarrow> errors_is e ErrCutoverReentryDone"
  shows "(StepDone (Some cp) (cs_from st) \<and> cp' = cp) \<or> (ck_SubState cp' = cs_to st)"
  using assms(1)
proof (cases rule: advance_unfold)
  case (fence e)
  then have "honest e" using AssertHolds_honest assms(2) by blast
  then show ?thesis using fence assms(4) by (auto simp: honest_def ErrCutoverReentryDone_def)
next
  case (act x w1 d w2)
  have w1: "w1 = tick w" using AssertHolds_frame [OF act(2)] .
  have env2: "env_honest w2" using run_action_effect [OF act(3)] w1 assms(2) by (auto simp: env_honest_def)
  show ?thesis
  proof (cases d)
    case (Inl e)
    then have "honest e" using act(3) assms(3) [of "w_tick w1" out e] by (auto simp: run_action_def split: prod.splits)
    then show ?thesis using act(4) Inl assms(4) by (auto simp: honest_def ErrCutoverReentryDone_def)
  next
    case (Inr data)
    then have mark: "MarkStep m cp (Some lease) (cs_from st) (cs_to st) data w2 = (r, cp', w')" using act(4) by simp
    have "\<exists>u. r = Inr u"
    proof (cases r)
      case (Inl e)
      then have "honest e" using MarkStep_honest [of m cp lease "cs_from st" "cs_to st" data w2 e cp' w'] mark env2 act(1) by auto
      then show ?thesis using assms(4) Inl by (simp add: honest_def)
    qed simp
    then obtain u where "r = Inr u" ..
    then show ?thesis using mark
      by (auto simp: MarkStep_def split: if_splits dest!: cutover_Save_ok)
  qed
qed simp

lemma run_steps_completion:
  assumes "run_steps san m a cp lease sts out w = ((out', None), w')"
    and "run_inv m x cp w" and "chained c sts" and "c \<le> ck_SubState cp" and "env_honest w"
    and "\<forall>st \<in> set sts. step_sane st \<and> (\<forall>n out e. fst (cs_action st n lease out) = Inl e \<longrightarrow> honest e)"
  shows "\<forall>s. SubNone < s \<and> s < SubCompleted \<longrightarrow> acted (w_log w') s"
  using assms
proof (induction sts arbitrary: c cp out w)
  case Nil
  then have "ck_SubState cp = SubCompleted"
    by (cases "ck_SubState cp") (simp_all add: less_eq_CutoverSubState_def)
  moreover have "w_log w' = w_log w"
    using Nil.prems(1) Release_frame(1) by (auto split: prod.splits)
  ultimately show ?case using Nil.prems(2) by (simp add: run_inv_def covers_def)
next
  case (Cons st sts)
  obtain r cp1 out1 w1 where adv: "advance m a cp lease st out w = (r, cp1, out1, w1)"
    by (metis prod_cases4)
  have sane: "step_sane st" using Cons.prems(6) by simp
  have inv1: "run_inv m x cp1 w1" using advance_inv [OF adv Cons.prems(2) sane] by simp
  have go: "\<And>e. r = Inl e \<Longrightarrow> errors_is e ErrCutoverReentryDone"
    and rec: "run_steps san m a cp1 lease sts (out1\<lparr>co_FinalState := ck_SubState cp1\<rparr>) w1 = ((out', None), w')"
    using Cons.prems(1) adv by (auto simp: Let_def split: sum.splits if_splits prod.splits)
  have pass: "(StepDone (Some cp) (cs_from st) \<and> cp1 = cp) \<or> ck_SubState cp1 = cs_to st"
    using advance_passes [OF adv Cons.prems(5) _ go] Cons.prems(6) by auto
  have "StepDone (Some cp) (cs_from st) \<Longrightarrow> cs_from st < ck_SubState cp"
    using Cons.prems(2) unfolding run_inv_def ck_ok_def StepDone_Some by blast
  with pass have "cs_to st \<le> ck_SubState cp1"
    using sane by (auto simp: step_sane_def less_CutoverSubState_def less_eq_CutoverSubState_def)
  moreover have "env_honest w1" using Cons.prems(5) advance_env [OF adv] by (simp add: env_honest_def)
  ultimately show ?case using Cons.IH [OF rec inv1] Cons.prems(3,6) by auto
qed

lemma cutover_Load_env: "cutover_Load m w = (r, w') \<Longrightarrow> w_env w' = w_env w"
  by (auto simp: cutover_Load_def split: prod.splits sum.splits if_splits
      dest!: AssertHolds_frame GetStageByName_eq(1))

lemma Acquire_env: "Acquire a mid h st w = (r, w') \<Longrightarrow> w_env w' = w_env w"
  by (auto simp: Acquire_def acquire_fresh_def Let_def CreateFenceLease_def reactivateFenceLease_def
      split: option.splits prod.splits sum.splits if_splits dest!: GetFenceLease_tick dest: db_write_frames)

lemma acquireOrRecover_env: "acquireOrRecover m a cfg cp w = (r, w') \<Longrightarrow> w_env w' = w_env w"
  by (auto simp: acquireOrRecover_def split: if_splits prod.splits sum.splits
      dest!: AssertHolds_frame dest: Acquire_env)

lemma Run_reaches_steps:
  assumes run: "Run san m a dr cfg w = ((Some out, None), w')" and ok: "db_ok m w"
    and mid: "cr_MigrationID cfg = cm_migrationID m"
  shows "(\<exists>cp w1. cutover_Load m w = (Inr cp, w1) \<and> ck_SubState cp = SubCompleted \<and> w' = w1)
    \<or> (\<exists>cp l w3 out0. run_inv m l cp w3 \<and> SubPreflight \<le> ck_SubState cp \<and> w_env w3 = w_env w
        \<and> run_steps san m a cp l (cutover_steps dr cfg) out0 w3 = ((out, None), w'))"
proof -
  obtain ld w1 where ld: "cutover_Load m w = (ld, w1)" by fastforce
  obtain cp0 where cp0: "ld = Inr cp0" using run ld by (cases ld) (auto simp: Run_def split: if_splits)
  show ?thesis
  proof (cases "ck_SubState cp0 = SubCompleted")
    case True
    then show ?thesis using run ld cp0 by (auto simp: Run_def Let_def split: if_splits)
  next
    case False
    let ?cp = "if ck_SubState cp0 = SubNone then cp0\<lparr>ck_SubState := SubPreflight\<rparr> else cp0"
    have ok1: "db_ok m w1" using ok cutover_Load_ok(1) [OF ld] db_ok_cong(1) [of w1 w m] by simp
    have ck: "ck_ok ?cp \<and> covers (w_log w1) ?cp \<and> SubNone < ck_SubState ?cp"
      using db_ok_checkpoint [of m w cp0 w1] ld cp0 ok ck_start [of cp0 "w_log w"] cutover_Load_ok(1) [OF ld] by auto
    obtain q w2 where acq: "acquireOrRecover m a cfg ?cp w1 = (q, w2)" by fastforce
    obtain l where l: "q = Inr l" using run ld cp0 False acq by (cases q) (auto simp: Run_def Let_def split: if_splits)
    obtain s cp1 w3 where save: "cutover_Save m ?cp (Some l) w2 = (s, cp1, w3)" by (metis prod_cases3)
    obtain u where u: "s = Inr u"
      using run ld cp0 False acq l save by (cases s) (auto simp: Run_def Let_def split: if_splits)
    have steps: "run_steps san m a cp1 l (cutover_steps dr cfg)
        (new_outcome\<lparr>co_FinalState := ck_SubState ?cp, co_Holder := fl_Holder l, co_Token := fl_FenceToken l\<rparr>) w3
        = ((out, None), w')"
      using run ld cp0 False acq l save u by (auto simp: Run_def Let_def split: if_splits prod.splits)
    note A = acquireOrRecover_frame [OF acq ok1]
    have ck2: "ck_ok ?cp" "covers (w_log w2) ?cp" using ck A by auto
    from cutover_Save_db_ok [OF save _ ck2] A
    have S: "db_ok m w3" "ck_ok cp1" "covers (w_log w3) cp1" "ck_SubState cp1 = ck_SubState ?cp" by auto
    have "lease_of (w_db w2) (cm_migrationID m) = Some l"
      using acquireOrRecover_ok [OF _ _ mid] acq l ok1 by (auto simp: db_ok_def)
    from cutover_Save_mirror [OF _ this] save u
    have "lease_le m l cp1 w3" using S(4) by (auto simp: lease_le_def)
    with S ck have inv: "run_inv m l cp1 w3" by (simp add: run_inv_def)
    have "SubPreflight \<le> ck_SubState cp1" using S(4) by (cases "ck_SubState cp0") (simp_all add: less_eq_CutoverSubState_def)
    moreover have "w_env w3 = w_env w"
      using cutover_Save_frame [OF save] acquireOrRecover_env [OF acq] cutover_Load_env [OF ld] by simp
    ultimately show ?thesis using inv steps by blast
  qed
qed

lemma Run_completed_acted:
  assumes "(cut_step m)\<^sup>*\<^sup>* w0 w" and "cutover_fresh m w0"
    and "Run san m a dr cfg w = ((Some out, None), w')" and "cr_MigrationID cfg = cm_migrationID m"
    and "env_honest w" and "drivers_honest dr"
  shows "\<forall>s. SubNone < s \<and> s < SubCompleted \<longrightarrow> acted (w_log w') s"
proof -
  have ok: "db_ok m w" using cut_steps_db_ok [OF assms(1) cutover_fresh_db_ok [OF assms(2)]] .
  from Run_reaches_steps [OF assms(3) ok assms(4)] show ?thesis
  proof (elim disjE exE conjE)
    fix cp w1 assume ld: "cutover_Load m w = (Inr cp, w1)" "ck_SubState cp = SubCompleted" "w' = w1"
    from db_ok_checkpoint [OF ld(1) ok] ld cutover_Load_ok(1) [OF ld(1)] show ?thesis by (simp add: covers_def)
  next
    fix cp l w3 out0
    assume "run_inv m l cp w3" "SubPreflight \<le> ck_SubState cp" and env: "w_env w3 = w_env w"
      and steps: "run_steps san m a cp l (cutover_steps dr cfg) out0 w3 = ((out, None), w')"
    moreover have "env_honest w3" using assms(5) env by (simp add: env_honest_def)
    ultimately show ?thesis
      using run_steps_completion [OF steps _ chained_cutover_steps] cutover_steps_sane drivers_honest_act [OF assms(6)]
      by blast
  qed
qed

text \<open>\<open>C2\<close>: when a run reports completion, now or after any number of crashes and restarts, the action
  of every one of the eleven steps has run with success.\<close>

theorem completed_means_all_steps_ran:
  assumes "(cut_step m)\<^sup>*\<^sup>* w0 w" and "cutover_fresh m w0"
    and "Run san m a dr cfg w = ((Some out, None), w')" and "cr_MigrationID cfg = cm_migrationID m"
    and "env_honest w" and "drivers_honest dr"
  shows "\<forall>s. SubNone < s \<and> s < SubCompleted \<longrightarrow> (\<exists>e \<in> set (w_log w'). ev_step e = s \<and> is_ok (ev_result e))"
  using Run_completed_acted [OF assms] by (simp add: acted_def)

subsection \<open>Concrete runs\<close>

definition demo_drivers :: cutover_drivers where
  "demo_drivers = \<lparr>dr_CutoverPreflight = (\<lambda>n b. (\<lparr>pf_SourceVersionNum = 150003, pf_TargetVersionNum = 150003,
       pf_SourceInRecovery = False, pf_TargetInRecovery = True, pf_TargetDiskMB = 100, pf_ReplicatorOK = True,
       pf_Notes = ''''\<rparr>, None)),
     dr_WaitForCatchUp = (\<lambda>n k. None), dr_CutoverFreezeSource = (\<lambda>n. Some ErrNoSourceFreeze),
     dr_CutoverPromote = (\<lambda>n. None),
     dr_Switch = (\<lambda>n. (Some \<lparr>tr_Switched = True, tr_ConfigTestOK = True, tr_ReloadOK = True, tr_Verified = True\<rparr>, None)),
     dr_ctxDone = (\<lambda>n. None)\<rparr>"

definition demo_request :: CutoverRequest where
  "demo_request = \<lparr>cr_MigrationID = 7, cr_Holder = ''a'', cr_DatabaseType = ''redis'', cr_MaxLagSeconds = 1, cr_ObserveFor = 0\<rparr>"

definition demo_machine :: cutoverMachine where
  "demo_machine = newCutoverMachine NewFencingAuthority 7"

definition demo_fresh :: "(stage_db, cut_event) world" where
  "demo_fresh = calm_world (demo_stage_db [] CkEmpty)"

definition demo_after :: "(stage_db, cut_event) world" where
  "demo_after = snd (Run id demo_machine NewFencingAuthority demo_drivers demo_request demo_fresh)"

lemma demo_machine_fields [simp]:
  "cm_migrationID demo_machine = 7" "cm_stageName demo_machine = ''traffic_switch''"
  "cm_authority demo_machine = NewFencingAuthority"
  by (simp_all add: demo_machine_def newCutoverMachine_def StageTrafficSwitch_def)

lemma demo_request_fields [simp]:
  "cr_MigrationID demo_request = 7" "cr_Holder demo_request = ''a''"
  by (simp_all add: demo_request_def)

lemma demo_drivers_ok [simp]: "drivers_ok demo_drivers"
  by (simp add: drivers_ok_def demo_drivers_def)

lemma demo_drivers_honest [simp]: "drivers_honest demo_drivers"
  by (auto simp: drivers_honest_def demo_drivers_def honest_def ErrNoSourceFreeze_def ErrCutoverReentryDone_def)

lemma calm_world_fields [simp]:
  "w_db (calm_world d) = d" "w_log (calm_world d) = []" "w_tick (calm_world d) = 0"
  "w_clock (calm_world d) n = int n * second" "w_env (calm_world d) n = NoFault" "fault_free (calm_world d)"
  "env_honest (calm_world d)"
  by (simp_all add: calm_world_def fault_free_def env_honest_def)

lemma fence_wf_demo_stage_db [simp]:
  "fence_wf (demo_stage_db [] ck)" "fence_wf (demo_stage_db [demo_lease h tok e rel] ck)"
  by (simp_all add: fence_wf_def demo_stage_db_def demo_lease_def)

lemma lease_of_demo_stage_db [simp]:
  "lease_of (demo_stage_db [] ck) 7 = None"
  "fl_MigrationID l = 7 \<Longrightarrow> lease_of (demo_stage_db [l] ck) 7 = Some l"
  by (simp_all add: lease_of_def demo_stage_db_def)

lemma demo_fresh_fresh [simp]: "cutover_fresh demo_machine demo_fresh"
  by (simp add: cutover_fresh_def demo_fresh_def demo_stage_row_def)

lemma demo_fresh_completes:
  "completed_run demo_machine SubPreflight demo_fresh
     (Run id demo_machine NewFencingAuthority demo_drivers demo_request demo_fresh)"
  using fresh_run_completes [of demo_request demo_drivers demo_fresh demo_machine "demo_stage_row CkEmpty" id]
  by (simp add: demo_fresh_def demo_stage_row_def NewFencingAuthority_def FenceTTL_def second_def)

lemma demo_after_facts:
  obtains row cp where "map ev_step (w_log demo_after) = [SubPreflight, SubSeed, SubReplicating, SubVerifying,
        SubAwaitingCutover, SubFencingSource, SubCatchingUp, SubVerifyingTarget, SubSwitching, SubPromoting, SubObserving]"
    "stage_of (w_db demo_after) 7 ''traffic_switch'' = Some row" "ps_CheckpointData row = CkCutover cp"
    "ck_SubState cp = SubCompleted"
  using demo_fresh_completes
  by (auto simp: completed_run_def demo_after_def demo_fresh_def less_eq_CutoverSubState_def)

lemma demo_run_step: "(cut_step demo_machine)\<^sup>*\<^sup>* demo_fresh demo_after"
  unfolding demo_after_def by (rule r_into_rtranclp, rule cs_run [OF prod.collapse [symmetric]]) simp

text \<open>Without faults and with drivers that work, a cutover that has not begun runs all eleven steps
  in order and ends completed, with the checkpoint at \<open>Completed\<close> and its lease released; the steps must
  fit into the lease's lifetime.\<close>

theorem fresh_cutover_completes:
  fixes w :: "'x cut_world"
  assumes "0 < cr_MigrationID cfg" and "cr_Holder cfg \<noteq> ''''" and "drivers_ok dr" and "fault_free w"
    and "cr_MigrationID cfg = cm_migrationID m" and "fence_wf (w_db w)"
    and "stage_of (w_db w) (cm_migrationID m) (cm_stageName m) = Some row" and "ps_CheckpointData row = CkEmpty"
    and "lease_of (w_db w) (cm_migrationID m) = None"
    and "\<forall>t \<le> w_tick w + 61. w_clock w t \<le> w_clock w (w_tick w + 2) + fa_ttl (cm_authority m) - second"
  shows "completed_run m SubPreflight w (Run san m (cm_authority m) dr cfg w)"
  by (rule fresh_run_completes) (use assms in auto)

theorem fresh_cutover_completes_witness:
  "completed_run demo_machine SubPreflight demo_fresh
     (Run id demo_machine (cm_authority demo_machine) demo_drivers demo_request demo_fresh)"
  by (rule fresh_cutover_completes)
    (auto simp: demo_fresh_def demo_stage_row_def NewFencingAuthority_def FenceTTL_def second_def)


theorem restart_skips_done_steps_witness:
  "\<exists>new. w_log (snd (Run id demo_machine NewFencingAuthority demo_drivers demo_request demo_after)) = w_log demo_after @ new
    \<and> list_all (\<lambda>e. SubCompleted \<le> ev_step e) new"
proof -
  obtain row cp where r: "stage_of (w_db demo_after) 7 ''traffic_switch'' = Some row" "ps_CheckpointData row = CkCutover cp"
    "ck_SubState cp = SubCompleted" by (rule demo_after_facts) blast
  show ?thesis unfolding r(3) [symmetric] list_all_iff
    by (rule restart_skips_done_steps [OF demo_run_step demo_fresh_fresh _ r(2)
          prod.collapse [symmetric]]) (simp_all add: r(1))
qed

theorem actions_run_before_expiry_witness:
  "\<exists>cp w1 l w2 n new. acquireOrRecover demo_machine NewFencingAuthority demo_request cp w1 = (Inr l, w2)
    \<and> w_db w1 = w_db demo_fresh \<and> w_log w1 = w_log demo_fresh \<and> fl_ReleasedAt l = None \<and> fl_ExpiresAt l = Stamp n
    \<and> w_log demo_after = w_log demo_fresh @ new \<and> list_all (\<lambda>e. w_clock demo_fresh (ev_tick e) < n * second) new"
  unfolding list_all_iff
proof (rule actions_run_before_expiry [OF rtranclp.rtrancl_refl demo_fresh_fresh])
  show "Run id demo_machine NewFencingAuthority demo_drivers demo_request demo_fresh
      = (fst (Run id demo_machine NewFencingAuthority demo_drivers demo_request demo_fresh), demo_after)"
    by (simp add: demo_after_def)
  obtain row cp where m: "map ev_step (w_log demo_after) = [SubPreflight, SubSeed, SubReplicating, SubVerifying,
        SubAwaitingCutover, SubFencingSource, SubCatchingUp, SubVerifyingTarget, SubSwitching, SubPromoting, SubObserving]"
    by (rule demo_after_facts) blast
  then show "w_log demo_after \<noteq> w_log demo_fresh" by (auto simp: demo_fresh_def)
qed simp

theorem completed_means_all_steps_ran_witness:
  "list_all (\<lambda>s. list_ex (\<lambda>e. ev_step e = s \<and> is_ok (ev_result e)) (w_log demo_after))
     [SubPreflight, SubSeed, SubReplicating, SubVerifying, SubAwaitingCutover, SubFencingSource, SubCatchingUp,
      SubVerifyingTarget, SubSwitching, SubPromoting, SubObserving]"
proof -
  obtain out where "Run id demo_machine NewFencingAuthority demo_drivers demo_request demo_fresh = ((Some out, None), demo_after)"
    using demo_fresh_completes by (auto simp: completed_run_def demo_after_def)
  from completed_means_all_steps_ran [OF rtranclp.rtrancl_refl demo_fresh_fresh this]
  have "list_ex (\<lambda>e. ev_step e = s \<and> is_ok (ev_result e)) (w_log demo_after)" if "0 < sub_rank s" "sub_rank s < 12" for s
    using that by (simp add: demo_fresh_def list_ex_iff less_CutoverSubState_def)
  then show ?thesis by simp
qed

definition demo_blocked :: "(stage_db, cut_event) world" where
  "demo_blocked = calm_world (demo_stage_db [demo_lease ''a'' 3 (Stamp 0) None] CkEmpty)"

theorem stale_lease_stops_cutover_witness:
  "w_db (snd (Run id demo_machine NewFencingAuthority demo_drivers demo_request demo_blocked)) = w_db demo_blocked
    \<and> w_log (snd (Run id demo_machine NewFencingAuthority demo_drivers demo_request demo_blocked)) = w_log demo_blocked
    \<and> snd (fst (Run id demo_machine NewFencingAuthority demo_drivers demo_request demo_blocked)) \<noteq> None"
  by (rule stale_lease_stops_cutover [where now = 0 and l = "demo_lease ''a'' 3 (Stamp 0) None", OF _ _ _ _ _ prod.collapse [symmetric]])
    (auto simp: demo_blocked_def demo_stage_row_def demo_lease_def stale_lease_def second_def)

definition demo_checkpoint :: "CutoverSubState \<Rightarrow> cutoverCheckpoint" where
  "demo_checkpoint s = \<lparr>ck_SubState = s, ck_Token = 3, ck_Holder = ''a'',
     ck_Steps = (\<lambda>t. if SubNone < t \<and> t < s then Some ''ok'' else None)\<rparr>"

definition demo_resume :: "CutoverSubState \<Rightarrow> (stage_db, cut_event) world" where
  "demo_resume s = calm_world (demo_stage_db [(demo_lease ''a'' 3 (Stamp 300) None)\<lparr>fl_State := sub_str s\<rparr>]
     (CkCutover (demo_checkpoint s)))"

theorem resumed_cutover_completes_witness:
  "completed_run demo_machine (ck_SubState (demo_checkpoint SubSwitching)) (demo_resume SubSwitching)
     (Run id demo_machine (cm_authority demo_machine) demo_drivers demo_request (demo_resume SubSwitching))"
  by (rule resumed_cutover_completes [where row = "demo_stage_row (CkCutover (demo_checkpoint SubSwitching))"
        and l = "(demo_lease ''a'' 3 (Stamp 300) None)\<lparr>fl_State := sub_str SubSwitching\<rparr>" and n = 300])
    (auto simp: demo_resume_def demo_checkpoint_def demo_stage_row_def demo_lease_def second_def ck_ok_def step_result_def)

definition demo_crash :: "(stage_db, cut_event) world" where
  "demo_crash = (demo_resume SubPreflight)\<lparr>w_env := (\<lambda>n. if n < 2 then NoFault else FailBefore (ErrF ''killed''))\<rparr>"

definition demo_crashed :: "(stage_db, cut_event) world" where
  "demo_crashed = snd (snd (cutover_Save demo_machine (demo_checkpoint SubSeed)
     (Some ((demo_lease ''a'' 3 (Stamp 300) None)\<lparr>fl_State := sub_str SubPreflight\<rparr>)) demo_crash))"


end
