(* ===== verification/GoText.thy ===== *)
theory GoText
  imports Prelude "HOL-Library.Sublist"
begin

section \<open>The functions of Go's \<open>strings\<close> package that the code uses\<close>

text \<open>
  On ASCII text: \<open>TrimSpace\<close>, \<open>Fields\<close>, \<open>Split\<close> at a one-character separator, \<open>HasPrefix\<close>,
  \<open>TrimPrefix\<close>, \<open>Index\<close> of a character, \<open>ToLower\<close>, \<open>ToUpper\<close>, \<open>Contains\<close>, \<open>LastIndex\<close> of a
  character, and \<open>strconv.Atoi\<close>.
\<close>

definition is_space :: "char \<Rightarrow> bool" where
  "is_space c \<longleftrightarrow> c \<in> {CHR 9, CHR 10, CHR 11, CHR 12, CHR 13, CHR 32}"

definition TrimSpace :: "string \<Rightarrow> string" where
  "TrimSpace s = rev (dropWhile is_space (rev (dropWhile is_space s)))"

text \<open>\<open>Fields\<close>: the maximal runs of characters that are not space.\<close>

function Fields :: "string \<Rightarrow> string list" where
  "Fields s = (let t = dropWhile is_space s in
     if t = [] then [] else takeWhile (\<lambda>c. \<not> is_space c) t # Fields (dropWhile (\<lambda>c. \<not> is_space c) t))"
  by pat_completeness auto

lemma dropWhile_hd_shorter: "s \<noteq> [] \<Longrightarrow> P (hd s) \<Longrightarrow> length (dropWhile P s) < length s"
  by (cases s) (auto intro: le_imp_less_Suc length_dropWhile_le)

termination Fields
proof (relation "measure length")
  fix s t :: string
  assume t: "t = dropWhile is_space s" and "t \<noteq> []"
  then have "\<not> is_space (hd t)" using hd_dropWhile by metis
  with \<open>t \<noteq> []\<close> have "length (dropWhile (\<lambda>c. \<not> is_space c) t) < length t"
    by (rule dropWhile_hd_shorter)
  also have "\<dots> \<le> length s" using t by (simp add: length_dropWhile_le)
  finally show "(dropWhile (\<lambda>c. \<not> is_space c) t, s) \<in> measure length" by simp
qed simp

declare Fields.simps [simp del]

text \<open>\<open>Split\<close>: there is always at least one piece.\<close>

fun split_at :: "char \<Rightarrow> string \<Rightarrow> string list" where
  "split_at c [] = [[]]"
| "split_at c (x # xs) = (if x = c then [] # split_at c xs
     else (case split_at c xs of [] \<Rightarrow> [[x]] | y # ys \<Rightarrow> (x # y) # ys))"

fun join_at :: "char \<Rightarrow> string list \<Rightarrow> string" where
  "join_at c [] = []"
| "join_at c [x] = x"
| "join_at c (x # y # xs) = x @ c # join_at c (y # xs)"

definition HasPrefix :: "string \<Rightarrow> string \<Rightarrow> bool" where
  "HasPrefix s p \<longleftrightarrow> take (length p) s = p"

definition TrimPrefix :: "string \<Rightarrow> string \<Rightarrow> string" where
  "TrimPrefix s p = (if HasPrefix s p then drop (length p) s else s)"

text \<open>The text before and after the first occurrence of a character; \<open>None\<close> when it does not occur.\<close>

definition cut_at :: "char \<Rightarrow> string \<Rightarrow> (string \<times> string) option" where
  "cut_at c s = (if c \<in> set s
     then Some (takeWhile (\<lambda>x. x \<noteq> c) s, tl (dropWhile (\<lambda>x. x \<noteq> c) s)) else None)"

definition lower_char :: "char \<Rightarrow> char" where
  "lower_char c = (let n = of_char c :: nat in if 65 \<le> n \<and> n \<le> 90 then char_of (n + 32) else c)"

definition ToLower :: "string \<Rightarrow> string" where
  "ToLower s = map lower_char s"

lemma HasPrefix_iff: "HasPrefix s p \<longleftrightarrow> (\<exists>t. s = p @ t)"
  unfolding HasPrefix_def by (metis append_eq_conv_conj append_take_drop_id)

lemma TrimPrefix_append [simp]: "TrimPrefix (p @ s) p = s"
  by (simp add: TrimPrefix_def HasPrefix_def)

lemma split_at_nonempty [simp]: "split_at c s \<noteq> []"
  by (induction s) (auto split: list.splits)

lemma join_split [simp]: "join_at c (split_at c s) = s"
proof (induction s)
  case (Cons x s)
  obtain y ys where split: "split_at c s = y # ys" by (cases "split_at c s") auto
  with Cons have "join_at c (y # ys) = s" by simp
  with split show ?case by (cases ys) auto
qed simp

lemma split_at_no_sep: "p \<in> set (split_at c s) \<Longrightarrow> c \<notin> set p"
  by (induction s arbitrary: p) (auto split: if_splits list.splits)

lemma cut_at_Some:
  assumes "cut_at c s = Some (a, b)"
  shows "s = a @ c # b \<and> c \<notin> set a"
proof -
  have c: "c \<in> set s" and a: "a = takeWhile (\<lambda>x. x \<noteq> c) s" and b: "b = tl (dropWhile (\<lambda>x. x \<noteq> c) s)"
    using assms by (auto simp: cut_at_def split: if_splits)
  have "dropWhile (\<lambda>x. x \<noteq> c) s \<noteq> []" using c by (auto simp: dropWhile_eq_Nil_conv)
  then obtain x xs where d: "dropWhile (\<lambda>x. x \<noteq> c) s = x # xs" by (cases "dropWhile (\<lambda>x. x \<noteq> c) s") auto
  then have "x = c" by (simp add: dropWhile_eq_Cons_conv)
  then have "s = a @ c # b" using a b d takeWhile_dropWhile_id [of "\<lambda>x. x \<noteq> c" s] by simp
  moreover have "c \<notin> set a" using a set_takeWhileD by fastforce
  ultimately show ?thesis by simp
qed

subsection \<open>Substrings, upper case and numbers\<close>

fun Contains :: "string \<Rightarrow> string \<Rightarrow> bool" where
  "Contains [] p = (p = [])"
| "Contains (c # s) p = (HasPrefix (c # s) p \<or> Contains s p)"

definition upper_char :: "char \<Rightarrow> char" where
  "upper_char c = (let n = of_char c :: nat in if 97 \<le> n \<and> n \<le> 122 then char_of (n - 32) else c)"

definition ToUpper :: "string \<Rightarrow> string" where
  "ToUpper s = map upper_char s"

text \<open>The text after the last occurrence of a character (\<open>LastIndex\<close>); \<open>None\<close> when it does not occur.\<close>

definition after_last :: "char \<Rightarrow> string \<Rightarrow> string option" where
  "after_last c s = (if c \<in> set s then Some (rev (takeWhile (\<lambda>x. x \<noteq> c) (rev s))) else None)"

text \<open>\<open>strconv.Atoi\<close> on a 64-bit platform: an optional sign, decimal digits, and the range of \<open>int64\<close>.\<close>

definition is_digit :: "char \<Rightarrow> bool" where
  "is_digit c = (let n = of_char c :: nat in 48 \<le> n \<and> n \<le> 57)"

definition digits_value :: "string \<Rightarrow> int" where
  "digits_value s = foldl (\<lambda>v c. 10 * v + (int (of_char c) - 48)) 0 s"

definition Atoi :: "string \<Rightarrow> int option" where
  "Atoi s =
     (let neg = HasPrefix s ''-'';
          ds = (if neg \<or> HasPrefix s ''+'' then tl s else s)
      in if ds = [] \<or> \<not> list_all is_digit ds then None
         else let v = (if neg then - digits_value ds else digits_value ds) in
              if - (2 ^ 63) \<le> v \<and> v < 2 ^ 63 then Some v else None)"

lemma Contains_iff: "Contains s p \<longleftrightarrow> (\<exists>a b. s = a @ p @ b)"
proof (induction s)
  case (Cons c s)
  show ?case
  proof
    assume "Contains (c # s) p"
    then consider t where "c # s = p @ t" | a b where "s = a @ p @ b"
      using Cons by (auto simp: HasPrefix_iff)
    then show "\<exists>a b. c # s = a @ p @ b" by cases (metis append_Nil, metis append_Cons)
  next
    assume "\<exists>a b. c # s = a @ p @ b"
    then obtain a b where ab: "c # s = a @ p @ b" by blast
    then show "Contains (c # s) p"
    proof (cases a)
      case Nil
      with ab have "HasPrefix (c # s) p" by (auto simp: HasPrefix_iff)
      then show ?thesis by simp
    next
      case (Cons d a')
      with ab have "s = a' @ p @ b" by simp
      with Cons.IH show ?thesis by auto
    qed
  qed
qed simp

text \<open>\<open>strconv.ParseUint\<close> in base ten: digits only, and the value fits in \<open>bits\<close> bits.\<close>

definition ParseUint :: "string \<Rightarrow> nat \<Rightarrow> nat option" where
  "ParseUint s bits = (if s = [] \<or> \<not> list_all is_digit s then None
     else let v = nat (digits_value s) in if v < 2 ^ bits then Some v else None)"

lemma is_digit_char [simp]: "d < 10 \<Longrightarrow> is_digit (digit_char d)"
  by (simp add: is_digit_def digit_char_def)

lemma digits_value_snoc: "d < 10 \<Longrightarrow> digits_value (s @ [digit_char d]) = 10 * digits_value s + int d"
  by (simp add: digits_value_def digit_char_def)

lemma string_of_nat_digits: "list_all is_digit (string_of_nat n) \<and> digits_value (string_of_nat n) = int n"
proof (induction n rule: string_of_nat.induct)
  case (1 n)
  show ?case
  proof (cases "n < 10")
    case True
    then show ?thesis using digits_value_snoc [of n "[]"]
      by (simp add: string_of_nat.simps [of n]) (simp add: digits_value_def)
  next
    case False
    with 1 have "list_all is_digit (string_of_nat (n div 10))" "digits_value (string_of_nat (n div 10)) = int (n div 10)"
      by auto
    with False show ?thesis
      by (simp add: string_of_nat.simps [of n] digits_value_snoc) (simp add: zdiv_int zmod_int)
  qed
qed

lemma string_of_nat_chars: "c \<in> set (string_of_nat n) \<Longrightarrow> is_digit c"
  using string_of_nat_digits by (simp add: list_all_iff)

lemma ParseUint_string_of_nat: "n < 2 ^ bits \<Longrightarrow> ParseUint (string_of_nat n) bits = Some n"
  by (simp add: ParseUint_def string_of_nat_digits)

lemma Atoi_string_of_nat:
  assumes "n < 2 ^ 63"
  shows "Atoi (string_of_nat n) = Some (int n)"
proof -
  obtain c s where cs: "string_of_nat n = c # s" by (cases "string_of_nat n") auto
  have "is_digit c" using string_of_nat_chars [of c n] cs by simp
  then have "\<not> HasPrefix (c # s) ''-''" "\<not> HasPrefix (c # s) ''+''" by (auto simp: HasPrefix_def is_digit_def)
  then show ?thesis using string_of_nat_digits [of n] assms unfolding Atoi_def cs by (simp add: Let_def)
qed

subsection \<open>Splitting at separators that occur once\<close>

lemma split_at_single [simp]: "c \<notin> set s \<Longrightarrow> split_at c s = [s]"
  by (induction s) auto

lemma split_at_append [simp]: "c \<notin> set a \<Longrightarrow> split_at c (a @ c # b) = a # split_at c b"
  by (induction a) auto

text \<open>\<open>TrimSuffix\<close> and \<open>HasSuffix\<close>.\<close>

definition HasSuffix :: "string \<Rightarrow> string \<Rightarrow> bool" where
  "HasSuffix s p \<longleftrightarrow> HasPrefix (rev s) (rev p)"

definition TrimSuffix :: "string \<Rightarrow> string \<Rightarrow> string" where
  "TrimSuffix s p = (if HasSuffix s p then take (length s - length p) s else s)"

end
