(* ===== verification/Topology.thy ===== *)
theory Topology
  imports MigState GoText
begin

section \<open>Replication topology (\<open>migration/topology.go\<close>, \<open>migration/topology_mode.go\<close>)\<close>

text \<open>
  The read-only probes that decide whether a rollback may re-point a replica, the decision of a
  rollback's terminal state, and the certification of an execution mode. An SSH connection is an
  interface of the code: a function from the command to its output, its error output, its exit status
  and a transport error.
\<close>

type_synonym ssh_exec = "string \<Rightarrow> string \<times> string \<times> int \<times> goerr option"

definition ErrUnsafeTopology :: goerr where
  "ErrUnsafeTopology = ErrNew ''unsafe replication topology for rollback''"

definition ErrAwaitingCutover :: goerr where
  "ErrAwaitingCutover = ErrNew ''awaiting manual cutover''"

definition ErrCutoverNotConfirmed :: goerr where
  "ErrCutoverNotConfirmed = ErrNew ''cutover_not_confirmed''"

definition rollbackTerminalState :: "goerr option \<Rightarrow> MigrationState" where
  "rollbackTerminalState err = (case err of
       None \<Rightarrow> StateRolledBack
     | Some e \<Rightarrow> if errors_is e ErrUnsafeTopology then StateNeedsManualIntervention
                 else StateRollbackDegraded)"

datatype topologyKind = topoUnknown | topoPrimary | topoReplica

record topologyProbe =
  tp_source :: topologyKind
  tp_target :: topologyKind
  tp_sourceUp :: bool
  tp_targetUp :: bool
  tp_detail :: string

definition empty_probe :: topologyProbe where
  "empty_probe = \<lparr>tp_source = topoUnknown, tp_target = topoUnknown, tp_sourceUp = False,
     tp_targetUp = False, tp_detail = ''''\<rparr>"

definition safeForRepoint :: "topologyProbe \<Rightarrow> bool" where
  "safeForRepoint t \<longleftrightarrow> tp_sourceUp t \<and> tp_targetUp t \<and> tp_source t = topoPrimary \<and> tp_target t = topoReplica"

definition probe_reason :: "topologyProbe \<Rightarrow> string" where
  "probe_reason t =
     (if \<not> tp_sourceUp t then ''source unreachable''
      else if \<not> tp_targetUp t then ''target unreachable''
      else if tp_source t = topoReplica \<and> tp_target t = topoPrimary
      then ''roles reversed: source is replica, target is primary''
      else if tp_source t = topoPrimary \<and> tp_target t = topoPrimary
      then ''both writable: split-brain risk''
      else if tp_source t = topoUnknown \<or> tp_target t = topoUnknown
      then ''unknown/unexpected topology''
      else ''topology does not permit safe rollback re-point'')"

subsection \<open>Probes\<close>

definition exit_err :: "int \<Rightarrow> string \<Rightarrow> goerr" where
  "exit_err rc stderr = ErrF (''exit '' @ string_of_int rc @ '': '' @ TrimSpace stderr)"

definition mysqlRoleFromReadOnly :: "string \<Rightarrow> topologyKind" where
  "mysqlRoleFromReadOnly ro = (let v = ToLower (TrimSpace ro) in
     if v = ''off'' \<or> v = '''' then topoPrimary
     else if v = ''on'' then topoReplica
     else topoUnknown)"

definition mysql_command :: string where
  "mysql_command = ''mysql -NBe '' @ quoted (''SHOW VARIABLES LIKE '' @ [CHR 39] @ ''read_only'' @ [CHR 39]) @ '' 2>&1''"

text \<open>Each role reader returns the value, whether the server was reached, and an error.\<close>

definition mysqlReadOnly :: "ssh_exec \<Rightarrow> string \<times> bool \<times> goerr option" where
  "mysqlReadOnly ssh = (case ssh mysql_command of
     (out, stderr, rc, err) \<Rightarrow>
       (case err of
          Some e \<Rightarrow> ('''', False, Some e)
        | None \<Rightarrow>
            if rc \<noteq> 0 then ('''', False, Some (exit_err rc stderr))
            else (let fields = Fields (TrimSpace out) in
              if length fields < 2
              then ('''', True, Some (ErrF (''unexpected read_only output: '' @ quoted out)))
              else (fields ! 1, True, None))))"

definition probe_err :: "string \<Rightarrow> goerr \<Rightarrow> goerr" where
  "probe_err what e = ErrWrap '''' ErrUnsafeTopology ('': '' @ what @ '': '' @ err_text e)"

definition probeMySQL :: "ssh_exec \<Rightarrow> ssh_exec \<Rightarrow> topologyProbe \<times> goerr option" where
  "probeMySQL src tgt = (case mysqlReadOnly src of
       (ro, ok, Some e) \<Rightarrow> (empty_probe, Some (probe_err ''source read_only probe'' e))
     | (ro, ok, None) \<Rightarrow>
         (let t = empty_probe\<lparr>tp_sourceUp := ok, tp_source := mysqlRoleFromReadOnly ro\<rparr> in
          case mysqlReadOnly tgt of
            (ro2, ok2, Some e) \<Rightarrow> (t, Some (probe_err ''target read_only probe'' e))
          | (ro2, ok2, None) \<Rightarrow> (t\<lparr>tp_targetUp := ok2, tp_target := mysqlRoleFromReadOnly ro2\<rparr>, None)))"

definition pg_command :: string where
  "pg_command = ''sudo -u postgres psql -tAc '' @ [CHR 39] @ ''SELECT pg_is_in_recovery();'' @ [CHR 39] @ '' 2>&1''"

definition pgInRecovery :: "ssh_exec \<Rightarrow> bool \<times> bool \<times> goerr option" where
  "pgInRecovery ssh = (case ssh pg_command of
     (out, stderr, rc, err) \<Rightarrow>
       (case err of
          Some e \<Rightarrow> (False, False, Some e)
        | None \<Rightarrow>
            if rc \<noteq> 0 then (False, False, Some (exit_err rc stderr))
            else (TrimSpace out = ''t'', True, None)))"

definition pg_role :: "bool \<Rightarrow> topologyKind" where
  "pg_role inRecovery = (if inRecovery then topoReplica else topoPrimary)"

definition probePostgres :: "ssh_exec \<Rightarrow> ssh_exec \<Rightarrow> topologyProbe \<times> goerr option" where
  "probePostgres src tgt = (case pgInRecovery src of
       (r, ok, Some e) \<Rightarrow> (empty_probe, Some (probe_err ''source pg_is_in_recovery probe'' e))
     | (r, ok, None) \<Rightarrow>
         (let t = empty_probe\<lparr>tp_sourceUp := ok, tp_source := pg_role r\<rparr> in
          case pgInRecovery tgt of
            (r2, ok2, Some e) \<Rightarrow> (t, Some (probe_err ''target pg_is_in_recovery probe'' e))
          | (r2, ok2, None) \<Rightarrow> (t\<lparr>tp_targetUp := ok2, tp_target := pg_role r2\<rparr>, None)))"

fun find_role :: "string list \<Rightarrow> string option" where
  "find_role [] = None"
| "find_role (line # lines) =
     (if HasPrefix (TrimSpace line) ''role:'' then Some (TrimSpace (TrimPrefix (TrimSpace line) ''role:''))
      else find_role lines)"

definition redisRole :: "ssh_exec \<Rightarrow> string \<times> bool \<times> goerr option" where
  "redisRole ssh = (case ssh ''redis-cli INFO replication 2>&1'' of
     (out, stderr, rc, err) \<Rightarrow>
       (case err of
          Some e \<Rightarrow> ('''', False, Some e)
        | None \<Rightarrow>
            if rc \<noteq> 0 then ('''', False, Some (exit_err rc stderr))
            else (case find_role (split_at (CHR 10) out) of
                Some role \<Rightarrow> (role, True, None)
              | None \<Rightarrow> ('''', True, Some (ErrF ''no role: line in INFO replication'')))))"

definition redisRoleKind :: "string \<Rightarrow> topologyKind" where
  "redisRoleKind role = (let v = ToLower (TrimSpace role) in
     if v = ''master'' then topoPrimary
     else if v = ''slave'' \<or> v = ''replica'' then topoReplica
     else topoUnknown)"

definition probeRedis :: "ssh_exec \<Rightarrow> ssh_exec \<Rightarrow> topologyProbe \<times> goerr option" where
  "probeRedis src tgt = (case redisRole src of
       (r, ok, Some e) \<Rightarrow> (empty_probe, Some (probe_err ''source redis role probe'' e))
     | (r, ok, None) \<Rightarrow>
         (let t = empty_probe\<lparr>tp_sourceUp := ok, tp_source := redisRoleKind r\<rparr> in
          case redisRole tgt of
            (r2, ok2, Some e) \<Rightarrow> (t, Some (probe_err ''target redis role probe'' e))
          | (r2, ok2, None) \<Rightarrow> (t\<lparr>tp_targetUp := ok2, tp_target := redisRoleKind r2\<rparr>, None)))"

definition probeTopology :: "ssh_exec \<Rightarrow> ssh_exec \<Rightarrow> string \<Rightarrow> topologyProbe \<times> goerr option" where
  "probeTopology src tgt dbType =
     (if dbType = ''mysql'' \<or> dbType = ''mariadb'' then probeMySQL src tgt
      else if dbType = ''postgres'' \<or> dbType = ''postgresql'' then probePostgres src tgt
      else if dbType = ''redis'' then probeRedis src tgt
      else if dbType = ''mongodb''
      then (empty_probe\<lparr>tp_detail := ''mongodb rollback not supported this pass''\<rparr>, Some ErrUnsafeTopology)
      else (empty_probe\<lparr>tp_detail := ''unsupported engine''\<rparr>, Some ErrUnsafeTopology))"

subsection \<open>Execution modes\<close>

datatype ExecutionMode = ModeHost | ModeContainer | ModeCompose | ModeBastion | ModeUnknown

primrec mode_str :: "ExecutionMode \<Rightarrow> string" where
  "mode_str ModeHost = ''host''"
| "mode_str ModeContainer = ''container''"
| "mode_str ModeCompose = ''compose''"
| "mode_str ModeBastion = ''bastion''"
| "mode_str ModeUnknown = ''unknown''"

definition supportedExecutionModes :: "(ExecutionMode \<times> bool) list" where
  "supportedExecutionModes = [(ModeHost, True), (ModeContainer, True), (ModeCompose, True), (ModeBastion, True)]"

definition ErrUnsupportedMode :: goerr where
  "ErrUnsupportedMode = ErrNew ''unsupported execution mode for cutover''"

record TopologyEvidence =
  te_Mode :: ExecutionMode
  te_SourceID :: string
  te_TargetID :: string
  te_ComposeProject :: string
  te_BastionID :: string
  te_ToolAvailable :: bool
  te_Connectivity :: string
  te_SupportStatus :: string
  te_Notes :: string

definition classifyExecutionMode :: "string \<Rightarrow> ExecutionMode" where
  "classifyExecutionMode s = (let v = ToLower (TrimSpace s) in
     if v = ''host'' then ModeHost
     else if v = ''container'' then ModeContainer
     else if v = ''compose'' then ModeCompose
     else if v = ''bastion'' then ModeBastion
     else ModeUnknown)"

definition go_true :: "('k \<times> bool) list \<Rightarrow> 'k \<Rightarrow> bool" where
  "go_true m k = (case map_of m k of None \<Rightarrow> False | Some b \<Rightarrow> b)"

definition firstLine :: "string \<Rightarrow> string" where
  "firstLine s = (case cut_at (CHR 10) s of Some (a, _) \<Rightarrow> a | None \<Rightarrow> s)"

definition mode_probe :: "ExecutionMode \<Rightarrow> string" where
  "mode_probe m = (case m of
       ModeContainer \<Rightarrow> ''docker version --format '' @ [CHR 39] @ ''{{.Server.Version}}'' @ [CHR 39] @ '' 2>&1''
     | ModeCompose \<Rightarrow> ''docker compose version 2>&1''
     | ModeBastion \<Rightarrow> ''ssh -V 2>&1''
     | ModeHost \<Rightarrow> ''ssh -V 2>&1''
     | ModeUnknown \<Rightarrow> '''')"

definition CertifyTopology ::
  "ssh_exec \<Rightarrow> string \<Rightarrow> string \<Rightarrow> string \<Rightarrow> string \<Rightarrow> string \<Rightarrow> TopologyEvidence \<times> goerr option" where
  "CertifyTopology ssh mode sourceID targetID composeProject bastionID =
     (let m = classifyExecutionMode mode;
          ev = \<lparr>te_Mode = m, te_SourceID = sourceID, te_TargetID = targetID,
                te_ComposeProject = composeProject, te_BastionID = bastionID, te_ToolAvailable = False,
                te_Connectivity = '''', te_SupportStatus = '''', te_Notes = ''''\<rparr>
      in if m = ModeUnknown \<or> \<not> go_true supportedExecutionModes m then
           (let notes = ''execution mode '' @ quoted mode @ '' is not a certified cutover mode'' in
            (ev\<lparr>te_SupportStatus := ''blocked'', te_Notes := notes\<rparr>,
             Some (ErrWrap '''' ErrUnsupportedMode ('': '' @ notes))))
         else (case ssh (mode_probe m) of
           (out, stderr, rc, err) \<Rightarrow>
             if err \<noteq> None \<or> rc \<noteq> 0 then
               (let notes = ''transport tool unavailable for mode '' @ mode_str m @ '': '' @ TrimSpace out in
                (ev\<lparr>te_ToolAvailable := False,
                    te_Connectivity := ''failed: '' @ TrimSpace (firstLine stderr),
                    te_SupportStatus := ''blocked'', te_Notes := notes\<rparr>,
                 Some (ErrWrap '''' ErrUnsupportedMode ('': '' @ notes))))
             else
               (ev\<lparr>te_ToolAvailable := True, te_Connectivity := ''ok'', te_SupportStatus := ''automatic'',
                   te_Notes := ''mode '' @ mode_str m @ '' certified: tool available, source='' @ sourceID @
                     '' target='' @ targetID\<rparr>, None)))"

subsection \<open>What the probes establish\<close>

text \<open>The server answered: no transport error and exit status zero.\<close>

definition answers :: "ssh_exec \<Rightarrow> string \<Rightarrow> string \<Rightarrow> bool" where
  "answers ssh cmd out \<longleftrightarrow> (\<exists>stderr. ssh cmd = (out, stderr, 0, None))"

lemma mysqlReadOnly_ok:
  "mysqlReadOnly ssh = (v, ok, None) \<longleftrightarrow>
     ok \<and> (\<exists>out. answers ssh mysql_command out \<and> 2 \<le> length (Fields (TrimSpace out)) \<and> v = Fields (TrimSpace out) ! 1)"
  by (auto simp: mysqlReadOnly_def answers_def Let_def split: prod.splits option.splits if_splits)

lemma pgInRecovery_ok:
  "pgInRecovery ssh = (b, ok, None) \<longleftrightarrow> ok \<and> (\<exists>out. answers ssh pg_command out \<and> b = (TrimSpace out = ''t''))"
  by (auto simp: pgInRecovery_def answers_def split: prod.splits option.splits if_splits)

lemma redisRole_ok:
  "redisRole ssh = (v, ok, None) \<longleftrightarrow>
     ok \<and> (\<exists>out. answers ssh ''redis-cli INFO replication 2>&1'' out \<and> find_role (split_at (CHR 10) out) = Some v)"
  by (auto simp: redisRole_def answers_def split: prod.splits option.splits if_splits)

lemma probe_err_unsafe [simp]: "errors_is (probe_err what e) ErrUnsafeTopology"
  by (simp add: probe_err_def ErrUnsafeTopology_def)

lemma probe_failures:
  "probeMySQL src tgt = (t, Some e) \<Longrightarrow> errors_is e ErrUnsafeTopology \<and> \<not> tp_targetUp t"
  "probePostgres src tgt = (t, Some e) \<Longrightarrow> errors_is e ErrUnsafeTopology \<and> \<not> tp_targetUp t"
  "probeRedis src tgt = (t, Some e) \<Longrightarrow> errors_is e ErrUnsafeTopology \<and> \<not> tp_targetUp t"
  by (auto simp: probeMySQL_def probePostgres_def probeRedis_def empty_probe_def Let_def
      split: prod.splits option.splits)

lemma ErrUnsafeTopology_is [simp]: "errors_is ErrUnsafeTopology ErrUnsafeTopology"
  by (simp add: ErrUnsafeTopology_def)

text \<open>A probe that fails for any reason, on either side and for any engine, reports an error that
  wraps \<open>ErrUnsafeTopology\<close>, leaves a topology that is not safe to re-point, and as the error of a rollback
  leads to \<open>NeedsManualIntervention\<close>.\<close>

theorem probe_failure_fails_closed:
  assumes "probeTopology src tgt dbType = (t, Some e)"
  shows "\<not> safeForRepoint t \<and> rollbackTerminalState (Some e) = StateNeedsManualIntervention"
proof -
  have "errors_is e ErrUnsafeTopology \<and> \<not> tp_targetUp t"
    using assms probe_failures [of src tgt t e]
    by (auto simp: probeTopology_def empty_probe_def split: if_splits)
  then show ?thesis by (simp add: safeForRepoint_def rollbackTerminalState_def)
qed

theorem probe_failure_fails_closed_witness:
  "\<not> safeForRepoint (empty_probe\<lparr>tp_detail := ''unsupported engine''\<rparr>)
    \<and> rollbackTerminalState (Some ErrUnsafeTopology) = StateNeedsManualIntervention"
  by (rule probe_failure_fails_closed [where dbType = "''sqlite''" and src = undefined and tgt = undefined]) (simp add: probeTopology_def)

text \<open>For PostgreSQL, re-pointing is judged safe exactly when both servers answer, the target's
  answer is \<open>t\<close> and the source's answer is anything else: the source is never required to answer \<open>f\<close>.\<close>

theorem postgres_safe_iff:
  "(\<exists>t. probeTopology src tgt ''postgres'' = (t, None) \<and> safeForRepoint t) \<longleftrightarrow>
     (\<exists>a b. answers src pg_command a \<and> TrimSpace a \<noteq> ''t'' \<and> answers tgt pg_command b \<and> TrimSpace b = ''t'')"
proof -
  obtain r ok e where s: "pgInRecovery src = (r, ok, e)" by (metis prod_cases3)
  obtain r2 ok2 e2 where t: "pgInRecovery tgt = (r2, ok2, e2)" by (metis prod_cases3)
  have "(\<exists>t. probeTopology src tgt ''postgres'' = (t, None) \<and> safeForRepoint t) \<longleftrightarrow>
      e = None \<and> e2 = None \<and> ok \<and> ok2 \<and> \<not> r \<and> r2"
    using s t by (cases e; cases e2)
      (auto simp: probeTopology_def probePostgres_def Let_def safeForRepoint_def pg_role_def)
  moreover have "(e = None \<and> ok \<and> \<not> r) \<longleftrightarrow> (\<exists>a. answers src pg_command a \<and> TrimSpace a \<noteq> ''t'')"
    using s by (auto simp: pgInRecovery_def answers_def split: prod.splits option.splits if_splits)
  moreover have "(e2 = None \<and> ok2 \<and> r2) \<longleftrightarrow> (\<exists>b. answers tgt pg_command b \<and> TrimSpace b = ''t'')"
    using t by (auto simp: pgInRecovery_def answers_def split: prod.splits option.splits if_splits)
  ultimately show ?thesis by blast
qed

text \<open>For MySQL and Redis, re-pointing is judged safe only when both servers answer and name their
  roles: the source \<open>OFF\<close> or \<open>master\<close>, the target \<open>ON\<close>, \<open>slave\<close> or \<open>replica\<close>.\<close>

theorem mysql_redis_safe_names_roles:
  assumes "probeTopology src tgt dbType = (t, None)" and "safeForRepoint t"
    and "dbType \<noteq> ''postgres''" and "dbType \<noteq> ''postgresql''"
  shows "\<exists>cmd a b s r. answers src cmd a \<and> answers tgt cmd b
    \<and> (dbType = ''redis'' \<and> find_role (split_at (CHR 10) a) = Some s \<and> find_role (split_at (CHR 10) b) = Some r
         \<and> ToLower (TrimSpace s) = ''master'' \<and> ToLower (TrimSpace r) \<in> {''slave'', ''replica''}
       \<or> dbType \<in> {''mysql'', ''mariadb''} \<and> Fields (TrimSpace a) ! 1 = s \<and> Fields (TrimSpace b) ! 1 = r
         \<and> ToLower (TrimSpace s) \<in> {''off'', ''''} \<and> ToLower (TrimSpace r) = ''on'')"
proof -
  consider "dbType \<in> {''mysql'', ''mariadb''}" | "dbType = ''redis''"
    using assms(1,3,4) by (auto simp: probeTopology_def split: if_splits)
  then show ?thesis
  proof cases
    case 1
    then have "probeMySQL src tgt = (t, None)" using assms(1) by (auto simp: probeTopology_def)
    then obtain s r where "mysqlReadOnly src = (s, True, None)" "mysqlReadOnly tgt = (r, True, None)"
      and "mysqlRoleFromReadOnly s = topoPrimary" "mysqlRoleFromReadOnly r = topoReplica"
      using assms(2) by (auto simp: probeMySQL_def Let_def safeForRepoint_def split: prod.splits option.splits)
    then show ?thesis using 1
      by (auto simp: mysqlReadOnly_ok mysqlRoleFromReadOnly_def Let_def split: if_splits) blast+
  next
    case 2
    then have "probeRedis src tgt = (t, None)" using assms(1) by (simp add: probeTopology_def)
    then obtain s r where "redisRole src = (s, True, None)" "redisRole tgt = (r, True, None)"
      and "redisRoleKind s = topoPrimary" "redisRoleKind r = topoReplica"
      using assms(2) by (auto simp: probeRedis_def Let_def safeForRepoint_def split: prod.splits option.splits)
    then show ?thesis using 2
      by (auto simp: redisRole_ok redisRoleKind_def Let_def split: if_splits) blast+
  qed
qed

definition demo_ssh :: "string \<Rightarrow> ssh_exec" where
  "demo_ssh out cmd = (out, '''', 0, None)"

theorem mysql_redis_safe_names_roles_witness:
  "\<exists>cmd a b s r. answers (demo_ssh ''role:master'') cmd a \<and> answers (demo_ssh ''role:slave'') cmd b
    \<and> (''redis'' = ''redis'' \<and> find_role (split_at (CHR 10) a) = Some s \<and> find_role (split_at (CHR 10) b) = Some r
         \<and> ToLower (TrimSpace s) = ''master'' \<and> ToLower (TrimSpace r) \<in> {''slave'', ''replica''}
       \<or> ''redis'' \<in> {''mysql'', ''mariadb''} \<and> Fields (TrimSpace a) ! 1 = s \<and> Fields (TrimSpace b) ! 1 = r
         \<and> ToLower (TrimSpace s) \<in> {''off'', ''''} \<and> ToLower (TrimSpace r) = ''on'')"
proof (rule mysql_redis_safe_names_roles)
  let ?t = "empty_probe\<lparr>tp_sourceUp := True, tp_source := topoPrimary, tp_targetUp := True, tp_target := topoReplica\<rparr>"
  have "redisRole (demo_ssh ''role:master'') = (''master'', True, None)"
    "redisRole (demo_ssh ''role:slave'') = (''slave'', True, None)"
    by (simp_all add: redisRole_def demo_ssh_def TrimSpace_def is_space_def HasPrefix_def TrimPrefix_def)
  moreover have "redisRoleKind ''master'' = topoPrimary" "redisRoleKind ''slave'' = topoReplica"
    by (simp_all add: redisRoleKind_def TrimSpace_def is_space_def ToLower_def lower_char_def)
  ultimately show "probeTopology (demo_ssh ''role:master'') (demo_ssh ''role:slave'') ''redis'' = (?t, None)"
    by (simp add: probeTopology_def probeRedis_def)
  show "safeForRepoint ?t" by (simp add: safeForRepoint_def)
qed simp_all

end
