(* ===== verification/Policy.thy ===== *)
theory Policy
  imports Topology "HOL-Library.Char_ord" "HOL-Library.List_Lexorder" "HOL-Library.AList"
begin

section \<open>The policy engine (\<open>migration/policy.go\<close>)\<close>

text \<open>
  Which engines, traffic providers, replication modes and execution modes the server permits. A Go map
  to booleans is an association list; its iteration order does not matter where it is read.
\<close>

definition supportedTrafficProviders :: "(string \<times> bool) list" where
  "supportedTrafficProviders = [(''nginx'', True), (''haproxy'', True), (''caddy'', True)]"

definition supportedReplicationModes :: "(string \<times> bool) list" where
  "supportedReplicationModes =
     [(''none'', True), (''streaming'', True), (''logical'', True), (''replica'', True), (''dump'', True)]"

definition cutoverEngineType :: "string \<Rightarrow> string \<times> bool" where
  "cutoverEngineType engine = (let e = ToLower (TrimSpace engine) in
     if e = ''postgres'' \<or> e = ''postgresql'' then (''postgres'', True)
     else if e = ''mysql'' \<or> e = ''mariadb'' then (''mysql'', True)
     else if e = ''redis'' then (''redis'', True)
     else if e = ''mongodb'' then ('''', False)
     else ('''', False))"

record PolicyEngine =
  pe_AllowedTrafficProviders :: "(string \<times> bool) list"
  pe_AllowedReplicationModes :: "(string \<times> bool) list"
  pe_AllowedExecutionModes :: "(ExecutionMode \<times> bool) list"
  pe_AllowedCutoverEngines :: "(string \<times> bool) list"

definition copy_map :: "('k \<times> bool) list \<Rightarrow> ('k \<times> bool) list" where
  "copy_map m = fold (\<lambda>(k, v) out. AList.update k v out) m []"

definition NewPolicyEngine :: PolicyEngine where
  "NewPolicyEngine = \<lparr>pe_AllowedTrafficProviders = copy_map (copy_map supportedTrafficProviders),
     pe_AllowedReplicationModes = copy_map supportedReplicationModes,
     pe_AllowedExecutionModes = copy_map supportedExecutionModes,
     pe_AllowedCutoverEngines = fold (\<lambda>e out. AList.update e True out) [''postgres'', ''mysql'', ''redis''] []\<rparr>"

definition DefaultPolicy :: PolicyEngine where
  "DefaultPolicy = NewPolicyEngine"

definition EngineSupportedForAutomaticCutover :: "PolicyEngine \<Rightarrow> string \<Rightarrow> bool" where
  "EngineSupportedForAutomaticCutover p engine =
     (let (e, ok) = cutoverEngineType engine in
      if \<not> ok then False else go_true (pe_AllowedCutoverEngines p) e)"

definition ProviderSupportedForAutomaticCutover :: "PolicyEngine \<Rightarrow> string \<Rightarrow> bool" where
  "ProviderSupportedForAutomaticCutover p provider = go_true (pe_AllowedTrafficProviders p) provider"

definition ReplicationModeSupported :: "PolicyEngine \<Rightarrow> string \<Rightarrow> bool" where
  "ReplicationModeSupported p mode = go_true (pe_AllowedReplicationModes p) mode"

definition ExecutionModeSupported :: "PolicyEngine \<Rightarrow> ExecutionMode \<Rightarrow> bool" where
  "ExecutionModeSupported p mode = go_true (pe_AllowedExecutionModes p) mode"

text \<open>The two fields of \<open>MigrationConfig\<close> the check reads; a nil config passes.\<close>

definition CheckConfigSupport :: "PolicyEngine \<Rightarrow> (string \<times> string) option \<Rightarrow> goerr option" where
  "CheckConfigSupport p config = (case config of
       None \<Rightarrow> None
     | Some (provider, mode) \<Rightarrow>
         if provider \<noteq> '''' \<and> \<not> ProviderSupportedForAutomaticCutover p provider
         then Some (ErrF (''unsupported traffic provider '' @ quoted provider @
                ('': must be one of the supported providers'')))
         else if mode \<noteq> '''' \<and> \<not> ReplicationModeSupported p mode
         then Some (ErrF (''unsupported replication mode '' @ quoted mode @
                ('': must be one of the supported modes'')))
         else None)"

definition CheckAutoCutover :: "PolicyEngine \<Rightarrow> string \<Rightarrow> string \<Rightarrow> goerr option" where
  "CheckAutoCutover p engine provider =
     (if \<not> EngineSupportedForAutomaticCutover p engine
      then Some (ErrF (''autoCutover: engine '' @ quoted engine @
        '' has no fenced-cutover contract (supported: postgres, mysql, redis; mongodb is not safe)''))
      else if provider = ''''
      then Some (ErrF ''autoCutover: a traffic provider with a fenced switcher is required (supported: nginx, haproxy, caddy)'')
      else if \<not> ProviderSupportedForAutomaticCutover p provider
      then Some (ErrF (''autoCutover: traffic provider '' @ quoted provider @
        '' has no fenced switcher (supported: nginx, haproxy, caddy)''))
      else None)"

record PolicyMatrix =
  pm_AutoCutoverDefault :: bool
  pm_SupportedEngines :: "string list"
  pm_SupportedTrafficProviders :: "string list"
  pm_SupportedReplicationModes :: "string list"
  pm_SupportedExecutionModes :: "string list"
  pm_Notes :: "string list"

text \<open>\<open>Matrix\<close> lists the keys, sorted.\<close>

definition AutoCutoverDefault :: bool where
  "AutoCutoverDefault = False"

definition Matrix :: "PolicyEngine \<Rightarrow> PolicyMatrix" where
  "Matrix p = \<lparr>pm_AutoCutoverDefault = AutoCutoverDefault,
     pm_SupportedEngines = sort (map fst (pe_AllowedCutoverEngines p)),
     pm_SupportedTrafficProviders = sort (map fst (pe_AllowedTrafficProviders p)),
     pm_SupportedReplicationModes = sort (map fst (pe_AllowedReplicationModes p)),
     pm_SupportedExecutionModes = sort (map (mode_str \<circ> fst) (pe_AllowedExecutionModes p)),
     pm_Notes =
       [''mongodb has no safe automatic cutover contract (no replica-set lag measurement) '' @ em_dash @
          '' manual cutover only'',
        ''redis has no source-freeze primitive '' @ em_dash @
          '' degraded (minimal, not zero, downtime); never automatic'',
        ''automatic cutover is opt-in (autoCutover=false by default); the default path is manual_required'']\<rparr>"

lemma DefaultPolicy_fields:
  "pe_AllowedTrafficProviders DefaultPolicy = [(''nginx'', True), (''haproxy'', True), (''caddy'', True)]"
  "pe_AllowedReplicationModes DefaultPolicy
     = [(''none'', True), (''streaming'', True), (''logical'', True), (''replica'', True), (''dump'', True)]"
  "pe_AllowedCutoverEngines DefaultPolicy = [(''postgres'', True), (''mysql'', True), (''redis'', True)]"
  by (simp_all add: DefaultPolicy_def NewPolicyEngine_def copy_map_def supportedTrafficProviders_def
      supportedReplicationModes_def)

lemma engine_gate:
  "EngineSupportedForAutomaticCutover DefaultPolicy engine \<longleftrightarrow>
     ToLower (TrimSpace engine) \<in> {''postgres'', ''postgresql'', ''mysql'', ''mariadb'', ''redis''}"
  by (auto simp: EngineSupportedForAutomaticCutover_def DefaultPolicy_fields go_true_def cutoverEngineType_def Let_def)

lemma provider_gate:
  "ProviderSupportedForAutomaticCutover DefaultPolicy provider \<longleftrightarrow> provider \<in> {''nginx'', ''haproxy'', ''caddy''}"
  by (auto simp: ProviderSupportedForAutomaticCutover_def DefaultPolicy_fields go_true_def)

text \<open>Under the default policy an automatic cutover is permitted exactly for the engines
  PostgreSQL, MySQL and Redis under any of their names, with a fenced switcher for Nginx, HAProxy or Caddy;
  and the published matrix lists exactly the engines and providers the gate accepts.\<close>

theorem auto_cutover_gate:
  "(CheckAutoCutover DefaultPolicy engine provider = None \<longleftrightarrow>
      ToLower (TrimSpace engine) \<in> {''postgres'', ''postgresql'', ''mysql'', ''mariadb'', ''redis''}
      \<and> provider \<in> {''nginx'', ''haproxy'', ''caddy''})
   \<and> (snd (cutoverEngineType engine) \<longleftrightarrow>
      fst (cutoverEngineType engine) \<in> set (pm_SupportedEngines (Matrix DefaultPolicy)))
   \<and> (provider \<in> set (pm_SupportedTrafficProviders (Matrix DefaultPolicy)) \<longleftrightarrow>
      ProviderSupportedForAutomaticCutover DefaultPolicy provider)"
proof -
  have "snd (cutoverEngineType engine) \<longleftrightarrow> fst (cutoverEngineType engine) \<in> {''postgres'', ''mysql'', ''redis''}"
    by (auto simp: cutoverEngineType_def Let_def)
  with engine_gate provider_gate show ?thesis by (auto simp: CheckAutoCutover_def Matrix_def DefaultPolicy_fields)
qed

end
