(* ===== verification/Risk.thy ===== *)
theory Risk
  imports Prelude Complex_Main
begin

section \<open>The risk engine (\<open>migration/risk_engine.go\<close>)\<close>

text \<open>
  The score of a migration and its class. The floating-point numbers of the code are rationals here:
  every constant is a multiple of one half, and the sizes are compared with whole gigabytes, so the
  additions and comparisons are exact in both.
\<close>

record RiskInput =
  ri_DataSizeBytes :: int
  ri_DatabaseSizeBytes :: int
  ri_ContainerCount :: int
  ri_VolumeCount :: int
  ri_QueueCount :: int
  ri_ReplicationAvailable :: bool
  ri_NetworkSpeedMbps :: rat
  ri_SourceCPU :: int
  ri_TargetCPU :: int
  ri_SourceRAMMB :: int
  ri_TargetRAMMB :: int
  ri_CompatibilityIssues :: int
  ri_CriticalIssues :: int

datatype RiskClass = RiskClassLow | RiskClassMedium | RiskClassHigh | RiskClassCritical

definition gigabytes :: "int \<Rightarrow> rat" where
  "gigabytes n = of_int n / (1024 * 1024 * 1024)"

definition data_points :: "rat \<Rightarrow> rat" where
  "data_points gb = (if gb < 1 then 2 else if gb < 10 then 5 else if gb < 50 then 10
     else if gb < 100 then 15 else 20)"

definition database_points :: "rat \<Rightarrow> rat" where
  "database_points gb = (if gb < 1 then 2 else if gb < 10 then 5 else if gb < 50 then 12
     else if gb < 100 then 16 else 20)"

definition container_points :: "int \<Rightarrow> rat" where
  "container_points n = (if n \<le> 3 then 3 else if n \<le> 10 then 6 else if n \<le> 20 then 10 else 15)"

definition volume_points :: "int \<Rightarrow> rat" where
  "volume_points n = (if n \<le> 2 then 2 else if n \<le> 5 then 4 else if n \<le> 10 then 7 else 10)"

definition queue_points :: "int \<Rightarrow> rat" where
  "queue_points n = (if n = 0 then 0 else if n \<le> 2 then 3 else if n \<le> 5 then 6 else 10)"

definition network_points :: "rat \<Rightarrow> rat" where
  "network_points s = (if 1000 \<le> s then 1 else if 500 \<le> s then 3 else if 100 \<le> s then 5
     else if 50 \<le> s then 7 else 10)"

definition calculateScore :: "RiskInput \<Rightarrow> rat" where
  "calculateScore i =
     (let s1 = data_points (gigabytes (ri_DataSizeBytes i));
          s2 = s1 + database_points (gigabytes (ri_DatabaseSizeBytes i));
          s3 = s2 + container_points (ri_ContainerCount i);
          s4 = s3 + volume_points (ri_VolumeCount i);
          s5 = s4 + queue_points (ri_QueueCount i);
          s6 = (if \<not> ri_ReplicationAvailable i then s5 + 10 else s5);
          s7 = s6 + network_points (ri_NetworkSpeedMbps i);
          s8 = (if ri_TargetCPU i < ri_SourceCPU i then s7 + 2 else s7);
          s9 = (if ri_TargetRAMMB i < ri_SourceRAMMB i then s8 + 3 else s8);
          s10 = s9 + min (of_int (ri_CompatibilityIssues i) * (3 / 2)) 15;
          s11 = (if 0 < ri_CriticalIssues i
                 then (let t = s10 + of_int (ri_CriticalIssues i) * 40 in if t < 85 then 85 else t)
                 else s10)
      in min s11 100)"

definition classifyRisk :: "rat \<Rightarrow> RiskClass" where
  "classifyRisk score = (if score < 30 then RiskClassLow else if score < 60 then RiskClassMedium
     else if score < 85 then RiskClassHigh else RiskClassCritical)"

text \<open>With replication and a fast network the downtime is the cutover's; the other branch formats the
  transfer time and is not modelled.\<close>

definition cutover_downtime :: "RiskInput \<Rightarrow> string" where
  "cutover_downtime i = (let s = 5 + ri_QueueCount i * 3 + ri_ContainerCount i in
     if s \<le> 5 then ''~0 seconds (zero-downtime)''
     else if s \<le> 30 then ''~'' @ string_of_int s @ '' seconds''
     else if s \<le> 120 then ''~'' @ string_of_int s @ '' seconds (1-2 minutes)''
     else ''~'' @ string_of_int (s div 60 + 1) @ '' minutes'')"

definition assessRollbackComplexity :: "RiskInput \<Rightarrow> string" where
  "assessRollbackComplexity i =
     (let c = (if \<not> ri_ReplicationAvailable i then 3 else 0) +
              (if 10 < ri_ContainerCount i then 2 else 0) +
              (if 5 < ri_VolumeCount i then 2 else 0) +
              (if 0 < ri_QueueCount i then 1 else 0) +
              (if 10 * 1024 * 1024 * 1024 < ri_DatabaseSizeBytes i then 2 else 0) :: int
      in if c \<le> 2 then ''simple'' else if c \<le> 5 then ''moderate'' else if c \<le> 10 then ''complex''
         else ''very_complex'')"

subsection \<open>The classes are ordered\<close>

primrec class_rank :: "RiskClass \<Rightarrow> nat" where
  "class_rank RiskClassLow = 0"
| "class_rank RiskClassMedium = 1"
| "class_rank RiskClassHigh = 2"
| "class_rank RiskClassCritical = 3"

instantiation RiskClass :: linorder
begin

definition less_eq_RiskClass :: "RiskClass \<Rightarrow> RiskClass \<Rightarrow> bool" where
  "less_eq_RiskClass a b \<longleftrightarrow> class_rank a \<le> class_rank b"

definition less_RiskClass :: "RiskClass \<Rightarrow> RiskClass \<Rightarrow> bool" where
  "less_RiskClass a b \<longleftrightarrow> class_rank a < class_rank b"

instance
proof
  fix a b :: RiskClass
  show "a \<le> b \<Longrightarrow> b \<le> a \<Longrightarrow> a = b"
    by (cases a; cases b) (simp_all add: less_eq_RiskClass_def)
qed (auto simp: less_eq_RiskClass_def less_RiskClass_def)

end

lemma classifyRisk_mono: "s \<le> t \<Longrightarrow> classifyRisk s \<le> classifyRisk t"
  by (auto simp: classifyRisk_def less_eq_RiskClass_def)

lemma points_range:
  "2 \<le> data_points g" "data_points g \<le> 20" "2 \<le> database_points g" "database_points g \<le> 20"
  "3 \<le> container_points n" "container_points n \<le> 15" "2 \<le> volume_points n" "volume_points n \<le> 10"
  "0 \<le> queue_points n" "queue_points n \<le> 10" "1 \<le> network_points g" "network_points g \<le> 10"
  by (simp_all add: data_points_def database_points_def container_points_def volume_points_def
      queue_points_def network_points_def)

lemma points_mono:
  "g \<le> h \<Longrightarrow> data_points g \<le> data_points h" "g \<le> h \<Longrightarrow> database_points g \<le> database_points h"
  "m \<le> n \<Longrightarrow> container_points m \<le> container_points n" "m \<le> n \<Longrightarrow> volume_points m \<le> volume_points n"
  "0 \<le> m \<Longrightarrow> m \<le> n \<Longrightarrow> queue_points m \<le> queue_points n" "g \<le> h \<Longrightarrow> network_points h \<le> network_points g"
  by (auto simp: data_points_def database_points_def container_points_def volume_points_def
      queue_points_def network_points_def)

lemma gigabytes_mono: "m \<le> n \<Longrightarrow> gigabytes m \<le> gigabytes n"
  by (simp add: gigabytes_def divide_right_mono)

text \<open>The score before the critical issues and the cap.\<close>

definition base_score :: "RiskInput \<Rightarrow> rat" where
  "base_score i = data_points (gigabytes (ri_DataSizeBytes i)) + database_points (gigabytes (ri_DatabaseSizeBytes i))
     + container_points (ri_ContainerCount i) + volume_points (ri_VolumeCount i) + queue_points (ri_QueueCount i)
     + (if ri_ReplicationAvailable i then 0 else 10) + network_points (ri_NetworkSpeedMbps i)
     + (if ri_TargetCPU i < ri_SourceCPU i then 2 else 0) + (if ri_TargetRAMMB i < ri_SourceRAMMB i then 3 else 0)
     + min (of_int (ri_CompatibilityIssues i) * (3 / 2)) 15"

lemma calculateScore_base:
  "calculateScore i = min (if 0 < ri_CriticalIssues i
     then max 85 (base_score i + of_int (ri_CriticalIssues i) * 40) else base_score i) 100"
proof -
  have 1: "(if P then s + c else s) = s + (if P then c else 0)" for P and s c :: rat by simp
  have 2: "(if \<not> P then c else 0) = (if P then 0 else c)" for P and c :: rat by simp
  have 3: "(if t < 85 then 85 else t) = max 85 t" for t :: rat by (simp add: max_def)
  show ?thesis
    unfolding calculateScore_def base_score_def Let_def 3 1 2 by (rule refl)
qed

text \<open>The score never exceeds 100, is positive when no count of issues is negative, and any blocker
  puts it into the critical class.\<close>

theorem risk_score_bounds:
  "calculateScore i \<le> 100
   \<and> (0 \<le> ri_CompatibilityIssues i \<longrightarrow> 10 \<le> calculateScore i)
   \<and> (0 < ri_CriticalIssues i \<longrightarrow> classifyRisk (calculateScore i) = RiskClassCritical)"
proof -
  have "10 \<le> base_score i" if "0 \<le> ri_CompatibilityIssues i"
  proof -
    have "0 \<le> min (of_int (ri_CompatibilityIssues i) * (3 / 2)) (15 :: rat)" using that by simp
    moreover have "0 \<le> (if ri_ReplicationAvailable i then 0 else 10 :: rat)"
      "0 \<le> (if ri_TargetCPU i < ri_SourceCPU i then 2 else 0 :: rat)"
      "0 \<le> (if ri_TargetRAMMB i < ri_SourceRAMMB i then 3 else 0 :: rat)" by simp_all
    ultimately have "2 + 2 + 3 + 2 + 0 + 0 + 1 + 0 + 0 + 0 \<le> base_score i"
      unfolding base_score_def by (intro add_mono points_range) assumption+
    then show ?thesis by simp
  qed
  moreover have "85 \<le> calculateScore i" if "0 < ri_CriticalIssues i"
    using that by (simp add: calculateScore_base)
  ultimately show ?thesis
    by (auto simp: calculateScore_base classifyRisk_def)
qed

text \<open>An input that is at least as bad in every factor.\<close>

definition worse :: "RiskInput \<Rightarrow> RiskInput \<Rightarrow> bool" where
  "worse i j \<longleftrightarrow> ri_DataSizeBytes i \<le> ri_DataSizeBytes j \<and> ri_DatabaseSizeBytes i \<le> ri_DatabaseSizeBytes j
     \<and> ri_ContainerCount i \<le> ri_ContainerCount j \<and> ri_VolumeCount i \<le> ri_VolumeCount j
     \<and> 0 \<le> ri_QueueCount i \<and> ri_QueueCount i \<le> ri_QueueCount j
     \<and> (ri_ReplicationAvailable j \<longrightarrow> ri_ReplicationAvailable i)
     \<and> ri_NetworkSpeedMbps j \<le> ri_NetworkSpeedMbps i
     \<and> (ri_TargetCPU i < ri_SourceCPU i \<longrightarrow> ri_TargetCPU j < ri_SourceCPU j)
     \<and> (ri_TargetRAMMB i < ri_SourceRAMMB i \<longrightarrow> ri_TargetRAMMB j < ri_SourceRAMMB j)
     \<and> ri_CompatibilityIssues i \<le> ri_CompatibilityIssues j \<and> ri_CriticalIssues i \<le> ri_CriticalIssues j"

lemma base_score_mono:
  assumes "worse i j"
  shows "base_score i \<le> base_score j"
proof -
  have w: "ri_DataSizeBytes i \<le> ri_DataSizeBytes j" "ri_DatabaseSizeBytes i \<le> ri_DatabaseSizeBytes j"
    "ri_ContainerCount i \<le> ri_ContainerCount j" "ri_VolumeCount i \<le> ri_VolumeCount j"
    "0 \<le> ri_QueueCount i" "ri_QueueCount i \<le> ri_QueueCount j" "ri_NetworkSpeedMbps j \<le> ri_NetworkSpeedMbps i"
    using assms by (auto simp: worse_def)
  have "(if ri_ReplicationAvailable i then 0 else 10 :: rat) \<le> (if ri_ReplicationAvailable j then 0 else 10)"
    "(if ri_TargetCPU i < ri_SourceCPU i then 2 else 0 :: rat) \<le> (if ri_TargetCPU j < ri_SourceCPU j then 2 else 0)"
    "(if ri_TargetRAMMB i < ri_SourceRAMMB i then 3 else 0 :: rat) \<le> (if ri_TargetRAMMB j < ri_SourceRAMMB j then 3 else 0)"
    "min (of_int (ri_CompatibilityIssues i) * (3 / 2)) (15 :: rat) \<le> min (of_int (ri_CompatibilityIssues j) * (3 / 2)) 15"
    using assms by (auto simp: worse_def min_def)
  then show ?thesis unfolding base_score_def
    by (intro add_mono points_mono gigabytes_mono w) assumption+
qed

text \<open>More data, more parts, more issues, a slower network or losing replication never lower the
  score or the class.\<close>

theorem risk_is_monotone:
  assumes "worse i j"
  shows "calculateScore i \<le> calculateScore j \<and> classifyRisk (calculateScore i) \<le> classifyRisk (calculateScore j)"
proof -
  have b: "base_score i \<le> base_score j" using base_score_mono [OF assms] .
  have "ri_CriticalIssues i \<le> ri_CriticalIssues j" using assms by (simp add: worse_def)
  then have "(of_int (ri_CriticalIssues i) :: rat) \<le> of_int (ri_CriticalIssues j)" by simp
  with b have c: "base_score i + of_int (ri_CriticalIssues i) * 40 \<le> base_score j + of_int (ri_CriticalIssues j) * 40"
    by linarith
  have "calculateScore i \<le> calculateScore j"
  proof (cases "0 < ri_CriticalIssues j")
    case True
    then have "base_score j + 0 \<le> base_score j + of_int (ri_CriticalIssues j) * 40" by simp
    with True b c show ?thesis by (auto simp: calculateScore_base min_def max_def)
  next
    case False
    then have "\<not> 0 < ri_CriticalIssues i" using \<open>ri_CriticalIssues i \<le> ri_CriticalIssues j\<close> by simp
    with False b show ?thesis by (auto simp: calculateScore_base min_def)
  qed
  with classifyRisk_mono show ?thesis by simp
qed

definition demo_risk :: "int \<Rightarrow> RiskInput" where
  "demo_risk n = \<lparr>ri_DataSizeBytes = n, ri_DatabaseSizeBytes = n, ri_ContainerCount = 2, ri_VolumeCount = 1,
     ri_QueueCount = 1, ri_ReplicationAvailable = True, ri_NetworkSpeedMbps = 1000, ri_SourceCPU = 4,
     ri_TargetCPU = 4, ri_SourceRAMMB = 8, ri_TargetRAMMB = 8, ri_CompatibilityIssues = 0, ri_CriticalIssues = 0\<rparr>"

theorem risk_score_bounds_witness:
  "calculateScore ((demo_risk 5)\<lparr>ri_CriticalIssues := 1\<rparr>) \<le> 100
   \<and> classifyRisk (calculateScore ((demo_risk 5)\<lparr>ri_CriticalIssues := 1\<rparr>)) = RiskClassCritical"
  using risk_score_bounds [of "(demo_risk 5)\<lparr>ri_CriticalIssues := 1\<rparr>"] by (simp add: demo_risk_def)

theorem risk_is_monotone_witness:
  "calculateScore (demo_risk 5) \<le> calculateScore (demo_risk 5000000000)
   \<and> classifyRisk (calculateScore (demo_risk 5)) \<le> classifyRisk (calculateScore (demo_risk 5000000000))"
  by (rule risk_is_monotone) (simp add: worse_def demo_risk_def)

end
