(* ===== verification/DepMap.thy ===== *)
theory DepMap
  imports GoText
begin

section \<open>Dependencies of parity items (\<open>migration/depmap.go\<close>)\<close>

text \<open>
  Which other items a parity item needs on the target, and whether the collected inventory of the target
  satisfies them. A set of keys stands for a Go map to booleans that is only ever set to true.
\<close>

datatype DependencyKind = DepHard | DepRecommended | DepVerifyPost

record DependencyRef =
  dp_ItemKey :: string
  dp_Kind :: DependencyKind
  dp_Note :: string
  dp_Satisfied :: bool

record targetInventory =
  inv_packages :: "string set"
  inv_configs :: "string set"
  inv_services :: "string set"
  inv_images :: "string set"
  inv_volumes :: "string set"

definition newTargetInventory :: targetInventory where
  "newTargetInventory = \<lparr>inv_packages = {}, inv_configs = {}, inv_services = {}, inv_images = {}, inv_volumes = {}\<rparr>"

subsection \<open>Keys and names\<close>

definition unitName :: "string \<Rightarrow> string" where
  "unitName itemKey = TrimPrefix itemKey ''service:''"

definition config_segment :: "string \<Rightarrow> string" where
  "config_segment path = (case cut_at (CHR ''/'') path of
       None \<Rightarrow> path
     | Some (_, rest) \<Rightarrow> (case cut_at (CHR ''/'') rest of Some (a, _) \<Rightarrow> a | None \<Rightarrow> rest))"

definition serviceFromConfigPath :: "string \<Rightarrow> string" where
  "serviceFromConfigPath itemKey =
     (let seg = config_segment (TrimPrefix (TrimPrefix itemKey ''config:'') ''/'') in
      if HasPrefix seg ''nginx'' then ''nginx''
      else if HasPrefix seg ''postgresql'' \<or> HasPrefix seg ''pgsql'' then ''postgresql''
      else if HasPrefix seg ''mysql'' \<or> HasPrefix seg ''mariadb'' then ''mysql''
      else if HasPrefix seg ''redis'' then ''redis-server''
      else if HasPrefix seg ''mongod'' then ''mongod''
      else if HasPrefix seg ''pm2'' then ''pm2''
      else if HasPrefix seg ''docker'' then ''docker''
      else '''')"

definition configForService :: "string \<Rightarrow> string" where
  "configForService itemKey = (let unit = unitName itemKey in
     if unit = ''nginx'' then ''/etc/nginx/nginx.conf''
     else if unit = ''postgresql'' then ''/etc/postgresql''
     else if unit = ''mysql'' \<or> unit = ''mariadb'' then ''/etc/mysql''
     else if unit = ''redis-server'' then ''/etc/redis/redis.conf''
     else if unit = ''mongod'' then ''/etc/mongod.conf''
     else '''')"

definition runtimeForUnit :: "string \<Rightarrow> string" where
  "runtimeForUnit unit =
     (if unit = ''pm2'' \<or> unit = ''node'' then ''nodejs''
      else if unit = ''nginx'' then ''nginx''
      else if unit = ''redis-server'' then ''redis-server''
      else if unit = ''postgresql'' then ''postgresql''
      else if unit = ''mysql'' \<or> unit = ''mariadb'' then ''mysql-server''
      else if unit = ''mongod'' then ''mongodb''
      else if unit = ''docker'' then ''docker.io''
      else '''')"

definition containerNameFromKey :: "string \<Rightarrow> string" where
  "containerNameFromKey itemKey = (let s = TrimPrefix itemKey ''docker-container:'' in
     if s = '''' \<or> s = itemKey then '''' else s)"

definition composeProjectFromContainer :: "string \<Rightarrow> string" where
  "composeProjectFromContainer _ = ''''"

definition engineFromDBKey :: "string \<Rightarrow> string" where
  "engineFromDBKey itemKey = (let s = TrimPrefix itemKey ''database:'' in
     if s = '''' \<or> s = itemKey then ''''
     else (case cut_at (CHR '':'') s of Some (a, _) \<Rightarrow> a | None \<Rightarrow> s))"

definition engineRuntime :: "string \<Rightarrow> string" where
  "engineRuntime engine =
     (if engine = ''postgres'' then ''postgresql''
      else if engine = ''mysql'' then ''mysql-server''
      else if engine = ''mongodb'' then ''mongodb''
      else if engine = ''redis'' then ''redis-server''
      else '''')"

subsection \<open>Edges\<close>

definition depsFor :: "string \<Rightarrow> string \<Rightarrow> targetInventory \<Rightarrow> DependencyRef list" where
  "depsFor category itemKey ti =
     (if category = ''configs'' then
        (let unit = serviceFromConfigPath itemKey; key = ''service:'' @ unit in
         if unit \<noteq> '''' then
           [\<lparr>dp_ItemKey = key, dp_Kind = DepRecommended,
             dp_Note = ''config backs '' @ unit @ ''; ensure the service is enabled on the target'',
             dp_Satisfied = key \<in> inv_services ti\<rparr>]
         else [])
      else if category = ''services'' then
        (let path = configForService itemKey; ckey = ''config:'' @ path;
             rt = runtimeForUnit (unitName itemKey); rkey = ''runtime:'' @ rt in
         (if path \<noteq> '''' then
            [\<lparr>dp_ItemKey = ckey, dp_Kind = DepHard,
              dp_Note = unitName itemKey @ '' needs '' @ path @ '' present and correct on the target'',
              dp_Satisfied = ckey \<in> inv_configs ti\<rparr>] else []) @
         (if rt \<noteq> '''' then
            [\<lparr>dp_ItemKey = rkey, dp_Kind = DepRecommended,
              dp_Note = unitName itemKey @ '' needs runtime '' @ rt,
              dp_Satisfied = rt \<in> inv_packages ti \<or> rkey \<in> inv_services ti \<or> rkey \<in> inv_images ti\<rparr>]
          else []))
      else if category = ''docker'' then
        (let name = containerNameFromKey itemKey; proj = composeProjectFromContainer name in
         if name \<noteq> '''' then
           \<lparr>dp_ItemKey = ''docker-image:'' @ name, dp_Kind = DepHard,
             dp_Note = ''container '' @ name @ '' requires its image present'',
             dp_Satisfied = (''docker-image:'' @ name) \<in> inv_images ti\<rparr> #
           (if proj \<noteq> '''' then
              [\<lparr>dp_ItemKey = ''compose-project:'' @ proj, dp_Kind = DepHard,
                dp_Note = ''container '' @ name @ '' belongs to compose project '' @ proj,
                dp_Satisfied = (''compose-project:'' @ proj) \<in> inv_configs ti\<rparr>]
            else [])
         else [])
      else if category = ''database'' then
        (let engine = engineFromDBKey itemKey; rt = engineRuntime engine; key = ''runtime:'' @ rt in
         if engine \<noteq> '''' \<and> rt \<noteq> '''' then
           [\<lparr>dp_ItemKey = key, dp_Kind = DepHard,
             dp_Note = ''database needs '' @ rt @ '' runtime on the target'',
             dp_Satisfied = rt \<in> inv_packages ti \<or> key \<in> inv_services ti\<rparr>]
         else [])
      else [])"

definition buildDeps ::
  "string \<Rightarrow> string \<Rightarrow> targetInventory \<Rightarrow> DependencyRef list \<Rightarrow> DependencyRef list" where
  "buildDeps category itemKey ti extra =
     (let base = depsFor category itemKey ti in if extra = [] then base else base @ extra)"

text \<open>The live collect of the target (\<open>parity_engine.go\<close>), by category, after its JSON is decoded: the
  lists of packages, config paths, enabled services, image tags and volume names.\<close>

definition mergeInventory ::
  "targetInventory \<Rightarrow> string \<Rightarrow> string list \<Rightarrow> string list \<Rightarrow> targetInventory" where
  "mergeInventory ti category xs volumes =
     (if category = ''packages'' then ti\<lparr>inv_packages := inv_packages ti \<union> set xs\<rparr>
      else if category = ''configs'' then ti\<lparr>inv_configs := inv_configs ti \<union> set (map ((@) ''config:'') xs)\<rparr>
      else if category = ''services'' then ti\<lparr>inv_services := inv_services ti \<union> set (map ((@) ''service:'') xs)\<rparr>
      else if category = ''docker'' then
        ti\<lparr>inv_images := inv_images ti \<union> set (map ((@) ''docker-image:'') xs),
            inv_volumes := inv_volumes ti \<union> set (map ((@) ''docker-volume:'') volumes)\<rparr>
      else ti)"

text \<open>The inventory of a target whose collect found these items.\<close>

definition inventory_of ::
  "string list \<Rightarrow> string list \<Rightarrow> string list \<Rightarrow> string list \<Rightarrow> string list \<Rightarrow> targetInventory" where
  "inventory_of packages configs services images volumes =
     mergeInventory (mergeInventory (mergeInventory (mergeInventory newTargetInventory ''packages'' packages [])
       ''configs'' configs []) ''services'' services []) ''docker'' images volumes"

lemma inventory_of_fields:
  "inv_packages (inventory_of p c s i v) = set p"
  "inv_configs (inventory_of p c s i v) = (@) ''config:'' ` set c"
  "inv_services (inventory_of p c s i v) = (@) ''service:'' ` set s"
  "inv_images (inventory_of p c s i v) = (@) ''docker-image:'' ` set i"
  by (simp_all add: inventory_of_def mergeInventory_def newTargetInventory_def)

text \<open>On a collected inventory, a container's hard dependency is on an image with the container's own
  name, whatever image the container runs: it is satisfied exactly when the target has an image tagged like
  the container.\<close>

theorem container_dependency_is_on_its_own_name:
  assumes "name \<noteq> ''''"
  shows "depsFor ''docker'' (''docker-container:'' @ name) (inventory_of p c s i v) =
    [\<lparr>dp_ItemKey = ''docker-image:'' @ name, dp_Kind = DepHard,
      dp_Note = ''container '' @ name @ '' requires its image present'', dp_Satisfied = name \<in> set i\<rparr>]"
proof -
  have "TrimPrefix (''docker-container:'' @ name) ''docker-container:'' = name"
    by (rule TrimPrefix_append)
  then have "containerNameFromKey (''docker-container:'' @ name) = name"
    using assms by (simp add: containerNameFromKey_def Let_def)
  then show ?thesis
    using assms by (auto simp: depsFor_def Let_def inventory_of_fields composeProjectFromContainer_def)
qed

theorem container_dependency_is_on_its_own_name_witness:
  "depsFor ''docker'' (''docker-container:'' @ ''web'') (inventory_of [] [] [] [''nginx:1.25''] []) =
    [\<lparr>dp_ItemKey = ''docker-image:'' @ ''web'', dp_Kind = DepHard,
      dp_Note = ''container '' @ ''web'' @ '' requires its image present'', dp_Satisfied = ''web'' \<in> set [''nginx:1.25'']\<rparr>]"
  by (rule container_dependency_is_on_its_own_name) simp

text \<open>A hard dependency of a service or a database is satisfied only by what the collect found: the
  service's config file, or the engine's package; the keys the code also looks up among services and
  images are never in a collected inventory.\<close>

theorem runtime_keys_never_match:
  "d \<in> set (depsFor category itemKey (inventory_of p c s i v)) \<Longrightarrow> category \<in> {''services'', ''database''} \<Longrightarrow>
   dp_Satisfied d \<longleftrightarrow> (\<exists>path \<in> set c. dp_ItemKey d = ''config:'' @ path) \<or> (\<exists>rt \<in> set p. dp_ItemKey d = ''runtime:'' @ rt)"
  by (auto simp: depsFor_def Let_def inventory_of_fields split: if_splits)

theorem runtime_keys_never_match_witness:
  "dp_Satisfied (hd (depsFor ''database'' ''database:redis:0'' (inventory_of [''redis-server''] [] [] [] [])))
   \<longleftrightarrow> (\<exists>path \<in> set []. dp_ItemKey (hd (depsFor ''database'' ''database:redis:0'' (inventory_of [''redis-server''] [] [] [] [])))
          = ''config:'' @ path)
     \<or> (\<exists>rt \<in> set [''redis-server'']. dp_ItemKey (hd (depsFor ''database'' ''database:redis:0''
          (inventory_of [''redis-server''] [] [] [] []))) = ''runtime:'' @ rt)"
proof (rule runtime_keys_never_match)
  have "engineFromDBKey ''database:redis:0'' = ''redis''"
    by (simp add: engineFromDBKey_def TrimPrefix_def HasPrefix_def cut_at_def)
  then have "depsFor ''database'' ''database:redis:0'' ti \<noteq> []" for ti
    by (simp add: depsFor_def engineRuntime_def Let_def)
  then show "hd (depsFor ''database'' ''database:redis:0'' (inventory_of [''redis-server''] [] [] [] []))
      \<in> set (depsFor ''database'' ''database:redis:0'' (inventory_of [''redis-server''] [] [] [] []))" by simp
qed simp

end
