(* ===== verification/MigRepo.thy ===== *)
theory MigRepo
  imports Complex_Main StageRepo Topology
begin

section \<open>The migrations table (\<open>migration/repo.go\<close>, \<open>migration/job.go\<close>)\<close>

text \<open>
  The rows of \<open>migrations\<close> with their two state columns, the older \<open>status\<close> and the typed \<open>state\<close>, and
  the audit and cutover-history rows the lifecycle operations write. Columns that no modelled operation
  reads (the categories, the plan, the timestamps) are left out; failing to decode them is one of the failures of the
  environment.
\<close>

record DatabaseConfig =
  dbc_Engine :: string
  dbc_MigrationMode :: string
  dbc_ExecMode :: string
  dbc_DatabaseName :: string
  dbc_Username :: string
  dbc_Password :: string
  dbc_Host :: string
  dbc_Port :: int
  dbc_Container :: string
  dbc_ComposeService :: string
  dbc_ComposeFile :: string

record MigrationConfig =
  mc_Categories :: "string list"
  mc_ConfigPaths :: "string list"
  mc_DatabaseConfig :: "DatabaseConfig option"
  mc_TrafficProvider :: string
  mc_TrafficConfig :: string
  mc_HealthCheckURL :: string
  mc_ReplicationEnabled :: bool
  mc_ReplicationMode :: string
  mc_SyncMethod :: string
  mc_BandwidthLimit :: int
  mc_ParallelTransfers :: int
  mc_FreezeWriteOnCutover :: bool
  mc_DrainQueuesOnCutover :: bool
  mc_ObservationDuration :: int
  mc_AutoRollbackOnError :: bool
  mc_MaxErrorRate :: rat
  mc_MaxLatencyMs :: int
  mc_AutoCutover :: bool
  mc_MaxRetries :: int
  mc_RetryDelay :: int

definition DefaultMigrationConfig :: MigrationConfig where
  "DefaultMigrationConfig =
     \<lparr>mc_Categories = [''docker'', ''configs'', ''services'', ''users'', ''packages''],
      mc_ConfigPaths = [], mc_DatabaseConfig = None, mc_TrafficProvider = ''nginx'',
      mc_TrafficConfig = '''', mc_HealthCheckURL = '''', mc_ReplicationEnabled = True,
      mc_ReplicationMode = ''streaming'', mc_SyncMethod = ''rsync'', mc_BandwidthLimit = 0,
      mc_ParallelTransfers = 4, mc_FreezeWriteOnCutover = True, mc_DrainQueuesOnCutover = True,
      mc_ObservationDuration = 600 * second, mc_AutoRollbackOnError = True,
      mc_MaxErrorRate = 5 / 100, mc_MaxLatencyMs = 5000, mc_AutoCutover = False,
      mc_MaxRetries = 3, mc_RetryDelay = 5 * second\<rparr>"

text \<open>What the column \<open>config\<close> holds: empty or \<open>{}\<close>, the encoding of a configuration, or text that
  does not decode.\<close>

datatype config_blob = CfgEmpty | CfgJSON MigrationConfig | CfgMalformed

record Migration =
  mg_ID :: int
  mg_SourceID :: int
  mg_TargetID :: int
  mg_Status :: string
  mg_State :: string
  mg_Error :: string
  mg_CompletedAt :: "stamp option"
  mg_Config :: config_blob

record AuditEntry =
  au_MigrationID :: int
  au_EventType :: string
  au_PreviousState :: string
  au_NewState :: string
  au_Actor :: string

record CutoverRecord =
  ch_ID :: int
  ch_MigrationID :: int
  ch_CutoverType :: string
  ch_PreviousState :: string
  ch_NewState :: string
  ch_FreezeWrite :: bool
  ch_QueueDrained :: bool
  ch_DeltaSynced :: bool
  ch_HealthVerified :: bool
  ch_TrafficSwitched :: bool
  ch_RollbackTriggered :: bool
  ch_Error :: string
  ch_CompletedAt :: "stamp option"

record mig_db = stage_db +
  mig_rows :: "Migration list"
  audit_rows :: "AuditEntry list"
  cutover_rows :: "CutoverRecord list"
  cutover_seq :: int

type_synonym ('x, 'e) mig_world = "('x mig_db_scheme, 'e) world"

definition StatusPlanned :: string where "StatusPlanned = ''planned''"
definition StatusRunning :: string where "StatusRunning = ''running''"
definition StatusFailed :: string where "StatusFailed = ''failed''"
definition StatusInterrupted :: string where "StatusInterrupted = ''interrupted''"

definition ErrMigrationNotFound :: goerr where
  "ErrMigrationNotFound = ErrNew ''migration not found''"

definition mig_of :: "'x mig_db_scheme \<Rightarrow> int \<Rightarrow> Migration option" where
  "mig_of d i = List.find (\<lambda>m. mg_ID m = i) (mig_rows d)"

definition on_mig :: "int \<Rightarrow> (Migration \<Rightarrow> Migration) \<Rightarrow> 'x mig_db_scheme \<Rightarrow> 'x mig_db_scheme" where
  "on_mig i f d = d\<lparr>mig_rows := map (\<lambda>m. if mg_ID m = i then f m else m) (mig_rows d)\<rparr>"

definition GetMigration :: "int \<Rightarrow> ('x, 'e) mig_world \<Rightarrow> Migration res \<times> ('x, 'e) mig_world" where
  "GetMigration i = db_read (\<lambda>d. case mig_of d i of
       None \<Rightarrow> Inl ErrMigrationNotFound | Some m \<Rightarrow> Inr m)"

text \<open>\<open>ORDER BY created_at DESC\<close>: the rows are kept in the order of their creation.\<close>

definition ListMigrations :: "('x, 'e) mig_world \<Rightarrow> Migration list res \<times> ('x, 'e) mig_world" where
  "ListMigrations = db_read (\<lambda>d. Inr (rev (mig_rows d)))"

definition UpdateMigrationStatus ::
  "int \<Rightarrow> string \<Rightarrow> string \<Rightarrow> ('x, 'e) mig_world \<Rightarrow> unit res \<times> ('x, 'e) mig_world" where
  "UpdateMigrationStatus i status msg = db_write (\<lambda>now d.
     (Inr (), on_mig i (\<lambda>m. m\<lparr>mg_Status := status, mg_Error := msg\<rparr>) d))"

definition SetMigrationCompletedAt ::
  "int \<Rightarrow> stamp \<Rightarrow> ('x, 'e) mig_world \<Rightarrow> unit res \<times> ('x, 'e) mig_world" where
  "SetMigrationCompletedAt i ts = db_write (\<lambda>now d.
     (Inr (), on_mig i (\<lambda>m. m\<lparr>mg_CompletedAt := Some ts\<rparr>) d))"

definition SetMigrationRolledBackAt ::
  "int \<Rightarrow> stamp \<Rightarrow> ('x, 'e) mig_world \<Rightarrow> unit res \<times> ('x, 'e) mig_world" where
  "SetMigrationRolledBackAt i ts = db_write (\<lambda>now d.
     (Inr (), on_mig i (\<lambda>m. m\<lparr>mg_CompletedAt := Some ts\<rparr>) d))"

text \<open>A row that cannot be decoded, or an empty one, gives the defaults; only a missing row or a failed
  query is an error.\<close>

definition GetMigrationConfig ::
  "int \<Rightarrow> ('x, 'e) mig_world \<Rightarrow> MigrationConfig res \<times> ('x, 'e) mig_world" where
  "GetMigrationConfig i = db_read (\<lambda>d. case mig_of d i of
       None \<Rightarrow> Inl ErrMigrationNotFound
     | Some m \<Rightarrow> (case mg_Config m of
          CfgEmpty \<Rightarrow> Inr DefaultMigrationConfig
        | CfgMalformed \<Rightarrow> Inr DefaultMigrationConfig
        | CfgJSON cfg \<Rightarrow> Inr cfg))"

subsection \<open>The typed state\<close>

text \<open>The first column is preferred; an empty one falls back to the second, in a statement of its own.
  An error comes with the state \<open>Created\<close>.\<close>

definition GetMigrationState ::
  "int \<Rightarrow> ('x, 'e) mig_world \<Rightarrow> MigrationState res \<times> ('x, 'e) mig_world" where
  "GetMigrationState i w =
     (case db_read (\<lambda>d. case mig_of d i of None \<Rightarrow> Inl ErrMigrationNotFound | Some m \<Rightarrow> Inr (mg_State m)) w of
        (Inl err, w1) \<Rightarrow> (Inl err, w1)
      | (Inr stateStr, w1) \<Rightarrow>
          if stateStr = '''' then
            (case db_read (\<lambda>d. case mig_of d i of
                   None \<Rightarrow> Inl (ErrF ''sql: no rows in result set'') | Some m \<Rightarrow> Inr (mg_Status m)) w1 of
               (Inl err, w2) \<Rightarrow> (Inl err, w2)
             | (Inr legacyStatus, w2) \<Rightarrow> (StateFromString legacyStatus, w2))
          else (StateFromString stateStr, w1))"

definition SetMigrationState ::
  "int \<Rightarrow> MigrationState \<Rightarrow> ('x, 'e) mig_world \<Rightarrow> unit res \<times> ('x, 'e) mig_world" where
  "SetMigrationState i state = db_write (\<lambda>now d.
     (Inr (), on_mig i (\<lambda>m. m\<lparr>mg_State := StateString state, mg_Status := StateString state\<rparr>) d))"

text \<open>With a context: a cancelled one is a failure of the environment before the statement.\<close>

definition SetMigrationStateContext ::
  "int \<Rightarrow> MigrationState \<Rightarrow> ('x, 'e) mig_world \<Rightarrow> unit res \<times> ('x, 'e) mig_world" where
  "SetMigrationStateContext i state = SetMigrationState i state"

subsection \<open>History rows\<close>

definition CreateAuditEntry :: "AuditEntry \<Rightarrow> ('x, 'e) mig_world \<Rightarrow> unit res \<times> ('x, 'e) mig_world" where
  "CreateAuditEntry e = db_write (\<lambda>now d. (Inr (), d\<lparr>audit_rows := audit_rows d @ [e]\<rparr>))"

definition CreateCutoverRecord :: "CutoverRecord \<Rightarrow> ('x, 'e) mig_world \<Rightarrow> int res \<times> ('x, 'e) mig_world" where
  "CreateCutoverRecord c = db_write (\<lambda>now d.
     (Inr (cutover_seq d + 1),
      d\<lparr>cutover_rows := cutover_rows d @ [c\<lparr>ch_ID := cutover_seq d + 1\<rparr>], cutover_seq := cutover_seq d + 1\<rparr>))"

definition UpdateCutoverRecord ::
  "int \<Rightarrow> stamp \<Rightarrow> string \<Rightarrow> ('x, 'e) mig_world \<Rightarrow> unit res \<times> ('x, 'e) mig_world" where
  "UpdateCutoverRecord i completedAt msg = db_write (\<lambda>now d.
     (Inr (), d\<lparr>cutover_rows := map (\<lambda>c. if ch_ID c = i
        then c\<lparr>ch_CompletedAt := Some completedAt, ch_Error := msg\<rparr> else c) (cutover_rows d)\<rparr>))"

subsection \<open>Crash recovery (\<open>migration/executor.go\<close>)\<close>

definition isRunningStatus :: "string \<Rightarrow> bool" where
  "isRunningStatus status = (if status = StatusRunning then True
     else case StateFromString status of Inl _ \<Rightarrow> False | Inr st \<Rightarrow> IsRunning st)"

definition markInterrupted ::
  "int \<Rightarrow> string \<Rightarrow> ('x, 'e) mig_world \<Rightarrow> unit res \<times> ('x, 'e) mig_world" where
  "markInterrupted i reason w = (case SetMigrationState i StateInterrupted w of
       (Inl err, w1) \<Rightarrow> (Inl err, w1)
     | (Inr _, w1) \<Rightarrow> UpdateMigrationStatus i StatusInterrupted reason w1)"

subsection \<open>Lemmas\<close>

lemma mig_of_on_mig:
  assumes "\<And>m. mg_ID (f m) = mg_ID m"
  shows "mig_of (on_mig i f d) j = map_option (\<lambda>m. if mg_ID m = i then f m else m) (mig_of d j)"
  unfolding mig_of_def on_mig_def by (simp add: find_map_keep assms)

lemma mig_of_ID: "mig_of d i = Some m \<Longrightarrow> mg_ID m = i"
  by (auto simp: mig_of_def find_Some_iff)

lemma mig_of_other [simp]:
  "mig_of (d\<lparr>audit_rows := a\<rparr>) i = mig_of d i" "mig_of (d\<lparr>cutover_rows := c\<rparr>) i = mig_of d i"
  "mig_of (d\<lparr>cutover_seq := n\<rparr>) i = mig_of d i" "mig_of (d\<lparr>stage_rows := s\<rparr>) i = mig_of d i"
  "mig_of (on_stage k g d) i = mig_of d i"
  by (simp_all add: mig_of_def on_stage_def)

lemma on_mig_other [simp]:
  "stage_rows (on_mig i f d) = stage_rows d" "stage_seq (on_mig i f d) = stage_seq d"
  "fence_rows (on_mig i f d) = fence_rows d" "switch_rows (on_mig i f d) = switch_rows d"
  by (simp_all add: on_mig_def)

text \<open>The typed state a database row shows: what \<open>GetMigrationState\<close> returns without faults.\<close>

definition shown_state :: "Migration \<Rightarrow> MigrationState res" where
  "shown_state m = StateFromString (if mg_State m = '''' then mg_Status m else mg_State m)"

lemma GetMigrationState_ok:
  assumes "GetMigrationState i w = (Inr s, w')"
  shows "\<exists>m. mig_of (w_db w) i = Some m \<and> shown_state m = Inr s"
  using assms
  by (auto simp: GetMigrationState_def db_read_def shown_state_def
      split: fault.splits option.splits if_splits sum.splits)

lemma GetMigrationState_frame:
  assumes "GetMigrationState i w = (r, w')"
  shows "w_db w' = w_db w \<and> w_log w' = w_log w \<and> w_env w' = w_env w \<and> w_clock w' = w_clock w"
  using assms
  by (auto simp: GetMigrationState_def split: prod.splits sum.splits if_splits dest!: db_read_frames)

lemma GetMigrationState_calm:
  assumes "fault_free w" and "mig_of (w_db w) i = Some m"
  shows "\<exists>w'. GetMigrationState i w = (shown_state m, w') \<and> w_db w' = w_db w \<and> w_log w' = w_log w \<and> fault_free w'"
  using assms by (auto simp: GetMigrationState_def fault_free_read shown_state_def)

lemma shown_after_set:
  assumes "StateFromString (StateString s) = Inr s" and "StateString s \<noteq> ''''"
  shows "shown_state (m\<lparr>mg_State := StateString s, mg_Status := StateString s\<rparr>) = Inr s"
  using assms by (simp add: shown_state_def)

end
