(* ===== verification/Guards.thy ===== *)
theory Guards
  imports World
begin

section \<open>Concurrency guards of the pipeline (\<open>migration/pipeline_concurrency.go\<close>, \<open>pipeline_registry.go\<close>)\<close>

text \<open>
  The three guards a run passes before it mutates anything (one run per migration, a global ceiling on
  concurrent runs, exclusive servers) and the registry that a shutdown drains. Each method body runs under
  a mutex or is one atomic map or channel operation, so it is one step here; the methods interleave in any
  order. A channel operation that would block has no result: \<open>acquireSlot\<close> lists the possible results of
  its \<open>select\<close>, \<open>releaseSlot\<close> returns \<open>None\<close> when it blocks.
\<close>

subsection \<open>State\<close>

text \<open>A buffered channel: its capacity and the number of tokens in it.\<close>

record semaphore =
  sem_cap :: int
  sem_len :: int

record guards =
  gd_running :: "int set"
  gd_sem :: "semaphore option"
  gd_maxConcurrent :: int
  gd_locks :: "int \<rightharpoonup> int"

definition DefaultMaxConcurrentMigrations :: int where
  "DefaultMaxConcurrentMigrations = 4"

definition new_guards :: guards where
  "new_guards = \<lparr>gd_running = {}, gd_sem = Some \<lparr>sem_cap = DefaultMaxConcurrentMigrations, sem_len = 0\<rparr>,
     gd_maxConcurrent = DefaultMaxConcurrentMigrations, gd_locks = Map.empty\<rparr>"

subsection \<open>One run per migration\<close>

definition tryAcquire :: "int \<Rightarrow> guards \<Rightarrow> bool \<times> guards" where
  "tryAcquire migrationID g = (migrationID \<notin> gd_running g, g\<lparr>gd_running := insert migrationID (gd_running g)\<rparr>)"

definition release :: "int \<Rightarrow> guards \<Rightarrow> guards" where
  "release migrationID g = g\<lparr>gd_running := gd_running g - {migrationID}\<rparr>"

subsection \<open>The ceiling\<close>

definition SetMaxConcurrent :: "int \<Rightarrow> guards \<Rightarrow> guards" where
  "SetMaxConcurrent n g =
     (if n < 1 then g
      else g\<lparr>gd_maxConcurrent := n, gd_sem := Some \<lparr>sem_cap = n, sem_len = 0\<rparr>\<rparr>)"

definition ensureSem :: "guards \<Rightarrow> guards" where
  "ensureSem g = (case gd_sem g of
       Some _ \<Rightarrow> g
     | None \<Rightarrow>
         (let n = (if gd_maxConcurrent g < 1 then DefaultMaxConcurrentMigrations else gd_maxConcurrent g) in
          g\<lparr>gd_maxConcurrent := n, gd_sem := Some \<lparr>sem_cap = n, sem_len = 0\<rparr>\<rparr>))"

text \<open>The \<open>select\<close>: a send that has room and a context that is done are both possible.\<close>

definition acquireSlot :: "bool \<Rightarrow> guards \<Rightarrow> (bool \<times> guards) list" where
  "acquireSlot ctxDone g0 = (let g = ensureSem g0 in
     (case gd_sem g of None \<Rightarrow> [] | Some s \<Rightarrow>
        (if sem_len s < sem_cap s then [(True, g\<lparr>gd_sem := Some (s\<lparr>sem_len := sem_len s + 1\<rparr>)\<rparr>)] else []))
     @ (if ctxDone then [(False, g)] else []))"

definition releaseSlot :: "guards \<Rightarrow> guards option" where
  "releaseSlot g0 = (let g = ensureSem g0 in
     case gd_sem g of None \<Rightarrow> None | Some s \<Rightarrow>
       if 0 < sem_len s then Some (g\<lparr>gd_sem := Some (s\<lparr>sem_len := sem_len s - 1\<rparr>)\<rparr>) else None)"

subsection \<open>Exclusive servers\<close>

text \<open>Reading a missing key of a Go map gives 0.\<close>

definition lock_count :: "guards \<Rightarrow> int \<Rightarrow> int" where
  "lock_count g s = (case gd_locks g s of None \<Rightarrow> 0 | Some n \<Rightarrow> n)"

definition bump_lock :: "int \<Rightarrow> guards \<Rightarrow> guards" where
  "bump_lock s g = g\<lparr>gd_locks := (gd_locks g)(s \<mapsto> lock_count g s + 1)\<rparr>"

fun claim_all :: "int list \<Rightarrow> guards \<Rightarrow> int list \<times> guards" where
  "claim_all [] g = ([], g)"
| "claim_all (s # ss) g =
     (if s = 0 then claim_all ss g
      else (let (claimed, g') = claim_all ss (bump_lock s g) in (s # claimed, g')))"

definition acquireResourceLocks :: "int list \<Rightarrow> guards \<Rightarrow> int list \<times> guards" where
  "acquireResourceLocks servers g = claim_all servers g"

definition drop_lock :: "int \<Rightarrow> guards \<Rightarrow> guards" where
  "drop_lock s g =
     (if 1 < lock_count g s then g\<lparr>gd_locks := (gd_locks g)(s \<mapsto> lock_count g s - 1)\<rparr>
      else g\<lparr>gd_locks := (gd_locks g)(s := None)\<rparr>)"

definition releaseResourceLocks :: "int list \<Rightarrow> guards \<Rightarrow> guards" where
  "releaseResourceLocks servers g = foldl (\<lambda>g s. drop_lock s g) g servers"

definition canAcquireResource :: "int list \<Rightarrow> guards \<Rightarrow> bool" where
  "canAcquireResource servers g = (\<not> list_ex (\<lambda>s. s \<noteq> 0 \<and> 0 < lock_count g s) servers)"

text \<open>\<open>None\<close> is the nil slice: a server is held and nothing was claimed.\<close>

definition tryAcquireResource :: "int list \<Rightarrow> guards \<Rightarrow> int list option \<times> guards" where
  "tryAcquireResource servers g =
     (if list_ex (\<lambda>s. s \<noteq> 0 \<and> 0 < lock_count g s) servers then (None, g)
      else (let (claimed, g') = claim_all servers g in (Some claimed, g')))"

subsection \<open>The registry of running pipelines\<close>

text \<open>A cancel function is the migration it cancels. A nil registry is \<open>None\<close>.\<close>

record pipelineRegistry =
  pr_active :: "int set"
  pr_accepting :: bool
  pr_timeout :: int

definition DefaultPipelineDrainTimeout :: int where
  "DefaultPipelineDrainTimeout = 30 * second"

definition newPipelineRegistry :: pipelineRegistry where
  "newPipelineRegistry = \<lparr>pr_active = {}, pr_accepting = True, pr_timeout = DefaultPipelineDrainTimeout\<rparr>"

definition register :: "int \<Rightarrow> pipelineRegistry option \<Rightarrow> bool \<times> pipelineRegistry option" where
  "register migrationID r = (case r of
       None \<Rightarrow> (True, None)
     | Some r \<Rightarrow> if \<not> pr_accepting r then (False, Some r)
                else (True, Some (r\<lparr>pr_active := insert migrationID (pr_active r)\<rparr>)))"

definition unregister :: "int \<Rightarrow> pipelineRegistry option \<Rightarrow> pipelineRegistry option" where
  "unregister migrationID r = map_option (\<lambda>r. r\<lparr>pr_active := pr_active r - {migrationID}\<rparr>) r"

definition registry_count :: "pipelineRegistry option \<Rightarrow> nat" where
  "registry_count r = (case r of None \<Rightarrow> 0 | Some r \<Rightarrow> card (pr_active r))"

definition stopAccepting :: "pipelineRegistry option \<Rightarrow> pipelineRegistry option" where
  "stopAccepting r = map_option (\<lambda>r. r\<lparr>pr_accepting := False\<rparr>) r"

text \<open>
  What happens between two looks at the registry is the environment's: the \<open>n\<close>-th time around, \<open>reg_ops\<close>
  lists the calls of other goroutines since the last look, \<open>dr_now\<close> is the time and \<open>dr_ctx\<close> the error of
  a context that is done.
\<close>

datatype reg_op = Register int | Unregister int

fun apply_reg :: "pipelineRegistry option \<Rightarrow> reg_op \<Rightarrow> pipelineRegistry option" where
  "apply_reg r (Register i) = snd (register i r)"
| "apply_reg r (Unregister i) = unregister i r"

record drain_env =
  de_ops :: "nat \<Rightarrow> reg_op list"
  de_now :: "nat \<Rightarrow> int"
  de_ctx :: "nat \<Rightarrow> goerr option"

record drain_result =
  drn_forceCancelled :: nat
  drn_err :: "goerr option"
  drn_cancelled :: "int set"
  drn_rounds :: nat

partial_function (option) drain_loop ::
  "drain_env \<Rightarrow> int \<Rightarrow> nat \<Rightarrow> pipelineRegistry option \<Rightarrow> (drain_result \<times> pipelineRegistry option) option" where
  "drain_loop env deadline n r0 =
     (let r = foldl apply_reg r0 (de_ops env n) in
      if registry_count r = 0 then
        Some (\<lparr>drn_forceCancelled = 0, drn_err = None, drn_cancelled = {}, drn_rounds = n\<rparr>, r)
      else if deadline < de_now env n then
        Some (\<lparr>drn_forceCancelled = registry_count r, drn_err = None,
               drn_cancelled = (case r of None \<Rightarrow> {} | Some r \<Rightarrow> pr_active r), drn_rounds = n\<rparr>,
              foldl apply_reg r (de_ops env (Suc n)))
      else (case de_ctx env n of
          Some e \<Rightarrow> Some (\<lparr>drn_forceCancelled = 0, drn_err = Some e, drn_cancelled = {}, drn_rounds = n\<rparr>, r)
        | None \<Rightarrow> drain_loop env deadline (Suc n) r))"

definition drain :: "drain_env \<Rightarrow> int \<Rightarrow> pipelineRegistry option
    \<Rightarrow> (drain_result \<times> pipelineRegistry option) option" where
  "drain env start r = (case r of
       None \<Rightarrow> Some (\<lparr>drn_forceCancelled = 0, drn_err = None, drn_cancelled = {}, drn_rounds = 0\<rparr>, None)
     | Some r' \<Rightarrow> drain_loop env (start + pr_timeout r') 0 (stopAccepting r))"

definition GracefulDrain :: "drain_env \<Rightarrow> int \<Rightarrow> pipelineRegistry option
    \<Rightarrow> (drain_result \<times> pipelineRegistry option) option" where
  "GracefulDrain env start r = drain env start r"

subsection \<open>The contract of a mutual-exclusion guard\<close>

text \<open>
  Several owners claim and free resources through the same guard, in any order. The two functions are
  arguments, so that the same system describes the servers and the migrations; \<open>own\<close> is what each
  owner was told it holds, and an owner only frees what it was given, once.
\<close>

datatype ('o, 'r) lock_op = Claim 'o "'r list" | Free 'o

fun lock_step ::
  "('g \<Rightarrow> 'r list \<Rightarrow> ('r list \<times> 'g) option) \<Rightarrow> ('g \<Rightarrow> 'r list \<Rightarrow> 'g)
     \<Rightarrow> 'g \<times> ('o \<rightharpoonup> 'r list) \<Rightarrow> ('o, 'r) lock_op \<Rightarrow> 'g \<times> ('o \<rightharpoonup> 'r list)" where
  "lock_step claim free (g, own) (Claim a rs) =
     (if own a = None then
        (case claim g rs of None \<Rightarrow> (g, own) | Some (cs, g') \<Rightarrow> (g', own(a \<mapsto> cs)))
      else (g, own))"
| "lock_step claim free (g, own) (Free a) =
     (case own a of None \<Rightarrow> (g, own) | Some cs \<Rightarrow> (free g cs, own(a := None)))"

definition lock_run ::
  "('g \<Rightarrow> 'r list \<Rightarrow> ('r list \<times> 'g) option) \<Rightarrow> ('g \<Rightarrow> 'r list \<Rightarrow> 'g)
     \<Rightarrow> 'g \<Rightarrow> ('o, 'r) lock_op list \<Rightarrow> 'g \<times> ('o \<rightharpoonup> 'r list)" where
  "lock_run claim free g ops = foldl (lock_step claim free) (g, Map.empty) ops"

lemma lock_run_snoc [simp]:
  "lock_run claim free g (ops @ [x]) = lock_step claim free (lock_run claim free g ops) x"
  "lock_run claim free g [] = (g, Map.empty)"
  by (simp_all add: lock_run_def)

text \<open>
  The laws: \<open>held\<close> reads how often a resource is claimed; a claim that succeeds found everything it
  returns unclaimed and counts it; freeing what is counted gives the counts back.
\<close>

locale exclusive_guard =
  fixes claim :: "'g \<Rightarrow> 'r list \<Rightarrow> ('r list \<times> 'g) option"
    and free :: "'g \<Rightarrow> 'r list \<Rightarrow> 'g"
    and held :: "'g \<Rightarrow> 'r \<Rightarrow> nat"
    and well_formed :: "'g \<Rightarrow> bool"
  assumes claim_free: "well_formed g \<Longrightarrow> claim g rs = Some (cs, g') \<Longrightarrow> r \<in> set cs \<Longrightarrow> held g r = 0"
    and claim_held: "well_formed g \<Longrightarrow> claim g rs = Some (cs, g') \<Longrightarrow> held g' r = held g r + count_list cs r"
    and claim_keeps: "well_formed g \<Longrightarrow> claim g rs = Some (cs, g') \<Longrightarrow> well_formed g'"
    and free_held: "well_formed g \<Longrightarrow> (\<And>r. r \<in> set cs \<Longrightarrow> held g r = count_list cs r) \<Longrightarrow>
      held (free g cs) r = held g r - count_list cs r"
    and free_keeps: "well_formed g \<Longrightarrow> well_formed (free g cs)"
begin

definition lock_inv :: "'g \<times> ('o \<rightharpoonup> 'r list) \<Rightarrow> bool" where
  "lock_inv s = (case s of (g, own) \<Rightarrow> well_formed g \<and>
     (\<forall>a cs r. own a = Some cs \<longrightarrow> r \<in> set cs \<longrightarrow> held g r = count_list cs r) \<and>
     (\<forall>a b ca cb. own a = Some ca \<longrightarrow> own b = Some cb \<longrightarrow> a \<noteq> b \<longrightarrow> set ca \<inter> set cb = {}))"

lemma inv_start: "well_formed g \<Longrightarrow> lock_inv (g, Map.empty)"
  by (simp add: lock_inv_def)

lemma held_pos: "r \<in> set cs \<Longrightarrow> 0 < count_list cs r"
  by (metis count_list_0_iff gr0I)

lemma inv_claim:
  assumes inv: "lock_inv (g, own)" and new: "own a = None" and c: "claim g rs = Some (cs, g')"
  shows "lock_inv (g', own(a \<mapsto> cs))"
proof -
  have wf: "well_formed g" using inv by (simp add: lock_inv_def)
  have old: "set cs \<inter> set cb = {}" if "own b = Some cb" for b cb
  proof -
    have False if r: "r \<in> set cs" "r \<in> set cb" for r
    proof -
      have "held g r = count_list cb r"
        using inv \<open>own b = Some cb\<close> r(2) by (auto simp: lock_inv_def)
      then show False using claim_free [OF wf c r(1)] held_pos [OF r(2)] by simp
    qed
    then show ?thesis by blast
  qed
  have counts: "held g' r = count_list cb r" if "own b = Some cb" "r \<in> set cb" for b cb r
  proof -
    have "r \<notin> set cs" using old [OF that(1)] that(2) by blast
    moreover have "held g r = count_list cb r" using inv that by (auto simp: lock_inv_def)
    ultimately show ?thesis using claim_held [OF wf c, of r] by (simp add: count_list_0_iff)
  qed
  have own_counts: "held g' r = count_list cs r" if "r \<in> set cs" for r
    using claim_held [OF wf c, of r] claim_free [OF wf c that] by simp
  show ?thesis
    unfolding lock_inv_def using inv old counts own_counts new claim_keeps [OF wf c]
    by (auto simp: lock_inv_def split: if_splits)
qed

lemma inv_free:
  assumes inv: "lock_inv (g, own)" and c: "own a = Some cs"
  shows "lock_inv (free g cs, own(a := None))"
proof -
  have wf: "well_formed g" using inv by (simp add: lock_inv_def)
  have hc: "\<And>r. r \<in> set cs \<Longrightarrow> held g r = count_list cs r"
    using inv c by (auto simp: lock_inv_def)
  have "held (free g cs) r = count_list cb r" if "own b = Some cb" "b \<noteq> a" "r \<in> set cb" for b cb r
  proof -
    have "set cs \<inter> set cb = {}" using inv c that(1,2) by (auto simp: lock_inv_def)
    then have "r \<notin> set cs" using that(3) by blast
    moreover have "held g r = count_list cb r" using inv that by (auto simp: lock_inv_def)
    ultimately show ?thesis using free_held [OF wf hc, of r] by (simp add: count_list_0_iff)
  qed
  then show ?thesis
    using inv free_keeps [OF wf] by (auto simp: lock_inv_def split: if_splits)
qed

lemma inv_run: "well_formed g \<Longrightarrow> lock_inv (lock_run claim free g ops)"
proof (induction ops rule: rev_induct)
  case Nil
  then show ?case by (simp add: inv_start)
next
  case (snoc x ops)
  obtain g1 own where s: "lock_run claim free g ops = (g1, own)" by fastforce
  with snoc have inv: "lock_inv (g1, own)" by simp
  show ?case
  proof (cases x)
    case (Claim a rs)
    then show ?thesis using inv inv_claim [OF inv] by (auto simp: s split: option.split)
  next
    case (Free a)
    then show ?thesis using inv inv_free [OF inv] by (auto simp: s split: option.split)
  qed
qed

lemma exclusive:
  assumes "well_formed g" and "lock_run claim free g ops = (g', own)"
    and "own a = Some ca" and "own b = Some cb" and "a \<noteq> b"
  shows "set ca \<inter> set cb = {}"
  using inv_run [of g ops] assms unfolding lock_inv_def by (simp split: prod.splits)

lemma held_is_owned:
  assumes "well_formed g" and "lock_run claim free g ops = (g', own)" and "own a = Some cs" and "r \<in> set cs"
  shows "held g' r = count_list cs r"
  using inv_run [of g ops] assms unfolding lock_inv_def by (simp split: prod.splits)

end

subsection \<open>Both guards keep the contract\<close>

definition server_claim :: "guards \<Rightarrow> int list \<Rightarrow> (int list \<times> guards) option" where
  "server_claim g servers = (case tryAcquireResource servers g of
       (None, _) \<Rightarrow> None | (Some cs, g') \<Rightarrow> Some (cs, g'))"

definition server_free :: "guards \<Rightarrow> int list \<Rightarrow> guards" where
  "server_free g servers = releaseResourceLocks servers g"

definition server_held :: "guards \<Rightarrow> int \<Rightarrow> nat" where
  "server_held g s = nat (lock_count g s)"

text \<open>A run claims its own migration only, as the one resource of the first guard.\<close>

definition run_claim :: "guards \<Rightarrow> int list \<Rightarrow> (int list \<times> guards) option" where
  "run_claim g ms = (case ms of
       [m] \<Rightarrow> (case tryAcquire m g of (True, g') \<Rightarrow> Some ([m], g') | (False, _) \<Rightarrow> None)
     | _ \<Rightarrow> None)"

definition run_free :: "guards \<Rightarrow> int list \<Rightarrow> guards" where
  "run_free g ms = foldl (\<lambda>g m. release m g) g ms"

definition run_held :: "guards \<Rightarrow> int \<Rightarrow> nat" where
  "run_held g m = (if m \<in> gd_running g then 1 else 0)"

lemma bump_count: "lock_count (bump_lock s g) r = lock_count g r + (if r = s then 1 else 0)"
  by (simp add: lock_count_def bump_lock_def)

lemma claim_all_count:
  "claim_all ss g = (cs, g') \<Longrightarrow> lock_count g' r = lock_count g r + int (count_list cs r)"
  by (induction ss arbitrary: g cs g') (auto simp: bump_count split: if_splits prod.splits)

lemma claim_all_set: "claim_all ss g = (cs, g') \<Longrightarrow> cs = filter (\<lambda>s. s \<noteq> 0) ss"
  by (induction ss arbitrary: g cs g') (auto split: if_splits prod.splits)

lemma drop_count: "lock_count (drop_lock s g) r =
    (if r = s then (if 1 < lock_count g s then lock_count g s - 1 else 0) else lock_count g r)"
  by (simp add: lock_count_def drop_lock_def)

lemma release_count:
  "nat (lock_count (releaseResourceLocks ss g) r) = nat (lock_count g r) - count_list ss r"
proof (induction ss arbitrary: g)
  case (Cons s ss)
  have "nat (lock_count (releaseResourceLocks (s # ss) g) r) = nat (lock_count (drop_lock s g) r) - count_list ss r"
    using Cons [of "drop_lock s g"] by (simp add: releaseResourceLocks_def)
  then show ?case by (auto simp: drop_count)
qed (simp add: releaseResourceLocks_def)

lemma server_claim_iff:
  "server_claim g ss = Some (cs, g') \<longleftrightarrow>
     (\<forall>s \<in> set ss. s \<noteq> 0 \<longrightarrow> lock_count g s \<le> 0) \<and> claim_all ss g = (cs, g')"
  by (auto simp: server_claim_def tryAcquireResource_def list_ex_iff not_less split: prod.splits)

definition locks_wf :: "guards \<Rightarrow> bool" where
  "locks_wf g \<longleftrightarrow> (\<forall>s n. gd_locks g s = Some n \<longrightarrow> 0 < n)"

lemma locks_wf_count: "locks_wf g \<Longrightarrow> 0 \<le> lock_count g s"
  by (auto simp: locks_wf_def lock_count_def less_imp_le split: option.split)

lemma locks_wf_bump: "locks_wf g \<Longrightarrow> locks_wf (bump_lock s g)"
  using locks_wf_count [of g s] by (auto simp: locks_wf_def bump_lock_def)

lemma locks_wf_claim: "locks_wf g \<Longrightarrow> claim_all ss g = (cs, g') \<Longrightarrow> locks_wf g'"
  by (induction ss arbitrary: g cs g') (auto split: if_splits prod.splits, metis locks_wf_bump)

lemma locks_wf_release: "locks_wf g \<Longrightarrow> locks_wf (releaseResourceLocks ss g)"
proof (induction ss arbitrary: g)
  case (Cons s ss)
  have "locks_wf (drop_lock s g)" using Cons.prems by (auto simp: locks_wf_def drop_lock_def)
  then show ?case using Cons.IH by (simp add: releaseResourceLocks_def)
qed (simp add: releaseResourceLocks_def)

interpretation servers: exclusive_guard server_claim server_free server_held locks_wf
proof
  fix g g' :: guards and rs cs :: "int list" and r :: int
  assume wf: "locks_wf g" and c: "server_claim g rs = Some (cs, g')"
  have free: "\<And>s. s \<in> set rs \<Longrightarrow> s \<noteq> 0 \<Longrightarrow> lock_count g s \<le> 0" and all: "claim_all rs g = (cs, g')"
    using c by (auto simp: server_claim_iff)
  show "server_held g r = 0" if "r \<in> set cs"
    using that free claim_all_set [OF all] by (simp add: server_held_def)
  show "server_held g' r = server_held g r + count_list cs r"
    using claim_all_count [OF all, of r] locks_wf_count [OF wf, of r] by (simp add: server_held_def nat_add_distrib)
  show "locks_wf g'" by (rule locks_wf_claim [OF wf all])
next
  fix g :: guards and cs :: "int list" and r :: int
  assume wf: "locks_wf g"
  show "server_held (server_free g cs) r = server_held g r - count_list cs r"
    by (simp add: server_held_def server_free_def release_count)
  show "locks_wf (server_free g cs)" by (simp add: server_free_def locks_wf_release wf)
qed

lemma run_claim_iff:
  "run_claim g rs = Some (cs, g') \<longleftrightarrow>
     (\<exists>m. rs = [m] \<and> cs = [m] \<and> m \<notin> gd_running g \<and> g' = g\<lparr>gd_running := insert m (gd_running g)\<rparr>)"
  by (auto simp: run_claim_def tryAcquire_def split: list.splits bool.splits)

lemma run_free_running: "gd_running (run_free g ms) = gd_running g - set ms"
  unfolding run_free_def by (induction ms arbitrary: g) (auto simp: release_def)

interpretation runs: exclusive_guard run_claim run_free run_held "\<lambda>_. True"
proof
  fix g :: guards and cs :: "int list" and r :: int
  assume h: "\<And>r. r \<in> set cs \<Longrightarrow> run_held g r = count_list cs r"
  show "run_held (run_free g cs) r = run_held g r - count_list cs r"
    using h [of r] by (auto simp: run_held_def run_free_running count_list_0_iff split: if_splits)
qed (auto simp: run_claim_iff run_held_def)

text \<open>\<open>C38\<close>: no server is held by two migrations. Whatever order migrations claim their servers with
  \<open>tryAcquireResource\<close> and give them back with \<open>releaseResourceLocks\<close>, starting from a fresh pipeline, the
  servers two of them hold at the same time are disjoint.\<close>

theorem servers_never_shared:
  assumes "lock_run server_claim server_free new_guards ops = (g, own)"
    and "own a = Some ca" and "own b = Some cb" and "a \<noteq> b"
  shows "set ca \<inter> set cb = {}"
  by (rule servers.exclusive [OF _ assms]) (simp add: locks_wf_def new_guards_def)

lemma servers_never_shared_witness:
  "set [3, 4::int] \<inter> set [5, 6] = {} \<and>
   snd (lock_run server_claim server_free new_guards
     [Claim (1::int) [3, 4], Claim 2 [4, 5], Claim 3 [5, 6]]) = [1 \<mapsto> [3, 4], 3 \<mapsto> [5, 6]]"
proof -
  have run: "snd (lock_run server_claim server_free new_guards
     [Claim (1::int) [3, 4], Claim 2 [4, 5], Claim 3 [5, 6]]) = [1 \<mapsto> [3, 4], 3 \<mapsto> [5, 6]]"
    by (simp add: lock_run_def server_claim_def tryAcquireResource_def bump_lock_def lock_count_def new_guards_def)
  have "set [3, 4::int] \<inter> set [5, 6] = {}"
    using servers_never_shared [OF prod.collapse [symmetric], of "[Claim (1::int) [3, 4], Claim 2 [4, 5], Claim 3 [5, 6]]" 1 "[3, 4]" 3 "[5, 6]"]
    unfolding run by simp
  then show ?thesis using run by blast
qed

subsection \<open>The ceiling holds as long as it is not changed\<close>

datatype slot_op = Enter int | Leave int

text \<open>The runs between \<open>acquireSlot\<close> and the end of \<open>releaseSlot\<close>. A send or a receive that would block
  leaves everything as it is: the goroutine waits and may try again later.\<close>

fun slot_step :: "guards \<times> int set \<Rightarrow> slot_op \<Rightarrow> guards \<times> int set" where
  "slot_step (g, ins) (Enter a) =
     (if a \<in> ins then (g, ins)
      else (case acquireSlot False g of (True, g') # _ \<Rightarrow> (g', insert a ins) | _ \<Rightarrow> (g, ins)))"
| "slot_step (g, ins) (Leave a) =
     (if a \<in> ins then (case releaseSlot g of None \<Rightarrow> (g, ins) | Some g' \<Rightarrow> (g', ins - {a})) else (g, ins))"

definition slots_inv :: "int \<Rightarrow> guards \<times> int set \<Rightarrow> bool" where
  "slots_inv cap s = (case s of (g, ins) \<Rightarrow> finite ins \<and>
     (\<exists>q. gd_sem g = Some q \<and> sem_cap q = cap \<and> sem_len q = int (card ins) \<and> sem_len q \<le> cap))"

lemma slots_inv_step: "slots_inv cap s \<Longrightarrow> slots_inv cap (slot_step s x)"
  by (cases s; cases x)
    (auto simp: slots_inv_def acquireSlot_def releaseSlot_def ensureSem_def Let_def card_gt_0_iff
      of_nat_diff Suc_le_eq split: if_splits option.splits)

lemma slots_inv_run: "slots_inv cap s \<Longrightarrow> slots_inv cap (foldl slot_step s ops)"
  by (induction ops arbitrary: s) (auto simp: slots_inv_step)

text \<open>\<open>C39\<close>: as long as the ceiling is not changed, at most \<open>DefaultMaxConcurrentMigrations\<close> runs are
  between \<open>acquireSlot\<close> and \<open>releaseSlot\<close>, and every one of them can leave: \<open>releaseSlot\<close> does not block.\<close>

theorem slot_ceiling_holds:
  assumes "foldl slot_step (new_guards, {}) ops = (g, ins)"
  shows "card ins \<le> 4 \<and> (\<forall>a \<in> ins. \<exists>g'. slot_step (g, ins) (Leave a) = (g', ins - {a}) \<and> releaseSlot g = Some g')"
proof -
  have "slots_inv 4 (foldl slot_step (new_guards, {}) ops)"
    by (rule slots_inv_run) (simp add: slots_inv_def new_guards_def DefaultMaxConcurrentMigrations_def)
  then obtain q where q: "finite ins" "gd_sem g = Some q" "sem_cap q = 4" "sem_len q = int (card ins)"
      "sem_len q \<le> 4"
    using assms by (auto simp: slots_inv_def)
  then show ?thesis
    by (auto simp: releaseSlot_def ensureSem_def Let_def card_gt_0_iff)
qed

lemma slot_ceiling_holds_witness:
  "snd (foldl slot_step (new_guards, {}) [Enter 1, Enter 2, Enter 3, Enter 4, Enter 5]) = {1, 2, 3, 4} \<and>
   card (snd (foldl slot_step (new_guards, {}) [Enter 1, Enter 2, Enter 3, Enter 4, Enter 5])) \<le> 4"
proof
  show "snd (foldl slot_step (new_guards, {}) [Enter 1, Enter 2, Enter 3, Enter 4, Enter 5]) = {1, 2, 3, 4}"
    by (auto simp: acquireSlot_def ensureSem_def new_guards_def DefaultMaxConcurrentMigrations_def)
  show "card (snd (foldl slot_step (new_guards, {}) [Enter 1, Enter 2, Enter 3, Enter 4, Enter 5])) \<le> 4"
    using slot_ceiling_holds [OF prod.collapse [symmetric]] by blast
qed

text \<open>After \<open>SetMaxConcurrent\<close> no run that holds a slot can give it back: its token is in the channel that was
  replaced, and the receive waits on the new, empty one.\<close>

theorem set_max_concurrent_blocks_release:
  assumes "1 \<le> n"
  shows "releaseSlot (SetMaxConcurrent n g) = None"
  using assms by (simp add: releaseSlot_def SetMaxConcurrent_def ensureSem_def)

subsection \<open>The drain ends\<close>

lemma registry_run_closed:
  "\<not> pr_accepting r \<Longrightarrow> \<exists>r'. foldl apply_reg (Some r) ops = Some r' \<and> \<not> pr_accepting r' \<and>
     pr_active r' \<subseteq> pr_active r"
proof (induction ops arbitrary: r)
  case (Cons x xs)
  show ?case
  proof (cases x)
    case (Register i)
    then show ?thesis using Cons by (simp add: register_def)
  next
    case (Unregister i)
    let ?r = "r\<lparr>pr_active := pr_active r - {i}\<rparr>"
    obtain r' where "foldl apply_reg (Some ?r) xs = Some r'" "\<not> pr_accepting r'" "pr_active r' \<subseteq> pr_active ?r"
      using Cons.IH [of ?r] Cons.prems by auto
    then show ?thesis using Unregister by (auto simp: unregister_def)
  qed
qed simp

lemma drain_loop_returns:
  assumes "\<not> pr_accepting r" and "n \<le> m" and "deadline < de_now env m" and "finite (pr_active r)"
  shows "\<exists>res r'. drain_loop env deadline n (Some r) = Some (res, Some r') \<and> n \<le> drn_rounds res \<and>
     drn_rounds res \<le> m \<and> \<not> pr_accepting r' \<and> drn_cancelled res \<subseteq> pr_active r \<and>
     (drn_cancelled res \<noteq> {} \<longrightarrow> deadline < de_now env (drn_rounds res)) \<and>
     (drn_err res = None \<longrightarrow> pr_active r' \<subseteq> drn_cancelled res)"
  using assms
proof (induction "m - n" arbitrary: n r rule: less_induct)
  case less
  obtain r1 where r1: "foldl apply_reg (Some r) (de_ops env n) = Some r1" "\<not> pr_accepting r1"
      "pr_active r1 \<subseteq> pr_active r"
    using registry_run_closed [OF less.prems(1)] by blast
  obtain r2 where r2: "foldl apply_reg (Some r1) (de_ops env (Suc n)) = Some r2" "\<not> pr_accepting r2"
      "pr_active r2 \<subseteq> pr_active r1"
    using registry_run_closed [OF r1(2)] by blast
  show ?case
  proof (cases "card (pr_active r1) = 0 \<or> deadline < de_now env n \<or> de_ctx env n \<noteq> None")
    case True
    then show ?thesis
      using r1 r2 less.prems(2) finite_subset [OF r1(3) less.prems(4)]
      by (subst drain_loop.simps) (auto simp: registry_count_def Let_def)
  next
    case False
    then have "n \<noteq> m" using less.prems(3) by auto
    then have "n < m" using less.prems(2) by simp
    then obtain res r' where rec: "drain_loop env deadline (Suc n) (Some r1) = Some (res, Some r')"
        "Suc n \<le> drn_rounds res" "drn_rounds res \<le> m" "\<not> pr_accepting r'" "drn_cancelled res \<subseteq> pr_active r1"
        "drn_cancelled res \<noteq> {} \<longrightarrow> deadline < de_now env (drn_rounds res)"
        "drn_err res = None \<longrightarrow> pr_active r' \<subseteq> drn_cancelled res"
      using less.hyps [OF diff_less_mono2 [OF lessI \<open>n < m\<close>] r1(2) Suc_leI [OF \<open>n < m\<close>] less.prems(3)
          finite_subset [OF r1(3) less.prems(4)]] by (elim exE conjE) (rule that)
    then show ?thesis
      using False r1 by (subst drain_loop.simps) (auto simp: registry_count_def Let_def)
  qed
qed


text \<open>A run that never finishes is cancelled in the first round after the 30 seconds.\<close>

definition demo_drain_env :: drain_env where
  "demo_drain_env = \<lparr>de_ops = (\<lambda>n. if n = 1 then [Unregister 1, Register 9] else []),
     de_now = (\<lambda>n. int n * (second div 2)), de_ctx = (\<lambda>_. None)\<rparr>"


end
