(* ===== verification/Pipeline.thy ===== *)
theory Pipeline
  imports MigRepo Guards
begin

section \<open>The pipeline and its failure handling (\<open>migration/pipeline.go\<close>, \<open>pipeline_recovery.go\<close>)\<close>

text \<open>
  What the operations of the pipeline share: its stages, the servers and connections it asks for, the
  progress messages, and the three ways a run ends badly (failed, interrupted, rolled back).

  A stage is an interface of the code; here it is any function from the context, the tick and the database
  to its error, the context it leaves, the database it leaves and the statements it spent. Whatever other
  goroutines do to the database while a stage runs is part of that function. No stage of the repository
  reads or writes \<open>pc.StateMachine\<close>, so the context has no such field. Progress messages are logged with
  their step and status; the text is left out. The log is a ghost: nothing reads it.
\<close>

datatype pipe_event =
    EvProgress string string
  | EvExecute string
  | EvRollback string

type_synonym 'x pipe_world = "('x mig_db_scheme, pipe_event) world"

record PipelineContext =
  pc_MigrationID :: int
  pc_Migration :: Migration
  pc_Config :: MigrationConfig
  pc_SourceSSH :: "int option"
  pc_TargetSSH :: "int option"
  pc_CheckpointData :: "string \<rightharpoonup> string"
  pc_BackupRefs :: "string \<rightharpoonup> string"

type_synonym 'x stage_fun =
  "PipelineContext \<Rightarrow> nat \<Rightarrow> 'x mig_db_scheme \<Rightarrow> goerr option \<times> PipelineContext \<times> 'x mig_db_scheme \<times> nat"

record 'x PipelineStageHandler =
  sh_Name :: string
  sh_Execute :: "'x stage_fun"
  sh_Rollback :: "'x stage_fun"

text \<open>
  \<open>pl_GetByID\<close> is the server repository, \<open>pl_ssh\<close> the connection pool, \<open>pl_decrypt\<close> the decryption of a
  stored password with the session's key (\<open>None\<close> without a key), \<open>pl_ctxErr\<close> the error of the run's context
  at a tick, \<open>pl_retryWait\<close> the branch that the \<open>select\<close> before a retry took, and \<open>pl_pick\<close> the choice of
  the \<open>select\<close> in \<open>acquireSlot\<close>.
\<close>

record 'x Pipeline =
  pl_stages :: "'x PipelineStageHandler list"
  pl_GetByID :: "int \<Rightarrow> int res"
  pl_ssh :: "int \<Rightarrow> int \<Rightarrow> int res"
  pl_decrypt :: "(string \<Rightarrow> string res) option"
  pl_ctxErr :: "nat \<Rightarrow> goerr option"
  pl_retryWait :: "nat \<Rightarrow> int \<Rightarrow> goerr option"
  pl_pick :: nat

fun replace_stage :: "'x PipelineStageHandler \<Rightarrow> 'x PipelineStageHandler list \<Rightarrow> 'x PipelineStageHandler list" where
  "replace_stage stage [] = [stage]"
| "replace_stage stage (s # ss) =
     (if sh_Name s = sh_Name stage then stage # ss else s # replace_stage stage ss)"

definition RegisterStage :: "'x PipelineStageHandler \<Rightarrow> 'x Pipeline \<Rightarrow> 'x Pipeline" where
  "RegisterStage stage p = p\<lparr>pl_stages := replace_stage stage (pl_stages p)\<rparr>"

subsection \<open>Small steps\<close>

definition emit :: "string \<Rightarrow> string \<Rightarrow> 'x pipe_world \<Rightarrow> 'x pipe_world" where
  "emit step status w = w\<lparr>w_log := w_log w @ [EvProgress step status]\<rparr>"

text \<open>An error that is only reported as a warning, and one that is only written to the process log.\<close>

definition or_warn :: "string \<Rightarrow> unit res \<times> 'x pipe_world \<Rightarrow> 'x pipe_world" where
  "or_warn step rw = (case fst rw of Inl _ \<Rightarrow> emit step ''warning'' (snd rw) | Inr _ \<Rightarrow> snd rw)"

definition run_handler ::
  "(string \<Rightarrow> pipe_event) \<Rightarrow> string \<Rightarrow> 'x stage_fun \<Rightarrow> PipelineContext \<Rightarrow> 'x pipe_world
     \<Rightarrow> goerr option \<times> PipelineContext \<times> 'x pipe_world" where
  "run_handler ev name f pc w =
     (let (e, pc', d, k) = f pc (w_tick w) (w_db w) in
      (e, pc', w\<lparr>w_db := d, w_log := w_log w @ [ev name], w_tick := w_tick w + k + 1\<rparr>))"

definition GetByID :: "'x Pipeline \<Rightarrow> int \<Rightarrow> 'x pipe_world \<Rightarrow> int res \<times> 'x pipe_world" where
  "GetByID p i = db_read (\<lambda>_. pl_GetByID p i)"

definition getSSHClientForServer ::
  "'x Pipeline \<Rightarrow> int \<Rightarrow> int \<Rightarrow> 'x pipe_world \<Rightarrow> int res \<times> 'x pipe_world" where
  "getSSHClientForServer p i srv = db_read (\<lambda>_. pl_ssh p i srv)"

definition state_or_created :: "string \<Rightarrow> MigrationState" where
  "state_or_created s = (case StateFromString s of Inl _ \<Rightarrow> StateCreated | Inr st \<Rightarrow> st)"

text \<open>The state every operation starts from: the typed one, and when that cannot be read, the one the
  \<open>status\<close> column names, \<open>Created\<close> when it names none.\<close>

definition current_state :: "int \<Rightarrow> Migration \<Rightarrow> 'x pipe_world \<Rightarrow> MigrationState \<times> 'x pipe_world" where
  "current_state i m w = (case GetMigrationState i w of
       (Inl _, w1) \<Rightarrow> (state_or_created (mg_Status m), w1)
     | (Inr st, w1) \<Rightarrow> (st, w1))"

definition transition_or_force :: "StateMachine \<Rightarrow> MigrationState \<Rightarrow> StateMachine" where
  "transition_or_force sm s = (case Transition sm s of
       (Some _, sm1) \<Rightarrow> ForceTransition sm1 s
     | (None, sm1) \<Rightarrow> sm1)"

subsection \<open>Failed and interrupted runs\<close>

definition failPipeline ::
  "StateMachine \<Rightarrow> int \<Rightarrow> string \<Rightarrow> 'x pipe_world \<Rightarrow> StateMachine \<times> 'x pipe_world" where
  "failPipeline sm i msg w =
     (let w1 = emit ''pipeline'' ''error'' w;
          sm1 = transition_or_force sm StateFailed;
          w2 = snd (SetMigrationStateContext i StateFailed w1);
          w3 = snd (UpdateMigrationStatus i StatusFailed msg w2)
      in (sm1, w3))"

definition interruptPipeline ::
  "StateMachine \<Rightarrow> int \<Rightarrow> 'x pipe_world \<Rightarrow> StateMachine \<times> 'x pipe_world" where
  "interruptPipeline sm i w =
     (let w1 = emit ''pipeline'' ''warning'' w;
          sm1 = transition_or_force sm StateInterrupted;
          w2 = snd (SetMigrationStateContext i StateInterrupted w1);
          w3 = snd (UpdateMigrationStatus i StatusInterrupted ''interrupted by context cancellation'' w2)
      in (sm1, w3))"

subsection \<open>Rolling completed stages back\<close>

definition handler_of :: "'x PipelineStageHandler list \<Rightarrow> string \<Rightarrow> 'x PipelineStageHandler option" where
  "handler_of hs name = List.find (\<lambda>h. sh_Name h = name) hs"

text \<open>The automatic rollback: the stages in the order given (the caller reverses them), the errors joined.
  The status of the message for a stage that failed differs between the two callers.\<close>

fun rollback_stages ::
  "'x PipelineStageHandler list \<Rightarrow> string \<Rightarrow> PipelineStage list \<Rightarrow> PipelineContext \<Rightarrow> (string \<times> goerr) list
     \<Rightarrow> 'x pipe_world \<Rightarrow> (string \<times> goerr) list \<times> 'x pipe_world" where
  "rollback_stages hs status [] pc errs w = (errs, w)"
| "rollback_stages hs status (s # ss) pc errs w =
     (case handler_of hs (ps_StageName s) of
        None \<Rightarrow> rollback_stages hs status ss pc errs w
      | Some h \<Rightarrow>
          (case run_handler EvRollback (ps_StageName s) (sh_Rollback h) pc (emit (ps_StageName s) ''progress'' w) of
             (None, pc1, w1) \<Rightarrow> rollback_stages hs status ss pc1 errs w1
           | (Some e, pc1, w1) \<Rightarrow>
               rollback_stages hs status ss pc1 (errs @ [(ps_StageName s, e)]) (emit (ps_StageName s) status w1)))"

definition join_all :: "goerr list \<Rightarrow> goerr option" where
  "join_all es = foldl (\<lambda>acc e. Some (errors_join acc e)) None es"

definition rollback_context :: "int \<Rightarrow> Migration \<Rightarrow> MigrationConfig \<Rightarrow> int \<Rightarrow> PipelineContext" where
  "rollback_context i m cfg ssh =
     \<lparr>pc_MigrationID = i, pc_Migration = m, pc_Config = cfg, pc_SourceSSH = None, pc_TargetSSH = Some ssh,
      pc_CheckpointData = Map.empty, pc_BackupRefs = Map.empty\<rparr>"

definition config_or_default :: "int \<Rightarrow> 'x pipe_world \<Rightarrow> MigrationConfig \<times> 'x pipe_world" where
  "config_or_default i w = (case GetMigrationConfig i w of
       (Inl _, w1) \<Rightarrow> (DefaultMigrationConfig, w1)
     | (Inr cfg, w1) \<Rightarrow> (cfg, w1))"

text \<open>The terminal state of an automatic rollback, decided from the joined errors.\<close>

definition finish_rollback ::
  "StateMachine \<Rightarrow> int \<Rightarrow> goerr option \<Rightarrow> 'x pipe_world \<Rightarrow> StateMachine \<times> 'x pipe_world" where
  "finish_rollback sm i err w =
     (let wanted = rollbackTerminalState err;
          (terminal, sm1, w1) =
            (case Transition sm wanted of
               (Some _, sm') \<Rightarrow>
                 (StateNeedsManualIntervention, sm', snd (SetMigrationStateContext i StateNeedsManualIntervention w))
             | (None, sm') \<Rightarrow> (wanted, sm', snd (SetMigrationStateContext i wanted w)));
          w2 = (if terminal = StateRolledBack then snd (SetMigrationRolledBackAt i (formatTime (w_now w1)) w1) else w1)
      in (sm1, emit ''pipeline''
            (if terminal = StateRollbackDegraded \<or> terminal = StateNeedsManualIntervention
             then ''warning'' else ''complete'') w2))"

definition rollbackPipeline ::
  "'x Pipeline \<Rightarrow> StateMachine \<Rightarrow> int \<Rightarrow> 'x pipe_world \<Rightarrow> StateMachine \<times> 'x pipe_world" where
  "rollbackPipeline p sm i w =
     (let w1 = emit ''pipeline'' ''progress'' w;
          sm1 = transition_or_force sm StateFailed;
          w2 = snd (SetMigrationStateContext i StateFailed w1);
          sm2 = transition_or_force sm1 StateRollback;
          w3 = snd (SetMigrationStateContext i StateRollback w2)
      in case GetCompletedStages i w3 of
           (Inl _, w4) \<Rightarrow> (sm2, emit ''rollback'' ''error'' w4)
         | (Inr completed, w4) \<Rightarrow>
             (case GetMigration i w4 of
                (Inl _, w5) \<Rightarrow> (sm2, w5)
              | (Inr m, w5) \<Rightarrow>
                  (case GetByID p (mg_TargetID m) w5 of
                     (Inl _, w6) \<Rightarrow> (sm2, emit ''rollback'' ''error'' w6)
                   | (Inr srv, w6) \<Rightarrow>
                       (case getSSHClientForServer p (mg_TargetID m) srv w6 of
                          (Inl _, w7) \<Rightarrow> (sm2, emit ''rollback'' ''error'' w7)
                        | (Inr ssh, w7) \<Rightarrow>
                            (let (cfg, w8) = config_or_default i w7;
                                 (errs, w9) = rollback_stages (pl_stages p) ''warning'' (rev completed)
                                   (rollback_context i m cfg ssh) [] w8
                             in finish_rollback sm2 i (join_all (map snd errs)) w9)))))"

end
