(* ===== verification/Lifecycle.thy ===== *)
theory Lifecycle
  imports Pipeline
begin

section \<open>Operator operations (\<open>migration/pipeline_lifecycle.go\<close>)\<close>

text \<open>
  Pause, cutover, commit, manual rollback, cancel and crash recovery, each the whole handler from the load
  of the migration to its last message. \<open>Retry\<close> and \<open>Resume\<close> call \<open>Execute\<close> and are in theory Execute.
\<close>

definition state_str :: "MigrationState \<Rightarrow> string" where
  "state_str s = State_String s"

definition audit :: "int \<Rightarrow> string \<Rightarrow> string \<Rightarrow> string \<Rightarrow> AuditEntry" where
  "audit i event prev new = \<lparr>au_MigrationID = i, au_EventType = event, au_PreviousState = prev,
     au_NewState = new, au_Actor = ''user''\<rparr>"

definition not_found :: "goerr \<Rightarrow> goerr" where
  "not_found err = ErrWrap ''migration not found: '' err ''''"

definition Pause :: "int \<Rightarrow> 'x pipe_world \<Rightarrow> unit res \<times> 'x pipe_world" where
  "Pause i w = (case GetMigration i w of
       (Inl err, w1) \<Rightarrow> (Inl (not_found err), w1)
     | (Inr m, w1) \<Rightarrow>
         (let (cur, w2) = current_state i m w1 in
          if cur = StatePaused then (Inr (), w2)
          else (case Transition (NewStateMachine cur) StatePaused of
              (Some err, _) \<Rightarrow>
                (Inl (ErrWrap (''migration cannot be paused from state '' @ state_str cur @ '': '') err ''''), w2)
            | (None, _) \<Rightarrow>
                (case SetMigrationStateContext i StatePaused w2 of
                   (Inl err, w3) \<Rightarrow> (Inl err, w3)
                 | (Inr _, w3) \<Rightarrow>
                     (let w4 = snd (CreateAuditEntry
                            (audit i ''migration_paused'' (state_str cur) (state_str StatePaused)) w3)
                      in (Inr (), emit ''pipeline'' ''warning'' w4))))))"

subsection \<open>Cutover\<close>

text \<open>The closure \<open>transitionTo\<close>: it validates, persists and remembers the next state.\<close>

definition transitionTo ::
  "int \<Rightarrow> MigrationState \<Rightarrow> StateMachine \<times> MigrationState \<Rightarrow> 'x pipe_world
     \<Rightarrow> unit res \<times> (StateMachine \<times> MigrationState) \<times> 'x pipe_world" where
  "transitionTo i next sc w = (case Transition (fst sc) next of
       (Some err, sm1) \<Rightarrow>
         (Inl (ErrWrap (''failed to transition to '' @ state_str next @ '': '') err ''''), (sm1, snd sc), w)
     | (None, sm1) \<Rightarrow>
         (case SetMigrationStateContext i next w of
            (Inl err, w1) \<Rightarrow> (Inl err, (sm1, snd sc), w1)
          | (Inr _, w1) \<Rightarrow> (Inr (), (sm1, next), w1)))"

text \<open>The four guarded steps: \<open>if currentState == from { transitionTo(to) }\<close>, one after the other.\<close>

definition cutover_chain :: "(MigrationState \<times> MigrationState) list" where
  "cutover_chain = [(StateVerification, StatePreCutover), (StatePreCutover, StateTrafficSwitch),
     (StateTrafficSwitch, StatePostVerification), (StatePostVerification, StateObservation)]"

fun run_chain ::
  "int \<Rightarrow> (MigrationState \<times> MigrationState) list \<Rightarrow> StateMachine \<times> MigrationState \<Rightarrow> 'x pipe_world
     \<Rightarrow> unit res \<times> (StateMachine \<times> MigrationState) \<times> 'x pipe_world" where
  "run_chain i [] sc w = (Inr (), sc, w)"
| "run_chain i ((from, to) # rest) sc w =
     (if snd sc = from then
        (case transitionTo i to sc w of
           (Inl err, sc1, w1) \<Rightarrow> (Inl err, sc1, w1)
         | (Inr _, sc1, w1) \<Rightarrow> run_chain i rest sc1 w1)
      else run_chain i rest sc w)"

definition manual_cutover_record :: "int \<Rightarrow> MigrationState \<Rightarrow> CutoverRecord" where
  "manual_cutover_record i cur =
     \<lparr>ch_ID = 0, ch_MigrationID = i, ch_CutoverType = ''manual'', ch_PreviousState = state_str cur,
      ch_NewState = '''', ch_FreezeWrite = False, ch_QueueDrained = False, ch_DeltaSynced = False,
      ch_HealthVerified = False, ch_TrafficSwitched = True, ch_RollbackTriggered = False,
      ch_Error = '''', ch_CompletedAt = None\<rparr>"

definition Cutover :: "int \<Rightarrow> 'x pipe_world \<Rightarrow> unit res \<times> 'x pipe_world" where
  "Cutover i w = (case GetMigration i w of
       (Inl err, w1) \<Rightarrow> (Inl (not_found err), w1)
     | (Inr m, w1) \<Rightarrow>
         (let (cur, w2) = current_state i m w1 in
          if cur \<in> {StateObservation, StateCommitted} then (Inr (), w2)
          else if cur \<notin> {StateVerification, StatePreCutover, StateTrafficSwitch, StatePostVerification} then
            (Inl (ErrF (''migration cannot be cut over from state '' @ state_str cur)), w2)
          else (case CreateCutoverRecord (manual_cutover_record i cur) w2 of
              (Inl err, w3) \<Rightarrow> (Inl (ErrWrap ''failed to record cutover: '' err ''''), w3)
            | (Inr cid, w3) \<Rightarrow>
                (case run_chain i cutover_chain (NewStateMachine cur, cur) w3 of
                   (Inl err, _, w4) \<Rightarrow> (Inl err, w4)
                 | (Inr _, (_, reached), w4) \<Rightarrow>
                     (let w5 = snd (UpdateCutoverRecord cid (formatTime (w_now w4)) '''' w4);
                          w6 = snd (CreateAuditEntry (audit i ''migration_cutover_confirmed''
                                 (state_str cur) (state_str reached)) w5)
                      in (Inr (), emit ''cutover'' ''success'' w6))))))"

subsection \<open>Commit\<close>

definition trafficSwitchManualState :: string where
  "trafficSwitchManualState = ''manual_required''"

text \<open>The common end of both commits: state, time, audit, message.\<close>

definition persist_commit :: "int \<Rightarrow> MigrationState \<Rightarrow> 'x pipe_world \<Rightarrow> unit res \<times> 'x pipe_world" where
  "persist_commit i cur w = (case SetMigrationStateContext i StateCommitted w of
       (Inl err, w1) \<Rightarrow> (Inl err, w1)
     | (Inr _, w1) \<Rightarrow>
         (case SetMigrationCompletedAt i (formatTime (w_now w1)) w1 of
            (Inl err, w2) \<Rightarrow> (Inl err, w2)
          | (Inr _, w2) \<Rightarrow>
              (let w3 = snd (CreateAuditEntry
                     (audit i ''migration_committed'' (state_str cur) (state_str StateCommitted)) w2)
               in (Inr (), emit ''pipeline'' ''complete'' w3))))"

definition Commit :: "int \<Rightarrow> 'x pipe_world \<Rightarrow> unit res \<times> 'x pipe_world" where
  "Commit i w = (case GetMigration i w of
       (Inl err, w1) \<Rightarrow> (Inl (not_found err), w1)
     | (Inr m, w1) \<Rightarrow>
         (let (cur, w2) = current_state i m w1 in
          if cur = StateCommitted then (Inr (), w2)
          else if cur = StateAwaitingCutover then
            (case GetTrafficSwitchConfig i w2 of
               (Inl err, w3) \<Rightarrow> (Inl (ErrWrap ''load traffic switch config: '' err ''''), w3)
             | (Inr cfg, w3) \<Rightarrow>
                 (if (case cfg of None \<Rightarrow> True | Some c \<Rightarrow> ts_SwitchState c = trafficSwitchManualState)
                  then (Inl ErrCutoverNotConfirmed, w3)
                  else (case Transition (NewStateMachine cur) StateCommitted of
                      (Some err, _) \<Rightarrow>
                        (case SetMigrationStateContext i StateNeedsManualIntervention w3 of
                           (Inl stateErr, w4) \<Rightarrow>
                             (Inl (ErrWrap (''transition to committed failed ('' @ err_text err @
                                '') and could not fail-closed: '') stateErr ''''), w4)
                         | (Inr _, w4) \<Rightarrow> (Inl (ErrWrap ''commit transition failed: '' err ''''), w4))
                    | (None, _) \<Rightarrow> persist_commit i cur w3)))
          else if cur \<noteq> StateObservation then
            (Inl (ErrF (''migration cannot be committed from state '' @ state_str cur)), w2)
          else (case Transition (NewStateMachine cur) StateCommitted of
              (Some err, _) \<Rightarrow> (Inl (ErrWrap ''failed to transition to committed: '' err ''''), w2)
            | (None, _) \<Rightarrow> persist_commit i cur w2)))"

subsection \<open>Manual rollback\<close>

text \<open>The errors of the stages become one string, so the error they are reported as wraps none of them.\<close>

definition rollback_error :: "(string \<times> goerr) list \<Rightarrow> goerr" where
  "rollback_error errs = ErrF (''rollback failed: '' @
     intersperse_concat ''; '' (map (\<lambda>(name, e). name @ '': '' @ err_text e) errs))"

definition conclude_manual_rollback ::
  "StateMachine \<Rightarrow> int \<Rightarrow> (string \<times> goerr) list \<Rightarrow> 'x pipe_world \<Rightarrow> unit res \<times> 'x pipe_world" where
  "conclude_manual_rollback sm i errs w =
     (if errs \<noteq> [] then
        (let err = rollback_error errs;
             w1 = or_warn ''rollback'' (SetMigrationStateContext i (rollbackTerminalState (Some err)) w)
         in (Inl err, emit ''rollback'' ''error'' w1))
      else (case Transition sm StateRolledBack of
          (Some err, _) \<Rightarrow>
            (let w1 = snd (SetMigrationStateContext i StateNeedsManualIntervention w)
             in (Inl (ErrWrap ''rollback could not be finalized safely: '' err ''''), emit ''rollback'' ''error'' w1))
        | (None, _) \<Rightarrow>
            (let w1 = or_warn ''rollback'' (SetMigrationStateContext i StateRolledBack w);
                 w2 = or_warn ''rollback'' (SetMigrationRolledBackAt i (formatTime (w_now w1)) w1)
             in (Inr (), emit ''rollback'' ''complete'' w2))))"

definition Rollback :: "'x Pipeline \<Rightarrow> int \<Rightarrow> 'x pipe_world \<Rightarrow> unit res \<times> 'x pipe_world" where
  "Rollback p i w = (case GetMigration i w of
       (Inl err, w1) \<Rightarrow> (Inl (not_found err), w1)
     | (Inr m, w1) \<Rightarrow>
         (let (cur, w2) = current_state i m w1 in
          if cur = StateRollback \<or> cur = StateRolledBack then (Inr (), w2)
          else (case Transition (NewStateMachine cur) StateRollback of
              (Some err, _) \<Rightarrow>
                (Inl (ErrWrap (''migration cannot be rolled back from state '' @ state_str cur @ '': '') err ''''), w2)
            | (None, sm) \<Rightarrow>
                (case SetMigrationStateContext i StateRollback w2 of
                   (Inl err, w3) \<Rightarrow> (Inl err, w3)
                 | (Inr _, w3a) \<Rightarrow>
                     (let w3 = emit ''rollback'' ''progress'' w3a in
                      case GetCompletedStages i w3 of
                        (Inl err, w4) \<Rightarrow> (Inl (ErrWrap ''failed to load completed stages: '' err ''''), w4)
                      | (Inr completed, w4) \<Rightarrow>
                          (case GetByID p (mg_TargetID m) w4 of
                             (Inl err, w5) \<Rightarrow> (Inl (ErrWrap ''target server not found: '' err ''''), w5)
                           | (Inr srv, w5) \<Rightarrow>
                               (case getSSHClientForServer p (mg_TargetID m) srv w5 of
                                  (Inl err, w6) \<Rightarrow> (Inl (ErrWrap ''target SSH connection failed: '' err ''''), w6)
                                | (Inr ssh, w6) \<Rightarrow>
                                    (let (cfg, w7) = config_or_default i w6;
                                         (errs, w8) = rollback_stages (pl_stages p) ''error'' (rev completed)
                                           (rollback_context i m cfg ssh) [] w7
                                     in conclude_manual_rollback sm i errs w8))))))))"

subsection \<open>Cancel and crash recovery\<close>

definition Cancel :: "int \<Rightarrow> 'x pipe_world \<Rightarrow> unit res \<times> 'x pipe_world" where
  "Cancel i w = (case GetMigrationState i w of
       (Inl err, w1) \<Rightarrow> (Inl (ErrWrap ''failed to get migration state: '' err ''''), w1)
     | (Inr cur, w1) \<Rightarrow>
         (if cur = StateCancelled then (Inr (), w1)
          else (case Transition (NewStateMachine cur) StateCancelled of
              (Some err, _) \<Rightarrow>
                (Inl (ErrWrap (''migration cannot be cancelled from state '' @ state_str cur @ '': '') err ''''), w1)
            | (None, _) \<Rightarrow>
                (case SetMigrationStateContext i StateCancelled w1 of
                   (Inl err, w2) \<Rightarrow> (Inl err, w2)
                 | (Inr _, w2) \<Rightarrow>
                     (let w3 = or_warn ''pipeline'' (CreateAuditEntry
                            (audit i ''migration_cancelled'' (state_str cur) (state_str StateCancelled)) w2)
                      in (Inr (), emit ''pipeline'' ''complete'' w3))))))"

fun recover_all ::
  "Migration list \<Rightarrow> int list \<Rightarrow> ('x, 'e) mig_world \<Rightarrow> (int list \<times> goerr option) \<times> ('x, 'e) mig_world" where
  "recover_all [] recovered w = ((recovered, None), w)"
| "recover_all (m # ms) recovered w =
     (if mg_Status m \<noteq> StatusPlanned \<and> isRunningStatus (mg_Status m) then
        (case markInterrupted (mg_ID m) ''process may have crashed'' w of
           (Inl err, w1) \<Rightarrow>
             ((recovered, Some (ErrWrap (''failed to update migration '' @ string_of_int (mg_ID m) @ '': '') err '''')), w1)
         | (Inr _, w1) \<Rightarrow> recover_all ms (recovered @ [mg_ID m]) w1)
      else recover_all ms recovered w)"

definition RecoverInterrupted ::
  "('x, 'e) mig_world \<Rightarrow> (int list \<times> goerr option) \<times> ('x, 'e) mig_world" where
  "RecoverInterrupted w = (case ListMigrations w of
       (Inl err, w1) \<Rightarrow> (([], Some (ErrWrap ''failed to list migrations: '' err '''')), w1)
     | (Inr ms, w1) \<Rightarrow> recover_all ms [] w1)"

end
