(* ===== verification/Execute.thy ===== *)
theory Execute
  imports Lifecycle
begin

section \<open>Running a migration (\<open>migration/pipeline.go\<close>)\<close>

text \<open>
  \<open>Execute\<close> in the order of the code: the guards, the load of the migration and its configuration, the
  resume transition, the two connections, the stage loop with checkpoints and retries, and the commit; then
  \<open>Resume\<close> and \<open>Retry\<close>, which end in it. A definition per segment; the whole is composed at the end.
\<close>

subsection \<open>Configuration and credentials\<close>

definition decrypt_config :: "'x Pipeline \<Rightarrow> MigrationConfig \<Rightarrow> MigrationConfig" where
  "decrypt_config p cfg = (case mc_DatabaseConfig cfg of
       None \<Rightarrow> cfg
     | Some dc \<Rightarrow>
         (if dbc_Password dc \<noteq> '''' \<and> dbc_Password dc \<noteq> ''set'' then
            (case pl_decrypt p of
               None \<Rightarrow> cfg
             | Some decrypt \<Rightarrow>
                 (case decrypt (dbc_Password dc) of
                    Inl _ \<Rightarrow> cfg
                  | Inr dec \<Rightarrow> cfg\<lparr>mc_DatabaseConfig := Some (dc\<lparr>dbc_Password := dec\<rparr>)\<rparr>))
          else cfg))"

subsection \<open>Resuming\<close>

definition begin_run ::
  "int \<Rightarrow> Migration \<Rightarrow> 'x pipe_world \<Rightarrow> (StateMachine res \<times> 'x pipe_world)" where
  "begin_run i m w =
     (let (cur, w1) = current_state i m w; sm = NewStateMachine cur in
      if cur = StateInterrupted then
        (case Transition sm StateResuming of
           (Some err, _) \<Rightarrow> (Inl (ErrWrap ''failed to transition to resuming: '' err ''''), w1)
         | (None, sm1) \<Rightarrow>
             (let w2 = or_warn ''pipeline'' (SetMigrationStateContext i StateResuming w1);
                  w3 = emit ''pipeline'' ''progress'' w2
              in (Inr sm1, or_warn ''pipeline'' (UpdateMigrationStatus i StatusRunning '''' w3))))
      else (Inr sm, or_warn ''pipeline'' (UpdateMigrationStatus i StatusRunning '''' w1)))"

subsection \<open>Connections\<close>

definition connect_one ::
  "'x Pipeline \<Rightarrow> StateMachine \<Rightarrow> int \<Rightarrow> string \<Rightarrow> int \<Rightarrow> int \<Rightarrow> 'x pipe_world \<Rightarrow> int res \<times> 'x pipe_world" where
  "connect_one p sm i side srv_id srv w = (case getSSHClientForServer p srv_id srv w of
       (Inl err, w1) \<Rightarrow>
         (Inl err, snd (failPipeline sm i (side @ '' SSH connection failed: '' @ err_text err) w1))
     | (Inr ssh, w1) \<Rightarrow> (Inr ssh, emit ''pipeline'' ''success'' w1))"

definition connect_servers ::
  "'x Pipeline \<Rightarrow> StateMachine \<Rightarrow> int \<Rightarrow> Migration \<Rightarrow> 'x pipe_world \<Rightarrow> (int \<times> int) res \<times> 'x pipe_world" where
  "connect_servers p sm i m w = (case GetByID p (mg_SourceID m) w of
       (Inl err, w1) \<Rightarrow> (Inl err, snd (failPipeline sm i (''source server not found: '' @ err_text err) w1))
     | (Inr src, w1) \<Rightarrow>
         (case GetByID p (mg_TargetID m) w1 of
            (Inl err, w2) \<Rightarrow> (Inl err, snd (failPipeline sm i (''target server not found: '' @ err_text err) w2))
          | (Inr tgt, w2) \<Rightarrow>
              (case connect_one p sm i ''source'' (mg_SourceID m) src w2 of
                 (Inl err, w3) \<Rightarrow> (Inl err, w3)
               | (Inr ssh1, w3) \<Rightarrow>
                   (case connect_one p sm i ''target'' (mg_TargetID m) tgt w3 of
                      (Inl err, w4) \<Rightarrow> (Inl err, w4)
                    | (Inr ssh2, w4) \<Rightarrow> (Inr (ssh1, ssh2), w4)))))"

subsection \<open>One stage with its retries\<close>

text \<open>The attempts of a stage end with its success (and how many were used), its last error, or the
  interruption of the run, which has already been persisted.\<close>

datatype attempt_result = StageOk nat | StageErr goerr | StageInterrupted goerr

definition max_retries :: "MigrationConfig \<Rightarrow> nat" where
  "max_retries cfg = (if 0 < mc_MaxRetries cfg then nat (mc_MaxRetries cfg) else 3)"

definition retry_delay :: "MigrationConfig \<Rightarrow> int" where
  "retry_delay cfg = (if 0 < mc_RetryDelay cfg then mc_RetryDelay cfg else 5 * second)"

text \<open>\<open>left\<close> counts the retries that remain after this attempt. The wait before a retry is one tick and
  doubles each time.\<close>

fun run_attempts ::
  "'x Pipeline \<Rightarrow> StateMachine \<Rightarrow> int \<Rightarrow> 'x PipelineStageHandler \<Rightarrow> int \<Rightarrow> nat \<Rightarrow> nat \<Rightarrow> int
     \<Rightarrow> PipelineContext \<Rightarrow> 'x pipe_world \<Rightarrow> attempt_result \<times> PipelineContext \<times> 'x pipe_world" where
  "run_attempts p sm i h sid attempt left delay pc w =
     (let name = sh_Name h;
          w1 = (if 0 < attempt
                then tick (emit name ''progress'' (or_warn name (IncrementStageAttempt sid w))) else w) in
      case (if 0 < attempt then pl_retryWait p (w_tick w1) delay else None) of
        Some e \<Rightarrow> (StageInterrupted e, pc, snd (interruptPipeline sm i w1))
      | None \<Rightarrow>
          (let delay1 = (if 0 < attempt then delay * 2 else delay) in
           case run_handler EvExecute name (sh_Execute h) pc w1 of
             (None, pc1, w2) \<Rightarrow> (StageOk (attempt + 1), pc1, w2)
           | (Some err, pc1, w2) \<Rightarrow>
               (case pl_ctxErr p (w_tick w2) of
                  Some e \<Rightarrow> (StageInterrupted e, pc1, snd (interruptPipeline sm i w2))
                | None \<Rightarrow>
                    (case left of
                       0 \<Rightarrow> (StageErr err, pc1, w2)
                     | Suc n \<Rightarrow> run_attempts p sm i h sid (attempt + 1) n delay1 pc1 w2))))"

declare run_attempts.simps [simp del]

definition stage_total_int :: "'a list \<Rightarrow> int" where
  "stage_total_int xs = int (length xs)"

text \<open>What follows the attempts: the clean stop for a manual cutover, the failure with its automatic
  rollback, or the checkpoint, the completed row and the audit entry. \<open>None\<close> goes on with the next stage.\<close>

definition finish_stage ::
  "'x Pipeline \<Rightarrow> StateMachine \<Rightarrow> int \<Rightarrow> string \<Rightarrow> int \<Rightarrow> int \<Rightarrow> attempt_result \<Rightarrow> 'x pipe_world
     \<Rightarrow> unit res option \<times> 'x pipe_world" where
  "finish_stage p sm i name sid total_stages res w = (case res of
       StageInterrupted e \<Rightarrow> (Some (Inl e), w)
     | StageErr err \<Rightarrow>
         (if errors_is err ErrAwaitingCutover then
            (let w1 = snd (UpdateStageState sid StageStateCompleted ''awaiting_cutover'' w);
                 w2 = or_warn ''pipeline'' (SetMigrationStateContext i StateAwaitingCutover w1)
             in (Some (Inr ()), emit ''traffic_switch'' ''warning'' w2))
          else
            (let w1 = or_warn name (UpdateStageState sid StageStateFailed (err_text err) w);
                 w2 = emit name ''error'' w1;
                 w3 = snd (rollbackPipeline p sm i w2)
             in (Some (Inl (ErrWrap (''stage '' @ name @ '' failed: '') err '''')), w3)))
     | StageOk used \<Rightarrow>
         (case UpdateStageCheckpoint sid (stageCheckpointJSON name (int used) total_stages) w of
            (Inl err, w1) \<Rightarrow> (Some (Inl (ErrWrap (''persist checkpoint for stage '' @ name @ '': '') err '''')), w1)
          | (Inr _, w1) \<Rightarrow>
              (let w2 = or_warn name (UpdateStageState sid StageStateCompleted '''' w1);
                   w3 = emit name ''success'' w2;
                   w4 = or_warn name (CreateAuditEntry
                     \<lparr>au_MigrationID = i, au_EventType = ''stage_completed'', au_PreviousState = '''',
                      au_NewState = name, au_Actor = ''pipeline''\<rparr> w3)
               in (None, w4))))"

definition run_stage ::
  "'x Pipeline \<Rightarrow> MigrationConfig \<Rightarrow> StateMachine \<Rightarrow> int \<Rightarrow> int \<Rightarrow> int \<Rightarrow> 'x PipelineStageHandler \<Rightarrow> PipelineContext
     \<Rightarrow> 'x pipe_world \<Rightarrow> unit res option \<times> PipelineContext \<times> 'x pipe_world" where
  "run_stage p cfg sm i total_stages idx h pc w =
     (let name = sh_Name h in
      case CreateStage i name idx w of
        (Inl err, w1) \<Rightarrow> (Some (Inl (ErrWrap (''create stage '' @ name @ '': '') err '''')), pc, w1)
      | (Inr sid, w1) \<Rightarrow>
          (let w2 = or_warn name (UpdateStageState sid StageStateRunning '''' w1);
               w3 = emit name ''progress'' w2;
               (res, pc1, w4) = run_attempts p sm i h sid 0 (max_retries cfg)
                  (retry_delay cfg) pc w3;
               (r, w5) = finish_stage p sm i name sid total_stages res w4
           in (r, pc1, w5)))"

subsection \<open>The stage loop\<close>

text \<open>The completed set is read once, before the loop; no stage of the repository changes the
  configuration, so it is an argument. A result \<open>None\<close> means every stage is done.\<close>

fun run_stages ::
  "'x Pipeline \<Rightarrow> MigrationConfig \<Rightarrow> StateMachine \<Rightarrow> int \<Rightarrow> int \<Rightarrow> string list \<Rightarrow> int \<Rightarrow> 'x PipelineStageHandler list
     \<Rightarrow> PipelineContext \<Rightarrow> 'x pipe_world \<Rightarrow> unit res option \<times> PipelineContext \<times> 'x pipe_world" where
  "run_stages p cfg sm i total_stages completed idx [] pc w = (None, pc, w)"
| "run_stages p cfg sm i total_stages completed idx (h # hs) pc w =
     (case pl_ctxErr p (w_tick w) of
        Some e \<Rightarrow> (Some (Inl e), pc, snd (interruptPipeline sm i w))
      | None \<Rightarrow>
          (let (st, w1) = GetMigrationState i w in
           if st = Inr StatePaused then (Some (Inr ()), pc, emit ''pipeline'' ''warning'' w1)
           else if sh_Name h \<in> set completed then
             run_stages p cfg sm i total_stages completed (idx + 1) hs pc (emit (sh_Name h) ''success'' w1)
           else (case run_stage p cfg sm i total_stages idx h pc w1 of
               (Some r, pc1, w2) \<Rightarrow> (Some r, pc1, w2)
             | (None, pc1, w2) \<Rightarrow> run_stages p cfg sm i total_stages completed (idx + 1) hs pc1 w2)))"

subsection \<open>The commit\<close>

definition commit_run :: "StateMachine \<Rightarrow> int \<Rightarrow> 'x pipe_world \<Rightarrow> unit res \<times> 'x pipe_world" where
  "commit_run sm i w = (case Transition sm StateCommitted of
       (Some err, _) \<Rightarrow>
         (Inl (ErrWrap ''commit transition failed: '' err ''''),
          snd (SetMigrationStateContext i StateNeedsManualIntervention w))
     | (None, _) \<Rightarrow>
         (let w1 = or_warn ''pipeline'' (SetMigrationStateContext i StateCommitted w);
              w2 = or_warn ''pipeline'' (SetMigrationCompletedAt i (formatTime (w_now w1)) w1)
          in (Inr (), emit ''pipeline'' ''complete'' w2)))"

subsection \<open>Execute\<close>

definition run_context :: "int \<Rightarrow> Migration \<Rightarrow> MigrationConfig \<Rightarrow> int \<Rightarrow> int \<Rightarrow> PipelineContext" where
  "run_context i m cfg ssh1 ssh2 =
     \<lparr>pc_MigrationID = i, pc_Migration = m, pc_Config = cfg, pc_SourceSSH = Some ssh1,
      pc_TargetSSH = Some ssh2, pc_CheckpointData = Map.empty, pc_BackupRefs = Map.empty\<rparr>"

definition completed_names :: "PipelineStage list res \<Rightarrow> string list" where
  "completed_names r = (case r of Inl _ \<Rightarrow> [] | Inr ss \<Rightarrow> map ps_StageName ss)"

text \<open>The body that runs while the guards are held.\<close>

definition execute_body :: "'x Pipeline \<Rightarrow> int \<Rightarrow> Migration \<Rightarrow> 'x pipe_world \<Rightarrow> unit res \<times> 'x pipe_world" where
  "execute_body p i m w =
     (let (cfg0, w1) = config_or_default i w; cfg = decrypt_config p cfg0 in
      case begin_run i m w1 of
        (Inl err, w2) \<Rightarrow> (Inl err, w2)
      | (Inr sm, w2) \<Rightarrow>
          (case connect_servers p sm i m w2 of
             (Inl err, w3) \<Rightarrow> (Inl err, w3)
           | (Inr (ssh1, ssh2), w3) \<Rightarrow>
               (let (done_res, w4) = GetCompletedStages i w3 in
                case run_stages p cfg sm i (stage_total_int (pl_stages p)) (completed_names done_res) 0
                       (pl_stages p) (run_context i m cfg ssh1 ssh2) w4 of
                  (Some r, _, w5) \<Rightarrow> (r, w5)
                | (None, _, w5) \<Rightarrow> commit_run sm i w5)))"

record pipe_locks =
  pk_guards :: guards
  pk_registry :: "pipelineRegistry option"

text \<open>Leaving: the deferred calls in reverse order. \<open>releaseSlot\<close> may block, then the run never returns.\<close>

definition leave_run ::
  "int \<Rightarrow> unit res \<Rightarrow> guards \<Rightarrow> pipelineRegistry option \<Rightarrow> 'x pipe_world
     \<Rightarrow> (unit res \<times> pipe_locks \<times> 'x pipe_world) option" where
  "leave_run i r g reg w = (case releaseSlot g of
       None \<Rightarrow> None
     | Some g1 \<Rightarrow> Some (r, \<lparr>pk_guards = release i g1, pk_registry = reg\<rparr>, w))"

text \<open>\<open>None\<close>: the run waits for ever for a slot, or to give it back.\<close>

definition Execute ::
  "'x Pipeline \<Rightarrow> int \<Rightarrow> pipe_locks \<Rightarrow> 'x pipe_world \<Rightarrow> (unit res \<times> pipe_locks \<times> 'x pipe_world) option" where
  "Execute p i ks w =
     (let (fresh, g1) = tryAcquire i (pk_guards ks) in
      if \<not> fresh then
        Some (Inl (ErrF (''migration '' @ string_of_int i @ '' is already running'')), ks\<lparr>pk_guards := g1\<rparr>, w)
      else
        (let choices = acquireSlot (pl_ctxErr p (w_tick w) \<noteq> None) g1 in
         if choices = [] then None
         else (let (got, g2) = choices ! (pl_pick p mod length choices) in
           if \<not> got then
             Some (Inl (ErrWrap (''migration '' @ string_of_int i @ '' not started: '')
                     (case pl_ctxErr p (w_tick w) of None \<Rightarrow> ErrF '''' | Some e \<Rightarrow> e) ''''),
                   ks\<lparr>pk_guards := release i g2\<rparr>, w)
           else
             (let (accepted, reg) = register i (pk_registry ks) in
              if \<not> accepted then
                leave_run i (Inl (ErrF (''server is shutting down; migration '' @ string_of_int i @
                  '' not started''))) g2 reg w
              else (case GetMigration i w of
                  (Inl err, w1) \<Rightarrow> leave_run i (Inl (not_found err)) g2 (unregister i reg) w1
                | (Inr m, w1) \<Rightarrow>
                    (case tryAcquireResource [mg_SourceID m, mg_TargetID m] g2 of
                       (None, g3) \<Rightarrow>
                         leave_run i (Inl (ErrF (''migration '' @ string_of_int i @
                           '' cannot start: source or target server is busy with another migration'')))
                           g3 (unregister i reg) w1
                     | (Some heldServers, g3) \<Rightarrow>
                         (let (r, w2) = execute_body p i m w1
                          in leave_run i r (releaseResourceLocks heldServers g3) (unregister i reg) w2)))))))"

subsection \<open>Resume and Retry (\<open>migration/pipeline_lifecycle.go\<close>)\<close>

definition Resume ::
  "'x Pipeline \<Rightarrow> int \<Rightarrow> pipe_locks \<Rightarrow> 'x pipe_world \<Rightarrow> (unit res \<times> pipe_locks \<times> 'x pipe_world) option" where
  "Resume p i ks w = (case GetMigration i w of
       (Inl err, w1) \<Rightarrow> Some (Inl (not_found err), ks, w1)
     | (Inr m, w1) \<Rightarrow>
         (let (cur, w2) = current_state i m w1 in
          if \<not> CanResume cur then
            Some (Inl (ErrF (''migration cannot be resumed from state '' @ state_str cur)), ks, w2)
          else (case Transition (NewStateMachine cur) StateResuming of
              (Some err, _) \<Rightarrow> Some (Inl (ErrWrap ''failed to transition to resuming: '' err ''''), ks, w2)
            | (None, _) \<Rightarrow>
                (let w3 = or_warn ''pipeline'' (SetMigrationStateContext i StateResuming w2)
                 in Execute p i ks (emit ''pipeline'' ''progress'' w3)))))"

definition Retry ::
  "'x Pipeline \<Rightarrow> int \<Rightarrow> pipe_locks \<Rightarrow> 'x pipe_world \<Rightarrow> (unit res \<times> pipe_locks \<times> 'x pipe_world) option" where
  "Retry p i ks w = (case GetMigration i w of
       (Inl err, w1) \<Rightarrow> Some (Inl (not_found err), ks, w1)
     | (Inr m, w1) \<Rightarrow>
         (let (cur, w2) = current_state i m w1 in
          if cur = StateInterrupted then Resume p i ks w2
          else if cur = StateFailed then
            (case Transition (NewStateMachine cur) StateInterrupted of
               (Some err, _) \<Rightarrow>
                 Some (Inl (ErrWrap (''failed to prepare retry from state '' @ state_str cur @ '': '') err ''''), ks, w2)
             | (None, _) \<Rightarrow>
                 (case SetMigrationStateContext i StateInterrupted w2 of
                    (Inl err, w3) \<Rightarrow> Some (Inl err, ks, w3)
                  | (Inr _, w3) \<Rightarrow>
                      (let w4 = snd (CreateAuditEntry
                             (audit i ''migration_retried'' (state_str cur) (state_str StateInterrupted)) w3)
                       in Resume p i ks w4)))
          else if cur = StateResuming then Resume p i ks w2
          else Some (Inl (ErrF (''migration cannot be retried from state '' @ state_str cur)), ks, w2)))"

end
