(* ===== verification/RunProofs.thy ===== *)
theory RunProofs
  imports Execute
begin

section \<open>What a run keeps\<close>

text \<open>
  The facts that the properties of the pipeline rest on: what each segment of a run does to the log, and a
  contract for predicates on the database that every statement of a run keeps, used once for every
  invariant of a run.
\<close>

subsection \<open>The log\<close>

definition execs :: "pipe_event list \<Rightarrow> string list" where
  "execs l = concat (map (\<lambda>e. case e of EvExecute n \<Rightarrow> [n] | EvProgress _ _ \<Rightarrow> [] | EvRollback _ \<Rightarrow> []) l)"

definition rolled :: "pipe_event list \<Rightarrow> string list" where
  "rolled l = concat (map (\<lambda>e. case e of EvRollback n \<Rightarrow> [n] | EvProgress _ _ \<Rightarrow> [] | EvExecute _ \<Rightarrow> []) l)"

lemma execs_simps [simp]:
  "execs [] = []" "execs (xs @ ys) = execs xs @ execs ys" "execs (EvExecute n # xs) = n # execs xs"
  "execs (EvProgress a b # xs) = execs xs" "execs (EvRollback n # xs) = execs xs"
  by (simp_all add: execs_def)

lemma rolled_simps [simp]:
  "rolled [] = []" "rolled (xs @ ys) = rolled xs @ rolled ys" "rolled (EvExecute n # xs) = rolled xs"
  "rolled (EvProgress a b # xs) = rolled xs" "rolled (EvRollback n # xs) = n # rolled xs"
  by (simp_all add: rolled_def)

text \<open>Statements keep the log, the environment and the clock.\<close>

lemma snd_read [simp]:
  "w_log (snd (db_read f w)) = w_log w" "w_db (snd (db_read f w)) = w_db w"
  "w_env (snd (db_read f w)) = w_env w" "w_clock (snd (db_read f w)) = w_clock w"
  "w_tick (snd (db_read f w)) = Suc (w_tick w)"
  using db_read_frames [of f w "fst (db_read f w)" "snd (db_read f w)"] by simp_all

lemma snd_write [simp]:
  "w_log (snd (db_write f w)) = w_log w" "w_env (snd (db_write f w)) = w_env w"
  "w_clock (snd (db_write f w)) = w_clock w" "w_tick (snd (db_write f w)) = Suc (w_tick w)"
  using db_write_frames [of f w "fst (db_write f w)" "snd (db_write f w)"] by simp_all

lemmas statement_defs = GetMigration_def ListMigrations_def UpdateMigrationStatus_def
  SetMigrationCompletedAt_def SetMigrationRolledBackAt_def GetMigrationConfig_def SetMigrationState_def
  SetMigrationStateContext_def CreateAuditEntry_def CreateCutoverRecord_def UpdateCutoverRecord_def
  UpdateStageState_def UpdateStageCheckpoint_def IncrementStageAttempt_def GetCompletedStages_def
  GetTrafficSwitchConfig_def GetByID_def getSSHClientForServer_def


lemma emit_fields [simp]:
  "execs (w_log (emit a b w)) = execs (w_log w)" "rolled (w_log (emit a b w)) = rolled (w_log w)"
  "w_db (emit a b w) = w_db w" "w_env (emit a b w) = w_env w" "w_clock (emit a b w) = w_clock w"
  "w_tick (emit a b w) = w_tick w"
  by (simp_all add: emit_def)

lemma or_warn_fields [simp]:
  "execs (w_log (or_warn s rw)) = execs (w_log (snd rw))" "rolled (w_log (or_warn s rw)) = rolled (w_log (snd rw))"
  "w_db (or_warn s rw) = w_db (snd rw)" "w_env (or_warn s rw) = w_env (snd rw)"
  "w_clock (or_warn s rw) = w_clock (snd rw)" "w_tick (or_warn s rw) = w_tick (snd rw)"
  by (simp_all add: or_warn_def split: sum.split)

lemma GetMigrationState_snd [simp]:
  "w_log (snd (GetMigrationState i w)) = w_log w" "w_db (snd (GetMigrationState i w)) = w_db w"
  "w_env (snd (GetMigrationState i w)) = w_env w" "w_clock (snd (GetMigrationState i w)) = w_clock w"
  using GetMigrationState_frame [of i w "fst (GetMigrationState i w)" "snd (GetMigrationState i w)"] by simp_all

lemma current_state_snd [simp]:
  "w_log (snd (current_state i m w)) = w_log w" "w_db (snd (current_state i m w)) = w_db w"
  "w_env (snd (current_state i m w)) = w_env w" "w_clock (snd (current_state i m w)) = w_clock w"
  by (simp_all add: current_state_def split_beta split: sum.split)

lemma config_or_default_snd [simp]:
  "w_log (snd (config_or_default i w)) = w_log w" "w_db (snd (config_or_default i w)) = w_db w"
  "w_env (snd (config_or_default i w)) = w_env w" "w_clock (snd (config_or_default i w)) = w_clock w"
  by (simp_all add: config_or_default_def GetMigrationConfig_def split_beta split: sum.split)

lemma CreateStage_snd [simp]:
  "w_log (snd (CreateStage i n k w)) = w_log w" "w_env (snd (CreateStage i n k w)) = w_env w"
  by (simp_all add: CreateStage_def split_beta split: sum.split)

lemma failPipeline_log [simp]:
  "execs (w_log (snd (failPipeline sm i msg w))) = execs (w_log w)"
  "rolled (w_log (snd (failPipeline sm i msg w))) = rolled (w_log w)"
  by (simp_all add: failPipeline_def Let_def statement_defs)

lemma interruptPipeline_log [simp]:
  "execs (w_log (snd (interruptPipeline sm i w))) = execs (w_log w)"
  "rolled (w_log (snd (interruptPipeline sm i w))) = rolled (w_log w)"
  by (simp_all add: interruptPipeline_def Let_def statement_defs)

lemma run_handler_fields:
  "run_handler ev name f pc w = (e, pc', w') \<Longrightarrow>
     (e, pc', w_db w') = (fst (f pc (w_tick w) (w_db w)), fst (snd (f pc (w_tick w) (w_db w))),
        fst (snd (snd (f pc (w_tick w) (w_db w))))) \<and>
     w_log w' = w_log w @ [ev name] \<and> w_env w' = w_env w \<and> w_clock w' = w_clock w \<and> w_tick w < w_tick w'"
  by (auto simp: run_handler_def split_beta)

lemma rollback_stages_execs:
  "execs (w_log (snd (rollback_stages hs st ss pc errs w))) = execs (w_log w)"
proof (induction ss arbitrary: pc errs w)
  case (Cons s ss)
  show ?case
  proof (cases "handler_of hs (ps_StageName s)")
    case (Some h)
    obtain e pc1 w1 where r: "run_handler EvRollback (ps_StageName s) (sh_Rollback h) pc
        (emit (ps_StageName s) ''progress'' w) = (e, pc1, w1)" by (metis prod_cases3)
    have "execs (w_log w1) = execs (w_log w)" using run_handler_fields [OF r] by simp
    then show ?thesis using Some r Cons.IH by (simp split: option.split)
  qed (simp add: Cons.IH)
qed simp

lemma finish_rollback_log [simp]:
  "execs (w_log (snd (finish_rollback sm i err w))) = execs (w_log w)"
  "rolled (w_log (snd (finish_rollback sm i err w))) = rolled (w_log w)"
  by (simp_all add: finish_rollback_def Let_def statement_defs split_beta split: option.split)

lemma rollbackPipeline_execs [simp]:
  "execs (w_log (snd (rollbackPipeline p sm i w))) = execs (w_log w)"
  by (simp add: rollbackPipeline_def Let_def statement_defs split_beta rollback_stages_execs split: sum.split)

lemma finish_stage_execs [simp]:
  "execs (w_log (snd (finish_stage p sm i n sid t res w))) = execs (w_log w)"
  by (simp add: finish_stage_def Let_def statement_defs split_beta split: sum.split attempt_result.split)

subsection \<open>Attempts and order of the stages\<close>

lemma run_attempts_execs:
  "run_attempts p sm i h sid attempt left delay pc w = (res, pc', w') \<Longrightarrow>
     \<exists>n. n \<le> left + 1 \<and> execs (w_log w') = execs (w_log w) @ replicate n (sh_Name h) \<and>
         (attempt = 0 \<longrightarrow> 1 \<le> n) \<and> (\<forall>u. res = StageOk u \<longrightarrow> u = attempt + n \<and> 1 \<le> n)"
proof (induction left arbitrary: attempt delay pc w)
  case (0 attempt delay pc w)
  then show ?case
    by (subst (asm) run_attempts.simps)
      (auto simp: Let_def split_beta IncrementStageAttempt_def run_handler_def split: option.splits if_splits
        intro: exI [of _ 0] exI [of _ 1])
next
  case (Suc left attempt delay pc w)
  define w1 where "w1 = (if 0 < attempt then tick (emit (sh_Name h) ''progress''
     (or_warn (sh_Name h) (IncrementStageAttempt sid w))) else w)"
  have w1: "execs (w_log w1) = execs (w_log w)" by (simp add: w1_def IncrementStageAttempt_def)
  note run = Suc.prems [unfolded run_attempts.simps [of p sm i h sid attempt "Suc left"] Let_def, folded w1_def]
  show ?case
  proof (cases "if 0 < attempt then pl_retryWait p (w_tick w1) delay else None")
    case (Some e)
    then show ?thesis using run w1 by (auto split: if_splits intro: exI [of _ 0])
  next
    case None
    obtain e pc1 w2 where h: "run_handler EvExecute (sh_Name h) (sh_Execute h) pc w1 = (e, pc1, w2)"
      by (metis prod_cases3)
    have w2: "execs (w_log w2) = execs (w_log w) @ [sh_Name h]"
      using run_handler_fields [OF h] w1 by simp
    show ?thesis
    proof (cases "e = None \<or> pl_ctxErr p (w_tick w2) \<noteq> None")
      case True
      then show ?thesis using run None h w2 by (auto split: option.splits intro: exI [of _ 1])
    next
      case False
      then have "run_attempts p sm i h sid (attempt + 1) left (if 0 < attempt then delay * 2 else delay) pc1 w2
          = (res, pc', w')"
        using run None h by auto
      from Suc.IH [OF this] obtain n where "n \<le> left + 1"
          "execs (w_log w') = execs (w_log w2) @ replicate n (sh_Name h)"
          "\<forall>u. res = StageOk u \<longrightarrow> u = attempt + 1 + n \<and> 1 \<le> n" by blast
      then show ?thesis using w2 by (intro exI [of _ "Suc n"]) auto
    qed
  qed
qed

lemma finish_stage_None: "finish_stage p sm i n sid t res w = (None, w') \<Longrightarrow> \<exists>u. res = StageOk u"
  by (auto simp: finish_stage_def Let_def split: attempt_result.splits if_splits)

lemma run_stage_execs:
  assumes "run_stage p cfg sm i t idx h pc w = (r, pc', w')"
  shows "\<exists>n. n \<le> max_retries cfg + 1 \<and> execs (w_log w') = execs (w_log w) @ replicate n (sh_Name h) \<and>
           (r = None \<longrightarrow> 1 \<le> n)"
proof (cases "fst (CreateStage i (sh_Name h) idx w)")
  case (Inl err)
  then show ?thesis using assms by (auto simp: run_stage_def split_beta Let_def split: sum.splits)
next
  case (Inr sid)
  define w3 where "w3 = emit (sh_Name h) ''progress'' (or_warn (sh_Name h)
     (UpdateStageState sid StageStateRunning '''' (snd (CreateStage i (sh_Name h) idx w))))"
  obtain res pc1 w4 where a: "run_attempts p sm i h sid 0 (max_retries cfg) (retry_delay cfg) pc w3 = (res, pc1, w4)"
    by (metis prod_cases3)
  have f: "finish_stage p sm i (sh_Name h) sid t res w4 = (r, w')"
    using assms Inr a by (auto simp: run_stage_def Let_def split_beta w3_def split: sum.splits)
  have w3: "execs (w_log w3) = execs (w_log w)" by (simp add: w3_def statement_defs)
  have w': "execs (w_log w') = execs (w_log w4)" using finish_stage_execs [of p sm i "sh_Name h" sid t res w4] f by simp
  show ?thesis
    using run_attempts_execs [OF a] w3 w' finish_stage_None [of p sm i "sh_Name h" sid t res w4 w'] f by auto
qed

text \<open>The executions of a run: for each stage in order, as many as it had attempts.\<close>

definition exec_plan :: "nat list \<Rightarrow> 'x PipelineStageHandler list \<Rightarrow> string list" where
  "exec_plan ns hs = concat (map (\<lambda>(n, h). replicate n (sh_Name h)) (zip ns hs))"

lemma exec_plan_simps [simp]:
  "exec_plan [] hs = []" "exec_plan ns [] = []"
  "exec_plan (n # ns) (h # hs) = replicate n (sh_Name h) @ exec_plan ns hs"
  by (simp_all add: exec_plan_def)

lemma exec_plan_zeros [simp]: "exec_plan (replicate k 0) hs = []"
  by (induction k arbitrary: hs) (auto simp: exec_plan_def zip_replicate1 dest: set_zip_leftD)

definition plan_ok :: "nat \<Rightarrow> string list \<Rightarrow> 'x PipelineStageHandler list \<Rightarrow> nat list \<Rightarrow> bool" where
  "plan_ok bound completed hs ns \<longleftrightarrow> list_all2 (\<lambda>n h. n \<le> bound \<and> (sh_Name h \<in> set completed \<longrightarrow> n = 0)) ns hs"

lemma plan_ok_zeros [simp]: "plan_ok b c hs (replicate (length hs) 0)"
  by (simp add: plan_ok_def list_all2_conv_all_nth)

definition plan_full :: "string list \<Rightarrow> 'x PipelineStageHandler list \<Rightarrow> nat list \<Rightarrow> bool" where
  "plan_full completed hs ns \<longleftrightarrow> list_all2 (\<lambda>n h. sh_Name h \<notin> set completed \<longrightarrow> 1 \<le> n) ns hs"

lemma run_stages_execs:
  "run_stages p cfg sm i t completed idx hs pc w = (r, pc', w') \<Longrightarrow>
     \<exists>ns. plan_ok (max_retries cfg + 1) completed hs ns \<and>
          execs (w_log w') = execs (w_log w) @ exec_plan ns hs \<and> (r = None \<longrightarrow> plan_full completed hs ns)"
proof (induction hs arbitrary: idx pc w)
  case Nil
  then show ?case by (auto simp: plan_ok_def plan_full_def)
next
  case (Cons h hs)
  define w1 where "w1 = snd (GetMigrationState i w)"
  have w1: "execs (w_log w1) = execs (w_log w)" by (simp add: w1_def)
  have stop: ?case if "execs (w_log w') = execs (w_log w)" and "r \<noteq> None"
    using that plan_ok_zeros [of "max_retries cfg + 1" completed "h # hs"] exec_plan_zeros [of "length (h # hs)" "h # hs"]
    by (intro exI [of _ "replicate (length (h # hs)) 0"]) auto
  show ?case
  proof (cases "pl_ctxErr p (w_tick w) \<noteq> None \<or> fst (GetMigrationState i w) = Inr StatePaused")
    case True
    then show ?thesis
      by (intro stop; use Cons.prems w1 in \<open>auto simp: split_beta Let_def w1_def split: option.splits\<close>)
  next
    case False
    show ?thesis
    proof (cases "sh_Name h \<in> set completed")
      case True
      have "run_stages p cfg sm i t completed (idx + 1) hs pc (emit (sh_Name h) ''success'' w1) = (r, pc', w')"
        using Cons.prems False True by (auto simp: split_beta Let_def w1_def)
      from Cons.IH [OF this] obtain ns where "plan_ok (max_retries cfg + 1) completed hs ns"
          "execs (w_log w') = execs (w_log w) @ exec_plan ns hs" "r = None \<longrightarrow> plan_full completed hs ns"
        using w1 by auto
      then show ?thesis using True
        by (intro exI [of _ "0 # ns"]) (auto simp: plan_ok_def plan_full_def)
    next
      case notin: False
      obtain r1 pc1 w2 where s: "run_stage p cfg sm i t idx h pc w1 = (r1, pc1, w2)" by (metis prod_cases3)
      obtain n where n: "n \<le> max_retries cfg + 1" "execs (w_log w2) = execs (w_log w) @ replicate n (sh_Name h)"
          "r1 = None \<longrightarrow> 1 \<le> n"
        using run_stage_execs [OF s] w1 by auto
      show ?thesis
      proof (cases r1)
        case (Some x)
        then have "r = Some x \<and> w' = w2"
          using Cons.prems False notin s by (auto simp: split_beta Let_def w1_def)
        then show ?thesis using n notin
          by (intro exI [of _ "n # replicate (length hs) 0"]) (auto simp: plan_ok_def list_all2_conv_all_nth nth_Cons')
      next
        case None
        then have "run_stages p cfg sm i t completed (idx + 1) hs pc1 w2 = (r, pc', w')"
          using Cons.prems False notin s by (auto simp: split_beta Let_def w1_def)
        from Cons.IH [OF this] obtain ns where "plan_ok (max_retries cfg + 1) completed hs ns"
            "execs (w_log w') = execs (w_log w2) @ exec_plan ns hs" "r = None \<longrightarrow> plan_full completed hs ns"
          by blast
        then show ?thesis using n notin None
          by (intro exI [of _ "n # ns"]) (auto simp: plan_ok_def plan_full_def)
      qed
    qed
  qed
qed

subsection \<open>The two ends of \<open>Execute\<close>\<close>

lemma leave_run_Some:
  "leave_run i r g reg w = Some (r', ks', w') \<Longrightarrow>
     r' = r \<and> w' = w \<and> (\<exists>g1. releaseSlot g = Some g1 \<and> ks' = \<lparr>pk_guards = release i g1, pk_registry = reg\<rparr>)"
  by (auto simp: leave_run_def split: option.splits)

text \<open>A run that returns either was turned away before it did anything but read, or ran the body.\<close>

lemma Execute_cases:
  assumes "Execute p i ks w = Some (r, ks', w')"
  obtains (refused) err where "r = Inl err" "w_db w' = w_db w" "w_log w' = w_log w"
  | (ran) m where "fst (GetMigration i w) = Inr m" "r = fst (execute_body p i m (snd (GetMigration i w)))"
      "w' = snd (execute_body p i m (snd (GetMigration i w)))"
proof -
  have g: "w_db (snd (GetMigration i w)) = w_db w" "w_log (snd (GetMigration i w)) = w_log w"
    by (simp_all add: GetMigration_def)
  show ?thesis
    using assms g unfolding Execute_def Let_def
    by (auto simp: split_beta split: if_splits sum.splits option.splits dest!: leave_run_Some
        intro: refused ran)
qed

lemma execute_body_cases:
  assumes "execute_body p i m w = (r, w')"
  obtains (resume_failed) err where "r = Inl err" "fst (begin_run i m (snd (config_or_default i w))) = Inl err"
      "w' = snd (begin_run i m (snd (config_or_default i w)))"
  | (connect_failed) err sm where "r = Inl err"
      "fst (begin_run i m (snd (config_or_default i w))) = Inr sm"
      "connect_servers p sm i m (snd (begin_run i m (snd (config_or_default i w)))) = (Inl err, w')"
  | (stages) sm ssh w3 r1 pc1 w5 where
      "fst (begin_run i m (snd (config_or_default i w))) = Inr sm"
      "connect_servers p sm i m (snd (begin_run i m (snd (config_or_default i w)))) = (Inr ssh, w3)"
      "run_stages p (decrypt_config p (fst (config_or_default i w))) sm i (stage_total_int (pl_stages p))
         (completed_names (fst (GetCompletedStages i w3))) 0 (pl_stages p)
         (run_context i m (decrypt_config p (fst (config_or_default i w))) (fst ssh) (snd ssh))
         (snd (GetCompletedStages i w3)) = (r1, pc1, w5)"
      "r1 = Some r \<and> w' = w5 \<or> r1 = None \<and> commit_run sm i w5 = (r, w')"
proof (cases "fst (begin_run i m (snd (config_or_default i w)))")
  case (Inl err)
  then have "r = Inl err" "w' = snd (begin_run i m (snd (config_or_default i w)))"
    using assms by (simp_all add: execute_body_def Let_def split_beta)
  then show ?thesis using resume_failed Inl by blast
next
  case (Inr sm)
  obtain c w3 where c: "connect_servers p sm i m (snd (begin_run i m (snd (config_or_default i w)))) = (c, w3)"
    by fastforce
  show ?thesis
  proof (cases c)
    case (Inl err)
    then have "r = Inl err" "connect_servers p sm i m (snd (begin_run i m (snd (config_or_default i w)))) = (Inl err, w')"
      using assms c Inr by (simp_all add: execute_body_def Let_def split_beta)
    then show ?thesis using connect_failed Inr by blast
  next
    case (Inr ssh)
    obtain r1 pc1 w5 where s: "run_stages p (decrypt_config p (fst (config_or_default i w))) sm i (stage_total_int (pl_stages p))
         (completed_names (fst (GetCompletedStages i w3))) 0 (pl_stages p)
         (run_context i m (decrypt_config p (fst (config_or_default i w))) (fst ssh) (snd ssh))
         (snd (GetCompletedStages i w3)) = (r1, pc1, w5)"
      by (metis prod_cases3)
    have "r1 = Some r \<and> w' = w5 \<or> r1 = None \<and> commit_run sm i w5 = (r, w')"
      using assms c Inr \<open>fst (begin_run _ _ _) = Inr sm\<close> s
      by (auto simp: execute_body_def Let_def split_beta split: option.splits)
    then show ?thesis using stages c Inr \<open>fst (begin_run _ _ _) = Inr sm\<close> s by blast
  qed
qed

lemma begin_run_log [simp]:
  "execs (w_log (snd (begin_run i m w))) = execs (w_log w)"
  "rolled (w_log (snd (begin_run i m w))) = rolled (w_log w)"
  by (simp_all add: begin_run_def Let_def split_beta statement_defs split: option.split)

lemma connect_servers_log [simp]:
  "execs (w_log (snd (connect_servers p sm i m w))) = execs (w_log w)"
  by (simp add: connect_servers_def connect_one_def Let_def split_beta statement_defs split: sum.split)

lemma commit_run_log [simp]: "execs (w_log (snd (commit_run sm i w))) = execs (w_log w)"
  by (simp add: commit_run_def Let_def split_beta statement_defs split: option.split)

subsection \<open>What the completed set and the configuration are\<close>

definition stored_config :: "'x mig_db_scheme \<Rightarrow> int \<Rightarrow> MigrationConfig" where
  "stored_config d i = (case mig_of d i of
       None \<Rightarrow> DefaultMigrationConfig
     | Some m \<Rightarrow> (case mg_Config m of CfgJSON c \<Rightarrow> c | CfgEmpty \<Rightarrow> DefaultMigrationConfig
                    | CfgMalformed \<Rightarrow> DefaultMigrationConfig))"

definition stage_done :: "'x mig_db_scheme \<Rightarrow> int \<Rightarrow> string \<Rightarrow> bool" where
  "stage_done d i name \<longleftrightarrow>
     (\<exists>r \<in> set (stage_rows d). ps_MigrationID r = i \<and> ps_StageName r = name \<and> ps_State r = StageStateCompleted)"

lemma config_or_default_calm:
  "fault_free w \<Longrightarrow> fst (config_or_default i w) = stored_config (w_db w) i"
  by (simp add: config_or_default_def GetMigrationConfig_def fault_free_read stored_config_def
      split: option.split config_blob.split)

lemma decrypt_config_retries [simp]: "mc_MaxRetries (decrypt_config p cfg) = mc_MaxRetries cfg"
  by (simp add: decrypt_config_def Let_def split: option.split sum.split)

lemma completed_names_calm:
  "fault_free w \<Longrightarrow> name \<in> set (completed_names (fst (GetCompletedStages i w))) \<longleftrightarrow> stage_done (w_db w) i name"
  by (auto simp: GetCompletedStages_def fault_free_read completed_names_def stage_done_def)

lemma fault_free_later:
  "fault_free w \<Longrightarrow> w_env w' = w_env w \<Longrightarrow> w_tick w \<le> w_tick w' \<Longrightarrow> fault_free w'"
  by (auto simp: fault_free_def)

lemma stage_rows_write:
  "(\<And>now d. stage_rows (snd (f now d)) = stage_rows d) \<Longrightarrow> stage_rows (w_db (snd (db_write f w))) = stage_rows (w_db w)"
  by (simp add: db_write_def split_beta split: fault.split)

lemma begin_run_stage_rows [simp]: "stage_rows (w_db (snd (begin_run i m w))) = stage_rows (w_db w)"
  by (simp add: begin_run_def Let_def split_beta statement_defs stage_rows_write split: option.split)

lemma connect_ok_rows:
  "connect_servers p sm i m w = (Inr ssh, w') \<Longrightarrow> w_db w' = w_db w \<and> w_env w' = w_env w \<and> w_tick w \<le> w_tick w'"
  by (auto simp: connect_servers_def connect_one_def split_beta GetByID_def getSSHClientForServer_def split: sum.splits)

subsection \<open>Time goes on\<close>

lemma GetMigrationState_tick: "w_tick w \<le> w_tick (snd (GetMigrationState i w))"
  by (simp add: GetMigrationState_def split_beta split: sum.split)

lemma current_state_tick: "w_tick w \<le> w_tick (snd (current_state i m w))"
  using GetMigrationState_tick [of w i] by (simp add: current_state_def split_beta split: sum.split)

lemma config_or_default_tick: "w_tick w \<le> w_tick (snd (config_or_default i w))"
  by (simp add: config_or_default_def GetMigrationConfig_def split_beta split: sum.split)

lemma begin_run_env [simp]: "w_env (snd (begin_run i m w)) = w_env w"
  by (simp add: begin_run_def Let_def split_beta statement_defs split: option.split)

lemma begin_run_tick: "w_tick w \<le> w_tick (snd (begin_run i m w))"
  using current_state_tick [of w i m]
  by (simp add: begin_run_def Let_def split_beta statement_defs split: option.split)

lemma fault_free_begin: "fault_free w \<Longrightarrow> fault_free (snd (begin_run i m w))"
  by (rule fault_free_later [OF _ begin_run_env begin_run_tick])

lemma fault_free_config: "fault_free w \<Longrightarrow> fault_free (snd (config_or_default i w))"
  by (rule fault_free_later [OF _ config_or_default_snd(3) config_or_default_tick])

lemma fault_free_connect: "fault_free w \<Longrightarrow> connect_servers p sm i m w = (Inr ssh, w') \<Longrightarrow> fault_free w'"
  using connect_ok_rows [of p sm i m w ssh w'] fault_free_later [of w w'] by simp

subsection \<open>Predicates that every statement of a run keeps\<close>

text \<open>What the stages of a pipeline do to a predicate on the database.\<close>

definition stages_keep :: "'x Pipeline \<Rightarrow> ('x mig_db_scheme \<Rightarrow> bool) \<Rightarrow> bool" where
  "stages_keep p Q \<longleftrightarrow> (\<forall>h \<in> set (pl_stages p). \<forall>pc n d. Q d \<longrightarrow>
     Q (fst (snd (snd (sh_Execute h pc n d)))) \<and> Q (fst (snd (snd (sh_Rollback h pc n d)))))"

text \<open>
  \<open>keep i\<close> is a predicate for the migration \<open>i\<close>; \<open>S\<close> are the states that may be written to its row without
  breaking it. The laws are the statements a run sends; the client lemmas are the segments of a run.
\<close>

definition set_state :: "MigrationState \<Rightarrow> Migration \<Rightarrow> Migration" where
  "set_state s m = m\<lparr>mg_State := StateString s, mg_Status := StateString s\<rparr>"

definition set_status :: "string \<Rightarrow> string \<Rightarrow> Migration \<Rightarrow> Migration" where
  "set_status st msg m = m\<lparr>mg_Status := st, mg_Error := msg\<rparr>"

definition same_stage :: "PipelineStage \<Rightarrow> PipelineStage \<Rightarrow> bool" where
  "same_stage r r' \<longleftrightarrow> ps_ID r' = ps_ID r \<and> ps_MigrationID r' = ps_MigrationID r \<and> ps_StageName r' = ps_StageName r"

definition failure_states :: "MigrationState set" where
  "failure_states = {StateFailed, StateRollback, StateInterrupted, StateResuming, StateAwaitingCutover,
     StateNeedsManualIntervention, StateRolledBack, StateRollbackDegraded}"

locale run_keeps =
  fixes keep :: "int \<Rightarrow> 'x mig_db_scheme \<Rightarrow> bool" and S :: "MigrationState set"
  assumes keep_state: "s \<in> S \<Longrightarrow> keep i d \<Longrightarrow> keep i (on_mig i (set_state s) d)"
    and keep_status: "st \<in> {StatusRunning, StatusFailed, StatusInterrupted} \<Longrightarrow> keep i d \<Longrightarrow>
      keep i (on_mig i (set_status st msg) d)"
    and keep_time: "keep i d \<Longrightarrow> keep i (on_mig i (\<lambda>m. m\<lparr>mg_CompletedAt := t\<rparr>) d)"
    and keep_create: "keep i d \<Longrightarrow> keep i (upsert_stage i n k now d)"
    and keep_update: "(\<And>r. same_stage r (g r)) \<Longrightarrow> keep i d \<Longrightarrow> keep i (on_stage sid g d)"
    and keep_audit: "keep i d \<Longrightarrow> keep i (d\<lparr>audit_rows := a\<rparr>)"
    and failures: "failure_states \<subseteq> S"
begin

lemma keep_write:
  "(\<And>now d. keep i d \<Longrightarrow> keep i (snd (f now d))) \<Longrightarrow> keep i (w_db w) \<Longrightarrow> keep i (w_db (snd (db_write f w)))"
  by (auto simp: db_write_def split_beta split: fault.split)

lemma keep_SetMigrationState:
  "s \<in> S \<Longrightarrow> keep i (w_db w) \<Longrightarrow> keep i (w_db (snd (SetMigrationStateContext i s w)))"
  unfolding SetMigrationStateContext_def SetMigrationState_def
  by (rule keep_write) (use keep_state in \<open>simp_all add: set_state_def [abs_def]\<close>)

lemma keep_UpdateStatus:
  "st \<in> {StatusRunning, StatusFailed, StatusInterrupted} \<Longrightarrow> keep i (w_db w) \<Longrightarrow>
     keep i (w_db (snd (UpdateMigrationStatus i st msg w)))"
  unfolding UpdateMigrationStatus_def
  by (rule keep_write) (use keep_status in \<open>simp_all add: set_status_def [abs_def]\<close>)

lemma keep_CompletedAt: "keep i (w_db w) \<Longrightarrow> keep i (w_db (snd (SetMigrationCompletedAt i t w)))"
  unfolding SetMigrationCompletedAt_def by (rule keep_write) (simp_all add: keep_time)

lemma keep_RolledBackAt: "keep i (w_db w) \<Longrightarrow> keep i (w_db (snd (SetMigrationRolledBackAt i t w)))"
  unfolding SetMigrationRolledBackAt_def by (rule keep_write) (simp_all add: keep_time)

lemma keep_Audit: "keep i (w_db w) \<Longrightarrow> keep i (w_db (snd (CreateAuditEntry e w)))"
  unfolding CreateAuditEntry_def by (rule keep_write) (simp_all add: keep_audit)

lemma keep_CreateStage: "keep i (w_db w) \<Longrightarrow> keep i (w_db (snd (CreateStage i n k w)))"
  using keep_write [of i "\<lambda>now d. (Inr (), upsert_stage i n k now d)" w]
  by (simp add: CreateStage_def split_beta keep_create split: sum.split)

lemma keep_StageState: "keep i (w_db w) \<Longrightarrow> keep i (w_db (snd (UpdateStageState sid st msg w)))"
  unfolding UpdateStageState_def by (rule keep_write) (simp_all add: keep_update same_stage_def)

lemma keep_StageCheckpoint: "keep i (w_db w) \<Longrightarrow> keep i (w_db (snd (UpdateStageCheckpoint sid b w)))"
  unfolding UpdateStageCheckpoint_def by (rule keep_write) (simp_all add: keep_update same_stage_def)

lemma keep_StageAttempt: "keep i (w_db w) \<Longrightarrow> keep i (w_db (snd (IncrementStageAttempt sid w)))"
  unfolding IncrementStageAttempt_def by (rule keep_write) (simp_all add: keep_update same_stage_def)

lemmas keep_statements = keep_SetMigrationState keep_UpdateStatus keep_CompletedAt keep_RolledBackAt
  keep_Audit keep_CreateStage keep_StageState keep_StageCheckpoint keep_StageAttempt

lemma keep_reads [simp]:
  "w_db (snd (GetMigration i w)) = w_db w" "w_db (snd (GetCompletedStages i w)) = w_db w"
  "w_db (snd (GetByID p s w)) = w_db w" "w_db (snd (getSSHClientForServer p s srv w)) = w_db w"
  by (simp_all add: statement_defs)

lemma S_states [simp]:
  "StateFailed \<in> S" "StateRollback \<in> S" "StateInterrupted \<in> S" "StateResuming \<in> S"
  "StateAwaitingCutover \<in> S" "StateNeedsManualIntervention \<in> S" "rollbackTerminalState e \<in> S"
  using failures by (auto simp: failure_states_def rollbackTerminalState_def split: option.split)

lemma keep_fail: "keep i (w_db w) \<Longrightarrow> keep i (w_db (snd (failPipeline sm i msg w)))"
  by (simp add: failPipeline_def Let_def keep_statements)

lemma keep_interrupt: "keep i (w_db w) \<Longrightarrow> keep i (w_db (snd (interruptPipeline sm i w)))"
  by (simp add: interruptPipeline_def Let_def keep_statements)

lemma keep_rollback_stages:
  assumes "stages_keep p (keep i)" and "keep i (w_db w)"
  shows "keep i (w_db (snd (rollback_stages (pl_stages p) st ss pc errs w)))"
  using assms(2)
proof (induction ss arbitrary: pc errs w)
  case (Cons s ss)
  show ?case
  proof (cases "handler_of (pl_stages p) (ps_StageName s)")
    case None
    then show ?thesis using Cons by simp
  next
    case (Some h)
    have h: "h \<in> set (pl_stages p)" using Some by (auto simp: handler_of_def find_Some_iff)
    obtain e pc1 w1 where r: "run_handler EvRollback (ps_StageName s) (sh_Rollback h) pc
        (emit (ps_StageName s) ''progress'' w) = (e, pc1, w1)" by (metis prod_cases3)
    have "keep i (w_db w1)"
      using run_handler_fields [OF r] assms(1) h Cons.prems by (simp add: stages_keep_def)
    then show ?thesis using Some r Cons.IH by (simp split: option.split)
  qed
qed simp

lemma keep_finish_rollback: "keep i (w_db w) \<Longrightarrow> keep i (w_db (snd (finish_rollback sm i err w)))"
  by (simp add: finish_rollback_def Let_def split_beta keep_statements split: option.split)

lemma keep_rollback:
  "stages_keep p (keep i) \<Longrightarrow> keep i (w_db w) \<Longrightarrow> keep i (w_db (snd (rollbackPipeline p sm i w)))"
  by (simp add: rollbackPipeline_def Let_def split_beta keep_statements keep_rollback_stages
      keep_finish_rollback split: sum.split)

end

context run_keeps
begin

lemma keep_attempts:
  assumes h: "h \<in> set (pl_stages p)" and p: "stages_keep p (keep i)"
  shows "keep i (w_db w) \<Longrightarrow> keep i (w_db (snd (snd (run_attempts p sm i h sid attempt left delay pc w))))"
proof (induction left arbitrary: attempt delay pc w)
  case (0 attempt delay pc w)
  have 1: "keep i (fst (snd (snd (sh_Execute h pc' n d))))" if "keep i d" for pc' n d
    using h p that by (simp add: stages_keep_def)
  show ?case
    by (subst run_attempts.simps)
      (auto simp: Let_def split_beta run_handler_def 1 0 keep_StageAttempt keep_interrupt split: option.split)
next
  case (Suc left attempt delay pc w)
  have 1: "keep i (fst (snd (snd (sh_Execute h pc' n d))))" if "keep i d" for pc' n d
    using h p that by (simp add: stages_keep_def)
  show ?case
    by (subst run_attempts.simps)
      (auto simp: Let_def split_beta run_handler_def 1 Suc keep_StageAttempt keep_interrupt split: option.split)
qed

lemma keep_finish_stage:
  "stages_keep p (keep i) \<Longrightarrow> keep i (w_db w) \<Longrightarrow>
     keep i (w_db (snd (finish_stage p sm i n sid t res w)))"
  by (simp add: finish_stage_def Let_def split_beta keep_statements keep_rollback
      split: sum.split attempt_result.split)

lemma keep_run_stage:
  assumes "h \<in> set (pl_stages p)" and "stages_keep p (keep i)" and "keep i (w_db w)"
  shows "keep i (w_db (snd (snd (run_stage p cfg sm i t idx h pc w))))"
  using assms
  by (simp add: run_stage_def Let_def split_beta keep_statements keep_attempts keep_finish_stage split: sum.split)

lemma keep_run_stages:
  assumes "stages_keep p (keep i)" and "keep i (w_db w)" and "set hs \<subseteq> set (pl_stages p)"
  shows "keep i (w_db (snd (snd (run_stages p cfg sm i t c idx hs pc w))))"
  using assms(2,3)
proof (induction hs arbitrary: idx pc w)
  case (Cons h hs)
  have "keep i (w_db (snd (snd (run_stage p cfg sm i t idx h pc (snd (GetMigrationState i w))))))"
    using keep_run_stage [of h p i "snd (GetMigrationState i w)"] assms(1) Cons.prems by simp
  then show ?case
    using Cons by (auto simp: Let_def split_beta keep_interrupt split: option.split)
qed simp

lemma keep_begin_run: "keep i (w_db w) \<Longrightarrow> keep i (w_db (snd (begin_run i m w)))"
  by (simp add: begin_run_def Let_def split_beta keep_statements split: option.split)

lemma keep_connect: "keep i (w_db w) \<Longrightarrow> keep i (w_db (snd (connect_servers p sm i m w)))"
  by (simp add: connect_servers_def connect_one_def split_beta keep_fail split: sum.split)

lemma keep_commit_run:
  "StateCommitted \<in> S \<or> \<not> IsValidTransition (sm_state sm) StateCommitted \<Longrightarrow> keep i (w_db w) \<Longrightarrow>
     keep i (w_db (snd (commit_run sm i w)))"
  by (auto simp: commit_run_def Let_def split_beta keep_statements Transition_def split: option.split)

lemma keep_execute_body:
  assumes p: "stages_keep p (keep i)" and k: "keep i (w_db w)"
    and c: "StateCommitted \<in> S \<or>
      (\<forall>sm. fst (begin_run i m (snd (config_or_default i w))) = Inr sm \<longrightarrow> \<not> IsValidTransition (sm_state sm) StateCommitted)"
  shows "keep i (w_db (snd (execute_body p i m w)))"
proof (cases "execute_body p i m w" rule: prod.exhaust)
  case (Pair r w')
  have b: "keep i (w_db (snd (begin_run i m (snd (config_or_default i w)))))"
    by (rule keep_begin_run) (simp add: k)
  from Pair show ?thesis
  proof (cases rule: execute_body_cases)
    case (resume_failed err)
    then show ?thesis using b Pair by simp
  next
    case (connect_failed err sm)
    then show ?thesis using keep_connect [OF b, of p sm m] Pair by simp
  next
    case (stages sm ssh w3 r1 pc1 w5)
    have "keep i (w_db w3)" using keep_connect [OF b, of p sm m] stages(2) by simp
    then have "keep i (w_db w5)"
      using keep_run_stages [OF p, of "snd (GetCompletedStages i w3)" "pl_stages p"] stages(3)
      by (metis (no_types, lifting) keep_reads(2) order_refl snd_conv)
    then show ?thesis
      using stages(4) keep_commit_run [of sm i w5] c stages(1) Pair by auto
  qed
qed

theorem keep_Execute:
  assumes p: "stages_keep p (keep i)" and k: "keep i (w_db w)"
    and c: "StateCommitted \<in> S \<or> (\<forall>m w1 sm. fst (GetMigration i w) = Inr m \<longrightarrow>
      fst (begin_run i m (snd (config_or_default i (snd (GetMigration i w))))) = Inr sm \<longrightarrow>
      \<not> IsValidTransition (sm_state sm) StateCommitted)"
    and run: "Execute p i ks w = Some (r, ks', w')"
  shows "keep i (w_db w')"
  using run
proof (cases rule: Execute_cases)
  case (refused err)
  then show ?thesis using k by simp
next
  case (ran m)
  show ?thesis
    unfolding ran(3) by (rule keep_execute_body [OF p]) (use k c ran(1) in auto)
qed

end

subsection \<open>Three predicates a run keeps\<close>

text \<open>Not committed: neither state column of the migration says so.\<close>

definition not_committed :: "int \<Rightarrow> 'x mig_db_scheme \<Rightarrow> bool" where
  "not_committed i d \<longleftrightarrow> (\<forall>m. mig_of d i = Some m \<longrightarrow> mg_State m \<noteq> ''completed'' \<and> mg_Status m \<noteq> ''completed'')"

text \<open>The rows of the other migrations are those of \<open>d0\<close>.\<close>

definition others_kept :: "'x mig_db_scheme \<Rightarrow> int \<Rightarrow> 'x mig_db_scheme \<Rightarrow> bool" where
  "others_kept d0 i d \<longleftrightarrow> (\<forall>j. j \<noteq> i \<longrightarrow> mig_of d j = mig_of d0 j)"

lemma mig_of_upsert [simp]: "mig_of (upsert_stage i n k now d) j = mig_of d j"
  by (simp add: upsert_stage_def mig_of_def)

lemma StateString_committed: "StateString s = ''completed'' \<longleftrightarrow> s = StateCommitted"
  by (cases s) (simp_all add: StateString_def stateString_def)

lemma mig_of_state: "mig_of (on_mig i (set_state s) d) j = (if i = j then map_option (set_state s) (mig_of d j) else mig_of d j)"
  by (subst mig_of_on_mig) (auto simp: set_state_def dest: mig_of_ID intro!: option.expand)

lemma set_state_calm:
  "fault_free w \<Longrightarrow> mig_of (w_db w) i = Some m \<Longrightarrow>
     mig_of (w_db (snd (SetMigrationStateContext i s w))) i = Some (set_state s m)"
  using mig_of_state [of i s "w_db w" i]
  by (simp add: SetMigrationStateContext_def SetMigrationState_def fault_free_write set_state_def [abs_def])

lemma mig_of_status: "mig_of (on_mig i (set_status st msg) d) j = (if i = j then map_option (set_status st msg) (mig_of d j) else mig_of d j)"
  by (subst mig_of_on_mig) (auto simp: set_status_def dest: mig_of_ID intro!: option.expand)

lemma mig_of_time: "mig_of (on_mig i (\<lambda>m. m\<lparr>mg_CompletedAt := t\<rparr>) d) j =
    (if i = j then map_option (\<lambda>m. m\<lparr>mg_CompletedAt := t\<rparr>) (mig_of d j) else mig_of d j)"
  by (subst mig_of_on_mig) (auto dest: mig_of_ID intro!: option.expand)

interpretation uncommitted: run_keeps not_committed "UNIV - {StateCommitted}"
  by unfold_locales
    (auto simp: not_committed_def mig_of_state mig_of_status mig_of_time set_state_def set_status_def
      StateString_committed StatusRunning_def StatusFailed_def StatusInterrupted_def failure_states_def)

interpretation isolated: run_keeps "others_kept d0" UNIV for d0
  by unfold_locales (auto simp: others_kept_def mig_of_state mig_of_status mig_of_time)

lemma stage_wf_mig [simp]:
  "stage_wf (on_mig i f d) = stage_wf d" "stage_wf (d\<lparr>audit_rows := a\<rparr>) = stage_wf d"
  by (simp_all add: stage_wf_def)

interpretation keyed: run_keeps "\<lambda>i d. stage_wf d" UNIV
  by unfold_locales (auto simp: same_stage_def upsert_stage_wf)

subsection \<open>The state a run starts from\<close>

text \<open>What an operation may take for the state of a row: the typed state, or, when that cannot be read, the
  one its status names.\<close>

definition believed :: "Migration \<Rightarrow> MigrationState \<Rightarrow> bool" where
  "believed m s \<longleftrightarrow> shown_state m = Inr s \<or> state_or_created (mg_Status m) = s"

lemma GetMigration_ok: "fst (GetMigration i w) = Inr m \<Longrightarrow> mig_of (w_db w) i = Some m"
  by (auto simp: GetMigration_def db_read_def split: fault.splits option.splits)

lemma current_state_believed:
  assumes "mig_of (w_db w) i = Some m"
  shows "believed m (fst (current_state i m w))"
proof (cases "fst (GetMigrationState i w)")
  case (Inl e)
  then show ?thesis by (simp add: current_state_def split_beta believed_def)
next
  case (Inr s)
  then have "GetMigrationState i w = (Inr s, snd (GetMigrationState i w))" by (simp add: prod_eq_iff)
  from GetMigrationState_ok [OF this] assms Inr show ?thesis
    by (auto simp: current_state_def split_beta believed_def)
qed

lemma begin_run_state:
  assumes "fst (begin_run i m w) = Inr sm"
  shows "sm_state sm = (if fst (current_state i m w) = StateInterrupted then StateResuming else fst (current_state i m w))"
  using assms by (auto simp: begin_run_def Let_def split_beta NewStateMachine_def Transition_def split: option.splits if_splits)

end
