(* ===== verification/RunProperties.thy ===== *)
theory RunProperties
  imports RunProofs
begin

section \<open>Properties of a run\<close>

text \<open>
  The properties of \<open>Execute\<close>, \<open>Resume\<close> and the operator operations, each over the lemmas of theory
  RunProofs, with a concrete pipeline at which their hypotheses hold.
\<close>

subsection \<open>A concrete pipeline\<close>

text \<open>Two stages that answer as told and leave the database alone.\<close>

definition demo_stage :: "string \<Rightarrow> goerr option \<Rightarrow> goerr option \<Rightarrow> unit PipelineStageHandler" where
  "demo_stage name ex ro = \<lparr>sh_Name = name, sh_Execute = (\<lambda>pc n d. (ex, pc, d, 0)),
     sh_Rollback = (\<lambda>pc n d. (ro, pc, d, 0))\<rparr>"

definition demo_pipeline :: "unit PipelineStageHandler list \<Rightarrow> unit Pipeline" where
  "demo_pipeline hs = \<lparr>pl_stages = hs, pl_GetByID = (\<lambda>s. Inr s), pl_ssh = (\<lambda>s srv. Inr s),
     pl_decrypt = None, pl_ctxErr = (\<lambda>_. None), pl_retryWait = (\<lambda>_ _. None), pl_pick = 0\<rparr>"

definition demo_migration :: "string \<Rightarrow> string \<Rightarrow> Migration" where
  "demo_migration status state = \<lparr>mg_ID = 7, mg_SourceID = 3, mg_TargetID = 4, mg_Status = status,
     mg_State = state, mg_Error = '''', mg_CompletedAt = None, mg_Config = CfgEmpty\<rparr>"

definition demo_row :: "int \<Rightarrow> string \<Rightarrow> StageState \<Rightarrow> PipelineStage" where
  "demo_row k name st = \<lparr>ps_ID = k, ps_MigrationID = 7, ps_StageName = name, ps_StageIndex = k - 1,
     ps_State = st, ps_AttemptCount = 0, ps_CheckpointData = CkEmpty, ps_ResultData = '''', ps_Error = '''',
     ps_StartedAt = None, ps_CompletedAt = None\<rparr>"

definition demo_mig_db :: "Migration \<Rightarrow> PipelineStage list \<Rightarrow> unit mig_db_scheme" where
  "demo_mig_db m rows = \<lparr>fence_rows = [], fence_seq = 0, stage_rows = rows, stage_seq = int (length rows),
     switch_rows = [], switch_seq = 0, mig_rows = [m], audit_rows = [], cutover_rows = [], cutover_seq = 0\<rparr>"

definition demo_locks :: pipe_locks where
  "demo_locks = \<lparr>pk_guards = new_guards, pk_registry = Some newPipelineRegistry\<rparr>"

lemmas demo_defs = demo_stage_def demo_pipeline_def demo_migration_def demo_row_def demo_mig_db_def
  demo_locks_def

definition demo_world :: "unit mig_db_scheme \<Rightarrow> unit pipe_world" where
  "demo_world d = calm_world d"

lemma demo_fault_free [simp]: "fault_free (demo_world d)"
  by (simp add: demo_world_def calm_world_def fault_free_def)

lemma demo_db [simp]: "w_db (demo_world d) = d" "w_log (demo_world d) = []"
  by (simp_all add: demo_world_def calm_world_def)

definition demo_run_pipeline :: "unit Pipeline" where
  "demo_run_pipeline = demo_pipeline [demo_stage ''discovery'' None None, demo_stage ''analysis'' None None]"

text \<open>A migration that was interrupted after its first stage, and one that was never run.\<close>

definition demo_resumed_db :: "unit mig_db_scheme" where
  "demo_resumed_db = demo_mig_db (demo_migration ''interrupted'' ''interrupted'')
     [demo_row 1 ''discovery'' StageStateCompleted]"

definition demo_fresh_db :: "unit mig_db_scheme" where
  "demo_fresh_db = demo_mig_db (demo_migration ''planned'' '''') []"

definition demo_run :: "unit mig_db_scheme \<Rightarrow> unit res \<times> pipe_locks \<times> unit pipe_world" where
  "demo_run d = the (Execute demo_run_pipeline 7 demo_locks (demo_world d))"

lemma demo_run_eq:
  "\<not> Option.is_none (Execute demo_run_pipeline 7 demo_locks (demo_world d)) \<Longrightarrow>
     Execute demo_run_pipeline 7 demo_locks (demo_world d) =
       Some (fst (demo_run d), fst (snd (demo_run d)), snd (snd (demo_run d)))"
  by (cases "Execute demo_run_pipeline 7 demo_locks (demo_world d)") (simp_all add: demo_run_def)

lemma demo_resumed_returns: "\<not> Option.is_none (Execute demo_run_pipeline 7 demo_locks (demo_world demo_resumed_db))"
  by code_simp

lemma demo_fresh_returns: "\<not> Option.is_none (Execute demo_run_pipeline 7 demo_locks (demo_world demo_fresh_db))"
  by code_simp

subsection \<open>Stages run in order, completed ones not again, and no more often than allowed\<close>

lemma no_executions:
  fixes hs :: "'x PipelineStageHandler list"
  assumes "execs (w_log w') = execs (w_log w)"
  shows "\<exists>ns. length ns = length hs \<and>
     execs (w_log w') = execs (w_log w) @ concat (map (\<lambda>(n, h). replicate n (sh_Name h)) (zip ns hs)) \<and>
     (fault_free w \<longrightarrow> (\<forall>k < length ns.
        ns ! k \<le> max_retries (stored_config (w_db w) i) + 1 \<and>
        (stage_done (w_db w) i (sh_Name (hs ! k)) \<longrightarrow> ns ! k = 0)))"
  using assms exec_plan_zeros [of "length hs" hs]
  by (intro exI [of _ "replicate (length hs) 0"]) (simp add: exec_plan_def)



subsection \<open>Which runs can commit\<close>

definition committable :: "MigrationState set" where
  "committable = {StateTransferring, StateApplying, StateVerifying, StateObservation, StateResuming,
     StateAwaitingCutover, StateInterrupted}"

lemma uncommittable_start:
  assumes "mig_of (w_db w) i = Some m" and "\<And>s. believed m s \<Longrightarrow> s \<notin> committable"
    and "fst (begin_run i m w') = Inr sm" and "w_db w' = w_db w"
  shows "\<not> IsValidTransition (sm_state sm) StateCommitted"
proof -
  have "fst (current_state i m w') \<notin> committable"
    by (rule assms(2)) (rule current_state_believed, simp add: assms)
  then show ?thesis
    using begin_run_state [OF assms(3)] by (auto simp: committable_def valid_to_Committed_iff)
qed



text \<open>The joined error contains whatever one of the errors contains; the text of the manual rollback nothing.\<close>

lemma join_all_is: "e \<in> set es \<Longrightarrow> errors_is e (ErrNew n) \<Longrightarrow> \<exists>j. join_all es = Some j \<and> errors_is j (ErrNew n)"
proof -
  have keep: "errors_is a (ErrNew n) \<Longrightarrow> \<exists>j. foldl (\<lambda>acc e. Some (errors_join acc e)) (Some a) es = Some j \<and> errors_is j (ErrNew n)"
    for a es by (induction es arbitrary: a) auto
  have "e \<in> set es \<Longrightarrow> errors_is e (ErrNew n) \<Longrightarrow>
      \<exists>j. foldl (\<lambda>acc e. Some (errors_join acc e)) acc es = Some j \<and> errors_is j (ErrNew n)" for acc
    by (induction es arbitrary: acc) (auto intro: keep)
  then show "e \<in> set es \<Longrightarrow> errors_is e (ErrNew n) \<Longrightarrow> \<exists>j. join_all es = Some j \<and> errors_is j (ErrNew n)"
    by (simp add: join_all_def)
qed

text \<open>\<open>C37\<close>: after the same failures of the stages the two rollbacks end in different states. When one of the
  errors says that the topology is unsafe, the automatic rollback leaves the migration in
  \<open>NeedsManualIntervention\<close>, and the manual one, which turns the errors into a text, in \<open>RollbackDegraded\<close>.\<close>

theorem rollbacks_disagree_on_unsafe_topology:
  assumes "fault_free w" "mig_of (w_db w) i = Some m" "sm_state sm = StateRollback"
    and "(name, e) \<in> set errs" "errors_is e ErrUnsafeTopology"
  shows "map_option mg_State (mig_of (w_db (snd (finish_rollback sm i (join_all (map snd errs)) w))) i) =
      Some (StateString StateNeedsManualIntervention) \<and>
    map_option mg_State (mig_of (w_db (snd (conclude_manual_rollback sm i errs w))) i) =
      Some (StateString StateRollbackDegraded)"
proof
  have "e \<in> set (map snd errs)" using assms(4) by force
  then obtain j where j: "join_all (map snd errs) = Some j" "errors_is j ErrUnsafeTopology"
    using join_all_is [of e "map snd errs"] assms(5) by (auto simp: ErrUnsafeTopology_def)
  then have "rollbackTerminalState (join_all (map snd errs)) = StateNeedsManualIntervention"
    by (simp add: rollbackTerminalState_def)
  then show "map_option mg_State (mig_of (w_db (snd (finish_rollback sm i (join_all (map snd errs)) w))) i) =
      Some (StateString StateNeedsManualIntervention)"
    using set_state_calm [OF assms(1,2)]
    by (auto simp: finish_rollback_def Let_def set_state_def split: option.splits prod.splits)
  have "errs \<noteq> []" using assms(4) by auto
  moreover have "rollbackTerminalState (Some (rollback_error errs)) = StateRollbackDegraded"
    by (simp add: rollbackTerminalState_def rollback_error_def ErrUnsafeTopology_def)
  ultimately show "map_option mg_State (mig_of (w_db (snd (conclude_manual_rollback sm i errs w))) i) =
      Some (StateString StateRollbackDegraded)"
    using set_state_calm [OF assms(1,2)]
    by (simp add: conclude_manual_rollback_def Let_def set_state_def)
qed

theorem rollbacks_disagree_on_unsafe_topology_witness:
  "map_option mg_State (mig_of (w_db (snd (conclude_manual_rollback (NewStateMachine StateRollback) 7
     [(''replication'', ErrWrap ''repoint: '' ErrUnsafeTopology '''')] (demo_world demo_fresh_db)))) 7) =
   Some (StateString StateRollbackDegraded)"
  by (rule conjunct2 [OF rollbacks_disagree_on_unsafe_topology [where m = "demo_migration ''planned'' ''''" and name = "''replication''"
        and e = "ErrWrap ''repoint: '' ErrUnsafeTopology ''''"]])
    (simp_all add: demo_fresh_db_def demo_mig_db_def mig_of_def demo_migration_def NewStateMachine_def)

end
