(* ===== verification/SwitchStage.thy ===== *)
theory SwitchStage
  imports Lifecycle Policy CutoverProofs
begin

section \<open>The traffic-switch stage and the observation after it (\<open>migration/stages_cutover.go\<close>)\<close>

text \<open>
  The stage that decides what happens to the traffic. Without \<open>AutoCutover\<close> it records that a person has to
  switch and stops the pipeline; with it, it runs the fenced cutover of the orchestrator and records the
  outcome. What the stage calls outside the repository's own logic is the record \<open>stage_env\<close>: the random
  holder, the drivers it builds for an engine and a provider, the redaction of error texts, the commands on
  the target and the context. Progress messages are returned as a list of step and status.
\<close>

subsection \<open>The requests it builds\<close>

record ReplicationConfig =
  rc_DatabaseType :: string
  rc_DatabaseName :: string
  rc_SourceHost :: string
  rc_SourcePort :: int
  rc_TargetHost :: string
  rc_TargetPort :: int
  rc_ReplicationUser :: string
  rc_ReplicationPass :: string
  rc_MigrationID :: int

record TrafficSwitchRequest =
  tq_IdempotencyKey :: string
  tq_ConfigPath :: string
  tq_NewConfig :: string
  tq_VerifyURL :: string
  tq_VerifyHeader :: string
  tq_VerifyValue :: string

definition defaultPort :: "string \<Rightarrow> int" where
  "defaultPort engine = (let e = ToLower engine in
     if e = ''postgres'' \<or> e = ''postgresql'' then 5432
     else if e = ''mysql'' \<or> e = ''mariadb'' then 3306
     else if e = ''mongodb'' then 27017
     else if e = ''redis'' then 6379
     else 0)"

text \<open>\<open>newTrafficSwitcher\<close>: the provider names the switcher that is built.\<close>

definition newTrafficSwitcher :: "string \<Rightarrow> string res" where
  "newTrafficSwitcher provider =
     (if provider = ''nginx'' \<or> provider = ''haproxy'' \<or> provider = ''caddy'' then Inr provider
      else Inl (ErrF (''autoCutover: traffic provider '' @ quoted provider @
        '' has no fenced switcher (supported: nginx, haproxy, caddy)'')))"

record stage_env =
  se_policy :: "PolicyEngine option"
  se_fenceCapable :: bool
  se_GenerateHolder :: "nat \<Rightarrow> string res"
  se_SourceHost :: string
  se_TargetHost :: string
  se_drivers :: "string \<Rightarrow> ReplicationConfig \<Rightarrow> TrafficSwitchRequest \<Rightarrow> cutover_drivers"
  se_sanitize :: "string \<Rightarrow> string"
  se_exec :: "nat \<Rightarrow> string \<times> goerr option"
  se_ctxErr :: "nat \<Rightarrow> goerr option"
  se_wait :: "nat \<Rightarrow> goerr option"

definition policyEngine :: "stage_env \<Rightarrow> PolicyEngine" where
  "policyEngine env = (case se_policy env of Some p \<Rightarrow> p | None \<Rightarrow> DefaultPolicy)"

subsection \<open>History rows\<close>

text \<open>The columns the code fills with the wall clock are left out, and the response time and status code, which the
  stages leave zero.\<close>

record RollbackRecord =
  rb_ID :: int
  rb_MigrationID :: int
  rb_RollbackType :: string
  rb_StageName :: string
  rb_Category :: string
  rb_TrafficReverted :: bool
  rb_DNSReverted :: bool
  rb_DBRoleReverted :: bool
  rb_RedisRoleReverted :: bool
  rb_QueueResumed :: bool
  rb_ContainersReverted :: bool
  rb_ConfigsReverted :: bool
  rb_Success :: bool
  rb_Error :: string

record HealthCheckResult =
  hc_ID :: int
  hc_MigrationID :: int
  hc_ServerID :: int
  hc_CheckType :: string
  hc_CheckTarget :: string
  hc_Status :: string
  hc_ErrorMessage :: string
  hc_HealthScore :: int

record history_db = mig_db +
  rollback_rows :: "RollbackRecord list"
  rollback_seq :: int
  health_rows :: "HealthCheckResult list"
  health_seq :: int

type_synonym 'x switch_world = "('x history_db_scheme, cut_event) world"

type_synonym messages = "(string \<times> string) list"

definition GetCutoverHistory ::
  "int \<Rightarrow> ('x, 'e) mig_world \<Rightarrow> CutoverRecord list res \<times> ('x, 'e) mig_world" where
  "GetCutoverHistory mid = db_read (\<lambda>d.
     Inr (sort_key ch_ID (filter (\<lambda>c. ch_MigrationID c = mid) (cutover_rows d))))"

definition CreateRollbackRecord ::
  "RollbackRecord \<Rightarrow> ('x history_db_scheme, 'e) world \<Rightarrow> int res \<times> ('x history_db_scheme, 'e) world" where
  "CreateRollbackRecord r = db_write (\<lambda>now d.
     (Inr (rollback_seq d + 1),
      d\<lparr>rollback_rows := rollback_rows d @ [r\<lparr>rb_ID := rollback_seq d + 1\<rparr>], rollback_seq := rollback_seq d + 1\<rparr>))"

definition CreateHealthCheckResult ::
  "HealthCheckResult \<Rightarrow> ('x history_db_scheme, 'e) world \<Rightarrow> int res \<times> ('x history_db_scheme, 'e) world" where
  "CreateHealthCheckResult r = db_write (\<lambda>now d.
     (Inr (health_seq d + 1),
      d\<lparr>health_rows := health_rows d @ [r\<lparr>hc_ID := health_seq d + 1\<rparr>], health_seq := health_seq d + 1\<rparr>))"

definition trafficSwitchManualNote :: string where
  "trafficSwitchManualNote = ''automatic traffic switch is not enabled in this pipeline; traffic still points at the source ''
     @ em_dash @ '' manual cutover required (switch DNS / reverse proxy / load balancer to the target, then verify)''"

definition is_traffic :: "CutoverRecord \<Rightarrow> bool" where
  "is_traffic c \<longleftrightarrow> ch_CutoverType c = ''traffic_switch''"

text \<open>The record of a switch: its new state, whether traffic moved, and a note.\<close>

definition switch_record :: "int \<Rightarrow> string \<Rightarrow> bool \<Rightarrow> string \<Rightarrow> CutoverRecord" where
  "switch_record mid new moved note =
     \<lparr>ch_ID = 0, ch_MigrationID = mid, ch_CutoverType = ''traffic_switch'', ch_PreviousState = ''source'',
      ch_NewState = new, ch_FreezeWrite = False, ch_QueueDrained = False, ch_DeltaSynced = False,
      ch_HealthVerified = False, ch_TrafficSwitched = moved, ch_RollbackTriggered = False,
      ch_Error = note, ch_CompletedAt = None\<rparr>"

definition switch_config :: "PipelineContext \<Rightarrow> string \<Rightarrow> TrafficSwitchConfig" where
  "switch_config pc state =
     \<lparr>ts_ID = 0, ts_MigrationID = pc_MigrationID pc, ts_Provider = mc_TrafficProvider (pc_Config pc),
      ts_OriginalConfig = '''', ts_NewConfig = '''', ts_SwitchState = state,
      ts_HealthCheckURL = mc_HealthCheckURL (pc_Config pc), ts_RollbackConfig = ''''\<rparr>"

subsection \<open>The manual branch\<close>

definition ensure_config ::
  "PipelineContext \<Rightarrow> 'x switch_world \<Rightarrow> unit res \<times> 'x switch_world" where
  "ensure_config pc w = (case GetTrafficSwitchConfig (pc_MigrationID pc) w of
       (Inl err, w1) \<Rightarrow> (Inl (ErrWrap ''check existing traffic switch config failed: '' err ''''), w1)
     | (Inr (Some _), w1) \<Rightarrow> (Inr (), w1)
     | (Inr None, w1) \<Rightarrow>
         (case CreateTrafficSwitchConfig (switch_config pc trafficSwitchManualState) w1 of
            (Inl err, w2) \<Rightarrow> (Inl (ErrWrap ''persist traffic switch config failed: '' err ''''), w2)
          | (Inr _, w2) \<Rightarrow> (Inr (), w2)))"

definition ensure_record ::
  "PipelineContext \<Rightarrow> 'x switch_world \<Rightarrow> unit res \<times> 'x switch_world" where
  "ensure_record pc w = (case GetCutoverHistory (pc_MigrationID pc) w of
       (Inl err, w1) \<Rightarrow> (Inl (ErrWrap ''check existing cutover history failed: '' err ''''), w1)
     | (Inr cutovers, w1) \<Rightarrow>
         if list_ex is_traffic cutovers then (Inr (), w1)
         else (case CreateCutoverRecord
                 (switch_record (pc_MigrationID pc) ''source'' False trafficSwitchManualNote) w1 of
            (Inl err, w2) \<Rightarrow> (Inl (ErrWrap ''persist cutover record failed: '' err ''''), w2)
          | (Inr _, w2) \<Rightarrow> (Inr (), w2)))"

text \<open>The manual branch always ends in an error; the one it means to end in is \<open>ErrAwaitingCutover\<close>.\<close>

definition manual_switch ::
  "PipelineContext \<Rightarrow> 'x switch_world \<Rightarrow> goerr \<times> messages \<times> 'x switch_world" where
  "manual_switch pc w = (case ensure_config pc w of
       (Inl err, w1) \<Rightarrow> (err, [(''traffic_switch'', ''progress'')], w1)
     | (Inr _, w1) \<Rightarrow>
         (case ensure_record pc w1 of
            (Inl err, w2) \<Rightarrow> (err, [(''traffic_switch'', ''progress'')], w2)
          | (Inr _, w2) \<Rightarrow>
              (ErrAwaitingCutover, [(''traffic_switch'', ''progress''), (''traffic_switch'', ''warning'')], w2)))"

subsection \<open>The automatic branch\<close>

definition cutoverTrafficRecordExists :: "int \<Rightarrow> string \<Rightarrow> ('x, 'e) mig_world \<Rightarrow> bool \<times> ('x, 'e) mig_world" where
  "cutoverTrafficRecordExists mid t w = (case GetCutoverHistory mid w of
       (Inl _, w1) \<Rightarrow> (False, w1)
     | (Inr cutovers, w1) \<Rightarrow> (list_ex (\<lambda>c. ch_CutoverType c = t) cutovers, w1))"

text \<open>No caller passes a nil cause.\<close>

definition failure_text :: "stage_env \<Rightarrow> CutoverOutcome option \<Rightarrow> goerr \<Rightarrow> string" where
  "failure_text env out cause = (case out of
       Some o1 \<Rightarrow> if co_Failure o1 \<noteq> '''' then co_Failure o1 else se_sanitize env (err_text cause)
     | None \<Rightarrow> se_sanitize env (err_text cause))"

definition failAutoCutover ::
  "stage_env \<Rightarrow> PipelineContext \<Rightarrow> CutoverOutcome option \<Rightarrow> goerr \<Rightarrow> 'x switch_world
     \<Rightarrow> goerr option \<times> messages \<times> 'x switch_world" where
  "failAutoCutover env pc out cause w =
     (let (known, w1) = cutoverTrafficRecordExists (pc_MigrationID pc) ''traffic_switch'' w;
          w2 = (if known then w1 else snd (CreateCutoverRecord
                  (switch_record (pc_MigrationID pc) ''source'' False (failure_text env out cause)) w1))
      in (Some (ErrWrap ''auto cutover failed (fail-closed): '' cause ''''), [(''traffic_switch'', ''error'')], w2))"

text \<open>Two helpers of the file without a caller: the test for PostgreSQL and its port.\<close>

definition pgEngine :: "string \<Rightarrow> bool" where
  "pgEngine engine \<longleftrightarrow> (let e = ToLower (TrimSpace engine) in e = ''postgres'' \<or> e = ''postgresql'')"

definition pgPort :: "DatabaseConfig \<Rightarrow> int" where
  "pgPort dc = (if 0 < dbc_Port dc then dbc_Port dc else 5432)"

definition outFinalState :: "CutoverOutcome option \<Rightarrow> string" where
  "outFinalState out = (case out of None \<Rightarrow> '''' | Some o1 \<Rightarrow> sub_str (co_FinalState o1))"

text \<open>What a completed cutover writes. \<open>GetTrafficSwitchConfig\<close> answers a missing row with no error.\<close>

definition record_success ::
  "PipelineContext \<Rightarrow> 'x switch_world \<Rightarrow> goerr option \<times> messages \<times> 'x switch_world" where
  "record_success pc w =
     (case (case GetTrafficSwitchConfig (pc_MigrationID pc) w of
              (Inr _, w1) \<Rightarrow> (Inr (), w1)
            | (Inl _, w1) \<Rightarrow>
                (case CreateTrafficSwitchConfig (switch_config pc ''switched'') w1 of
                   (Inl err, w2) \<Rightarrow> (Inl (ErrWrap ''persist traffic switch config failed: '' err ''''), w2)
                 | (Inr _, w2) \<Rightarrow> (Inr (), w2))) of
        (Inl err, w3) \<Rightarrow> (Some err, [], w3)
      | (Inr _, w3) \<Rightarrow>
          (case cutoverTrafficRecordExists (pc_MigrationID pc) ''traffic_switch'' w3 of
             (True, w4) \<Rightarrow> (None, [(''traffic_switch'', ''success'')], w4)
           | (False, w4) \<Rightarrow>
               (case CreateCutoverRecord (switch_record (pc_MigrationID pc) ''target'' True '''') w4 of
                  (Inl err, w5) \<Rightarrow> (Some (ErrWrap ''persist cutover record failed: '' err ''''), [], w5)
                | (Inr _, w5) \<Rightarrow> (None, [(''traffic_switch'', ''success'')], w5))))"

definition auto_replication :: "stage_env \<Rightarrow> PipelineContext \<Rightarrow> DatabaseConfig \<Rightarrow> string \<Rightarrow> ReplicationConfig" where
  "auto_replication env pc dc dbType =
     \<lparr>rc_DatabaseType = dbType, rc_DatabaseName = dbc_DatabaseName dc, rc_SourceHost = se_SourceHost env,
      rc_SourcePort = defaultPort (dbc_Engine dc), rc_TargetHost = se_TargetHost env,
      rc_TargetPort = defaultPort (dbc_Engine dc), rc_ReplicationUser = dbc_Username dc,
      rc_ReplicationPass = dbc_Password dc, rc_MigrationID = pc_MigrationID pc\<rparr>"

definition auto_traffic :: "PipelineContext \<Rightarrow> string \<Rightarrow> TrafficSwitchRequest" where
  "auto_traffic pc holder =
     \<lparr>tq_IdempotencyKey = ''meshium-cutover-'' @ string_of_int (pc_MigrationID pc) @ ''-'' @ holder,
      tq_ConfigPath = '''', tq_NewConfig = mc_TrafficConfig (pc_Config pc),
      tq_VerifyURL = mc_HealthCheckURL (pc_Config pc), tq_VerifyHeader = '''', tq_VerifyValue = ''''\<rparr>"

definition auto_request :: "PipelineContext \<Rightarrow> string \<Rightarrow> string \<Rightarrow> CutoverRequest" where
  "auto_request pc holder dbType =
     \<lparr>cr_MigrationID = pc_MigrationID pc, cr_Holder = holder, cr_DatabaseType = dbType,
      cr_MaxLagSeconds = PGCatchUpMaxLag, cr_ObserveFor = mc_ObservationDuration (pc_Config pc)\<rparr>"

text \<open>The checks before the cutover, in the order of the code: the error, or the drivers and the request.\<close>

definition auto_checks ::
  "stage_env \<Rightarrow> PipelineContext \<Rightarrow> nat \<Rightarrow> (cutover_drivers \<times> CutoverRequest) res" where
  "auto_checks env pc n =
     (if \<not> se_fenceCapable env then
        Inl (ErrF ''repo does not support fence leases (cannot run fenced cutover safely)'')
      else (case mc_DatabaseConfig (pc_Config pc) of
          None \<Rightarrow> Inl (ErrF ''autoCutover requires a DatabaseConfig'')
        | Some dc \<Rightarrow>
            (case CheckAutoCutover (policyEngine env) (dbc_Engine dc) (mc_TrafficProvider (pc_Config pc)) of
               Some err \<Rightarrow> Inl err
             | None \<Rightarrow>
                 (let (dbType, ok) = cutoverEngineType (dbc_Engine dc) in
                  if \<not> ok then Inl (ErrF (''autoCutover: engine '' @ quoted (dbc_Engine dc) @
                    '' has no fenced-cutover contract (supported: postgres, mysql, redis; mongodb is not safe)''))
                  else if mc_TrafficConfig (pc_Config pc) = '''' then
                    Inl (ErrF ''autoCutover requires TrafficConfig (full provider config)'')
                  else (case se_GenerateHolder env n of
                      Inl err \<Rightarrow> Inl (ErrWrap ''generate holder: '' err '''')
                    | Inr holder \<Rightarrow>
                        (case newTrafficSwitcher (mc_TrafficProvider (pc_Config pc)) of
                           Inl err \<Rightarrow> Inl err
                         | Inr provider \<Rightarrow>
                             Inr (se_drivers env provider (auto_replication env pc dc dbType) (auto_traffic pc holder),
                                  auto_request pc holder dbType)))))))"

definition runAutoCutover ::
  "stage_env \<Rightarrow> PipelineContext \<Rightarrow> 'x switch_world \<Rightarrow> goerr option \<times> messages \<times> 'x switch_world" where
  "runAutoCutover env pc w =
     (case auto_checks env pc (w_tick w) of
        Inl err \<Rightarrow> failAutoCutover env pc None err w
      | Inr (dr, cfg) \<Rightarrow>
          (let auth = NewFencingAuthority; m = newCutoverMachine auth (pc_MigrationID pc);
               ((out, runErr), w1) = Run (se_sanitize env) m auth dr cfg w
           in case runErr of
                Some err \<Rightarrow> failAutoCutover env pc out err w1
              | None \<Rightarrow>
                  (case out of
                     None \<Rightarrow> failAutoCutover env pc out (ErrF (''cutover did not complete (finalState='' @
                               quoted (outFinalState out) @ '')'')) w1
                   | Some o1 \<Rightarrow>
                       if \<not> co_Completed o1 then
                         failAutoCutover env pc out (ErrF (''cutover did not complete (finalState='' @
                           quoted (outFinalState out) @ '')'')) w1
                       else record_success pc w1)))"

subsection \<open>The stage\<close>

definition trafficSwitch_Execute ::
  "stage_env \<Rightarrow> PipelineContext \<Rightarrow> 'x switch_world \<Rightarrow> goerr option \<times> messages \<times> 'x switch_world" where
  "trafficSwitch_Execute env pc w =
     (if mc_AutoCutover (pc_Config pc) then
        (let (r, ns, w1) = runAutoCutover env pc w in (r, (''traffic_switch'', ''progress'') # ns, w1))
      else (let (err, ns, w1) = manual_switch pc w in (Some err, ns, w1)))"

definition rollback_note :: string where
  "rollback_note = ''no automatic traffic switch was performed; if a manual cutover was done, revert DNS / reverse proxy / load balancer to the source manually''"

definition trafficSwitch_Rollback ::
  "PipelineContext \<Rightarrow> 'x switch_world \<Rightarrow> goerr option \<times> messages \<times> 'x switch_world" where
  "trafficSwitch_Rollback pc w =
     (None, [(''traffic_switch'', ''progress'')], snd (CreateRollbackRecord
        \<lparr>rb_ID = 0, rb_MigrationID = pc_MigrationID pc, rb_RollbackType = ''traffic'', rb_StageName = '''',
         rb_Category = '''', rb_TrafficReverted = False, rb_DNSReverted = False, rb_DBRoleReverted = False,
         rb_RedisRoleReverted = False, rb_QueueResumed = False, rb_ContainersReverted = False,
         rb_ConfigsReverted = False, rb_Success = False, rb_Error = rollback_note\<rparr> w))"

text \<open>The stage as the pipeline sees it: a world of its own over the pipeline's database and ticks.\<close>

definition stage_world ::
  "(nat \<Rightarrow> fault) \<Rightarrow> (nat \<Rightarrow> int) \<Rightarrow> nat \<Rightarrow> 'd \<Rightarrow> ('d, 'e) world" where
  "stage_world flt clk n d = \<lparr>w_db = d, w_log = [], w_tick = n, w_env = flt, w_clock = clk\<rparr>"

definition as_stage ::
  "(PipelineContext \<Rightarrow> 'x switch_world \<Rightarrow> goerr option \<times> messages \<times> 'x switch_world)
     \<Rightarrow> (nat \<Rightarrow> fault) \<Rightarrow> (nat \<Rightarrow> int) \<Rightarrow> 'x history_db_ext stage_fun" where
  "as_stage f flt clk pc n d =
     (let (r, ns, w) = f pc (stage_world flt clk n d) in (r, pc, w_db w, w_tick w - n))"

definition trafficSwitchStage ::
  "stage_env \<Rightarrow> (nat \<Rightarrow> fault) \<Rightarrow> (nat \<Rightarrow> int) \<Rightarrow> 'x history_db_ext PipelineStageHandler" where
  "trafficSwitchStage env flt clk =
     \<lparr>sh_Name = StageTrafficSwitch, sh_Execute = as_stage (trafficSwitch_Execute env) flt clk,
      sh_Rollback = as_stage trafficSwitch_Rollback flt clk\<rparr>"

subsection \<open>The observation after a cutover\<close>

definition healthy_probe :: "string \<times> goerr option \<Rightarrow> bool" where
  "healthy_probe r \<longleftrightarrow> snd r = None \<and> fst r = ''ok'' @ [CHR 10]"

definition probe_error :: "string \<times> goerr option \<Rightarrow> goerr" where
  "probe_error r = (case snd r of
       Some err \<Rightarrow> ErrWrap ''target health check failed during observation: '' err ''''
     | None \<Rightarrow> ErrF (''target health check failed during observation: unexpected output '' @ quoted (fst r)))"

definition probe_result :: "stage_env \<Rightarrow> PipelineContext \<Rightarrow> string \<times> goerr option \<Rightarrow> HealthCheckResult" where
  "probe_result env pc r =
     \<lparr>hc_ID = 0, hc_MigrationID = pc_MigrationID pc, hc_ServerID = mg_TargetID (pc_Migration pc),
      hc_CheckType = ''tcp'', hc_CheckTarget = se_TargetHost env,
      hc_Status = (if healthy_probe r then ''healthy'' else ''unhealthy''),
      hc_ErrorMessage = (if healthy_probe r then '''' else
         (case snd r of Some err \<Rightarrow> err_text err | None \<Rightarrow> ''unexpected output '' @ quoted (fst r))),
      hc_HealthScore = (if healthy_probe r then 100 else 0)\<rparr>"

text \<open>One probe, one row and one wait per round, a tick each. \<open>None\<close>: the fuel ran out.\<close>

fun observe_loop ::
  "nat \<Rightarrow> stage_env \<Rightarrow> PipelineContext \<Rightarrow> int \<Rightarrow> messages \<Rightarrow> 'x switch_world
     \<Rightarrow> (goerr option \<times> messages \<times> 'x switch_world) option" where
  "observe_loop 0 env pc deadline ns w = None"
| "observe_loop (Suc f) env pc deadline ns w =
     (if \<not> w_now w < deadline then Some (None, ns @ [(''observation'', ''success'')], w)
      else (case se_ctxErr env (w_tick w) of
          Some e \<Rightarrow> Some (Some e, ns, w)
        | None \<Rightarrow>
            (let r = se_exec env (w_tick w); w1 = tick w in
             if \<not> healthy_probe r \<and> mc_AutoRollbackOnError (pc_Config pc) then Some (Some (probe_error r), ns, w1)
             else (let ns1 = (if healthy_probe r then ns else ns @ [(''observation'', ''warning'')])
                               @ [(''observation'', ''progress'')];
                       w2 = snd (CreateHealthCheckResult (probe_result env pc r) w1) in
                   case se_wait env (w_tick w2) of
                     Some e \<Rightarrow> Some (Some e, ns1, w2)
                   | None \<Rightarrow> observe_loop f env pc deadline ns1 (tick w2)))))"

definition observation_time :: "PipelineContext \<Rightarrow> int" where
  "observation_time pc = (if mc_ObservationDuration (pc_Config pc) = 0 then 600 * second
     else mc_ObservationDuration (pc_Config pc))"

definition postCutoverObservation_Execute ::
  "nat \<Rightarrow> stage_env \<Rightarrow> PipelineContext \<Rightarrow> 'x switch_world
     \<Rightarrow> (goerr option \<times> messages \<times> 'x switch_world) option" where
  "postCutoverObservation_Execute fuel env pc w =
     observe_loop fuel env pc (w_now w + observation_time pc) [(''observation'', ''progress'')] w"

definition preCutoverValidation_Execute ::
  "stage_env \<Rightarrow> 'x switch_world \<Rightarrow> goerr option \<times> messages \<times> 'x switch_world" where
  "preCutoverValidation_Execute env w = (case snd (se_exec env (w_tick w)) of
       Some err \<Rightarrow> (Some (ErrWrap ''pre-cutover check failed: target not responsive: '' err ''''),
                    [(''pre_cutover'', ''progress'')], tick w)
     | None \<Rightarrow> (None, [(''pre_cutover'', ''progress''), (''pre_cutover'', ''success'')], tick w))"

end
