(* ===== verification/SwitchProofs.thy ===== *)
theory SwitchProofs
  imports SwitchStage RunProofs
begin

section \<open>Properties of the traffic-switch stage\<close>

text \<open>
  What the stage writes, on every branch and under every pattern of failures: the manual branch records its
  demand once and never claims a switch; the automatic branch claims one only for a completed cutover.
\<close>

subsection \<open>A cutover leaves the history alone\<close>

text \<open>The tables beside the leases and the stages.\<close>

definition same_history :: "'x stage_db_scheme \<Rightarrow> 'x stage_db_scheme \<Rightarrow> bool" where
  "same_history d d' \<longleftrightarrow> stage_db.more d' = stage_db.more d \<and> switch_rows d' = switch_rows d
     \<and> switch_seq d' = switch_seq d"

lemma same_history_refl [simp]: "same_history d d"
  by (simp add: same_history_def)

lemma same_history_trans: "same_history a b \<Longrightarrow> same_history b c \<Longrightarrow> same_history a c"
  by (simp add: same_history_def)

lemma same_history_updates [simp]:
  "same_history d (d\<lparr>fence_rows := fr\<rparr>)" "same_history d (d\<lparr>fence_rows := fr, fence_seq := n\<rparr>)"
  "same_history d (d\<lparr>stage_rows := sr\<rparr>)" "same_history d (on_stage i f d)"
  by (simp_all add: same_history_def on_stage_def)

lemma same_history_write:
  assumes "db_write f w = (r, w')" and "\<And>now d. same_history d (snd (f now d))"
  shows "same_history (w_db w) (w_db w')"
  using assms db_write_snd [OF assms(1)] by auto

lemma fence_ops_history:
  "reactivateFenceLease mid h tok st a e w = (r, w') \<Longrightarrow> same_history (w_db w) (w_db w')"
  "CreateFenceLease l w = (r1, w') \<Longrightarrow> same_history (w_db w) (w_db w')"
  "ReleaseFenceLease i h tok w = (r2, w') \<Longrightarrow> same_history (w_db w) (w_db w')"
  "UpdateFenceLeaseState i st w = (r3, w') \<Longrightarrow> same_history (w_db w) (w_db w')"
  "UpdateStageCheckpoint i ck w = (r4, w') \<Longrightarrow> same_history (w_db w) (w_db w')"
  by (auto simp: reactivateFenceLease_def CreateFenceLease_def ReleaseFenceLease_def
      UpdateFenceLeaseState_def UpdateStageCheckpoint_def elim!: same_history_write)

lemma acquire_history:
  assumes "acquireOrRecover m a cfg cp w = (r, w')"
  shows "same_history (w_db w) (w_db w')"
  using assms
  by (auto simp: acquireOrRecover_def Acquire_def acquire_fresh_def Let_def
      split: if_splits prod.splits sum.splits option.splits
      dest!: AssertHolds_frame GetFenceLease_tick dest: fence_ops_history)

lemma save_history:
  assumes "cutover_Save m cp (Some l) w = (r, cp', w')"
  shows "same_history (w_db w) (w_db w')"
  using assms
proof (cases rule: cutover_Save_cases)
  case (checkpoint e)
  then show ?thesis by (simp add: put_checkpoint_def split: option.split)
next
  case both
  then show ?thesis by (simp add: put_checkpoint_def put_lease_state_def same_history_def on_stage_def split: option.split)
qed simp

lemma advance_history:
  assumes "advance m a cp lease st out w = (r, cp', out', w')"
  shows "same_history (w_db w) (w_db w')"
  using assms
proof (cases rule: advance_unfold)
  case (fence e)
  then show ?thesis using AssertHolds_frame by fastforce
next
  case (act x w1 d w2)
  then have "w_db w2 = w_db w" using AssertHolds_frame [OF act(2)] run_action_effect [OF act(3)] by simp
  with act(4) show ?thesis
    by (auto simp: MarkStep_def split: sum.splits if_splits dest: save_history)
qed simp

lemma run_steps_history:
  assumes "run_steps san m a cp lease sts out w = (res, w')"
  shows "same_history (w_db w) (w_db w')"
  using assms
proof (induction sts arbitrary: cp out w)
  case Nil
  then show ?case by (auto simp: Release_def split: prod.splits dest: fence_ops_history)
next
  case (Cons st sts)
  obtain r cp1 out1 w1 where adv: "advance m a cp lease st out w = (r, cp1, out1, w1)"
    by (metis prod_cases4)
  note step = advance_history [OF adv]
  show ?case
    using Cons.prems adv
    by (auto simp: Let_def split: sum.splits if_splits prod.splits
        intro: same_history_trans [OF step] dest: Cons.IH save_history)
qed

lemma Run_history:
  assumes "Run san m a dr cfg w = (res, w')"
  shows "same_history (w_db w) (w_db w')"
  using assms
  by (auto simp: Run_def Let_def split: if_splits prod.splits sum.splits
      dest!: cutover_Load_ok(1) acquire_history save_history run_steps_history intro: same_history_trans)

lemma same_history_rows:
  assumes "same_history d d'"
  shows "cutover_rows d' = cutover_rows d" "cutover_seq d' = cutover_seq d" "switch_rows d' = switch_rows d"
    "mig_rows d' = mig_rows d" "audit_rows d' = audit_rows d"
  using assms by (cases d; cases d'; simp add: same_history_def)+

subsection \<open>The manual branch\<close>

definition traffic_records :: "'x mig_db_scheme \<Rightarrow> int \<Rightarrow> CutoverRecord list" where
  "traffic_records d mid = filter (\<lambda>c. ch_MigrationID c = mid \<and> is_traffic c) (cutover_rows d)"

definition switch_configs :: "'x stage_db_scheme \<Rightarrow> int \<Rightarrow> TrafficSwitchConfig list" where
  "switch_configs d mid = filter (\<lambda>r. ts_MigrationID r = mid) (switch_rows d)"

lemma last_switch_None [simp]: "last_switch rs = None \<longleftrightarrow> rs = []"
  by (induction rs) (auto split: option.split)

lemma last_switch_mem: "last_switch rs = Some r \<Longrightarrow> r \<in> set rs"
  by (induction rs arbitrary: r) (auto split: option.splits if_splits)

text \<open>An attempt adds a row to either table at most when the table has none for the migration.\<close>

definition may_add :: "('r \<Rightarrow> bool) \<Rightarrow> ('r \<Rightarrow> bool) \<Rightarrow> 'r list \<Rightarrow> 'r list \<Rightarrow> bool" where
  "may_add mine good rs rs' \<longleftrightarrow>
     rs' = rs \<or> (filter mine rs = [] \<and> (\<exists>r. rs' = rs @ [r] \<and> mine r \<and> good r))"

lemma may_add_refl [simp]: "may_add mine good rs rs"
  by (simp add: may_add_def)

lemma may_add_once:
  "may_add mine good rs rs' \<Longrightarrow> length (filter mine rs') \<le> max 1 (length (filter mine rs))"
  by (auto simp: may_add_def)

lemma may_add_good: "may_add mine good rs rs' \<Longrightarrow> r \<in> set rs' \<Longrightarrow> r \<in> set rs \<or> good r"
  by (auto simp: may_add_def)

lemma may_add_filter: "may_add mine good rs rs' \<Longrightarrow> rs' = rs \<or> filter mine rs = []"
  by (auto simp: may_add_def)

definition honest_config :: "TrafficSwitchConfig \<Rightarrow> bool" where
  "honest_config c \<longleftrightarrow> ts_SwitchState c = ''manual_required''"

definition honest_record :: "CutoverRecord \<Rightarrow> bool" where
  "honest_record c \<longleftrightarrow> \<not> ch_TrafficSwitched c \<and> ch_PreviousState c = ''source'' \<and> ch_NewState c = ''source''"

lemma ensure_config_rows:
  assumes "ensure_config pc w = (r, w')"
  shows "may_add (\<lambda>c. ts_MigrationID c = pc_MigrationID pc) honest_config (switch_rows (w_db w)) (switch_rows (w_db w'))
    \<and> cutover_rows (w_db w') = cutover_rows (w_db w)
    \<and> (fault_free w \<longrightarrow> r = Inr () \<and> switch_configs (w_db w') (pc_MigrationID pc) \<noteq> [] \<and> fault_free w')"
  using assms
  by (auto simp: ensure_config_def GetTrafficSwitchConfig_def CreateTrafficSwitchConfig_def db_read_def db_write_def
      may_add_def honest_config_def switch_config_def trafficSwitchManualState_def switch_configs_def fault_free_def
      filter_empty_conv Let_def
      split: fault.splits prod.splits sum.splits option.splits if_splits dest!: last_switch_mem)

lemma ensure_record_rows:
  assumes "ensure_record pc w = (r, w')"
  shows "may_add (\<lambda>c. ch_MigrationID c = pc_MigrationID pc \<and> is_traffic c) honest_record
      (cutover_rows (w_db w)) (cutover_rows (w_db w'))
    \<and> switch_rows (w_db w') = switch_rows (w_db w)
    \<and> (fault_free w \<longrightarrow> r = Inr () \<and> traffic_records (w_db w') (pc_MigrationID pc) \<noteq> [] \<and> fault_free w')"
  using assms
  by (auto simp: ensure_record_def GetCutoverHistory_def CreateCutoverRecord_def db_read_def db_write_def
      may_add_def honest_record_def switch_record_def is_traffic_def traffic_records_def fault_free_def
      filter_empty_conv list_ex_iff Let_def
      split: fault.splits prod.splits sum.splits option.splits if_splits)

lemma manual_rows:
  assumes "manual_switch pc w = (err, ns, w')"
  shows "may_add (\<lambda>c. ts_MigrationID c = pc_MigrationID pc) honest_config (switch_rows (w_db w)) (switch_rows (w_db w'))
    \<and> may_add (\<lambda>c. ch_MigrationID c = pc_MigrationID pc \<and> is_traffic c) honest_record
        (cutover_rows (w_db w)) (cutover_rows (w_db w'))
    \<and> (fault_free w \<longrightarrow> err = ErrAwaitingCutover \<and> fault_free w'
        \<and> traffic_records (w_db w') (pc_MigrationID pc) \<noteq> [] \<and> switch_configs (w_db w') (pc_MigrationID pc) \<noteq> [])"
proof -
  obtain r w1 where 1: "ensure_config pc w = (r, w1)" by fastforce
  obtain q w2 where 2: "ensure_record pc w1 = (q, w2)" by fastforce
  note E = ensure_config_rows [OF 1] ensure_record_rows [OF 2]
  show ?thesis
    using assms 1 2 E by (cases r; cases q) (auto simp: manual_switch_def switch_configs_def)
qed

text \<open>An attempt of the stage in any world over the database: any failures, at any time.\<close>

inductive switch_attempt :: "stage_env \<Rightarrow> PipelineContext \<Rightarrow> 'x history_db_scheme \<Rightarrow> 'x history_db_scheme \<Rightarrow> bool"
  for env pc where
  sw_attempt: "trafficSwitch_Execute env pc w = (r, ns, w') \<Longrightarrow> switch_attempt env pc (w_db w) (w_db w')"

inductive_cases switch_attemptE: "switch_attempt env pc d d'"

lemma manual_attempt:
  assumes "switch_attempt env pc d d'" and "\<not> mc_AutoCutover (pc_Config pc)"
  shows "may_add (\<lambda>c. ts_MigrationID c = pc_MigrationID pc) honest_config (switch_rows d) (switch_rows d')
    \<and> may_add (\<lambda>c. ch_MigrationID c = pc_MigrationID pc \<and> is_traffic c) honest_record (cutover_rows d) (cutover_rows d')"
  using assms
  by (auto elim!: switch_attemptE simp: trafficSwitch_Execute_def split: prod.splits dest: manual_rows)

text \<open>Without automatic cutover the stage never reports success, and over any number of attempts, with any
  failures and crashes between its statements, it leaves at most one switch configuration and one cutover
  record for the migration, none of which claims that traffic moved; an attempt without failures ends in
  \<open>ErrAwaitingCutover\<close> with both rows present.\<close>

theorem manual_switch_recorded_once:
  assumes "(switch_attempt env pc)\<^sup>*\<^sup>* d d'" and manual: "\<not> mc_AutoCutover (pc_Config pc)"
    and none: "traffic_records d (pc_MigrationID pc) = []" "switch_configs d (pc_MigrationID pc) = []"
    and run: "w_db w = d'" "trafficSwitch_Execute env pc w = (r, ns, w')"
  shows "length (traffic_records (w_db w') (pc_MigrationID pc)) \<le> 1
    \<and> length (switch_configs (w_db w') (pc_MigrationID pc)) \<le> 1
    \<and> (\<forall>c \<in> set (cutover_rows (w_db w')). c \<in> set (cutover_rows d) \<or> honest_record c)
    \<and> (\<forall>c \<in> set (switch_rows (w_db w')). c \<in> set (switch_rows d) \<or> honest_config c)
    \<and> r \<noteq> None
    \<and> (fault_free w \<longrightarrow> r = Some ErrAwaitingCutover
        \<and> traffic_records (w_db w') (pc_MigrationID pc) \<noteq> [] \<and> switch_configs (w_db w') (pc_MigrationID pc) \<noteq> [])"
proof -
  from run have "switch_attempt env pc d' (w_db w')" using sw_attempt by blast
  with assms(1) have "(switch_attempt env pc)\<^sup>*\<^sup>* d (w_db w')" by (rule rtranclp.rtrancl_into_rtrancl)
  then have rows: "length (traffic_records (w_db w') (pc_MigrationID pc)) \<le> 1
    \<and> length (switch_configs (w_db w') (pc_MigrationID pc)) \<le> 1
    \<and> (\<forall>c \<in> set (cutover_rows (w_db w')). c \<in> set (cutover_rows d) \<or> honest_record c)
    \<and> (\<forall>c \<in> set (switch_rows (w_db w')). c \<in> set (switch_rows d) \<or> honest_config c)"
  proof (induction rule: rtranclp_induct)
    case base
    with none show ?case by simp
  next
    case (step y z)
    from manual_attempt [OF step.hyps(2) manual] have
      c: "may_add (\<lambda>c. ts_MigrationID c = pc_MigrationID pc) honest_config (switch_rows y) (switch_rows z)"
      and h: "may_add (\<lambda>c. ch_MigrationID c = pc_MigrationID pc \<and> is_traffic c) honest_record (cutover_rows y) (cutover_rows z)"
      by auto
    show ?case
      using step.IH may_add_once [OF c] may_add_once [OF h] may_add_good [OF c] may_add_good [OF h]
      unfolding traffic_records_def switch_configs_def by (meson max.boundedI order_refl order_trans)
  qed
  obtain err ns0 where m: "manual_switch pc w = (err, ns0, w')" "r = Some err"
    using run(2) manual by (auto simp: trafficSwitch_Execute_def split: prod.splits)
  from manual_rows [OF m(1)] m(2) rows show ?thesis by simp
qed

subsection \<open>The pipeline stops at a manual switch\<close>

lemma ensure_config_frame:
  "ensure_config pc w = (r, w') \<Longrightarrow> mig_rows (w_db w') = mig_rows (w_db w) \<and> stage_rows (w_db w') = stage_rows (w_db w)"
  by (auto simp: ensure_config_def GetTrafficSwitchConfig_def CreateTrafficSwitchConfig_def
      split: prod.splits sum.splits option.splits dest!: db_read_frames db_write_snd)

lemma ensure_record_frame:
  "ensure_record pc w = (r, w') \<Longrightarrow> mig_rows (w_db w') = mig_rows (w_db w) \<and> stage_rows (w_db w') = stage_rows (w_db w)"
  by (auto simp: ensure_record_def GetCutoverHistory_def CreateCutoverRecord_def
      split: prod.splits sum.splits if_splits dest!: db_read_frames db_write_snd)

lemma manual_frame:
  "manual_switch pc w = (err, ns, w') \<Longrightarrow>
     mig_rows (w_db w') = mig_rows (w_db w) \<and> stage_rows (w_db w') = stage_rows (w_db w)"
  by (auto simp: manual_switch_def split: prod.splits sum.splits dest!: ensure_config_frame ensure_record_frame)

definition switch_rows_ok :: "nat \<Rightarrow> int \<Rightarrow> 'x history_db_scheme \<Rightarrow> bool" where
  "switch_rows_ok k mid d \<longleftrightarrow> k \<le> length (traffic_records d mid) \<and> k \<le> length (switch_configs d mid)
     \<and> length (traffic_records d mid) \<le> 1 \<and> length (switch_configs d mid) \<le> 1"

lemma switch_rows_ok_weaken: "switch_rows_ok 1 mid d \<Longrightarrow> switch_rows_ok 0 mid d"
  by (simp add: switch_rows_ok_def)

lemma switch_rows_ok_cong:
  "switch_rows d' = switch_rows d \<Longrightarrow> cutover_rows d' = cutover_rows d \<Longrightarrow> switch_rows_ok k mid d' = switch_rows_ok k mid d"
  by (simp add: switch_rows_ok_def traffic_records_def switch_configs_def)

lemma switch_rows_ok_after:
  assumes "may_add (\<lambda>c. ts_MigrationID c = mid) P (switch_rows d) (switch_rows d')"
    and "may_add (\<lambda>c. ch_MigrationID c = mid \<and> is_traffic c) Q (cutover_rows d) (cutover_rows d')"
    and "traffic_records d' mid \<noteq> []" "switch_configs d' mid \<noteq> []" and "switch_rows_ok 0 mid d"
  shows "switch_rows_ok 1 mid d'"
  using may_add_once [OF assms(1)] may_add_once [OF assms(2)] assms(3-5)
  by (simp add: switch_rows_ok_def traffic_records_def switch_configs_def Suc_le_eq)

lemma manual_execute:
  assumes "\<not> mc_AutoCutover (pc_Config pc)"
  obtains d' k where "sh_Execute (trafficSwitchStage env (\<lambda>_. NoFault) clk) pc n d = (Some ErrAwaitingCutover, pc, d', k)"
    and "mig_rows d' = mig_rows d" and "stage_rows d' = stage_rows d"
    and "switch_rows_ok 0 (pc_MigrationID pc) d \<Longrightarrow> switch_rows_ok 1 (pc_MigrationID pc) d'"
proof -
  let ?w = "stage_world (\<lambda>_. NoFault) clk n d :: 'a switch_world"
  have f: "fault_free ?w" and db: "w_db ?w = d" by (simp_all add: fault_free_def stage_world_def)
  obtain err ns w' where m: "manual_switch pc ?w = (err, ns, w')" by (metis prod_cases3)
  note R = manual_rows [OF m, unfolded db]
  have "sh_Execute (trafficSwitchStage env (\<lambda>_. NoFault) clk) pc n d
      = (Some ErrAwaitingCutover, pc, w_db w', w_tick w' - n)"
    using assms m R f by (simp add: trafficSwitchStage_def as_stage_def trafficSwitch_Execute_def)
  moreover have "switch_rows_ok 1 (pc_MigrationID pc) (w_db w')" if "switch_rows_ok 0 (pc_MigrationID pc) d"
    by (rule switch_rows_ok_after [where d = d]) (use R f that in auto)
  ultimately show ?thesis using manual_frame [OF m, unfolded db] that by blast
qed

text \<open>What stays true from one attempt to the next.\<close>

definition attempt_ok :: "int \<Rightarrow> 'x history_db_ext pipe_world \<Rightarrow> 'x history_db_ext pipe_world \<Rightarrow> bool" where
  "attempt_ok mid w0 w \<longleftrightarrow> fault_free w \<and> mig_rows (w_db w) = mig_rows (w_db w0) \<and> switch_rows_ok 0 mid (w_db w)"

lemma attempt_ok_retry:
  assumes "attempt_ok mid w0 w"
  shows "attempt_ok mid w0 (tick (emit n st (or_warn m (IncrementStageAttempt sid w))))
    \<and> execs (w_log (tick (emit n st (or_warn m (IncrementStageAttempt sid w))))) = execs (w_log w)"
proof -
  have "IncrementStageAttempt sid w
      = (Inr (), tick (w\<lparr>w_db := on_stage sid (\<lambda>r. r\<lparr>ps_AttemptCount := ps_AttemptCount r + 1\<rparr>) (w_db w)\<rparr>))"
    using assms by (simp add: IncrementStageAttempt_def fault_free_write attempt_ok_def)
  then show ?thesis using assms
    by (simp add: or_warn_def emit_def attempt_ok_def fault_free_def on_stage_def
        switch_rows_ok_def traffic_records_def switch_configs_def)
qed

lemma attempt_ok_handler:
  assumes "attempt_ok (pc_MigrationID pc) w0 w" and "\<not> mc_AutoCutover (pc_Config pc)"
    and "h = trafficSwitchStage env (\<lambda>_. NoFault) clk"
  obtains w' where "run_handler EvExecute (sh_Name h) (sh_Execute h) pc w = (Some ErrAwaitingCutover, pc, w')"
    and "attempt_ok (pc_MigrationID pc) w0 w'" and "switch_rows_ok 1 (pc_MigrationID pc) (w_db w')"
    and "execs (w_log w') = execs (w_log w) @ [StageTrafficSwitch]"
proof -
  obtain d' k where ex: "sh_Execute h pc (w_tick w) (w_db w) = (Some ErrAwaitingCutover, pc, d', k)"
    "mig_rows d' = mig_rows (w_db w)" "switch_rows_ok 1 (pc_MigrationID pc) d'"
    using manual_execute [OF assms(2), of env clk "w_tick w" "w_db w"] assms(1,3) by (metis attempt_ok_def)
  have nm: "sh_Name h = StageTrafficSwitch" using assms(3) by (simp add: trafficSwitchStage_def)
  show ?thesis
    by (rule that [of "w\<lparr>w_db := d', w_log := w_log w @ [EvExecute StageTrafficSwitch], w_tick := w_tick w + k + 1\<rparr>"])
      (use ex nm assms(1) switch_rows_ok_weaken in \<open>auto simp: run_handler_def attempt_ok_def fault_free_def\<close>)
qed

definition attempt_start :: "'x PipelineStageHandler \<Rightarrow> int \<Rightarrow> nat \<Rightarrow> 'x pipe_world \<Rightarrow> 'x pipe_world" where
  "attempt_start h sid attempt w = (if 0 < attempt
     then tick (emit (sh_Name h) ''progress'' (or_warn (sh_Name h) (IncrementStageAttempt sid w))) else w)"

lemma run_attempts_failing:
  assumes "pl_ctxErr p = (\<lambda>_. None)" "pl_retryWait p = (\<lambda>_ _. None)"
    and "run_handler EvExecute (sh_Name h) (sh_Execute h) pc (attempt_start h sid attempt w) = (Some err, pc1, w2)"
  shows "run_attempts p sm i h sid attempt left delay pc w = (case left of
       0 \<Rightarrow> (StageErr err, pc1, w2)
     | Suc n \<Rightarrow> run_attempts p sm i h sid (attempt + 1) n (if 0 < attempt then delay * 2 else delay) pc1 w2)"
  using assms(3) unfolding attempt_start_def
  by (subst run_attempts.simps) (simp only: Let_def assms(1,2) prod.case option.case if_cancel)

lemma attempt_ok_start:
  assumes "attempt_ok mid w0 w"
  shows "attempt_ok mid w0 (attempt_start h sid k w)"
    and "execs (w_log (attempt_start h sid k w)) = execs (w_log w)"
  using assms attempt_ok_retry [OF assms] by (simp_all add: attempt_start_def)

lemma run_attempts_manual:
  assumes p: "pl_ctxErr p = (\<lambda>_. None)" "pl_retryWait p = (\<lambda>_ _. None)"
    and h: "h = trafficSwitchStage env (\<lambda>_. NoFault) clk" and pc: "\<not> mc_AutoCutover (pc_Config pc)"
    and "attempt_ok (pc_MigrationID pc) w0 w"
  shows "\<exists>w'. run_attempts p sm i h sid attempt left delay pc w = (StageErr ErrAwaitingCutover, pc, w')
    \<and> attempt_ok (pc_MigrationID pc) w0 w' \<and> switch_rows_ok 1 (pc_MigrationID pc) (w_db w')
    \<and> execs (w_log w') = execs (w_log w) @ replicate (Suc left) StageTrafficSwitch"
  using assms(5)
proof (induction left arbitrary: attempt delay w)
  case (0 attempt delay w)
  obtain w2 where w2: "run_handler EvExecute (sh_Name h) (sh_Execute h) pc (attempt_start h sid attempt w)
      = (Some ErrAwaitingCutover, pc, w2)" "attempt_ok (pc_MigrationID pc) w0 w2"
    "switch_rows_ok 1 (pc_MigrationID pc) (w_db w2)"
    "execs (w_log w2) = execs (w_log (attempt_start h sid attempt w)) @ [StageTrafficSwitch]"
    by (rule attempt_ok_handler [OF attempt_ok_start(1) [OF 0] pc h])
  then show ?case using run_attempts_failing [OF p w2(1)] attempt_ok_start(2) [OF 0] by simp
next
  case (Suc left attempt delay w)
  obtain w2 where w2: "run_handler EvExecute (sh_Name h) (sh_Execute h) pc (attempt_start h sid attempt w)
      = (Some ErrAwaitingCutover, pc, w2)" "attempt_ok (pc_MigrationID pc) w0 w2"
    "switch_rows_ok 1 (pc_MigrationID pc) (w_db w2)"
    "execs (w_log w2) = execs (w_log (attempt_start h sid attempt w)) @ [StageTrafficSwitch]"
    by (rule attempt_ok_handler [OF attempt_ok_start(1) [OF Suc.prems] pc h])
  from Suc.IH [OF w2(2), of "attempt + 1" "if 0 < attempt then delay * 2 else delay"] show ?case
    using run_attempts_failing [OF p w2(1)] w2(4) attempt_ok_start(2) [OF Suc.prems] by auto
qed

lemma attempt_ok_write:
  assumes "attempt_ok mid w0 w"
    and "\<And>now d. mig_rows (snd (f now d)) = mig_rows d \<and> switch_rows (snd (f now d)) = switch_rows d
      \<and> cutover_rows (snd (f now d)) = cutover_rows d"
  shows "attempt_ok mid w0 (snd (db_write f w))"
  using assms by (simp add: attempt_ok_def fault_free_write switch_rows_ok_def traffic_records_def switch_configs_def)

lemma attempt_ok_statements:
  assumes "attempt_ok mid w0 w"
  shows "attempt_ok mid w0 (snd (UpdateStageState sid st msg w))" "attempt_ok mid w0 (emit a b w)"
    "attempt_ok mid w0 (snd (GetMigrationState i w))"
    "\<exists>sid. fst (CreateStage i n k w) = Inr sid" "attempt_ok mid w0 (snd (CreateStage i n k w))"
proof -
  show "attempt_ok mid w0 (snd (UpdateStageState sid st msg w))"
    unfolding UpdateStageState_def by (rule attempt_ok_write [OF assms]) (simp add: on_stage_def)
  have up: "mig_rows (upsert_stage i n k now d) = mig_rows d" "switch_rows (upsert_stage i n k now d) = switch_rows d"
    "cutover_rows (upsert_stage i n k now d) = cutover_rows d" for now and d :: "'a history_db_scheme"
    by (simp_all add: upsert_stage_def)
  show "\<exists>sid. fst (CreateStage i n k w) = Inr sid" "attempt_ok mid w0 (snd (CreateStage i n k w))"
    using assms stage_of_upsert_same [of i n k "w_now w" "w_db w"]
    by (auto simp: CreateStage_def attempt_ok_def fault_free_write fault_free_read up switch_rows_ok_def
        traffic_records_def switch_configs_def split: option.split)
qed (use assms in \<open>auto simp: attempt_ok_def fault_free_def GetMigrationState_def db_read_def
        split: fault.splits option.splits prod.splits sum.splits if_splits\<close>)


subsection \<open>What an automatic cutover writes down\<close>

lemma run_steps_env:
  assumes "run_steps san m a cp lease sts out w = (res, w')"
  shows "w_env w' = w_env w"
  using assms
proof (induction sts arbitrary: cp out w)
  case Nil
  then show ?case by (auto simp: Release_def ReleaseFenceLease_def split: prod.splits dest: db_write_frames)
next
  case (Cons st sts)
  obtain r cp1 out1 w1 where adv: "advance m a cp lease st out w = (r, cp1, out1, w1)"
    by (metis prod_cases4)
  note step = advance_env [OF adv]
  show ?case
    using Cons.prems adv step
    by (auto simp: Let_def split: sum.splits if_splits prod.splits dest: Cons.IH cutover_Save_frame)
qed

lemma Run_env:
  assumes "Run san m a dr cfg w = (res, w')"
  shows "w_env w' = w_env w"
  using assms
  by (auto simp: Run_def Let_def split: if_splits prod.splits sum.splits
      dest!: cutover_Load_env acquireOrRecover_env cutover_Save_frame run_steps_env)

definition outcome_record :: "bool \<Rightarrow> CutoverRecord \<Rightarrow> bool" where
  "outcome_record moved c \<longleftrightarrow> is_traffic c \<and> ch_PreviousState c = ''source'' \<and> ch_TrafficSwitched c = moved
     \<and> ch_NewState c = (if moved then ''target'' else ''source'')"

lemma exists_calm:
  "fault_free w \<Longrightarrow> cutoverTrafficRecordExists mid ''traffic_switch'' w = (traffic_records (w_db w) mid \<noteq> [], tick w)"
  by (auto simp: cutoverTrafficRecordExists_def GetCutoverHistory_def fault_free_read traffic_records_def
      is_traffic_def list_ex_iff filter_empty_conv)

lemma create_calm:
  "fault_free w \<Longrightarrow> CreateCutoverRecord c w = (Inr (cutover_seq (w_db w) + 1),
     tick (w\<lparr>w_db := (w_db w)\<lparr>cutover_rows := cutover_rows (w_db w) @ [c\<lparr>ch_ID := cutover_seq (w_db w) + 1\<rparr>],
       cutover_seq := cutover_seq (w_db w) + 1\<rparr>\<rparr>))"
  by (simp add: CreateCutoverRecord_def fault_free_write)

definition bookkeeping :: "int \<Rightarrow> bool \<Rightarrow> 'x mig_db_scheme \<Rightarrow> 'x mig_db_scheme \<Rightarrow> bool" where
  "bookkeeping mid moved d d' \<longleftrightarrow> switch_rows d' = switch_rows d \<and>
     (if traffic_records d mid \<noteq> [] then cutover_rows d' = cutover_rows d
      else \<exists>c. cutover_rows d' = cutover_rows d @ [c] \<and> ch_MigrationID c = mid \<and> outcome_record moved c)"

lemma failAutoCutover_books:
  assumes "fault_free w" and "failAutoCutover env pc out cause w = (r, ns, w')"
  shows "r \<noteq> None \<and> bookkeeping (pc_MigrationID pc) False (w_db w) (w_db w')"
  using assms
  by (auto simp: failAutoCutover_def Let_def exists_calm create_calm bookkeeping_def outcome_record_def
      switch_record_def is_traffic_def)

lemma record_success_books:
  assumes "fault_free w" and "record_success pc w = (r, ns, w')"
  shows "r = None \<and> bookkeeping (pc_MigrationID pc) True (w_db w) (w_db w')"
proof -
  have "GetTrafficSwitchConfig (pc_MigrationID pc) w = (Inr (last_switch (switch_configs (w_db w) (pc_MigrationID pc))), tick w)"
    using assms(1) by (simp add: GetTrafficSwitchConfig_def fault_free_read switch_configs_def)
  then show ?thesis using assms
    by (auto simp: record_success_def exists_calm create_calm bookkeeping_def outcome_record_def switch_record_def
        is_traffic_def split: if_splits)
qed

lemma bookkeeping_after:
  assumes "same_history d d1" and "bookkeeping mid moved d1 d'"
  shows "bookkeeping mid moved d d'"
  using assms(2) unfolding bookkeeping_def traffic_records_def same_history_rows [OF assms(1)] .

text \<open>In an environment without failures of statements an automatic cutover writes one cutover record, and
  only when the migration has none of that type: a success after an attempt that failed is never recorded, and
  neither is a switch configuration, in any case. A failed cutover is recorded as traffic at the source
  whatever step failed.\<close>

theorem auto_cutover_bookkeeping:
  assumes "w_env w = (\<lambda>_. NoFault)" and "runAutoCutover env pc w = (r, ns, w')"
  shows "switch_rows (w_db w') = switch_rows (w_db w)
    \<and> (if traffic_records (w_db w) (pc_MigrationID pc) \<noteq> [] then cutover_rows (w_db w') = cutover_rows (w_db w)
       else \<exists>c. cutover_rows (w_db w') = cutover_rows (w_db w) @ [c] \<and> ch_MigrationID c = pc_MigrationID pc
         \<and> ch_CutoverType c = ''traffic_switch'' \<and> ch_TrafficSwitched c = (r = None)
         \<and> ch_NewState c = (if r = None then ''target'' else ''source''))"
proof -
  have "bookkeeping (pc_MigrationID pc) (r = None) (w_db w) (w_db w')"
  proof (cases "auto_checks env pc (w_tick w)")
    case (Inl err)
    with assms(2) have "failAutoCutover env pc None err w = (r, ns, w')" by (simp add: runAutoCutover_def)
    moreover have "fault_free w" using assms(1) by (simp add: fault_free_def)
    ultimately show ?thesis using failAutoCutover_books by fastforce
  next
    case (Inr q)
    obtain dr cfg where q: "q = (dr, cfg)" by fastforce
    obtain out e w1 where run: "Run (se_sanitize env) (newCutoverMachine NewFencingAuthority (pc_MigrationID pc))
        NewFencingAuthority dr cfg w = ((out, e), w1)" by (metis prod_cases3 prod.collapse)
    have w1: "fault_free w1" using Run_env [OF run] assms(1) by (simp add: fault_free_def)
    note h = bookkeeping_after [OF Run_history [OF run]]
    consider cause where "failAutoCutover env pc out cause w1 = (r, ns, w')" | "record_success pc w1 = (r, ns, w')"
      using assms(2) Inr q run by (auto simp: runAutoCutover_def Let_def split: option.splits if_splits)
    then show ?thesis
    proof cases
      case 1
      from failAutoCutover_books [OF w1 1] show ?thesis using h by auto
    next
      case 2
      from record_success_books [OF w1 2] show ?thesis using h by auto
    qed
  qed
  then show ?thesis by (auto simp: bookkeeping_def outcome_record_def is_traffic_def split: if_splits)
qed

text \<open>The checks before an automatic cutover. Under the default policy they pass exactly for a supported
  engine and provider, with the provider's full configuration, a lease table and a holder; when they do not
  pass, nothing runs: no lease is taken, no stage row changes and no driver is called, and the stage fails.\<close>

theorem auto_cutover_gated:
  assumes "se_policy env = None" and "runAutoCutover env pc w = (r, ns, w')"
  shows "(is_ok (auto_checks env pc (w_tick w)) \<longleftrightarrow> se_fenceCapable env
       \<and> (\<exists>dc. mc_DatabaseConfig (pc_Config pc) = Some dc
            \<and> ToLower (TrimSpace (dbc_Engine dc)) \<in> {''postgres'', ''postgresql'', ''mysql'', ''mariadb'', ''redis''})
       \<and> mc_TrafficProvider (pc_Config pc) \<in> {''nginx'', ''haproxy'', ''caddy''}
       \<and> mc_TrafficConfig (pc_Config pc) \<noteq> '''' \<and> is_ok (se_GenerateHolder env (w_tick w)))
    \<and> (\<not> is_ok (auto_checks env pc (w_tick w)) \<longrightarrow> r \<noteq> None \<and> w_log w' = w_log w
        \<and> fence_rows (w_db w') = fence_rows (w_db w) \<and> stage_rows (w_db w') = stage_rows (w_db w)
        \<and> switch_rows (w_db w') = switch_rows (w_db w))"
proof
  have "cutoverEngineType e = ('''', False) \<or> snd (cutoverEngineType e)" for e
    by (auto simp: cutoverEngineType_def Let_def)
  then show "is_ok (auto_checks env pc (w_tick w)) \<longleftrightarrow> se_fenceCapable env
       \<and> (\<exists>dc. mc_DatabaseConfig (pc_Config pc) = Some dc
            \<and> ToLower (TrimSpace (dbc_Engine dc)) \<in> {''postgres'', ''postgresql'', ''mysql'', ''mariadb'', ''redis''})
       \<and> mc_TrafficProvider (pc_Config pc) \<in> {''nginx'', ''haproxy'', ''caddy''}
       \<and> mc_TrafficConfig (pc_Config pc) \<noteq> '''' \<and> is_ok (se_GenerateHolder env (w_tick w))"
    using assms(1)
    by (auto simp: auto_checks_def policyEngine_def CheckAutoCutover_def engine_gate provider_gate
        newTrafficSwitcher_def cutoverEngineType_def Let_def split: option.splits sum.splits)
  show "\<not> is_ok (auto_checks env pc (w_tick w)) \<longrightarrow> r \<noteq> None \<and> w_log w' = w_log w
        \<and> fence_rows (w_db w') = fence_rows (w_db w) \<and> stage_rows (w_db w') = stage_rows (w_db w)
        \<and> switch_rows (w_db w') = switch_rows (w_db w)"
  proof
    assume "\<not> is_ok (auto_checks env pc (w_tick w))"
    then obtain err where "auto_checks env pc (w_tick w) = Inl err" by (auto simp: is_ok_def split: sum.splits)
    with assms(2) have "failAutoCutover env pc None err w = (r, ns, w')" by (simp add: runAutoCutover_def)
    then show "r \<noteq> None \<and> w_log w' = w_log w
        \<and> fence_rows (w_db w') = fence_rows (w_db w) \<and> stage_rows (w_db w') = stage_rows (w_db w)
        \<and> switch_rows (w_db w') = switch_rows (w_db w)"
      by (auto simp: failAutoCutover_def cutoverTrafficRecordExists_def GetCutoverHistory_def CreateCutoverRecord_def
          Let_def db_read_def db_write_def split: prod.splits sum.splits fault.splits if_splits)
  qed
qed

text \<open>\<open>C4\<close>: the stage reports success of an automatic cutover only when the checks passed and, in this run or in
  earlier ones, the action of every one of the eleven steps of the cutover succeeded.\<close>

theorem auto_success_means_cutover_ran:
  assumes "(cut_step m)\<^sup>*\<^sup>* w0 w" and "cutover_fresh m w0"
    and m: "m = newCutoverMachine NewFencingAuthority (pc_MigrationID pc)"
    and "env_honest w" and "\<And>p r t. drivers_honest (se_drivers env p r t)"
    and "runAutoCutover env pc w = (None, ns, w')"
  shows "is_ok (auto_checks env pc (w_tick w))
    \<and> (\<forall>s. SubNone < s \<and> s < SubCompleted \<longrightarrow> (\<exists>e \<in> set (w_log w'). ev_step e = s \<and> is_ok (ev_result e)))"
proof -
  have fail: "failAutoCutover env pc out cause v \<noteq> (None, q)" for out cause q and v :: "'a switch_world"
    by (simp add: failAutoCutover_def Let_def split: prod.split)
  obtain dr cfg where ck: "auto_checks env pc (w_tick w) = Inr (dr, cfg)"
    using assms(6) by (auto simp: runAutoCutover_def fail split: sum.splits prod.splits)
  then have dr: "drivers_honest dr" "cr_MigrationID cfg = pc_MigrationID pc"
    using assms(5) by (auto simp: auto_checks_def auto_request_def Let_def split: if_splits option.splits sum.splits prod.splits)
  obtain out e w1 where run: "Run (se_sanitize env) m NewFencingAuthority dr cfg w = ((out, e), w1)" by (metis prod_cases3 prod.collapse)
  from assms(6) ck run m obtain o1 where o1: "e = None" "out = Some o1" and rec: "record_success pc w1 = (None, ns, w')"
    by (auto simp: runAutoCutover_def Let_def fail split: option.splits if_splits)
  have "w_log w' = w_log w1"
    using rec by (auto simp: record_success_def GetTrafficSwitchConfig_def CreateTrafficSwitchConfig_def CreateCutoverRecord_def
        cutoverTrafficRecordExists_def GetCutoverHistory_def split: prod.splits sum.splits bool.splits
        dest!: db_read_frames db_write_frames)
  with Run_completed_acted [OF assms(1,2) _ _ assms(4) dr(1)] run o1 dr(2) m ck show ?thesis
    by (auto simp: acted_def newCutoverMachine_def)
qed

subsection \<open>The observation ends\<close>

text \<open>A round of the loop waits half a minute.\<close>

definition clock_runs :: "('d, 'e) world \<Rightarrow> bool" where
  "clock_runs w \<longleftrightarrow> (\<forall>n. w_clock w n + 30 * second \<le> w_clock w (n + 3))"

lemma health_row_fields [simp]:
  "w_tick (snd (CreateHealthCheckResult r w)) = Suc (w_tick w)" "w_clock (snd (CreateHealthCheckResult r w)) = w_clock w"
  "w_env (snd (CreateHealthCheckResult r w)) = w_env w"
  by (simp_all add: CreateHealthCheckResult_def)

lemma health_row_added:
  "health_rows (w_db (snd (CreateHealthCheckResult r w))) = health_rows (w_db w)
   \<or> health_rows (w_db (snd (CreateHealthCheckResult r w))) = health_rows (w_db w) @ [r\<lparr>hc_ID := health_seq (w_db w) + 1\<rparr>]"
  by (auto simp: CreateHealthCheckResult_def db_write_def split: fault.split)

lemma observe_loop_returns:
  assumes "clock_runs w" and "deadline - w_now w \<le> int k * (30 * second)"
  shows "\<exists>res. observe_loop (Suc k) env pc deadline ns w = Some res"
  using assms
proof (induction k arbitrary: ns w)
  case 0
  then show ?case by (simp add: w_now_def)
next
  case (Suc k)
  let ?w2 = "snd (CreateHealthCheckResult (probe_result env pc (se_exec env (w_tick w))) (tick w))"
  have run: "clock_runs (tick ?w2)" using Suc.prems(1) by (simp add: clock_runs_def)
  have "w_clock w (w_tick w) + 30 * second \<le> w_clock w (w_tick w + 3)" using Suc.prems(1) by (simp add: clock_runs_def)
  then have "deadline - w_now (tick ?w2) \<le> int k * (30 * second)"
    using Suc.prems(2) by (simp add: w_now_def numeral_3_eq_3 algebra_simps)
  from Suc.IH [OF run this] show ?case
    by (subst observe_loop.simps) (simp del: observe_loop.simps add: Let_def split: option.split)
qed

text \<open>The answers of the probes that ran, in order, and how the loop judged them.\<close>

lemma observe_loop_result:
  assumes "observe_loop f env pc deadline ns w = Some (r, ns', w')"
  shows "(\<exists>n. w_tick w' = w_tick w + n \<and>
      (r = None \<longrightarrow> deadline \<le> w_now w' \<and> last ns' = (''observation'', ''success'')
         \<and> (mc_AutoRollbackOnError (pc_Config pc) \<longrightarrow>
             (\<forall>k. w_tick w + 3 * k < w_tick w' \<longrightarrow> healthy_probe (se_exec env (w_tick w + 3 * k))))))
    \<and> w_clock w' = w_clock w"
  using assms
proof (induction f arbitrary: ns w)
  case 0
  then show ?case by simp
next
  case (Suc f)
  let ?r = "se_exec env (w_tick w)"
  let ?w2 = "snd (CreateHealthCheckResult (probe_result env pc ?r) (tick w))"
  let ?ns1 = "(if healthy_probe ?r then ns else ns @ [(''observation'', ''warning'')]) @ [(''observation'', ''progress'')]"
  consider (over) "\<not> w_now w < deadline" "r = None" "ns' = ns @ [(''observation'', ''success'')]" "w' = w"
    | (stop) "r \<noteq> None" "w_tick w \<le> w_tick w'" "w_clock w' = w_clock w"
    | (again) "healthy_probe ?r \<or> \<not> mc_AutoRollbackOnError (pc_Config pc)"
        "observe_loop f env pc deadline ?ns1 (tick ?w2) = Some (r, ns', w')"
    using Suc.prems by (auto simp: Let_def split: if_splits option.splits dest: sym)
  then show ?case
  proof cases
    case over
    then show ?thesis by simp
  next
    case stop
    then show ?thesis using le_Suc_ex by auto
  next
    case again
    from Suc.IH [OF again(2)] obtain n where n: "w_tick w' = w_tick w + 3 + n" "w_clock w' = w_clock w"
      "r = None \<Longrightarrow> deadline \<le> w_now w' \<and> last ns' = (''observation'', ''success'')
         \<and> (mc_AutoRollbackOnError (pc_Config pc) \<longrightarrow>
             (\<forall>k. w_tick w + 3 + 3 * k < w_tick w' \<longrightarrow> healthy_probe (se_exec env (w_tick w + 3 + 3 * k))))"
      by (auto simp: numeral_3_eq_3)
    have "healthy_probe (se_exec env (w_tick w + 3 * k))"
      if "r = None" "mc_AutoRollbackOnError (pc_Config pc)" "w_tick w + 3 * k < w_tick w'" for k
      using that again(1) n(3) by (cases k) (auto simp: algebra_simps)
    then show ?thesis using n by (intro conjI exI [of _ "3 + n"]) auto
  qed
qed

lemma observe_loop_blind:
  assumes "observe_loop f env pc deadline ns w = Some (r, ns', w')"
    and "\<not> mc_AutoRollbackOnError (pc_Config pc)" and "\<And>n. se_ctxErr env n = None" and "\<And>n. se_wait env n = None"
  shows "r = None"
  using assms(1) by (induction f arbitrary: ns w) (auto simp: assms(2-4) Let_def split: if_splits)

text \<open>When a round takes at least half a minute, the observation ends within the rounds that its duration
  holds. It succeeds only after the whole duration, and with \<open>AutoRollbackOnError\<close> only if every probe was
  healthy. Without it the probes do not matter: unless the run is cancelled the stage succeeds and reports
  that the observation passed, whatever they answered.\<close>

theorem observation_ends:
  assumes "clock_runs w" and "observation_time pc \<le> int k * (30 * second)"
  shows "\<exists>r ns w'. postCutoverObservation_Execute (Suc k) env pc w = Some (r, ns, w')
    \<and> (r = None \<longrightarrow> w_now w + observation_time pc \<le> w_now w' \<and> last ns = (''observation'', ''success''))
    \<and> (r = None \<and> mc_AutoRollbackOnError (pc_Config pc) \<longrightarrow>
         (\<forall>j. w_tick w + 3 * j < w_tick w' \<longrightarrow> healthy_probe (se_exec env (w_tick w + 3 * j))))
    \<and> (\<not> mc_AutoRollbackOnError (pc_Config pc) \<and> (\<forall>n. se_ctxErr env n = None \<and> se_wait env n = None) \<longrightarrow> r = None)"
proof -
  have "w_now w + observation_time pc - w_now w \<le> int k * (30 * second)" using assms(2) by simp
  from observe_loop_returns [OF assms(1) this] obtain r ns w' where
    run: "postCutoverObservation_Execute (Suc k) env pc w = Some (r, ns, w')"
    unfolding postCutoverObservation_Execute_def by (metis prod_cases3)
  note loop = run [unfolded postCutoverObservation_Execute_def]
  show ?thesis using run observe_loop_result [OF loop] observe_loop_blind [OF loop] by blast
qed

subsection \<open>Concrete stages\<close>

definition demo_config :: "bool \<Rightarrow> MigrationConfig" where
  "demo_config auto = DefaultMigrationConfig\<lparr>mc_AutoCutover := auto, mc_TrafficConfig := ''server {}'',
     mc_ObservationDuration := 60 * second,
     mc_DatabaseConfig := Some \<lparr>dbc_Engine = ''Redis'', dbc_MigrationMode = '''', dbc_ExecMode = '''',
       dbc_DatabaseName = ''app'', dbc_Username = ''u'', dbc_Password = '''', dbc_Host = '''', dbc_Port = 0,
       dbc_Container = '''', dbc_ComposeService = '''', dbc_ComposeFile = ''''\<rparr>\<rparr>"

definition demo_context :: "bool \<Rightarrow> PipelineContext" where
  "demo_context auto = \<lparr>pc_MigrationID = 7, pc_Migration = \<lparr>mg_ID = 7, mg_SourceID = 3, mg_TargetID = 4,
       mg_Status = ''running'', mg_State = ''running'', mg_Error = '''', mg_CompletedAt = None, mg_Config = CfgEmpty\<rparr>,
     pc_Config = demo_config auto, pc_SourceSSH = Some 1, pc_TargetSSH = Some 2,
     pc_CheckpointData = Map.empty, pc_BackupRefs = Map.empty\<rparr>"

definition demo_env :: "cutover_drivers \<Rightarrow> string \<times> goerr option \<Rightarrow> stage_env" where
  "demo_env dr probe = \<lparr>se_policy = None, se_fenceCapable = True, se_GenerateHolder = (\<lambda>_. Inr ''a''),
     se_SourceHost = ''src'', se_TargetHost = ''tgt'', se_drivers = (\<lambda>p r t. dr), se_sanitize = id,
     se_exec = (\<lambda>_. probe), se_ctxErr = (\<lambda>_. None), se_wait = (\<lambda>_. None)\<rparr>"

definition demo_history_db :: "CutoverRecord list \<Rightarrow> unit history_db_scheme" where
  "demo_history_db cs = \<lparr>fence_rows = [], fence_seq = 0, stage_rows = [demo_stage_row CkEmpty], stage_seq = 1,
     switch_rows = [], switch_seq = 0, mig_rows = [pc_Migration (demo_context True)], audit_rows = [],
     cutover_rows = cs, cutover_seq = int (length cs), rollback_rows = [], rollback_seq = 0,
     health_rows = [], health_seq = 0\<rparr>"

definition demo_switch_world :: "CutoverRecord list \<Rightarrow> unit switch_world" where
  "demo_switch_world cs = calm_world (demo_history_db cs)"

lemmas demo_switch_defs = demo_config_def demo_context_def demo_env_def demo_history_db_def demo_switch_world_def
  calm_world_def

text \<open>A cutover whose promotion fails, after the traffic was switched.\<close>

definition failing_promote :: cutover_drivers where
  "failing_promote = demo_drivers\<lparr>dr_CutoverPromote := (\<lambda>n. Some (ErrF ''promote refused''))\<rparr>"

abbreviation demo_manual :: "goerr option \<times> messages \<times> unit switch_world" where
  "demo_manual \<equiv> trafficSwitch_Execute (demo_env demo_drivers ('''', None)) (demo_context False) (demo_switch_world [])"

abbreviation demo_auto :: "cutover_drivers \<Rightarrow> goerr option \<times> messages \<times> unit switch_world" where
  "demo_auto dr \<equiv> runAutoCutover (demo_env dr ('''', None)) (demo_context True) (demo_switch_world [])"

lemma triple_collapse: "x = (fst x, fst (snd x), snd (snd x))"
  by simp

lemma demo_switch_facts [simp]:
  "w_db (demo_switch_world cs) = demo_history_db cs" "fault_free (demo_switch_world cs)"
  "w_env (demo_switch_world cs) = (\<lambda>_. NoFault)" "pc_MigrationID (demo_context a) = 7"
  "mc_AutoCutover (pc_Config (demo_context a)) = a" "traffic_records (demo_history_db []) i = []"
  "switch_configs (demo_history_db cs) i = []" "cutover_rows (demo_history_db cs) = cs"
  by (simp_all add: demo_switch_defs fault_free_def traffic_records_def switch_configs_def DefaultMigrationConfig_def)

theorem manual_switch_recorded_once_witness:
  "fst demo_manual = Some ErrAwaitingCutover \<and> length (traffic_records (w_db (snd (snd demo_manual))) 7) \<le> 1
    \<and> list_all honest_record (cutover_rows (w_db (snd (snd demo_manual))))"
  using manual_switch_recorded_once [where d = "demo_history_db []" and pc = "demo_context False", OF rtranclp.rtrancl_refl
      _ _ _ _ triple_collapse, of "demo_switch_world []" "demo_env demo_drivers ('''', None)"]
  by (simp add: list_all_iff)

definition demo_switch_pipeline :: "unit history_db_ext Pipeline" where
  "demo_switch_pipeline = \<lparr>pl_stages = [], pl_GetByID = (\<lambda>s. Inr s), pl_ssh = (\<lambda>s srv. Inr s),
     pl_decrypt = None, pl_ctxErr = (\<lambda>_. None), pl_retryWait = (\<lambda>_ _. None), pl_pick = 0\<rparr>"


theorem auto_cutover_bookkeeping_witness:
  "length (cutover_rows (w_db (snd (snd (demo_auto failing_promote))))) = 1
    \<and> ch_TrafficSwitched (hd (cutover_rows (w_db (snd (snd (demo_auto failing_promote))))))
       = Option.is_none (fst (demo_auto failing_promote))"
  using auto_cutover_bookkeeping [OF _ triple_collapse, of "demo_switch_world []"
        "demo_env failing_promote ('''', None)" "demo_context True"]
  by (auto simp: Option.is_none_def)

theorem auto_cutover_gated_witness:
  "is_ok (auto_checks (demo_env demo_drivers ('''', None)) (demo_context True) (w_tick (demo_switch_world [])))"
proof -
  have "ToLower (TrimSpace ''Redis'') = ''redis''" by code_simp
  then show ?thesis
    using auto_cutover_gated [OF _ triple_collapse, of "demo_env demo_drivers ('''', None)" "demo_context True" "demo_switch_world []"]
    by (simp add: demo_env_def demo_context_def demo_config_def DefaultMigrationConfig_def)
qed

lemma demo_auto_checks:
  "auto_checks (demo_env demo_drivers ('''', None)) (demo_context True) n
     = Inr (demo_drivers, auto_request (demo_context True) ''a'' ''redis'')"
proof -
  have "ToLower (TrimSpace ''Redis'') = ''redis''" by code_simp
  then show ?thesis
    by (simp add: auto_checks_def demo_env_def demo_context_def demo_config_def DefaultMigrationConfig_def
        policyEngine_def CheckAutoCutover_def engine_gate provider_gate cutoverEngineType_def
        newTrafficSwitcher_def)
qed

lemma demo_auto_succeeds: "fst (demo_auto demo_drivers) = None"
proof -
  let ?cfg = "auto_request (demo_context True) ''a'' ''redis''" and ?m = "newCutoverMachine NewFencingAuthority 7"
  have "completed_run ?m SubPreflight (demo_switch_world []) (Run id ?m NewFencingAuthority demo_drivers ?cfg (demo_switch_world []))"
    using fresh_run_completes [of ?cfg demo_drivers "demo_switch_world []" ?m "demo_stage_row CkEmpty" id]
    by (simp add: auto_request_def newCutoverMachine_def demo_switch_world_def demo_history_db_def fence_wf_def
        stage_of_def is_stage_def lease_of_def demo_stage_row_def StageTrafficSwitch_def NewFencingAuthority_def
        FenceTTL_def second_def)
  then obtain o1 w1 where run: "Run id ?m NewFencingAuthority demo_drivers ?cfg (demo_switch_world []) = ((Some o1, None), w1)"
    "co_Completed o1" unfolding completed_run_def by blast
  have "fault_free w1" using Run_env [OF run(1)] by (simp add: fault_free_def)
  moreover obtain r ns w' where rec: "record_success (demo_context True) w1 = (r, ns, w')" by (rule prod_cases3)
  ultimately have "r = None" by (simp add: record_success_books)
  moreover have "se_sanitize (demo_env demo_drivers ('''', None)) = id" by (simp add: demo_env_def)
  ultimately show ?thesis using run rec by (simp add: runAutoCutover_def demo_auto_checks)
qed

theorem auto_success_means_cutover_ran_witness:
  "list_all (\<lambda>s. list_ex (\<lambda>e. ev_step e = s \<and> is_ok (ev_result e)) (w_log (snd (snd (demo_auto demo_drivers)))))
     [SubPreflight, SubFencingSource, SubSwitching, SubPromoting, SubObserving]"
proof -
  have none: "demo_auto demo_drivers = (None, fst (snd (demo_auto demo_drivers)), snd (snd (demo_auto demo_drivers)))"
    using demo_auto_succeeds by (simp add: prod_eq_iff)
  have fresh: "cutover_fresh (newCutoverMachine NewFencingAuthority 7) (demo_switch_world [])"
    by (simp add: cutover_fresh_def demo_switch_world_def demo_history_db_def demo_stage_row_def newCutoverMachine_def
        StageTrafficSwitch_def fence_wf_def stage_wf_def stage_of_def is_stage_def lease_of_def)
  have "list_ex (\<lambda>e. ev_step e = s \<and> is_ok (ev_result e)) (w_log (snd (snd (demo_auto demo_drivers))))"
    if "SubNone < s" "s < SubCompleted" for s
    using auto_success_means_cutover_ran [OF rtranclp.rtrancl_refl fresh _ _ _ none] that
    by (simp add: demo_env_def demo_switch_world_def list_ex_iff)
  then show ?thesis by (simp add: less_CutoverSubState_def)
qed

theorem observation_ends_witness:
  "\<exists>r ns w'. postCutoverObservation_Execute (Suc 2) (demo_env demo_drivers (''down'', None)) (demo_context True)
      ((demo_switch_world [])\<lparr>w_clock := \<lambda>n. int n * (10 * second)\<rparr>) = Some (r, ns, w')
    \<and> (r = None \<longrightarrow> last ns = (''observation'', ''success''))"
  using observation_ends [of "(demo_switch_world [])\<lparr>w_clock := \<lambda>n. int n * (10 * second)\<rparr>" "demo_context True" 2
      "demo_env demo_drivers (''down'', None)"]
  by (auto simp: clock_runs_def observation_time_def demo_context_def demo_config_def DefaultMigrationConfig_def
      second_def algebra_simps)

end
