(* ===== verification/DepGraph.thy ===== *)
theory DepGraph
  imports GoText
begin

section \<open>The dependency graph of a server (\<open>discovery/graph.go\<close>)\<close>

text \<open>
  The nodes and edges built from a snapshot, the topological sort, the search for cycles and the
  validation. Go iterates over a map in an arbitrary order: where the code does so, the order is an
  argument (\<open>order\<close>, a list of the keys). The labels that the workload classifier gives to the
  nodes are an argument too (\<open>label\<close>): the graph stores them and never reads them.
\<close>

subsection \<open>Data\<close>

record DependencyNode =
  nd_ID :: string
  nd_Name :: string
  nd_Type :: string
  nd_WorkloadType :: string
  nd_Port :: int

record DependencyEdge =
  ed_From :: string
  ed_To :: string
  ed_Reason :: string

record DependencyGraph =
  dg_Nodes :: "DependencyNode list"
  dg_Edges :: "DependencyEdge list"

text \<open>The parts of a snapshot that the builder reads.\<close>

record PortMapping =
  pm_HostPort :: int
  pm_ContainerPort :: int

record ContainerInfo =
  ci_Name :: string
  ci_Ports :: "PortMapping list"
  ci_Volumes :: "string list"
  ci_EnvVarNames :: "string list"

record DatabaseInfo =
  db_Type :: string
  db_Port :: int

record SystemService =
  sv_Name :: string
  sv_DependsOn :: "string list"

record NginxVHost =
  vh_ServerName :: string
  vh_ProxyPass :: string

record UpstreamConfig =
  up_Name :: string
  up_Servers :: "string list"

record NginxInfo =
  ng_VHosts :: "NginxVHost list"
  ng_Upstreams :: "UpstreamConfig list"

record MessageQueueInfo =
  mq_Type :: string
  mq_Port :: int

record ServerSnapshot =
  ss_Docker :: "ContainerInfo list option"
  ss_Services :: "SystemService list"
  ss_Databases :: "DatabaseInfo list"
  ss_Nginx :: "NginxInfo option"
  ss_MessageQueues :: "MessageQueueInfo list"

subsection \<open>Helpers\<close>

definition nodeExists :: "DependencyGraph \<Rightarrow> string \<Rightarrow> bool" where
  "nodeExists g i = list_ex (\<lambda>n. nd_ID n = i) (dg_Nodes g)"

definition hasEdge :: "DependencyGraph \<Rightarrow> string \<Rightarrow> string \<Rightarrow> bool" where
  "hasEdge g from to = list_ex (\<lambda>e. ed_From e = from \<and> ed_To e = to) (dg_Edges g)"

definition add_edge :: "string \<Rightarrow> string \<Rightarrow> string \<Rightarrow> DependencyGraph \<Rightarrow> DependencyGraph" where
  "add_edge from to reason g =
     g\<lparr>dg_Edges := dg_Edges g @ [\<lparr>ed_From = from, ed_To = to, ed_Reason = reason\<rparr>]\<rparr>"

definition extractPortFromURL :: "string \<Rightarrow> int" where
  "extractPortFromURL url =
     (let parts = split_at CHR '':'' url in
      if length parts < 3 then (if HasPrefix url ''https'' then 443 else 80)
      else (case Atoi (takeWhile (\<lambda>c. c \<noteq> CHR ''/'') (last parts)) of
              None \<Rightarrow> 0 | Some port \<Rightarrow> port))"

definition extractPortFromAddress :: "string \<Rightarrow> int" where
  "extractPortFromAddress addr = (case after_last CHR '':'' addr of
       None \<Rightarrow> 0
     | Some s \<Rightarrow> (case Atoi s of None \<Rightarrow> 0 | Some port \<Rightarrow> port))"

definition container_id :: "string \<Rightarrow> string" where
  "container_id name = ''container:'' @ name"

definition database_id :: "string \<Rightarrow> string" where
  "database_id name = ''database:'' @ name"

definition service_id :: "string \<Rightarrow> string" where
  "service_id name = ''service:'' @ name"

definition nginx_id :: "string \<Rightarrow> string" where
  "nginx_id name = ''nginx:'' @ name"

subsection \<open>The edge builders\<close>

definition buildContainerDatabaseEdges :: "ServerSnapshot \<Rightarrow> DependencyGraph \<Rightarrow> DependencyGraph" where
  "buildContainerDatabaseEdges snapshot g = (case ss_Docker snapshot of
       None \<Rightarrow> g
     | Some containers \<Rightarrow>
         if ss_Databases snapshot = [] then g
         else fold (\<lambda>c. fold (\<lambda>pm. fold (\<lambda>db g.
                if 0 < db_Port db \<and> pm_ContainerPort pm = db_Port db
                then add_edge (container_id (ci_Name c)) (database_id (db_Type db))
                       (''container exposes port '' @ string_of_int (db_Port db) @ '' matching ''
                          @ db_Type db @ '' database'') g
                else g) (ss_Databases snapshot)) (ci_Ports c)) containers g)"

text \<open>The host port of a container; the last container of a port wins.\<close>

definition port_to_container :: "ContainerInfo list \<Rightarrow> int \<Rightarrow> string option" where
  "port_to_container containers =
     fold (\<lambda>c. fold (\<lambda>pm m. if 0 < pm_HostPort pm then m(pm_HostPort pm \<mapsto> ci_Name c) else m) (ci_Ports c))
       containers Map.empty"

definition proxy_pass_edge :: "(int \<Rightarrow> string option) \<Rightarrow> NginxVHost \<Rightarrow> DependencyGraph \<Rightarrow> DependencyGraph" where
  "proxy_pass_edge ports vh g =
     (if vh_ProxyPass vh = [] then g
      else let port = extractPortFromURL (vh_ProxyPass vh) in
           if 0 < port then
             (case ports port of
                None \<Rightarrow> g
              | Some name \<Rightarrow> add_edge (nginx_id (vh_ServerName vh)) (container_id name)
                  (''proxy_pass to port '' @ string_of_int port @ '' (container '' @ name @ '')'') g)
           else g)"

definition upstream_edges ::
  "(int \<Rightarrow> string option) \<Rightarrow> NginxVHost list \<Rightarrow> UpstreamConfig \<Rightarrow> string \<Rightarrow> DependencyGraph \<Rightarrow> DependencyGraph" where
  "upstream_edges ports vhosts up addr g =
     (let port = extractPortFromAddress addr in
      if 0 < port then
        (case ports port of
           None \<Rightarrow> g
         | Some name \<Rightarrow> fold (\<lambda>vh g.
             if vh_ProxyPass vh \<noteq> [] \<and> Contains (vh_ProxyPass vh) (up_Name up)
             then add_edge (nginx_id (vh_ServerName vh)) (container_id name)
                    (''upstream '' @ up_Name up @ '' '' @ arrow @ '' port '' @ string_of_int port
                       @ '' (container '' @ name @ '')'') g
             else g) vhosts g)
      else g)"

definition buildNginxContainerEdges :: "ServerSnapshot \<Rightarrow> DependencyGraph \<Rightarrow> DependencyGraph" where
  "buildNginxContainerEdges snapshot g = (case (ss_Nginx snapshot, ss_Docker snapshot) of
       (Some nginx, Some containers) \<Rightarrow>
         (let ports = port_to_container containers in
          fold (\<lambda>up. fold (upstream_edges ports (ng_VHosts nginx) up) (up_Servers up)) (ng_Upstreams nginx)
            (fold (proxy_pass_edge ports) (ng_VHosts nginx) g))
     | _ \<Rightarrow> g)"

definition buildServiceDependencies :: "ServerSnapshot \<Rightarrow> DependencyGraph \<Rightarrow> DependencyGraph" where
  "buildServiceDependencies snapshot g =
     fold (\<lambda>svc. fold (\<lambda>dep g.
        if nodeExists g (service_id dep)
        then add_edge (service_id (sv_Name svc)) (service_id dep) ''systemd After/Requires dependency'' g
        else g) (sv_DependsOn svc)) (ss_Services snapshot) g"

definition buildServiceDatabaseEdges :: "ServerSnapshot \<Rightarrow> DependencyGraph \<Rightarrow> DependencyGraph" where
  "buildServiceDatabaseEdges snapshot g =
     fold (\<lambda>svc. fold (\<lambda>db g.
        if Contains (ToLower (sv_Name svc)) (db_Type db)
        then add_edge (service_id (sv_Name svc)) (database_id (db_Type db))
               (''service name matches '' @ db_Type db @ '' database'') g
        else g) (ss_Databases snapshot)) (ss_Services snapshot) g"

text \<open>What the name of an environment variable suggests: a port and a reason, or nothing.\<close>

definition env_target :: "ServerSnapshot \<Rightarrow> string \<Rightarrow> (int \<times> string) option" where
  "env_target snapshot env =
     (let u = ToUpper env in
      if Contains u ''DATABASE'' \<or> Contains u ''DB_'' \<or> Contains u ''MYSQL'' \<or> Contains u ''POSTGRES''
      then map_option (\<lambda>db. (db_Port db, ''env var '' @ env @ '' suggests database dependency''))
             (find (\<lambda>db. 0 < db_Port db) (ss_Databases snapshot))
      else if Contains u ''REDIS'' \<or> Contains u ''CACHE''
      then map_option (\<lambda>db. (db_Port db, ''env var '' @ env @ '' suggests Redis dependency''))
             (find (\<lambda>db. db_Type db = ''redis'' \<and> 0 < db_Port db) (ss_Databases snapshot))
      else if Contains u ''AMQP'' \<or> Contains u ''RABBIT'' \<or> Contains u ''QUEUE''
      then map_option (\<lambda>mq. (mq_Port mq, ''env var '' @ env @ '' suggests queue dependency''))
             (find (\<lambda>mq. 0 < mq_Port mq) (ss_MessageQueues snapshot))
      else None)"

text \<open>The node of a port; the last node of a port wins.\<close>

definition port_to_node :: "DependencyNode list \<Rightarrow> int \<Rightarrow> string option" where
  "port_to_node nodes =
     fold (\<lambda>n m. if 0 < nd_Port n then m(nd_Port n \<mapsto> nd_ID n) else m) nodes Map.empty"

definition env_edge ::
  "ServerSnapshot \<Rightarrow> (int \<Rightarrow> string option) \<Rightarrow> string \<Rightarrow> string \<Rightarrow> DependencyGraph \<Rightarrow> DependencyGraph" where
  "env_edge snapshot ports cid env g = (case env_target snapshot env of
       None \<Rightarrow> g
     | Some (port, reason) \<Rightarrow>
         (case ports port of
            None \<Rightarrow> g
          | Some target \<Rightarrow> if hasEdge g cid target then g else add_edge cid target reason g))"

definition buildEnvVarEdges :: "ServerSnapshot \<Rightarrow> DependencyGraph \<Rightarrow> DependencyGraph" where
  "buildEnvVarEdges snapshot g = (case ss_Docker snapshot of
       None \<Rightarrow> g
     | Some containers \<Rightarrow>
         (let ports = port_to_node (dg_Nodes g) in
          fold (\<lambda>c. fold (env_edge snapshot ports (container_id (ci_Name c))) (ci_EnvVarNames c)) containers g))"

text \<open>The containers that mount a volume, in order; a volume listed twice counts twice.\<close>

definition volume_containers :: "ContainerInfo list \<Rightarrow> string \<Rightarrow> string list" where
  "volume_containers containers =
     fold (\<lambda>c. fold (\<lambda>vol m. m(vol := m vol @ [ci_Name c])) (ci_Volumes c)) containers (\<lambda>_. [])"

fun volume_pairs :: "string \<Rightarrow> string list \<Rightarrow> DependencyGraph \<Rightarrow> DependencyGraph" where
  "volume_pairs vol [] g = g"
| "volume_pairs vol (x # xs) g = volume_pairs vol xs
     (fold (\<lambda>y g. let a = container_id x; b = container_id y in
        if \<not> hasEdge g a b \<and> \<not> hasEdge g b a then add_edge a b (''shared volume: '' @ vol) g else g) xs g)"

definition buildVolumeSharingEdges ::
  "string list \<Rightarrow> ServerSnapshot \<Rightarrow> DependencyGraph \<Rightarrow> DependencyGraph" where
  "buildVolumeSharingEdges order snapshot g = (case ss_Docker snapshot of
       None \<Rightarrow> g
     | Some containers \<Rightarrow>
         fold (\<lambda>vol g. let cs = volume_containers containers vol in
                       if 1 < length cs then volume_pairs vol cs g else g) order g)"

subsection \<open>The builder\<close>

definition build_nodes :: "(string \<Rightarrow> string) \<Rightarrow> ServerSnapshot \<Rightarrow> DependencyNode list" where
  "build_nodes label snapshot =
     (case ss_Docker snapshot of None \<Rightarrow> [] | Some containers \<Rightarrow>
        map (\<lambda>c. \<lparr>nd_ID = container_id (ci_Name c), nd_Name = ci_Name c, nd_Type = ''container'',
              nd_WorkloadType = label (container_id (ci_Name c)),
              nd_Port = (case ci_Ports c of [] \<Rightarrow> 0 | pm # _ \<Rightarrow> pm_ContainerPort pm)\<rparr>) containers)
     @ map (\<lambda>db. \<lparr>nd_ID = database_id (db_Type db), nd_Name = db_Type db, nd_Type = ''database'',
              nd_WorkloadType = label (database_id (db_Type db)), nd_Port = db_Port db\<rparr>) (ss_Databases snapshot)
     @ map (\<lambda>svc. \<lparr>nd_ID = service_id (sv_Name svc), nd_Name = sv_Name svc, nd_Type = ''service'',
              nd_WorkloadType = label (service_id (sv_Name svc)), nd_Port = 0\<rparr>) (ss_Services snapshot)
     @ (case ss_Nginx snapshot of None \<Rightarrow> [] | Some nginx \<Rightarrow>
        map (\<lambda>vh. \<lparr>nd_ID = nginx_id (vh_ServerName vh), nd_Name = vh_ServerName vh, nd_Type = ''nginx'',
              nd_WorkloadType = label (nginx_id (vh_ServerName vh)), nd_Port = 0\<rparr>) (ng_VHosts nginx))"

definition BuildDependencyGraph ::
  "(string \<Rightarrow> string) \<Rightarrow> string list \<Rightarrow> ServerSnapshot option \<Rightarrow> DependencyGraph" where
  "BuildDependencyGraph label order snapshot = (case snapshot of
       None \<Rightarrow> \<lparr>dg_Nodes = [], dg_Edges = []\<rparr>
     | Some s \<Rightarrow>
         buildVolumeSharingEdges order s
           (buildEnvVarEdges s
             (buildServiceDatabaseEdges s
               (buildServiceDependencies s
                 (buildNginxContainerEdges s
                   (buildContainerDatabaseEdges s \<lparr>dg_Nodes = build_nodes label s, dg_Edges = []\<rparr>))))))"

subsection \<open>Topological sort\<close>

text \<open>
  A map to \<open>int\<close> reads as zero where it has no key, and \<open>++\<close> on a missing key adds the key.
\<close>

definition deg :: "(string \<Rightarrow> int option) \<Rightarrow> string \<Rightarrow> int" where
  "deg m x = (case m x of None \<Rightarrow> 0 | Some d \<Rightarrow> d)"

definition adjacency :: "DependencyEdge list \<Rightarrow> string \<Rightarrow> string list" where
  "adjacency es = fold (\<lambda>e a. a(ed_To e := a (ed_To e) @ [ed_From e])) es (\<lambda>_. [])"

definition in_degrees :: "DependencyGraph \<Rightarrow> string \<Rightarrow> int option" where
  "in_degrees g =
     fold (\<lambda>e m. m(ed_From e \<mapsto> deg m (ed_From e) + 1)) (dg_Edges g)
       (fold (\<lambda>n m. m(nd_ID n \<mapsto> 0)) (dg_Nodes g) Map.empty)"

text \<open>The inner loop: decrement every dependent and collect those that reach zero.\<close>

fun release_dependents ::
  "string list \<Rightarrow> (string \<Rightarrow> int option) \<Rightarrow> string list \<times> (string \<Rightarrow> int option)" where
  "release_dependents [] m = ([], m)"
| "release_dependents (x # xs) m =
     (let v = deg m x - 1; (q, m') = release_dependents xs (m(x \<mapsto> v))
      in (if v = 0 then x # q else q, m'))"

text \<open>The nodes with a positive degree that can still be released.\<close>

definition pending :: "DependencyEdge list \<Rightarrow> (string \<Rightarrow> int option) \<Rightarrow> string set" where
  "pending es m = {x \<in> ed_From ` set es. 0 < deg m x}"

lemma adjacency_eq: "adjacency es n = map ed_From (filter (\<lambda>e. ed_To e = n) es)"
proof -
  have "fold (\<lambda>e a. a(ed_To e := a (ed_To e) @ [ed_From e])) es a n
          = a n @ map ed_From (filter (\<lambda>e. ed_To e = n) es)" for a
    by (induction es arbitrary: a) auto
  then show ?thesis by (simp add: adjacency_def)
qed

lemma deg_upd [simp]: "deg (m(x \<mapsto> v)) y = (if y = x then v else deg m y)"
  by (simp add: deg_def)

lemma pending_upd:
  "x \<in> ed_From ` set es \<Longrightarrow>
     pending es (m(x \<mapsto> v)) = (if 0 < v then insert x (pending es m) else pending es m - {x})"
  by (auto simp: pending_def)

lemma finite_pending [simp]: "finite (pending es m)"
  by (simp add: pending_def)

text \<open>Every released node leaves the pending ones.\<close>

lemma release_pending:
  "release_dependents xs m = (q, m') \<Longrightarrow> set xs \<subseteq> ed_From ` set es \<Longrightarrow>
     length q + card (pending es m') \<le> card (pending es m)"
proof (induction xs arbitrary: m q m')
  case (Cons x xs)
  let ?v = "deg m x - 1"
  obtain q1 where q1: "release_dependents xs (m(x \<mapsto> ?v)) = (q1, m')" and
    q: "q = (if ?v = 0 then x # q1 else q1)"
    using Cons.prems(1) by (auto simp: Let_def split: prod.splits)
  have x: "x \<in> ed_From ` set es" using Cons.prems(2) by simp
  have IH: "length q1 + card (pending es m') \<le> card (pending es (m(x \<mapsto> ?v)))"
    by (rule Cons.IH [OF q1]) (use Cons.prems(2) in simp)
  show ?case
  proof (cases "?v = 0")
    case True
    then have "x \<in> pending es m" using x by (simp add: pending_def)
    moreover have "pending es (m(x \<mapsto> ?v)) = pending es m - {x}"
      using pending_upd [OF x] True by simp
    ultimately have "Suc (card (pending es (m(x \<mapsto> ?v)))) = card (pending es m)"
      using card_Suc_Diff1 [OF finite_pending] by metis
    with IH q True show ?thesis by simp
  next
    case False
    have "pending es (m(x \<mapsto> ?v)) \<subseteq> pending es m"
      by (auto simp: pending_def split: if_splits)
    then have "card (pending es (m(x \<mapsto> ?v))) \<le> card (pending es m)"
      by (simp add: card_mono)
    with IH q False show ?thesis by simp
  qed
qed simp

function kahn ::
  "DependencyEdge list \<Rightarrow> string list \<Rightarrow> (string \<Rightarrow> int option) \<Rightarrow> string list \<Rightarrow> string list" where
  "kahn es [] m out = out"
| "kahn es (n # queue) m out =
     (let (q, m') = release_dependents (adjacency es n) m in kahn es (queue @ q) m' (out @ [n]))"
  by pat_completeness auto
termination
proof (relation "measure (\<lambda>(es, queue, m, out). length queue + card (pending es m))")
  fix es n queue m out x q m'
  assume x: "x = release_dependents (adjacency es n) m" and xq: "(q, m') = x"
  then have "release_dependents (adjacency es n) m = (q, m')" by simp
  moreover have "set (adjacency es n) \<subseteq> ed_From ` set es" by (auto simp: adjacency_eq)
  ultimately have "length q + card (pending es m') \<le> card (pending es m)" by (rule release_pending)
  then show "((es, queue @ q, m', out @ [n]), es, n # queue, m, out)
      \<in> measure (\<lambda>(es, queue, m, out). length queue + card (pending es m))"
    by simp
qed simp

text \<open>A map read at a missing key gives the zero value of its element type.\<close>

definition zero_node :: DependencyNode where
  "zero_node = \<lparr>nd_ID = [], nd_Name = [], nd_Type = [], nd_WorkloadType = [], nd_Port = 0\<rparr>"

definition node_map :: "DependencyNode list \<Rightarrow> string \<Rightarrow> DependencyNode" where
  "node_map nodes = fold (\<lambda>n m. m(nd_ID n := n)) nodes (\<lambda>_. zero_node)"

definition ErrCycle :: goerr where
  "ErrCycle = ErrF ''dependency cycle detected''"

definition TopologicalSort :: "string list \<Rightarrow> DependencyGraph \<Rightarrow> DependencyNode list res" where
  "TopologicalSort order g =
     (let m = in_degrees g;
          sorted = kahn (dg_Edges g) (filter (\<lambda>i. m i = Some 0) order) m []
      in if length sorted \<noteq> length (dg_Nodes g) then Inl ErrCycle
         else Inr (map (node_map (dg_Nodes g)) sorted))"

definition MigrationOrder :: "string list \<Rightarrow> DependencyGraph \<Rightarrow> DependencyNode list res" where
  "MigrationOrder order g = (case TopologicalSort order g of Inl err \<Rightarrow> Inl err | Inr s \<Rightarrow> Inr s)"

subsection \<open>Cycle detection and validation\<close>

record dfs_state =
  dfs_visited :: "string set"
  dfs_recStack :: "string set"
  dfs_path :: "string list"
  dfs_cycles :: "string list list"

definition successors :: "DependencyEdge list \<Rightarrow> string \<Rightarrow> string list" where
  "successors es = fold (\<lambda>e a. a(ed_From e := a (ed_From e) @ [ed_To e])) es (\<lambda>_. [])"

definition dfs_enter :: "string \<Rightarrow> dfs_state \<Rightarrow> dfs_state" where
  "dfs_enter n s = s\<lparr>dfs_visited := insert n (dfs_visited s), dfs_recStack := insert n (dfs_recStack s),
     dfs_path := dfs_path s @ [n]\<rparr>"

definition dfs_leave :: "string \<Rightarrow> dfs_state \<Rightarrow> dfs_state" where
  "dfs_leave n s = s\<lparr>dfs_path := butlast (dfs_path s), dfs_recStack := dfs_recStack s - {n}\<rparr>"

text \<open>The part of the path from the first occurrence of the node on.\<close>

definition record_cycle :: "string \<Rightarrow> dfs_state \<Rightarrow> dfs_state" where
  "record_cycle next s =
     (if next \<in> set (dfs_path s)
      then s\<lparr>dfs_cycles := dfs_cycles s @ [dropWhile (\<lambda>i. i \<noteq> next) (dfs_path s)]\<rparr> else s)"

text \<open>
  The loop over the successors of a node with the recursive call on each unvisited one; the outer loop
  over the nodes of the graph is the same loop with nothing on the stack.
\<close>

function (sequential) dfs_loop :: "DependencyEdge list \<Rightarrow> string list \<Rightarrow> dfs_state \<Rightarrow> dfs_state" where
  "dfs_loop es [] s = s"
| "dfs_loop es (n # ns) s =
     (if n \<notin> dfs_visited s
      then dfs_loop es ns (dfs_leave n (dfs_loop es (successors es n) (dfs_enter n s)))
      else if n \<in> dfs_recStack s then dfs_loop es ns (record_cycle n s)
      else dfs_loop es ns s)"
  by pat_completeness auto

lemma successors_eq: "successors es n = map ed_To (filter (\<lambda>e. ed_From e = n) es)"
proof -
  have "fold (\<lambda>e a. a(ed_From e := a (ed_From e) @ [ed_To e])) es a n
          = a n @ map ed_To (filter (\<lambda>e. ed_From e = n) es)" for a
    by (induction es arbitrary: a) auto
  then show ?thesis by (simp add: successors_def)
qed

lemma dfs_fields [simp]:
  "dfs_visited (dfs_enter n s) = insert n (dfs_visited s)"
  "dfs_recStack (dfs_enter n s) = insert n (dfs_recStack s)"
  "dfs_path (dfs_enter n s) = dfs_path s @ [n]"
  "dfs_cycles (dfs_enter n s) = dfs_cycles s"
  "dfs_visited (dfs_leave n s) = dfs_visited s"
  "dfs_recStack (dfs_leave n s) = dfs_recStack s - {n}"
  "dfs_path (dfs_leave n s) = butlast (dfs_path s)"
  "dfs_cycles (dfs_leave n s) = dfs_cycles s"
  "dfs_visited (record_cycle n s) = dfs_visited s"
  "dfs_recStack (record_cycle n s) = dfs_recStack s"
  "dfs_path (record_cycle n s) = dfs_path s"
  by (simp_all add: dfs_enter_def dfs_leave_def record_cycle_def)

lemma dfs_visited_mono:
  "dfs_loop_dom (es, ns, s) \<Longrightarrow> dfs_visited s \<subseteq> dfs_visited (dfs_loop es ns s)"
proof (induction rule: dfs_loop.pinduct)
  case (2 es n ns s)
  then show ?case by (simp add: dfs_loop.psimps) blast
qed (simp add: dfs_loop.psimps)

definition dfs_work :: "DependencyEdge list \<Rightarrow> string list \<Rightarrow> dfs_state \<Rightarrow> string set" where
  "dfs_work es ns s = (ed_To ` set es \<union> set ns) - dfs_visited s"

termination dfs_loop
proof (relation "(\<lambda>(es, ns, s). card (dfs_work es ns s)) <*mlex*> measure (\<lambda>(es, ns, s). length ns)")
  show "wf ((\<lambda>(es, ns, s). card (dfs_work es ns s)) <*mlex*> measure (\<lambda>(es, ns, s). length ns))"
    by (rule wf_mlex) simp
next
  fix es n ns and s :: dfs_state
  assume n: "n \<notin> dfs_visited s"
  have "dfs_work es (successors es n) (dfs_enter n s) \<subset> dfs_work es (n # ns) s"
    using n by (auto simp: dfs_work_def successors_eq)
  then have "card (dfs_work es (successors es n) (dfs_enter n s)) < card (dfs_work es (n # ns) s)"
    by (rule psubset_card_mono [rotated]) (simp add: dfs_work_def)
  then show "((es, successors es n, dfs_enter n s), es, n # ns, s)
      \<in> (\<lambda>(es, ns, s). card (dfs_work es ns s)) <*mlex*> measure (\<lambda>(es, ns, s). length ns)"
    by (simp add: mlex_less)
next
  fix es n ns and s :: dfs_state
  assume n: "n \<notin> dfs_visited s" and dom: "dfs_loop_dom (es, successors es n, dfs_enter n s)"
  have "insert n (dfs_visited s) \<subseteq> dfs_visited (dfs_loop es (successors es n) (dfs_enter n s))"
    using dfs_visited_mono [OF dom] by simp
  then have "dfs_work es ns (dfs_leave n (dfs_loop es (successors es n) (dfs_enter n s))) \<subset> dfs_work es (n # ns) s"
    using n by (auto simp: dfs_work_def)
  then have "card (dfs_work es ns (dfs_leave n (dfs_loop es (successors es n) (dfs_enter n s))))
      < card (dfs_work es (n # ns) s)"
    by (rule psubset_card_mono [rotated]) (simp add: dfs_work_def)
  then show "((es, ns, dfs_leave n (dfs_loop es (successors es n) (dfs_enter n s))), es, n # ns, s)
      \<in> (\<lambda>(es, ns, s). card (dfs_work es ns s)) <*mlex*> measure (\<lambda>(es, ns, s). length ns)"
    by (simp add: mlex_less)
next
  fix es n ns and s :: dfs_state
  assume n: "\<not> n \<notin> dfs_visited s"
  have "dfs_work es ns s \<subseteq> dfs_work es (n # ns) s" by (auto simp: dfs_work_def)
  then have le: "card (dfs_work es ns s) \<le> card (dfs_work es (n # ns) s)"
    by (rule card_mono [rotated]) (simp add: dfs_work_def)
  moreover have "dfs_work es ns (record_cycle n s) = dfs_work es ns s" by (simp add: dfs_work_def)
  ultimately show "((es, ns, record_cycle n s), es, n # ns, s)
      \<in> (\<lambda>(es, ns, s). card (dfs_work es ns s)) <*mlex*> measure (\<lambda>(es, ns, s). length ns)"
    "((es, ns, s), es, n # ns, s)
      \<in> (\<lambda>(es, ns, s). card (dfs_work es ns s)) <*mlex*> measure (\<lambda>(es, ns, s). length ns)"
    by (simp_all add: mlex_leq)
qed

definition DetectCycles :: "DependencyGraph \<Rightarrow> string list list" where
  "DetectCycles g = dfs_cycles (dfs_loop (dg_Edges g) (map nd_ID (dg_Nodes g))
     \<lparr>dfs_visited = {}, dfs_recStack = {}, dfs_path = [], dfs_cycles = []\<rparr>)"

definition HasCycle :: "DependencyGraph \<Rightarrow> bool" where
  "HasCycle g = (0 < length (DetectCycles g))"

record ValidationError =
  ve_NodeID :: string
  ve_Type :: string
  ve_Message :: string

definition missing_errors :: "DependencyGraph \<Rightarrow> DependencyEdge \<Rightarrow> ValidationError list" where
  "missing_errors g e =
     (if \<not> nodeExists g (ed_To e)
      then [\<lparr>ve_NodeID = ed_From e, ve_Type = ''missing_dependency'',
             ve_Message = ''node '' @ quoted (ed_From e) @ '' depends on '' @ quoted (ed_To e) @ '' which does not exist''\<rparr>]
      else [])
     @ (if \<not> nodeExists g (ed_From e)
        then [\<lparr>ve_NodeID = ed_To e, ve_Type = ''missing_dependency'',
               ve_Message = ''edge from '' @ quoted (ed_From e) @ '' does not exist as a node''\<rparr>]
        else [])"

definition self_errors :: "DependencyEdge \<Rightarrow> ValidationError list" where
  "self_errors e =
     (if ed_From e = ed_To e
      then [\<lparr>ve_NodeID = ed_From e, ve_Type = ''self_dependency'',
             ve_Message = ''node '' @ quoted (ed_From e) @ '' depends on itself''\<rparr>]
      else [])"

definition cycle_error :: "string list \<Rightarrow> ValidationError" where
  "cycle_error c = \<lparr>ve_NodeID = hd c, ve_Type = ''cycle'',
     ve_Message = ''dependency cycle detected: '' @ intersperse_concat ('' '' @ arrow @ '' '') c\<rparr>"

definition Validate :: "DependencyGraph \<Rightarrow> ValidationError list" where
  "Validate g = concat (map (missing_errors g) (dg_Edges g)) @ concat (map self_errors (dg_Edges g))
     @ map cycle_error (DetectCycles g)"

end
