(* ===== verification/DepGraphProofs.thy ===== *)
theory DepGraphProofs
  imports DepGraph "HOL-Library.Multiset"
begin

section \<open>Properties of the dependency graph\<close>

text \<open>
  The topological sort is correct for every iteration order of its map, it agrees with the search for
  cycles, every recorded cycle is one, and the graphs that the builder makes have no dangling edge.
\<close>

subsection \<open>Kahn's algorithm\<close>

definition dep_rel :: "DependencyEdge list \<Rightarrow> (string \<times> string) set" where
  "dep_rel es = (\<lambda>e. (ed_From e, ed_To e)) ` set es"

text \<open>Every node of the list comes after all its dependencies.\<close>

definition deps_first :: "DependencyEdge list \<Rightarrow> string list \<Rightarrow> bool" where
  "deps_first es xs = list_all (\<lambda>i. list_all (\<lambda>e. ed_From e = xs ! i \<longrightarrow> ed_To e \<in> set (take i xs)) es) [0..<length xs]"

lemma deps_first_Nil [simp]: "deps_first es []"
  by (simp add: deps_first_def)

lemma deps_first_snoc:
  "deps_first es (xs @ [x]) \<longleftrightarrow> deps_first es xs \<and> (\<forall>e \<in> set es. ed_From e = x \<longrightarrow> ed_To e \<in> set xs)"
  by (fastforce simp: deps_first_def list_all_iff nth_append)

text \<open>What is left to release: the edges to nodes that are not sorted yet.\<close>

definition remaining :: "DependencyEdge list \<Rightarrow> string list \<Rightarrow> string \<Rightarrow> nat" where
  "remaining es out x = length (filter (\<lambda>e. ed_From e = x \<and> ed_To e \<notin> set out) es)"

lemma remaining_snoc:
  "n \<notin> set out \<Longrightarrow> remaining es out x = remaining es (out @ [n]) x + count_list (adjacency es n) x"
  unfolding remaining_def adjacency_eq by (induction es) auto

lemma remaining_0: "remaining es out x = 0 \<longleftrightarrow> (\<forall>e \<in> set es. ed_From e = x \<longrightarrow> ed_To e \<in> set out)"
  by (auto simp: remaining_def filter_empty_conv)

lemma release_deg:
  "release_dependents xs m = (q, m') \<Longrightarrow> deg m' y = deg m y - int (count_list xs y)"
  by (induction xs arbitrary: m q) (auto simp: Let_def split: prod.splits if_splits)

lemma release_dom:
  "release_dependents xs m = (q, m') \<Longrightarrow> dom m' = dom m \<union> set xs"
  by (induction xs arbitrary: m q) (auto simp: Let_def split: prod.splits if_splits)

lemma release_queue:
  "release_dependents xs m = (q, m') \<Longrightarrow> (\<And>y. int (count_list xs y) \<le> deg m y) \<Longrightarrow>
     distinct q \<and> set q = {y \<in> set xs. deg m y = int (count_list xs y)}"
proof (induction xs arbitrary: m q)
  case (Cons x xs)
  let ?m = "m(x \<mapsto> deg m x - 1)"
  obtain q1 where q1: "release_dependents xs ?m = (q1, m')" and
    q: "q = (if deg m x - 1 = 0 then x # q1 else q1)"
    using Cons.prems(1) by (auto simp: Let_def split: prod.splits)
  have le: "int (count_list xs y) \<le> deg ?m y" for y
    using Cons.prems(2) [of y] by (auto split: if_splits)
  have IH: "distinct q1 \<and> set q1 = {y \<in> set xs. deg ?m y = int (count_list xs y)}"
    by (rule Cons.IH [OF q1]) (rule le)
  show ?case
  proof (cases "deg m x - 1 = 0")
    case True
    then have x: "x \<notin> set xs" using le [of x] count_list_0_iff [of xs x] by simp
    then have "count_list xs x = 0" by simp
    moreover have "set q1 = {y \<in> set xs. deg m y = int (count_list xs y)}"
      using IH x by auto
    ultimately show ?thesis using IH q True x by auto
  next
    case False
    then have "q = q1" using q by simp
    moreover have "count_list xs x \<noteq> 0" if "deg m x = int (count_list (x # xs) x)"
      using that False by simp
    ultimately show ?thesis using IH False count_list_0_iff [of xs x] by auto
  qed
qed simp

definition kahn_inv ::
  "DependencyEdge list \<Rightarrow> string set \<Rightarrow> string list \<Rightarrow> (string \<Rightarrow> int option) \<Rightarrow> string list \<Rightarrow> bool" where
  "kahn_inv es V queue m out \<longleftrightarrow>
     distinct (out @ queue) \<and> ed_From ` set es \<subseteq> V \<and> set (out @ queue) \<subseteq> V \<and>
     (\<forall>x. deg m x = int (remaining es out x)) \<and>
     (\<forall>x \<in> V. x \<in> set (out @ queue) \<longleftrightarrow> deg m x = 0) \<and> deps_first es out"

lemma kahn_inv_step:
  assumes inv: "kahn_inv es V (n # queue) m out"
    and rel: "release_dependents (adjacency es n) m = (q, m')"
  shows "kahn_inv es V (queue @ q) m' (out @ [n])"
proof -
  let ?c = "count_list (adjacency es n)"
  have I: "distinct (out @ n # queue)" "ed_From ` set es \<subseteq> V" "set (out @ n # queue) \<subseteq> V"
    "\<And>x. deg m x = int (remaining es out x)"
    "\<And>x. x \<in> V \<Longrightarrow> x \<in> set (out @ n # queue) \<longleftrightarrow> deg m x = 0" "deps_first es out"
    using inv unfolding kahn_inv_def by blast+
  have n: "n \<notin> set out" using I(1) by simp
  have rem: "remaining es out x = remaining es (out @ [n]) x + ?c x" for x
    by (rule remaining_snoc [OF n])
  have deg': "deg m' x = int (remaining es (out @ [n]) x)" for x
    using release_deg [OF rel, of x] I(4) [of x] rem [of x] by simp
  have le: "int (?c y) \<le> deg m y" for y using I(4) [of y] rem [of y] by simp
  have q: "distinct q \<and> set q = {y \<in> set (adjacency es n). deg m y = int (?c y)}"
    by (rule release_queue [OF rel]) (rule le)
  have adj: "set (adjacency es n) \<subseteq> V" using I(2) by (auto simp: adjacency_eq)
  have fresh: "0 < deg m y" if "y \<in> set q" for y
    using q that count_list_0_iff [of "adjacency es n" y] by (metis (mono_tags, lifting) gr0I mem_Collect_eq of_nat_0_less_iff)
  have disj: "set q \<inter> set (out @ n # queue) = {}"
    using fresh I(5) adj q by fastforce
  have iff: "x \<in> set (out @ n # queue @ q) \<longleftrightarrow> deg m' x = 0" if "x \<in> V" for x
  proof (cases "x \<in> set (adjacency es n)")
    case True
    then have "0 < ?c x" using count_list_0_iff by (metis gr0I)
    moreover have "deg m' x = deg m x - int (?c x)" by (rule release_deg [OF rel])
    moreover have "x \<notin> set (out @ n # queue)" using I(5) [OF that] le [of x] \<open>0 < ?c x\<close> by simp
    ultimately show ?thesis using q True by auto
  next
    case False
    then have "?c x = 0" by simp
    with False q I(5) [OF that] release_deg [OF rel, of x] show ?thesis by auto
  qed
  have "remaining es out n = 0" using I(3) I(4) [of n] I(5) [of n] by simp
  then have first: "\<forall>e \<in> set es. ed_From e = n \<longrightarrow> ed_To e \<in> set out" by (simp add: remaining_0)
  show ?thesis
    unfolding kahn_inv_def
    using I(1-3,6) q adj disj deg' iff first by (auto simp: deps_first_snoc)
qed

lemma kahn_inv_final: "kahn_inv es V queue m out \<Longrightarrow> \<exists>m'. kahn_inv es V [] m' (kahn es queue m out)"
proof (induction es queue m out rule: kahn.induct)
  case (2 es n queue m out)
  obtain q m' where rel: "release_dependents (adjacency es n) m = (q, m')" by fastforce
  with 2 kahn_inv_step [OF 2(2) rel] show ?case by simp
qed auto

lemma in_degrees_deg: "deg (in_degrees g) x = int (remaining (dg_Edges g) [] x)"
proof -
  have *: "deg (fold (\<lambda>e m. m(ed_From e \<mapsto> deg m (ed_From e) + 1)) es m) x = deg m x + int (remaining es [] x)" for es m
    by (induction es arbitrary: m) (auto simp: remaining_def)
  have "deg m x = 0 \<Longrightarrow> deg (fold (\<lambda>n m. m(nd_ID n \<mapsto> 0)) ns m) x = 0" for ns m
    by (induction ns arbitrary: m) auto
  from this [of Map.empty "dg_Nodes g"] show ?thesis
    unfolding in_degrees_def * by (simp add: deg_def)
qed

lemma in_degrees_dom: "dom (in_degrees g) = nd_ID ` set (dg_Nodes g) \<union> ed_From ` set (dg_Edges g)"
proof -
  have *: "dom (fold (\<lambda>e m. m(ed_From e \<mapsto> deg m (ed_From e) + 1)) es m) = dom m \<union> ed_From ` set es" for es m
    by (induction es arbitrary: m) auto
  have "dom (fold (\<lambda>n m. m(nd_ID n \<mapsto> 0)) ns m) = dom m \<union> nd_ID ` set ns" for ns and m :: "string \<Rightarrow> int option"
    by (induction ns arbitrary: m) auto
  from this [of "dg_Nodes g" Map.empty] show ?thesis unfolding in_degrees_def * by simp
qed

text \<open>An iteration order of the map of degrees: each of its keys once.\<close>

definition iterates :: "string list \<Rightarrow> DependencyGraph \<Rightarrow> bool" where
  "iterates order g \<longleftrightarrow> distinct order \<and> set order = dom (in_degrees g)"

definition sorted_ids :: "string list \<Rightarrow> DependencyGraph \<Rightarrow> string list" where
  "sorted_ids order g =
     kahn (dg_Edges g) (filter (\<lambda>i. in_degrees g i = Some 0) order) (in_degrees g) []"

lemma TopologicalSort_sorted_ids:
  "TopologicalSort order g =
     (if length (sorted_ids order g) \<noteq> length (dg_Nodes g) then Inl ErrCycle
      else Inr (map (node_map (dg_Nodes g)) (sorted_ids order g)))"
  by (simp add: TopologicalSort_def sorted_ids_def Let_def)

lemma sorted_ids_props:
  assumes "iterates order g"
  shows "distinct (sorted_ids order g)" "set (sorted_ids order g) \<subseteq> dom (in_degrees g)"
    "deps_first (dg_Edges g) (sorted_ids order g)"
    "\<And>x. x \<in> dom (in_degrees g) \<Longrightarrow> x \<in> set (sorted_ids order g) \<longleftrightarrow>
       (\<forall>e \<in> set (dg_Edges g). ed_From e = x \<longrightarrow> ed_To e \<in> set (sorted_ids order g))"
proof -
  let ?V = "dom (in_degrees g)" and ?q = "filter (\<lambda>i. in_degrees g i = Some 0) order"
  have "x \<in> set ?q \<longleftrightarrow> deg (in_degrees g) x = 0" if "x \<in> ?V" for x
    using that assms by (auto simp: iterates_def deg_def)
  then have "kahn_inv (dg_Edges g) ?V ?q (in_degrees g) []"
    using assms by (auto simp: kahn_inv_def iterates_def in_degrees_deg in_degrees_dom)
  then obtain m' where inv: "kahn_inv (dg_Edges g) ?V [] m' (sorted_ids order g)"
    using kahn_inv_final unfolding sorted_ids_def by blast
  then show "distinct (sorted_ids order g)" "set (sorted_ids order g) \<subseteq> ?V"
    "deps_first (dg_Edges g) (sorted_ids order g)"
    by (simp_all add: kahn_inv_def)
  show "x \<in> set (sorted_ids order g) \<longleftrightarrow>
       (\<forall>e \<in> set (dg_Edges g). ed_From e = x \<longrightarrow> ed_To e \<in> set (sorted_ids order g))" if "x \<in> ?V" for x
    using inv that remaining_0 [of "dg_Edges g" "sorted_ids order g" x] by (simp add: kahn_inv_def)
qed

subsection \<open>What the sort returns\<close>

definition node_ids :: "DependencyGraph \<Rightarrow> string list" where
  "node_ids g = map nd_ID (dg_Nodes g)"

text \<open>Every edge starts at a node; every edge ends at one.\<close>

definition sources_exist :: "DependencyGraph \<Rightarrow> bool" where
  "sources_exist g = list_all (\<lambda>e. nodeExists g (ed_From e)) (dg_Edges g)"

definition targets_exist :: "DependencyGraph \<Rightarrow> bool" where
  "targets_exist g = list_all (\<lambda>e. nodeExists g (ed_To e)) (dg_Edges g)"

lemma nodeExists_iff: "nodeExists g i \<longleftrightarrow> i \<in> set (node_ids g)"
  by (auto simp: nodeExists_def node_ids_def list_ex_iff)

lemma in_degrees_nodes: "sources_exist g \<Longrightarrow> dom (in_degrees g) = set (node_ids g)"
  by (auto simp: in_degrees_dom sources_exist_def list_all_iff nodeExists_iff node_ids_def)

lemma node_map_id: "distinct (map nd_ID ns) \<Longrightarrow> n \<in> set ns \<Longrightarrow> node_map ns (nd_ID n) = n"
proof -
  have other: "i \<notin> nd_ID ` set ns \<Longrightarrow> fold (\<lambda>n m. m(nd_ID n := n)) ns f i = f i" for f ns i
    by (induction ns arbitrary: f) auto
  have "distinct (map nd_ID ns) \<Longrightarrow> n \<in> set ns \<Longrightarrow> fold (\<lambda>n m. m(nd_ID n := n)) ns f (nd_ID n) = n" for f
    by (induction ns arbitrary: f) (auto simp: other)
  then show "distinct (map nd_ID ns) \<Longrightarrow> n \<in> set ns \<Longrightarrow> node_map ns (nd_ID n) = n"
    by (simp add: node_map_def)
qed

lemma sorted_ids_complete:
  assumes "iterates order g" "sources_exist g" "distinct (node_ids g)"
  shows "length (sorted_ids order g) = length (dg_Nodes g) \<longleftrightarrow> set (sorted_ids order g) = set (node_ids g)"
proof
  have sub: "set (sorted_ids order g) \<subseteq> set (node_ids g)"
    using sorted_ids_props(2) [OF assms(1)] in_degrees_nodes [OF assms(2)] by simp
  have card: "card (set (sorted_ids order g)) = length (sorted_ids order g)"
    by (rule distinct_card [OF sorted_ids_props(1) [OF assms(1)]])
  have card': "card (set (node_ids g)) = length (dg_Nodes g)"
    using distinct_card [OF assms(3)] by (simp add: node_ids_def)
  show "length (sorted_ids order g) = length (dg_Nodes g) \<Longrightarrow> set (sorted_ids order g) = set (node_ids g)"
    using sub card card' by (simp add: card_subset_eq)
  show "set (sorted_ids order g) = set (node_ids g) \<Longrightarrow> length (sorted_ids order g) = length (dg_Nodes g)"
    using card card' by simp
qed

lemma TopologicalSort_permutation:
  assumes "iterates order g" "sources_exist g" "distinct (node_ids g)"
    and res: "TopologicalSort order g = Inr res"
  shows "mset res = mset (dg_Nodes g) \<and> deps_first (dg_Edges g) (map nd_ID res)"
proof -
  let ?s = "sorted_ids order g"
  have len: "length ?s = length (dg_Nodes g)" and r: "res = map (node_map (dg_Nodes g)) ?s"
    using res by (auto simp: TopologicalSort_sorted_ids split: if_splits)
  then have set_s: "set ?s = set (node_ids g)" using sorted_ids_complete [OF assms(1-3)] by simp
  have id: "nd_ID (node_map (dg_Nodes g) i) = i" if "i \<in> set ?s" for i
    using that set_s node_map_id assms(3) by (auto simp: node_ids_def)
  then have ids: "map nd_ID res = ?s" using r by (simp add: map_idI)
  have "distinct (map nd_ID res)" using ids sorted_ids_props(1) [OF assms(1)] by simp
  then have "distinct res" by (simp add: distinct_map)
  moreover have "distinct (dg_Nodes g)" using assms(3) by (simp add: node_ids_def distinct_map)
  moreover have "set res = set (dg_Nodes g)"
    using r set_s node_map_id [of "dg_Nodes g"] assms(3) by (force simp: node_ids_def image_iff)
  ultimately have "mset res = mset (dg_Nodes g)" by (simp add: set_eq_iff_mset_eq_distinct)
  then show ?thesis using ids sorted_ids_props(3) [OF assms(1)] by simp
qed

text \<open>Two nodes with one identifier are always reported as a cycle.\<close>

lemma duplicate_ids_fail:
  assumes "iterates order g" "sources_exist g" "\<not> distinct (node_ids g)"
  shows "TopologicalSort order g = Inl ErrCycle"
proof -
  have "length (sorted_ids order g) = card (set (sorted_ids order g))"
    using distinct_card [OF sorted_ids_props(1) [OF assms(1)]] by simp
  also have "\<dots> \<le> card (set (node_ids g))"
    using sorted_ids_props(2) [OF assms(1)] in_degrees_nodes [OF assms(2)] by (simp add: card_mono)
  also have "\<dots> < length (dg_Nodes g)"
    using assms(3) card_length [of "node_ids g"] card_distinct [of "node_ids g"]
    by (fastforce simp: node_ids_def)
  finally show ?thesis by (simp add: TopologicalSort_sorted_ids)
qed

lemma deps_first_acyclic:
  assumes "deps_first es xs" "ed_From ` set es \<subseteq> set xs"
  shows "acyclic (dep_rel es)"
proof -
  have "first_index xs (ed_To e) < first_index xs (ed_From e)" if e: "e \<in> set es" for e
  proof (rule first_index_take)
    have "first_index xs (ed_From e) < length xs \<and> xs ! first_index xs (ed_From e) = ed_From e"
      using assms(2) e by (intro first_index_nth) auto
    then show "ed_To e \<in> set (take (first_index xs (ed_From e)) xs)"
      using assms(1) e by (auto simp: deps_first_def list_all_iff)
  qed
  then have "(dep_rel es)\<inverse> \<subseteq> measure (first_index xs)" by (auto simp: dep_rel_def)
  then show ?thesis using acyclic_converse acyclic_subset wf_acyclic wf_measure by metis
qed

lemma TopologicalSort_fails_iff:
  assumes "iterates order g" "sources_exist g" "targets_exist g" "distinct (node_ids g)"
  shows "TopologicalSort order g = Inl ErrCycle \<longleftrightarrow> \<not> acyclic (dep_rel (dg_Edges g))"
proof -
  let ?s = "sorted_ids order g" and ?r = "dep_rel (dg_Edges g)" and ?V = "set (node_ids g)"
  note props = sorted_ids_props [OF assms(1)] and dom = in_degrees_nodes [OF assms(2)]
  have sub: "set ?s \<subseteq> ?V" using props(2) dom by simp
  have "acyclic ?r" if "set ?s = ?V"
    using deps_first_acyclic [OF props(3)] that assms(2)
    by (auto simp: sources_exist_def list_all_iff nodeExists_iff)
  moreover have "\<not> acyclic ?r" if ne: "set ?s \<noteq> ?V"
  proof
    assume "acyclic ?r"
    then have wf: "wf (?r\<inverse>)" by (simp add: dep_rel_def finite_acyclic_wf_converse)
    obtain x where "x \<in> ?V - set ?s" using ne sub by auto
    then obtain z where z: "z \<in> ?V - set ?s" and min: "\<And>y. (y, z) \<in> ?r\<inverse> \<Longrightarrow> y \<notin> ?V - set ?s"
      using wfE_min [OF wf, of x "?V - set ?s"] by metis
    then obtain e where e: "e \<in> set (dg_Edges g)" "ed_From e = z" "ed_To e \<notin> set ?s"
      using props(4) [of z] dom by auto
    then have "(ed_To e, z) \<in> ?r\<inverse>" by (auto simp: dep_rel_def)
    moreover have "ed_To e \<in> ?V" using e(1) assms(3) by (auto simp: targets_exist_def list_all_iff nodeExists_iff)
    ultimately show False using min e(3) by blast
  qed
  ultimately show ?thesis
    using sorted_ids_complete [OF assms(1,2,4)] by (auto simp: TopologicalSort_sorted_ids)
qed

subsection \<open>The search for cycles\<close>

text \<open>A cycle: no node twice, and an edge from each node to the next and from the last to the first.\<close>

definition is_cycle :: "DependencyEdge list \<Rightarrow> string list \<Rightarrow> bool" where
  "is_cycle es c \<longleftrightarrow> c \<noteq> [] \<and> distinct c \<and>
     successively (\<lambda>x y. list_ex (\<lambda>e. ed_From e = x \<and> ed_To e = y) es) (c @ [hd c])"

abbreviation edge_in :: "DependencyEdge list \<Rightarrow> string \<Rightarrow> string \<Rightarrow> bool" where
  "edge_in es x y \<equiv> list_ex (\<lambda>e. ed_From e = x \<and> ed_To e = y) es"

lemma edge_in_rel: "edge_in es x y \<longleftrightarrow> (x, y) \<in> dep_rel es"
  by (auto simp: dep_rel_def list_ex_iff)

lemma successors_rel: "y \<in> set (successors es x) \<longleftrightarrow> (x, y) \<in> dep_rel es"
  by (auto simp: successors_eq dep_rel_def)

text \<open>The stack is the path of the recursion, and it is a walk.\<close>

definition dfs_stack :: "DependencyEdge list \<Rightarrow> dfs_state \<Rightarrow> bool" where
  "dfs_stack es s \<longleftrightarrow> distinct (dfs_path s) \<and> dfs_recStack s = set (dfs_path s) \<and>
     set (dfs_path s) \<subseteq> dfs_visited s \<and> successively (edge_in es) (dfs_path s)"

lemma dfs_stack_enter:
  assumes "dfs_stack es s" "n \<notin> dfs_visited s" "dfs_path s = [] \<or> n \<in> set (successors es (last (dfs_path s)))"
  shows "dfs_stack es (dfs_enter n s)"
  using assms by (auto simp: dfs_stack_def successively_append_iff edge_in_rel successors_rel)

lemma dfs_stack_leave:
  assumes "dfs_stack es s" "dfs_path s = p @ [n]"
  shows "dfs_stack es (dfs_leave n s)"
  using assms by (auto simp: dfs_stack_def successively_append_iff)

lemma dfs_stack_record: "dfs_stack es s \<Longrightarrow> dfs_stack es (record_cycle n s)"
  by (simp add: dfs_stack_def)

text \<open>A successor of the last node of the path that lies on the path closes a cycle.\<close>

lemma record_cycle_sound:
  assumes stack: "dfs_stack es s" and n: "n \<in> set (dfs_path s)"
    and succ: "n \<in> set (successors es (last (dfs_path s)))"
  shows "is_cycle es (dropWhile (\<lambda>i. i \<noteq> n) (dfs_path s))"
proof -
  obtain a b where ab: "dfs_path s = a @ n # b" and a: "n \<notin> set a"
    using n by (meson split_list_first)
  have c: "dropWhile (\<lambda>i. i \<noteq> n) (dfs_path s) = n # b"
    using a unfolding ab by (subst dropWhile_append2) auto
  have "edge_in es (last (n # b)) n" using succ ab by (simp add: edge_in_rel successors_rel)
  moreover have "successively (edge_in es) (n # b)" "distinct (n # b)"
    using stack ab by (auto simp: dfs_stack_def successively_append_iff)
  ultimately show ?thesis unfolding c is_cycle_def successively_append_iff by simp
qed

text \<open>What one call of the loop keeps, and that it only records cycles.\<close>

lemma dfs_loop_frame:
  assumes "dfs_stack es s" "dfs_path s = [] \<or> set ns \<subseteq> set (successors es (last (dfs_path s)))"
    "list_all (is_cycle es) (dfs_cycles s)"
  shows "dfs_stack es (dfs_loop es ns s) \<and> dfs_path (dfs_loop es ns s) = dfs_path s \<and>
    list_all (is_cycle es) (dfs_cycles (dfs_loop es ns s)) \<and>
    dfs_visited s \<subseteq> dfs_visited (dfs_loop es ns s) \<and> set ns \<subseteq> dfs_visited (dfs_loop es ns s) \<and>
    (\<exists>cs. dfs_cycles (dfs_loop es ns s) = dfs_cycles s @ cs)"
  using assms
proof (induction es ns s rule: dfs_loop.induct)
  case (2 es n ns s)
  show ?case
  proof (cases "n \<notin> dfs_visited s")
    case True
    let ?t = "dfs_loop es (successors es n) (dfs_enter n s)"
    have enter: "dfs_stack es (dfs_enter n s)" using "2.prems" True by (intro dfs_stack_enter) auto
    have t: "dfs_stack es ?t" "dfs_path ?t = dfs_path s @ [n]" "list_all (is_cycle es) (dfs_cycles ?t)"
      "insert n (dfs_visited s) \<subseteq> dfs_visited ?t" "\<exists>cs. dfs_cycles ?t = dfs_cycles s @ cs"
      using "2.IH"(1) [OF True enter] "2.prems"(3) by auto
    have "dfs_stack es (dfs_leave n ?t)" using t by (intro dfs_stack_leave) auto
    moreover have "dfs_path (dfs_leave n ?t) = dfs_path s" using t by simp
    ultimately show ?thesis using "2.IH"(2) [OF True] "2.prems"(2) t True by auto
  next
    case False
    show ?thesis
    proof (cases "n \<in> dfs_recStack s")
      case rec: True
      then have n: "n \<in> set (dfs_path s)" using "2.prems"(1) by (simp add: dfs_stack_def)
      then have "dfs_path s \<noteq> []" by auto
      then have "is_cycle es (dropWhile (\<lambda>i. i \<noteq> n) (dfs_path s))"
        using record_cycle_sound [OF "2.prems"(1) n] "2.prems"(2) by simp
      then have "list_all (is_cycle es) (dfs_cycles (record_cycle n s))"
        using "2.prems"(3) n by (simp add: record_cycle_def)
      moreover have "\<exists>cs. dfs_cycles (record_cycle n s) = dfs_cycles s @ cs" by (simp add: record_cycle_def)
      ultimately show ?thesis
        using "2.IH"(3) [OF _ rec] False rec "2.prems"(2) dfs_stack_record [OF "2.prems"(1)] by auto
    next
      case norec: False
      with False 2 show ?thesis by auto
    qed
  qed
qed auto

text \<open>As long as nothing is recorded, the finished nodes are closed and without a cycle.\<close>

definition finished :: "dfs_state \<Rightarrow> string set" where
  "finished s = dfs_visited s - dfs_recStack s"

definition dfs_clean :: "DependencyEdge list \<Rightarrow> dfs_state \<Rightarrow> bool" where
  "dfs_clean es s \<longleftrightarrow> dep_rel es `` finished s \<subseteq> finished s \<and> acyclic (dep_rel es \<inter> finished s \<times> UNIV)"

lemma dfs_clean_leave:
  assumes clean: "dfs_clean es s" and vis: "n \<in> dfs_visited s" and rec: "n \<in> dfs_recStack s"
    and succ: "set (successors es n) \<subseteq> finished s"
  shows "dfs_clean es (dfs_leave n s)" and "finished (dfs_leave n s) = insert n (finished s)"
proof -
  let ?F = "finished s" and ?R = "dep_rel es"
  show fin: "finished (dfs_leave n s) = insert n ?F" using vis by (auto simp: finished_def)
  have n: "n \<notin> ?F" using rec by (simp add: finished_def)
  have out: "y \<in> ?F" if "(x, y) \<in> ?R" "x \<in> insert n ?F" for x y
    using that clean succ by (auto simp: dfs_clean_def successors_rel)
  have inF: "y \<in> ?F" if "(x, y) \<in> (?R \<inter> insert n ?F \<times> UNIV)\<^sup>+" for x y
    using that by (induction rule: trancl_induct) (auto intro: out)
  have tr: "(x, y) \<in> (?R \<inter> ?F \<times> UNIV)\<^sup>+" if "(x, y) \<in> (?R \<inter> insert n ?F \<times> UNIV)\<^sup>+" "x \<in> ?F" for x y
    using that
  proof (induction rule: trancl_induct)
    case (step y z)
    then have "(y, z) \<in> ?R \<inter> ?F \<times> UNIV" using inF [OF step(1)] by auto
    with step show ?case by (auto intro: trancl_into_trancl)
  qed auto
  have "acyclic (?R \<inter> insert n ?F \<times> UNIV)"
  proof (rule acyclicI, rule allI, rule notI)
    fix x assume x: "(x, x) \<in> (?R \<inter> insert n ?F \<times> UNIV)\<^sup>+"
    then have "(x, x) \<in> (?R \<inter> ?F \<times> UNIV)\<^sup>+" using tr inF by blast
    then show False using clean by (auto simp: dfs_clean_def acyclic_def)
  qed
  then show "dfs_clean es (dfs_leave n s)" using out by (auto simp: dfs_clean_def fin)
qed

lemma dfs_loop_clean:
  assumes "dfs_stack es s" "dfs_path s = [] \<or> set ns \<subseteq> set (successors es (last (dfs_path s)))"
    "list_all (is_cycle es) (dfs_cycles s)" "dfs_clean es s" "dfs_cycles (dfs_loop es ns s) = []"
  shows "dfs_clean es (dfs_loop es ns s) \<and> set ns \<subseteq> finished (dfs_loop es ns s) \<and>
    finished s \<subseteq> finished (dfs_loop es ns s)"
  using assms
proof (induction es ns s rule: dfs_loop.induct)
  case (2 es n ns s)
  show ?case
  proof (cases "n \<notin> dfs_visited s")
    case True
    let ?e = "dfs_enter n s" let ?t = "dfs_loop es (successors es n) ?e" let ?l = "dfs_leave n ?t"
    have enter: "dfs_stack es ?e" using "2.prems" True by (intro dfs_stack_enter) auto
    have fin_e: "finished ?e = finished s" using True "2.prems"(1) by (auto simp: finished_def dfs_stack_def)
    have last: "dfs_path ?e = [] \<or> set (successors es n) \<subseteq> set (successors es (last (dfs_path ?e)))"
      by simp
    have cyc: "list_all (is_cycle es) (dfs_cycles ?e)" using "2.prems"(3) by simp
    note f = dfs_loop_frame [OF enter last cyc]
    have leave: "dfs_stack es ?l" using f by (intro dfs_stack_leave) auto
    have path_l: "dfs_path ?l = dfs_path s" using f by simp
    have ns: "dfs_path ?l = [] \<or> set ns \<subseteq> set (successors es (last (dfs_path ?l)))"
      using "2.prems"(2) path_l by auto
    have cyc_l: "list_all (is_cycle es) (dfs_cycles ?l)" using f by simp
    have run: "dfs_loop es (n # ns) s = dfs_loop es ns ?l" using True by simp
    then have "dfs_cycles (dfs_loop es ns ?l) = []" using "2.prems"(5) by simp
    moreover obtain cs where "dfs_cycles (dfs_loop es ns ?l) = dfs_cycles ?t @ cs"
      using dfs_loop_frame [OF leave ns cyc_l] by auto
    ultimately have none: "dfs_cycles ?t = []" "dfs_cycles (dfs_loop es ns ?l) = []" by simp_all
    have clean_e: "dfs_clean es ?e" using "2.prems"(4) fin_e by (simp add: dfs_clean_def)
    have t: "dfs_clean es ?t" "set (successors es n) \<subseteq> finished ?t" "finished s \<subseteq> finished ?t"
      using "2.IH"(1) [OF True enter last cyc clean_e none(1)] fin_e by auto
    have "n \<in> dfs_visited ?t" "n \<in> dfs_recStack ?t" using f by (auto simp: dfs_stack_def)
    note l = dfs_clean_leave [OF t(1) this t(2)]
    show ?thesis
      using "2.IH"(2) [OF True leave ns cyc_l l(1) none(2)] l(2) t(3) run by auto
  next
    case False
    show ?thesis
    proof (cases "n \<in> dfs_recStack s")
      case rec: True
      have "n \<in> set (dfs_path s)" using rec "2.prems"(1) by (simp add: dfs_stack_def)
      then have ne: "dfs_cycles (record_cycle n s) \<noteq> []" by (simp add: record_cycle_def)
      have "dfs_path s \<noteq> []" using \<open>n \<in> set (dfs_path s)\<close> by auto
      then have "list_all (is_cycle es) (dfs_cycles (record_cycle n s))"
        using record_cycle_sound [OF "2.prems"(1) \<open>n \<in> set (dfs_path s)\<close>] "2.prems"(2,3) by (simp add: record_cycle_def)
      then obtain cs where "dfs_cycles (dfs_loop es ns (record_cycle n s)) = dfs_cycles (record_cycle n s) @ cs"
        using dfs_loop_frame [OF dfs_stack_record [OF "2.prems"(1)]] "2.prems"(2) by fastforce
      then show ?thesis using ne "2.prems"(5) False rec by simp
    next
      case norec: False
      have "n \<in> finished s" using False norec by (simp add: finished_def)
      with False norec 2 show ?thesis by auto
    qed
  qed
qed auto

lemma DetectCycles_props:
  shows "list_all (is_cycle (dg_Edges g)) (DetectCycles g)"
    and "DetectCycles g = [] \<Longrightarrow> sources_exist g \<Longrightarrow> acyclic (dep_rel (dg_Edges g))"
proof -
  let ?s = "\<lparr>dfs_visited = {}, dfs_recStack = {}, dfs_path = [], dfs_cycles = []\<rparr>"
  let ?r = "dfs_loop (dg_Edges g) (map nd_ID (dg_Nodes g)) ?s"
  have start: "dfs_stack (dg_Edges g) ?s" "dfs_clean (dg_Edges g) ?s"
    by (simp_all add: dfs_stack_def dfs_clean_def finished_def acyclic_def)
  show "list_all (is_cycle (dg_Edges g)) (DetectCycles g)"
    using dfs_loop_frame [OF start(1)] by (simp add: DetectCycles_def)
  assume "DetectCycles g = []" and src: "sources_exist g"
  then have "dfs_cycles ?r = []" by (simp add: DetectCycles_def)
  then have clean: "dfs_clean (dg_Edges g) ?r" and fin: "set (node_ids g) \<subseteq> finished ?r"
    using dfs_loop_clean [OF start(1) _ _ start(2), of "map nd_ID (dg_Nodes g)"] by (simp_all add: node_ids_def)
  have "dep_rel (dg_Edges g) \<subseteq> dep_rel (dg_Edges g) \<inter> finished ?r \<times> UNIV"
    using src fin by (auto simp: dep_rel_def sources_exist_def list_all_iff nodeExists_iff)
  then show "acyclic (dep_rel (dg_Edges g))"
    by (rule acyclic_subset [rotated]) (use clean in \<open>simp add: dfs_clean_def\<close>)
qed

lemma is_cycle_not_acyclic: "is_cycle es c \<Longrightarrow> \<not> acyclic (dep_rel es)"
proof
  assume c: "is_cycle es c" and ac: "acyclic (dep_rel es)"
  have walk: "successively (edge_in es) (x # xs) \<Longrightarrow> xs \<noteq> [] \<Longrightarrow> (x, last xs) \<in> (dep_rel es)\<^sup>+" for x xs
  proof (induction xs arbitrary: x)
    case (Cons y ys)
    then have "(x, y) \<in> dep_rel es" by (simp add: edge_in_rel)
    with Cons show ?case by (cases "ys = []") (auto intro: trancl_into_trancl2)
  qed simp
  obtain x xs where "c = x # xs" using c by (cases c) (auto simp: is_cycle_def)
  with c have "(x, last (xs @ [x])) \<in> (dep_rel es)\<^sup>+"
    by (intro walk) (auto simp: is_cycle_def)
  with ac show False by (simp add: acyclic_def)
qed

lemma HasCycle_iff: "sources_exist g \<Longrightarrow> HasCycle g \<longleftrightarrow> \<not> acyclic (dep_rel (dg_Edges g))"
  using DetectCycles_props [of g] is_cycle_not_acyclic
  by (cases "DetectCycles g") (auto simp: HasCycle_def)

subsection \<open>What the builder makes\<close>

text \<open>The nodes stay, and both ends of every edge are among them.\<close>

definition closed_graph :: "DependencyNode list \<Rightarrow> DependencyGraph \<Rightarrow> bool" where
  "closed_graph ns g \<longleftrightarrow> dg_Nodes g = ns \<and> sources_exist g \<and> targets_exist g"

lemma closed_add_edge:
  "closed_graph ns g \<Longrightarrow> from \<in> nd_ID ` set ns \<Longrightarrow> to \<in> nd_ID ` set ns \<Longrightarrow>
     closed_graph ns (add_edge from to reason g)"
  by (auto simp: closed_graph_def sources_exist_def targets_exist_def add_edge_def nodeExists_iff
      node_ids_def list_all_iff)

lemma fold_keeps:
  "P g \<Longrightarrow> (\<And>x g. x \<in> set xs \<Longrightarrow> P g \<Longrightarrow> P (f x g)) \<Longrightarrow> P (fold f xs g)"
  by (induction xs arbitrary: g) auto

lemma built_ids:
  "ss_Docker s = Some cs \<Longrightarrow> c \<in> set cs \<Longrightarrow> container_id (ci_Name c) \<in> nd_ID ` set (build_nodes label s)"
  "d \<in> set (ss_Databases s) \<Longrightarrow> database_id (db_Type d) \<in> nd_ID ` set (build_nodes label s)"
  "v \<in> set (ss_Services s) \<Longrightarrow> service_id (sv_Name v) \<in> nd_ID ` set (build_nodes label s)"
  "ss_Nginx s = Some n \<Longrightarrow> h \<in> set (ng_VHosts n) \<Longrightarrow> nginx_id (vh_ServerName h) \<in> nd_ID ` set (build_nodes label s)"
  by (force simp: build_nodes_def)+

lemma port_to_container_name:
  assumes "port_to_container cs p = Some name"
  shows "\<exists>c \<in> set cs. ci_Name c = name"
proof -
  let ?P = "\<lambda>m. \<forall>p n. m p = Some n \<longrightarrow> n \<in> ci_Name ` set cs"
  have "?P (port_to_container cs)"
    unfolding port_to_container_def
    by (intro fold_keeps [where P = ?P]) (auto split: if_splits)
  with assms show ?thesis by auto
qed

lemma port_to_node_id: "port_to_node ns p = Some i \<Longrightarrow> i \<in> nd_ID ` set ns"
proof -
  let ?P = "\<lambda>m. \<forall>p n. m p = Some n \<longrightarrow> n \<in> nd_ID ` set ns"
  have "?P (port_to_node ns)"
    unfolding port_to_node_def by (intro fold_keeps [where P = ?P]) (auto split: if_splits)
  then show "port_to_node ns p = Some i \<Longrightarrow> i \<in> nd_ID ` set ns" by simp
qed

lemma volume_containers_name:
  assumes "y \<in> set (volume_containers cs vol)"
  shows "\<exists>c \<in> set cs. ci_Name c = y"
proof -
  let ?P = "\<lambda>m. \<forall>v. set (m v) \<subseteq> ci_Name ` set cs"
  have "?P (volume_containers cs)"
    unfolding volume_containers_def by (intro fold_keeps [where P = ?P]) auto
  with assms show ?thesis by auto
qed

lemma closed_volume_pairs:
  "closed_graph ns g \<Longrightarrow> container_id ` set cs \<subseteq> nd_ID ` set ns \<Longrightarrow> closed_graph ns (volume_pairs vol cs g)"
proof (induction vol cs g rule: volume_pairs.induct)
  case (2 vol x xs g)
  have "closed_graph ns (fold (\<lambda>y g. let a = container_id x; b = container_id y in
        if \<not> hasEdge g a b \<and> \<not> hasEdge g b a then add_edge a b (''shared volume: '' @ vol) g else g) xs g)"
    using 2(3) by (intro fold_keeps [where P = "closed_graph ns", OF 2(2)]) (auto simp: Let_def intro!: closed_add_edge)
  with 2 show ?case by simp
qed simp

lemma BuildDependencyGraph_closed:
  "closed_graph (build_nodes label s) (BuildDependencyGraph label order (Some s))"
proof -
  let ?ns = "build_nodes label s"
  let ?C = "closed_graph ?ns"
  have 0: "?C \<lparr>dg_Nodes = ?ns, dg_Edges = []\<rparr>"
    by (simp add: closed_graph_def sources_exist_def targets_exist_def)
  have 1: "?C (buildContainerDatabaseEdges s g)" if "?C g" for g
    using that unfolding buildContainerDatabaseEdges_def
    by (auto split: option.split intro!: fold_keeps [where P = ?C] closed_add_edge built_ids)
  have port: "container_id name \<in> nd_ID ` set ?ns"
    if "port_to_container cs p = Some name" "ss_Docker s = Some cs" for cs p name
    using port_to_container_name [OF that(1)] built_ids(1) [OF that(2)] by blast
  have pass: "?C (proxy_pass_edge (port_to_container cs) h g)"
    if "?C g" "ss_Nginx s = Some n" "ss_Docker s = Some cs" "h \<in> set (ng_VHosts n)" for g n cs h
    using that unfolding proxy_pass_edge_def
    by (auto simp: Let_def split: option.split intro!: closed_add_edge built_ids(4) port)
  have up: "?C (upstream_edges (port_to_container cs) (ng_VHosts n) u a g)"
    if "?C g" "ss_Nginx s = Some n" "ss_Docker s = Some cs" for g n cs u a
    using that unfolding upstream_edges_def
    by (auto simp: Let_def split: option.split intro!: fold_keeps [where P = ?C] closed_add_edge built_ids(4) port)
  have 2: "?C (buildNginxContainerEdges s g)" if "?C g" for g
    using that unfolding buildNginxContainerEdges_def
    by (auto simp: Let_def split: option.split intro!: fold_keeps [where P = ?C] pass up)
  have exists: "i \<in> nd_ID ` set ?ns" if "?C g" "nodeExists g i" for g i
    using that by (auto simp: closed_graph_def nodeExists_iff node_ids_def)
  have 3: "?C (buildServiceDependencies s g)" if "?C g" for g
    using that unfolding buildServiceDependencies_def
    by (auto intro!: fold_keeps [where P = ?C] closed_add_edge built_ids(3) intro: exists)
  have 4: "?C (buildServiceDatabaseEdges s g)" if "?C g" for g
    using that unfolding buildServiceDatabaseEdges_def
    by (auto intro!: fold_keeps [where P = ?C] closed_add_edge built_ids)
  have env: "?C (env_edge s (port_to_node ?ns) (container_id (ci_Name c)) e g)"
    if "?C g" "ss_Docker s = Some cs" "c \<in> set cs" for g cs c e
    using that port_to_node_id unfolding env_edge_def
    by (auto split: option.split intro!: closed_add_edge built_ids(1))
  have 5: "?C (buildEnvVarEdges s g)" if "?C g" for g
  proof -
    have "dg_Nodes g = ?ns" using that by (simp add: closed_graph_def)
    then show ?thesis using that unfolding buildEnvVarEdges_def
      by (auto simp: Let_def split: option.split intro!: fold_keeps [where P = ?C] env)
  qed
  have 6: "?C (buildVolumeSharingEdges order s g)" if "?C g" for g
  proof -
    have "container_id y \<in> nd_ID ` set ?ns"
      if "y \<in> set (volume_containers cs vol)" "ss_Docker s = Some cs" for cs vol y
      using built_ids(1) [OF that(2), of _ label] volume_containers_name [OF that(1)] by blast
    then show ?thesis using that unfolding buildVolumeSharingEdges_def
      by (auto simp: Let_def split: option.split intro!: fold_keeps [where P = ?C] closed_volume_pairs)
  qed
  show ?thesis unfolding BuildDependencyGraph_def option.case by (intro 6 5 4 3 2 1 0)
qed

subsection \<open>Properties\<close>

text \<open>\<open>C25\<close>: whatever order Go iterates over the map of degrees in, a migration order that is returned
  contains every node exactly once, and every node comes after all the nodes it depends on.\<close>

theorem migration_order_puts_dependencies_first:
  assumes "iterates order g" "sources_exist g" "distinct (node_ids g)"
    and "MigrationOrder order g = Inr res"
  shows "mset res = mset (dg_Nodes g) \<and> deps_first (dg_Edges g) (map nd_ID res)"
  using assms by (intro TopologicalSort_permutation) (auto simp: MigrationOrder_def split: sum.splits)

definition demo_graph :: DependencyGraph where
  "demo_graph = \<lparr>dg_Nodes = map (\<lambda>i. \<lparr>nd_ID = i, nd_Name = i, nd_Type = ''service'', nd_WorkloadType = [], nd_Port = 0\<rparr>)
       [''app'', ''db'', ''web''],
     dg_Edges = [\<lparr>ed_From = ''web'', ed_To = ''app'', ed_Reason = []\<rparr>, \<lparr>ed_From = ''app'', ed_To = ''db'', ed_Reason = []\<rparr>,
       \<lparr>ed_From = ''web'', ed_To = ''db'', ed_Reason = []\<rparr>]\<rparr>"

lemma demo_graph_ok:
  "iterates [''web'', ''db'', ''app''] demo_graph" "sources_exist demo_graph" "targets_exist demo_graph"
  "distinct (node_ids demo_graph)"
  "map nd_ID (projr (TopologicalSort [''web'', ''db'', ''app''] demo_graph)) = [''db'', ''app'', ''web'']"
  "TopologicalSort [''web'', ''db'', ''app''] demo_graph =
     Inr (projr (TopologicalSort [''web'', ''db'', ''app''] demo_graph))"
proof -
  show "iterates [''web'', ''db'', ''app''] demo_graph"
    unfolding iterates_def in_degrees_dom by (auto simp: demo_graph_def)
qed code_simp+

theorem migration_order_puts_dependencies_first_witness:
  "\<exists>res. MigrationOrder [''web'', ''db'', ''app''] demo_graph = Inr res \<and> map nd_ID res = [''db'', ''app'', ''web''] \<and>
     mset res = mset (dg_Nodes demo_graph) \<and> deps_first (dg_Edges demo_graph) (map nd_ID res)"
proof -
  obtain res where r: "TopologicalSort [''web'', ''db'', ''app''] demo_graph = Inr res"
    and ids: "map nd_ID res = [''db'', ''app'', ''web'']"
    by (rule that [OF demo_graph_ok(6,5)])
  from r have m: "MigrationOrder [''web'', ''db'', ''app''] demo_graph = Inr res" by (simp add: MigrationOrder_def)
  note p = migration_order_puts_dependencies_first [OF demo_graph_ok(1,2,4) m]
  show ?thesis by (rule exI [of _ res]) (intro conjI m ids p [THEN conjunct1] p [THEN conjunct2])
qed

text \<open>\<open>C26\<close>: on a graph with distinct identifiers and no dangling edge the two analyses agree: the sort fails
  exactly when the depth-first search finds a cycle, for every iteration order of the map.\<close>

theorem sort_fails_iff_has_cycle:
  assumes "iterates order g" "sources_exist g" "targets_exist g" "distinct (node_ids g)"
  shows "TopologicalSort order g = Inl ErrCycle \<longleftrightarrow> HasCycle g"
  by (simp add: TopologicalSort_fails_iff [OF assms] HasCycle_iff [OF assms(2)])

theorem sort_fails_iff_has_cycle_witness:
  "TopologicalSort [''web'', ''db'', ''app''] demo_graph \<noteq> Inl ErrCycle \<and> \<not> HasCycle demo_graph"
  using sort_fails_iff_has_cycle [OF demo_graph_ok(1-4)] demo_graph_ok(6) by (metis Inl_Inr_False)

definition two_cycles :: DependencyGraph where
  "two_cycles = \<lparr>dg_Nodes = map (\<lambda>i. \<lparr>nd_ID = i, nd_Name = i, nd_Type = ''service'', nd_WorkloadType = [], nd_Port = 0\<rparr>)
       [''a'', ''b'', ''c''],
     dg_Edges = map (\<lambda>(x, y). \<lparr>ed_From = x, ed_To = y, ed_Reason = []\<rparr>)
       [(''a'', ''b''), (''b'', ''c''), (''c'', ''a''), (''a'', ''c'')]\<rparr>"

text \<open>Every list that \<open>DetectCycles\<close> returns is a cycle of the graph: an edge leads from each of its
  nodes to the next, from the last to the first, and no node occurs twice. But it does not find all
  cycles: of the two cycles \<open>a b c\<close> and \<open>a c\<close> of a small graph only the first is returned.\<close>

theorem detected_cycles_are_cycles:
  "list_all (is_cycle (dg_Edges g)) (DetectCycles g) \<and>
     is_cycle (dg_Edges two_cycles) [''a'', ''c''] \<and> DetectCycles two_cycles = [[''a'', ''b'', ''c'']]"
proof -
  have "is_cycle (dg_Edges two_cycles) [''a'', ''c'']" by code_simp
  moreover have "DetectCycles two_cycles = [[''a'', ''b'', ''c'']]" by code_simp
  ultimately show ?thesis by (simp add: DetectCycles_props(1))
qed

text \<open>The graph that is built from a snapshot never has a dangling edge: both ends of every edge are
  nodes, so the validation reports no missing dependency for it.\<close>

theorem built_graph_has_no_dangling_edge:
  "let g = BuildDependencyGraph label order (Some s) in
     sources_exist g \<and> targets_exist g \<and> list_all (\<lambda>e. missing_errors g e = []) (dg_Edges g)"
  using BuildDependencyGraph_closed [of label s order] unfolding Let_def
  by (simp add: closed_graph_def sources_exist_def targets_exist_def missing_errors_def list_all_iff)

text \<open>A server with two databases of one type, or two virtual hosts of one name, has no migration order:
  the sort reports a dependency cycle though there need be none.\<close>

theorem duplicate_names_reported_as_cycle:
  assumes "iterates order' (BuildDependencyGraph label order (Some s))"
    and "\<not> distinct (map nd_ID (build_nodes label s))"
  shows "MigrationOrder order' (BuildDependencyGraph label order (Some s)) = Inl ErrCycle"
proof -
  let ?g = "BuildDependencyGraph label order (Some s)"
  have "sources_exist ?g" "\<not> distinct (node_ids ?g)"
    using BuildDependencyGraph_closed [of label s order] assms(2) by (simp_all add: closed_graph_def node_ids_def)
  then show ?thesis using duplicate_ids_fail [OF assms(1)] by (simp add: MigrationOrder_def)
qed

definition twin_databases :: ServerSnapshot where
  "twin_databases = \<lparr>ss_Docker = None, ss_Services = [], ss_Databases =
       [\<lparr>db_Type = ''mysql'', db_Port = 3306\<rparr>, \<lparr>db_Type = ''mysql'', db_Port = 3307\<rparr>],
     ss_Nginx = None, ss_MessageQueues = []\<rparr>"

theorem duplicate_names_reported_as_cycle_witness:
  "MigrationOrder [''database:mysql''] (BuildDependencyGraph (\<lambda>_. []) [] (Some twin_databases)) = Inl ErrCycle \<and>
     \<not> HasCycle (BuildDependencyGraph (\<lambda>_. []) [] (Some twin_databases))"
proof
  have "iterates [''database:mysql''] (BuildDependencyGraph (\<lambda>_. []) [] (Some twin_databases))"
    unfolding iterates_def in_degrees_dom
    by (auto simp: twin_databases_def BuildDependencyGraph_def buildVolumeSharingEdges_def buildEnvVarEdges_def
        buildServiceDatabaseEdges_def buildServiceDependencies_def buildNginxContainerEdges_def
        buildContainerDatabaseEdges_def build_nodes_def database_id_def)
  then show "MigrationOrder [''database:mysql''] (BuildDependencyGraph (\<lambda>_. []) [] (Some twin_databases)) = Inl ErrCycle"
    by (rule duplicate_names_reported_as_cycle) (simp add: twin_databases_def build_nodes_def)
  show "\<not> HasCycle (BuildDependencyGraph (\<lambda>_. []) [] (Some twin_databases))" by code_simp
qed

definition broker_container :: ServerSnapshot where
  "broker_container = \<lparr>ss_Docker = Some [\<lparr>ci_Name = ''mq'', ci_Ports = [\<lparr>pm_HostPort = 5672, pm_ContainerPort = 5672\<rparr>],
       ci_Volumes = [], ci_EnvVarNames = [''RABBITMQ_DEFAULT_USER'']\<rparr>],
     ss_Services = [], ss_Databases = [], ss_Nginx = None,
     ss_MessageQueues = [\<lparr>mq_Type = ''rabbitmq'', mq_Port = 5672\<rparr>]\<rparr>"

text \<open>A broker that runs in a container and is configured through an environment variable of its own name
  depends on itself: the graph has a cycle and there is no migration order for the server.\<close>

theorem broker_container_depends_on_itself:
  "DetectCycles (BuildDependencyGraph (\<lambda>_. []) [] (Some broker_container)) = [[''container:mq'']] \<and>
     MigrationOrder [''container:mq''] (BuildDependencyGraph (\<lambda>_. []) [] (Some broker_container)) = Inl ErrCycle"
  by (rule conjI; code_simp)

end
