(* ===== verification/JobQueue.thy ===== *)
theory JobQueue
  imports World Complex_Main
begin

section \<open>Jobs and their queue (\<open>jobengine/job.go\<close>, \<open>jobengine/queue.go\<close>)\<close>

text \<open>
  The job record and the two implementations of the queue: the table \<open>job_queue\<close> and the slice in
  memory. A JSON column holds the job it encodes, or \<open>None\<close> for text that does not parse. A context is
  the error that its \<open>Err\<close> returns, \<open>None\<close> while it is alive. Both queues are instances of one
  contract, a first-in-first-out list, and the lemmas about queues are proved from the contract.
\<close>

subsection \<open>Jobs\<close>

type_synonym JobStatus = string

definition JobStatusQueued :: JobStatus where "JobStatusQueued = ''queued''"
definition JobStatusRunning :: JobStatus where "JobStatusRunning = ''running''"
definition JobStatusPaused :: JobStatus where "JobStatusPaused = ''paused''"
definition JobStatusDone :: JobStatus where "JobStatusDone = ''done''"
definition JobStatusFailed :: JobStatus where "JobStatusFailed = ''failed''"
definition JobStatusCancelled :: JobStatus where "JobStatusCancelled = ''cancelled''"

lemmas status_defs = JobStatusQueued_def JobStatusRunning_def JobStatusPaused_def JobStatusDone_def
  JobStatusFailed_def JobStatusCancelled_def

definition job_terminal :: "JobStatus \<Rightarrow> bool" where
  "job_terminal s = (s = JobStatusDone \<or> s = JobStatusFailed \<or> s = JobStatusCancelled)"

definition job_active :: "JobStatus \<Rightarrow> bool" where
  "job_active s = (s = JobStatusQueued \<or> s = JobStatusRunning \<or> s = JobStatusPaused)"

record JobProgress =
  jp_CurrentStep :: int
  jp_TotalSteps :: int
  jp_CurrentName :: string
  jp_Percentage :: rat
  jp_BytesDone :: int
  jp_BytesTotal :: int
  jp_SpeedBPS :: int
  jp_ETA :: int

definition zero_progress :: JobProgress where
  "zero_progress = \<lparr>jp_CurrentStep = 0, jp_TotalSteps = 0, jp_CurrentName = [], jp_Percentage = 0,
     jp_BytesDone = 0, jp_BytesTotal = 0, jp_SpeedBPS = 0, jp_ETA = 0\<rparr>"

record JobLog =
  jl_Timestamp :: int
  jl_Level :: string
  jl_Step :: string
  jl_Message :: string

record Job =
  jb_ID :: string
  jb_Type :: string
  jb_Status :: JobStatus
  jb_CreatedAt :: int
  jb_StartedAt :: "int option"
  jb_FinishedAt :: "int option"
  jb_PlanID :: string
  jb_MigrationID :: int
  jb_SourceID :: int
  jb_TargetID :: int
  jb_Progress :: JobProgress
  jb_Logs :: "JobLog list"
  jb_Error :: string

record JobRequest =
  jq_Type :: string
  jq_PlanID :: string
  jq_SourceID :: int
  jq_TargetID :: int
  jq_MigrationID :: int

record JobFilter =
  jf_Type :: string
  jf_Status :: JobStatus
  jf_Limit :: int

type_synonym ctx = "goerr option"

subsection \<open>The queue in SQLite\<close>

record queue_row =
  qr_id :: string
  qr_job :: "Job option"
  qr_position :: int
  qr_queued_at :: int

record queue_db =
  queue_rows :: "queue_row list"

text \<open>\<open>SELECT MAX(position)\<close>, which is NULL for no rows, and \<open>ORDER BY position ASC LIMIT 1\<close>.\<close>

definition max_position :: "queue_row list \<Rightarrow> int option" where
  "max_position rs = (if rs = [] then None else Some (Max (set (map qr_position rs))))"

fun first_row :: "queue_row list \<Rightarrow> queue_row option" where
  "first_row [] = None"
| "first_row (r # rs) = (case first_row rs of
       None \<Rightarrow> Some r
     | Some m \<Rightarrow> Some (if qr_position m < qr_position r then m else r))"

definition ErrQueueUnique :: goerr where
  "ErrQueueUnique = ErrF ''UNIQUE constraint failed: job_queue.id''"

definition Enqueue ::
  "ctx \<Rightarrow> Job option \<Rightarrow> ('x queue_db_scheme, 'e) world \<Rightarrow> unit res \<times> ('x queue_db_scheme, 'e) world" where
  "Enqueue ctx job w = (case job of
       None \<Rightarrow> (Inl (ErrF ''job is nil''), w)
     | Some j \<Rightarrow>
         if jb_ID j = [] then (Inl (ErrF ''job ID is empty''), w)
         else (case ctx of
             Some err \<Rightarrow> (Inl err, w)
           | None \<Rightarrow>
               (case db_read (\<lambda>d. Inr (max_position (queue_rows d))) w of
                  (Inl err, w1) \<Rightarrow> (Inl (ErrWrap ''get max position: '' err ''''), w1)
                | (Inr maxPos, w1) \<Rightarrow>
                    (let nextPos = (case maxPos of None \<Rightarrow> 1 | Some p \<Rightarrow> p + 1) in
                     case db_write (\<lambda>now d.
                            if list_ex (\<lambda>r. qr_id r = jb_ID j) (queue_rows d) then (Inl ErrQueueUnique, d)
                            else (Inr (), d\<lparr>queue_rows := queue_rows d @
                                   [\<lparr>qr_id = jb_ID j, qr_job = Some j, qr_position = nextPos, qr_queued_at = now\<rparr>]\<rparr>)) w1 of
                       (Inl err, w2) \<Rightarrow> (Inl (ErrWrap ''enqueue job: '' err ''''), w2)
                     | (Inr _, w2) \<Rightarrow> (Inr (), w2)))))"

definition delete_row :: "string \<Rightarrow> 'x queue_db_scheme \<Rightarrow> 'x queue_db_scheme" where
  "delete_row i d = d\<lparr>queue_rows := filter (\<lambda>r. qr_id r \<noteq> i) (queue_rows d)\<rparr>"

definition unmarshal :: "Job option \<Rightarrow> Job res" where
  "unmarshal data = (case data of
       None \<Rightarrow> Inl (ErrWrap ''unmarshal job: '' (ErrF ''invalid character'') '''')
     | Some j \<Rightarrow> Inr j)"

text \<open>
  The transaction: begin, select, delete, commit. The deletion takes effect at the commit; an error
  before it rolls back. The job is decoded after the commit.
\<close>

definition Dequeue ::
  "ctx \<Rightarrow> ('x queue_db_scheme, 'e) world \<Rightarrow> Job option res \<times> ('x queue_db_scheme, 'e) world" where
  "Dequeue ctx w = (case ctx of
       Some err \<Rightarrow> (Inl err, w)
     | None \<Rightarrow>
         (case db_read (\<lambda>d. Inr ()) w of
            (Inl err, w1) \<Rightarrow> (Inl (ErrWrap ''begin transaction: '' err ''''), w1)
          | (Inr _, w1) \<Rightarrow>
         (case db_read (\<lambda>d. Inr (first_row (queue_rows d))) w1 of
            (Inl err, w2) \<Rightarrow> (Inl (ErrWrap ''dequeue query: '' err ''''), w2)
          | (Inr None, w2) \<Rightarrow> (Inr None, w2)
          | (Inr (Some r), w2) \<Rightarrow>
         (case db_read (\<lambda>d. Inr ()) w2 of
            (Inl err, w3) \<Rightarrow> (Inl (ErrWrap ''dequeue delete: '' err ''''), w3)
          | (Inr _, w3) \<Rightarrow>
         (case db_write (\<lambda>now d. (Inr (), delete_row (qr_id r) d)) w3 of
            (Inl err, w4) \<Rightarrow> (Inl (ErrWrap ''commit dequeue: '' err ''''), w4)
          | (Inr _, w4) \<Rightarrow>
              (case unmarshal (qr_job r) of
                 Inl err \<Rightarrow> (Inl err, w4)
               | Inr j \<Rightarrow> (Inr (Some j), w4)))))))"

definition Peek ::
  "ctx \<Rightarrow> ('x queue_db_scheme, 'e) world \<Rightarrow> Job option res \<times> ('x queue_db_scheme, 'e) world" where
  "Peek ctx w = (case ctx of
       Some err \<Rightarrow> (Inl err, w)
     | None \<Rightarrow>
         (case db_read (\<lambda>d. Inr (first_row (queue_rows d))) w of
            (Inl err, w1) \<Rightarrow> (Inl (ErrWrap ''peek query: '' err ''''), w1)
          | (Inr None, w1) \<Rightarrow> (Inr None, w1)
          | (Inr (Some r), w1) \<Rightarrow>
              (case unmarshal (qr_job r) of Inl err \<Rightarrow> (Inl err, w1) | Inr j \<Rightarrow> (Inr (Some j), w1))))"

definition Size ::
  "ctx \<Rightarrow> ('x queue_db_scheme, 'e) world \<Rightarrow> int res \<times> ('x queue_db_scheme, 'e) world" where
  "Size ctx w = (case ctx of
       Some err \<Rightarrow> (Inl err, w)
     | None \<Rightarrow>
         (case db_read (\<lambda>d. Inr (int (length (queue_rows d)))) w of
            (Inl err, w1) \<Rightarrow> (Inl (ErrWrap ''queue size: '' err ''''), w1)
          | (Inr n, w1) \<Rightarrow> (Inr n, w1)))"

definition ErrNotInQueue :: "string \<Rightarrow> goerr" where
  "ErrNotInQueue i = ErrF (''job not found in queue: '' @ i)"

definition Remove ::
  "ctx \<Rightarrow> string \<Rightarrow> ('x queue_db_scheme, 'e) world \<Rightarrow> unit res \<times> ('x queue_db_scheme, 'e) world" where
  "Remove ctx i w = (case ctx of
       Some err \<Rightarrow> (Inl err, w)
     | None \<Rightarrow>
         (case db_write (\<lambda>now d. (Inr (length (filter (\<lambda>r. qr_id r = i) (queue_rows d))), delete_row i d)) w of
            (Inl err, w1) \<Rightarrow> (Inl (ErrWrap ''remove from queue: '' err ''''), w1)
          | (Inr rows, w1) \<Rightarrow> (if rows = 0 then Inl (ErrNotInQueue i) else Inr (), w1)))"

subsection \<open>The queue in memory\<close>

definition mem_Enqueue :: "Job option \<Rightarrow> Job list \<Rightarrow> unit res \<times> Job list" where
  "mem_Enqueue job q = (case job of None \<Rightarrow> (Inl (ErrF ''job is nil''), q) | Some j \<Rightarrow> (Inr (), q @ [j]))"

definition mem_Dequeue :: "Job list \<Rightarrow> Job option res \<times> Job list" where
  "mem_Dequeue q = (case q of [] \<Rightarrow> (Inr None, q) | j # js \<Rightarrow> (Inr (Some j), js))"

definition mem_Peek :: "Job list \<Rightarrow> Job option res \<times> Job list" where
  "mem_Peek q = (case q of [] \<Rightarrow> (Inr None, q) | j # _ \<Rightarrow> (Inr (Some j), q))"

definition mem_Size :: "Job list \<Rightarrow> int res \<times> Job list" where
  "mem_Size q = (Inr (int (length q)), q)"

fun remove_first :: "string \<Rightarrow> Job list \<Rightarrow> Job list option" where
  "remove_first i [] = None"
| "remove_first i (j # js) = (if jb_ID j = i then Some js else map_option ((#) j) (remove_first i js))"

definition mem_Remove :: "string \<Rightarrow> Job list \<Rightarrow> unit res \<times> Job list" where
  "mem_Remove i q = (case remove_first i q of None \<Rightarrow> (Inl (ErrNotInQueue i), q) | Some q' \<Rightarrow> (Inr (), q'))"

subsection \<open>The contract of a queue\<close>

text \<open>The promise is for jobs with an identifier that is not in the queue yet.\<close>

locale job_queue =
  fixes jobs :: "'s \<Rightarrow> Job list"
    and inv :: "'s \<Rightarrow> bool"
    and enq :: "Job \<Rightarrow> 's \<Rightarrow> unit res \<times> 's"
    and deq :: "'s \<Rightarrow> Job option res \<times> 's"
    and peek :: "'s \<Rightarrow> Job option res \<times> 's"
    and size_of :: "'s \<Rightarrow> int res \<times> 's"
    and rem :: "string \<Rightarrow> 's \<Rightarrow> unit res \<times> 's"
  assumes distinct_jobs: "inv s \<Longrightarrow> distinct (map jb_ID (jobs s))"
    and enq_law: "inv s \<Longrightarrow> jb_ID j \<noteq> [] \<Longrightarrow> jb_ID j \<notin> jb_ID ` set (jobs s) \<Longrightarrow>
      \<exists>s'. enq j s = (Inr (), s') \<and> inv s' \<and> jobs s' = jobs s @ [j]"
    and deq_law: "inv s \<Longrightarrow> \<exists>s'. deq s = (Inr (case jobs s of [] \<Rightarrow> None | j # _ \<Rightarrow> Some j), s') \<and> inv s' \<and>
      jobs s' = tl (jobs s)"
    and peek_law: "inv s \<Longrightarrow> \<exists>s'. peek s = (Inr (case jobs s of [] \<Rightarrow> None | j # _ \<Rightarrow> Some j), s') \<and> inv s' \<and>
      jobs s' = jobs s"
    and size_law: "inv s \<Longrightarrow> \<exists>s'. size_of s = (Inr (int (length (jobs s))), s') \<and> inv s' \<and> jobs s' = jobs s"
    and rem_law: "inv s \<Longrightarrow> \<exists>s'. rem i s = (if i \<in> jb_ID ` set (jobs s) then Inr () else Inl (ErrNotInQueue i), s') \<and>
      inv s' \<and> jobs s' = filter (\<lambda>j. jb_ID j \<noteq> i) (jobs s)"
begin

text \<open>Enqueue a list of jobs, then take as many.\<close>

primrec enq_all :: "Job list \<Rightarrow> 's \<Rightarrow> 's" where
  "enq_all [] s = s"
| "enq_all (j # js) s = enq_all js (snd (enq j s))"

primrec deq_n :: "nat \<Rightarrow> 's \<Rightarrow> Job option res list" where
  "deq_n 0 s = []"
| "deq_n (Suc n) s = fst (deq s) # deq_n n (snd (deq s))"

lemma enq_all_jobs:
  "inv s \<Longrightarrow> distinct (map jb_ID (jobs s @ js)) \<Longrightarrow> [] \<notin> jb_ID ` set js \<Longrightarrow>
     inv (enq_all js s) \<and> jobs (enq_all js s) = jobs s @ js"
proof (induction js arbitrary: s)
  case (Cons j js)
  then obtain s' where "enq j s = (Inr (), s')" "inv s'" "jobs s' = jobs s @ [j]"
    using enq_law [of s j] by auto
  with Cons show ?case by simp
qed simp

lemma deq_n_jobs:
  "inv s \<Longrightarrow> deq_n n s = map (\<lambda>j. Inr (Some j)) (take n (jobs s)) @ replicate (n - length (jobs s)) (Inr None)"
proof (induction n arbitrary: s)
  case (Suc n)
  obtain s' where "deq s = (Inr (case jobs s of [] \<Rightarrow> None | j # _ \<Rightarrow> Some j), s')" "inv s'" "jobs s' = tl (jobs s)"
    using deq_law [OF Suc.prems] by blast
  with Suc show ?case by (cases "jobs s") auto
qed simp

lemma first_in_first_out:
  assumes "inv s" "jobs s = []" "distinct (map jb_ID js)" "[] \<notin> jb_ID ` set js"
  shows "deq_n (length js) (enq_all js s) = map (\<lambda>j. Inr (Some j)) js"
  using deq_n_jobs [of "enq_all js s" "length js"] enq_all_jobs [of s js] assms by simp

lemma removed_is_gone:
  assumes "inv s"
  shows "i \<notin> jb_ID ` set (jobs (snd (rem i s)))"
  using rem_law [OF assms, of i] by auto

end

subsection \<open>Both queues keep the contract\<close>

text \<open>The table: positions grow from row to row, and a row has the identifier of its job.\<close>

definition queue_wf :: "queue_row list \<Rightarrow> bool" where
  "queue_wf rs \<longleftrightarrow> sorted_wrt (<) (map qr_position rs) \<and> distinct (map qr_id rs) \<and>
     (\<forall>r \<in> set rs. \<exists>j. qr_job r = Some j \<and> jb_ID j = qr_id r)"

definition queued :: "queue_row list \<Rightarrow> Job list" where
  "queued rs = map (\<lambda>r. the (qr_job r)) rs"

definition queue_ready :: "('x queue_db_scheme, 'e) world \<Rightarrow> bool" where
  "queue_ready w \<longleftrightarrow> fault_free w \<and> queue_wf (queue_rows (w_db w))"

lemma queue_wf_Nil [simp]: "queue_wf []" "queued [] = []"
  by (simp_all add: queue_wf_def queued_def)

lemma queued_ids: "queue_wf rs \<Longrightarrow> map jb_ID (queued rs) = map qr_id rs"
  by (auto simp: queue_wf_def queued_def)

lemma first_row_wf: "queue_wf rs \<Longrightarrow> first_row rs = (case rs of [] \<Rightarrow> None | r # _ \<Rightarrow> Some r)"
proof (induction rs)
  case (Cons r rs)
  then have "queue_wf rs" by (simp add: queue_wf_def)
  with Cons show ?case by (cases rs) (auto simp: queue_wf_def)
qed simp

lemma queue_wf_snoc:
  assumes wf: "queue_wf rs" and id: "jb_ID j \<notin> qr_id ` set rs"
  shows "queue_wf (rs @ [\<lparr>qr_id = jb_ID j, qr_job = Some j,
    qr_position = (case max_position rs of None \<Rightarrow> 1 | Some p \<Rightarrow> p + 1), qr_queued_at = t\<rparr>])"
proof -
  have "qr_position r < (case max_position rs of None \<Rightarrow> 1 | Some p \<Rightarrow> p + 1)" if r: "r \<in> set rs" for r
  proof -
    have "qr_position r \<le> Max (qr_position ` set rs)" using r by simp
    moreover have "rs \<noteq> []" using r by auto
    ultimately show ?thesis by (simp add: max_position_def)
  qed
  then show ?thesis using wf id by (auto simp: queue_wf_def sorted_wrt_append image_iff)
qed

lemma queue_wf_filter: "queue_wf rs \<Longrightarrow> queue_wf (filter P rs)"
  by (auto simp: queue_wf_def sorted_wrt_map sorted_wrt_filter distinct_map_filter)

lemma queued_filter:
  "queue_wf rs \<Longrightarrow> queued (filter (\<lambda>r. P (qr_id r)) rs) = filter (\<lambda>j. P (jb_ID j)) (queued rs)"
  by (induction rs) (auto simp: queue_wf_def queued_def)

lemma queue_wf_tl: "queue_wf (r # rs) \<Longrightarrow> filter (\<lambda>x. qr_id x \<noteq> qr_id r) (r # rs) = rs"
  using filter_key_absent [of "qr_id r" qr_id rs] by (simp add: queue_wf_def)

lemmas queue_step_defs = fault_free_read fault_free_write delete_row_def

lemma sqlite_enq:
  assumes "queue_ready w" "jb_ID j \<noteq> []" "jb_ID j \<notin> jb_ID ` set (queued (queue_rows (w_db w)))"
  shows "\<exists>w'. Enqueue None (Some j) w = (Inr (), w') \<and> queue_ready w' \<and>
    queued (queue_rows (w_db w')) = queued (queue_rows (w_db w)) @ [j]"
proof -
  let ?rs = "queue_rows (w_db w)"
  have wf: "queue_wf ?rs" and ff: "fault_free w" using assms(1) by (simp_all add: queue_ready_def)
  have id: "jb_ID j \<notin> qr_id ` set ?rs" using assms(3) queued_ids [OF wf] by (metis set_map)
  then have "\<not> list_ex (\<lambda>r. qr_id r = jb_ID j) ?rs" by (force simp: list_ex_iff)
  then show ?thesis
    using assms(2) queue_wf_snoc [OF wf id, of "w_now (tick w)"] ff
    by (simp add: Enqueue_def queue_step_defs queue_ready_def Let_def queued_def)
qed

lemma sqlite_deq:
  assumes "queue_ready w"
  shows "\<exists>w'. Dequeue None w = (Inr (case queued (queue_rows (w_db w)) of [] \<Rightarrow> None | j # _ \<Rightarrow> Some j), w') \<and>
    queue_ready w' \<and> queued (queue_rows (w_db w')) = tl (queued (queue_rows (w_db w)))"
proof (cases "queue_rows (w_db w)")
  case Nil
  then show ?thesis using assms by (simp add: Dequeue_def queue_step_defs queue_ready_def)
next
  case (Cons r rs)
  then have wf: "queue_wf (r # rs)" and ff: "fault_free w" using assms by (simp_all add: queue_ready_def)
  obtain j where j: "qr_job r = Some j" using wf by (auto simp: queue_wf_def)
  have "queue_wf rs" using wf by (simp add: queue_wf_def)
  moreover have "first_row (r # rs) = Some r" using first_row_wf [OF wf] by simp
  ultimately show ?thesis
    using queue_wf_tl [OF wf] ff Cons j
    by (simp add: Dequeue_def queue_step_defs queue_ready_def unmarshal_def queued_def del: first_row.simps)
qed

lemma sqlite_peek:
  assumes "queue_ready w"
  shows "\<exists>w'. Peek None w = (Inr (case queued (queue_rows (w_db w)) of [] \<Rightarrow> None | j # _ \<Rightarrow> Some j), w') \<and>
    queue_ready w' \<and> queued (queue_rows (w_db w')) = queued (queue_rows (w_db w))"
proof (cases "queue_rows (w_db w)")
  case Nil
  then show ?thesis using assms by (simp add: Peek_def queue_step_defs queue_ready_def)
next
  case (Cons r rs)
  then have wf: "queue_wf (r # rs)" and ff: "fault_free w" using assms by (simp_all add: queue_ready_def)
  obtain j where j: "qr_job r = Some j" using wf by (auto simp: queue_wf_def)
  have "first_row (r # rs) = Some r" using first_row_wf [OF wf] by simp
  then show ?thesis
    using wf ff Cons j
    by (simp add: Peek_def queue_step_defs queue_ready_def unmarshal_def queued_def del: first_row.simps)
qed

lemma sqlite_size:
  "queue_ready w \<Longrightarrow> \<exists>w'. Size None w = (Inr (int (length (queued (queue_rows (w_db w))))), w') \<and> queue_ready w' \<and>
     queued (queue_rows (w_db w')) = queued (queue_rows (w_db w))"
  by (simp add: Size_def queue_step_defs queue_ready_def queued_def)

lemma sqlite_rem:
  assumes "queue_ready w"
  shows "\<exists>w'. Remove None i w =
      (if i \<in> jb_ID ` set (queued (queue_rows (w_db w))) then Inr () else Inl (ErrNotInQueue i), w') \<and>
    queue_ready w' \<and> queued (queue_rows (w_db w')) = filter (\<lambda>j. jb_ID j \<noteq> i) (queued (queue_rows (w_db w)))"
proof -
  let ?rs = "queue_rows (w_db w)"
  have wf: "queue_wf ?rs" and ff: "fault_free w" using assms by (simp_all add: queue_ready_def)
  have "i \<in> jb_ID ` set (queued ?rs) \<longleftrightarrow> i \<in> qr_id ` set ?rs" using queued_ids [OF wf] by (metis set_map)
  then have "length (filter (\<lambda>r. qr_id r = i) ?rs) = 0 \<longleftrightarrow> i \<notin> jb_ID ` set (queued ?rs)"
    by (auto simp: filter_empty_conv)
  then show ?thesis
    using ff queue_wf_filter [OF wf, of "\<lambda>r. qr_id r \<noteq> i"] queued_filter [OF wf, of "\<lambda>x. x \<noteq> i"]
    by (simp add: Remove_def queue_step_defs queue_ready_def)
qed

interpretation sqlite: job_queue
  "\<lambda>w :: ('x queue_db_scheme, 'e) world. queued (queue_rows (w_db w))" queue_ready
  "\<lambda>j. Enqueue None (Some j)" "Dequeue None" "Peek None" "Size None" "Remove None"
proof unfold_locales
  show "distinct (map jb_ID (queued (queue_rows (w_db w))))" if "queue_ready w" for w :: "('x queue_db_scheme, 'e) world"
    using that queued_ids [of "queue_rows (w_db w)"] by (simp add: queue_ready_def queue_wf_def)
qed (rule sqlite_enq sqlite_deq sqlite_peek sqlite_size sqlite_rem; assumption)+

lemma remove_first_eq:
  "distinct (map jb_ID q) \<Longrightarrow> remove_first i q =
     (if i \<in> jb_ID ` set q then Some (filter (\<lambda>j. jb_ID j \<noteq> i) q) else None)"
  by (induction q) (auto simp: filter_key_absent)

interpretation memory: job_queue
  "\<lambda>q. q" "\<lambda>q. distinct (map jb_ID q)" "\<lambda>j. mem_Enqueue (Some j)" mem_Dequeue mem_Peek mem_Size mem_Remove
  by unfold_locales
    (auto simp: mem_Enqueue_def mem_Dequeue_def mem_Peek_def mem_Size_def mem_Remove_def remove_first_eq
      distinct_map_filter filter_key_absent split: list.splits)

end
