(* ===== verification/JobStore.thy ===== *)
theory JobStore
  imports JobQueue
begin

section \<open>The store of jobs (\<open>jobengine/store.go\<close>)\<close>

text \<open>
  The tables \<open>jobs\<close> and \<open>job_logs\<close> beside the queue. A row of \<open>jobs\<close> keeps the job twice, in columns
  that the filters read and in the JSON column that is loaded. The driver renders a stored time stamp
  as text; what \<open>GetLogs\<close> can parse of it is an argument.
\<close>

record job_row =
  jr_id :: string
  jr_type :: string
  jr_status :: JobStatus
  jr_job :: "Job option"
  jr_plan_id :: string
  jr_migration_id :: int
  jr_created_at :: int
  jr_started_at :: "int option"
  jr_finished_at :: "int option"
  jr_error :: string

record log_row =
  lr_job_id :: string
  lr_timestamp :: int
  lr_level :: string
  lr_step :: string
  lr_message :: string

record job_db = queue_db +
  job_rows :: "job_row list"
  log_rows :: "log_row list"

definition row_of :: "Job \<Rightarrow> job_row" where
  "row_of j = \<lparr>jr_id = jb_ID j, jr_type = jb_Type j, jr_status = jb_Status j, jr_job = Some j,
     jr_plan_id = jb_PlanID j, jr_migration_id = jb_MigrationID j, jr_created_at = jb_CreatedAt j,
     jr_started_at = jb_StartedAt j, jr_finished_at = jb_FinishedAt j, jr_error = jb_Error j\<rparr>"

text \<open>\<open>INSERT \<dots> ON CONFLICT(id) DO UPDATE\<close>: the time of creation of an existing row stays.\<close>

definition upsert_job :: "Job \<Rightarrow> job_row list \<Rightarrow> job_row list" where
  "upsert_job j rs =
     (if list_ex (\<lambda>r. jr_id r = jb_ID j) rs
      then map (\<lambda>r. if jr_id r = jb_ID j then (row_of j)\<lparr>jr_created_at := jr_created_at r\<rparr> else r) rs
      else rs @ [row_of j])"

definition SaveJob ::
  "ctx \<Rightarrow> Job option \<Rightarrow> ('x job_db_scheme, 'e) world \<Rightarrow> unit res \<times> ('x job_db_scheme, 'e) world" where
  "SaveJob ctx job w = (case job of
       None \<Rightarrow> (Inl (ErrF ''job is nil''), w)
     | Some j \<Rightarrow>
         if jb_ID j = [] then (Inl (ErrF ''job ID is empty''), w)
         else (case ctx of
             Some err \<Rightarrow> (Inl err, w)
           | None \<Rightarrow>
               (case db_write (\<lambda>now d. (Inr (), d\<lparr>job_rows := upsert_job j (job_rows d)\<rparr>)) w of
                  (Inl err, w1) \<Rightarrow> (Inl (ErrWrap ''save job: '' err ''''), w1)
                | (Inr _, w1) \<Rightarrow> (Inr (), w1))))"

definition job_row_of :: "job_row list \<Rightarrow> string \<Rightarrow> job_row option" where
  "job_row_of rs i = find (\<lambda>r. jr_id r = i) rs"

definition ErrJobNotFound :: "string \<Rightarrow> goerr" where
  "ErrJobNotFound i = ErrF (''job not found: '' @ i)"

definition LoadJob ::
  "ctx \<Rightarrow> string \<Rightarrow> ('x job_db_scheme, 'e) world \<Rightarrow> Job res \<times> ('x job_db_scheme, 'e) world" where
  "LoadJob ctx i w = (case ctx of
       Some err \<Rightarrow> (Inl err, w)
     | None \<Rightarrow>
         (case db_read (\<lambda>d. Inr (job_row_of (job_rows d) i)) w of
            (Inl err, w1) \<Rightarrow> (Inl (ErrWrap ''load job: '' err ''''), w1)
          | (Inr None, w1) \<Rightarrow> (Inl (ErrJobNotFound i), w1)
          | (Inr (Some r), w1) \<Rightarrow> (unmarshal (jr_job r), w1)))"

text \<open>The conditions of the query, joined by \<open>AND\<close>; an empty filter has none.\<close>

definition joinConditions :: "string list \<Rightarrow> string \<Rightarrow> string" where
  "joinConditions cs sep = fold (\<lambda>(i, c) result. (if 0 < i then result @ sep else result) @ c)
     (enumerate 0 cs) []"

definition job_matches :: "JobFilter \<Rightarrow> job_row \<Rightarrow> bool" where
  "job_matches f r \<longleftrightarrow> (jf_Type f = [] \<or> jr_type r = jf_Type f) \<and> (jf_Status f = [] \<or> jr_status r = jf_Status f)"

definition list_query :: "JobFilter \<Rightarrow> job_row list \<Rightarrow> job_row list" where
  "list_query f rs =
     (let found = sort_key (\<lambda>r. - jr_created_at r) (filter (job_matches f) rs)
      in if 0 < jf_Limit f then take (nat (jf_Limit f)) found else found)"

fun unmarshal_all :: "job_row list \<Rightarrow> Job list res" where
  "unmarshal_all [] = Inr []"
| "unmarshal_all (r # rs) = (case unmarshal (jr_job r) of
       Inl err \<Rightarrow> Inl err
     | Inr j \<Rightarrow> (case unmarshal_all rs of Inl err \<Rightarrow> Inl err | Inr js \<Rightarrow> Inr (j # js)))"

definition ListJobs ::
  "ctx \<Rightarrow> JobFilter \<Rightarrow> ('x job_db_scheme, 'e) world \<Rightarrow> Job list res \<times> ('x job_db_scheme, 'e) world" where
  "ListJobs ctx f w = (case ctx of
       Some err \<Rightarrow> (Inl err, w)
     | None \<Rightarrow>
         (case db_read (\<lambda>d. Inr (list_query f (job_rows d))) w of
            (Inl err, w1) \<Rightarrow> (Inl (ErrWrap ''list jobs: '' err ''''), w1)
          | (Inr rs, w1) \<Rightarrow> (unmarshal_all rs, w1)))"

text \<open>A log entry without a time (\<open>IsZero\<close>; here zero) gets the current one.\<close>

definition AppendLog ::
  "ctx \<Rightarrow> string \<Rightarrow> JobLog \<Rightarrow> ('x job_db_scheme, 'e) world \<Rightarrow> unit res \<times> ('x job_db_scheme, 'e) world" where
  "AppendLog ctx i l w = (case ctx of
       Some err \<Rightarrow> (Inl err, w)
     | None \<Rightarrow>
         (let ts = (if jl_Timestamp l = 0 then w_now w else jl_Timestamp l) in
          case db_write (\<lambda>now d.
                 if \<not> list_ex (\<lambda>r. jr_id r = i) (job_rows d)
                 then (Inl (ErrF ''FOREIGN KEY constraint failed''), d)
                 else (Inr (), d\<lparr>log_rows := log_rows d @ [\<lparr>lr_job_id = i, lr_timestamp = ts, lr_level = jl_Level l,
                        lr_step = jl_Step l, lr_message = jl_Message l\<rparr>]\<rparr>)) w of
            (Inl err, w1) \<Rightarrow> (Inl (ErrWrap ''append log: '' err ''''), w1)
          | (Inr _, w1) \<Rightarrow> (Inr (), w1)))"

definition GetLogs ::
  "(int \<Rightarrow> int option) \<Rightarrow> ctx \<Rightarrow> string \<Rightarrow> ('x job_db_scheme, 'e) world
     \<Rightarrow> JobLog list res \<times> ('x job_db_scheme, 'e) world" where
  "GetLogs parsed ctx i w = (case ctx of
       Some err \<Rightarrow> (Inl err, w)
     | None \<Rightarrow>
         (case db_read (\<lambda>d. Inr (sort_key lr_timestamp (filter (\<lambda>r. lr_job_id r = i) (log_rows d)))) w of
            (Inl err, w1) \<Rightarrow> (Inl (ErrWrap ''get logs: '' err ''''), w1)
          | (Inr rs, w1) \<Rightarrow> (Inr (map (\<lambda>r. \<lparr>jl_Timestamp = (case parsed (lr_timestamp r) of None \<Rightarrow> w_now w1 | Some t \<Rightarrow> t),
               jl_Level = lr_level r, jl_Step = lr_step r, jl_Message = lr_message r\<rparr>) rs), w1)))"

text \<open>Only the JSON column is written, with the job that was read before.\<close>

definition UpdateProgress ::
  "ctx \<Rightarrow> string \<Rightarrow> JobProgress \<Rightarrow> ('x job_db_scheme, 'e) world \<Rightarrow> unit res \<times> ('x job_db_scheme, 'e) world" where
  "UpdateProgress ctx i p w = (case ctx of
       Some err \<Rightarrow> (Inl err, w)
     | None \<Rightarrow>
         (case db_read (\<lambda>d. Inr (job_row_of (job_rows d) i)) w of
            (Inl err, w1) \<Rightarrow> (Inl (ErrWrap ''load job for progress update: '' err ''''), w1)
          | (Inr None, w1) \<Rightarrow> (Inl (ErrJobNotFound i), w1)
          | (Inr (Some r), w1) \<Rightarrow>
              (case unmarshal (jr_job r) of
                 Inl err \<Rightarrow> (Inl err, w1)
               | Inr j \<Rightarrow>
                   (case db_write (\<lambda>now d. (Inr (), d\<lparr>job_rows := map (\<lambda>r.
                            if jr_id r = i then r\<lparr>jr_job := Some (j\<lparr>jb_Progress := p\<rparr>)\<rparr> else r) (job_rows d)\<rparr>)) w1 of
                      (Inl err, w2) \<Rightarrow> (Inl (ErrWrap ''update progress: '' err ''''), w2)
                    | (Inr _, w2) \<Rightarrow> (Inr (), w2)))))"

subsection \<open>What the store promises\<close>

text \<open>Identifiers are unique (the primary key), and the columns agree with the JSON.\<close>

definition row_agrees :: "job_row \<Rightarrow> bool" where
  "row_agrees r \<longleftrightarrow> (\<exists>j. jr_job r = Some j \<and> jb_ID j = jr_id r \<and> jb_Type j = jr_type r \<and>
     jb_Status j = jr_status r \<and> jb_PlanID j = jr_plan_id r \<and> jb_Error j = jr_error r)"

definition store_wf :: "job_row list \<Rightarrow> bool" where
  "store_wf rs \<longleftrightarrow> distinct (map jr_id rs) \<and> (\<forall>r \<in> set rs. row_agrees r)"

lemma store_wf_Nil [simp]: "store_wf []"
  by (simp add: store_wf_def)

lemma row_of_agrees [simp]: "row_agrees (row_of j)" "jr_id (row_of j) = jb_ID j"
  "row_agrees ((row_of j)\<lparr>jr_created_at := t\<rparr>)"
  by (simp_all add: row_agrees_def row_of_def)

lemma upsert_job_ids: "map jr_id (upsert_job j rs) =
    (if jb_ID j \<in> jr_id ` set rs then map jr_id rs else map jr_id rs @ [jb_ID j])"
  by (force simp: upsert_job_def list_ex_iff row_of_def)

lemma upsert_job_wf: "store_wf rs \<Longrightarrow> store_wf (upsert_job j rs)"
  unfolding store_wf_def by (auto simp: upsert_job_ids) (auto simp: upsert_job_def split: if_splits)

definition stored :: "job_row list \<Rightarrow> string \<Rightarrow> Job option" where
  "stored rs i = Option.bind (job_row_of rs i) jr_job"

lemma job_row_of_map:
  "i \<noteq> k \<Longrightarrow> (\<And>r. jr_id (f r) = jr_id r) \<Longrightarrow>
     job_row_of (map (\<lambda>r. if jr_id r = k then f r else r) rs) i = job_row_of rs i"
  "(\<And>r. jr_id (f r) = jr_id r) \<Longrightarrow>
     job_row_of (map (\<lambda>r. if jr_id r = k then f r else r) rs) k = map_option f (job_row_of rs k)"
  by (induction rs) (auto simp: job_row_of_def)

lemma job_row_of_append: "job_row_of (rs @ [r]) i =
    (case job_row_of rs i of None \<Rightarrow> if jr_id r = i then Some r else None | Some x \<Rightarrow> Some x)"
  by (induction rs) (auto simp: job_row_of_def)

lemma job_row_of_None: "job_row_of rs i = None \<longleftrightarrow> \<not> list_ex (\<lambda>r. jr_id r = i) rs"
  by (induction rs) (auto simp: job_row_of_def)

lemma stored_upsert: "stored (upsert_job j rs) i = (if i = jb_ID j then Some j else stored rs i)"
proof (cases "list_ex (\<lambda>r. jr_id r = jb_ID j) rs")
  case True
  let ?f = "\<lambda>r. (row_of j)\<lparr>jr_created_at := jr_created_at r, jr_id := jr_id r\<rparr>"
  have "upsert_job j rs = map (\<lambda>r. if jr_id r = jb_ID j then ?f r else r) rs"
    using True by (simp add: upsert_job_def row_of_def)
  moreover obtain r where "job_row_of rs (jb_ID j) = Some r" using True job_row_of_None [of rs "jb_ID j"] by auto
  ultimately show ?thesis
    using job_row_of_map(1) [of i "jb_ID j" ?f rs] job_row_of_map(2) [of ?f "jb_ID j" rs] by (cases "i = jb_ID j") (simp_all add: stored_def row_of_def)
next
  case False
  then have "job_row_of rs (jb_ID j) = None" by (simp add: job_row_of_None)
  with False show ?thesis
    by (auto simp: stored_def upsert_job_def job_row_of_append row_of_def split: option.splits)
qed

lemma joinConditions_eq: "joinConditions cs sep = intersperse_concat sep cs"
proof -
  have later: "0 < n \<Longrightarrow> fold (\<lambda>(i, c) result. (if 0 < i then result @ sep else result) @ c) (enumerate n cs) r
      = r @ concat (map (\<lambda>c. sep @ c) cs)" for n cs r
    by (induction cs arbitrary: n r) auto
  have "intersperse_concat sep (c # cs) = c @ concat (map (\<lambda>c. sep @ c) cs)" for c cs
    by (induction cs arbitrary: c) auto
  then show ?thesis by (cases cs) (simp_all add: joinConditions_def later)
qed

lemma stored_find: "store_wf rs \<Longrightarrow> job_row_of rs i = Some r \<Longrightarrow> jr_id r = i \<and> row_agrees r \<and> r \<in> set rs"
  by (auto simp: job_row_of_def find_Some_iff store_wf_def)

end
