(* ===== verification/JobEngine.thy ===== *)
theory JobEngine
  imports JobStore "HOL-Library.AList"
begin

section \<open>The job engine (\<open>jobengine/engine.go\<close>, \<open>jobengine/shutdown.go\<close>)\<close>

text \<open>
  Submission, cancellation, pause and resume, the execution of one job, the loop of a worker, recovery
  at the start, and the shutdown. Each context of the code is a number; a context is dead when it or
  the root context \<open>0\<close> is in \<open>en_cancelled\<close>, so the cancel function of a job is the number of its
  context. A handler is an arbitrary function of the job, the context and the state: whatever other
  goroutines do while it runs, a pause or a cancellation for one, is part of that function.
\<close>

subsection \<open>Time stamps of identifiers\<close>

text \<open>Year, month and day of a number of days since 1970 (the proleptic Gregorian calendar).\<close>

definition civil :: "int \<Rightarrow> int \<times> int \<times> int" where
  "civil days =
     (let z = days + 719468; era = z div 146097; doe = z - era * 146097;
          yoe = (doe - doe div 1460 + doe div 36524 - doe div 146096) div 365;
          doy = doe - (365 * yoe + yoe div 4 - yoe div 100);
          mp = (5 * doy + 2) div 153; d = doy - (153 * mp + 2) div 5 + 1;
          m = (if mp < 10 then mp + 3 else mp - 9);
          y = yoe + era * 400 + (if m \<le> 2 then 1 else 0)
      in (y, m, d))"

definition pad :: "nat \<Rightarrow> int \<Rightarrow> string" where
  "pad n i = (let s = string_of_int i in replicate (n - length s) (CHR ''0'') @ s)"

text \<open>\<open>Format("20060102150405.000000000")\<close> of a time in nanoseconds.\<close>

definition format_ns :: "int \<Rightarrow> string" where
  "format_ns t =
     (let secs = t div second; (y, m, d) = civil (secs div 86400); r = secs mod 86400
      in pad 4 y @ pad 2 m @ pad 2 d @ pad 2 (r div 3600) @ pad 2 (r mod 3600 div 60) @ pad 2 (r mod 60)
         @ ''.'' @ pad 9 (t mod second))"

definition generateJobID :: "int \<Rightarrow> string" where
  "generateJobID now = ''job-'' @ format_ns now"

subsection \<open>The state of the engine\<close>

datatype job_event = Broadcast string JobProgress | Cleanup string

record Engine =
  en_started :: bool
  en_stop_closed :: bool
  en_workers :: int
  en_cancels :: "(string \<times> nat) list"
  en_running :: "(string \<times> nat) list"
  en_cancelled :: "nat set"
  en_next :: nat

definition NewEngine :: "int \<Rightarrow> Engine" where
  "NewEngine maxWorkers = \<lparr>en_started = False, en_stop_closed = False,
     en_workers = (if maxWorkers \<le> 0 then 1 else maxWorkers),
     en_cancels = [], en_running = [], en_cancelled = {}, en_next = 1\<rparr>"

type_synonym 'x est = "Engine \<times> ('x job_db_scheme, job_event) world"

definition ErrCanceled :: goerr where
  "ErrCanceled = ErrNew ''context canceled''"

definition ctx_err :: "Engine \<Rightarrow> nat \<Rightarrow> ctx" where
  "ctx_err e c = (if c \<in> en_cancelled e \<or> 0 \<in> en_cancelled e then Some ErrCanceled else None)"

definition on_world ::
  "(('x job_db_scheme, job_event) world \<Rightarrow> 'r \<times> ('x job_db_scheme, job_event) world) \<Rightarrow> 'x est \<Rightarrow> 'r \<times> 'x est" where
  "on_world f s = (case f (snd s) of (r, w) \<Rightarrow> (r, (fst s, w)))"

definition est_now :: "'x est \<Rightarrow> int" where
  "est_now s = w_now (snd s)"

definition emit :: "job_event \<Rightarrow> 'x est \<Rightarrow> 'x est" where
  "emit ev s = (fst s, (snd s)\<lparr>w_log := w_log (snd s) @ [ev]\<rparr>)"

definition cancel_ctx :: "nat \<Rightarrow> 'x est \<Rightarrow> 'x est" where
  "cancel_ctx c s = ((fst s)\<lparr>en_cancelled := insert c (en_cancelled (fst s))\<rparr>, snd s)"

text \<open>Call the cancel function that is registered for the job, if there is one.\<close>

definition call_cancel :: "string \<Rightarrow> 'x est \<Rightarrow> 'x est" where
  "call_cancel i s = (case map_of (en_cancels (fst s)) i of None \<Rightarrow> s | Some c \<Rightarrow> cancel_ctx c s)"

subsection \<open>Submit, Cancel, Pause, Resume\<close>

definition Submit :: "ctx \<Rightarrow> JobRequest \<Rightarrow> 'x est \<Rightarrow> Job res \<times> 'x est" where
  "Submit ctx req s =
     (if \<not> en_started (fst s) then (Inl (ErrF ''engine not started''), s)
      else
        let job = \<lparr>jb_ID = generateJobID (est_now s), jb_Type = jq_Type req, jb_Status = JobStatusQueued,
              jb_CreatedAt = est_now s, jb_StartedAt = None, jb_FinishedAt = None, jb_PlanID = jq_PlanID req,
              jb_MigrationID = jq_MigrationID req, jb_SourceID = jq_SourceID req, jb_TargetID = jq_TargetID req,
              jb_Progress = zero_progress, jb_Logs = [], jb_Error = ''''\<rparr>
        in case on_world (SaveJob ctx (Some job)) s of
             (Inl err, s1) \<Rightarrow> (Inl (ErrWrap ''save job: '' err ''''), s1)
           | (Inr _, s1) \<Rightarrow>
               (case on_world (Enqueue ctx (Some job)) s1 of
                  (Inl err, s2) \<Rightarrow>
                    (Inl (ErrWrap ''enqueue job: '' err ''''),
                     snd (on_world (SaveJob ctx (Some (job\<lparr>jb_Status := JobStatusFailed,
                            jb_Error := ''enqueue failed: '' @ err_text err\<rparr>))) s2))
                | (Inr _, s2) \<Rightarrow> (Inr job, s2)))"

definition ErrJobTerminal :: "string \<Rightarrow> JobStatus \<Rightarrow> goerr" where
  "ErrJobTerminal i st = ErrF (''job '' @ i @ '' is already in terminal state: '' @ st)"

definition cancel_progress :: "JobProgress \<Rightarrow> JobProgress" where
  "cancel_progress p = zero_progress\<lparr>jp_CurrentStep := jp_CurrentStep p, jp_TotalSteps := jp_TotalSteps p,
     jp_Percentage := jp_Percentage p\<rparr>"

text \<open>A failed removal from the queue is only logged.\<close>

definition Cancel_job :: "ctx \<Rightarrow> string \<Rightarrow> 'x est \<Rightarrow> unit res \<times> 'x est" where
  "Cancel_job ctx i s = (case on_world (LoadJob ctx i) s of
       (Inl err, s1) \<Rightarrow> (Inl (ErrWrap ''load job: '' err ''''), s1)
     | (Inr job, s1) \<Rightarrow>
         if job_terminal (jb_Status job) then (Inl (ErrJobTerminal i (jb_Status job)), s1)
         else
           let s2 = (if jb_Status job = JobStatusQueued then snd (on_world (Remove ctx i) s1) else s1);
               s3 = (if jb_Status job = JobStatusRunning then call_cancel i s2 else s2);
               job' = job\<lparr>jb_Status := JobStatusCancelled, jb_FinishedAt := Some (est_now s3)\<rparr>
           in case on_world (SaveJob ctx (Some job')) s3 of
                (Inl err, s4) \<Rightarrow> (Inl (ErrWrap ''save cancelled job: '' err ''''), s4)
              | (Inr _, s4) \<Rightarrow> (Inr (), emit (Broadcast i (cancel_progress (jb_Progress job'))) s4))"

definition Pause_job :: "ctx \<Rightarrow> string \<Rightarrow> 'x est \<Rightarrow> unit res \<times> 'x est" where
  "Pause_job ctx i s = (case on_world (LoadJob ctx i) s of
       (Inl err, s1) \<Rightarrow> (Inl (ErrWrap ''load job: '' err ''''), s1)
     | (Inr job, s1) \<Rightarrow>
         if jb_Status job \<noteq> JobStatusRunning
         then (Inl (ErrF (''job '' @ i @ '' is not running (status: '' @ jb_Status job @ '')'')), s1)
         else
           (case on_world (SaveJob ctx (Some (job\<lparr>jb_Status := JobStatusPaused\<rparr>))) (call_cancel i s1) of
              (Inl err, s2) \<Rightarrow> (Inl (ErrWrap ''save paused job: '' err ''''), s2)
            | (Inr _, s2) \<Rightarrow> (Inr (), s2)))"

definition Resume_job :: "ctx \<Rightarrow> string \<Rightarrow> 'x est \<Rightarrow> unit res \<times> 'x est" where
  "Resume_job ctx i s = (case on_world (LoadJob ctx i) s of
       (Inl err, s1) \<Rightarrow> (Inl (ErrWrap ''load job: '' err ''''), s1)
     | (Inr job, s1) \<Rightarrow>
         if jb_Status job \<noteq> JobStatusPaused
         then (Inl (ErrF (''job '' @ i @ '' is not paused (status: '' @ jb_Status job @ '')'')), s1)
         else
           let job' = job\<lparr>jb_Status := JobStatusQueued\<rparr> in
           (case on_world (SaveJob ctx (Some job')) s1 of
              (Inl err, s2) \<Rightarrow> (Inl (ErrWrap ''save resumed job: '' err ''''), s2)
            | (Inr _, s2) \<Rightarrow>
                (case on_world (Enqueue ctx (Some job')) s2 of
                   (Inl err, s3) \<Rightarrow> (Inl (ErrWrap ''enqueue resumed job: '' err ''''), s3)
                 | (Inr _, s3) \<Rightarrow> (Inr (), s3))))"

subsection \<open>The execution of a job\<close>

type_synonym 'x handler = "Job \<Rightarrow> nat \<Rightarrow> 'x est \<Rightarrow> goerr option \<times> Job \<times> 'x est"
type_synonym 'x factory = "Job \<Rightarrow> 'x handler option res"

text \<open>The context, its cancel function, and both registrations; and what the deferred calls undo.\<close>

definition begin_job :: "Job \<Rightarrow> 'x est \<Rightarrow> nat \<times> 'x est" where
  "begin_job job s = (let e = fst s; c = en_next e in
     (c, (e\<lparr>en_next := Suc c, en_running := AList.update (jb_ID job) c (en_running e),
            en_cancels := AList.update (jb_ID job) c (en_cancels e)\<rparr>, snd s)))"

definition end_job :: "string \<Rightarrow> nat \<Rightarrow> 'x est \<Rightarrow> 'x est" where
  "end_job i c s = cancel_ctx c
     ((fst s)\<lparr>en_cancels := AList.delete i (en_cancels (fst s)),
              en_running := AList.delete i (en_running (fst s))\<rparr>, snd s)"

definition failJob :: "nat \<Rightarrow> Job \<Rightarrow> string \<Rightarrow> 'x est \<Rightarrow> 'x est" where
  "failJob c job msg s = snd (on_world (SaveJob (ctx_err (fst s) c)
     (Some (job\<lparr>jb_Status := JobStatusFailed, jb_Error := msg, jb_FinishedAt := Some (est_now s)\<rparr>))) s)"

text \<open>The final status; \<open>None\<close> for the early return of a job that is paused.\<close>

definition final_job :: "ctx \<Rightarrow> goerr option \<Rightarrow> Job \<Rightarrow> Job option" where
  "final_job ctx err job = (case err of
       None \<Rightarrow> Some (job\<lparr>jb_Status := JobStatusDone, jb_Progress := (jb_Progress job)\<lparr>jp_Percentage := 100\<rparr>\<rparr>)
     | Some e \<Rightarrow>
         (case ctx of
            None \<Rightarrow> Some (job\<lparr>jb_Status := JobStatusFailed, jb_Error := err_text e\<rparr>)
          | Some ce \<Rightarrow>
              if jb_Status job = JobStatusPaused then None
              else Some (job\<lparr>jb_Status := JobStatusCancelled, jb_Error := ''cancelled: '' @ err_text ce\<rparr>)))"

definition finish_job :: "nat \<Rightarrow> goerr option \<times> Job \<times> 'x est \<Rightarrow> 'x est" where
  "finish_job c r = (case r of (err, job0, s) \<Rightarrow>
     let ctx = ctx_err (fst s) c; job = job0\<lparr>jb_FinishedAt := Some (est_now s)\<rparr> in
     case final_job ctx err job of
       None \<Rightarrow> snd (on_world (SaveJob ctx (Some job)) s)
     | Some job' \<Rightarrow>
         emit (Cleanup (jb_ID job')) (emit (Broadcast (jb_ID job') (jb_Progress job'))
           (snd (on_world (SaveJob ctx (Some job')) s))))"

definition executeJob :: "'x factory \<Rightarrow> Job \<Rightarrow> 'x est \<Rightarrow> 'x est" where
  "executeJob factory job s =
     (let (c, s1) = begin_job job s;
          job1 = job\<lparr>jb_Status := JobStatusRunning, jb_StartedAt := Some (est_now s1)\<rparr>;
          s2 = snd (on_world (SaveJob (ctx_err (fst s1) c) (Some job1)) s1)
      in end_job (jb_ID job) c (case factory job1 of
           Inl err \<Rightarrow> failJob c job1 (''create handler: '' @ err_text err) s2
         | Inr None \<Rightarrow> failJob c job1 (''no handler created for job type '' @ quoted (jb_Type job1)
                         @ '' (job '' @ jb_ID job1 @ '')'') s2
         | Inr (Some h) \<Rightarrow> finish_job c (h job1 c s2)))"

text \<open>What the callbacks that a handler gets do.\<close>

definition onProgress :: "nat \<Rightarrow> JobProgress \<Rightarrow> Job \<Rightarrow> 'x est \<Rightarrow> Job \<times> 'x est" where
  "onProgress c p job s =
     (job\<lparr>jb_Progress := p\<rparr>,
      emit (Broadcast (jb_ID job) p) (snd (on_world (UpdateProgress (ctx_err (fst s) c) (jb_ID job) p) s)))"

definition onLog :: "nat \<Rightarrow> JobLog \<Rightarrow> Job \<Rightarrow> 'x est \<Rightarrow> 'x est" where
  "onLog c l job s = snd (on_world (AppendLog (ctx_err (fst s) c) (jb_ID job) l) s)"

text \<open>One round of a worker: whether it goes on, and the state. The waits only take time.\<close>

definition worker_round :: "'x factory \<Rightarrow> 'x est \<Rightarrow> bool \<times> 'x est" where
  "worker_round factory s =
     (if en_stop_closed (fst s) \<or> ctx_err (fst s) 0 \<noteq> None then (False, s)
      else (case on_world (Dequeue None) s of
          (Inl err, s1) \<Rightarrow> (ctx_err (fst s1) 0 = None, s1)
        | (Inr None, s1) \<Rightarrow> (True, s1)
        | (Inr (Some job), s1) \<Rightarrow> (True, executeJob factory job s1)))"

text \<open>At most \<open>n\<close> rounds.\<close>

primrec workerLoop :: "nat \<Rightarrow> 'x factory \<Rightarrow> 'x est \<Rightarrow> 'x est" where
  "workerLoop 0 factory s = s"
| "workerLoop (Suc n) factory s = (case worker_round factory s of
       (go, s1) \<Rightarrow> if go then workerLoop n factory s1 else s1)"

subsection \<open>Start, recovery and Stop\<close>

definition pause_recovered :: "ctx \<Rightarrow> Job \<Rightarrow> 'x est \<Rightarrow> 'x est" where
  "pause_recovered ctx job s = snd (on_world (SaveJob ctx (Some (job\<lparr>jb_Status := JobStatusPaused\<rparr>))) s)"

definition status_filter :: "JobStatus \<Rightarrow> JobFilter" where
  "status_filter st = \<lparr>jf_Type = '''', jf_Status = st, jf_Limit = 0\<rparr>"

definition recoverJobs :: "ctx \<Rightarrow> 'x est \<Rightarrow> unit res \<times> 'x est" where
  "recoverJobs ctx s = (case on_world (ListJobs ctx (status_filter JobStatusRunning)) s of
       (Inl err, s1) \<Rightarrow> (Inl (ErrWrap ''list running jobs: '' err ''''), s1)
     | (Inr running, s1) \<Rightarrow>
         (case on_world (ListJobs ctx (status_filter JobStatusQueued)) (fold (pause_recovered ctx) running s1) of
            (Inl err, s2) \<Rightarrow> (Inl (ErrWrap ''list queued jobs: '' err ''''), s2)
          | (Inr _, s2) \<Rightarrow> (Inr (), s2)))"

text \<open>An error of the recovery is only logged.\<close>

definition Start :: "'x est \<Rightarrow> unit res \<times> 'x est" where
  "Start s =
     (if en_started (fst s) then (Inl (ErrF ''engine already started''), s)
      else (Inr (), snd (recoverJobs (ctx_err (fst s) 0) ((fst s)\<lparr>en_started := True\<rparr>, snd s))))"

text \<open>
  The shutdown manager looks every half second whether a job is still registered. \<open>sd_ops n\<close> is what
  workers do between its rounds \<open>n\<close> and \<open>n + 1\<close>, \<open>sd_after\<close> what they do in the two seconds after the
  forced cancellation.
\<close>

datatype run_op = Registers string nat | Unregisters string

fun apply_run :: "(string \<times> nat) list \<Rightarrow> run_op \<Rightarrow> (string \<times> nat) list" where
  "apply_run r (Registers i c) = AList.update i c r"
| "apply_run r (Unregisters i) = AList.delete i r"

record shutdown_env =
  sd_ops :: "nat \<Rightarrow> run_op list"
  sd_now :: "nat \<Rightarrow> int"
  sd_ctx :: "nat \<Rightarrow> ctx"
  sd_after :: "run_op list"

record shutdown_result =
  sr_forced :: nat
  sr_err :: "goerr option"
  sr_cancelled :: "nat set"
  sr_running :: "(string \<times> nat) list"

definition DefaultShutdownTimeout :: int where
  "DefaultShutdownTimeout = 30 * second"

partial_function (option) shutdown_loop ::
  "shutdown_env \<Rightarrow> int \<Rightarrow> nat \<Rightarrow> (string \<times> nat) list \<Rightarrow> shutdown_result option" where
  "shutdown_loop env deadline n r =
     (if r = [] then Some \<lparr>sr_forced = 0, sr_err = None, sr_cancelled = {}, sr_running = []\<rparr>
      else if deadline < sd_now env n then
        (let r' = foldl apply_run r (sd_after env) in
         Some \<lparr>sr_forced = length r,
               sr_err = (if r' = [] then None else Some (ErrF (''shutdown timeout: ''
                  @ string_of_nat (length r') @ '' jobs still running after force-cancel''))),
               sr_cancelled = snd ` set r, sr_running = r'\<rparr>)
      else (case sd_ctx env n of
          Some e \<Rightarrow> Some \<lparr>sr_forced = 0, sr_err = Some e, sr_cancelled = {}, sr_running = r\<rparr>
        | None \<Rightarrow> shutdown_loop env deadline (Suc n) (foldl apply_run r (sd_ops env n))))"

definition Shutdown :: "shutdown_env \<Rightarrow> int \<Rightarrow> int \<Rightarrow> (string \<times> nat) list \<Rightarrow> shutdown_result option" where
  "Shutdown env timeout start r = shutdown_loop env (start + timeout) 0 r"

text \<open>
  \<open>Stop\<close> before and after its waits. Closing a closed channel panics; the panic is an outcome here.
\<close>

datatype stop_outcome = NotStarted | Signalled | CloseOfClosedChannel

definition Stop_begin :: "Engine \<Rightarrow> stop_outcome \<times> Engine" where
  "Stop_begin e =
     (if \<not> en_started e then (NotStarted, e)
      else if en_stop_closed e then (CloseOfClosedChannel, e)
      else (Signalled, e\<lparr>en_stop_closed := True\<rparr>))"

definition Stop_end :: "shutdown_result \<Rightarrow> Engine \<Rightarrow> unit res \<times> Engine" where
  "Stop_end r e =
     (case sr_err r of None \<Rightarrow> Inr () | Some err \<Rightarrow> Inl err,
      e\<lparr>en_started := False, en_stop_closed := False, en_running := sr_running r,
        en_cancelled := en_cancelled e \<union> sr_cancelled r\<rparr>)"

end
