(* ===== verification/JobProperties.thy ===== *)
theory JobProperties
  imports JobEngine "HOL-Library.Multiset"
begin

section \<open>Properties of the job engine\<close>

text \<open>
  What saving and loading do to a calm and to a failing database, one execution of a job, the loop of a
  worker, and the properties of the operations. A run of queue operations gives the same answers on
  both queues.
\<close>

subsection \<open>Saving and loading\<close>

definition saved :: "Job \<Rightarrow> ('x job_db_scheme, 'e) world \<Rightarrow> ('x job_db_scheme, 'e) world" where
  "saved j w = tick (w\<lparr>w_db := (w_db w)\<lparr>job_rows := upsert_job j (job_rows (w_db w))\<rparr>\<rparr>)"

lemma saved_fields [simp]:
  "fault_free w \<Longrightarrow> fault_free (saved j w)"
  "queue_rows (w_db (saved j w)) = queue_rows (w_db w)"
  "log_rows (w_db (saved j w)) = log_rows (w_db w)"
  "job_rows (w_db (saved j w)) = upsert_job j (job_rows (w_db w))"
  "w_log (saved j w) = w_log w"
  by (simp_all add: saved_def)

lemma SaveJob_alive:
  "fault_free w \<Longrightarrow> jb_ID j \<noteq> [] \<Longrightarrow> SaveJob None (Some j) w = (Inr (), saved j w)"
  by (simp add: SaveJob_def saved_def fault_free_write)

text \<open>A dead context writes nothing, whatever the job.\<close>

lemma SaveJob_dead: "snd (SaveJob (Some err) job w) = w"
  by (simp add: SaveJob_def split: option.split)

lemma LoadJob_db: "LoadJob ctx i w = (r, w') \<Longrightarrow> w_db w' = w_db w \<and> w_log w' = w_log w"
  by (auto simp: LoadJob_def split: option.splits sum.splits prod.splits dest: db_read_frames)

lemma LoadJob_ok: "LoadJob ctx i w = (Inr j, w') \<Longrightarrow> stored (job_rows (w_db w)) i = Some j"
  by (auto simp: LoadJob_def stored_def unmarshal_def split: option.splits sum.splits prod.splits dest!: db_read_ok)

lemma LoadJob_alive:
  "fault_free w \<Longrightarrow> stored (job_rows (w_db w)) i = Some j \<Longrightarrow> LoadJob None i w = (Inr j, tick w)"
  by (auto simp: LoadJob_def stored_def unmarshal_def fault_free_read split: option.splits)
    (cases "job_row_of (job_rows (w_db w)) i"; simp add: fault_free_read)

lemma on_world_simps:
  "f (snd s) = (r, w) \<Longrightarrow> on_world f s = (r, (fst s, w))"
  by (simp add: on_world_def)

subsection \<open>One execution\<close>

text \<open>
  A handler that succeeds, leaves the engine and the queue alone and touches no other job: all it may
  change is its own job, its logs and the progress in its own row.
\<close>

definition polite :: "'x handler \<Rightarrow> bool" where
  "polite h \<longleftrightarrow> (\<forall>job c e w. fault_free w \<longrightarrow>
     (\<exists>job' w'. h job c (e, w) = (None, job', (e, w')) \<and> jb_ID job' = jb_ID job \<and> fault_free w' \<and>
        queue_rows (w_db w') = queue_rows (w_db w) \<and>
        (\<forall>i. i \<noteq> jb_ID job \<longrightarrow> stored (job_rows (w_db w')) i = stored (job_rows (w_db w)) i)))"

definition polite_factory :: "'x factory \<Rightarrow> bool" where
  "polite_factory f \<longleftrightarrow> (\<forall>job. \<exists>h. f job = Inr (Some h) \<and> polite h)"

lemma politeD:
  "polite h \<Longrightarrow> fault_free w \<Longrightarrow>
     \<exists>job' w'. h job c (e, w) = (None, job', (e, w')) \<and> jb_ID job' = jb_ID job \<and> fault_free w' \<and>
        queue_rows (w_db w') = queue_rows (w_db w) \<and>
        (\<forall>i. i \<noteq> jb_ID job \<longrightarrow> stored (job_rows (w_db w')) i = stored (job_rows (w_db w)) i)"
  unfolding polite_def by blast

text \<open>No context of the future is dead, and neither is the root.\<close>

definition engine_fresh :: "Engine \<Rightarrow> bool" where
  "engine_fresh e \<longleftrightarrow> 0 < en_next e \<and> 0 \<notin> en_cancelled e \<and> (\<forall>c \<in> en_cancelled e. c < en_next e) \<and> \<not> en_stop_closed e"

lemma NewEngine_fresh: "engine_fresh (NewEngine n)" "engine_fresh ((NewEngine n)\<lparr>en_started := b\<rparr>)"
  by (simp_all add: engine_fresh_def NewEngine_def)

lemma fresh_ctx: "engine_fresh e \<Longrightarrow> ctx_err e 0 = None \<and> ctx_err e (en_next e) = None"
  by (auto simp: engine_fresh_def ctx_err_def)

lemma begin_job_fields:
  "begin_job job (e, w) = (c, s) \<Longrightarrow> c = en_next e \<and> snd s = w \<and> en_cancelled (fst s) = en_cancelled e \<and>
     en_next (fst s) = Suc (en_next e) \<and> en_stop_closed (fst s) = en_stop_closed e \<and> en_started (fst s) = en_started e"
  by (auto simp: begin_job_def Let_def)

lemma end_job_fields [simp]:
  "snd (end_job i c s) = snd s" "en_cancelled (fst (end_job i c s)) = insert c (en_cancelled (fst s))"
  "en_next (fst (end_job i c s)) = en_next (fst s)" "en_stop_closed (fst (end_job i c s)) = en_stop_closed (fst s)"
  "en_started (fst (end_job i c s)) = en_started (fst s)"
  by (simp_all add: end_job_def cancel_ctx_def)

lemma event_fields [simp]: "fst (emit ev s) = fst s" "w_db (snd (emit ev s)) = w_db (snd s)"
  "fault_free (snd (emit ev s)) = fault_free (snd s)"
  by (simp_all add: emit_def fault_free_def)

text \<open>What the engine does with a job once its handler has run.\<close>

lemma executeJob_handler:
  assumes "factory (job\<lparr>jb_Status := JobStatusRunning, jb_StartedAt := Some (w_now w)\<rparr>) = Inr (Some h)"
  shows "executeJob factory job (e, w) = (let (c, s1) = begin_job job (e, w);
      job1 = job\<lparr>jb_Status := JobStatusRunning, jb_StartedAt := Some (w_now w)\<rparr> in
      end_job (jb_ID job) c (finish_job c (h job1 c (snd (on_world (SaveJob (ctx_err (fst s1) c) (Some job1)) s1)))))"
  using assms begin_job_fields [of job e w]
  by (auto simp: executeJob_def est_now_def Let_def split: prod.split)

lemma finish_job_dead:
  "ctx_err (fst s) c \<noteq> None \<Longrightarrow> w_db (snd (finish_job c (err, job, s))) = w_db (snd s)"
  by (auto simp: finish_job_def Let_def on_world_def SaveJob_dead split: option.splits prod.splits)
     (metis SaveJob_dead snd_conv)+

lemma finish_job_alive:
  assumes "ctx_err (fst s) c = None" "fault_free (snd s)" "jb_ID job \<noteq> []"
  shows "\<exists>job' w'. finish_job c (err, job, s) = (fst s, w') \<and> fault_free w' \<and>
    w_db w' = w_db (saved job' (snd s)) \<and>
    final_job None err (job\<lparr>jb_FinishedAt := Some (w_now (snd s))\<rparr>) = Some job' \<and> jb_ID job' = jb_ID job"
proof -
  obtain job' where f: "final_job None err (job\<lparr>jb_FinishedAt := Some (w_now (snd s))\<rparr>) = Some job'"
    and id: "jb_ID job' = jb_ID job"
    by (cases err) (simp_all add: final_job_def)
  have "SaveJob None (Some job') (snd s) = (Inr (), saved job' (snd s))"
    using assms id by (intro SaveJob_alive) auto
  then show ?thesis
    using assms f id
    by (auto simp: finish_job_def Let_def est_now_def on_world_def emit_def fault_free_def saved_def)
qed

lemma executeJob_polite:
  assumes e: "engine_fresh e" and w: "fault_free w" and id: "jb_ID job \<noteq> []" and f: "polite_factory factory"
  shows "\<exists>e' w' job'. executeJob factory job (e, w) = (e', w') \<and> engine_fresh e' \<and> fault_free w' \<and>
    queue_rows (w_db w') = queue_rows (w_db w) \<and>
    stored (job_rows (w_db w')) (jb_ID job) = Some job' \<and> jb_Status job' = JobStatusDone \<and>
    jp_Percentage (jb_Progress job') = 100 \<and>
    (\<forall>i. i \<noteq> jb_ID job \<longrightarrow> stored (job_rows (w_db w')) i = stored (job_rows (w_db w)) i)"
proof -
  let ?job1 = "job\<lparr>jb_Status := JobStatusRunning, jb_StartedAt := Some (w_now w)\<rparr>"
  obtain h where h: "factory ?job1 = Inr (Some h)" "polite h" using f by (auto simp: polite_factory_def)
  obtain c e1 where b: "begin_job job (e, w) = (c, (e1, w))"
    using begin_job_fields [of job e w] by (metis prod.collapse)
  note b' = begin_job_fields [OF b]
  have ctx: "ctx_err e1 c = None" using b' fresh_ctx [OF e] by (auto simp: ctx_err_def)
  have sv: "SaveJob None (Some ?job1) w = (Inr (), saved ?job1 w)" using w id by (intro SaveJob_alive) auto
  obtain job2 w2 where r0: "h ?job1 c (e1, saved ?job1 w) = (None, job2, (e1, w2)) \<and> jb_ID job2 = jb_ID ?job1 \<and>
      fault_free w2 \<and> queue_rows (w_db w2) = queue_rows (w_db (saved ?job1 w)) \<and>
      (\<forall>i. i \<noteq> jb_ID ?job1 \<longrightarrow> stored (job_rows (w_db w2)) i = stored (job_rows (w_db (saved ?job1 w))) i)"
    using politeD [OF h(2) saved_fields(1) [OF w]] by blast
  then have r: "h ?job1 c (e1, saved ?job1 w) = (None, job2, (e1, w2))" "jb_ID job2 = jb_ID job"
      "fault_free w2" "queue_rows (w_db w2) = queue_rows (w_db w)"
      "\<And>i. i \<noteq> jb_ID job \<Longrightarrow> stored (job_rows (w_db w2)) i = stored (job_rows (w_db w)) i"
    by (simp_all add: stored_upsert)
  obtain job3 w3 where fin: "finish_job c (None, job2, (e1, w2)) = (e1, w3)" "fault_free w3"
      "w_db w3 = w_db (saved job3 w2)"
      "final_job None None (job2\<lparr>jb_FinishedAt := Some (w_now w2)\<rparr>) = Some job3" "jb_ID job3 = jb_ID job2"
    using finish_job_alive [of "(e1, w2)" c job2 None] ctx r id by auto
  have run: "executeJob factory job (e, w) = end_job (jb_ID job) c (e1, w3)"
    using executeJob_handler [where factory = factory and job = job and w = w and h = h and e = e] h(1) b ctx sv r(1) fin(1) by (simp add: on_world_def)
  have "engine_fresh (fst (end_job (jb_ID job) c (e1, w3)))"
    using e b' by (auto simp: engine_fresh_def less_Suc_eq)
  moreover have "jb_Status job3 = JobStatusDone \<and> jp_Percentage (jb_Progress job3) = 100"
    using fin(4) by (auto simp: final_job_def)
  moreover have "stored (job_rows (w_db w3)) i = (if i = jb_ID job then Some job3 else stored (job_rows (w_db w)) i)" for i
    using fin(3,5) r(2) r(5) [of i] by (auto simp: stored_upsert)
  ultimately show ?thesis
    using run fin(2,3) r(4) by (intro exI [of _ "fst (end_job (jb_ID job) c (e1, w3))"] exI [of _ w3] exI [of _ job3])
      (simp add: prod_eq_iff)
qed

subsection \<open>The queue under the engine\<close>

lemma Dequeue_jobs: "Dequeue ctx w = (r, w') \<Longrightarrow> job_rows (w_db w') = job_rows (w_db w)"
  by (auto simp: Dequeue_def delete_row_def split: option.splits sum.splits prod.splits
      dest!: db_read_frames db_write_snd)

lemma Enqueue_jobs: "Enqueue ctx j w = (r, w') \<Longrightarrow> job_rows (w_db w') = job_rows (w_db w)"
  by (auto simp: Enqueue_def Let_def split: option.splits sum.splits prod.splits if_splits
      dest!: db_read_frames db_write_snd)

lemma Remove_jobs: "Remove ctx i w = (r, w') \<Longrightarrow> job_rows (w_db w') = job_rows (w_db w)"
  by (auto simp: Remove_def delete_row_def split: option.splits sum.splits prod.splits dest!: db_write_snd)

lemma queue_ready_saved: "queue_ready w \<Longrightarrow> queue_ready (saved j w)"
  by (simp add: queue_ready_def)

text \<open>A round of a worker on a queue with a job in front, and on an empty one.\<close>

lemma worker_round_job:
  assumes e: "engine_fresh e" and w: "queue_ready w" and q: "queued (queue_rows (w_db w)) = j # js"
    and id: "jb_ID j \<noteq> []" and f: "polite_factory factory"
  shows "\<exists>e' w' job'. worker_round factory (e, w) = (True, (e', w')) \<and> engine_fresh e' \<and> queue_ready w' \<and>
    queued (queue_rows (w_db w')) = js \<and>
    stored (job_rows (w_db w')) (jb_ID j) = Some job' \<and> jb_Status job' = JobStatusDone \<and>
    (\<forall>i. i \<noteq> jb_ID j \<longrightarrow> stored (job_rows (w_db w')) i = stored (job_rows (w_db w)) i)"
proof -
  obtain w1 where d: "Dequeue None w = (Inr (Some j), w1)" "queue_ready w1" "queued (queue_rows (w_db w1)) = js"
    using sqlite_deq [OF w] q by auto
  have "fault_free w1" using d(2) by (simp add: queue_ready_def)
  from executeJob_polite [OF e this id f] obtain e' w' job' where x: "executeJob factory j (e, w1) = (e', w')"
    "engine_fresh e'" "fault_free w'" "queue_rows (w_db w') = queue_rows (w_db w1)"
    "stored (job_rows (w_db w')) (jb_ID j) = Some job'" "jb_Status job' = JobStatusDone"
    "\<And>i. i \<noteq> jb_ID j \<Longrightarrow> stored (job_rows (w_db w')) i = stored (job_rows (w_db w1)) i"
    by blast
  then show ?thesis
    using d e fresh_ctx [OF e] Dequeue_jobs [OF d(1)]
    by (auto simp: worker_round_def on_world_def queue_ready_def engine_fresh_def)
qed

lemma worker_round_empty:
  assumes e: "engine_fresh e" and w: "queue_ready w" and q: "queued (queue_rows (w_db w)) = []"
  shows "\<exists>w'. worker_round factory (e, w) = (True, (e, w')) \<and> queue_ready w' \<and>
    queued (queue_rows (w_db w')) = [] \<and> job_rows (w_db w') = job_rows (w_db w)"
proof -
  obtain w1 where d: "Dequeue None w = (Inr None, w1)" "queue_ready w1" "queued (queue_rows (w_db w1)) = []"
    using sqlite_deq [OF w] q by auto
  then show ?thesis using fresh_ctx [OF e] e Dequeue_jobs [OF d(1)]
    by (simp add: worker_round_def on_world_def engine_fresh_def)
qed

lemma workerLoop_drains:
  assumes "engine_fresh e" "queue_ready w" "polite_factory factory"
    "[] \<notin> jb_ID ` set (queued (queue_rows (w_db w)))" "length (queued (queue_rows (w_db w))) \<le> n"
  shows "\<exists>e' w'. workerLoop n factory (e, w) = (e', w') \<and> queued (queue_rows (w_db w')) = [] \<and>
    (\<forall>j \<in> set (queued (queue_rows (w_db w))). \<exists>j'. stored (job_rows (w_db w')) (jb_ID j) = Some j' \<and>
       jb_Status j' = JobStatusDone) \<and>
    (\<forall>i. i \<notin> jb_ID ` set (queued (queue_rows (w_db w))) \<longrightarrow>
       stored (job_rows (w_db w')) i = stored (job_rows (w_db w)) i)"
  using assms
proof (induction n arbitrary: e w)
  case (Suc n)
  show ?case
  proof (cases "queued (queue_rows (w_db w))")
    case Nil
    obtain w1 where r: "worker_round factory (e, w) = (True, (e, w1))" "queue_ready w1"
      "queued (queue_rows (w_db w1)) = []" "job_rows (w_db w1) = job_rows (w_db w)"
      using worker_round_empty [OF Suc.prems(1,2) Nil] by blast
    then show ?thesis using Suc.IH [OF Suc.prems(1) r(2) Suc.prems(3)] Nil by auto
  next
    case (Cons j js)
    have id: "jb_ID j \<noteq> []" using Suc.prems(4) Cons by auto
    have dist: "jb_ID j \<notin> jb_ID ` set js"
      using sqlite.distinct_jobs [OF Suc.prems(2)] Cons by simp
    obtain e1 w1 job1 where r: "worker_round factory (e, w) = (True, (e1, w1))" "engine_fresh e1" "queue_ready w1"
      "queued (queue_rows (w_db w1)) = js" "stored (job_rows (w_db w1)) (jb_ID j) = Some job1"
      "jb_Status job1 = JobStatusDone"
      "\<And>i. i \<noteq> jb_ID j \<Longrightarrow> stored (job_rows (w_db w1)) i = stored (job_rows (w_db w)) i"
      using worker_round_job [OF Suc.prems(1,2) Cons id Suc.prems(3)] by blast
    have "[] \<notin> jb_ID ` set (queued (queue_rows (w_db w1)))" "length (queued (queue_rows (w_db w1))) \<le> n"
      using Suc.prems(4,5) Cons r(4) by auto
    from Suc.IH [OF r(2,3) Suc.prems(3) this] obtain e2 w2 where "workerLoop n factory (e1, w1) = (e2, w2)"
      "queued (queue_rows (w_db w2)) = []"
      "\<And>j. j \<in> set js \<Longrightarrow> \<exists>j'. stored (job_rows (w_db w2)) (jb_ID j) = Some j' \<and> jb_Status j' = JobStatusDone"
      "\<And>i. i \<notin> jb_ID ` set js \<Longrightarrow> stored (job_rows (w_db w2)) i = stored (job_rows (w_db w1)) i"
      unfolding r(4) by blast
    then show ?thesis using r Cons dist by auto
  qed
qed auto

text \<open>\<open>C28\<close>: a worker runs every queued job. With a calm database and handlers that succeed, after as many
  rounds as there are jobs the queue is empty, every job that was in it is stored as done, and no other job
  was touched.\<close>

theorem worker_runs_every_queued_job:
  assumes "engine_fresh e" "queue_ready w" "polite_factory factory"
    "[] \<notin> jb_ID ` set (queued (queue_rows (w_db w)))" "length (queued (queue_rows (w_db w))) \<le> n"
  shows "\<exists>e' w'. workerLoop n factory (e, w) = (e', w') \<and> queued (queue_rows (w_db w')) = [] \<and>
    (\<forall>j \<in> set (queued (queue_rows (w_db w))). \<exists>j'. stored (job_rows (w_db w')) (jb_ID j) = Some j' \<and>
       jb_Status j' = JobStatusDone) \<and>
    (\<forall>i. i \<notin> jb_ID ` set (queued (queue_rows (w_db w))) \<longrightarrow>
       stored (job_rows (w_db w')) i = stored (job_rows (w_db w)) i)"
  by (rule workerLoop_drains [OF assms])

definition demo_job :: "string \<Rightarrow> JobStatus \<Rightarrow> Job" where
  "demo_job i st = \<lparr>jb_ID = i, jb_Type = ''discovery'', jb_Status = st, jb_CreatedAt = 0, jb_StartedAt = None,
     jb_FinishedAt = None, jb_PlanID = [], jb_MigrationID = 0, jb_SourceID = 1, jb_TargetID = 0,
     jb_Progress = zero_progress, jb_Logs = [], jb_Error = []\<rparr>"

definition demo_row :: "string \<Rightarrow> int \<Rightarrow> queue_row" where
  "demo_row i p = \<lparr>qr_id = i, qr_job = Some (demo_job i JobStatusQueued), qr_position = p, qr_queued_at = 0\<rparr>"

definition demo_job_db :: "string list \<Rightarrow> Job list \<Rightarrow> job_db" where
  "demo_job_db is js = \<lparr>queue_rows = map (\<lambda>(p, i). demo_row i (int p)) (enumerate 1 is),
     job_rows = map row_of js, log_rows = []\<rparr>"

definition quick_factory :: "'x factory" where
  "quick_factory job = Inr (Some (\<lambda>job c s. (None, job, s)))"

lemma quick_factory_polite: "polite_factory quick_factory"
  by (auto simp: polite_factory_def quick_factory_def polite_def)

lemma demo_queue:
  "queue_rows (w_db (calm_world (demo_job_db [''a'', ''b''] js))) = [demo_row ''a'' 1, demo_row ''b'' 2]"
  "queue_rows (w_db (calm_world (demo_job_db [''a''] js))) = [demo_row ''a'' 1]"
  "queue_rows (w_db (calm_world (demo_job_db [] js))) = []"
  "job_rows (w_db (calm_world (demo_job_db is js))) = map row_of js"
  by (simp_all add: calm_world_def demo_job_db_def)

lemma demo_queue_ready:
  "queue_ready (calm_world (demo_job_db [''a'', ''b''] js))" "queue_ready (calm_world (demo_job_db [''a''] js))"
  "queue_ready (calm_world (demo_job_db [] js))"
  by (simp_all add: queue_ready_def demo_queue) (simp_all add: fault_free_def calm_world_def queue_wf_def demo_row_def demo_job_def)

theorem worker_runs_every_queued_job_witness:
  "\<exists>e' w'. workerLoop 2 quick_factory (NewEngine 1, calm_world (demo_job_db [''a'', ''b''] [])) = (e', w') \<and>
     queued (queue_rows (w_db w')) = [] \<and>
     (\<exists>j'. stored (job_rows (w_db w')) ''b'' = Some j' \<and> jb_Status j' = JobStatusDone)"
  using worker_runs_every_queued_job [OF NewEngine_fresh(1) demo_queue_ready(1) quick_factory_polite, of "[]" 2 1]
  by (fastforce simp: demo_queue queued_def demo_row_def demo_job_def)

subsection \<open>Queue operations refine a list\<close>

datatype queue_op = QEnqueue Job | QDequeue | QPeek | QSize | QRemove string

datatype queue_answer = Done "unit res" | Job_answer "Job option res" | Count "int res"

fun sqlite_op :: "queue_op \<Rightarrow> ('x queue_db_scheme, 'e) world \<Rightarrow> queue_answer \<times> ('x queue_db_scheme, 'e) world" where
  "sqlite_op (QEnqueue j) w = map_prod Done id (Enqueue None (Some j) w)"
| "sqlite_op QDequeue w = map_prod Job_answer id (Dequeue None w)"
| "sqlite_op QPeek w = map_prod Job_answer id (Peek None w)"
| "sqlite_op QSize w = map_prod Count id (Size None w)"
| "sqlite_op (QRemove i) w = map_prod Done id (Remove None i w)"

fun memory_op :: "queue_op \<Rightarrow> Job list \<Rightarrow> queue_answer \<times> Job list" where
  "memory_op (QEnqueue j) q = map_prod Done id (mem_Enqueue (Some j) q)"
| "memory_op QDequeue q = map_prod Job_answer id (mem_Dequeue q)"
| "memory_op QPeek q = map_prod Job_answer id (mem_Peek q)"
| "memory_op QSize q = map_prod Count id (mem_Size q)"
| "memory_op (QRemove i) q = map_prod Done id (mem_Remove i q)"

fun run_ops :: "('o \<Rightarrow> 's \<Rightarrow> 'a \<times> 's) \<Rightarrow> 'o list \<Rightarrow> 's \<Rightarrow> 'a list \<times> 's" where
  "run_ops f [] s = ([], s)"
| "run_ops f (x # xs) s = (case f x s of (a, s1) \<Rightarrow> map_prod ((#) a) id (run_ops f xs s1))"

text \<open>Every job that is enqueued has an identifier that is not in the queue at that moment.\<close>

fun fresh_ops :: "Job list \<Rightarrow> queue_op list \<Rightarrow> bool" where
  "fresh_ops q [] = True"
| "fresh_ops q (x # xs) = ((case x of QEnqueue j \<Rightarrow> jb_ID j \<noteq> [] \<and> jb_ID j \<notin> jb_ID ` set q | _ \<Rightarrow> True) \<and>
     fresh_ops (snd (memory_op x q)) xs)"

lemma op_simulates:
  assumes w: "queue_ready w" and fresh: "fresh_ops (queued (queue_rows (w_db w))) [x]"
  shows "\<exists>w'. sqlite_op x w = (fst (memory_op x (queued (queue_rows (w_db w)))), w') \<and> queue_ready w' \<and>
    queued (queue_rows (w_db w')) = snd (memory_op x (queued (queue_rows (w_db w))))"
proof -
  let ?q = "queued (queue_rows (w_db w))"
  have inv: "distinct (map jb_ID ?q)" by (rule sqlite.distinct_jobs [OF w])
  show ?thesis
  proof (cases x)
    case (QEnqueue j)
    then show ?thesis using sqlite_enq [OF w, of j] fresh by (auto simp: mem_Enqueue_def)
  next
    case QDequeue
    then show ?thesis using sqlite_deq [OF w] by (auto simp: mem_Dequeue_def split: list.split)
  next
    case QPeek
    then show ?thesis using sqlite_peek [OF w] by (auto simp: mem_Peek_def split: list.split)
  next
    case QSize
    then show ?thesis using sqlite_size [OF w] by (auto simp: mem_Size_def)
  next
    case (QRemove i)
    obtain q' where "mem_Remove i ?q = (if i \<in> jb_ID ` set ?q then Inr () else Inl (ErrNotInQueue i), q')"
      "q' = filter (\<lambda>j. jb_ID j \<noteq> i) ?q"
      using memory.rem_law [OF inv, of i] by blast
    then show ?thesis using sqlite_rem [OF w, of i] QRemove by auto
  qed
qed

lemma run_simulates:
  "queue_ready w \<Longrightarrow> fresh_ops (queued (queue_rows (w_db w))) ops \<Longrightarrow>
     \<exists>w'. run_ops sqlite_op ops w = (fst (run_ops memory_op ops (queued (queue_rows (w_db w)))), w') \<and> queue_ready w' \<and>
       queued (queue_rows (w_db w')) = snd (run_ops memory_op ops (queued (queue_rows (w_db w))))"
proof (induction ops arbitrary: w)
  case (Cons x ops)
  let ?q = "queued (queue_rows (w_db w))"
  have "fresh_ops ?q [x]" using Cons.prems(2) by simp
  from op_simulates [OF Cons.prems(1) this] obtain w1 where
    1: "sqlite_op x w = (fst (memory_op x ?q), w1)" "queue_ready w1" "queued (queue_rows (w_db w1)) = snd (memory_op x ?q)"
    by blast
  have "fresh_ops (queued (queue_rows (w_db w1))) ops" using Cons.prems(2) 1(3) by simp
  from Cons.IH [OF 1(2) this] 1 show ?case
    by (auto simp: case_prod_unfold)
qed simp

text \<open>\<open>C29\<close>: the queue in SQLite refines the list in memory. For every sequence of operations that only
  enqueues jobs with fresh identifiers, and without database errors, both give the same answers, and the
  rows of the table in the end are the jobs of the list in their order.\<close>

theorem sqlite_queue_refines_list:
  assumes "queue_ready w" "fresh_ops (queued (queue_rows (w_db w))) ops"
  shows "\<exists>w'. run_ops sqlite_op ops w = (fst (run_ops memory_op ops (queued (queue_rows (w_db w)))), w') \<and> queue_ready w' \<and>
    queued (queue_rows (w_db w')) = snd (run_ops memory_op ops (queued (queue_rows (w_db w))))"
  by (rule run_simulates [OF assms])

theorem sqlite_queue_refines_list_witness:
  "\<exists>w' :: (job_db, job_event) world. run_ops sqlite_op [QEnqueue (demo_job ''c'' JobStatusQueued), QDequeue, QRemove ''x'', QSize]
       (calm_world (demo_job_db [''a'', ''b''] [])) =
     ([Done (Inr ()), Job_answer (Inr (Some (demo_job ''a'' JobStatusQueued))), Done (Inl (ErrNotInQueue ''x'')),
       Count (Inr 2)], w')"
  using sqlite_queue_refines_list [OF demo_queue_ready(1), of "[]" "[QEnqueue (demo_job ''c'' JobStatusQueued), QDequeue, QRemove ''x'', QSize]"]
  by (auto simp: demo_queue queued_def demo_row_def demo_job_def mem_Enqueue_def mem_Dequeue_def mem_Remove_def mem_Size_def)

subsection \<open>Pause, resume and cancellation\<close>

definition running_job :: "Job \<Rightarrow> int \<Rightarrow> Job" where
  "running_job job now = job\<lparr>jb_Status := JobStatusRunning, jb_StartedAt := Some now\<rparr>"

text \<open>The state in which the handler of a job is called.\<close>

definition started_state :: "Job \<Rightarrow> 'x est \<Rightarrow> 'x est" where
  "started_state job s = (let (c, s1) = begin_job job s in
     snd (on_world (SaveJob (ctx_err (fst s1) c) (Some (running_job job (est_now s)))) s1))"

lemma executeJob_run:
  assumes "factory (running_job job (est_now s)) = Inr (Some h)"
  shows "executeJob factory job s = end_job (jb_ID job) (en_next (fst s))
      (finish_job (en_next (fst s)) (h (running_job job (est_now s)) (en_next (fst s)) (started_state job s)))"
  using assms by (auto simp: executeJob_def started_state_def running_job_def begin_job_def est_now_def Let_def)

text \<open>An execution whose context is cancelled while its handler runs, by a pause, a cancellation or
  the end of a shutdown, writes nothing more to the database: the row of the job stays as the others left it.\<close>

theorem cancelled_execution_writes_nothing:
  assumes "factory (running_job job (est_now s)) = Inr (Some h)"
    and "h (running_job job (est_now s)) (en_next (fst s)) (started_state job s) = (err, job', s')"
    and "ctx_err (fst s') (en_next (fst s)) \<noteq> None"
  shows "w_db (snd (executeJob factory job s)) = w_db (snd s')"
  using executeJob_run [where factory = factory, OF assms(1)] assms(2) finish_job_dead [OF assms(3)] by simp

text \<open>A handler that is paused while it runs, and returns the error of its context.\<close>

definition pausing :: "'x handler" where
  "pausing job c s = (Some ErrCanceled, job, snd (Pause_job None (jb_ID job) s))"

definition demo_est :: "string list \<Rightarrow> Job list \<Rightarrow> unit est" where
  "demo_est is js = ((NewEngine 1)\<lparr>en_started := True\<rparr>, calm_world (demo_job_db is js))"

abbreviation demo_a :: Job where
  "demo_a \<equiv> demo_job ''a'' JobStatusQueued"

theorem cancelled_execution_writes_nothing_witness:
  "stored (job_rows (w_db (snd (executeJob (\<lambda>_. Inr (Some pausing)) demo_a (demo_est [] [demo_a]))))) ''a'' =
     Some (demo_a\<lparr>jb_Status := JobStatusPaused, jb_StartedAt := Some 0\<rparr>)"
proof -
  let ?s = "demo_est [] [demo_a]"
  let ?r = "pausing (running_job demo_a (est_now ?s)) (en_next (fst ?s)) (started_state demo_a ?s)"
  have "w_db (snd (executeJob (\<lambda>_. Inr (Some pausing)) demo_a ?s)) = w_db (snd (snd (snd ?r)))"
    by (rule cancelled_execution_writes_nothing [where err = "fst ?r" and job' = "fst (snd ?r)"]) (simp, simp, code_simp)
  moreover have "stored (job_rows (w_db (snd (snd (snd ?r))))) ''a'' =
      Some (demo_a\<lparr>jb_Status := JobStatusPaused, jb_StartedAt := Some 0\<rparr>)" by code_simp
  ultimately show ?thesis by simp
qed

text \<open>A terminal job is final: the operations refuse it.\<close>

lemma refuses:
  assumes "stored (job_rows (w_db (snd s))) i = Some j" "job_terminal (jb_Status j)"
    and op: "op \<in> {Cancel_job, Pause_job, Resume_job}"
  shows "\<exists>err s'. op ctx i s = (Inl err, s') \<and> w_db (snd s') = w_db (snd s) \<and> fst s' = fst s"
proof -
  obtain r w1 where l: "LoadJob ctx i (snd s) = (r, w1)" by fastforce
  note db = LoadJob_db [OF l]
  show ?thesis
  proof (cases r)
    case (Inl err)
    then show ?thesis using l db op by (auto simp: Cancel_job_def Pause_job_def Resume_job_def on_world_def)
  next
    case (Inr j')
    then have "j' = j" using LoadJob_ok l assms(1) by fastforce
    then show ?thesis
      using Inr l db op assms(2)
      by (auto simp: Cancel_job_def Pause_job_def Resume_job_def on_world_def job_terminal_def status_defs)
  qed
qed

text \<open>A job that is done, failed or cancelled stays so: cancelling, pausing and resuming it return an
  error and change neither the database nor the engine, whatever fails.\<close>

theorem terminal_job_is_final:
  assumes "stored (job_rows (w_db (snd s))) i = Some j" "job_terminal (jb_Status j)"
    and "op \<in> {Cancel_job, Pause_job, Resume_job}"
  shows "\<exists>err s'. op ctx i s = (Inl err, s') \<and> w_db (snd s') = w_db (snd s) \<and> fst s' = fst s"
  by (rule refuses [OF assms])

theorem terminal_job_is_final_witness:
  "\<exists>err s'. Cancel_job None ''a'' (demo_est [] [demo_job ''a'' JobStatusDone]) = (Inl err, s')"
  using terminal_job_is_final [of "demo_est [] [demo_job ''a'' JobStatusDone]" "''a''" "demo_job ''a'' JobStatusDone" Cancel_job None]
  by (auto simp: demo_est_def demo_queue stored_def job_row_of_def row_of_def demo_job_def job_terminal_def)

text \<open>A cancellation can be lost. When a worker has taken a job from the queue and has not yet
  stored it as running, \<open>Cancel\<close> reports success and stores the job as cancelled; the worker then runs the
  job all the same and stores it as done.\<close>

theorem cancel_after_dequeue_is_lost:
  assumes e: "engine_fresh e" and w: "queue_ready w" and q: "queued (queue_rows (w_db w)) = j # js"
    and j: "stored (job_rows (w_db w)) (jb_ID j) = Some j" "jb_Status j = JobStatusQueued" "jb_ID j \<noteq> []"
    and f: "polite_factory factory"
  shows "\<exists>w1 s2 j2 j3. Dequeue None w = (Inr (Some j), w1) \<and> Cancel_job None (jb_ID j) (e, w1) = (Inr (), s2) \<and>
    stored (job_rows (w_db (snd s2))) (jb_ID j) = Some j2 \<and> jb_Status j2 = JobStatusCancelled \<and>
    stored (job_rows (w_db (snd (executeJob factory j s2)))) (jb_ID j) = Some j3 \<and> jb_Status j3 = JobStatusDone"
proof -
  obtain w1 where d: "Dequeue None w = (Inr (Some j), w1)" "queue_ready w1"
    using sqlite_deq [OF w] q by auto
  have ff: "fault_free w1" using d(2) by (simp add: queue_ready_def)
  have st: "stored (job_rows (w_db w1)) (jb_ID j) = Some j" using j(1) Dequeue_jobs [OF d(1)] by simp
  obtain r w2 where rem: "Remove None (jb_ID j) (tick w1) = (r, w2)" "queue_ready w2"
    using sqlite_rem [of "tick w1" "jb_ID j"] d(2) by (auto simp: queue_ready_def)
  let ?j = "j\<lparr>jb_Status := JobStatusCancelled, jb_FinishedAt := Some (w_now w2)\<rparr>"
  let ?w3 = "saved ?j w2"
  have ff2: "fault_free w2" using rem(2) by (simp add: queue_ready_def)
  have "SaveJob None (Some ?j) w2 = (Inr (), ?w3)" using ff2 j(3) by (intro SaveJob_alive) auto
  then obtain w3 where c: "Cancel_job None (jb_ID j) (e, w1) = (Inr (), (e, w3))"
      "w_db w3 = w_db ?w3" "fault_free w3"
    using LoadJob_alive [OF ff st] rem(1) j(2) ff2
    by (auto simp: Cancel_job_def on_world_def job_terminal_def status_defs Let_def est_now_def emit_def fault_free_def saved_def)
  have "stored (job_rows (w_db w3)) (jb_ID j) = Some ?j" using c(2) by (simp add: stored_upsert)
  moreover obtain e' w' j3 where "executeJob factory j (e, w3) = (e', w')"
      "stored (job_rows (w_db w')) (jb_ID j) = Some j3" "jb_Status j3 = JobStatusDone"
    using executeJob_polite [OF e c(3) j(3) f] by blast
  ultimately show ?thesis using d(1) c(1) by fastforce
qed

theorem cancel_after_dequeue_is_lost_witness:
  "\<exists>w1 s2 j3. Dequeue None (snd (demo_est [''a''] [demo_a])) = (Inr (Some demo_a), w1) \<and>
    Cancel_job None ''a'' (fst (demo_est [''a''] [demo_a]), w1) = (Inr (), s2) \<and>
    stored (job_rows (w_db (snd (executeJob quick_factory demo_a s2)))) ''a'' = Some j3 \<and> jb_Status j3 = JobStatusDone"
  using cancel_after_dequeue_is_lost [OF NewEngine_fresh(2) [where n = 1 and b = True]
      demo_queue_ready(2) [where js = "[demo_a]"] _ _ _ _ quick_factory_polite, where j = demo_a and js = "[]"]
  by (simp add: demo_est_def demo_queue queued_def demo_row_def stored_def job_row_of_def row_of_def demo_job_def) blast

subsection \<open>Recovery\<close>

lemma unmarshal_all_agrees:
  "list_all row_agrees rs \<Longrightarrow> unmarshal_all rs = Inr (map (\<lambda>r. the (jr_job r)) rs)"
  by (induction rs) (auto simp: row_agrees_def unmarshal_def)

lemma ListJobs_status:
  assumes "store_wf (job_rows (w_db w))" "fault_free w" "st \<noteq> []"
  shows "\<exists>js. ListJobs None (status_filter st) w = (Inr js, tick w) \<and>
    set js = {j. \<exists>i. stored (job_rows (w_db w)) i = Some j \<and> jb_Status j = st} \<and>
    distinct (map jb_ID js)"
proof -
  let ?rs = "job_rows (w_db w)"
  let ?found = "list_query (status_filter st) ?rs"
  have set: "set ?found = {r \<in> set ?rs. jr_status r = st}"
    using assms(3) by (auto simp: list_query_def status_filter_def job_matches_def Let_def)
  have mset: "mset ?found = mset (filter (job_matches (status_filter st)) ?rs)"
    by (simp add: list_query_def status_filter_def Let_def)
  have agree: "row_agrees r" if "r \<in> set ?rs" for r using that assms(1) by (simp add: store_wf_def)
  have "list_all row_agrees ?found" using set agree by (auto simp: list_all_iff)
  note all = unmarshal_all_agrees [OF this]
  have ids: "map jb_ID (map (\<lambda>r. the (jr_job r)) ?found) = map jr_id ?found"
    using set by (auto dest!: agree simp: row_agrees_def)
  have "mset (map jr_id ?found) = mset (map jr_id (filter (job_matches (status_filter st)) ?rs))"
    using mset by simp
  moreover have "distinct (map jr_id (filter (job_matches (status_filter st)) ?rs))"
    using assms(1) by (simp add: store_wf_def distinct_map_filter)
  ultimately have dist: "distinct (map jr_id ?found)" using mset_eq_imp_distinct_iff by blast
  have find: "job_row_of ?rs (jr_id r) = Some r" if "r \<in> set ?rs" for r
  proof (cases "job_row_of ?rs (jr_id r)")
    case None
    then show ?thesis using that by (auto simp: job_row_of_None list_ex_iff)
  next
    case (Some x)
    then have "jr_id x = jr_id r" "x \<in> set ?rs" using stored_find [OF assms(1)] by blast+
    then have "x = r" using that assms(1) by (auto simp: store_wf_def distinct_map dest: inj_onD)
    then show ?thesis using Some by simp
  qed
  have "set (map (\<lambda>r. the (jr_job r)) ?found) = {j. \<exists>i. stored ?rs i = Some j \<and> jb_Status j = st}"
  proof (intro set_eqI iffI)
    fix j assume "j \<in> set (map (\<lambda>r. the (jr_job r)) ?found)"
    then obtain r where r: "r \<in> set ?rs" "jr_status r = st" "j = the (jr_job r)" using set by auto
    then show "j \<in> {j. \<exists>i. stored ?rs i = Some j \<and> jb_Status j = st}"
      using agree [OF r(1)] find [OF r(1)] by (auto simp: stored_def row_agrees_def intro!: exI [of _ "jr_id r"])
  next
    fix j assume "j \<in> {j. \<exists>i. stored ?rs i = Some j \<and> jb_Status j = st}"
    then obtain i r where r: "job_row_of ?rs i = Some r" "jr_job r = Some j" "jb_Status j = st"
      by (auto simp: stored_def bind_eq_Some_conv)
    then have "r \<in> set ?found" using stored_find [OF assms(1) r(1)] set by (auto simp: row_agrees_def)
    then show "j \<in> set (map (\<lambda>r. the (jr_job r)) ?found)" using r(2) by force
  qed
  then show ?thesis
    using assms(2) all dist ids
    by (intro exI [of _ "map (\<lambda>r. the (jr_job r)) ?found"]) (simp add: ListJobs_def fault_free_read del: map_map)
qed

lemma pause_recovered_alive:
  "fault_free (snd s) \<Longrightarrow> jb_ID j \<noteq> [] \<Longrightarrow>
     pause_recovered None j s = (fst s, saved (j\<lparr>jb_Status := JobStatusPaused\<rparr>) (snd s))"
  by (simp add: pause_recovered_def on_world_def SaveJob_alive)

lemma fold_pause:
  "fault_free w \<Longrightarrow> [] \<notin> jb_ID ` set js \<Longrightarrow> distinct (map jb_ID js) \<Longrightarrow>
     \<exists>w'. fold (pause_recovered None) js (e, w) = (e, w') \<and> fault_free w' \<and> queue_rows (w_db w') = queue_rows (w_db w) \<and>
       (store_wf (job_rows (w_db w)) \<longrightarrow> store_wf (job_rows (w_db w'))) \<and>
       (\<forall>i. stored (job_rows (w_db w')) i = (case find (\<lambda>j. jb_ID j = i) js of
          None \<Rightarrow> stored (job_rows (w_db w)) i | Some j \<Rightarrow> Some (j\<lparr>jb_Status := JobStatusPaused\<rparr>)))"
proof (induction js arbitrary: w)
  case (Cons j js)
  let ?w = "saved (j\<lparr>jb_Status := JobStatusPaused\<rparr>) w"
  have step: "pause_recovered None j (e, w) = (e, ?w)" using Cons.prems by (subst pause_recovered_alive) auto
  obtain w' where w': "fold (pause_recovered None) js (e, ?w) = (e, w')" "fault_free w'"
     "queue_rows (w_db w') = queue_rows (w_db w)"
     "store_wf (job_rows (w_db ?w)) \<longrightarrow> store_wf (job_rows (w_db w'))"
     "\<And>i. stored (job_rows (w_db w')) i = (case find (\<lambda>j. jb_ID j = i) js of
          None \<Rightarrow> stored (job_rows (w_db ?w)) i | Some j \<Rightarrow> Some (j\<lparr>jb_Status := JobStatusPaused\<rparr>))"
    using Cons.IH [of ?w] Cons.prems by auto
  have "find (\<lambda>x. jb_ID x = jb_ID j) js = None" using Cons.prems(3) by (simp add: find_None_iff) (metis imageI)
  then show ?case using step w' by (auto simp: stored_upsert upsert_job_wf split: option.splits)
qed auto

text \<open>\<open>Start\<close> leaves no job running. With a calm database every job that was stored as running is
  stored as paused, every other job is untouched, and no row has the status running any more; a job that
  was queued stays in the queue.\<close>

theorem start_pauses_running_jobs:
  assumes "\<not> en_started e" "ctx_err e 0 = None" "fault_free w" "store_wf (job_rows (w_db w))"
    and "[] \<notin> jr_id ` set (job_rows (w_db w))"
  shows "\<exists>e' w'. Start (e, w) = (Inr (), (e', w')) \<and> en_started e' \<and> queue_rows (w_db w') = queue_rows (w_db w) \<and>
    list_all (\<lambda>r. jr_status r \<noteq> JobStatusRunning) (job_rows (w_db w')) \<and>
    (\<forall>i. stored (job_rows (w_db w')) i = map_option (\<lambda>j.
       if jb_Status j = JobStatusRunning then j\<lparr>jb_Status := JobStatusPaused\<rparr> else j) (stored (job_rows (w_db w)) i))"
proof -
  let ?rs = "job_rows (w_db w)" and ?e = "e\<lparr>en_started := True\<rparr>"
  have ne: "JobStatusRunning \<noteq> []" "JobStatusQueued \<noteq> []" by (simp_all add: status_defs)
  obtain js where js: "ListJobs None (status_filter JobStatusRunning) w = (Inr js, tick w)"
    "set js = {j. \<exists>i. stored ?rs i = Some j \<and> jb_Status j = JobStatusRunning}" "distinct (map jb_ID js)"
    using ListJobs_status [OF assms(4,3) ne(1)] by blast
  have key: "jb_ID j = i \<and> i \<in> jr_id ` set ?rs" if "stored ?rs i = Some j" for i j
    using that stored_find [OF assms(4), of i] by (auto simp: stored_def bind_eq_Some_conv row_agrees_def)
  have "[] \<notin> jb_ID ` set js" using js(2) key assms(5) by fastforce
  note paused = fold_pause [OF fault_free_tick [OF assms(3)] this js(3), of ?e, unfolded tick_fields]
  obtain w1 where
    w1: "fold (pause_recovered None) js (?e, tick w) = (?e, w1)" "fault_free w1" "queue_rows (w_db w1) = queue_rows (w_db w)"
     "store_wf (job_rows (w_db w1))"
     "\<And>i. stored (job_rows (w_db w1)) i = (case find (\<lambda>j. jb_ID j = i) js of
          None \<Rightarrow> stored ?rs i | Some j \<Rightarrow> Some (j\<lparr>jb_Status := JobStatusPaused\<rparr>))"
    using paused assms(4) by blast
  obtain qs where qs: "ListJobs None (status_filter JobStatusQueued) w1 = (Inr qs, tick w1)"
    using ListJobs_status [OF w1(4,2) ne(2)] by blast
  have "Start (e, w) = (Inr (), (?e, tick w1))"
    using assms(1,2) js(1) w1(1) qs by (simp add: Start_def recoverJobs_def on_world_def)
  moreover have st: "stored (job_rows (w_db w1)) i = map_option (\<lambda>j.
       if jb_Status j = JobStatusRunning then j\<lparr>jb_Status := JobStatusPaused\<rparr> else j) (stored ?rs i)" for i
  proof (cases "find (\<lambda>j. jb_ID j = i) js")
    case None
    then have "jb_Status j \<noteq> JobStatusRunning" if "stored ?rs i = Some j" for j
      using that js(2) key [OF that] by (auto simp: find_None_iff)
    then show ?thesis using None w1(5) [of i] by (cases "stored ?rs i") auto
  next
    case (Some j)
    then have "j \<in> set js" "jb_ID j = i" by (auto simp: find_Some_iff)
    then obtain k where "stored ?rs k = Some j" "jb_Status j = JobStatusRunning" using js(2) by auto
    moreover have "k = i" using key calculation(1) \<open>jb_ID j = i\<close> by blast
    ultimately show ?thesis using Some w1(5) [of i] by simp
  qed
  moreover have "jr_status r \<noteq> JobStatusRunning" if r: "r \<in> set (job_rows (w_db w1))" for r
  proof -
    obtain j where j: "jr_job r = Some j" "jb_Status j = jr_status r"
      using r w1(4) by (auto simp: store_wf_def row_agrees_def)
    have "\<exists>x. job_row_of (job_rows (w_db w1)) (jr_id r) = Some x"
      using r job_row_of_None [of "job_rows (w_db w1)" "jr_id r"] by (auto simp: list_ex_iff)
    then obtain x where x: "job_row_of (job_rows (w_db w1)) (jr_id r) = Some x" by blast
    then have "x = r" using stored_find [OF w1(4) x] r w1(4) by (auto simp: store_wf_def distinct_map dest: inj_onD)
    then have "stored (job_rows (w_db w1)) (jr_id r) = Some j" using x j by (simp add: stored_def)
    then show ?thesis using st [of "jr_id r"] j(2)
      by (cases "stored ?rs (jr_id r)") (auto simp: status_defs split: if_splits)
  qed
  ultimately show ?thesis using w1(3) by (auto simp: list_all_iff)
qed

theorem start_pauses_running_jobs_witness:
  "\<exists>e' w'. Start (NewEngine 1, calm_world (demo_job_db [''a''] [demo_a, demo_job ''b'' JobStatusRunning])) = (Inr (), (e', w')) \<and>
     stored (job_rows (w_db w')) ''b'' = Some (demo_job ''b'' JobStatusPaused)"
proof -
  let ?w = "calm_world (demo_job_db [''a''] [demo_a, demo_job ''b'' JobStatusRunning])"
  have "store_wf (job_rows (w_db ?w))" "[] \<notin> jr_id ` set (job_rows (w_db ?w))" "fault_free ?w"
    "\<not> en_started (NewEngine 1)" "ctx_err (NewEngine 1) 0 = None"
    by (simp_all add: demo_queue store_wf_def demo_job_def) (simp_all add: fault_free_def calm_world_def NewEngine_def ctx_err_def)
  from start_pauses_running_jobs [OF this(4,5,3,1,2)] show ?thesis
    by (auto simp: demo_queue stored_def job_row_of_def row_of_def demo_job_def status_defs)
qed

subsection \<open>Submission, failed resumption and Stop\<close>

lemma format_nonempty [simp]: "generateJobID t \<noteq> []"
  by (simp add: generateJobID_def)

lemma Enqueue_ready:
  assumes "queue_ready w" "jb_ID j \<noteq> []" "jb_ID j \<notin> jb_ID ` set (queued (queue_rows (w_db w)))"
  shows "\<exists>w'. Enqueue None (Some j) w = (Inr (), w') \<and> queue_ready w' \<and> job_rows (w_db w') = job_rows (w_db w) \<and>
    queued (queue_rows (w_db w')) = queued (queue_rows (w_db w)) @ [j]"
  using sqlite_enq [OF assms] Enqueue_jobs by blast

text \<open>A submission that succeeds stores the job as queued and puts it at the back of the queue; and an
  engine that is being stopped still accepts it, though a second \<open>Stop\<close> in that time closes a closed channel.\<close>

theorem submit_stores_and_enqueues:
  assumes "Stop_begin e0 = (Signalled, e)" "queue_ready w"
    and "generateJobID (w_now w) \<notin> jb_ID ` set (queued (queue_rows (w_db w)))"
  shows "fst (Stop_begin e) = CloseOfClosedChannel \<and>
    (\<exists>job w'. Submit None req (e, w) = (Inr job, (e, w')) \<and> jb_Status job = JobStatusQueued \<and> jb_Type job = jq_Type req \<and>
      stored (job_rows (w_db w')) (jb_ID job) = Some job \<and>
      queued (queue_rows (w_db w')) = queued (queue_rows (w_db w)) @ [job])"
proof -
  have e: "en_started e" "en_stop_closed e" using assms(1) by (auto simp: Stop_begin_def split: if_splits)
  let ?j = "\<lparr>jb_ID = generateJobID (w_now w), jb_Type = jq_Type req, jb_Status = JobStatusQueued,
      jb_CreatedAt = w_now w, jb_StartedAt = None, jb_FinishedAt = None, jb_PlanID = jq_PlanID req,
      jb_MigrationID = jq_MigrationID req, jb_SourceID = jq_SourceID req, jb_TargetID = jq_TargetID req,
      jb_Progress = zero_progress, jb_Logs = [], jb_Error = ''''\<rparr>"
  have ff: "fault_free w" using assms(2) by (simp add: queue_ready_def)
  have s: "SaveJob None (Some ?j) w = (Inr (), saved ?j w)" using ff by (intro SaveJob_alive) auto
  obtain w' where q: "Enqueue None (Some ?j) (saved ?j w) = (Inr (), w')"
      "job_rows (w_db w') = job_rows (w_db (saved ?j w))"
      "queued (queue_rows (w_db w')) = queued (queue_rows (w_db w)) @ [?j]"
    using Enqueue_ready [OF queue_ready_saved [OF assms(2)], of ?j ?j] assms(3) by auto
  have "Submit None req (e, w) = (Inr ?j, (e, w'))"
    using e(1) s q(1) by (simp add: Submit_def on_world_def est_now_def)
  moreover have "fst (Stop_begin e) = CloseOfClosedChannel" using e by (simp add: Stop_begin_def)
  ultimately show ?thesis using q(2,3) by (intro conjI exI [of _ ?j] exI [of _ w']) (simp_all add: stored_upsert)
qed

definition demo_request :: JobRequest where
  "demo_request = \<lparr>jq_Type = ''discovery'', jq_PlanID = [], jq_SourceID = 1, jq_TargetID = 0, jq_MigrationID = 0\<rparr>"

theorem submit_stores_and_enqueues_witness:
  "fst (Stop_begin ((NewEngine 1)\<lparr>en_started := True, en_stop_closed := True\<rparr>)) = CloseOfClosedChannel \<and>
   (\<exists>job w'. Submit None demo_request ((NewEngine 1)\<lparr>en_started := True, en_stop_closed := True\<rparr>, calm_world (demo_job_db [] [])) =
      (Inr job, ((NewEngine 1)\<lparr>en_started := True, en_stop_closed := True\<rparr>, w')) \<and> queued (queue_rows (w_db w')) = [job])"
  using submit_stores_and_enqueues [of "(NewEngine 1)\<lparr>en_started := True\<rparr>" "(NewEngine 1)\<lparr>en_started := True, en_stop_closed := True\<rparr>"
      "calm_world (demo_job_db [] [])" demo_request, OF _ demo_queue_ready(3)]
  by (simp add: demo_queue) (auto simp: Stop_begin_def NewEngine_def)

text \<open>A resume that saves the job and then cannot enqueue it strands the job: it is stored as queued,
  and resuming it again is refused because it is not paused.\<close>

theorem failed_resume_strands_job:
  assumes "store_wf (job_rows (w_db (snd s)))"
    and "Resume_job ctx i s = (Inl (ErrWrap ''enqueue resumed job: '' err ''''), s')"
  shows "\<exists>j. stored (job_rows (w_db (snd s'))) i = Some j \<and> jb_Status j = JobStatusQueued \<and>
    (\<exists>err' s''. Resume_job ctx' i s' = (Inl err', s'') \<and> w_db (snd s'') = w_db (snd s'))"
proof -
  obtain job w1 where l: "LoadJob ctx i (snd s) = (Inr job, w1)" and p: "jb_Status job = JobStatusPaused"
    using assms(2) by (auto simp: Resume_job_def on_world_def split: sum.splits prod.splits if_splits)
  let ?j = "job\<lparr>jb_Status := JobStatusQueued\<rparr>"
  obtain w2 w3 e where s: "SaveJob ctx (Some ?j) w1 = (Inr (), w2)" and q: "Enqueue ctx (Some ?j) w2 = (Inl e, w3)"
    and s': "s' = (fst s, w3)"
    using assms(2) l p
    by (auto simp: Resume_job_def on_world_def Let_def split: sum.splits prod.splits)
  have "job_rows (w_db w2) = upsert_job ?j (job_rows (w_db w1))"
    using s by (auto simp: SaveJob_def split: option.splits sum.splits prod.splits if_splits dest!: db_write_ok_snd)
  moreover have "jb_ID job = i"
    using LoadJob_ok [OF l] stored_find [OF assms(1), of i] by (auto simp: stored_def bind_eq_Some_conv row_agrees_def)
  ultimately have st: "stored (job_rows (w_db (snd s'))) i = Some ?j"
    using Enqueue_jobs [OF q] s' by (simp add: stored_upsert)
  obtain r w4 where l': "LoadJob ctx' i (snd s') = (r, w4)" by fastforce
  have "\<exists>err' s''. Resume_job ctx' i s' = (Inl err', s'') \<and> w_db (snd s'') = w_db (snd s')"
  proof (cases r)
    case (Inl err)
    then show ?thesis using l' LoadJob_db [OF l'] by (simp add: Resume_job_def on_world_def)
  next
    case (Inr j')
    then have "j' = ?j" using LoadJob_ok l' st by fastforce
    then show ?thesis using Inr l' LoadJob_db [OF l'] by (simp add: Resume_job_def on_world_def status_defs)
  qed
  then show ?thesis using st by auto
qed

text \<open>The database fails from its third statement on.\<close>

definition failing_est :: "unit est" where
  "failing_est = (NewEngine 1, (calm_world (demo_job_db [] [demo_job ''a'' JobStatusPaused]))
     \<lparr>w_env := \<lambda>n. if n < 2 then NoFault else FailBefore ErrCanceled\<rparr>)"

theorem failed_resume_strands_job_witness:
  "\<exists>s' j. Resume_job None ''a'' failing_est =
      (Inl (ErrWrap ''enqueue resumed job: '' (ErrWrap ''get max position: '' ErrCanceled '''') ''''), s') \<and>
    stored (job_rows (w_db (snd s'))) ''a'' = Some j \<and> jb_Status j = JobStatusQueued \<and> queue_rows (w_db (snd s')) = []"
proof -
  let ?r = "Resume_job None ''a'' failing_est"
  have r: "?r = (Inl (ErrWrap ''enqueue resumed job: '' (ErrWrap ''get max position: '' ErrCanceled '''') ''''), snd ?r)"
    by (rule prod_eqI) (code_simp, simp)
  have "store_wf (job_rows (w_db (snd failing_est)))"
    by (simp add: failing_est_def calm_world_def demo_job_db_def store_wf_def)
  from failed_resume_strands_job [OF this r, of None] obtain j where
    "stored (job_rows (w_db (snd (snd ?r)))) ''a'' = Some j" "jb_Status j = JobStatusQueued" by blast
  moreover have "queue_rows (w_db (snd (snd ?r))) = []" by code_simp
  ultimately show ?thesis using r by blast
qed

end
