(* ===== verification/Broadcaster.thy ===== *)
theory Broadcaster
  imports JobQueue
begin

section \<open>The progress broadcaster (\<open>jobengine/progress.go\<close>)\<close>

text \<open>
  Subscribers of a job are buffered channels. A channel is a number with its buffer and whether it is
  closed. \<open>Broadcast\<close> looks the subscribers up under the lock and sends without it, so it is two steps;
  a send on a closed channel panics, which is \<open>None\<close>. The order in which Go iterates over the subscribers
  does not matter: each send touches one channel.
\<close>

definition buffer_size :: nat where
  "buffer_size = 16"

record chan =
  ch_buf :: "JobProgress list"
  ch_closed :: bool

record broadcaster =
  bc_subs :: "string \<Rightarrow> nat list option"
  bc_chans :: "nat \<Rightarrow> chan"
  bc_next :: nat

definition NewDefaultProgressBroadcaster :: broadcaster where
  "NewDefaultProgressBroadcaster = \<lparr>bc_subs = Map.empty, bc_chans = (\<lambda>_. \<lparr>ch_buf = [], ch_closed = False\<rparr>), bc_next = 0\<rparr>"

definition subs_of :: "broadcaster \<Rightarrow> string \<Rightarrow> nat list" where
  "subs_of b i = (case bc_subs b i of None \<Rightarrow> [] | Some cs \<Rightarrow> cs)"

definition Subscribe :: "string \<Rightarrow> broadcaster \<Rightarrow> nat \<times> broadcaster" where
  "Subscribe i b = (let c = bc_next b in
     (c, b\<lparr>bc_next := Suc c, bc_chans := (bc_chans b)(c := \<lparr>ch_buf = [], ch_closed = False\<rparr>),
           bc_subs := (bc_subs b)(i \<mapsto> subs_of b i @ [c])\<rparr>))"

definition close_chan :: "nat \<Rightarrow> broadcaster \<Rightarrow> broadcaster" where
  "close_chan c b = b\<lparr>bc_chans := (bc_chans b)(c := (bc_chans b c)\<lparr>ch_closed := True\<rparr>)\<rparr>"

definition Unsubscribe :: "string \<Rightarrow> nat \<Rightarrow> broadcaster \<Rightarrow> broadcaster" where
  "Unsubscribe i c b = (case bc_subs b i of
       None \<Rightarrow> b
     | Some cs \<Rightarrow>
         let cs' = removeAll c cs; b' = (if c \<in> set cs then close_chan c b else b)
         in b'\<lparr>bc_subs := (bc_subs b)(i := if cs' = [] then None else Some cs')\<rparr>)"

definition Cleanup :: "string \<Rightarrow> broadcaster \<Rightarrow> broadcaster" where
  "Cleanup i b = (case bc_subs b i of
       None \<Rightarrow> b
     | Some cs \<Rightarrow> (fold close_chan cs b)\<lparr>bc_subs := (bc_subs b)(i := None)\<rparr>)"

text \<open>The select with a default: a full buffer drops the update.\<close>

definition send :: "JobProgress \<Rightarrow> nat \<Rightarrow> broadcaster \<Rightarrow> broadcaster option" where
  "send p c b = (let ch = bc_chans b c in
     if ch_closed ch then None
     else if length (ch_buf ch) < buffer_size
     then Some (b\<lparr>bc_chans := (bc_chans b)(c := ch\<lparr>ch_buf := ch_buf ch @ [p]\<rparr>)\<rparr>)
     else Some b)"

fun send_all :: "JobProgress \<Rightarrow> nat list \<Rightarrow> broadcaster \<Rightarrow> broadcaster option" where
  "send_all p [] b = Some b"
| "send_all p (c # cs) b = (case send p c b of None \<Rightarrow> None | Some b1 \<Rightarrow> send_all p cs b1)"

definition Broadcast :: "string \<Rightarrow> JobProgress \<Rightarrow> broadcaster \<Rightarrow> broadcaster option" where
  "Broadcast i p b = send_all p (subs_of b i) b"

text \<open>A subscriber takes the oldest update.\<close>

definition receive :: "nat \<Rightarrow> broadcaster \<Rightarrow> broadcaster" where
  "receive c b = b\<lparr>bc_chans := (bc_chans b)(c := (bc_chans b c)\<lparr>ch_buf := tl (ch_buf (bc_chans b c))\<rparr>)\<rparr>"

datatype bc_op = BSubscribe string | BUnsubscribe string nat | BBroadcast string JobProgress | BCleanup string | BReceive nat

fun bc_step :: "broadcaster \<Rightarrow> bc_op \<Rightarrow> broadcaster option" where
  "bc_step b (BSubscribe i) = Some (snd (Subscribe i b))"
| "bc_step b (BUnsubscribe i c) = Some (Unsubscribe i c b)"
| "bc_step b (BBroadcast i p) = Broadcast i p b"
| "bc_step b (BCleanup i) = Some (Cleanup i b)"
| "bc_step b (BReceive c) = Some (receive c b)"

fun bc_run :: "bc_op list \<Rightarrow> broadcaster \<Rightarrow> broadcaster option" where
  "bc_run [] b = Some b"
| "bc_run (x # xs) b = (case bc_step b x of None \<Rightarrow> None | Some b1 \<Rightarrow> bc_run xs b1)"

subsection \<open>One operation after another never panics\<close>

text \<open>Subscribed channels are open and belong to one job; no buffer holds more than its size.\<close>

definition bc_wf :: "broadcaster \<Rightarrow> bool" where
  "bc_wf b \<longleftrightarrow> (\<forall>i. \<forall>c \<in> set (subs_of b i). c < bc_next b \<and> \<not> ch_closed (bc_chans b c)) \<and>
     (\<forall>i k. i \<noteq> k \<longrightarrow> set (subs_of b i) \<inter> set (subs_of b k) = {}) \<and>
     (\<forall>c. length (ch_buf (bc_chans b c)) \<le> buffer_size)"

lemma fold_close_chan:
  "bc_chans (fold close_chan cs b) c = (if c \<in> set cs then (bc_chans b c)\<lparr>ch_closed := True\<rparr> else bc_chans b c)"
  "bc_next (fold close_chan cs b) = bc_next b" "bc_subs (fold close_chan cs b) = bc_subs b"
  by (induction cs arbitrary: b) (auto simp: close_chan_def)

lemma send_open:
  assumes "\<not> ch_closed (bc_chans b c)"
  shows "\<exists>b'. send p c b = Some b' \<and> bc_subs b' = bc_subs b \<and> bc_next b' = bc_next b \<and>
     (\<forall>x. ch_closed (bc_chans b' x) = ch_closed (bc_chans b x)) \<and>
     ((\<forall>c. length (ch_buf (bc_chans b c)) \<le> buffer_size) \<longrightarrow> (\<forall>c. length (ch_buf (bc_chans b' c)) \<le> buffer_size))"
  using assms by (cases "length (ch_buf (bc_chans b c)) < buffer_size") (auto simp: send_def Let_def)

lemma Subscribe_fields:
  "subs_of (snd (Subscribe i b)) k = (if k = i then subs_of b i @ [bc_next b] else subs_of b k)"
  "bc_chans (snd (Subscribe i b)) c = (if c = bc_next b then \<lparr>ch_buf = [], ch_closed = False\<rparr> else bc_chans b c)"
  "bc_next (snd (Subscribe i b)) = Suc (bc_next b)"
  by (auto simp: Subscribe_def Let_def subs_of_def)

lemma Unsubscribe_fields:
  "subs_of (Unsubscribe i c b) k = (if k = i then removeAll c (subs_of b i) else subs_of b k)"
  "bc_chans (Unsubscribe i c b) x =
     (if x = c \<and> c \<in> set (subs_of b i) then (bc_chans b c)\<lparr>ch_closed := True\<rparr> else bc_chans b x)"
  "bc_next (Unsubscribe i c b) = bc_next b"
  by (auto simp: Unsubscribe_def close_chan_def Let_def subs_of_def split: option.splits)

lemma Cleanup_fields:
  "subs_of (Cleanup i b) k = (if k = i then [] else subs_of b k)"
  "bc_chans (Cleanup i b) x = (if x \<in> set (subs_of b i) then (bc_chans b x)\<lparr>ch_closed := True\<rparr> else bc_chans b x)"
  "bc_next (Cleanup i b) = bc_next b"
  by (auto simp: Cleanup_def fold_close_chan subs_of_def split: option.splits)

lemma receive_fields:
  "subs_of (receive c b) k = subs_of b k" "bc_next (receive c b) = bc_next b"
  "bc_chans (receive c b) x = (if x = c then (bc_chans b c)\<lparr>ch_buf := tl (ch_buf (bc_chans b c))\<rparr> else bc_chans b x)"
  by (auto simp: receive_def subs_of_def)

lemma bc_wfD:
  assumes "bc_wf b"
  shows "c \<in> set (subs_of b i) \<Longrightarrow> c < bc_next b" "c \<in> set (subs_of b i) \<Longrightarrow> \<not> ch_closed (bc_chans b c)"
    "c \<in> set (subs_of b i) \<Longrightarrow> c \<in> set (subs_of b k) \<Longrightarrow> i = k" "length (ch_buf (bc_chans b c)) \<le> buffer_size"
  using assms unfolding bc_wf_def by blast+

lemma bc_wfI:
  assumes "\<And>i c. c \<in> set (subs_of b i) \<Longrightarrow> c < bc_next b \<and> \<not> ch_closed (bc_chans b c)"
    "\<And>i k c. c \<in> set (subs_of b i) \<Longrightarrow> c \<in> set (subs_of b k) \<Longrightarrow> i = k"
    "\<And>c. length (ch_buf (bc_chans b c)) \<le> buffer_size"
  shows "bc_wf b"
  using assms unfolding bc_wf_def by blast

lemma send_all_open:
  "list_all (\<lambda>c. \<not> ch_closed (bc_chans b c)) cs \<Longrightarrow> \<exists>b'. send_all p cs b = Some b' \<and> bc_subs b' = bc_subs b \<and>
     bc_next b' = bc_next b \<and> (\<forall>c. ch_closed (bc_chans b' c) = ch_closed (bc_chans b c)) \<and>
     ((\<forall>c. length (ch_buf (bc_chans b c)) \<le> buffer_size) \<longrightarrow> (\<forall>c. length (ch_buf (bc_chans b' c)) \<le> buffer_size))"
proof (induction cs arbitrary: b)
  case (Cons c cs)
  obtain b1 where b1: "send p c b = Some b1" "bc_subs b1 = bc_subs b" "bc_next b1 = bc_next b"
    "\<And>x. ch_closed (bc_chans b1 x) = ch_closed (bc_chans b x)"
    "(\<forall>c. length (ch_buf (bc_chans b c)) \<le> buffer_size) \<longrightarrow> (\<forall>c. length (ch_buf (bc_chans b1 c)) \<le> buffer_size)"
    using send_open [of b c p] Cons.prems by auto
  have "list_all (\<lambda>c. \<not> ch_closed (bc_chans b1 c)) cs" using Cons.prems b1(4) by (simp add: list_all_iff)
  from Cons.IH [OF this] b1 show ?case by auto
qed simp

lemma subs_of_cong: "bc_subs b' = bc_subs b \<Longrightarrow> subs_of b' i = subs_of b i"
  by (simp add: subs_of_def)

lemma bc_step_wf:
  assumes wf: "bc_wf b"
  shows "\<exists>b'. bc_step b x = Some b' \<and> bc_wf b'"
proof (cases x)
  case (BSubscribe i)
  have "bc_wf (snd (Subscribe i b))"
  proof (rule bc_wfI)
    fix k c assume "c \<in> set (subs_of (snd (Subscribe i b)) k)"
    then show "c < bc_next (snd (Subscribe i b)) \<and> \<not> ch_closed (bc_chans (snd (Subscribe i b)) c)"
      using bc_wfD [OF wf, of c] by (fastforce simp: Subscribe_fields split: if_splits)
  next
    fix k l c assume "c \<in> set (subs_of (snd (Subscribe i b)) k)" "c \<in> set (subs_of (snd (Subscribe i b)) l)"
    then show "k = l" using bc_wfD(1,3) [OF wf, of c] by (fastforce simp: Subscribe_fields split: if_splits)
  qed (use bc_wfD(4) [OF wf] in \<open>simp add: Subscribe_fields\<close>)
  then show ?thesis using BSubscribe by simp
next
  case (BUnsubscribe i c)
  have "bc_wf (Unsubscribe i c b)"
    by (rule bc_wfI) (use bc_wfD [OF wf] in \<open>auto simp: Unsubscribe_fields split: if_splits\<close>)
  then show ?thesis using BUnsubscribe by simp
next
  case (BBroadcast i p)
  have "list_all (\<lambda>c. \<not> ch_closed (bc_chans b c)) (subs_of b i)" using wf by (auto simp: bc_wf_def list_all_iff)
  from send_all_open [OF this, of p] obtain b' where b': "send_all p (subs_of b i) b = Some b'" "bc_subs b' = bc_subs b"
     "bc_next b' = bc_next b" "\<And>c. ch_closed (bc_chans b' c) = ch_closed (bc_chans b c)"
     "(\<forall>c. length (ch_buf (bc_chans b c)) \<le> buffer_size) \<longrightarrow> (\<forall>c. length (ch_buf (bc_chans b' c)) \<le> buffer_size)"
    by blast
  then have "bc_wf b'" using wf by (simp add: bc_wf_def subs_of_cong [OF b'(2)])
  with b'(1) BBroadcast show ?thesis by (simp add: Broadcast_def)
next
  case (BCleanup i)
  have "bc_wf (Cleanup i b)"
    by (rule bc_wfI) (use bc_wfD [OF wf] in \<open>auto simp: Cleanup_fields split: if_splits\<close>)
  then show ?thesis using BCleanup by simp
next
  case (BReceive c)
  have len: "length (ch_buf (bc_chans b c)) - Suc 0 \<le> buffer_size" using bc_wfD(4) [OF wf, of c] by simp
  have "bc_wf (receive c b)"
    by (rule bc_wfI) (use bc_wfD [OF wf] len in \<open>auto simp: receive_fields split: if_splits\<close>)
  then show ?thesis using BReceive by simp
qed

lemma bc_run_wf: "bc_wf b \<Longrightarrow> \<exists>b'. bc_run xs b = Some b' \<and> bc_wf b'"
proof (induction xs arbitrary: b)
  case (Cons x xs)
  obtain b1 where "bc_step b x = Some b1" "bc_wf b1" using bc_step_wf [OF Cons.prems] by blast
  with Cons.IH show ?case by auto
qed simp

lemma new_broadcaster_wf: "bc_wf NewDefaultProgressBroadcaster"
  by (simp add: bc_wf_def NewDefaultProgressBroadcaster_def subs_of_def)

text \<open>A send to a channel that was closed in between panics.\<close>

lemma send_all_closed:
  "c \<in> set cs \<Longrightarrow> ch_closed (bc_chans b c) \<Longrightarrow> send_all p cs b = None"
proof (induction cs arbitrary: b)
  case (Cons x cs)
  show ?case
  proof (cases "send p x b")
    case (Some b1)
    then have "x \<noteq> c" using Cons.prems(2) by (auto simp: send_def)
    moreover have "ch_closed (bc_chans b1 c)" using Some Cons.prems(2) by (auto simp: send_def Let_def split: if_splits)
    ultimately show ?thesis using Cons Some by auto
  qed simp
qed simp

text \<open>Operations of the broadcaster that run one after the other never panic, keep every subscribed
  channel open and no buffer above 16 updates. But \<open>Broadcast\<close> sends without the lock: when the subscriber
  unsubscribes, or the job is cleaned up, between its lookup and its send, the send panics.\<close>

theorem broadcasts_bounded_and_racy:
  "\<exists>b. bc_run ops NewDefaultProgressBroadcaster = Some b \<and> list_all (\<lambda>c. length (ch_buf (bc_chans b c)) \<le> 16) [0..<bc_next b] \<and>
     list_all (\<lambda>c. \<not> ch_closed (bc_chans b c) \<and> send_all p (subs_of b i) (Unsubscribe i c b) = None \<and>
       send_all p (subs_of b i) (Cleanup i b) = None) (subs_of b i)"
proof -
  obtain b where b: "bc_run ops NewDefaultProgressBroadcaster = Some b" "bc_wf b"
    using bc_run_wf [OF new_broadcaster_wf] by blast
  have "send_all p (subs_of b i) (Unsubscribe i c b) = None \<and> send_all p (subs_of b i) (Cleanup i b) = None"
    if "c \<in> set (subs_of b i)" for c
  proof (intro conjI)
    show "send_all p (subs_of b i) (Unsubscribe i c b) = None"
      by (rule send_all_closed [OF that]) (simp add: Unsubscribe_fields that)
    show "send_all p (subs_of b i) (Cleanup i b) = None"
      by (rule send_all_closed [OF that]) (simp add: Cleanup_fields that)
  qed
  then show ?thesis using b by (auto simp: bc_wf_def list_all_iff buffer_size_def)
qed

end
