(* ===== verification/Base64.thy ===== *)
theory Base64
  imports GoText
begin

section \<open>Go's \<open>encoding/base64\<close>\<close>

text \<open>
  The encodings the code uses: \<open>StdEncoding\<close>, \<open>RawStdEncoding\<close> and \<open>RawURLEncoding\<close>. A string is its bytes. An
  encoding is an alphabet (standard or URL-safe) and whether it pads. Decoding is Go's: line breaks are
  skipped, the trailing bits of the last group are ignored, a wrong character or length is an error.
\<close>

record encoding =
  en_url :: bool
  en_pad :: bool

definition StdEncoding :: encoding where
  "StdEncoding = \<lparr>en_url = False, en_pad = True\<rparr>"

definition RawStdEncoding :: encoding where
  "RawStdEncoding = \<lparr>en_url = False, en_pad = False\<rparr>"

definition RawURLEncoding :: encoding where
  "RawURLEncoding = \<lparr>en_url = True, en_pad = False\<rparr>"

definition enc_char :: "bool \<Rightarrow> nat \<Rightarrow> char" where
  "enc_char url n = (if n < 26 then char_of (65 + n) else if n < 52 then char_of (97 + (n - 26))
     else if n < 62 then char_of (48 + (n - 52))
     else if n = 62 then (if url then CHR ''-'' else CHR ''+'')
     else (if url then CHR ''_'' else CHR ''/''))"

definition dec_char :: "bool \<Rightarrow> char \<Rightarrow> nat option" where
  "dec_char url c = (let n = of_char c :: nat in
     if 65 \<le> n \<and> n \<le> 90 then Some (n - 65)
     else if 97 \<le> n \<and> n \<le> 122 then Some (n - 97 + 26)
     else if 48 \<le> n \<and> n \<le> 57 then Some (n - 48 + 52)
     else if c = (if url then CHR ''-'' else CHR ''+'') then Some 62
     else if c = (if url then CHR ''_'' else CHR ''/'') then Some 63
     else None)"

definition pad_with :: "encoding \<Rightarrow> string \<Rightarrow> string" where
  "pad_with e p = (if en_pad e then p else '''')"

fun b64_encode :: "encoding \<Rightarrow> string \<Rightarrow> string" where
  "b64_encode e [] = []"
| "b64_encode e [a] = (let x = of_char a :: nat in
     [enc_char (en_url e) (x div 4), enc_char (en_url e) (x mod 4 * 16)] @ pad_with e ''=='')"
| "b64_encode e [a, b] = (let x = of_char a :: nat; y = of_char b :: nat in
     [enc_char (en_url e) (x div 4), enc_char (en_url e) (x mod 4 * 16 + y div 16),
      enc_char (en_url e) (y mod 16 * 4)] @ pad_with e ''='')"
| "b64_encode e (a # b # c # s) = (let x = of_char a :: nat; y = of_char b :: nat; z = of_char c :: nat in
     [enc_char (en_url e) (x div 4), enc_char (en_url e) (x mod 4 * 16 + y div 16),
      enc_char (en_url e) (y mod 16 * 4 + z div 64), enc_char (en_url e) (z mod 64)] @ b64_encode e s)"

text \<open>The bytes of a full group and of the last group of two or three characters.\<close>

definition byte_of :: "nat \<Rightarrow> char" where
  "byte_of n = char_of (n mod 256)"

definition last_two :: "encoding \<Rightarrow> char \<Rightarrow> char \<Rightarrow> string option" where
  "last_two e p q = (case (dec_char (en_url e) p, dec_char (en_url e) q) of
       (Some a, Some b) \<Rightarrow> Some [byte_of (a * 4 + b div 16)]
     | _ \<Rightarrow> None)"

definition last_three :: "encoding \<Rightarrow> char \<Rightarrow> char \<Rightarrow> char \<Rightarrow> string option" where
  "last_three e p q r = (case (dec_char (en_url e) p, dec_char (en_url e) q, dec_char (en_url e) r) of
       (Some a, Some b, Some c) \<Rightarrow> Some [byte_of (a * 4 + b div 16), byte_of (b * 16 + c div 4)]
     | _ \<Rightarrow> None)"

definition full_group :: "encoding \<Rightarrow> char \<Rightarrow> char \<Rightarrow> char \<Rightarrow> char \<Rightarrow> string option" where
  "full_group e p q r t =
     (case (dec_char (en_url e) p, dec_char (en_url e) q, dec_char (en_url e) r, dec_char (en_url e) t) of
       (Some a, Some b, Some c, Some d) \<Rightarrow>
         Some [byte_of (a * 4 + b div 16), byte_of (b * 16 + c div 4), byte_of (c * 64 + d)]
     | _ \<Rightarrow> None)"

fun b64_groups :: "encoding \<Rightarrow> string \<Rightarrow> string option" where
  "b64_groups e [] = Some []"
| "b64_groups e [p] = None"
| "b64_groups e [p, q] = (if en_pad e then None else last_two e p q)"
| "b64_groups e [p, q, r] = (if en_pad e then None else last_three e p q r)"
| "b64_groups e (p # q # r # t # s) =
     (if en_pad e \<and> t = CHR ''='' then
        (if s \<noteq> [] then None else if r = CHR ''='' then last_two e p q else last_three e p q r)
      else (case (full_group e p q r t, b64_groups e s) of
          (Some x, Some y) \<Rightarrow> Some (x @ y)
        | _ \<Rightarrow> None))"

definition is_newline :: "char \<Rightarrow> bool" where
  "is_newline c \<longleftrightarrow> c = CHR 10 \<or> c = CHR 13"

definition b64_decode :: "encoding \<Rightarrow> string \<Rightarrow> string option" where
  "b64_decode e s = b64_groups e (filter (\<lambda>c. \<not> is_newline c) s)"

subsection \<open>Round trip\<close>

lemma byte_small [simp]: "(of_char (c :: char) :: nat) < 256"
  by simp

lemma char_code_eq: "c = d \<longleftrightarrow> (of_char c :: nat) = of_char d"
  by (metis char_of_char)

lemma enc_char_code:
  assumes "n < 64"
  shows "(of_char (enc_char url n) :: nat) = (if n < 26 then 65 + n else if n < 52 then 97 + (n - 26)
     else if n < 62 then 48 + (n - 52) else if n = 62 then (if url then 45 else 43) else (if url then 95 else 47))"
  using assms by (simp add: enc_char_def of_char_of)

lemma enc_char_facts:
  assumes "n < 64"
  shows "dec_char url (enc_char url n) = Some n" "enc_char url n \<noteq> CHR ''=''" "\<not> is_newline (enc_char url n)"
    "enc_char url n \<notin> {CHR ''$'', CHR '','', CHR 39, CHR 32}"
  using assms by (auto simp: dec_char_def is_newline_def char_code_eq enc_char_code Let_def split: if_splits)

text \<open>The four digits of base 64 in three bytes, and back.\<close>

lemma digit_bounds:
  fixes x y z :: nat
  assumes "x < 256" "y < 256" "z < 256"
  shows "x div 4 < 64" "x mod 4 * 16 + y div 16 < 64" "x mod 4 * 16 < 64" "y mod 16 * 4 + z div 64 < 64"
    "y mod 16 * 4 < 64" "z mod 64 < 64"
  using assms by auto

lemma digits_back:
  fixes x y z :: nat
  assumes "x < 256" "y < 256" "z < 256"
  shows "(x div 4 * 4 + (x mod 4 * 16 + y div 16) div 16) mod 256 = x"
    "(x div 4 * 4 + (x mod 4 * 16) div 16) mod 256 = x"
    "((x mod 4 * 16 + y div 16) * 16 + (y mod 16 * 4 + z div 64) div 4) mod 256 = y"
    "((x mod 4 * 16 + y div 16) * 16 + (y mod 16 * 4) div 4) mod 256 = y"
    "((y mod 16 * 4 + z div 64) * 64 + z mod 64) mod 256 = z"
proof -
  have d: "(x mod 4 * 16 + y div 16) div 16 = x mod 4" "(y mod 16 * 4 + z div 64) div 4 = y mod 16"
    using assms by auto
  show "(x div 4 * 4 + (x mod 4 * 16 + y div 16) div 16) mod 256 = x"
    "(x div 4 * 4 + (x mod 4 * 16) div 16) mod 256 = x" using assms d by auto
  have "(x mod 4 * 16 + y div 16) * 16 + y mod 16 = x mod 4 * 256 + y" by (simp add: algebra_simps)
  then show "((x mod 4 * 16 + y div 16) * 16 + (y mod 16 * 4 + z div 64) div 4) mod 256 = y"
    "((x mod 4 * 16 + y div 16) * 16 + (y mod 16 * 4) div 4) mod 256 = y" using assms d by auto
  have "(y mod 16 * 4 + z div 64) * 64 + z mod 64 = y mod 16 * 256 + z" by (simp add: algebra_simps)
  then show "((y mod 16 * 4 + z div 64) * 64 + z mod 64) mod 256 = z" using assms by simp
qed

lemma group_back:
  assumes "x < 256" "y < 256" "z < 256"
  shows "full_group e (enc_char (en_url e) (x div 4)) (enc_char (en_url e) (x mod 4 * 16 + y div 16))
      (enc_char (en_url e) (y mod 16 * 4 + z div 64)) (enc_char (en_url e) (z mod 64))
        = Some [char_of x, char_of y, char_of z]"
    "last_three e (enc_char (en_url e) (x div 4)) (enc_char (en_url e) (x mod 4 * 16 + y div 16))
      (enc_char (en_url e) (y mod 16 * 4)) = Some [char_of x, char_of y]"
    "last_two e (enc_char (en_url e) (x div 4)) (enc_char (en_url e) (x mod 4 * 16)) = Some [char_of x]"
  using digit_bounds [OF assms] digits_back [OF assms]
  by (simp_all add: full_group_def last_three_def last_two_def byte_of_def enc_char_facts(1) del: mod_mult_self4)

lemma groups_of_encode: "b64_groups e (b64_encode e s) = Some s"
proof (induction e s rule: b64_encode.induct)
  case (2 e a)
  then show ?case using group_back(3) [of "of_char a" 0 0 e]
    by (simp add: Let_def pad_with_def)
next
  case (3 e a b)
  then show ?case using group_back(2) [of "of_char a" "of_char b" 0 e] enc_char_facts(2) digit_bounds [of "of_char a" "of_char b" 0]
    by (simp add: Let_def pad_with_def)
next
  case (4 e a b c s)
  then show ?case
    using group_back(1) [of "of_char a" "of_char b" "of_char c" e] enc_char_facts(2) [of "of_char c mod 64" "en_url e"]
    by (simp add: Let_def)
qed simp

definition b64_char :: "encoding \<Rightarrow> char \<Rightarrow> bool" where
  "b64_char e c \<longleftrightarrow> (en_pad e \<and> c = CHR ''='') \<or> (\<exists>n < 64. c = enc_char (en_url e) n)"

lemma b64_char_enc: "n < 64 \<Longrightarrow> b64_char e (enc_char (en_url e) n)"
  by (auto simp: b64_char_def)

lemma b64_char_pad: "\<forall>c \<in> set p. c = CHR ''='' \<Longrightarrow> \<forall>c \<in> set (pad_with e p). b64_char e c"
  by (auto simp: b64_char_def pad_with_def)

lemma encode_chars: "\<forall>c \<in> set (b64_encode e s). b64_char e c"
proof (induction e s rule: b64_encode.induct)
  case (2 e a)
  then show ?case using b64_char_pad [of "''==''" e] by (auto simp: Let_def intro!: b64_char_enc digit_bounds [of "of_char a" 0 0])
next
  case (3 e a b)
  then show ?case using b64_char_pad [of "''=''" e] by (auto simp: Let_def intro!: b64_char_enc digit_bounds [of "of_char a" "of_char b" 0])
next
  case (4 e a b c s)
  then show ?case
    by (auto simp: Let_def intro!: b64_char_enc digit_bounds [of "of_char a" "of_char b" "of_char c"])
qed simp

lemma encode_clean:
  assumes "c \<in> set (b64_encode e s)"
  shows "\<not> is_newline c" "c \<notin> {CHR ''$'', CHR '','', CHR 39, CHR 32}"
  using bspec [OF encode_chars assms] enc_char_facts by (auto simp: b64_char_def is_newline_def)

lemma b64_decode_encode [simp]: "b64_decode e (b64_encode e s) = Some s"
proof -
  have "filter (\<lambda>c. \<not> is_newline c) (b64_encode e s) = b64_encode e s"
    using encode_clean(1) by (simp add: filter_id_conv)
  then show ?thesis by (simp add: b64_decode_def groups_of_encode)
qed

lemma b64_encode_empty [simp]: "b64_encode e s = [] \<longleftrightarrow> s = []"
  by (cases "(e, s)" rule: b64_encode.cases) (simp_all add: Let_def)

end
