(* ===== verification/Crypto.thy ===== *)
theory Crypto
  imports Base64
begin

section \<open>Secrets at rest (\<open>shared/crypto.go\<close>)\<close>

text \<open>
  The primitives of \<open>golang.org/x/crypto\<close> and of the cipher are the record \<open>crypto\<close>; a source of random bytes is
  a function from the number of bytes asked for. What is modelled is what the file builds of them: the frame
  around a ciphertext, the text of a password hash, and the checks of the three formats that are accepted.
\<close>

record crypto =
  argon2_IDKey :: "string \<Rightarrow> string \<Rightarrow> nat \<Rightarrow> nat \<Rightarrow> nat \<Rightarrow> nat \<Rightarrow> string"
  bcrypt_matches :: "string \<Rightarrow> string \<Rightarrow> bool"
  pbkdf2_sha256 :: "string \<Rightarrow> string \<Rightarrow> int \<Rightarrow> nat \<Rightarrow> string"
  gcm_Seal :: "string \<Rightarrow> string \<Rightarrow> string \<Rightarrow> string"
  gcm_Open :: "string \<Rightarrow> string \<Rightarrow> string \<Rightarrow> string res"

type_synonym random = "nat \<Rightarrow> string res"

text \<open>What the documentation of the primitives promises.\<close>

definition crypto_ok :: "crypto \<Rightarrow> bool" where
  "crypto_ok c \<longleftrightarrow>
     (\<forall>k n p. length k = 32 \<longrightarrow> length n = 12 \<longrightarrow> gcm_Open c k n (gcm_Seal c k n p) = Inr p) \<and>
     (\<forall>pw s t m p l. length (argon2_IDKey c pw s t m p l) = l) \<and>
     (\<forall>pw s i l. length (pbkdf2_sha256 c pw s i l) = l)"

definition random_ok :: "random \<Rightarrow> bool" where
  "random_ok rnd \<longleftrightarrow> (\<forall>n b. rnd n = Inr b \<longrightarrow> length b = n)"

definition argon2SaltLength :: nat where "argon2SaltLength = 16"
definition argon2MemoryKiB :: nat where "argon2MemoryKiB = 64 * 1024"
definition argon2Iterations :: nat where "argon2Iterations = 3"
definition argon2Parallelism :: nat where "argon2Parallelism = 2"
definition argon2KeyLength :: nat where "argon2KeyLength = 32"

text \<open>The nonce of Go's GCM has twelve bytes.\<close>

definition gcm_NonceSize :: nat where
  "gcm_NonceSize = 12"

definition Encrypt :: "crypto \<Rightarrow> random \<Rightarrow> string \<Rightarrow> string \<Rightarrow> string res" where
  "Encrypt c rnd key plaintext =
     (if length key \<noteq> 32 then Inl (ErrF ''key must be 32 bytes'')
      else (case rnd gcm_NonceSize of
          Inl err \<Rightarrow> Inl err
        | Inr nonce \<Rightarrow> Inr (nonce @ gcm_Seal c key nonce plaintext)))"

definition Decrypt :: "crypto \<Rightarrow> string \<Rightarrow> string \<Rightarrow> string res" where
  "Decrypt c key ciphertext =
     (if length key \<noteq> 32 then Inl (ErrF ''key must be 32 bytes'')
      else if length ciphertext < gcm_NonceSize then Inl (ErrF ''ciphertext too short'')
      else gcm_Open c key (take gcm_NonceSize ciphertext) (drop gcm_NonceSize ciphertext))"

definition argon2_text :: "string \<Rightarrow> string \<Rightarrow> string" where
  "argon2_text salt hash =
     ''argon2id$v=19$m='' @ string_of_nat argon2MemoryKiB @ '',t='' @ string_of_nat argon2Iterations
       @ '',p='' @ string_of_nat argon2Parallelism @ ''$'' @ b64_encode RawStdEncoding salt
       @ ''$'' @ b64_encode RawStdEncoding hash"

definition HashPassword :: "crypto \<Rightarrow> random \<Rightarrow> string \<Rightarrow> string res" where
  "HashPassword c rnd password = (case rnd argon2SaltLength of
       Inl err \<Rightarrow> Inl err
     | Inr salt \<Rightarrow> Inr (argon2_text salt (argon2_IDKey c password salt argon2Iterations argon2MemoryKiB
                       argon2Parallelism argon2KeyLength)))"

definition decodeBase64Component :: "string \<Rightarrow> string option" where
  "decodeBase64Component v = (case b64_decode RawStdEncoding v of
       Some d \<Rightarrow> Some d
     | None \<Rightarrow> b64_decode StdEncoding v)"

text \<open>The loop over the parameters; the accumulator holds memory, iterations and parallelism.\<close>

fun argon2_params :: "string list \<Rightarrow> nat \<times> nat \<times> nat \<Rightarrow> (nat \<times> nat \<times> nat) option" where
  "argon2_params [] acc = Some acc"
| "argon2_params (param # ps) (m, t, p) = (case cut_at CHR ''='' param of
       None \<Rightarrow> None
     | Some (key, value) \<Rightarrow>
         if key = ''m'' then
           (case ParseUint value 32 of None \<Rightarrow> None | Some n \<Rightarrow> argon2_params ps (n, t, p))
         else if key = ''t'' then
           (case ParseUint value 32 of None \<Rightarrow> None | Some n \<Rightarrow> argon2_params ps (m, n, p))
         else if key = ''p'' then
           (case ParseUint value 8 of None \<Rightarrow> None | Some n \<Rightarrow> argon2_params ps (m, t, n))
         else None)"

definition verifyArgon2IDPassword :: "crypto \<Rightarrow> string \<Rightarrow> string \<Rightarrow> bool" where
  "verifyArgon2IDPassword c password hash =
     (let parts = split_at CHR ''$'' hash in
      if length parts \<noteq> 5 \<or> parts ! 0 \<noteq> ''argon2id'' \<or> parts ! 1 \<noteq> ''v=19'' then False
      else (case argon2_params (split_at CHR '','' (parts ! 2)) (0, 0, 0) of
          None \<Rightarrow> False
        | Some (m, t, p) \<Rightarrow>
            if m = 0 \<or> t = 0 \<or> p = 0 then False
            else if m < 8 * p then False
            else (case (decodeBase64Component (parts ! 3), decodeBase64Component (parts ! 4)) of
                (Some salt, Some stored) \<Rightarrow>
                  argon2_IDKey c password salt t m p (length stored mod 2 ^ 32) = stored
              | _ \<Rightarrow> False)))"

definition isHashAlgorithm :: "string \<Rightarrow> bool" where
  "isHashAlgorithm v \<longleftrightarrow> v = ''sha1'' \<or> v = ''sha256'' \<or> v = ''sha512''"

text \<open>The algorithm the first parts name and the index of the next part.\<close>

definition pbkdf2_algorithm :: "string list \<Rightarrow> (string \<times> nat) option" where
  "pbkdf2_algorithm parts =
     (let variant = parts ! 0 in
      if variant = ''pbkdf2'' then
        (if 1 < length parts \<and> isHashAlgorithm (parts ! 1) then Some (parts ! 1, 2) else Some (''sha256'', 1))
      else if HasPrefix variant ''pbkdf2-'' then Some (TrimPrefix variant ''pbkdf2-'', 1)
      else if HasPrefix variant ''pbkdf2_'' then Some (TrimPrefix variant ''pbkdf2_'', 1)
      else None)"

definition verifyPBKDF2Password :: "crypto \<Rightarrow> string \<Rightarrow> string \<Rightarrow> bool" where
  "verifyPBKDF2Password c password hash =
     (let parts0 = split_at CHR ''$'' hash;
          parts = (if parts0 ! 0 = '''' then tl parts0 else parts0)
      in if length parts < 4 then False
         else (case pbkdf2_algorithm parts of
             None \<Rightarrow> False
           | Some (algorithm, idx) \<Rightarrow>
               if algorithm \<noteq> ''sha256'' then False
               else if length parts \<le> idx then False
               else (case Atoi (parts ! idx) of
                   None \<Rightarrow> False
                 | Some iterations \<Rightarrow>
                     if iterations \<le> 0 then False
                     else if length parts \<le> idx + 2 then False
                     else (case (decodeBase64Component (parts ! (idx + 1)), decodeBase64Component (parts ! (idx + 2))) of
                         (Some salt, Some stored) \<Rightarrow>
                           pbkdf2_sha256 c password salt iterations (length stored) = stored
                       | _ \<Rightarrow> False))))"

definition VerifyPassword :: "crypto \<Rightarrow> string \<Rightarrow> string \<Rightarrow> bool" where
  "VerifyPassword c password hash =
     (if HasPrefix hash ''argon2id$'' then verifyArgon2IDPassword c password hash
      else if HasPrefix hash ''pbkdf2$'' \<or> HasPrefix hash ''pbkdf2-'' \<or> HasPrefix hash ''pbkdf2_'' then
        verifyPBKDF2Password c password hash
      else bcrypt_matches c hash password)"

definition DeriveKey :: "crypto \<Rightarrow> string \<Rightarrow> string \<Rightarrow> string" where
  "DeriveKey c password salt = pbkdf2_sha256 c password salt 600000 32"

subsection \<open>Round trips\<close>

lemma DeriveKey_length: "crypto_ok c \<Longrightarrow> length (DeriveKey c password salt) = 32"
  by (simp add: crypto_ok_def DeriveKey_def)

text \<open>What \<open>Encrypt\<close> produces, \<open>Decrypt\<close> opens with the same key; a key of another length is refused by both.\<close>

lemma decrypt_encrypt:
  assumes "crypto_ok c" and "random_ok rnd" and "Encrypt c rnd key plaintext = Inr ciphertext"
  shows "Decrypt c key ciphertext = Inr plaintext \<and> length key = 32"
  using assms
  by (auto simp: Encrypt_def Decrypt_def crypto_ok_def random_ok_def gcm_NonceSize_def split: if_splits sum.splits)

lemma component_encode [simp]: "decodeBase64Component (b64_encode RawStdEncoding s) = Some s"
  by (simp add: decodeBase64Component_def)

lemma no_dollar [simp]: "CHR ''$'' \<notin> set (b64_encode e s)"
  using encode_clean(2) by blast

lemma argon2_numbers:
  "string_of_nat argon2MemoryKiB = ''65536''" "string_of_nat argon2Iterations = ''3''" "string_of_nat argon2Parallelism = ''2''"
  by (simp_all add: argon2MemoryKiB_def argon2Iterations_def argon2Parallelism_def string_of_nat.simps digit_char_def
      char_code_eq)

lemma argon2_text_parts:
  "split_at CHR ''$'' (argon2_text salt hash) = [''argon2id'', ''v=19'', ''m=65536,t=3,p=2'',
     b64_encode RawStdEncoding salt, b64_encode RawStdEncoding hash]"
  by (simp add: argon2_text_def argon2_numbers)

lemma argon2_params_text:
  "argon2_params [''m=65536'', ''t=3'', ''p=2''] (0, 0, 0) = Some (65536, 3, 2)"
proof -
  have "ParseUint ''65536'' 32 = Some 65536" "ParseUint ''3'' 32 = Some 3" "ParseUint ''2'' 8 = Some 2"
    using ParseUint_string_of_nat [of argon2MemoryKiB 32] ParseUint_string_of_nat [of argon2Iterations 32]
      ParseUint_string_of_nat [of argon2Parallelism 8]
    by (simp_all add: argon2_numbers) (simp_all add: argon2MemoryKiB_def argon2Iterations_def argon2Parallelism_def)
  then show ?thesis by (simp add: cut_at_def)
qed

text \<open>A hash that \<open>HashPassword\<close> wrote is parsed back completely by \<open>VerifyPassword\<close>: it accepts exactly the
  passwords with the same Argon2id digest under the stored salt, so the password itself always.\<close>

lemma verify_of_hash:
  assumes "crypto_ok c" and "HashPassword c rnd password = Inr hash" and "rnd argon2SaltLength = Inr salt"
  shows "VerifyPassword c other hash \<longleftrightarrow>
    argon2_IDKey c other salt 3 65536 2 32 = argon2_IDKey c password salt 3 65536 2 32"
proof -
  let ?d = "argon2_IDKey c password salt argon2Iterations argon2MemoryKiB argon2Parallelism argon2KeyLength"
  have hash: "hash = argon2_text salt ?d" using assms(2,3) by (simp add: HashPassword_def)
  have "length ?d = 32" using assms(1) by (simp add: crypto_ok_def argon2KeyLength_def)
  moreover have "HasPrefix hash ''argon2id$''" by (simp add: hash argon2_text_def HasPrefix_def)
  moreover have "?d = argon2_IDKey c password salt 3 65536 2 32"
    by (simp add: argon2Iterations_def argon2MemoryKiB_def argon2Parallelism_def argon2KeyLength_def)
  ultimately show ?thesis
    by (simp add: VerifyPassword_def verifyArgon2IDPassword_def hash argon2_text_parts argon2_params_text
        del: argon2_params.simps)
qed

lemma digit_no_dollar [simp]: "CHR ''$'' \<notin> set (string_of_nat n)"
  using string_of_nat_chars [of "CHR ''$''" n] by (auto simp: is_digit_def)

lemma not_an_algorithm [simp]: "\<not> isHashAlgorithm (string_of_nat n)"
proof
  assume "isHashAlgorithm (string_of_nat n)"
  then have "CHR ''s'' \<in> set (string_of_nat n)" by (auto simp: isHashAlgorithm_def)
  then show False using string_of_nat_chars [of "CHR ''s''" n] by (simp add: is_digit_def)
qed

definition pbkdf2_text :: "nat \<Rightarrow> string \<Rightarrow> string \<Rightarrow> string" where
  "pbkdf2_text iterations salt digest =
     ''pbkdf2$'' @ string_of_nat iterations @ ''$'' @ b64_encode RawStdEncoding salt @ ''$'' @ b64_encode RawStdEncoding digest"

lemma pbkdf2_accepts:
  assumes "0 < iterations" and "iterations < 2 ^ 63"
  shows "VerifyPassword c password (pbkdf2_text iterations salt digest)
       \<longleftrightarrow> pbkdf2_sha256 c password salt (int iterations) (length digest) = digest"
proof -
  have parts: "split_at CHR ''$'' (pbkdf2_text iterations salt digest)
      = [''pbkdf2'', string_of_nat iterations, b64_encode RawStdEncoding salt, b64_encode RawStdEncoding digest]"
    by (simp add: pbkdf2_text_def)
  show ?thesis using assms
    by (simp add: VerifyPassword_def verifyPBKDF2Password_def parts pbkdf2_algorithm_def Atoi_string_of_nat)
      (simp add: pbkdf2_text_def HasPrefix_def)
qed

text \<open>A stored hash of the PBKDF2 format is accepted exactly for the passwords with its digest; one whose digest
  part is empty accepts every password.\<close>

theorem pbkdf2_hash_accepts:
  assumes "0 < iterations" and "iterations < 2 ^ 63"
  shows "(VerifyPassword c password (pbkdf2_text iterations salt digest)
       \<longleftrightarrow> pbkdf2_sha256 c password salt (int iterations) (length digest) = digest)
    \<and> (crypto_ok c \<longrightarrow> VerifyPassword c password (pbkdf2_text iterations salt ''''))"
proof -
  have "length (pbkdf2_sha256 c password salt (int iterations) 0) = 0" if "crypto_ok c"
    using that unfolding crypto_ok_def by blast
  then show ?thesis using pbkdf2_accepts [OF assms, of c password salt] by simp
qed

text \<open>Primitives that keep the promises: a cipher that only frames, digests that repeat one byte.\<close>

definition demo_crypto :: crypto where
  "demo_crypto = \<lparr>argon2_IDKey = (\<lambda>pw s t m p l. replicate l (if pw = ''pw'' then CHR ''a'' else CHR ''b'')),
     bcrypt_matches = (\<lambda>h pw. False),
     pbkdf2_sha256 = (\<lambda>pw s i l. replicate l (if pw = ''pw'' then CHR ''a'' else CHR ''b'')),
     gcm_Seal = (\<lambda>k n p. k @ p), gcm_Open = (\<lambda>k n p. if take 32 p = k then Inr (drop 32 p) else Inl (ErrF ''auth''))\<rparr>"

definition demo_random :: random where
  "demo_random n = Inr (replicate n CHR ''r'')"

lemma demo_crypto_ok [simp]: "crypto_ok demo_crypto" "random_ok demo_random"
  by (simp_all add: crypto_ok_def random_ok_def demo_crypto_def demo_random_def)

theorem pbkdf2_hash_accepts_witness:
  "VerifyPassword demo_crypto ''anything'' (pbkdf2_text 1 ''salt'' '''')"
  by (rule pbkdf2_hash_accepts [THEN conjunct2, rule_format]) simp_all

end
