(* ===== verification/Auth.thy ===== *)
theory Auth
  imports Crypto World
begin

section \<open>The lock of the application (\<open>mod/auth\<close>)\<close>

text \<open>
  The table \<open>app_config\<close> and the two files beside the database are the database of the world, so a crash or a
  restart keeps them and loses the service. A statement and a file operation is one tick and may fail; a write
  to a file that fails half-way leaves a prefix. Random bytes and key pairs are drawn per tick.
\<close>

record auth_db =
  ad_config :: "string \<rightharpoonup> string"
  ad_keyFile :: "string option"
  ad_tokenFile :: "string option"

type_synonym auth_world = "(auth_db, unit) world"

record auth_env =
  ae_crypto :: crypto
  ae_random :: "nat \<Rightarrow> random"
  ae_GenerateKeyPair :: "nat \<Rightarrow> (string \<times> string) res"
  ae_written :: "nat \<Rightarrow> nat"

subsection \<open>The configuration table (\<open>repo.go\<close>)\<close>

definition GetConfigValue :: "string \<Rightarrow> auth_world \<Rightarrow> string res \<times> auth_world" where
  "GetConfigValue k = db_read (\<lambda>d. Inr (case ad_config d k of None \<Rightarrow> '''' | Some v \<Rightarrow> v))"

definition setConfigValueTx :: "string \<Rightarrow> string \<Rightarrow> auth_db \<Rightarrow> auth_db" where
  "setConfigValueTx k v d = d\<lparr>ad_config := (ad_config d)(k \<mapsto> v)\<rparr>"

definition SetConfigValue :: "string \<Rightarrow> string \<Rightarrow> auth_world \<Rightarrow> unit res \<times> auth_world" where
  "SetConfigValue k v = db_write (\<lambda>now d. (Inr (), setConfigValueTx k v d))"

definition GetSalt :: "auth_world \<Rightarrow> string res \<times> auth_world" where
  "GetSalt = GetConfigValue ''aes_salt''"

definition SetSalt :: "string \<Rightarrow> auth_world \<Rightarrow> unit res \<times> auth_world" where
  "SetSalt = SetConfigValue ''aes_salt''"

definition HasMasterPassword :: "auth_world \<Rightarrow> bool res \<times> auth_world" where
  "HasMasterPassword w = (case GetConfigValue ''master_password_hash'' w of
       (Inl err, w1) \<Rightarrow> (Inl err, w1)
     | (Inr v, w1) \<Rightarrow> (Inr (v \<noteq> ''''), w1))"

definition SetMasterPassword :: "string \<Rightarrow> auth_world \<Rightarrow> unit res \<times> auth_world" where
  "SetMasterPassword = SetConfigValue ''master_password_hash''"

definition GetEncryptedSSHKey :: "auth_world \<Rightarrow> string res \<times> auth_world" where
  "GetEncryptedSSHKey = GetConfigValue ''ssh_key_private_encrypted''"

definition SetEncryptedSSHKey :: "string \<Rightarrow> auth_world \<Rightarrow> unit res \<times> auth_world" where
  "SetEncryptedSSHKey = SetConfigValue ''ssh_key_private_encrypted''"

definition GetSSHPublicKey :: "auth_world \<Rightarrow> string res \<times> auth_world" where
  "GetSSHPublicKey = GetConfigValue ''ssh_key_public''"

definition SetSSHPublicKey :: "string \<Rightarrow> auth_world \<Rightarrow> unit res \<times> auth_world" where
  "SetSSHPublicKey = SetConfigValue ''ssh_key_public''"

text \<open>The two transactions.\<close>

definition SetSSHKeyPair :: "string \<Rightarrow> string \<Rightarrow> auth_world \<Rightarrow> unit res \<times> auth_world" where
  "SetSSHKeyPair priv pub = db_write (\<lambda>now d.
     (Inr (), setConfigValueTx ''ssh_key_public'' pub (setConfigValueTx ''ssh_key_private_encrypted'' priv d)))"

definition SetupAll :: "string \<Rightarrow> string \<Rightarrow> string \<Rightarrow> string \<Rightarrow> auth_world \<Rightarrow> unit res \<times> auth_world" where
  "SetupAll masterHash priv pub salt = db_write (\<lambda>now d.
     (Inr (), setConfigValueTx ''pbkdf2_salt'' salt (setConfigValueTx ''ssh_key_public'' pub
        (setConfigValueTx ''ssh_key_private_encrypted'' priv (setConfigValueTx ''master_password_hash'' masterHash d)))))"

subsection \<open>The service (\<open>service.go\<close>)\<close>

record Service =
  sv_aesKey :: "string option"
  sv_locked :: bool
  sv_sessionToken :: string
  sv_persistent :: bool

definition NewService :: Service where
  "NewService = \<lparr>sv_aesKey = None, sv_locked = True, sv_sessionToken = '''', sv_persistent = False\<rparr>"

definition SetPersistence :: "Service \<Rightarrow> Service" where
  "SetPersistence s = s\<lparr>sv_persistent := True\<rparr>"

text \<open>The files: \<open>os.WriteFile\<close> truncates and writes, \<open>os.Remove\<close> removes.\<close>

definition file_after :: "auth_env \<Rightarrow> auth_world \<Rightarrow> string \<Rightarrow> string option \<Rightarrow> string option" where
  "file_after env w content old = (case w_env w (w_tick w) of
       NoFault \<Rightarrow> Some content
     | FailBefore _ \<Rightarrow> old
     | FailAfter _ \<Rightarrow> Some (take (ae_written env (w_tick w)) content))"

definition write_key :: "auth_env \<Rightarrow> string \<Rightarrow> auth_world \<Rightarrow> auth_world" where
  "write_key env content w =
     tick (w\<lparr>w_db := (w_db w)\<lparr>ad_keyFile := file_after env w content (ad_keyFile (w_db w))\<rparr>\<rparr>)"

definition write_token :: "auth_env \<Rightarrow> string \<Rightarrow> auth_world \<Rightarrow> auth_world" where
  "write_token env content w =
     tick (w\<lparr>w_db := (w_db w)\<lparr>ad_tokenFile := file_after env w content (ad_tokenFile (w_db w))\<rparr>\<rparr>)"

definition remove_key :: "auth_world \<Rightarrow> auth_world" where
  "remove_key w = snd (db_write (\<lambda>now d. (Inr (), d\<lparr>ad_keyFile := None\<rparr>)) w)"

definition remove_token :: "auth_world \<Rightarrow> auth_world" where
  "remove_token w = snd (db_write (\<lambda>now d. (Inr (), d\<lparr>ad_tokenFile := None\<rparr>)) w)"

definition read_file :: "(auth_db \<Rightarrow> string option) \<Rightarrow> auth_world \<Rightarrow> string res \<times> auth_world" where
  "read_file f = db_read (\<lambda>d. case f d of None \<Rightarrow> Inl (ErrF ''file does not exist'') | Some s \<Rightarrow> Inr s)"

definition persist :: "auth_env \<Rightarrow> Service \<Rightarrow> auth_world \<Rightarrow> auth_world" where
  "persist env s w = (if \<not> sv_persistent s then w
     else write_token env (sv_sessionToken s)
       (write_key env (case sv_aesKey s of None \<Rightarrow> '''' | Some k \<Rightarrow> k) w))"

definition generateSessionToken :: "auth_env \<Rightarrow> auth_world \<Rightarrow> string \<times> auth_world" where
  "generateSessionToken env w = (case ae_random env (w_tick w) 32 of
       Inl _ \<Rightarrow> ('''', tick w)
     | Inr b \<Rightarrow> (b64_encode RawURLEncoding b, tick w))"

definition Restore :: "auth_env \<Rightarrow> Service \<Rightarrow> auth_world \<Rightarrow> Service \<times> auth_world" where
  "Restore env s w =
     (if \<not> sv_locked s \<or> \<not> sv_persistent s then (s, w)
      else (case read_file ad_keyFile w of
          (Inl _, w1) \<Rightarrow> (s, w1)
        | (Inr key, w1) \<Rightarrow>
            if length key \<noteq> 32 then (s, w1)
            else (let s1 = s\<lparr>sv_aesKey := Some key, sv_locked := False\<rparr> in
              case read_file ad_tokenFile w1 of
                (Inr tok, w2) \<Rightarrow>
                  if 0 < length tok then (s1\<lparr>sv_sessionToken := tok\<rparr>, w2)
                  else (let (t, w3) = generateSessionToken env w2 in (s1\<lparr>sv_sessionToken := t\<rparr>, w3))
              | (Inl _, w2) \<Rightarrow>
                  (let (t, w3) = generateSessionToken env w2 in (s1\<lparr>sv_sessionToken := t\<rparr>, w3)))))"

definition IsSetup :: "auth_world \<Rightarrow> bool res \<times> auth_world" where
  "IsSetup = HasMasterPassword"

definition IsLocked :: "Service \<Rightarrow> bool" where
  "IsLocked s = sv_locked s"

definition GetAESKey :: "Service \<Rightarrow> string option" where
  "GetAESKey s = sv_aesKey s"

definition GetSessionToken :: "Service \<Rightarrow> string" where
  "GetSessionToken s = sv_sessionToken s"

definition ValidateSessionToken :: "Service \<Rightarrow> string \<Rightarrow> bool" where
  "ValidateSessionToken s token =
     (if sv_locked s \<or> sv_sessionToken s = '''' then False else token = sv_sessionToken s)"

text \<open>What \<open>Setup\<close> and \<open>Unlock\<close> do at the end.\<close>

definition open_session :: "auth_env \<Rightarrow> string \<Rightarrow> Service \<Rightarrow> auth_world \<Rightarrow> Service \<times> auth_world" where
  "open_session env key s w =
     (let (token, w1) = generateSessionToken env w;
          s1 = s\<lparr>sv_aesKey := Some key, sv_locked := False, sv_sessionToken := token\<rparr>
      in (s1, persist env s1 w1))"

definition draw :: "(nat \<Rightarrow> 'a) \<Rightarrow> auth_world \<Rightarrow> 'a \<times> auth_world" where
  "draw f w = (f (w_tick w), tick w)"

definition Setup :: "auth_env \<Rightarrow> string \<Rightarrow> Service \<Rightarrow> auth_world \<Rightarrow> goerr option \<times> Service \<times> auth_world" where
  "Setup env password s w = (case HasMasterPassword w of
       (Inl err, w1) \<Rightarrow> (Some err, s, w1)
     | (Inr True, w1) \<Rightarrow> (Some (ErrF ''master password already set''), s, w1)
     | (Inr False, w1) \<Rightarrow>
         (case draw (ae_GenerateKeyPair env) w1 of
            (Inl err, w2) \<Rightarrow> (Some err, s, w2)
          | (Inr (privatePEM, publicSSH), w2) \<Rightarrow>
              (case draw (\<lambda>n. HashPassword (ae_crypto env) (ae_random env n) password) w2 of
                 (Inl err, w3) \<Rightarrow> (Some err, s, w3)
               | (Inr hash, w3) \<Rightarrow>
                   (case draw (\<lambda>n. ae_random env n 32) w3 of
                      (Inl err, w4) \<Rightarrow> (Some err, s, w4)
                    | (Inr salt, w4) \<Rightarrow>
                        (let aesKey = DeriveKey (ae_crypto env) password salt in
                         case draw (\<lambda>n. Encrypt (ae_crypto env) (ae_random env n) aesKey privatePEM) w4 of
                           (Inl err, w5) \<Rightarrow> (Some err, s, w5)
                         | (Inr encrypted, w5) \<Rightarrow>
                             (case SetupAll hash encrypted publicSSH (b64_encode StdEncoding salt) w5 of
                                (Inl err, w6) \<Rightarrow> (Some err, s, w6)
                              | (Inr _, w6) \<Rightarrow> (let (s1, w7) = open_session env aesKey s w6 in (None, s1, w7))))))))"

definition generateAndStoreSSHKeyPair :: "auth_env \<Rightarrow> Service \<Rightarrow> auth_world \<Rightarrow> string res \<times> auth_world" where
  "generateAndStoreSSHKeyPair env s w = (case draw (ae_GenerateKeyPair env) w of
       (Inl err, w1) \<Rightarrow> (Inl err, w1)
     | (Inr (privatePEM, publicSSH), w1) \<Rightarrow>
         (case draw (\<lambda>n. Encrypt (ae_crypto env) (ae_random env n)
                  (case sv_aesKey s of None \<Rightarrow> '''' | Some k \<Rightarrow> k) privatePEM) w1 of
            (Inl err, w2) \<Rightarrow> (Inl err, w2)
          | (Inr encrypted, w2) \<Rightarrow>
              (case SetSSHKeyPair encrypted publicSSH w2 of
                 (Inl err, w3) \<Rightarrow> (Inl err, w3)
               | (Inr _, w3) \<Rightarrow> (Inr publicSSH, w3))))"

definition RegenerateSSHKey :: "auth_env \<Rightarrow> Service \<Rightarrow> auth_world \<Rightarrow> string res \<times> auth_world" where
  "RegenerateSSHKey env s w =
     (if sv_locked s then (Inl (ErrF ''app is locked''), w) else generateAndStoreSSHKeyPair env s w)"

definition EnsureSSHKey :: "auth_env \<Rightarrow> Service \<Rightarrow> auth_world \<Rightarrow> goerr option \<times> auth_world" where
  "EnsureSSHKey env s w = (case GetSSHPublicKey w of
       (Inl err, w1) \<Rightarrow> (Some err, w1)
     | (Inr existing, w1) \<Rightarrow>
         if existing \<noteq> '''' then (None, w1)
         else (case generateAndStoreSSHKeyPair env s w1 of
             (Inl err, w2) \<Rightarrow> (Some err, w2)
           | (Inr _, w2) \<Rightarrow> (None, w2)))"

definition corruption :: "string \<Rightarrow> goerr" where
  "corruption what = ErrF (''setup corruption: pbkdf2_salt '' @ what @ '' '' @ em_dash @ '' re-setup required'')"

definition Unlock :: "auth_env \<Rightarrow> string \<Rightarrow> Service \<Rightarrow> auth_world \<Rightarrow> string res \<times> Service \<times> auth_world" where
  "Unlock env password s w = (case GetConfigValue ''master_password_hash'' w of
       (Inl err, w1) \<Rightarrow> (Inl err, s, w1)
     | (Inr hash, w1) \<Rightarrow>
         if hash = '''' then (Inl (ErrF ''master password not set''), s, w1)
         else if \<not> VerifyPassword (ae_crypto env) password hash then (Inl (ErrF ''invalid password''), s, w1)
         else (case GetConfigValue ''pbkdf2_salt'' w1 of
             (Inl err, w2) \<Rightarrow> (Inl err, s, w2)
           | (Inr saltB64, w2) \<Rightarrow>
               if saltB64 = '''' then (Inl (corruption ''missing from database''), s, w2)
               else (case b64_decode StdEncoding saltB64 of
                   None \<Rightarrow> (Inl (ErrF ''illegal base64 data''), s, w2)
                 | Some salt \<Rightarrow>
                     if length salt = 0 then (Inl (corruption ''is empty''), s, w2)
                     else (let (s1, w3) = open_session env (DeriveKey (ae_crypto env) password salt) s w2
                           in (Inr (sv_sessionToken s1), s1, w3)))))"

definition Lock :: "Service \<Rightarrow> auth_world \<Rightarrow> Service \<times> auth_world" where
  "Lock s w =
     (s\<lparr>sv_aesKey := None, sv_locked := True, sv_sessionToken := ''''\<rparr>,
      if sv_persistent s then remove_token (remove_key w) else w)"

subsection \<open>The session manager (\<open>session_manager.go\<close>)\<close>

text \<open>\<open>None\<close> is the nil pointer.\<close>

type_synonym session_manager = "string option"

definition NewSessionManager :: session_manager where
  "NewSessionManager = Some ''''"

definition sm_Set :: "session_manager \<Rightarrow> string \<Rightarrow> session_manager" where
  "sm_Set m token = (case m of None \<Rightarrow> None | Some _ \<Rightarrow> Some token)"

definition sm_Clear :: "session_manager \<Rightarrow> session_manager" where
  "sm_Clear m = (case m of None \<Rightarrow> None | Some _ \<Rightarrow> Some '''')"

definition ValidateSession :: "session_manager \<Rightarrow> string \<Rightarrow> bool" where
  "ValidateSession m token = (case m of None \<Rightarrow> False | Some t \<Rightarrow> t \<noteq> '''' \<and> token = t)"

end
