(* ===== verification/RateLimits.thy ===== *)
theory RateLimits
  imports GoText World
begin

section \<open>The two request limiters (\<open>mod/middleware/security.go\<close>, \<open>shared/ratelimit.go\<close>)\<close>

text \<open>
  The middleware keeps the times of the requests it let through, per address and for two classes; the limiter of
  the sign-in endpoints counts within a window and blocks. Both read the clock once per request; their mutex
  makes each call one step. A missing key of a bucket is the nil slice. Addresses are taken from headers as
  the code does; \<open>net.ParseIP\<close> with \<open>String\<close> is a parameter.
\<close>

subsection \<open>Addresses\<close>

text \<open>\<open>net.SplitHostPort\<close>; \<open>None\<close> is one of its errors.\<close>

definition split_last_colon :: "string \<Rightarrow> (string \<times> string) option" where
  "split_last_colon s = (case after_last CHR '':'' s of
       None \<Rightarrow> None
     | Some p \<Rightarrow> Some (take (length s - length p - 1) s, p))"

definition SplitHostPort :: "string \<Rightarrow> (string \<times> string) option" where
  "SplitHostPort hostport = (case split_last_colon hostport of
       None \<Rightarrow> None
     | Some (before, p) \<Rightarrow>
         if HasPrefix hostport ''['' then
           (if CHR '']'' \<notin> set hostport then None
            else (let host = takeWhile (\<lambda>c. c \<noteq> CHR '']'') (tl hostport) in
              if before \<noteq> ''['' @ host @ '']'' then None
              else if CHR ''['' \<in> set (tl hostport) \<or> CHR '']'' \<in> set p then None
              else Some (host, p)))
         else if CHR '':'' \<in> set before then None
         else if CHR ''['' \<in> set hostport \<or> CHR '']'' \<in> set hostport then None
         else Some (before, p))"

definition blank_char :: "char \<Rightarrow> bool" where
  "blank_char c \<longleftrightarrow> c = CHR 32 \<or> c = CHR 9"

definition trimSpace :: "string \<Rightarrow> string" where
  "trimSpace s = rev (dropWhile blank_char (rev (dropWhile blank_char s)))"

definition splitCSV :: "string \<Rightarrow> string list" where
  "splitCSV s = map trimSpace (split_at CHR '','' s)"

text \<open>The address of a request: the header, the remote address, and the parser of addresses.\<close>

definition ExtractIP :: "(string \<Rightarrow> string option) \<Rightarrow> string \<Rightarrow> string \<Rightarrow> string" where
  "ExtractIP parseIP xff remote =
     (let rest = (case SplitHostPort remote of None \<Rightarrow> remote | Some (host, _) \<Rightarrow> host) in
      if xff = '''' then rest
      else (case parseIP xff of
          Some ip \<Rightarrow> ip
        | None \<Rightarrow> (case map_option parseIP (find (\<lambda>p. parseIP p \<noteq> None) (splitCSV xff)) of
              Some (Some ip) \<Rightarrow> ip
            | _ \<Rightarrow> rest)))"

definition clientIP :: "string \<Rightarrow> string \<Rightarrow> string \<Rightarrow> string" where
  "clientIP forwardedFor realIP remote =
     (let first = TrimSpace (hd (split_at CHR '','' forwardedFor)); real = TrimSpace realIP; addr = TrimSpace remote in
      if forwardedFor \<noteq> '''' \<and> first \<noteq> '''' then first
      else if real \<noteq> '''' then real
      else (case SplitHostPort addr of
          Some (host, _) \<Rightarrow> if host \<noteq> '''' then host else if addr \<noteq> '''' then addr else ''unknown''
        | None \<Rightarrow> if addr \<noteq> '''' then addr else ''unknown''))"

subsection \<open>The sliding window\<close>

record slidingWindowLimiter =
  lw_window :: int
  lw_apiRequests :: "string \<Rightarrow> int list"
  lw_authRequests :: "string \<Rightarrow> int list"
  lw_apiLimit :: nat
  lw_authLimit :: nat

definition minute :: int where
  "minute = 60 * second"

definition newSlidingWindowLimiter :: slidingWindowLimiter where
  "newSlidingWindowLimiter = \<lparr>lw_window = minute, lw_apiRequests = (\<lambda>_. []), lw_authRequests = (\<lambda>_. []),
     lw_apiLimit = 60, lw_authLimit = 5\<rparr>"

definition isAPIRequest :: "string \<Rightarrow> bool" where
  "isAPIRequest path \<longleftrightarrow> HasPrefix path ''/api/''"

definition isAuthRequest :: "string \<Rightarrow> bool" where
  "isAuthRequest path \<longleftrightarrow> path = ''/api/auth/setup'' \<or> path = ''/api/auth/unlock''"

definition pruneTimestamps :: "int list \<Rightarrow> int \<Rightarrow> int \<Rightarrow> int list" where
  "pruneTimestamps ts now window = filter (\<lambda>t. now - window < t) ts"

definition checkBucketLocked ::
  "int \<Rightarrow> (string \<Rightarrow> int list) \<Rightarrow> string \<Rightarrow> int \<Rightarrow> nat \<Rightarrow> int option \<times> (string \<Rightarrow> int list)" where
  "checkBucketLocked window bucket key now limit =
     (let ts = pruneTimestamps (bucket key) now window;
          refused = (if length ts < limit then None
            else Some (max 0 (window - (now - (case ts of [] \<Rightarrow> 0 | oldest # _ \<Rightarrow> oldest)))))
      in (refused, bucket(key := ts)))"

definition recordLocked :: "(string \<Rightarrow> int list) \<Rightarrow> string \<Rightarrow> int \<Rightarrow> string \<Rightarrow> int list" where
  "recordLocked bucket key now = bucket(key := bucket key @ [now])"

text \<open>The limiter's decision: \<open>None\<close> lets the request through, \<open>Some\<close> is the time to retry after.\<close>

definition limit_request :: "slidingWindowLimiter \<Rightarrow> string \<Rightarrow> string \<Rightarrow> int \<Rightarrow> int option \<times> slidingWindowLimiter" where
  "limit_request l path ip now =
     (if \<not> isAPIRequest path then (None, l)
      else if isAuthRequest path then
        (case checkBucketLocked (lw_window l) (lw_authRequests l) ip now (lw_authLimit l) of
           (Some retry, auth) \<Rightarrow> (Some retry, l\<lparr>lw_authRequests := auth\<rparr>)
         | (None, auth) \<Rightarrow>
             (case checkBucketLocked (lw_window l) (lw_apiRequests l) ip now (lw_apiLimit l) of
                (Some retry, api) \<Rightarrow> (Some retry, l\<lparr>lw_authRequests := auth, lw_apiRequests := api\<rparr>)
              | (None, api) \<Rightarrow> (None, l\<lparr>lw_authRequests := recordLocked auth ip now,
                                    lw_apiRequests := recordLocked api ip now\<rparr>)))
      else (case checkBucketLocked (lw_window l) (lw_apiRequests l) ip now (lw_apiLimit l) of
          (Some retry, api) \<Rightarrow> (Some retry, l\<lparr>lw_apiRequests := api\<rparr>)
        | (None, api) \<Rightarrow> (None, l\<lparr>lw_apiRequests := recordLocked api ip now\<rparr>)))"

text \<open>The value of the \<open>Retry-After\<close> header.\<close>

definition retry_seconds :: "int \<Rightarrow> int" where
  "retry_seconds retryAfter = max 1 ((retryAfter + second - 1) div second)"

subsection \<open>The fixed window\<close>

record visitorInfo =
  vi_count :: nat
  vi_windowStart :: int
  vi_blockedUntil :: int

record RateLimiter =
  rl_visitors :: "string \<rightharpoonup> visitorInfo"
  rl_maxRequests :: nat
  rl_window :: int

definition NewRateLimiter :: "nat \<Rightarrow> int \<Rightarrow> RateLimiter" where
  "NewRateLimiter maxRequests window = \<lparr>rl_visitors = Map.empty, rl_maxRequests = maxRequests, rl_window = window\<rparr>"

text \<open>The zero \<open>time.Time\<close> of \<open>blockedUntil\<close> is before every time the clock shows: it is a parameter below every \<open>now\<close>.\<close>

definition zero_time :: int where
  "zero_time = - (62135596800 * second)"

definition visit :: "nat \<Rightarrow> int \<Rightarrow> visitorInfo option \<Rightarrow> int \<Rightarrow> bool \<times> visitorInfo" where
  "visit maxRequests window v now =
     (let v0 = (case v of Some v \<Rightarrow> v
                | None \<Rightarrow> \<lparr>vi_count = 0, vi_windowStart = now, vi_blockedUntil = zero_time\<rparr>) in
      if now < vi_blockedUntil v0 then (False, v0)
      else (let v1 = (if window < now - vi_windowStart v0 then v0\<lparr>vi_count := 0, vi_windowStart := now\<rparr> else v0);
                v2 = v1\<lparr>vi_count := vi_count v1 + 1\<rparr>
            in if maxRequests < vi_count v2 then (False, v2\<lparr>vi_blockedUntil := now + window\<rparr>) else (True, v2)))"

definition Allow :: "RateLimiter \<Rightarrow> string \<Rightarrow> int \<Rightarrow> bool \<times> RateLimiter" where
  "Allow rl ip now =
     (let (ok, v) = visit (rl_maxRequests rl) (rl_window rl) (rl_visitors rl ip) now
      in (ok, rl\<lparr>rl_visitors := (rl_visitors rl)(ip \<mapsto> v)\<rparr>))"

definition expired_visitor :: "int \<Rightarrow> int \<Rightarrow> visitorInfo \<Rightarrow> bool" where
  "expired_visitor window now v \<longleftrightarrow> window < now - vi_windowStart v \<and> vi_blockedUntil v < now"

definition Cleanup_visitors :: "RateLimiter \<Rightarrow> int \<Rightarrow> RateLimiter" where
  "Cleanup_visitors rl now = rl\<lparr>rl_visitors := (\<lambda>ip. case rl_visitors rl ip of
       None \<Rightarrow> None
     | Some v \<Rightarrow> if expired_visitor (rl_window rl) now v then None else Some v)\<rparr>"

end
