(* ===== verification/Gate.thy ===== *)
theory Gate
  imports Auth RateLimits
begin

section \<open>The way of a request (\<open>mod/middleware/security.go\<close>, \<open>shared/csrf.go\<close>, \<open>mod/auth\<close>, \<open>cmd/server/main.go\<close>)\<close>

text \<open>
  A handler takes the request, the headers set so far and the state, and gives the reply and the state. The
  handlers of the rest of the application are one handler \<open>routes\<close>, which the multiplexer calls for every path
  that is not one of the module. What \<open>encoding/json\<close> reads as the password of a body and what \<open>net.ParseIP\<close> and
  \<open>url.Parse\<close> make of a text are parameters. The body is the bytes or the error of reading it.
\<close>

record http_request =
  rq_Method :: string
  rq_Path :: string
  rq_header :: "string \<Rightarrow> string"
  rq_query_token :: string
  rq_RemoteAddr :: string
  rq_Host :: string
  rq_TLS :: bool
  rq_body :: "string res"

type_synonym headers = "string \<rightharpoonup> string"

record reply =
  rs_status :: nat
  rs_headers :: headers
  rs_body :: "(string \<times> string) list"

record gate =
  gt_limiter :: slidingWindowLimiter
  gt_signin :: RateLimiter
  gt_manager :: session_manager
  gt_service :: Service
  gt_world :: auth_world

record gate_env =
  ge_auth :: auth_env
  ge_password :: "string \<Rightarrow> string option"
  ge_parseIP :: "string \<Rightarrow> string option"
  ge_urlHost :: "string \<Rightarrow> string option"
  ge_scriptHashes :: "string list"

type_synonym handler = "http_request \<Rightarrow> headers \<Rightarrow> gate \<Rightarrow> reply \<times> gate"
type_synonym middleware = "handler \<Rightarrow> handler"

subsection \<open>Replies\<close>

definition WriteJSON :: "headers \<Rightarrow> nat \<Rightarrow> (string \<times> string) list \<Rightarrow> reply" where
  "WriteJSON h status body =
     \<lparr>rs_status = status, rs_headers = h(''Content-Type'' \<mapsto> ''application/json''), rs_body = body\<rparr>"

definition WriteError :: "headers \<Rightarrow> nat \<Rightarrow> string \<Rightarrow> string \<Rightarrow> reply" where
  "WriteError h status message code = WriteJSON h status [(''error'', message), (''code'', code)]"

text \<open>The message of \<open>WriteErrorSafe\<close>: that of the internal error for the client's own errors.\<close>

definition safe_message :: "nat \<Rightarrow> string \<Rightarrow> goerr option \<Rightarrow> string" where
  "safe_message status safe internal =
     (let m = (case internal of None \<Rightarrow> safe
         | Some err \<Rightarrow> if 400 \<le> status \<and> status < 500 then err_text err else safe)
      in if m = '''' then ''internal error'' else m)"

definition WriteErrorSafe :: "headers \<Rightarrow> nat \<Rightarrow> string \<Rightarrow> string \<Rightarrow> goerr option \<Rightarrow> reply" where
  "WriteErrorSafe h status safe code internal = WriteError h status (safe_message status safe internal) code"

subsection \<open>The outer layers\<close>

definition Chain :: "handler \<Rightarrow> middleware option list \<Rightarrow> handler" where
  "Chain next ms = foldr (\<lambda>m n. case m of None \<Rightarrow> n | Some f \<Rightarrow> f n) ms next"

definition sq :: "string \<Rightarrow> string" where
  "sq s = CHR 39 # s @ [CHR 39]"

definition content_policy :: "string list \<Rightarrow> string" where
  "content_policy hashes = ''default-src '' @ sq ''self'' @ ''; script-src '' @ sq ''self''
     @ (if hashes = [] then '''' else '' '' @ intersperse_concat '' '' hashes)
     @ ''; style-src '' @ sq ''self'' @ '' '' @ sq ''unsafe-inline'' @ ''; img-src '' @ sq ''self'' @ '' data:; connect-src ''
     @ sq ''self'' @ '' ws: wss:; font-src '' @ sq ''self'' @ ''; object-src '' @ sq ''none'' @ ''; base-uri '' @ sq ''self''"

definition SecurityHeaders :: "string list \<Rightarrow> middleware" where
  "SecurityHeaders hashes next rq h s =
     (let h1 = h(''X-Content-Type-Options'' \<mapsto> ''nosniff'', ''X-Frame-Options'' \<mapsto> ''DENY'',
            ''X-XSS-Protection'' \<mapsto> ''1; mode=block'', ''Referrer-Policy'' \<mapsto> ''strict-origin-when-cross-origin'',
            ''Content-Security-Policy'' \<mapsto> content_policy hashes);
          h2 = (if rq_TLS rq then h1(''Strict-Transport-Security'' \<mapsto> ''max-age=31536000; includeSubDomains'') else h1)
      in next rq h2 s)"

definition writeRateLimitResponse :: "headers \<Rightarrow> int \<Rightarrow> reply" where
  "writeRateLimitResponse h retryAfter =
     \<lparr>rs_status = 429, rs_headers = h(''Retry-After'' \<mapsto> string_of_int (retry_seconds retryAfter),
        ''Content-Type'' \<mapsto> ''application/json''),
      rs_body = [(''error'', ''too many requests''), (''code'', ''RATE_LIMITED'')]\<rparr>"

definition RateLimit :: middleware where
  "RateLimit next rq h s =
     (if \<not> isAPIRequest (rq_Path rq) then next rq h s
      else (let ip = clientIP (rq_header rq ''X-Forwarded-For'') (rq_header rq ''X-Real-IP'') (rq_RemoteAddr rq);
                now = w_now (gt_world s); w1 = tick (gt_world s)
            in case limit_request (gt_limiter s) (rq_Path rq) ip now of
                 (Some retryAfter, l) \<Rightarrow> (writeRateLimitResponse h retryAfter, s\<lparr>gt_limiter := l, gt_world := w1\<rparr>)
               | (None, l) \<Rightarrow> next rq h (s\<lparr>gt_limiter := l, gt_world := w1\<rparr>)))"

definition requestBodyLimit :: nat where
  "requestBodyLimit = 1000000"

definition RequestSizeLimit :: middleware where
  "RequestSizeLimit next rq h s =
     (if \<not> isAPIRequest (rq_Path rq) then next rq h s
      else if HasPrefix (rq_header rq ''Content-Type'') ''multipart/form-data'' then next rq h s
      else (case rq_body rq of
          Inl _ \<Rightarrow> (\<lparr>rs_status = 500, rs_headers = h, rs_body = []\<rparr>, s)
        | Inr body \<Rightarrow>
            if requestBodyLimit < length body then
              (\<lparr>rs_status = 413, rs_headers = h(''Content-Type'' \<mapsto> ''application/json''),
                rs_body = [(''error'', ''request body too large''), (''code'', ''REQUEST_TOO_LARGE'')]\<rparr>, s)
            else next rq h s))"

subsection \<open>Cross-origin requests\<close>

definition state_changing :: "string \<Rightarrow> bool" where
  "state_changing m \<longleftrightarrow> m = ''POST'' \<or> m = ''PUT'' \<or> m = ''DELETE'' \<or> m = ''PATCH''"

definition CSRFMiddleware :: middleware where
  "CSRFMiddleware next rq h s =
     (let ct = rq_header rq ''Content-Type'' in
      if state_changing (rq_Method rq) \<and> ct \<noteq> '''' \<and> \<not> HasPrefix ct ''application/json''
         \<and> \<not> HasPrefix ct ''multipart/form-data'' then
        (WriteError h 415 ''unsupported content-type'' ''INVALID_CONTENT_TYPE'', s)
      else next rq h s)"

definition CORSMiddleware :: middleware where
  "CORSMiddleware next rq h s =
     (let h1 = h(''X-Content-Type-Options'' \<mapsto> ''nosniff'', ''X-Frame-Options'' \<mapsto> ''DENY'',
            ''X-XSS-Protection'' \<mapsto> ''1; mode=block'', ''Referrer-Policy'' \<mapsto> ''strict-origin-when-cross-origin'')
      in if rq_Method rq = ''OPTIONS'' then
           (\<lparr>rs_status = 204, rs_headers = h1(''Access-Control-Allow-Origin'' \<mapsto> '''',
               ''Access-Control-Allow-Methods'' \<mapsto> ''GET, POST, PUT, DELETE, PATCH, OPTIONS'',
               ''Access-Control-Allow-Headers'' \<mapsto> ''Content-Type, Authorization'', ''Access-Control-Max-Age'' \<mapsto> ''3600''),
             rs_body = []\<rparr>, s)
         else next rq h1 s)"

definition hostname :: "string \<Rightarrow> string" where
  "hostname host = (if host = '''' then ''''
     else (case SplitHostPort host of Some (h, _) \<Rightarrow> ToLower h | None \<Rightarrow> ToLower host))"

definition CheckWebSocketOrigin :: "gate_env \<Rightarrow> http_request \<Rightarrow> bool" where
  "CheckWebSocketOrigin env rq =
     (let origin = rq_header rq ''Origin''; fwd = rq_header rq ''X-Forwarded-Host'' in
      if origin = '''' then True
      else (case ge_urlHost env origin of
          None \<Rightarrow> False
        | Some u \<Rightarrow>
            (let originHost = hostname u in
             if originHost = '''' then False
             else if originHost = hostname (rq_Host rq) then True
             else fwd \<noteq> '''' \<and> list_ex (\<lambda>h. originHost = hostname (TrimSpace h)) (split_at CHR '','' fwd))))"

subsection \<open>The session token of a request (\<open>mod/auth/middleware.go\<close>)\<close>

definition authExemptPaths :: "string list" where
  "authExemptPaths = [''/api/auth/setup'', ''/api/auth/unlock'', ''/api/auth/status'', ''/api/health'']"

definition websocketSubprotocols :: "http_request \<Rightarrow> string list" where
  "websocketSubprotocols rq =
     (let header = rq_header rq ''Sec-WebSocket-Protocol'' in
      if header = '''' then [] else filter (\<lambda>p. p \<noteq> '''') (map TrimSpace (split_at CHR '','' header)))"

definition is_auth_protocol :: "string \<Rightarrow> bool" where
  "is_auth_protocol p \<longleftrightarrow> HasPrefix p ''meshium-auth.''"

definition WebSocketSubprotocolToken :: "http_request \<Rightarrow> string" where
  "WebSocketSubprotocolToken rq = (case find is_auth_protocol (websocketSubprotocols rq) of None \<Rightarrow> '''' | Some p \<Rightarrow> p)"

definition extractToken :: "http_request \<Rightarrow> string" where
  "extractToken rq =
     (let auth = rq_header rq ''Authorization'' in
      if auth \<noteq> '''' then (if HasPrefix auth ''Bearer '' then TrimPrefix auth ''Bearer '' else auth)
      else (case find (\<lambda>p. is_auth_protocol p \<and> TrimPrefix p ''meshium-auth.'' \<noteq> '''') (websocketSubprotocols rq) of
          Some p \<Rightarrow> TrimPrefix p ''meshium-auth.''
        | None \<Rightarrow> rq_query_token rq))"

definition is_protected :: "string \<Rightarrow> bool" where
  "is_protected path \<longleftrightarrow> \<not> List.member authExemptPaths path \<and> (HasPrefix path ''/api/'' \<or> HasPrefix path ''/ws/'')"

definition RequireAuth :: middleware where
  "RequireAuth next rq h s =
     (if \<not> is_protected (rq_Path rq) then next rq h s
      else (case IsSetup (gt_world s) of
          (Inl _, w1) \<Rightarrow> (WriteError h 500 ''internal error'' ''INTERNAL'', s\<lparr>gt_world := w1\<rparr>)
        | (Inr False, w1) \<Rightarrow> (WriteError h 403 ''app not set up'' ''NOT_SETUP'', s\<lparr>gt_world := w1\<rparr>)
        | (Inr True, w1) \<Rightarrow>
            if IsLocked (gt_service s) then (WriteError h 403 ''app is locked'' ''LOCKED'', s\<lparr>gt_world := w1\<rparr>)
            else if \<not> ValidateSessionToken (gt_service s) (extractToken rq) then
              (WriteError h 401 ''invalid session token'' ''UNAUTHORIZED'', s\<lparr>gt_world := w1\<rparr>)
            else next rq h (s\<lparr>gt_world := w1\<rparr>)))"

subsection \<open>The handlers of the module (\<open>mod/auth/handler.go\<close>)\<close>

definition NewHandler :: "session_manager \<Rightarrow> Service \<Rightarrow> auth_world \<Rightarrow> gate" where
  "NewHandler m s w = \<lparr>gt_limiter = newSlidingWindowLimiter, gt_signin = NewRateLimiter 5 minute, gt_manager = m,
     gt_service = s, gt_world = w\<rparr>"

definition method_not_allowed :: "headers \<Rightarrow> reply" where
  "method_not_allowed h = WriteError h 405 ''method not allowed'' ''METHOD_NOT_ALLOWED''"

text \<open>The limiter of the sign-in endpoints reads the clock.\<close>

definition sign_in_allowed :: "gate_env \<Rightarrow> http_request \<Rightarrow> gate \<Rightarrow> bool \<times> gate" where
  "sign_in_allowed env rq s =
     (let (ok, rl) = Allow (gt_signin s) (ExtractIP (ge_parseIP env) (rq_header rq ''X-Forwarded-For'') (rq_RemoteAddr rq))
                (w_now (gt_world s))
      in (ok, s\<lparr>gt_signin := rl, gt_world := tick (gt_world s)\<rparr>))"

text \<open>The body behind the limit of a megabyte, decoded.\<close>

definition MaxRequestBodySize :: nat where
  "MaxRequestBodySize = 2 ^ 20"

definition body_password :: "gate_env \<Rightarrow> http_request \<Rightarrow> string option" where
  "body_password env rq = (case rq_body rq of Inl _ \<Rightarrow> None | Inr b \<Rightarrow> ge_password env (take MaxRequestBodySize b))"

definition session_reply :: "headers \<Rightarrow> string \<Rightarrow> reply" where
  "session_reply h token = WriteJSON h 200
     ((''status'', ''ok'') # (if token = '''' then [] else [(''sessionToken'', token)]))"

definition handleSetup :: "gate_env \<Rightarrow> handler" where
  "handleSetup env rq h s =
     (if rq_Method rq \<noteq> ''POST'' then (method_not_allowed h, s)
      else (case sign_in_allowed env rq s of
          (False, s1) \<Rightarrow> (WriteError h 429 (''too many attempts '' @ em_dash @ '' try again later'') ''RATE_LIMITED'', s1)
        | (True, s1) \<Rightarrow>
            (case IsSetup (gt_world s1) of
               (Inl _, w1) \<Rightarrow> (WriteError h 500 ''internal error'' ''INTERNAL'', s1\<lparr>gt_world := w1\<rparr>)
             | (Inr True, w1) \<Rightarrow>
                 (WriteError h 400 ''master password already set'' ''ALREADY_SETUP'', s1\<lparr>gt_world := w1\<rparr>)
             | (Inr False, w1) \<Rightarrow>
                 (case body_password env rq of
                    None \<Rightarrow> (WriteError h 400 ''invalid request body'' ''VALIDATION_ERROR'', s1\<lparr>gt_world := w1\<rparr>)
                  | Some password \<Rightarrow>
                      if length password < 8 then
                        (WriteError h 400 ''password must be at least 8 characters'' ''VALIDATION_ERROR'', s1\<lparr>gt_world := w1\<rparr>)
                      else if 1024 < length password then
                        (WriteError h 400 ''password is too long'' ''VALIDATION_ERROR'', s1\<lparr>gt_world := w1\<rparr>)
                      else (case Setup (ge_auth env) password (gt_service s1) w1 of
                          (Some _, sv, w2) \<Rightarrow>
                            (WriteError h 500 ''setup failed'' ''INTERNAL'', s1\<lparr>gt_service := sv, gt_world := w2\<rparr>)
                        | (None, sv, w2) \<Rightarrow>
                            (let token = GetSessionToken sv in
                             (session_reply h token,
                              s1\<lparr>gt_service := sv, gt_world := w2, gt_manager := sm_Set (gt_manager s1) token\<rparr>)))))))"

definition handleUnlock :: "gate_env \<Rightarrow> handler" where
  "handleUnlock env rq h s =
     (if rq_Method rq \<noteq> ''POST'' then (method_not_allowed h, s)
      else (case sign_in_allowed env rq s of
          (False, s1) \<Rightarrow> (WriteError h 429 (''too many attempts '' @ em_dash @ '' try again later'') ''RATE_LIMITED'', s1)
        | (True, s1) \<Rightarrow>
            (case body_password env rq of
               None \<Rightarrow> (WriteError h 400 ''invalid request body'' ''VALIDATION_ERROR'', s1)
             | Some password \<Rightarrow>
                 if 1024 < length password then
                   (WriteError h 400 ''password is too long'' ''VALIDATION_ERROR'', s1)
                 else (case Unlock (ge_auth env) password (gt_service s1) (gt_world s1) of
                     (Inl _, sv, w1) \<Rightarrow>
                       (WriteError h 401 ''invalid password'' ''AUTH_FAILED'', s1\<lparr>gt_service := sv, gt_world := w1\<rparr>)
                   | (Inr token, sv, w1) \<Rightarrow>
                       (session_reply h token,
                        s1\<lparr>gt_service := sv, gt_world := w1, gt_manager := sm_Set (gt_manager s1) token\<rparr>)))))"

definition handleLock :: handler where
  "handleLock rq h s =
     (if rq_Method rq \<noteq> ''POST'' then (method_not_allowed h, s)
      else (let (sv, w1) = Lock (gt_service s) (gt_world s) in
        (WriteJSON h 200 [(''status'', ''ok'')],
         s\<lparr>gt_service := sv, gt_world := w1, gt_manager := sm_Clear (gt_manager s)\<rparr>)))"

definition json_bool :: "bool \<Rightarrow> string" where
  "json_bool b = (if b then ''true'' else ''false'')"

definition handleStatus :: handler where
  "handleStatus rq h s =
     (if rq_Method rq \<noteq> ''GET'' then (method_not_allowed h, s)
      else (case IsSetup (gt_world s) of
          (Inl _, w1) \<Rightarrow> (WriteError h 500 ''internal error'' ''INTERNAL'', s\<lparr>gt_world := w1\<rparr>)
        | (Inr setup, w1) \<Rightarrow>
            (let locked = IsLocked (gt_service s);
                 shown = (if \<not> locked \<and> \<not> ValidateSessionToken (gt_service s) (extractToken rq) then True else locked)
             in (WriteJSON h 200 [(''setup'', json_bool setup), (''locked'', json_bool shown)], s\<lparr>gt_world := w1\<rparr>))))"

definition handleSSHKeyPublic :: handler where
  "handleSSHKeyPublic rq h s =
     (if rq_Method rq \<noteq> ''GET'' then (method_not_allowed h, s)
      else (case GetSSHPublicKey (gt_world s) of
          (Inl _, w1) \<Rightarrow> (WriteError h 500 ''internal error'' ''INTERNAL'', s\<lparr>gt_world := w1\<rparr>)
        | (Inr key, w1) \<Rightarrow> (WriteJSON h 200 [(''publicKey'', key)], s\<lparr>gt_world := w1\<rparr>)))"

definition handleSSHKeyRegenerate :: "gate_env \<Rightarrow> handler" where
  "handleSSHKeyRegenerate env rq h s =
     (if rq_Method rq \<noteq> ''POST'' then (method_not_allowed h, s)
      else (case RegenerateSSHKey (ge_auth env) (gt_service s) (gt_world s) of
          (Inl _, w1) \<Rightarrow> (WriteError h 500 ''failed to regenerate key'' ''INTERNAL'', s\<lparr>gt_world := w1\<rparr>)
        | (Inr key, w1) \<Rightarrow> (WriteJSON h 200 [(''publicKey'', key)], s\<lparr>gt_world := w1\<rparr>)))"

subsection \<open>The server\<close>

definition mux :: "gate_env \<Rightarrow> handler \<Rightarrow> handler" where
  "mux env routes rq =
     (let p = rq_Path rq in
      if p = ''/api/health'' then (\<lambda>h s. (WriteJSON h 200 [(''status'', ''ok'')], s))
      else if p = ''/api/auth/setup'' then handleSetup env rq
      else if p = ''/api/auth/unlock'' then handleUnlock env rq
      else if p = ''/api/auth/lock'' then handleLock rq
      else if p = ''/api/auth/status'' then handleStatus rq
      else if p = ''/api/ssh-key/public'' then handleSSHKeyPublic rq
      else if p = ''/api/ssh-key/regenerate'' then handleSSHKeyRegenerate env rq
      else routes rq)"

definition protectedMux :: "gate_env \<Rightarrow> handler \<Rightarrow> handler" where
  "protectedMux env routes =
     Chain (CORSMiddleware (CSRFMiddleware (RequireAuth (mux env routes))))
       [Some (SecurityHeaders (ge_scriptHashes env)), Some RateLimit, Some RequestSizeLimit]"

definition serve :: "gate_env \<Rightarrow> handler \<Rightarrow> http_request \<Rightarrow> gate \<Rightarrow> reply \<times> gate" where
  "serve env routes rq s = protectedMux env routes rq Map.empty s"

text \<open>\<open>main\<close>: the gate at the start of the process over what the disk holds.\<close>

definition start_gate :: "gate_env \<Rightarrow> auth_world \<Rightarrow> gate" where
  "start_gate env w =
     (let (sv, w1) = Restore (ge_auth env) (SetPersistence NewService) w in NewHandler None sv w1)"

end
