(* ===== verification/AuthProofs.thy ===== *)
theory AuthProofs
  imports Auth
begin

section \<open>What locking and unlocking guarantee\<close>

text \<open>
  The shape of the service's state, kept by every operation and by a restart; setting up, locking and unlocking
  again recovers the key under which the private key of the application was encrypted; an unlock survives a
  restart, and a lock does when the file of the key could be removed.
\<close>

subsection \<open>The shape of the state\<close>

text \<open>Locked: no key and no token. Unlocked: a key of 32 bytes.\<close>

definition service_wf :: "Service \<Rightarrow> bool" where
  "service_wf s \<longleftrightarrow> (if sv_locked s then sv_aesKey s = None \<and> sv_sessionToken s = ''''
     else (\<exists>k. sv_aesKey s = Some k \<and> length k = 32))"

lemma service_wf_new [simp]: "service_wf NewService" "service_wf (SetPersistence NewService)"
  by (simp_all add: service_wf_def NewService_def SetPersistence_def)

lemma open_session_wf:
  "length key = 32 \<Longrightarrow> open_session env key s w = (s1, w1) \<Longrightarrow> service_wf s1 \<and> sv_persistent s1 = sv_persistent s"
  by (auto simp: open_session_def service_wf_def Let_def split: prod.splits)

lemma derived_session_wf:
  "crypto_ok c \<Longrightarrow> open_session env (DeriveKey c password salt) s w = (s1, w1)
     \<Longrightarrow> service_wf s1 \<and> sv_persistent s1 = sv_persistent s"
  by (rule open_session_wf [OF DeriveKey_length])

lemma Setup_wf:
  assumes "crypto_ok (ae_crypto env)" and "service_wf s" and "Setup env password s w = (r, s1, w1)"
  shows "service_wf s1 \<and> sv_persistent s1 = sv_persistent s"
  using assms
  by (auto simp: Setup_def Let_def split: prod.splits sum.splits bool.splits dest!: derived_session_wf [OF assms(1)])

lemma Unlock_wf:
  assumes "crypto_ok (ae_crypto env)" and "service_wf s" and "Unlock env password s w = (r, s1, w1)"
  shows "service_wf s1 \<and> sv_persistent s1 = sv_persistent s"
  using assms
  by (auto simp: Unlock_def Let_def split: prod.splits sum.splits if_splits option.splits
      dest!: derived_session_wf [OF assms(1)])

lemma Lock_wf: "Lock s w = (s1, w1) \<Longrightarrow> service_wf s1 \<and> sv_locked s1 \<and> sv_persistent s1 = sv_persistent s"
  by (auto simp: Lock_def service_wf_def)

lemma Restore_wf:
  "service_wf s \<Longrightarrow> Restore env s w = (s1, w1) \<Longrightarrow> service_wf s1 \<and> sv_persistent s1 = sv_persistent s"
  by (auto simp: Restore_def service_wf_def Let_def split: if_splits prod.splits sum.splits)

text \<open>Everything that happens to the application: the requests, a restart, a write of another module to the table, the
  passing of time. The flag tells the successful sign-ins from the rest.\<close>

inductive auth_step :: "auth_env \<Rightarrow> bool \<Rightarrow> Service \<times> auth_world \<Rightarrow> Service \<times> auth_world \<Rightarrow> bool" for env where
  as_setup: "Setup env password s w = (r, s', w') \<Longrightarrow> auth_step env (r = None) (s, w) (s', w')"
| as_unlock: "Unlock env password s w = (r, s', w') \<Longrightarrow> auth_step env (is_ok r) (s, w) (s', w')"
| as_lock: "Lock s w = (s', w') \<Longrightarrow> auth_step env False (s, w) (s', w')"
| as_regenerate: "RegenerateSSHKey env s w = (r, w') \<Longrightarrow> auth_step env False (s, w) (s, w')"
| as_ensure: "EnsureSSHKey env s w = (r, w') \<Longrightarrow> auth_step env False (s, w) (s, w')"
| as_restart: "Restore env (SetPersistence NewService) w = (s', w') \<Longrightarrow> auth_step env False (s, w) (s', w')"
| as_config: "SetConfigValue k v w = (r, w') \<Longrightarrow> auth_step env False (s, w) (s, w')"
| as_idle: "auth_step env False (s, w) (s, tick w)"

definition auth_moves :: "auth_env \<Rightarrow> Service \<times> auth_world \<Rightarrow> Service \<times> auth_world \<Rightarrow> bool" where
  "auth_moves env = (\<lambda>x y. \<exists>b. auth_step env b x y)\<^sup>*\<^sup>*"

definition quiet_moves :: "auth_env \<Rightarrow> Service \<times> auth_world \<Rightarrow> Service \<times> auth_world \<Rightarrow> bool" where
  "quiet_moves env = (auth_step env False)\<^sup>*\<^sup>*"

lemma step_wf:
  assumes "auth_step env b x y" and "crypto_ok (ae_crypto env)" and "service_wf (fst x)"
  shows "service_wf (fst y)"
  using assms by cases (auto dest: Setup_wf Unlock_wf Lock_wf Restore_wf [OF service_wf_new(2)])

text \<open>\<open>C35\<close>: in every state the application reaches, a locked service holds neither a key nor a session token, and an
  unlocked one holds a key of 32 bytes; so a request that presents a token is accepted only while the key is
  there.\<close>

theorem reachable_service_wf:
  assumes "crypto_ok (ae_crypto env)" and "auth_moves env (SetPersistence NewService, w0) (s, w)"
  shows "service_wf s \<and> (ValidateSessionToken s token \<longrightarrow>
    token \<noteq> '''' \<and> token = GetSessionToken s \<and> (\<exists>k. GetAESKey s = Some k \<and> length k = 32))"
proof -
  have "service_wf (fst y)" if "auth_moves env (SetPersistence NewService, w0) y" for y
    using that unfolding auth_moves_def
    by (induction rule: rtranclp_induct) (use assms(1) in \<open>auto intro: step_wf\<close>)
  then have wf: "service_wf s" using assms(2) by fastforce
  then show ?thesis
    by (auto simp: ValidateSessionToken_def service_wf_def GetSessionToken_def GetAESKey_def split: if_splits)
qed

subsection \<open>A lock holds\<close>

lemma fault_free_db_read: "w_env (snd (db_read f w)) = w_env w \<and> w_db (snd (db_read f w)) = w_db w"
  by (simp add: db_read_def split: fault.splits)

definition key_gone :: "Service \<times> auth_world \<Rightarrow> bool" where
  "key_gone x \<longleftrightarrow> sv_locked (fst x) \<and> ad_keyFile (w_db (snd x)) = None"

lemma config_write_keeps_key:
  "db_write (\<lambda>now d. (Inr (), f d)) w = (r, w') \<Longrightarrow> (\<And>d. ad_keyFile (f d) = ad_keyFile d) \<Longrightarrow>
     ad_keyFile (w_db w') = ad_keyFile (w_db w)"
  by (auto simp: db_write_def split: fault.splits)

lemma setConfig_keyFile [simp]: "ad_keyFile (setConfigValueTx k v d) = ad_keyFile d"
  by (simp add: setConfigValueTx_def)

lemma config_ops_keep_key:
  "SetConfigValue k v w = (r, w') \<Longrightarrow> ad_keyFile (w_db w') = ad_keyFile (w_db w)"
  "SetSSHKeyPair p q w = (r, w') \<Longrightarrow> ad_keyFile (w_db w') = ad_keyFile (w_db w)"
  "SetupAll a b c d w = (r, w') \<Longrightarrow> ad_keyFile (w_db w') = ad_keyFile (w_db w)"
  unfolding SetConfigValue_def SetSSHKeyPair_def SetupAll_def by (auto dest: config_write_keeps_key)

lemma GetConfigValue_frame: "GetConfigValue k w = (r, w') \<Longrightarrow> w_db w' = w_db w"
  unfolding GetConfigValue_def by (drule db_read_frames) simp

lemma draw_frame: "draw f w = (x, w') \<Longrightarrow> w_db w' = w_db w \<and> x = f (w_tick w)"
  by (auto simp: draw_def)

lemma generate_keeps_key:
  "generateAndStoreSSHKeyPair env s w = (r, w') \<Longrightarrow> ad_keyFile (w_db w') = ad_keyFile (w_db w)"
  by (auto simp: generateAndStoreSSHKeyPair_def split: prod.splits sum.splits dest!: draw_frame config_ops_keep_key)

lemma quiet_key_gone:
  assumes "auth_step env False x y" and "key_gone x"
  shows "key_gone y"
  using assms
proof cases
  case (as_setup password s w r s' w')
  then show ?thesis using assms(2)
    by (auto simp: key_gone_def Setup_def HasMasterPassword_def Let_def split: prod.splits sum.splits bool.splits
        dest!: draw_frame config_ops_keep_key GetConfigValue_frame)
next
  case (as_unlock password s w r s' w')
  then show ?thesis using assms(2)
    by (auto simp: key_gone_def Unlock_def Let_def split: prod.splits sum.splits option.splits if_splits dest!: GetConfigValue_frame)
next
  case (as_lock s w s' w')
  then show ?thesis using assms(2)
    by (auto simp: key_gone_def Lock_def remove_key_def remove_token_def db_write_def split: fault.splits)
next
  case (as_restart w s' w' s)
  then show ?thesis using assms(2)
    by (auto simp: key_gone_def Restore_def read_file_def SetPersistence_def NewService_def split: prod.splits sum.splits
        if_splits dest!: db_read_frames db_read_ok)
qed (auto simp: key_gone_def RegenerateSSHKey_def EnsureSSHKey_def GetSSHPublicKey_def generate_keeps_key
    split: if_splits prod.splits sum.splits dest!: config_ops_keep_key GetConfigValue_frame generate_keeps_key)

text \<open>\<open>C18\<close>: after a lock that removed the file of the key no token is accepted and no key is in memory, whatever happens
  except a successful setup or unlock: failing requests, restarts, other writes, failures of the environment.\<close>

theorem lock_holds:
  assumes "crypto_ok (ae_crypto env)" and "Lock s w = (s1, w1)" and "ad_keyFile (w_db w1) = None"
    and "quiet_moves env (s1, w1) (s2, w2)"
  shows "\<not> ValidateSessionToken s2 token \<and> IsLocked s2 \<and> GetAESKey s2 = None"
proof -
  have "key_gone y \<and> service_wf (fst y)" if "quiet_moves env (s1, w1) y" for y
    using that unfolding quiet_moves_def
  proof (induction rule: rtranclp_induct)
    case base
    then show ?case using assms(2,3) Lock_wf [OF assms(2)] by (simp add: key_gone_def)
  next
    case (step y z)
    then show ?case using quiet_key_gone step_wf assms(1) by blast
  qed
  from this [OF assms(4)] show ?thesis
    by (simp add: key_gone_def service_wf_def ValidateSessionToken_def IsLocked_def GetAESKey_def)
qed

subsection \<open>Setting up, locking, unlocking\<close>

lemma fault_free_get: "fault_free w \<Longrightarrow> GetConfigValue k w
    = (Inr (case ad_config (w_db w) k of None \<Rightarrow> '''' | Some v \<Rightarrow> v), tick w)"
  by (simp add: GetConfigValue_def fault_free_read)

lemma persist_keeps [simp]:
  "ad_config (w_db (persist env s w)) = ad_config (w_db w)" "w_env (persist env s w) = w_env w"
  "fault_free w \<Longrightarrow> fault_free (persist env s w)"
  by (simp_all add: persist_def write_key_def write_token_def fault_free_def)

lemma token_keeps:
  "generateSessionToken env w = (t, w') \<Longrightarrow> w_db w' = w_db w \<and> w_env w' = w_env w \<and> (fault_free w \<longrightarrow> fault_free w')"
  by (auto simp: generateSessionToken_def split: sum.splits)

lemma open_session_keeps:
  assumes "open_session env key s w = (s1, w1)"
  shows "sv_aesKey s1 = Some key \<and> \<not> sv_locked s1 \<and> ad_config (w_db w1) = ad_config (w_db w) \<and> (fault_free w \<longrightarrow> fault_free w1)"
  using assms by (auto simp: open_session_def Let_def split: prod.splits dest!: token_keeps)

lemma Lock_keeps:
  "Lock s w = (s1, w1) \<Longrightarrow> ad_config (w_db w1) = ad_config (w_db w) \<and> (fault_free w \<longrightarrow> fault_free w1)"
  by (auto simp: Lock_def remove_key_def remove_token_def fault_free_write)
    (auto simp: db_write_def split: fault.splits)

lemma Setup_stores:
  assumes "fault_free w" and "Setup env password s w = (None, s1, w1)"
  obtains priv pub hash salt enc where "ae_GenerateKeyPair env (w_tick w + 1) = Inr (priv, pub)"
    "HashPassword (ae_crypto env) (ae_random env (w_tick w + 2)) password = Inr hash"
    "ae_random env (w_tick w + 3) 32 = Inr salt"
    "Encrypt (ae_crypto env) (ae_random env (w_tick w + 4)) (DeriveKey (ae_crypto env) password salt) priv = Inr enc"
    "sv_aesKey s1 = Some (DeriveKey (ae_crypto env) password salt)" "fault_free w1"
    "ad_config (w_db w1) ''master_password_hash'' = Some hash" "ad_config (w_db w1) ''ssh_key_private_encrypted'' = Some enc"
    "ad_config (w_db w1) ''pbkdf2_salt'' = Some (b64_encode StdEncoding salt)"
  using assms
  by (auto simp: Setup_def HasMasterPassword_def fault_free_get draw_def Let_def SetupAll_def fault_free_write setConfigValueTx_def
      eval_nat_numeral split: prod.splits sum.splits bool.splits if_splits dest!: open_session_keeps)

lemma Unlock_of:
  assumes "fault_free w" and "ad_config (w_db w) ''master_password_hash'' = Some hash" "hash \<noteq> ''''"
    and "ad_config (w_db w) ''pbkdf2_salt'' = Some (b64_encode StdEncoding salt)" "salt \<noteq> ''''"
    and "Unlock env password s w = (r, s1, w1)"
  shows "is_ok r = VerifyPassword (ae_crypto env) password hash
    \<and> (is_ok r \<longrightarrow> sv_aesKey s1 = Some (DeriveKey (ae_crypto env) password salt)
          \<and> ad_config (w_db w1) = ad_config (w_db w))"
  using assms
  by (auto simp: Unlock_def fault_free_get Let_def split: if_splits prod.splits dest!: open_session_keeps)

text \<open>\<open>C34\<close>: when nothing fails, after a setup and a lock exactly the passwords with the stored digest unlock, the password
  of the setup among them, and it brings back the key that decrypts the stored private key of the application.\<close>

theorem setup_lock_unlock:
  assumes "crypto_ok (ae_crypto env)" and "\<And>n. random_ok (ae_random env n)" and "fault_free w"
    and "Setup env password s w = (None, s1, w1)" and "Lock s1 w1 = (s2, w2)"
  shows "\<exists>priv pub salt enc key. ae_GenerateKeyPair env (w_tick w + 1) = Inr (priv, pub)
    \<and> ae_random env (w_tick w + 2) argon2SaltLength = Inr salt
    \<and> ad_config (w_db w2) ''ssh_key_private_encrypted'' = Some enc
    \<and> sv_aesKey s1 = Some key \<and> Decrypt (ae_crypto env) key enc = Inr priv
    \<and> is_ok (fst (Unlock env password s2 w2)) \<and> sv_aesKey (fst (snd (Unlock env password s2 w2))) = Some key
    \<and> (\<forall>other. is_ok (fst (Unlock env other s2 w2)) \<longleftrightarrow>
         argon2_IDKey (ae_crypto env) other salt 3 65536 2 32 = argon2_IDKey (ae_crypto env) password salt 3 65536 2 32)"
proof -
  from Setup_stores [OF assms(3,4)] obtain priv pub hash salt enc where
    kp: "ae_GenerateKeyPair env (w_tick w + 1) = Inr (priv, pub)"
    and hash: "HashPassword (ae_crypto env) (ae_random env (w_tick w + 2)) password = Inr hash"
    and salt: "ae_random env (w_tick w + 3) 32 = Inr salt"
    and enc: "Encrypt (ae_crypto env) (ae_random env (w_tick w + 4)) (DeriveKey (ae_crypto env) password salt) priv = Inr enc"
    and key: "sv_aesKey s1 = Some (DeriveKey (ae_crypto env) password salt)" and ff: "fault_free w1"
    and cfg: "ad_config (w_db w1) ''master_password_hash'' = Some hash" "ad_config (w_db w1) ''ssh_key_private_encrypted'' = Some enc"
      "ad_config (w_db w1) ''pbkdf2_salt'' = Some (b64_encode StdEncoding salt)" by blast
  have lock: "ad_config (w_db w2) = ad_config (w_db w1)" "fault_free w2" using Lock_keeps [OF assms(5)] ff by auto
  have ne: "hash \<noteq> ''''" "salt \<noteq> ''''"
    using hash salt assms(2) by (auto simp: HashPassword_def argon2_text_def random_ok_def split: sum.splits)
      (metis list.size(3) zero_neq_numeral)
  obtain asalt where asalt: "ae_random env (w_tick w + 2) argon2SaltLength = Inr asalt"
    using hash by (auto simp: HashPassword_def split: sum.splits)
  have un: "is_ok (fst (Unlock env other s2 w2)) = VerifyPassword (ae_crypto env) other hash
    \<and> (is_ok (fst (Unlock env other s2 w2)) \<longrightarrow> sv_aesKey (fst (snd (Unlock env other s2 w2)))
         = Some (DeriveKey (ae_crypto env) other salt))" for other
    using Unlock_of [OF lock(2) _ ne(1) _ ne(2), where password = other] cfg lock(1) by (metis prod.collapse)
  note ver = verify_of_hash [OF assms(1) hash asalt]
  have "Decrypt (ae_crypto env) (DeriveKey (ae_crypto env) password salt) enc = Inr priv"
    using decrypt_encrypt [OF assms(1) assms(2) enc] by simp
  then show ?thesis using kp asalt key un ver cfg lock(1) by auto
qed

subsection \<open>Restarts\<close>

lemma open_session_files:
  assumes "fault_free w" and "sv_persistent s" and "open_session env key s w = (s1, w1)"
  shows "ad_keyFile (w_db w1) = Some key \<and> ad_tokenFile (w_db w1) = Some (sv_sessionToken s1) \<and> fault_free w1
    \<and> s1 = \<lparr>sv_aesKey = Some key, sv_locked = False, sv_sessionToken = sv_sessionToken s1, sv_persistent = True\<rparr>"
proof -
  have "w_env w (w_tick w) = NoFault" "w_env w (Suc (w_tick w)) = NoFault" "w_env w (Suc (Suc (w_tick w))) = NoFault"
    using assms(1) by (simp_all add: fault_free_def)
  then show ?thesis using assms
    by (auto simp: open_session_def persist_def write_key_def write_token_def file_after_def Let_def generateSessionToken_def
        fault_free_def split: prod.splits sum.splits)
qed

lemma Restore_locked [simp]:
  "fault_free w \<Longrightarrow> ad_keyFile (w_db w) = None \<Longrightarrow> fst (Restore env (SetPersistence NewService) w) = SetPersistence NewService"
  by (simp add: Restore_def read_file_def fault_free_read)

text \<open>When nothing fails, a restart after an unlock brings back exactly the service that was unlocked, token and
  key, and a restart after a lock a locked one.\<close>

theorem unlock_survives_restart:
  assumes "crypto_ok (ae_crypto env)" and "fault_free w" and "sv_persistent s"
    and "Unlock env password s w = (Inr token, s1, w1)" and "token \<noteq> ''''"
  shows "fst (Restore env (SetPersistence NewService) w1) = s1 \<and> ValidateSessionToken s1 token
    \<and> (\<forall>s2 w2. Lock s1 w1 = (s2, w2) \<longrightarrow> fst (Restore env (SetPersistence NewService) w2) = SetPersistence NewService)"
proof -
  obtain salt w0 where op: "open_session env (DeriveKey (ae_crypto env) password salt) s w0 = (s1, w1)" "fault_free w0"
      "token = sv_sessionToken s1"
    using assms(2,4) by (auto simp: Unlock_def fault_free_get Let_def split: if_splits prod.splits option.splits)
  let ?k = "DeriveKey (ae_crypto env) password salt"
  from open_session_files [OF op(2) assms(3) op(1)]
  have f: "ad_keyFile (w_db w1) = Some ?k" "ad_tokenFile (w_db w1) = Some token" "fault_free w1"
    "s1 = \<lparr>sv_aesKey = Some ?k, sv_locked = False, sv_sessionToken = token, sv_persistent = True\<rparr>"
    using op(3) by simp_all
  have "fst (Restore env (SetPersistence NewService) w1) = s1"
    unfolding f(4) using f(1-3) assms(5) DeriveKey_length [OF assms(1)]
    by (simp add: Restore_def SetPersistence_def NewService_def read_file_def fault_free_read)
  moreover have "ad_keyFile (w_db w2) = None \<and> fault_free w2" if "Lock s1 w1 = (s2, w2)" for s2 w2
    using that f(3) by (auto simp: Lock_def f(4) remove_key_def remove_token_def fault_free_write)
  moreover have "ValidateSessionToken s1 token" using assms(5) by (simp add: ValidateSessionToken_def f(4))
  ultimately show ?thesis by simp
qed

text \<open>The errors of removing the files are dropped: if the file of the key could not be removed, the lock is
  undone by the next restart, with the old key and no password.\<close>

theorem lock_undone_by_restart:
  assumes "sv_persistent s" and "ad_keyFile (w_db w) = Some key" "length key = 32" and "w_env w (w_tick w) = FailBefore err"
    and "Lock s w = (s1, w1)" and "fault_free w1"
  shows "IsLocked s1 \<and> \<not> IsLocked (fst (Restore env (SetPersistence NewService) w1))
    \<and> GetAESKey (fst (Restore env (SetPersistence NewService) w1)) = Some key"
proof -
  have "ad_keyFile (w_db w1) = Some key" "sv_locked s1"
    using assms(1,2,4,5) by (auto simp: Lock_def remove_key_def remove_token_def db_write_def split: fault.splits)
  then show ?thesis using assms(3,6)
    by (cases "ad_tokenFile (w_db w1)")
      (auto simp: IsLocked_def GetAESKey_def Restore_def SetPersistence_def NewService_def read_file_def fault_free_read
        Let_def split: prod.splits)
qed


subsection \<open>Instances\<close>

definition demo_auth_env :: auth_env where
  "demo_auth_env = \<lparr>ae_crypto = demo_crypto, ae_random = (\<lambda>n. demo_random),
     ae_GenerateKeyPair = (\<lambda>n. Inr (''private'', ''public'')), ae_written = (\<lambda>n. 0)\<rparr>"

definition demo_auth_world :: "(string \<rightharpoonup> string) \<Rightarrow> string option \<Rightarrow> auth_world" where
  "demo_auth_world cfg key = calm_world \<lparr>ad_config = cfg, ad_keyFile = key, ad_tokenFile = None\<rparr>"

lemma demo_auth_facts [simp]:
  "crypto_ok (ae_crypto demo_auth_env)" "random_ok (ae_random demo_auth_env n)" "fault_free (demo_auth_world cfg key)"
  by (simp_all add: demo_auth_env_def demo_auth_world_def fault_free_def calm_world_def)

abbreviation demo_setup :: "goerr option \<times> Service \<times> auth_world" where
  "demo_setup \<equiv> Setup demo_auth_env ''pw'' (SetPersistence NewService) (demo_auth_world Map.empty None)"

lemma demo_draws [simp]:
  "ae_GenerateKeyPair demo_auth_env n = Inr (''private'', ''public'')" "ae_random demo_auth_env n m = Inr (replicate m CHR ''r'')"
  "ad_config (w_db (demo_auth_world cfg key)) = cfg" "ad_keyFile (w_db (demo_auth_world cfg key)) = key"
  "w_env (demo_auth_world cfg key) n = NoFault" "w_tick (demo_auth_world cfg key) = 0"
  by (simp_all add: demo_auth_env_def demo_random_def demo_auth_world_def calm_world_def)

lemma demo_setup_ok: "demo_setup = (None, fst (snd demo_setup), snd (snd demo_setup))"
proof -
  have "fst demo_setup = None"
    by (simp add: Setup_def HasMasterPassword_def fault_free_get draw_def Let_def SetupAll_def fault_free_write HashPassword_def
        Encrypt_def DeriveKey_length split: prod.split)
  then show ?thesis by (simp add: prod_eq_iff)
qed

abbreviation demo_unlock :: "string \<Rightarrow> string res \<times> Service \<times> auth_world" where
  "demo_unlock password \<equiv> (let (s2, w2) = Lock (fst (snd demo_setup)) (snd (snd demo_setup)) in Unlock demo_auth_env password s2 w2)"

theorem setup_lock_unlock_witness:
  "is_ok (fst (demo_unlock ''pw'')) \<and> \<not> is_ok (fst (demo_unlock ''guess''))"
proof -
  obtain s2 w2 where l: "Lock (fst (snd demo_setup)) (snd (snd demo_setup)) = (s2, w2)" by fastforce
  have ff: "fault_free (demo_auth_world Map.empty None)" by simp
  from setup_lock_unlock [OF demo_auth_facts(1,2) ff demo_setup_ok l] show ?thesis
    by (auto simp: l) (simp add: demo_auth_env_def demo_crypto_def)
qed

definition demo_auth_config :: "string \<rightharpoonup> string" where
  "demo_auth_config = [''master_password_hash'' \<mapsto> pbkdf2_text 1 ''s'' ''a'', ''pbkdf2_salt'' \<mapsto> b64_encode StdEncoding ''s'']"

theorem unlock_survives_restart_witness:
  "\<exists>token s1 w1. Unlock demo_auth_env ''pw'' (SetPersistence NewService) (demo_auth_world demo_auth_config None) = (Inr token, s1, w1)
    \<and> fst (Restore demo_auth_env (SetPersistence NewService) w1) = s1 \<and> ValidateSessionToken s1 token"
proof -
  obtain r s1 w1 where u: "Unlock demo_auth_env ''pw'' (SetPersistence NewService) (demo_auth_world demo_auth_config None) = (r, s1, w1)"
    by (metis prod_cases3)
  have "VerifyPassword (ae_crypto demo_auth_env) ''pw'' (pbkdf2_text 1 ''s'' ''a'')"
    using pbkdf2_accepts [of 1 demo_crypto "''pw''" "''s''" "''a''"] by (simp add: demo_auth_env_def) (simp add: demo_crypto_def)
  then obtain token where t: "r = Inr token" "token \<noteq> ''''"
    using u by (auto simp: Unlock_def fault_free_get demo_auth_config_def open_session_def generateSessionToken_def Let_def pbkdf2_text_def
        simp del: b64_encode.simps split: if_splits prod.splits)
  from u have "Unlock demo_auth_env ''pw'' (SetPersistence NewService) (demo_auth_world demo_auth_config None) = (Inr token, s1, w1)"
    using t(1) by simp
  from unlock_survives_restart [OF demo_auth_facts(1) _ _ this t(2)] this show ?thesis
    by (auto simp: SetPersistence_def)
qed

definition demo_open :: Service where
  "demo_open = \<lparr>sv_aesKey = Some (replicate 32 CHR ''k''), sv_locked = False, sv_sessionToken = ''t'', sv_persistent = True\<rparr>"

definition stuck_world :: auth_world where
  "stuck_world = (demo_auth_world Map.empty (Some (replicate 32 CHR ''k'')))\<lparr>w_env :=
     (\<lambda>n. if n = 0 then FailBefore (ErrF ''read-only file system'') else NoFault)\<rparr>"

theorem lock_undone_by_restart_witness:
  "IsLocked (fst (Lock demo_open stuck_world))
    \<and> \<not> IsLocked (fst (Restore demo_auth_env (SetPersistence NewService) (snd (Lock demo_open stuck_world))))"
  using lock_undone_by_restart [of demo_open stuck_world "replicate 32 CHR ''k''" "ErrF ''read-only file system''"
      "fst (Lock demo_open stuck_world)" "snd (Lock demo_open stuck_world)" demo_auth_env]
  by (simp add: demo_open_def stuck_world_def Lock_def remove_key_def remove_token_def db_write_def fault_free_def
      split: fault.split)

theorem lock_holds_witness:
  "\<not> ValidateSessionToken (fst (Restore demo_auth_env (SetPersistence NewService)
      (snd (Lock demo_open (demo_auth_world Map.empty None))))) ''t''"
proof -
  let ?x = "Lock demo_open (demo_auth_world Map.empty None)"
  have gone: "ad_keyFile (w_db (snd ?x)) = None"
    by (simp add: Lock_def demo_open_def remove_key_def remove_token_def db_write_def split: fault.split)
  have "auth_step demo_auth_env False (fst ?x, snd ?x) (Restore demo_auth_env (SetPersistence NewService) (snd ?x))"
    by (metis as_restart prod.collapse)
  then have "quiet_moves demo_auth_env (fst ?x, snd ?x) (fst (Restore demo_auth_env (SetPersistence NewService) (snd ?x)),
      snd (Restore demo_auth_env (SetPersistence NewService) (snd ?x)))"
    unfolding quiet_moves_def by auto
  from lock_holds [OF demo_auth_facts(1) _ gone this] show ?thesis by simp
qed

theorem reachable_service_wf_witness:
  "service_wf (fst (snd demo_setup))"
proof -
  have "auth_step demo_auth_env True (SetPersistence NewService, demo_auth_world Map.empty None) (fst (snd demo_setup), snd (snd demo_setup))"
    using as_setup [OF demo_setup_ok] by simp
  then have "auth_moves demo_auth_env (SetPersistence NewService, demo_auth_world Map.empty None)
      (fst (snd demo_setup), snd (snd demo_setup))" unfolding auth_moves_def by blast
  from reachable_service_wf [OF demo_auth_facts(1) this] show ?thesis by simp
qed

end
