(* ===== verification/LimitProofs.thy ===== *)
theory LimitProofs
  imports RateLimits
begin

section \<open>What the limiters guarantee\<close>

text \<open>
  The sliding window decides every request as the reference that remembers all requests it ever let through, so
  no interval of a window holds more than the limit; a refused client that comes back after the announced time is
  let in. The limiter of the sign-in endpoints only bounds an interval by twice its number, and its cleanup is
  not observable.
\<close>

subsection \<open>The sliding window against a reference that forgets nothing\<close>

type_synonym request = "string \<times> string \<times> int"

definition time_of :: "request \<Rightarrow> int" where
  "time_of q = snd (snd q)"

lemma time_of [simp]: "time_of (p, i, t) = t"
  by (simp add: time_of_def)

fun run_limiter :: "slidingWindowLimiter \<Rightarrow> request list \<Rightarrow> bool list" where
  "run_limiter l [] = []"
| "run_limiter l ((path, ip, now) # qs) =
     (case limit_request l path ip now of (refused, l1) \<Rightarrow> (refused = None) # run_limiter l1 qs)"

text \<open>The times of the requests of an address among those let through.\<close>

definition api_times :: "request list \<Rightarrow> string \<Rightarrow> int list" where
  "api_times hist ip = map time_of (filter (\<lambda>(p, i, t). i = ip \<and> isAPIRequest p) hist)"

definition auth_times :: "request list \<Rightarrow> string \<Rightarrow> int list" where
  "auth_times hist ip = map time_of (filter (\<lambda>(p, i, t). i = ip \<and> isAuthRequest p) hist)"

definition within :: "int \<Rightarrow> int \<Rightarrow> int list \<Rightarrow> nat" where
  "within window now ts = length (filter (\<lambda>t. now - window < t \<and> t \<le> now) ts)"

definition reference_admits :: "request list \<Rightarrow> request \<Rightarrow> bool" where
  "reference_admits hist q = (case q of (path, ip, now) \<Rightarrow>
     isAPIRequest path \<longrightarrow> within minute now (api_times hist ip) < 60
       \<and> (isAuthRequest path \<longrightarrow> within minute now (auth_times hist ip) < 5))"

fun run_reference :: "request list \<Rightarrow> request list \<Rightarrow> bool list" where
  "run_reference hist [] = []"
| "run_reference hist (q # qs) =
     reference_admits hist q # run_reference (if reference_admits hist q then hist @ [q] else hist) qs"

lemma prune_again [simp]: "a \<le> b \<Longrightarrow> pruneTimestamps (pruneTimestamps ts a w) b w = pruneTimestamps ts b w"
  by (auto simp: pruneTimestamps_def intro: filter_cong)

lemma prune_append [simp]: "pruneTimestamps (xs @ ys) now w = pruneTimestamps xs now w @ pruneTimestamps ys now w"
  by (simp add: pruneTimestamps_def)

lemma prune_empty [simp]: "pruneTimestamps [] now w = []"
  by (simp add: pruneTimestamps_def)

lemma auth_is_api: "isAuthRequest path \<Longrightarrow> isAPIRequest path"
  by (auto simp: isAuthRequest_def isAPIRequest_def HasPrefix_def)

text \<open>The buckets agree with the history on everything that still counts at the time \<open>t0\<close> or later.\<close>

definition tracks :: "slidingWindowLimiter \<Rightarrow> request list \<Rightarrow> int \<Rightarrow> bool" where
  "tracks l hist t0 \<longleftrightarrow> lw_window l = minute \<and> lw_apiLimit l = 60 \<and> lw_authLimit l = 5
     \<and> (\<forall>q \<in> set hist. time_of q \<le> t0)
     \<and> (\<forall>ip now. t0 \<le> now \<longrightarrow>
          pruneTimestamps (lw_apiRequests l ip) now minute = pruneTimestamps (api_times hist ip) now minute
        \<and> pruneTimestamps (lw_authRequests l ip) now minute = pruneTimestamps (auth_times hist ip) now minute)"

lemma tracks_later: "tracks l hist a \<Longrightarrow> a \<le> b \<Longrightarrow> tracks l hist b"
  unfolding tracks_def by (meson order_trans)

lemma within_prune: "(\<forall>t \<in> set ts. t \<le> now) \<Longrightarrow> within w now ts = length (pruneTimestamps ts now w)"
  unfolding within_def pruneTimestamps_def by (metis (mono_tags, lifting) filter_cong)

lemma times_bounded:
  assumes "\<forall>q \<in> set hist. time_of q \<le> t0"
  shows "\<forall>t \<in> set (api_times hist ip). t \<le> t0" "\<forall>t \<in> set (auth_times hist ip). t \<le> t0"
  using assms by (auto simp: api_times_def auth_times_def)

lemma times_append [simp]:
  "api_times (hist @ [(p, i, t)]) ip = api_times hist ip @ (if i = ip \<and> isAPIRequest p then [t] else [])"
  "auth_times (hist @ [(p, i, t)]) ip = auth_times hist ip @ (if i = ip \<and> isAuthRequest p then [t] else [])"
  by (simp_all add: api_times_def auth_times_def)

lemma limit_request_refines:
  assumes tr: "tracks l hist now" and req: "limit_request l path ip now = (refused, l')"
  shows "(refused = None) = reference_admits hist (path, ip, now)
    \<and> tracks l' (if refused = None then hist @ [(path, ip, now)] else hist) now"
proof -
  have cfg: "lw_window l = minute" "lw_apiLimit l = 60" "lw_authLimit l = 5"
    and bd: "\<forall>q \<in> set hist. time_of q \<le> now"
    and eq: "\<And>i n. now \<le> n \<Longrightarrow> pruneTimestamps (lw_apiRequests l i) n minute = pruneTimestamps (api_times hist i) n minute"
      "\<And>i n. now \<le> n \<Longrightarrow> pruneTimestamps (lw_authRequests l i) n minute = pruneTimestamps (auth_times hist i) n minute"
    using tr by (auto simp: tracks_def)
  have w: "within minute now (api_times hist ip) = length (pruneTimestamps (lw_apiRequests l ip) now minute)"
    "within minute now (auth_times hist ip) = length (pruneTimestamps (lw_authRequests l ip) now minute)"
    using times_bounded [OF bd] by (simp_all add: within_prune eq)
  show ?thesis
  proof (cases "isAPIRequest path")
    case False
    then have "refused = None" "l' = l" "\<not> isAuthRequest path" using req auth_is_api by (auto simp: limit_request_def)
    with False show ?thesis using tr by (simp add: reference_admits_def tracks_def)
  next
    case True
    then show ?thesis using req
      by (auto simp: limit_request_def checkBucketLocked_def recordLocked_def Let_def reference_admits_def w cfg
          tracks_def bd eq split: if_splits)
  qed
qed

text \<open>The requests that were let through, and the limiter after a run.\<close>

definition let_through :: "slidingWindowLimiter \<Rightarrow> request list \<Rightarrow> request list" where
  "let_through l qs = map fst (filter snd (zip qs (run_limiter l qs)))"

definition limiter_after :: "slidingWindowLimiter \<Rightarrow> request list \<Rightarrow> slidingWindowLimiter" where
  "limiter_after l qs = fold (\<lambda>(path, ip, now) l. snd (limit_request l path ip now)) qs l"

definition bounded :: "request list \<Rightarrow> bool" where
  "bounded hist \<longleftrightarrow> (\<forall>ip t. within minute t (api_times hist ip) \<le> 60 \<and> within minute t (auth_times hist ip) \<le> 5)"

lemma within_append_new:
  assumes "\<forall>t \<in> set ts. t \<le> now" and "within w now ts < n" and "\<forall>t. within w t ts \<le> n"
  shows "within w t (ts @ [now]) \<le> n"
proof (cases "t < now")
  case True
  then show ?thesis using assms(3) by (simp add: within_def)
next
  case False
  then have "filter (\<lambda>x. t - w < x \<and> x \<le> t) ts = filter (\<lambda>x. t - w < x \<and> x \<le> t) (filter (\<lambda>x. now - w < x \<and> x \<le> now) ts)"
    using assms(1) by (auto intro: filter_cong)
  then have "within w t ts \<le> within w now ts" unfolding within_def by (metis length_filter_le)
  then show ?thesis using assms(2) by (simp add: within_def)
qed

lemma bounded_admit:
  assumes "bounded hist" and "\<forall>q \<in> set hist. time_of q \<le> now" and "reference_admits hist (path, ip, now)"
  shows "bounded (hist @ [(path, ip, now)])"
  using assms times_bounded [OF assms(2)] auth_is_api [of path]
  by (auto simp: bounded_def reference_admits_def intro!: within_append_new)

lemma run_tracks:
  assumes "sorted (map time_of qs)" and "\<forall>q \<in> set qs. t0 \<le> time_of q" and "\<forall>q \<in> set qs. time_of q \<le> t1"
    and "t0 \<le> t1" and "tracks l hist t0" and "bounded hist"
  shows "run_limiter l qs = run_reference hist qs \<and> tracks (limiter_after l qs) (hist @ let_through l qs) t1
    \<and> bounded (hist @ let_through l qs)"
  using assms
proof (induction qs arbitrary: l hist t0)
  case Nil
  then show ?case by (simp add: let_through_def limiter_after_def tracks_later)
next
  case (Cons q qs)
  obtain path ip now where q: "q = (path, ip, now)" by (metis prod_cases3)
  obtain refused l' where r: "limit_request l path ip now = (refused, l')" by fastforce
  let ?hist = "if refused = None then hist @ [(path, ip, now)] else hist"
  have tr: "tracks l hist now" using Cons.prems q by (auto intro: tracks_later)
  have bd: "\<forall>q \<in> set hist. time_of q \<le> now" using tr by (simp add: tracks_def)
  note step = limit_request_refines [OF tr r]
  have "bounded ?hist" using Cons.prems(6) bd step bounded_admit [OF _ bd] by auto
  then have "run_limiter l' qs = run_reference ?hist qs \<and> tracks (limiter_after l' qs) (?hist @ let_through l' qs) t1
    \<and> bounded (?hist @ let_through l' qs)"
    using Cons.prems q step by (intro Cons.IH [of now]) auto
  moreover have "?hist @ let_through l' qs = hist @ let_through l (q # qs)" "limiter_after l' qs = limiter_after l (q # qs)"
    using q r by (auto simp: let_through_def limiter_after_def)
  ultimately show ?case using step q r by auto
qed

lemma new_run_tracks:
  assumes "sorted (map time_of qs)" and "\<forall>q \<in> set qs. time_of q \<le> t1"
  shows "run_limiter newSlidingWindowLimiter qs = run_reference [] qs
    \<and> tracks (limiter_after newSlidingWindowLimiter qs) (let_through newSlidingWindowLimiter qs) t1
    \<and> bounded (let_through newSlidingWindowLimiter qs)"
proof -
  obtain t0 where t0: "\<forall>q \<in> set qs. t0 \<le> time_of q" "t0 \<le> t1"
  proof (cases qs)
    case (Cons q qs')
    with assms that [of "time_of q"] show ?thesis by auto
  qed (use that [of t1] in simp)
  have "tracks newSlidingWindowLimiter [] t0" "bounded []"
    by (simp_all add: tracks_def newSlidingWindowLimiter_def api_times_def auth_times_def bounded_def within_def minute_def)
  from run_tracks [OF assms(1) t0(1) assms(2) t0(2) this] show ?thesis by simp
qed

text \<open>\<open>C16\<close>: when time does not run backwards the limiter decides every request as the sliding window does that remembers
  every request it let through, so that at any time at most sixty requests of one address to the API, and five to
  the sign-in endpoints, were let through in the last minute.\<close>

theorem limiter_is_sliding_window:
  assumes "sorted (map time_of qs)"
  shows "run_limiter newSlidingWindowLimiter qs = run_reference [] qs
    \<and> within minute t (api_times (let_through newSlidingWindowLimiter qs) ip) \<le> 60
    \<and> within minute t (auth_times (let_through newSlidingWindowLimiter qs) ip) \<le> 5"
proof -
  have "\<exists>t1. \<forall>q \<in> set qs. time_of q \<le> t1"
    by (intro exI [of _ "Max (time_of ` set qs)"]) auto
  then show ?thesis using new_run_tracks [OF assms] by (auto simp: bounded_def)
qed

text \<open>A client of the API that was refused and comes back no earlier than the announced number of seconds, with
  no other request of its address in between, is let through.\<close>

theorem retry_after_suffices:
  assumes "sorted (map time_of (qs @ [(path, ip, now)]))" and "isAPIRequest path" and "\<not> isAuthRequest path"
    and "limit_request (limiter_after newSlidingWindowLimiter qs) path ip now = (Some retry, l')"
    and "now + retry_seconds retry * second \<le> now'"
  shows "fst (limit_request l' path ip now') = None"
proof -
  let ?l = "limiter_after newSlidingWindowLimiter qs" and ?h = "let_through newSlidingWindowLimiter qs"
  have tr: "tracks ?l ?h now" and bd: "bounded ?h"
    using new_run_tracks [of qs now] assms(1) by (auto simp: sorted_append)
  let ?ts = "pruneTimestamps (api_times ?h ip) now minute"
  have ts: "pruneTimestamps (lw_apiRequests ?l ip) now minute = ?ts" "lw_window ?l = minute" "lw_apiLimit ?l = 60"
    and le: "\<forall>t \<in> set (api_times ?h ip). t \<le> now"
    using tr times_bounded(1) by (auto simp: tracks_def)
  have "length ?ts \<le> 60" using bd unfolding within_prune [OF le, of minute, symmetric] bounded_def by blast
  moreover have "60 \<le> length ?ts" and l': "lw_apiRequests l' ip = ?ts" "lw_window l' = minute" "lw_apiLimit l' = 60"
    and r: "retry = max 0 (minute - (now - hd ?ts))"
    using assms(2-4) by (auto simp: limit_request_def checkBucketLocked_def ts Let_def split: if_splits list.splits)
  ultimately obtain oldest rest where or: "?ts = oldest # rest" "length rest = 59" by (cases ?ts) auto
  have "retry \<le> retry_seconds retry * second" unfolding retry_seconds_def second_def by linarith
  then have "oldest \<le> now' - minute" using r or assms(5) by auto
  then have "pruneTimestamps ?ts now' minute = pruneTimestamps rest now' minute" using or by (simp add: pruneTimestamps_def)
  moreover have "length (pruneTimestamps rest now' minute) \<le> 59"
    unfolding pruneTimestamps_def using or(2) by (metis length_filter_le)
  ultimately have "length (pruneTimestamps ?ts now' minute) < 60" by simp
  then show ?thesis using assms(2,3) l' by (simp add: limit_request_def checkBucketLocked_def Let_def)
qed

subsection \<open>The fixed window\<close>

datatype limiter_event = Asks string int | Cleans int

fun event_time :: "limiter_event \<Rightarrow> int" where
  "event_time (Asks ip now) = now"
| "event_time (Cleans now) = now"

fun is_ask :: "limiter_event \<Rightarrow> bool" where
  "is_ask (Asks ip now) = True"
| "is_ask (Cleans now) = False"

text \<open>The requests let through, with their times, in a run of requests and cleanups.\<close>

fun fixed_admits :: "RateLimiter \<Rightarrow> limiter_event list \<Rightarrow> (string \<times> int) list" where
  "fixed_admits rl [] = []"
| "fixed_admits rl (Asks ip now # es) =
     (case Allow rl ip now of (ok, rl1) \<Rightarrow> (if ok then [(ip, now)] else []) @ fixed_admits rl1 es)"
| "fixed_admits rl (Cleans now # es) = fixed_admits (Cleanup_visitors rl now) es"

text \<open>A limiter that was cleaned up against one that was not.\<close>

definition same_visitor :: "int \<Rightarrow> int \<Rightarrow> visitorInfo option \<Rightarrow> visitorInfo option \<Rightarrow> bool" where
  "same_visitor w now a b \<longleftrightarrow> (case (a, b) of
       (None, None) \<Rightarrow> True
     | (None, Some v) \<Rightarrow> w < now - vi_windowStart v \<and> vi_blockedUntil v \<le> now
     | (Some u, Some v) \<Rightarrow> vi_count u = vi_count v \<and> vi_windowStart u = vi_windowStart v
          \<and> (vi_blockedUntil u = vi_blockedUntil v \<or> vi_blockedUntil u \<le> now \<and> vi_blockedUntil v \<le> now)
     | (Some u, None) \<Rightarrow> False)"

lemma same_visitor_later: "same_visitor w t0 a b \<Longrightarrow> t0 \<le> t1 \<Longrightarrow> same_visitor w t1 a b"
  by (auto simp: same_visitor_def split: option.splits)

lemma visit_same:
  assumes "same_visitor w now a b" and "0 \<le> now" and "0 \<le> w"
  shows "fst (visit m w a now) = fst (visit m w b now)
    \<and> same_visitor w now (Some (snd (visit m w a now))) (Some (snd (visit m w b now)))"
  using assms by (auto simp: same_visitor_def visit_def Let_def zero_time_def second_def split: option.splits)

lemma clean_same:
  "same_visitor w now a b \<Longrightarrow>
     same_visitor w now (case a of None \<Rightarrow> None | Some v \<Rightarrow> if expired_visitor w now v then None else Some v) b"
  by (auto simp: same_visitor_def expired_visitor_def split: option.splits)

lemma cleanup_not_observable:
  assumes "sorted (map event_time es)" and "\<forall>e \<in> set es. t0 \<le> event_time e \<and> 0 \<le> event_time e" and "0 \<le> rl_window r"
    and "rl_window r = rl_window r'" "rl_maxRequests r = rl_maxRequests r'"
    and "\<forall>ip. same_visitor (rl_window r) t0 (rl_visitors r ip) (rl_visitors r' ip)"
  shows "fixed_admits r es = fixed_admits r' (filter is_ask es)"
  using assms
proof (induction es arbitrary: r r' t0)
  case (Cons e es)
  show ?case
  proof (cases e)
    case (Asks ip now)
    have now: "same_visitor (rl_window r) now (rl_visitors r i) (rl_visitors r' i)" for i
      using Cons.prems(2,6) Asks by (auto intro: same_visitor_later)
    note v = visit_same [OF now [of ip], of "rl_maxRequests r"]
    have "0 \<le> now" using Cons.prems(2) Asks by simp
    then show ?thesis using Cons.prems Asks v now
      by (auto simp: Allow_def split: prod.splits intro!: Cons.IH [of now])
  next
    case (Cleans now)
    have now: "same_visitor (rl_window r) now (rl_visitors r i) (rl_visitors r' i)" for i
      using Cons.prems(2,6) Cleans by (auto intro: same_visitor_later)
    have "same_visitor (rl_window r') now (case rl_visitors r i of None \<Rightarrow> None
        | Some v \<Rightarrow> if expired_visitor (rl_window r) now v then None else Some v) (rl_visitors r' i)" for i
      unfolding Cons.prems(4) [symmetric] by (rule clean_same [OF now])
    then show ?thesis using Cons.prems Cleans
      by (auto simp: Cleanup_visitors_def intro!: Cons.IH [of now])
  qed
qed simp

text \<open>What the requests let through look like for one visitor: those of earlier windows and those of the current one.\<close>

definition visitor_inv :: "nat \<Rightarrow> int \<Rightarrow> visitorInfo option \<Rightarrow> int list \<Rightarrow> bool" where
  "visitor_inv m w ov adm \<longleftrightarrow> (case ov of
       None \<Rightarrow> adm = []
     | Some v \<Rightarrow> \<exists>old cur. adm = old @ cur \<and> length cur \<le> m \<and> length cur \<le> vi_count v
         \<and> (\<forall>x \<in> set cur. vi_windowStart v \<le> x \<and> x \<le> vi_windowStart v + w)
         \<and> (\<forall>x \<in> set old. x < vi_windowStart v)
         \<and> length (filter (\<lambda>x. vi_windowStart v - w < x) old) \<le> m
         \<and> (\<forall>t. within w t old \<le> 2 * m))"

lemma split_window:
  assumes "length cur \<le> m" and "\<forall>x \<in> set cur. s \<le> x \<and> x \<le> s + w" and "\<forall>x \<in> set old. x < s"
    and "length (filter (\<lambda>x. s - w < x) old) \<le> m" and "\<forall>t. within w t old \<le> 2 * m"
  shows "within w t (old @ cur) \<le> 2 * m"
proof (cases "t < s")
  case True
  then have "filter (\<lambda>x. t - w < x \<and> x \<le> t) cur = []" using assms(2) by (fastforce simp: filter_empty_conv)
  then show ?thesis using assms(5) by (simp add: within_def)
next
  case False
  then have "filter (\<lambda>x. t - w < x \<and> x \<le> t) old = filter (\<lambda>x. t - w < x \<and> x \<le> t) (filter (\<lambda>x. s - w < x) old)"
    by (auto intro: filter_cong)
  then have "length (filter (\<lambda>x. t - w < x \<and> x \<le> t) old) \<le> m" using assms(4) by (metis length_filter_le le_trans)
  moreover have "length (filter (\<lambda>x. t - w < x \<and> x \<le> t) cur) \<le> m" using assms(1) by (metis length_filter_le le_trans)
  ultimately show ?thesis by (simp add: within_def)
qed

lemma visitor_inv_bound: "visitor_inv m w ov adm \<Longrightarrow> within w t adm \<le> 2 * m"
  by (auto simp: visitor_inv_def split: option.splits intro!: split_window) (simp add: within_def)

lemma visit_inv:
  assumes "visitor_inv m w ov adm" and "0 \<le> w" and "visit m w ov now = (ok, v')"
    and "\<forall>v. ov = Some v \<longrightarrow> vi_windowStart v \<le> now"
  shows "visitor_inv m w (Some v') (if ok then adm @ [now] else adm) \<and> vi_windowStart v' \<le> now"
proof (cases ov)
  case None
  with assms show ?thesis
    by (auto simp: visit_def visitor_inv_def Let_def within_def zero_time_def split: if_splits
        intro: exI [of _ "[]"])
next
  case (Some v)
  then obtain old cur where inv: "adm = old @ cur" "length cur \<le> m" "length cur \<le> vi_count v"
      "\<forall>x \<in> set cur. vi_windowStart v \<le> x \<and> x \<le> vi_windowStart v + w" "\<forall>x \<in> set old. x < vi_windowStart v"
      "length (filter (\<lambda>x. vi_windowStart v - w < x) old) \<le> m" "\<forall>t. within w t old \<le> 2 * m"
    using assms(1) by (auto simp: visitor_inv_def)
  have start: "vi_windowStart v \<le> now" using assms(4) Some by simp
  show ?thesis
  proof (cases "vi_blockedUntil v \<le> now \<and> w < now - vi_windowStart v")
    case True
    have "filter (\<lambda>x. now - w < x) old = []" using True inv(5) by (fastforce simp: filter_empty_conv)
    then have "length (filter (\<lambda>x. now - w < x) (old @ cur)) \<le> m" using inv(2) by (metis append_Nil filter_append length_filter_le le_trans)
    moreover have "\<forall>x \<in> set (old @ cur). x < now" using True inv(4,5) start by fastforce
    moreover have "\<forall>t. within w t (old @ cur) \<le> 2 * m" using split_window [OF inv(2,4-7)] by blast
    ultimately show ?thesis using assms(2,3) Some True inv(1)
      by (auto simp: visit_def visitor_inv_def Let_def split: if_splits
          intro: exI [of _ "old @ cur"] exI [of _ "[now]"] exI [of _ "[]"])
  next
    case False
    then show ?thesis using assms(3) Some inv start
      by (auto simp: visit_def visitor_inv_def Let_def split: if_splits
          intro: exI [of _ old] exI [of _ "cur @ [now]"] exI [of _ cur])
  qed
qed


lemma fixed_bound:
  assumes "sorted (map event_time es)" and "\<forall>e \<in> set es. t0 \<le> event_time e" and "list_all is_ask es" and "0 \<le> rl_window r"
    and "visitor_inv (rl_maxRequests r) (rl_window r) (rl_visitors r ip) adm"
    and "\<forall>v. rl_visitors r ip = Some v \<longrightarrow> vi_windowStart v \<le> t0"
  shows "within (rl_window r) t (adm @ map snd (filter (\<lambda>(i, t). i = ip) (fixed_admits r es))) \<le> 2 * rl_maxRequests r"
  using assms
proof (induction es arbitrary: r adm t0)
  case Nil
  then show ?case by (simp add: visitor_inv_bound)
next
  case (Cons e es)
  then obtain j now where e: "e = Asks j now" by (cases e) auto
  obtain ok v where v: "visit (rl_maxRequests r) (rl_window r) (rl_visitors r j) now = (ok, v)" by fastforce
  let ?r = "r\<lparr>rl_visitors := (rl_visitors r)(j \<mapsto> v)\<rparr>" and ?adm = "if j = ip \<and> ok then adm @ [now] else adm"
  have t0: "t0 \<le> now" using Cons.prems(2) e by simp
  have "visitor_inv (rl_maxRequests r) (rl_window r) (Some v) ?adm \<and> vi_windowStart v \<le> now" if "j = ip"
    using visit_inv [OF Cons.prems(5,4)] v that Cons.prems(6) t0 by fastforce
  then have "within (rl_window ?r) t (?adm @ map snd (filter (\<lambda>(i, t). i = ip) (fixed_admits ?r es))) \<le> 2 * rl_maxRequests ?r"
    using Cons.prems e t0 by (intro Cons.IH [of now]) (auto intro: order_trans)
  then show ?case using e v by (auto simp: Allow_def split: if_splits)
qed

text \<open>The limiter of the sign-in endpoints: its periodic cleanup does not change any decision, and however the
  requests of an address are timed, an interval as long as the window holds at most twice the configured number.\<close>

theorem fixed_limiter_bound:
  assumes "sorted (map event_time es)" and "\<forall>e \<in> set es. 0 \<le> event_time e" and "0 \<le> w"
  shows "fixed_admits (NewRateLimiter m w) es = fixed_admits (NewRateLimiter m w) (filter is_ask es)
    \<and> within w t (map snd (filter (\<lambda>(i, t). i = ip) (fixed_admits (NewRateLimiter m w) es))) \<le> 2 * m"
proof -
  have same: "fixed_admits (NewRateLimiter m w) es = fixed_admits (NewRateLimiter m w) (filter is_ask es)"
    using assms by (intro cleanup_not_observable [of _ 0]) (auto simp: NewRateLimiter_def same_visitor_def)
  have "sorted (map event_time (filter is_ask es))" using assms(1) by (rule sorted_filter)
  then show ?thesis using same fixed_bound [of "filter is_ask es" 0 "NewRateLimiter m w" ip "[]" t] assms(2,3)
    by (simp add: NewRateLimiter_def visitor_inv_def list_all_iff)
qed

text \<open>The number is reached up to one: nine requests of a limiter for five a minute pass within a nanosecond.\<close>

lemma fixed_window_is_not_sliding:
  "within minute (minute + 1) (map snd (filter (\<lambda>(i, t). i = ''a'') (fixed_admits (NewRateLimiter 5 minute)
     (Asks ''a'' 0 # replicate 4 (Asks ''a'' minute) @ replicate 5 (Asks ''a'' (minute + 1)))))) = 9"
  by (simp add: within_def NewRateLimiter_def Allow_def visit_def zero_time_def minute_def second_def eval_nat_numeral)

subsection \<open>Instances\<close>

theorem limiter_is_sliding_window_witness:
  "run_limiter newSlidingWindowLimiter [(''/api/auth/unlock'', ''a'', 0), (''/api/auth/unlock'', ''a'', 1)]
     = run_reference [] [(''/api/auth/unlock'', ''a'', 0), (''/api/auth/unlock'', ''a'', 1)]"
  using limiter_is_sliding_window [of "[(''/api/auth/unlock'', ''a'', 0), (''/api/auth/unlock'', ''a'', 1)]"] by simp

theorem retry_after_suffices_witness:
  "\<exists>l'. limit_request (limiter_after newSlidingWindowLimiter (replicate 60 (''/api/x'', ''a'', 0))) ''/api/x'' ''a'' second
      = (Some (59 * second), l')
    \<and> fst (limit_request l' ''/api/x'' ''a'' (60 * second)) = None"
proof -
  let ?l = "limiter_after newSlidingWindowLimiter (replicate 60 (''/api/x'', ''a'', 0))"
  have step: "limiter_after l (replicate n (''/api/x'', ''a'', 0)) = l\<lparr>lw_apiRequests := (\<lambda>i. if i = ''a'' then replicate n 0 else [])\<rparr>"
    if "l = newSlidingWindowLimiter" "n \<le> 60" for n l
    using that(2)
  proof (induction n)
    case 0
    then show ?case using that(1) by (simp add: limiter_after_def newSlidingWindowLimiter_def fun_eq_iff)
  next
    case (Suc n)
    have "limiter_after l (replicate (Suc n) (''/api/x'', ''a'', 0))
        = snd (limit_request (limiter_after l (replicate n (''/api/x'', ''a'', 0))) ''/api/x'' ''a'' 0)"
      by (simp add: limiter_after_def flip: replicate_append_same)
    then show ?case using Suc that(1)
      by (simp add: limit_request_def isAPIRequest_def HasPrefix_def isAuthRequest_def checkBucketLocked_def
          pruneTimestamps_def recordLocked_def newSlidingWindowLimiter_def minute_def second_def fun_eq_iff
          replicate_append_same Let_def)
  qed
  have l: "?l = newSlidingWindowLimiter\<lparr>lw_apiRequests := (\<lambda>i. if i = ''a'' then 0 # replicate 59 0 else [])\<rparr>"
    using step [OF refl, of 60] by (simp add: fun_eq_iff flip: replicate_Suc)
  obtain l' where r: "limit_request ?l ''/api/x'' ''a'' second = (Some (59 * second), l')"
    unfolding l by (simp add: limit_request_def isAPIRequest_def HasPrefix_def isAuthRequest_def checkBucketLocked_def
        pruneTimestamps_def newSlidingWindowLimiter_def minute_def second_def Let_def)
  have "fst (limit_request l' ''/api/x'' ''a'' (60 * second)) = None"
    by (rule retry_after_suffices [OF _ _ _ r])
      (simp_all add: isAPIRequest_def HasPrefix_def isAuthRequest_def retry_seconds_def second_def sorted_append)
  with r show ?thesis by blast
qed

theorem fixed_limiter_bound_witness:
  "within minute (minute + 1) (map snd (filter (\<lambda>(i, t). i = ''a'') (fixed_admits (NewRateLimiter 5 minute)
     (Asks ''a'' 0 # replicate 4 (Asks ''a'' minute) @ replicate 5 (Asks ''a'' (minute + 1)))))) \<le> 10"
  using fixed_limiter_bound [of "Asks ''a'' 0 # replicate 4 (Asks ''a'' minute) @ replicate 5 (Asks ''a'' (minute + 1))"
      minute 5 "minute + 1" "''a''"]
  by (simp add: minute_def second_def eval_nat_numeral)

end
