(* ===== verification/GateProofs.thy ===== *)
theory GateProofs
  imports Gate AuthProofs LimitProofs
begin

section \<open>Who gets through\<close>

text \<open>
  A protected request without the token of the current session changes nothing but the counters of the limiter,
  and the rest of the application never sees it; one with the token reaches it. The address that is limited is the
  one the client writes into a header.
\<close>

lemma IsSetup_frame:
  "IsSetup w = (r, w') \<Longrightarrow> w_db w' = w_db w"
  by (auto simp: IsSetup_def HasMasterPassword_def split: prod.splits sum.splits dest!: GetConfigValue_frame)

lemma ValidateSessionToken_unlocked: "ValidateSessionToken s token \<Longrightarrow> \<not> IsLocked s"
  by (simp add: ValidateSessionToken_def IsLocked_def split: if_splits)

text \<open>What a refused request leaves as it was.\<close>

definition untouched :: "gate \<Rightarrow> gate \<Rightarrow> bool" where
  "untouched s s' \<longleftrightarrow> gt_service s' = gt_service s \<and> gt_manager s' = gt_manager s \<and> gt_signin s' = gt_signin s
     \<and> w_db (gt_world s') = w_db (gt_world s)"

lemma untouched_simps [simp]:
  "untouched s s" "untouched s (s\<lparr>gt_world := w\<rparr>) = (w_db w = w_db (gt_world s))"
  "untouched s (s\<lparr>gt_limiter := l, gt_world := w\<rparr>) = (w_db w = w_db (gt_world s))"
  by (auto simp: untouched_def)

lemma untouched_trans: "untouched a b \<Longrightarrow> untouched b c \<Longrightarrow> untouched a c"
  by (simp add: untouched_def)

definition refuses :: "handler \<Rightarrow> handler \<Rightarrow> http_request \<Rightarrow> Service \<Rightarrow> bool" where
  "refuses f g rq sv \<longleftrightarrow> (\<forall>h s. gt_service s = sv \<longrightarrow> f rq h s = g rq h s
     \<and> untouched s (snd (g rq h s)) \<and> rs_status (fst (g rq h s)) \<noteq> 200)"

lemma refuses_RequireAuth:
  "is_protected (rq_Path rq) \<Longrightarrow> \<not> ValidateSessionToken sv (extractToken rq) \<Longrightarrow> refuses (RequireAuth f) (RequireAuth g) rq sv"
  by (auto simp: refuses_def RequireAuth_def WriteError_def WriteJSON_def untouched_def split: prod.splits sum.splits bool.splits
      dest: IsSetup_frame)

lemma refuses_layers:
  assumes "refuses f g rq sv"
  shows "refuses (CSRFMiddleware f) (CSRFMiddleware g) rq sv" "refuses (CORSMiddleware f) (CORSMiddleware g) rq sv"
    "refuses (RequestSizeLimit f) (RequestSizeLimit g) rq sv" "refuses (SecurityHeaders hs f) (SecurityHeaders hs g) rq sv"
  using assms
  by (auto simp: refuses_def CSRFMiddleware_def CORSMiddleware_def RequestSizeLimit_def SecurityHeaders_def WriteError_def
      WriteJSON_def Let_def split: sum.split)

lemma refuses_RateLimit:
  assumes "refuses f g rq sv"
  shows "refuses (RateLimit f) (RateLimit g) rq sv"
proof -
  have "f rq h (s\<lparr>gt_limiter := l, gt_world := tick (gt_world s)\<rparr>) = g rq h (s\<lparr>gt_limiter := l, gt_world := tick (gt_world s)\<rparr>)
    \<and> untouched s (snd (g rq h (s\<lparr>gt_limiter := l, gt_world := tick (gt_world s)\<rparr>)))
    \<and> rs_status (fst (g rq h (s\<lparr>gt_limiter := l, gt_world := tick (gt_world s)\<rparr>))) \<noteq> 200"
    if "gt_service s = sv" for s h l
  proof -
    let ?s = "s\<lparr>gt_limiter := l, gt_world := tick (gt_world s)\<rparr>"
    have "untouched s ?s" "gt_service ?s = sv" using that by simp_all
    then show ?thesis using assms untouched_trans unfolding refuses_def by blast
  qed
  then show ?thesis using assms
    by (auto simp: refuses_def RateLimit_def Let_def writeRateLimitResponse_def split: prod.split option.split)
qed


text \<open>The headers that every answer of the inner layers starts from.\<close>

definition base_headers :: "gate_env \<Rightarrow> http_request \<Rightarrow> headers" where
  "base_headers env rq =
     (let h = [''X-Content-Type-Options'' \<mapsto> ''nosniff'', ''X-Frame-Options'' \<mapsto> ''DENY'',
            ''X-XSS-Protection'' \<mapsto> ''1; mode=block'', ''Referrer-Policy'' \<mapsto> ''strict-origin-when-cross-origin'',
            ''Content-Security-Policy'' \<mapsto> content_policy (ge_scriptHashes env)]
      in (if rq_TLS rq then h(''Strict-Transport-Security'' \<mapsto> ''max-age=31536000; includeSubDomains'') else h)
         (''X-Content-Type-Options'' \<mapsto> ''nosniff'', ''X-Frame-Options'' \<mapsto> ''DENY'',
            ''X-XSS-Protection'' \<mapsto> ''1; mode=block'', ''Referrer-Policy'' \<mapsto> ''strict-origin-when-cross-origin''))"

definition client_of :: "http_request \<Rightarrow> string" where
  "client_of rq = clientIP (rq_header rq ''X-Forwarded-For'') (rq_header rq ''X-Real-IP'') (rq_RemoteAddr rq)"

definition well_sent :: "http_request \<Rightarrow> bool" where
  "well_sent rq \<longleftrightarrow> rq_Method rq \<noteq> ''OPTIONS'' \<and> HasPrefix (rq_header rq ''Content-Type'') ''application/json''
     \<and> (\<exists>b. rq_body rq = Inr b \<and> length b \<le> requestBodyLimit)"

text \<open>A JSON request to the API with the token of the current session, in size and below the rate, is handled by
  the multiplexer, with the security headers set and the database as it was.\<close>

theorem authenticated_requests_served:
  assumes "isAPIRequest (rq_Path rq)" and "ValidateSessionToken (gt_service s) (extractToken rq)" and "well_sent rq"
    and "fst (limit_request (gt_limiter s) (rq_Path rq) (client_of rq) (w_now (gt_world s))) = None"
    and "fault_free (gt_world s)" and "ad_config (w_db (gt_world s)) ''master_password_hash'' = Some hash" "hash \<noteq> ''''"
  shows "\<exists>s'. serve env routes rq s = mux env routes rq (base_headers env rq) s' \<and> untouched s s'"
proof -
  obtain l where l: "limit_request (gt_limiter s) (rq_Path rq) (client_of rq) (w_now (gt_world s)) = (None, l)"
    using assms(4) by (metis prod.collapse)
  let ?s = "s\<lparr>gt_limiter := l, gt_world := tick (gt_world s)\<rparr>"
  have set: "IsSetup (gt_world ?s) = (Inr True, tick (gt_world ?s))"
    using assms(5-7) by (simp add: IsSetup_def HasMasterPassword_def fault_free_get)
  have ct: "\<not> HasPrefix (rq_header rq ''Content-Type'') ''multipart/form-data''" "rq_Method rq \<noteq> ''OPTIONS''"
    "HasPrefix (rq_header rq ''Content-Type'') ''application/json''"
    using assms(3) by (auto simp: well_sent_def HasPrefix_iff)
  obtain b where b: "rq_body rq = Inr b" "\<not> requestBodyLimit < length b" using assms(3) by (auto simp: well_sent_def)
  have auth: "RequireAuth (mux env routes) rq h ?s
      = mux env routes rq h (if is_protected (rq_Path rq) then ?s\<lparr>gt_world := tick (gt_world ?s)\<rparr> else ?s)" for h
    using assms(2) ValidateSessionToken_unlocked [OF assms(2)] set by (simp add: RequireAuth_def)
  have "serve env routes rq s = mux env routes rq (base_headers env rq)
      (if is_protected (rq_Path rq) then ?s\<lparr>gt_world := tick (gt_world ?s)\<rparr> else ?s)"
    using assms(1) l ct b auth
    by (simp add: serve_def protectedMux_def Chain_def SecurityHeaders_def RateLimit_def RequestSizeLimit_def CSRFMiddleware_def
        CORSMiddleware_def client_of_def Let_def base_headers_def)
  moreover have "untouched s (if is_protected (rq_Path rq) then ?s\<lparr>gt_world := tick (gt_world ?s)\<rparr> else ?s)"
    by (simp add: untouched_def)
  ultimately show ?thesis by blast
qed

subsection \<open>The address of a client\<close>

text \<open>Texts that the header carries unchanged.\<close>

definition plain_address :: "string \<Rightarrow> bool" where
  "plain_address x \<longleftrightarrow> x \<noteq> '''' \<and> CHR '','' \<notin> set x \<and> TrimSpace x = x"

lemma clientIP_plain: "plain_address x \<Longrightarrow> clientIP x real remote = x"
  by (simp add: clientIP_def plain_address_def Let_def)

lemma fresh_address_admitted:
  assumes "lw_apiRequests l ip = []" "lw_authRequests l ip = []" "lw_apiLimit l = 60" "lw_authLimit l = 5"
  shows "\<exists>l'. limit_request l path ip now = (None, l') \<and> lw_apiLimit l' = 60 \<and> lw_authLimit l' = 5
    \<and> (\<forall>i. i \<noteq> ip \<longrightarrow> lw_apiRequests l' i = lw_apiRequests l i \<and> lw_authRequests l' i = lw_authRequests l i)"
  using assms by (simp add: limit_request_def checkBucketLocked_def recordLocked_def Let_def)

text \<open>Both limiters count by the header \<open>X-Forwarded-For\<close> that the client sends: whoever puts another text there with
  each guess is never refused by the sliding window, from whatever address and at whatever times the requests come.\<close>

theorem forged_header_evades_limit:
  assumes "distinct xs" and "list_all plain_address xs" and "length ts = length xs"
  shows "run_limiter newSlidingWindowLimiter
      (map (\<lambda>(x, t). (''/api/auth/unlock'', clientIP x real remote, t)) (zip xs ts)) = replicate (length xs) True"
proof -
  have "run_limiter l (map (\<lambda>(x, t). (''/api/auth/unlock'', clientIP x real remote, t)) (zip xs ts)) = replicate (length xs) True"
    if "lw_apiLimit l = 60" "lw_authLimit l = 5" "\<forall>x \<in> set xs. lw_apiRequests l x = [] \<and> lw_authRequests l x = []" for l
    using assms that
  proof (induction xs arbitrary: ts l)
    case (Cons x xs)
    obtain t ts' where ts: "ts = t # ts'" using Cons.prems(3) by (cases ts) auto
    obtain l' where l': "limit_request l ''/api/auth/unlock'' x t = (None, l')" "lw_apiLimit l' = 60" "lw_authLimit l' = 5"
      "\<forall>i. i \<noteq> x \<longrightarrow> lw_apiRequests l' i = lw_apiRequests l i \<and> lw_authRequests l' i = lw_authRequests l i"
      using fresh_address_admitted [where l = l and ip = x and path = "''/api/auth/unlock''" and now = t] Cons.prems(4-6) by auto
    have "\<forall>y \<in> set xs. lw_apiRequests l' y = [] \<and> lw_authRequests l' y = []"
      using l'(4) Cons.prems(1,6) by auto
    then show ?case using Cons.IH [of ts' l'] Cons.prems l' ts by (simp add: clientIP_plain)
  qed simp
  then show ?thesis by (simp add: newSlidingWindowLimiter_def)
qed

subsection \<open>Instances\<close>

definition demo_gate_env :: gate_env where
  "demo_gate_env = \<lparr>ge_auth = demo_auth_env, ge_password = (\<lambda>b. Some b), ge_parseIP = (\<lambda>a. Some a), ge_urlHost = (\<lambda>u. Some u),
     ge_scriptHashes = []\<rparr>"

definition demo_gate :: gate where
  "demo_gate = NewHandler None demo_open (demo_auth_world [''master_password_hash'' \<mapsto> ''h''] None)"

definition demo_http :: "string \<Rightarrow> string \<Rightarrow> http_request" where
  "demo_http path auth = \<lparr>rq_Method = ''GET'', rq_Path = path, rq_header = (\<lambda>k. if k = ''Authorization'' then auth
       else if k = ''Content-Type'' then ''application/json'' else ''''), rq_query_token = '''', rq_RemoteAddr = ''10.0.0.1:5000'',
     rq_Host = ''h'', rq_TLS = False, rq_body = Inr ''''\<rparr>"

definition demo_routes :: handler where
  "demo_routes rq h s = (WriteJSON h 200 [], s)"

lemma demo_gate_facts [simp]:
  "extractToken (demo_http path (''Bearer '' @ token)) = token" "gt_service demo_gate = demo_open"
  "ValidateSessionToken demo_open token \<longleftrightarrow> token = ''t''" "rq_Path (demo_http path auth) = path"
  by (auto simp: extractToken_def demo_http_def HasPrefix_iff TrimPrefix_def demo_gate_def NewHandler_def ValidateSessionToken_def
      demo_open_def)


theorem authenticated_requests_served_witness:
  "rs_status (fst (serve demo_gate_env demo_routes (demo_http ''/api/servers'' (''Bearer '' @ ''t'')) demo_gate)) = 200"
proof -
  have "\<exists>s'. serve demo_gate_env demo_routes (demo_http ''/api/servers'' (''Bearer '' @ ''t'')) demo_gate
      = mux demo_gate_env demo_routes (demo_http ''/api/servers'' (''Bearer '' @ ''t''))
          (base_headers demo_gate_env (demo_http ''/api/servers'' (''Bearer '' @ ''t''))) s' \<and> untouched demo_gate s'"
    by (rule authenticated_requests_served [where hash = "''h''"])
      (simp_all only: demo_gate_facts, simp_all add: isAPIRequest_def HasPrefix_def well_sent_def demo_http_def
        limit_request_def isAuthRequest_def checkBucketLocked_def recordLocked_def Let_def demo_gate_def NewHandler_def
        newSlidingWindowLimiter_def)
  then show ?thesis by (auto simp: mux_def demo_routes_def WriteJSON_def)
qed

theorem forged_header_evades_limit_witness:
  "run_limiter newSlidingWindowLimiter (map (\<lambda>(x, t). (''/api/auth/unlock'', clientIP x '''' ''10.0.0.1:5000'', t))
     (zip [''a'', ''b'', ''c'', ''d'', ''e'', ''f''] [0, 0, 0, 0, 0, 0])) = replicate 6 True"
proof -
  have "list_all plain_address [''a'', ''b'', ''c'', ''d'', ''e'', ''f'']"
    by (simp add: plain_address_def TrimSpace_def is_space_def)
  from forged_header_evades_limit [OF _ this, of "[0, 0, 0, 0, 0, 0]" "''''" "''10.0.0.1:5000''"] show ?thesis
    by (simp add: eval_nat_numeral del: run_limiter.simps)
qed

end
