(* ===== verification/ShellText.thy ===== *)
theory ShellText
  imports Base64
begin

section \<open>Text for remote shells and paths (\<open>shared/shell.go\<close>, \<open>shared/path.go\<close>, \<open>shared/validation.go\<close>)\<close>

text \<open>
  Quoting against a reference scanner of POSIX shell commands, and the containment of paths against the prefix
  order on their segments. Texts are bytes.
\<close>

subsection \<open>Quoting\<close>

definition escape_quote :: "char \<Rightarrow> string" where
  "escape_quote c = (if c = CHR 39 then [CHR 39, CHR 92, CHR 39, CHR 39] else [c])"

definition ShellQuote :: "string \<Rightarrow> string" where
  "ShellQuote s = CHR 39 # concat (map escape_quote s) @ [CHR 39]"

definition ShellQuoteArgs :: "string list \<Rightarrow> string" where
  "ShellQuoteArgs args = join_at CHR 32 (map ShellQuote args)"

definition Base64EncodeForShell :: "string \<Rightarrow> string" where
  "Base64EncodeForShell data = ''echo '' @ CHR 39 # b64_encode StdEncoding data @ CHR 39 # '' | base64 -d''"

definition Base64DecodeCommand :: "string \<Rightarrow> string \<Rightarrow> string" where
  "Base64DecodeCommand path data =
     ''echo '' @ CHR 39 # b64_encode StdEncoding data @ CHR 39 # '' | base64 -d > '' @ ShellQuote path"

text \<open>The reference: words and operators of a command line. Between single quotes everything is literal, a backslash
  makes the next character literal; a character that would start an expansion, a comment or a double-quoted part
  is not accepted, nor is a command that ends inside quotes.\<close>

datatype shell_token = Word string | Op char

datatype shell_mode = Plain | Quoted | Escaped

definition word_of :: "string option \<Rightarrow> string" where
  "word_of acc = (case acc of None \<Rightarrow> '''' | Some w \<Rightarrow> w)"

definition emit :: "string option \<Rightarrow> shell_token list \<Rightarrow> shell_token list" where
  "emit acc ts = (case acc of None \<Rightarrow> ts | Some w \<Rightarrow> Word w # ts)"

fun sh_tokens :: "shell_mode \<Rightarrow> string option \<Rightarrow> string \<Rightarrow> shell_token list option" where
  "sh_tokens Plain acc [] = Some (emit acc [])"
| "sh_tokens Quoted acc [] = None"
| "sh_tokens Escaped acc [] = None"
| "sh_tokens Plain acc (c # s) =
     (if c = CHR 32 \<or> c = CHR 9 then map_option (emit acc) (sh_tokens Plain None s)
      else if c = CHR 39 then sh_tokens Quoted (Some (word_of acc)) s
      else if c = CHR 92 then sh_tokens Escaped acc s
      else if c \<in> {CHR 10, CHR ''|'', CHR ''&'', CHR '';'', CHR ''<'', CHR ''>'', CHR ''('', CHR '')''}
        then map_option (\<lambda>ts. emit acc (Op c # ts)) (sh_tokens Plain None s)
      else if c \<in> {CHR ''$'', CHR 96, CHR 34, CHR ''*'', CHR ''?'', CHR ''['', CHR ''#'', CHR ''~''} then None
      else sh_tokens Plain (Some (word_of acc @ [c])) s)"
| "sh_tokens Quoted acc (c # s) =
     (if c = CHR 39 then sh_tokens Plain acc s else sh_tokens Quoted (Some (word_of acc @ [c])) s)"
| "sh_tokens Escaped acc (c # s) =
     (if c = CHR 10 then sh_tokens Plain acc s else sh_tokens Plain (Some (word_of acc @ [c])) s)"

definition shell_reads :: "string \<Rightarrow> shell_token list option" where
  "shell_reads = sh_tokens Plain None"

lemma word_of_Some [simp]: "word_of (Some w) = w"
  by (simp add: word_of_def)

lemma quoted_body: "sh_tokens Quoted (Some w) (concat (map escape_quote s) @ CHR 39 # rest) = sh_tokens Plain (Some (w @ s)) rest"
  by (induction s arbitrary: w) (auto simp: escape_quote_def)

text \<open>In the middle of any command a quoted text continues the current word by exactly itself.\<close>

lemma quote_extends_word: "sh_tokens Plain acc (ShellQuote s @ rest) = sh_tokens Plain (Some (word_of acc @ s)) rest"
  using quoted_body [of "word_of acc" s rest] by (simp add: ShellQuote_def)

lemma plain_quoted: "CHR 39 \<notin> set s \<Longrightarrow> CHR 39 # s @ CHR 39 # rest = ShellQuote s @ rest"
proof -
  assume "CHR 39 \<notin> set s"
  then have "concat (map escape_quote s) = s" by (induction s) (auto simp: escape_quote_def)
  then show ?thesis by (simp add: ShellQuote_def)
qed

lemma quote_args_tokens:
  "args \<noteq> [] \<Longrightarrow> sh_tokens Plain None (ShellQuoteArgs args @ rest)
     = map_option (\<lambda>ts. map Word (butlast args) @ ts) (sh_tokens Plain (Some (last args)) rest)"
proof (induction args rule: join_at.induct [of _ "CHR 32" args for args])
  case (2 c x)
  then show ?case by (simp add: ShellQuoteArgs_def quote_extends_word word_of_def option.map_ident)
next
  case (3 c x y xs)
  then have "sh_tokens Plain None (ShellQuoteArgs (y # xs) @ rest)
     = map_option (\<lambda>ts. map Word (butlast (y # xs)) @ ts) (sh_tokens Plain (Some (last (y # xs))) rest)" by simp
  then show ?case
    by (simp add: ShellQuoteArgs_def quote_extends_word word_of_def option.map_comp o_def emit_def)
qed simp

lemma quote_ends_word [simp]: "sh_tokens Plain acc (ShellQuote s) = Some [Word (word_of acc @ s)]"
  using quote_extends_word [of acc s "[]"] by (simp add: emit_def)

text \<open>\<open>C21\<close>: a shell reads a list of quoted arguments as exactly these words, whatever bytes they hold, and a quoted text
  anywhere in a command as itself.\<close>

theorem shell_reads_quoted_args:
  "shell_reads (ShellQuoteArgs args) = Some (map Word args)
    \<and> sh_tokens Plain acc (ShellQuote s @ rest) = sh_tokens Plain (Some (word_of acc @ s)) rest"
proof (cases "args = []")
  case False
  then have "map Word (butlast args) @ [Word (last args)] = map Word args"
    by (metis append_butlast_last_id list.map(1,2) map_append)
  then show ?thesis using quote_args_tokens [OF False, of "[]"]
    by (simp add: shell_reads_def quote_extends_word emit_def)
qed (simp add: shell_reads_def ShellQuoteArgs_def quote_extends_word emit_def)

text \<open>The command that writes a file is read as a pipeline of two commands with one redirection, to exactly the
  path, and what it decodes is exactly the data, whatever path and data are.\<close>

theorem write_command_writes_data:
  "\<exists>encoded. shell_reads (Base64DecodeCommand path data) = Some [Word ''echo'', Word encoded, Op CHR ''|'', Word ''base64'',
       Word ''-d'', Op CHR ''>'', Word path] \<and> b64_decode StdEncoding encoded = Some data"
proof (intro exI conjI)
  have "CHR 39 \<notin> set (b64_encode StdEncoding data)" using encode_clean(2) by blast
  then have q: "Base64DecodeCommand path data = ''echo '' @ ShellQuote (b64_encode StdEncoding data) @ '' | base64 -d > '' @ ShellQuote path @ []"
    unfolding Base64DecodeCommand_def by (simp add: plain_quoted del: b64_encode.simps)
  show "shell_reads (Base64DecodeCommand path data) = Some [Word ''echo'', Word (b64_encode StdEncoding data), Op CHR ''|'',
      Word ''base64'', Word ''-d'', Op CHR ''>'', Word path]"
    unfolding q shell_reads_def by (simp only: append_Cons append_Nil) (simp add: quote_extends_word word_of_def emit_def)
qed simp


subsection \<open>Paths\<close>

definition MaxPathLength :: nat where
  "MaxPathLength = 4096"

definition is_control :: "char \<Rightarrow> bool" where
  "is_control c \<longleftrightarrow> (of_char c :: nat) < 32 \<or> c = CHR 0x7F"

definition ValidateRemotePath :: "string \<Rightarrow> goerr option" where
  "ValidateRemotePath p =
     (if p = '''' then Some (ErrF ''path is empty'')
      else if MaxPathLength \<le> length p then Some (ErrF (''path exceeds '' @ string_of_nat MaxPathLength @ '' bytes''))
      else if CHR 0x00 \<in> set p then Some (ErrF ''path contains NUL byte'')
      else if list_ex is_control p then Some (ErrF ''path contains control character'')
      else None)"

text \<open>\<open>path.Clean\<close> of a rooted path: the segments that remain, and the path they spell.\<close>

fun clean_onto :: "string list \<Rightarrow> string list \<Rightarrow> string list" where
  "clean_onto done [] = rev done"
| "clean_onto done (seg # segs) =
     (if seg = '''' \<or> seg = ''.'' then clean_onto done segs
      else if seg = ''..'' then clean_onto (tl done) segs
      else clean_onto (seg # done) segs)"

definition segments :: "string \<Rightarrow> string list" where
  "segments p = clean_onto [] (split_at CHR ''/'' p)"

definition Clean_rooted :: "string \<Rightarrow> string" where
  "Clean_rooted p = CHR ''/'' # join_at CHR ''/'' (segments p)"

definition IsPathWithinRoot :: "string \<Rightarrow> string \<Rightarrow> bool" where
  "IsPathWithinRoot root target =
     (if root = '''' \<or> target = '''' then False
      else (let cleanRoot = Clean_rooted root; cleanTarget = Clean_rooted target in
        if cleanRoot = ''/'' then True
        else if cleanTarget = cleanRoot then True
        else HasPrefix cleanTarget (cleanRoot @ ''/'')))"

definition plain_segment :: "string \<Rightarrow> bool" where
  "plain_segment seg \<longleftrightarrow> seg \<noteq> '''' \<and> seg \<noteq> ''.'' \<and> seg \<noteq> ''..'' \<and> CHR ''/'' \<notin> set seg"

lemma clean_onto_plain:
  "list_all (\<lambda>seg. CHR ''/'' \<notin> set seg) segs \<Longrightarrow> list_all plain_segment acc \<Longrightarrow> list_all plain_segment (clean_onto acc segs)"
proof (induction segs arbitrary: acc)
  case (Cons seg segs)
  have "list_all plain_segment (tl acc)" using Cons.prems(2) by (cases acc) auto
  moreover have "seg = '''' \<or> seg = ''.'' \<or> seg = ''..'' \<or> plain_segment seg" using Cons.prems(1) by (auto simp: plain_segment_def)
  ultimately show ?case using Cons.IH Cons.prems by (elim disjE) simp_all
qed simp

lemma segments_plain: "\<forall>seg \<in> set (segments p). plain_segment seg"
  using clean_onto_plain [of "split_at CHR ''/'' p" "[]"] unfolding segments_def
  by (auto simp: list_all_iff dest: split_at_no_sep)

lemma split_at_appended: "split_at c (x @ c # y) = split_at c x @ split_at c y"
  by (induction x) (auto split: list.splits)

lemma split_at_join: "xs \<noteq> [] \<Longrightarrow> \<forall>x \<in> set xs. c \<notin> set x \<Longrightarrow> split_at c (join_at c xs) = xs"
  by (induction c xs rule: join_at.induct) auto

lemma join_at_append: "xs \<noteq> [] \<Longrightarrow> ys \<noteq> [] \<Longrightarrow> join_at c (xs @ ys) = join_at c xs @ c # join_at c ys"
proof (induction c xs rule: join_at.induct)
  case (2 c x)
  then show ?case by (cases ys) auto
qed auto

lemma join_prefix:
  assumes "\<forall>x \<in> set (as @ bs). c \<notin> set x" and "as \<noteq> []" "bs \<noteq> []"
  shows "HasPrefix (join_at c bs) (join_at c as @ [c]) \<longleftrightarrow> strict_prefix as bs"
proof
  assume "HasPrefix (join_at c bs) (join_at c as @ [c])"
  then obtain t where "join_at c bs = join_at c as @ c # t" by (auto simp: HasPrefix_iff)
  moreover have "split_at c (join_at c bs) = bs" "split_at c (join_at c as) = as"
    using assms by (simp_all add: split_at_join)
  ultimately have "bs = as @ split_at c t" by (metis split_at_appended)
  then show "strict_prefix as bs" by (metis split_at_nonempty strict_prefixI' append_self_conv prefixI strict_prefix_def)
next
  assume "strict_prefix as bs"
  then obtain cs where "bs = as @ cs" "cs \<noteq> []" by (auto simp: strict_prefix_def prefix_def)
  then show "HasPrefix (join_at c bs) (join_at c as @ [c])" using assms(2) by (simp add: join_at_append HasPrefix_iff)
qed

lemma join_empty: "join_at c xs = '''' \<Longrightarrow> \<forall>x \<in> set xs. x \<noteq> '''' \<Longrightarrow> xs = []"
  by (cases "(c, xs)" rule: join_at.cases) auto

text \<open>The containment test compares text, and decides exactly whether the segments that are left of the root, after
  dots and parents are resolved, are a prefix of those of the target: no sibling whose name only begins like the
  root passes, nor any path that climbs out.\<close>

theorem within_root_iff_prefix:
  "IsPathWithinRoot root target \<longleftrightarrow> root \<noteq> '''' \<and> target \<noteq> '''' \<and> prefix (segments root) (segments target)"
proof -
  let ?r = "segments root" and ?t = "segments target"
  have plain: "\<forall>x \<in> set (?r @ ?t). CHR ''/'' \<notin> set x" "\<forall>x \<in> set ?r. x \<noteq> ''''" "\<forall>x \<in> set ?t. x \<noteq> ''''"
    using segments_plain by (auto simp: plain_segment_def)
  have inj: "?t = ?r" if "join_at CHR ''/'' ?t = join_at CHR ''/'' ?r" "?r \<noteq> []"
  proof -
    have "?t \<noteq> []" using that plain(2) join_empty [of "CHR ''/''" ?r] by auto
    then show ?thesis using that plain(1) split_at_join by (metis UnI1 UnI2 set_append)
  qed
  have pre: "HasPrefix (join_at CHR ''/'' ?t) (join_at CHR ''/'' ?r @ ''/'') \<longleftrightarrow> strict_prefix ?r ?t" if "?r \<noteq> []"
  proof (cases "?t = []")
    case True
    then show ?thesis by (simp add: HasPrefix_def)
  next
    case False
    then show ?thesis using that plain(1) by (intro join_prefix) auto
  qed
  show ?thesis
  proof (cases "?r = []")
    case True
    then show ?thesis by (simp add: IsPathWithinRoot_def Clean_rooted_def)
  next
    case False
    then have "join_at CHR ''/'' ?r \<noteq> ''''" using plain(2) join_empty by blast
    moreover have "HasPrefix (Clean_rooted target) (Clean_rooted root @ ''/'') \<longleftrightarrow> strict_prefix ?r ?t"
      using pre [OF False] by (simp add: Clean_rooted_def HasPrefix_def)
    moreover have "Clean_rooted target = Clean_rooted root \<longleftrightarrow> ?t = ?r" using inj False by (auto simp: Clean_rooted_def)
    ultimately show ?thesis by (auto simp: IsPathWithinRoot_def Let_def strict_prefix_def Clean_rooted_def)
  qed
qed

subsection \<open>Validation of fields\<close>

definition MaxTagLength :: nat where "MaxTagLength = 64"
definition MaxTagsCount :: nat where "MaxTagsCount = 20"
definition MaxFieldNameLength :: nat where "MaxFieldNameLength = 255"
definition MaxDescriptionLength :: nat where "MaxDescriptionLength = 1024"

definition ValidatePort :: "int \<Rightarrow> bool" where
  "ValidatePort port \<longleftrightarrow> 1 \<le> port \<and> port \<le> 65535"

definition ValidateStringLength :: "string \<Rightarrow> int \<Rightarrow> int \<Rightarrow> bool" where
  "ValidateStringLength s minLen maxLen \<longleftrightarrow> minLen \<le> int (length s) \<and> int (length s) \<le> maxLen"

definition ValidateRequiredString :: "string \<Rightarrow> int \<Rightarrow> bool" where
  "ValidateRequiredString s maxLen \<longleftrightarrow> TrimSpace s \<noteq> '''' \<and> int (length (TrimSpace s)) \<le> maxLen"

definition ValidateOptionalString :: "string \<Rightarrow> int \<Rightarrow> bool" where
  "ValidateOptionalString s maxLen \<longleftrightarrow> s = '''' \<or> int (length s) \<le> maxLen"

definition ValidateTags :: "string list \<Rightarrow> bool" where
  "ValidateTags tags \<longleftrightarrow> \<not> MaxTagsCount < length tags \<and> list_all (\<lambda>tag. \<not> MaxTagLength < length tag) tags"

end
