(* ===== verification/Transfers.thy ===== *)
theory Transfers
  imports World GoText
begin

section \<open>Resumable transfers: checkpoints, decisions and strategies (\<open>mod/transfer\<close>)\<close>

text \<open>
  The persisted checkpoints and their reconciliation, the availability of the direct path, the choice of a
  strategy, the classification of failures and of Docker volumes. SSH clients are numbers; what a host does with
  a command or a file is an argument (\<open>hosts\<close>) over an arbitrary state. Progress callbacks, durations and speeds
  are not modelled.
\<close>

subsection \<open>Errors (\<open>errors.go\<close>)\<close>

definition ErrTransferReconcileFailed where "ErrTransferReconcileFailed = ErrNew ''transfer reconcile failed''"
definition ErrTransferStrategyUnavailable where "ErrTransferStrategyUnavailable = ErrNew ''transfer strategy unavailable''"
definition ErrTransferSourceUnreachable where "ErrTransferSourceUnreachable = ErrNew ''transfer source unreachable''"
definition ErrTransferTargetUnreachable where "ErrTransferTargetUnreachable = ErrNew ''transfer target unreachable''"
definition ErrTransferInvalidPath where "ErrTransferInvalidPath = ErrNew ''transfer path invalid''"
definition ErrTransferAuth where "ErrTransferAuth = ErrNew ''transfer auth failed''"
definition ErrTransferOutputCap where "ErrTransferOutputCap = ErrNew ''transfer output cap exceeded''"
definition ErrTransferInactivity where "ErrTransferInactivity = ErrNew ''transfer inactivity timeout''"
definition ErrTransferChecksumMismatch where "ErrTransferChecksumMismatch = ErrNew ''transfer checksum mismatch''"
definition ErrTransferTopologyUnsupported where "ErrTransferTopologyUnsupported = ErrNew ''transfer topology unsupported''"
definition ErrTransferPartialTransfer where "ErrTransferPartialTransfer = ErrNew ''transfer partial (some files not copied)''"
definition ErrTransferProtocol where "ErrTransferProtocol = ErrNew ''transfer protocol error''"
definition ErrTransferRemoteFailure where "ErrTransferRemoteFailure = ErrNew ''transfer remote failure''"

lemmas transfer_errors = ErrTransferReconcileFailed_def ErrTransferStrategyUnavailable_def ErrTransferSourceUnreachable_def
  ErrTransferTargetUnreachable_def ErrTransferInvalidPath_def ErrTransferAuth_def ErrTransferOutputCap_def
  ErrTransferInactivity_def ErrTransferChecksumMismatch_def ErrTransferTopologyUnsupported_def
  ErrTransferPartialTransfer_def ErrTransferProtocol_def ErrTransferRemoteFailure_def

definition rsyncExitErrors :: "(int \<times> goerr option) list" where
  "rsyncExitErrors = [(0, None), (23, Some ErrTransferPartialTransfer), (24, Some ErrTransferPartialTransfer),
     (12, Some ErrTransferProtocol), (13, Some ErrTransferProtocol), (14, Some ErrTransferProtocol),
     (21, Some ErrTransferAuth), (255, Some ErrTransferRemoteFailure)]"

definition classifyRsyncExit :: "int \<Rightarrow> goerr option" where
  "classifyRsyncExit code = (case map_of rsyncExitErrors code of
       Some e \<Rightarrow> e
     | None \<Rightarrow> if code = 0 then None
         else Some (ErrWrap '''' ErrTransferStrategyUnavailable ('': rsync exit '' @ string_of_int code)))"

text \<open>The terminal classification of a transfer (\<open>checksum.go\<close>).\<close>

datatype TransferTerminalState = TerminalOK | TerminalFailed | TerminalDegraded | TerminalManualIntervention

definition TerminalStateForError :: "goerr option \<Rightarrow> TransferTerminalState" where
  "TerminalStateForError err = (case err of
       None \<Rightarrow> TerminalOK
     | Some e \<Rightarrow>
         if errors_is e ErrTransferChecksumMismatch \<or> errors_is e ErrTransferReconcileFailed then TerminalManualIntervention
         else if errors_is e ErrTransferStrategyUnavailable \<or> errors_is e ErrTransferSourceUnreachable
           \<or> errors_is e ErrTransferTargetUnreachable \<or> errors_is e ErrTransferTopologyUnsupported then TerminalFailed
         else if errors_is e ErrTransferAuth \<or> errors_is e ErrTransferInactivity \<or> errors_is e ErrTransferOutputCap
           \<or> errors_is e ErrTransferProtocol \<or> errors_is e ErrTransferPartialTransfer
           \<or> errors_is e ErrTransferRemoteFailure \<or> errors_is e ErrTransferInvalidPath then TerminalFailed
         else TerminalManualIntervention)"

subsection \<open>Checkpoints (\<open>checkpoint.go\<close>)\<close>

datatype ReconcileVerdict = VerdictResume | VerdictFreshStart | VerdictManualIntervention

record TransferCheckpoint =
  cp_ID :: int
  cp_TransferID :: string
  cp_MigrationID :: int
  cp_Category :: string
  cp_FileName :: string
  cp_Strategy :: string
  cp_Mode :: string
  cp_SourceHost :: string
  cp_SourcePath :: string
  cp_TargetHost :: string
  cp_TargetPath :: string
  cp_TotalBytes :: int
  cp_BytesTransferred :: int
  cp_Resumable :: bool
  cp_SourceSnapshot :: string
  cp_TargetPartialState :: string
  cp_ChecksumSource :: string
  cp_ChecksumTarget :: string
  cp_LastVerifiedPhase :: string
  cp_StartedAt :: string
  cp_UpdatedAt :: string

record ReconcileEvidence =
  ev_CurrentSourceSnapshot :: string
  ev_PartialTargetExists :: bool
  ev_CurrentTargetPartialState :: string
  ev_StrategyStillValid :: bool

definition Reconcile :: "TransferCheckpoint option \<Rightarrow> ReconcileEvidence \<Rightarrow> ReconcileVerdict \<times> goerr option" where
  "Reconcile checkpoint ev = (case checkpoint of
       None \<Rightarrow> (VerdictFreshStart, None)
     | Some cp \<Rightarrow>
         if \<not> ev_StrategyStillValid ev then
           (VerdictManualIntervention, Some (ErrWrap '''' ErrTransferReconcileFailed
              ('': strategy no longer valid for transfer '' @ cp_TransferID cp)))
         else if cp_SourceSnapshot cp \<noteq> '''' \<and> ev_CurrentSourceSnapshot ev \<noteq> ''''
             \<and> cp_SourceSnapshot cp \<noteq> ev_CurrentSourceSnapshot ev then
           (VerdictManualIntervention, Some (ErrWrap '''' ErrTransferReconcileFailed
              ('': source snapshot changed for transfer '' @ cp_TransferID cp)))
         else if \<not> ev_PartialTargetExists ev \<and> cp_BytesTransferred cp = 0 then (VerdictFreshStart, None)
         else if ev_PartialTargetExists ev \<and> cp_TargetPartialState cp \<noteq> ''''
             \<and> ev_CurrentTargetPartialState ev \<noteq> '''' \<and> cp_TargetPartialState cp \<noteq> ev_CurrentTargetPartialState ev then
           (VerdictManualIntervention, Some (ErrWrap '''' ErrTransferReconcileFailed
              ('': target partial state mismatch for transfer '' @ cp_TransferID cp)))
         else if ev_PartialTargetExists ev then (VerdictResume, None)
         else (VerdictManualIntervention, Some (ErrWrap '''' ErrTransferReconcileFailed
              ('': partial target missing after '' @ string_of_int (cp_BytesTransferred cp)
                @ '' bytes transferred for transfer '' @ cp_TransferID cp))))"

text \<open>The table \<open>transfer_checkpoints\<close>, unique on transfer and file name; \<open>fmt\<close> is the RFC 3339 text of a time. The
  column of \<open>Resumable\<close> holds 0 or 1, which \<open>boolToInt\<close> and the comparison on reading turn into the flag.\<close>

record transfer_db =
  tp_rows :: "TransferCheckpoint list"
  tp_next :: int

type_synonym 'e transfer_world = "(transfer_db, 'e) world"

definition same_transfer :: "string \<Rightarrow> string \<Rightarrow> TransferCheckpoint \<Rightarrow> bool" where
  "same_transfer tid file r \<longleftrightarrow> cp_TransferID r = tid \<and> cp_FileName r = file"

definition overwrite_checkpoint :: "string \<Rightarrow> TransferCheckpoint \<Rightarrow> TransferCheckpoint \<Rightarrow> TransferCheckpoint" where
  "overwrite_checkpoint now cp r = r\<lparr>cp_Strategy := cp_Strategy cp, cp_Mode := cp_Mode cp,
     cp_TotalBytes := cp_TotalBytes cp, cp_BytesTransferred := cp_BytesTransferred cp,
     cp_Resumable := cp_Resumable cp, cp_SourceSnapshot := cp_SourceSnapshot cp,
     cp_TargetPartialState := cp_TargetPartialState cp, cp_ChecksumSource := cp_ChecksumSource cp,
     cp_ChecksumTarget := cp_ChecksumTarget cp, cp_LastVerifiedPhase := cp_LastVerifiedPhase cp, cp_UpdatedAt := now\<rparr>"

definition upsert_checkpoint :: "(int \<Rightarrow> string) \<Rightarrow> TransferCheckpoint \<Rightarrow> int \<Rightarrow> transfer_db \<Rightarrow> unit res \<times> transfer_db" where
  "upsert_checkpoint fmt cp now d =
     (let c = (if cp_StartedAt cp = '''' then cp\<lparr>cp_StartedAt := fmt now\<rparr> else cp);
          hit = same_transfer (cp_TransferID c) (cp_FileName c)
      in if list_ex hit (tp_rows d)
         then (Inr (), d\<lparr>tp_rows := map (\<lambda>r. if hit r then overwrite_checkpoint (fmt now) c r else r) (tp_rows d)\<rparr>)
         else (Inr (), d\<lparr>tp_rows := tp_rows d @ [c\<lparr>cp_ID := tp_next d, cp_UpdatedAt := fmt now\<rparr>], tp_next := tp_next d + 1\<rparr>))"

definition SaveCheckpoint :: "(int \<Rightarrow> string) \<Rightarrow> TransferCheckpoint \<Rightarrow> 'e transfer_world \<Rightarrow> unit res \<times> 'e transfer_world" where
  "SaveCheckpoint fmt cp = db_write (upsert_checkpoint fmt cp)"

definition GetCheckpoint :: "string \<Rightarrow> string \<Rightarrow> 'e transfer_world \<Rightarrow> TransferCheckpoint res \<times> 'e transfer_world" where
  "GetCheckpoint tid file = db_read (\<lambda>d. case find (same_transfer tid file) (tp_rows d) of
       None \<Rightarrow> Inl (ErrNew ''sql: no rows in result set'')
     | Some r \<Rightarrow> Inr r)"

definition DeleteCheckpoint :: "string \<Rightarrow> string \<Rightarrow> 'e transfer_world \<Rightarrow> unit res \<times> 'e transfer_world" where
  "DeleteCheckpoint tid file = db_write (\<lambda>_ d. (Inr (), d\<lparr>tp_rows := filter (\<lambda>r. \<not> same_transfer tid file r) (tp_rows d)\<rparr>))"

definition DeleteCheckpoints :: "string \<Rightarrow> 'e transfer_world \<Rightarrow> unit res \<times> 'e transfer_world" where
  "DeleteCheckpoints tid = db_write (\<lambda>_ d. (Inr (), d\<lparr>tp_rows := filter (\<lambda>r. cp_TransferID r \<noteq> tid) (tp_rows d)\<rparr>))"

subsection \<open>Hosts, targets and options (\<open>strategy.go\<close>)\<close>

text \<open>
  What the package calls: commands, uploads and downloads of an SSH client, the same for the file system and the
  processes of the local host, the cancellation of the context and the waits. A download gives the bytes it has
  handed to its writer, also when it fails. \<open>ho_isLong\<close> says whether a client is a \<open>LongTransferExecuter\<close>.
\<close>

datatype file_stat = StatSize int | StatMissing goerr | StatFailed goerr

datatype rsync_run = NotStarted goerr | RunExited int string | RunFailed goerr string

record 'h hosts =
  ho_exec :: "nat \<Rightarrow> string \<Rightarrow> 'h \<Rightarrow> (string \<times> string \<times> int) res \<times> 'h"
  ho_upload :: "nat \<Rightarrow> string \<Rightarrow> string \<Rightarrow> 'h \<Rightarrow> goerr option \<times> 'h"
  ho_download :: "nat \<Rightarrow> string \<Rightarrow> 'h \<Rightarrow> (goerr option \<times> string) \<times> 'h"
  ho_isLong :: "nat \<Rightarrow> bool"
  ho_uploadLong :: "nat \<Rightarrow> string \<Rightarrow> string \<Rightarrow> 'h \<Rightarrow> goerr option \<times> 'h"
  ho_downloadLong :: "nat \<Rightarrow> string \<Rightarrow> 'h \<Rightarrow> (goerr option \<times> string) \<times> 'h"
  ho_localExec :: "string list \<Rightarrow> 'h \<Rightarrow> (string \<times> int) res \<times> 'h"
  ho_rsync :: "string list \<Rightarrow> 'h \<Rightarrow> rsync_run \<times> 'h"
  ho_stat :: "string \<Rightarrow> 'h \<Rightarrow> file_stat \<times> 'h"
  ho_read :: "string \<Rightarrow> 'h \<Rightarrow> string res \<times> 'h"
  ho_open :: "string \<Rightarrow> bool \<Rightarrow> 'h \<Rightarrow> goerr option \<times> 'h"
  ho_append :: "string \<Rightarrow> string \<Rightarrow> 'h \<Rightarrow> goerr option \<times> 'h"
  ho_remove :: "string \<Rightarrow> 'h \<Rightarrow> (goerr \<times> bool) option \<times> 'h"
  ho_removeAll :: "string \<Rightarrow> 'h \<Rightarrow> goerr option \<times> 'h"
  ho_mkdirAll :: "string \<Rightarrow> 'h \<Rightarrow> goerr option \<times> 'h"
  ho_walk :: "string \<Rightarrow> 'h \<Rightarrow> (string \<times> int) list res \<times> 'h"
  ho_ctxErr :: "'h \<Rightarrow> goerr option"
  ho_wait :: "nat \<Rightarrow> 'h \<Rightarrow> goerr option \<times> 'h"
  ho_sha256hex :: "string \<Rightarrow> string"

record TransferTarget =
  tt_Host :: string
  tt_Port :: int
  tt_User :: string
  tt_Path :: string
  tt_SSHClient :: "nat option"
  tt_IsLocal :: bool

record TransferOptions =
  to_Resume :: bool
  to_MaxRetries :: int
  to_Callback :: bool

record TransferResult =
  tr_BytesTransferred :: int
  tr_Resumed :: bool
  tr_Strategy :: string

datatype TransferStrategy = SCPStrategy | RsyncStrategy

definition strategy_Name :: "TransferStrategy \<Rightarrow> string" where
  "strategy_Name s = (case s of SCPStrategy \<Rightarrow> ''scp'' | RsyncStrategy \<Rightarrow> ''rsync'')"

definition CanResume :: "TransferStrategy \<Rightarrow> bool" where
  "CanResume s = True"

definition EstimateSpeed :: "TransferStrategy \<Rightarrow> int" where
  "EstimateSpeed s = (case s of SCPStrategy \<Rightarrow> 10 * 2 ^ 20 | RsyncStrategy \<Rightarrow> 50 * 2 ^ 20)"

subsection \<open>Availability of the direct path (\<open>availability.go\<close>)\<close>

record RsyncAvailability =
  av_SourceRsync :: bool
  av_TargetRsync :: bool
  av_Reachable :: bool
  av_Err :: "goerr option"

definition av_OK :: "RsyncAvailability \<Rightarrow> bool" where
  "av_OK a \<longleftrightarrow> av_SourceRsync a \<and> av_TargetRsync a \<and> av_Reachable a \<and> av_Err a = None"

definition av_Mode :: "RsyncAvailability \<Rightarrow> string" where
  "av_Mode a = (if av_OK a then ''direct'' else ''blocked'')"

text \<open>A local command is split at spaces and run without a shell.\<close>

definition runLocal :: "'h hosts \<Rightarrow> string \<Rightarrow> 'h \<Rightarrow> (string \<times> int) res \<times> 'h" where
  "runLocal ho cmd h = (if Fields cmd = [] then (Inl (ErrF ''empty probe command''), h)
     else ho_localExec ho (Fields cmd) h)"

definition runOnTarget :: "'h hosts \<Rightarrow> TransferTarget \<Rightarrow> string \<Rightarrow> 'h \<Rightarrow> (string \<times> int) res \<times> 'h" where
  "runOnTarget ho t cmd h = (case (tt_IsLocal t, tt_SSHClient t) of
       (False, Some c) \<Rightarrow> (case ho_exec ho c cmd h of
            (Inl e, h1) \<Rightarrow> (Inl e, h1)
          | (Inr (out, _, code), h1) \<Rightarrow> (Inr (out, code), h1))
     | _ \<Rightarrow> runLocal ho cmd h)"

definition probeRsyncPresent :: "'h hosts \<Rightarrow> TransferTarget \<Rightarrow> 'h \<Rightarrow> bool \<times> 'h" where
  "probeRsyncPresent ho t h =
     (case runOnTarget ho t ''command -v rsync >/dev/null 2>&1 && echo ok'' h of
        (Inl _, h1) \<Rightarrow> (False, h1)
      | (Inr (out, code), h1) \<Rightarrow> (if code \<noteq> 0 then False else Contains out ''ok'', h1))"

definition reach_command :: "TransferTarget \<Rightarrow> string" where
  "reach_command dst =
     ''ssh -o BatchMode=yes -o StrictHostKeyChecking=accept-new -o ConnectTimeout=5 '' @
     (if tt_Port dst \<noteq> 0 \<and> tt_Port dst \<noteq> 22 then ''-p '' @ string_of_int (tt_Port dst) @ '' '' else '''') @
     tt_User dst @ ''@'' @ tt_Host dst @ '' '' @ [CHR 39] @ ''true'' @ [CHR 39]"

definition probeReachability :: "'h hosts \<Rightarrow> TransferTarget \<Rightarrow> TransferTarget \<Rightarrow> 'h \<Rightarrow> bool \<times> 'h" where
  "probeReachability ho src dst h =
     (if tt_IsLocal dst \<or> tt_SSHClient dst = None then (True, h)
      else (case runOnTarget ho src (reach_command dst) h of
          (Inl _, h1) \<Rightarrow> (False, h1)
        | (Inr (_, code), h1) \<Rightarrow> (code = 0, h1)))"

definition Availability :: "'h hosts \<Rightarrow> TransferTarget \<Rightarrow> TransferTarget \<Rightarrow> 'h \<Rightarrow> RsyncAvailability \<times> 'h" where
  "Availability ho src dst h =
     (let a = \<lparr>av_SourceRsync = False, av_TargetRsync = False, av_Reachable = False, av_Err = None\<rparr>;
          invalid = (a\<lparr>av_Err := Some ErrTransferInvalidPath\<rparr>, h)
      in if tt_IsLocal src \<and> tt_IsLocal dst then invalid
         else if \<not> tt_IsLocal src \<and> tt_SSHClient src = None then invalid
         else if \<not> tt_IsLocal dst \<and> tt_SSHClient dst = None then invalid
         else (let (s, h1) = probeRsyncPresent ho src h in
           if \<not> s then (a\<lparr>av_Err := Some (ErrWrap '''' ErrTransferSourceUnreachable '': rsync not present on source'')\<rparr>, h1)
           else (let (t, h2) = probeRsyncPresent ho dst h1; a1 = a\<lparr>av_SourceRsync := True\<rparr> in
             if \<not> t then (a1\<lparr>av_Err := Some (ErrWrap '''' ErrTransferTargetUnreachable '': rsync not present on target'')\<rparr>, h2)
             else (let (r, h3) = probeReachability ho src dst h2; a2 = a1\<lparr>av_TargetRsync := True\<rparr> in
               if \<not> r then (a2\<lparr>av_Err := Some (ErrWrap '''' ErrTransferTargetUnreachable '': source cannot reach target over SSH'')\<rparr>, h3)
               else (a2\<lparr>av_Reachable := True\<rparr>, h3)))))"

text \<open>\<open>IsAvailable\<close> (\<open>rsync.go\<close>) only looks at the source.\<close>

definition IsAvailable :: "'h hosts \<Rightarrow> TransferTarget \<Rightarrow> 'h \<Rightarrow> bool \<times> 'h" where
  "IsAvailable ho src h =
     (if tt_IsLocal src then (False, h)
      else (case tt_SSHClient src of
          None \<Rightarrow> (False, h)
        | Some c \<Rightarrow> (case ho_exec ho c ''which rsync 2>/dev/null && rsync --version 2>/dev/null | head -1'' h of
              (Inl _, h1) \<Rightarrow> (False, h1)
            | (Inr (out, _, code), h1) \<Rightarrow> (if code \<noteq> 0 then False else TrimSpace out \<noteq> '''', h1))))"

subsection \<open>The choice of a strategy (\<open>strategy.go\<close>, \<open>volume.go\<close>)\<close>

definition RsyncThreshold :: int where
  "RsyncThreshold = 2 ^ 30"

definition Select :: "'h hosts \<Rightarrow> int \<Rightarrow> TransferOptions \<Rightarrow> TransferTarget \<Rightarrow> 'h \<Rightarrow> TransferStrategy \<times> 'h" where
  "Select ho fileSize opts src h =
     (let (resumable, h1) = (if to_Resume opts then IsAvailable ho src h else (False, h)) in
      if resumable then (RsyncStrategy, h1)
      else (let (large, h2) = (if RsyncThreshold < fileSize then IsAvailable ho src h1 else (False, h1)) in
        if large then (RsyncStrategy, h2) else (SCPStrategy, h2)))"

record SelectResult =
  sr_Strategy :: TransferStrategy
  sr_Mode :: string
  sr_Degraded :: bool
  sr_Available :: "RsyncAvailability option"

definition validateEndpoints :: "TransferTarget \<Rightarrow> TransferTarget \<Rightarrow> goerr option" where
  "validateEndpoints src dst =
     (if \<not> tt_IsLocal src \<and> tt_SSHClient src = None then
        Some (ErrWrap '''' ErrTransferInvalidPath '': remote source has no SSH client'')
      else if \<not> tt_IsLocal dst \<and> tt_SSHClient dst = None then
        Some (ErrWrap '''' ErrTransferInvalidPath '': remote target has no SSH client'')
      else None)"

definition go_bool :: "bool \<Rightarrow> string" where
  "go_bool b = (if b then ''true'' else ''false'')"

definition SelectWithFallback ::
  "'h hosts \<Rightarrow> TransferTarget \<Rightarrow> TransferTarget \<Rightarrow> bool \<Rightarrow> 'h \<Rightarrow> SelectResult res \<times> 'h" where
  "SelectWithFallback ho src dst allowDegraded h =
     (let (avail, h1) = Availability ho src dst h in
      if av_OK avail then
        (Inr \<lparr>sr_Strategy = RsyncStrategy, sr_Mode = ''direct'', sr_Degraded = False, sr_Available = Some avail\<rparr>, h1)
      else if \<not> allowDegraded then
        (Inl (ErrWrap '''' ErrTransferStrategyUnavailable ('': direct rsync unavailable (src='' @
           go_bool (av_SourceRsync avail) @ '' tgt='' @ go_bool (av_TargetRsync avail) @ '' reach='' @
           go_bool (av_Reachable avail) @ '')'')), h1)
      else (case validateEndpoints src dst of
          Some err \<Rightarrow> (Inl (ErrWrap '''' ErrTransferStrategyUnavailable ('': '' @ err_text err)), h1)
        | None \<Rightarrow> (Inr \<lparr>sr_Strategy = SCPStrategy, sr_Mode = ''degraded'', sr_Degraded = True, sr_Available = None\<rparr>, h1)))"

datatype VolumeKind = VolumeBind | VolumeNamed | VolumeUnknown

definition ClassifyVolumePath :: "string \<Rightarrow> VolumeKind" where
  "ClassifyVolumePath path =
     (let p = TrimSpace path in
      if p = '''' then VolumeUnknown
      else if CHR ''/'' \<notin> set p then VolumeNamed
      else if HasPrefix p ''/var/lib/docker/volumes/'' \<and> HasSuffix p ''/_data'' then VolumeNamed
      else if HasPrefix p ''/'' then VolumeBind
      else VolumeUnknown)"

definition ShouldCompress :: "string \<Rightarrow> string \<Rightarrow> bool" where
  "ShouldCompress category samplePath =
     (if category = ''docker-volume'' then False
      else if category = ''configs'' then True
      else list_ex (HasSuffix (ToLower samplePath)) [''.txt'', ''.json'', ''.yaml'', ''.yml'', ''.conf'', ''.cfg'', ''.ini'',
        ''.xml'', ''.log'', ''.html'', ''.css'', ''.js'', ''.md''])"

record DockerVolumePlan =
  dp_Kind :: VolumeKind
  dp_Direct :: bool
  dp_Degraded :: bool
  dp_Mode :: string

definition PlanDockerVolume ::
  "'h hosts \<Rightarrow> string \<Rightarrow> TransferTarget \<Rightarrow> TransferTarget \<Rightarrow> bool \<Rightarrow> 'h \<Rightarrow> DockerVolumePlan \<times> 'h" where
  "PlanDockerVolume ho path src dst allowDegraded h =
     (let kind = ClassifyVolumePath path;
          plan = \<lparr>dp_Kind = kind, dp_Direct = False, dp_Degraded = False, dp_Mode = ''''\<rparr>
      in if kind = VolumeUnknown then (plan, h)
         else (case SelectWithFallback ho src dst allowDegraded h of
             (Inl _, h1) \<Rightarrow> (plan, h1)
           | (Inr res, h1) \<Rightarrow>
               if sr_Degraded res then (plan\<lparr>dp_Degraded := True, dp_Mode := ''degraded''\<rparr>, h1)
               else (plan\<lparr>dp_Direct := True, dp_Mode := ''direct''\<rparr>, h1)))"

end
