(* ===== verification/FileCopy.thy ===== *)
theory FileCopy
  imports Transfers ShellText
begin

section \<open>Copying files and directories (\<open>mod/transfer\<close>: \<open>helpers.go\<close>, \<open>checksum.go\<close>, \<open>scp.go\<close>, \<open>rsync.go\<close>, \<open>directory.go\<close>, \<open>step.go\<close>)\<close>

text \<open>
  Every command is the text the code sends. A reader over a local file is the content read when it is opened;
  an upload that succeeds has read it to its end. Progress callbacks and durations are left out.
\<close>

subsection \<open>Files of a target (\<open>helpers.go\<close>)\<close>

text \<open>\<open>fmt.Sscanf\<close> with \<open>%d\<close>: leading spaces, a sign, digits; what follows is not read.\<close>

definition Sscanf_d :: "string \<Rightarrow> int option" where
  "Sscanf_d s =
     (let t = dropWhile (\<lambda>c. c = CHR 32 \<or> c = CHR 9) s;
          sign = (if HasPrefix t ''-'' \<or> HasPrefix t ''+'' then take 1 t else '''')
      in Atoi (sign @ takeWhile is_digit (drop (length sign) t)))"

definition in_quotes :: "string \<Rightarrow> string" where
  "in_quotes p = CHR 39 # p @ [CHR 39]"

definition no_client :: "string \<Rightarrow> goerr" where
  "no_client what = ErrF (what @ '' has no SSH client'')"

definition stat_command :: "string \<Rightarrow> string" where
  "stat_command path = ''stat -c %s '' @ in_quotes path @ '' 2>/dev/null || stat -f %z '' @ in_quotes path @ '' 2>/dev/null''"

definition getRemoteFileSize :: "'h hosts \<Rightarrow> nat \<Rightarrow> string \<Rightarrow> 'h \<Rightarrow> int res \<times> 'h" where
  "getRemoteFileSize ho c path h = (case ho_exec ho c (stat_command path) h of
       (Inl err, h1) \<Rightarrow> (Inl (ErrWrap ''stat remote file: '' err ''''), h1)
     | (Inr (out, _, code), h1) \<Rightarrow>
         if code \<noteq> 0 then (Inl (ErrF (''stat remote file: exit code '' @ string_of_int code)), h1)
         else (case Sscanf_d (TrimSpace out) of
             None \<Rightarrow> (Inl (ErrF (''parse file size from '' @ quoted (TrimSpace out))), h1)
           | Some n \<Rightarrow> (Inr n, h1)))"

definition getLocalFileSize :: "'h hosts \<Rightarrow> string \<Rightarrow> 'h \<Rightarrow> int res \<times> 'h" where
  "getLocalFileSize ho path h = (case ho_stat ho path h of
       (StatSize n, h1) \<Rightarrow> (Inr n, h1)
     | (StatMissing err, h1) \<Rightarrow> (Inl (ErrWrap ''stat local file: '' err ''''), h1)
     | (StatFailed err, h1) \<Rightarrow> (Inl (ErrWrap ''stat local file: '' err ''''), h1))"

definition GetFileSize :: "'h hosts \<Rightarrow> TransferTarget \<Rightarrow> 'h \<Rightarrow> int res \<times> 'h" where
  "GetFileSize ho t h =
     (if tt_IsLocal t then getLocalFileSize ho (tt_Path t) h
      else (case tt_SSHClient t of
          None \<Rightarrow> (Inl (no_client ''remote target''), h)
        | Some c \<Rightarrow> getRemoteFileSize ho c (tt_Path t) h))"

definition exists_command :: "string \<Rightarrow> string" where
  "exists_command path = ''test -f '' @ in_quotes path @ '' && echo yes || echo no''"

definition remoteFileExists :: "'h hosts \<Rightarrow> nat \<Rightarrow> string \<Rightarrow> 'h \<Rightarrow> bool res \<times> 'h" where
  "remoteFileExists ho c path h = (case ho_exec ho c (exists_command path) h of
       (Inl err, h1) \<Rightarrow> (Inl (ErrWrap ''check remote file: '' err ''''), h1)
     | (Inr (out, _, _), h1) \<Rightarrow> (Inr (TrimSpace out = ''yes''), h1))"

definition localFileExists :: "'h hosts \<Rightarrow> string \<Rightarrow> 'h \<Rightarrow> bool res \<times> 'h" where
  "localFileExists ho path h = (case ho_stat ho path h of
       (StatSize _, h1) \<Rightarrow> (Inr True, h1)
     | (StatMissing _, h1) \<Rightarrow> (Inr False, h1)
     | (StatFailed err, h1) \<Rightarrow> (Inl err, h1))"

definition FileExists :: "'h hosts \<Rightarrow> TransferTarget \<Rightarrow> 'h \<Rightarrow> bool res \<times> 'h" where
  "FileExists ho t h =
     (if tt_IsLocal t then localFileExists ho (tt_Path t) h
      else (case tt_SSHClient t of
          None \<Rightarrow> (Inl (no_client ''remote target''), h)
        | Some c \<Rightarrow> remoteFileExists ho c (tt_Path t) h))"

definition remove_command :: "string \<Rightarrow> string" where
  "remove_command path = ''rm -f '' @ in_quotes path"

definition deleteRemoteFile :: "'h hosts \<Rightarrow> nat \<Rightarrow> string \<Rightarrow> 'h \<Rightarrow> goerr option \<times> 'h" where
  "deleteRemoteFile ho c path h = (case ho_exec ho c (remove_command path) h of
       (Inl err, h1) \<Rightarrow> (Some (ErrWrap ''remove remote file: '' err ''''), h1)
     | (Inr (_, errout, code), h1) \<Rightarrow>
         (if code \<noteq> 0 then Some (ErrF (''remove remote file: exit code '' @ string_of_int code @ '': '' @ errout)) else None, h1))"

definition deleteLocalFile :: "'h hosts \<Rightarrow> string \<Rightarrow> 'h \<Rightarrow> goerr option \<times> 'h" where
  "deleteLocalFile ho path h = (case ho_remove ho path h of
       (Some (err, isNotExist), h1) \<Rightarrow>
         (if \<not> isNotExist then Some (ErrWrap ''remove local file: '' err '''') else None, h1)
     | (None, h1) \<Rightarrow> (None, h1))"

definition DeleteFile :: "'h hosts \<Rightarrow> TransferTarget \<Rightarrow> 'h \<Rightarrow> goerr option \<times> 'h" where
  "DeleteFile ho t h =
     (if tt_IsLocal t then deleteLocalFile ho (tt_Path t) h
      else (case tt_SSHClient t of
          None \<Rightarrow> (Some (no_client ''remote target''), h)
        | Some c \<Rightarrow> deleteRemoteFile ho c (tt_Path t) h))"

definition GetRemoteDiskFree :: "'h hosts \<Rightarrow> nat \<Rightarrow> string \<Rightarrow> 'h \<Rightarrow> int res \<times> 'h" where
  "GetRemoteDiskFree ho c path h =
     (case ho_exec ho c (''df -B1 --output=avail '' @ in_quotes path @ '' 2>/dev/null | tail -1'') h of
       (Inl err, h1) \<Rightarrow> (Inl (ErrWrap ''df remote: '' err ''''), h1)
     | (Inr (out, _, code), h1) \<Rightarrow>
         if code \<noteq> 0 then (Inl (ErrF (''df remote: exit code '' @ string_of_int code)), h1)
         else (case Sscanf_d (TrimSpace out) of
             None \<Rightarrow> (Inl (ErrF (''parse disk free from '' @ quoted (TrimSpace out))), h1)
           | Some avail \<Rightarrow> (Inr avail, h1)))"

subsection \<open>Checksums (\<open>checksum.go\<close>)\<close>

definition computeLocalChecksum :: "'h hosts \<Rightarrow> string \<Rightarrow> 'h \<Rightarrow> string res \<times> 'h" where
  "computeLocalChecksum ho path h = (case ho_read ho path h of
       (Inl err, h1) \<Rightarrow> (Inl (ErrWrap ''open local file: '' err ''''), h1)
     | (Inr content, h1) \<Rightarrow> (Inr (ho_sha256hex ho content), h1))"

definition checksum_command :: "string \<Rightarrow> string" where
  "checksum_command path =
     (let qp = ShellQuote path; awk = '' 2>/dev/null | awk '' @ in_quotes ''{print $1}''
      in ''sha256sum '' @ qp @ awk @ '' || shasum -a 256 '' @ qp @ awk)"

definition computeRemoteChecksum :: "'h hosts \<Rightarrow> nat \<Rightarrow> string \<Rightarrow> 'h \<Rightarrow> string res \<times> 'h" where
  "computeRemoteChecksum ho c path h = (case ho_exec ho c (checksum_command path) h of
       (Inl err, h1) \<Rightarrow> (Inl (ErrWrap ''compute remote checksum: '' err ''''), h1)
     | (Inr (out, errout, code), h1) \<Rightarrow>
         if code \<noteq> 0 then (Inl (ErrF (''compute remote checksum: exit code '' @ string_of_int code @ '': '' @ errout)), h1)
         else if length (TrimSpace out) \<noteq> 64 then
           (Inl (ErrF (''invalid checksum length: '' @ string_of_nat (length (TrimSpace out)) @ '' (expected 64): '' @
              quoted (TrimSpace out))), h1)
         else (Inr (TrimSpace out), h1))"

definition computeChecksum :: "'h hosts \<Rightarrow> TransferTarget \<Rightarrow> 'h \<Rightarrow> string res \<times> 'h" where
  "computeChecksum ho t h =
     (if tt_IsLocal t then computeLocalChecksum ho (tt_Path t) h
      else (case tt_SSHClient t of
          None \<Rightarrow> (Inl (no_client ''remote target''), h)
        | Some c \<Rightarrow> computeRemoteChecksum ho c (tt_Path t) h))"

text \<open>The attempts of \<open>Verify\<close> that are left, and the last error.\<close>

fun verify_attempts ::
  "'h hosts \<Rightarrow> TransferTarget \<Rightarrow> TransferTarget \<Rightarrow> string \<Rightarrow> nat \<Rightarrow> goerr option \<Rightarrow> 'h \<Rightarrow> string res \<times> 'h" where
  "verify_attempts ho src dst failure 0 lastErr h =
     (Inl (case lastErr of None \<Rightarrow> ErrF (failure @ ''%!w(<nil>)'') | Some e \<Rightarrow> ErrWrap failure e ''''), h)"
| "verify_attempts ho src dst failure (Suc n) lastErr h = (case ho_ctxErr ho h of
       Some e \<Rightarrow> (Inl e, h)
     | None \<Rightarrow> (case computeChecksum ho src h of
          (Inl err, h1) \<Rightarrow> verify_attempts ho src dst failure n (Some (ErrWrap ''compute source checksum: '' err '''')) h1
        | (Inr s, h1) \<Rightarrow> (case computeChecksum ho dst h1 of
             (Inl err, h2) \<Rightarrow> verify_attempts ho src dst failure n (Some (ErrWrap ''compute destination checksum: '' err '''')) h2
           | (Inr d, h2) \<Rightarrow>
               if s = d then (Inr s, h2)
               else verify_attempts ho src dst failure n
                 (Some (ErrWrap '''' ErrTransferChecksumMismatch ('': source='' @ s @ '', destination='' @ d))) h2)))"

definition Verify :: "'h hosts \<Rightarrow> int \<Rightarrow> TransferTarget \<Rightarrow> TransferTarget \<Rightarrow> 'h \<Rightarrow> string res \<times> 'h" where
  "Verify ho maxRetries src dst h =
     (let m = (if maxRetries = 0 then 3 else maxRetries) in
      verify_attempts ho src dst (''checksum verification failed after '' @ string_of_int m @ '' attempts: '') (nat m) None h)"

definition VerifyInto ::
  "'h hosts \<Rightarrow> int \<Rightarrow> TransferTarget \<Rightarrow> TransferTarget \<Rightarrow> TransferCheckpoint option \<Rightarrow> 'h \<Rightarrow>
     (string res \<times> TransferCheckpoint option) \<times> 'h" where
  "VerifyInto ho maxRetries src dst cp h =
     (let (r, h1) = Verify ho maxRetries src dst h in
      ((r, map_option (\<lambda>c. case r of
          Inl _ \<Rightarrow> c
        | Inr checksum \<Rightarrow> (if checksum \<noteq> '''' then c\<lparr>cp_ChecksumSource := checksum, cp_ChecksumTarget := checksum\<rparr> else c)
            \<lparr>cp_LastVerifiedPhase := ''verified''\<rparr>) cp), h1))"

subsection \<open>Retries\<close>

text \<open>The loop that both strategies share, with a wait of one second more after each failed attempt.\<close>

fun transfer_attempts ::
  "'h hosts \<Rightarrow> (nat \<Rightarrow> 'h \<Rightarrow> TransferResult res \<times> 'h) \<Rightarrow> string \<Rightarrow> nat \<Rightarrow> nat \<Rightarrow> goerr option \<Rightarrow> 'h \<Rightarrow>
     TransferResult res \<times> 'h" where
  "transfer_attempts ho once failure attempt 0 lastErr h =
     (Inl (case lastErr of None \<Rightarrow> ErrF (failure @ ''%!w(<nil>)'') | Some e \<Rightarrow> ErrWrap failure e ''''), h)"
| "transfer_attempts ho once failure attempt (Suc n) lastErr h = (case ho_ctxErr ho h of
       Some e \<Rightarrow> (Inl e, h)
     | None \<Rightarrow> (case once attempt h of
          (Inr result, h1) \<Rightarrow> (Inr result, h1)
        | (Inl err, h1) \<Rightarrow> (case ho_ctxErr ho h1 of
             Some e \<Rightarrow> (Inl e, h1)
           | None \<Rightarrow>
               if n = 0 then transfer_attempts ho once failure (attempt + 1) n (Some err) h1
               else (case ho_wait ho (attempt + 1) h1 of
                   (Some e, h2) \<Rightarrow> (Inl e, h2)
                 | (None, h2) \<Rightarrow> transfer_attempts ho once failure (attempt + 1) n (Some err) h2))))"

definition with_strategy :: "TransferStrategy \<Rightarrow> TransferResult res \<times> 'h \<Rightarrow> TransferResult res \<times> 'h" where
  "with_strategy s x = (map_sum id (tr_Strategy_update (\<lambda>_. strategy_Name s)) (fst x), snd x)"

definition max_attempts :: "TransferOptions \<Rightarrow> int" where
  "max_attempts opts = (if to_MaxRetries opts = 0 then 3 else to_MaxRetries opts)"

subsection \<open>Copies over SFTP (\<open>scp.go\<close>, \<open>longtransfer.go\<close>)\<close>

definition longUpload :: "'h hosts \<Rightarrow> nat \<Rightarrow> string \<Rightarrow> string \<Rightarrow> 'h \<Rightarrow> goerr option \<times> 'h" where
  "longUpload ho c data path = (if ho_isLong ho c then ho_uploadLong ho c data path else ho_upload ho c data path)"

definition longDownload :: "'h hosts \<Rightarrow> nat \<Rightarrow> string \<Rightarrow> 'h \<Rightarrow> (goerr option \<times> string) \<times> 'h" where
  "longDownload ho c path = (if ho_isLong ho c then ho_downloadLong ho c path else ho_download ho c path)"

definition resume_offset :: "'h hosts \<Rightarrow> TransferTarget \<Rightarrow> int \<Rightarrow> 'h \<Rightarrow> nat \<times> 'h" where
  "resume_offset ho dst totalSize h = (case FileExists ho dst h of
       (Inr True, h1) \<Rightarrow> (case GetFileSize ho dst h1 of
            (Inr dstSize, h2) \<Rightarrow> (if 0 < dstSize \<and> dstSize < totalSize then nat dstSize else 0, h2)
          | (Inl _, h2) \<Rightarrow> (0, h2))
     | (_, h1) \<Rightarrow> (0, h1))"

definition temp_path :: "string \<Rightarrow> string" where
  "temp_path path = path @ ''.resume_tmp''"

definition append_command :: "string \<Rightarrow> string" where
  "append_command path = ''cat '' @ in_quotes (temp_path path) @ '' >> '' @ in_quotes path @
     '' && rm -f '' @ in_quotes (temp_path path)"

definition uploadAndAppend :: "'h hosts \<Rightarrow> nat \<Rightarrow> string \<Rightarrow> string \<Rightarrow> 'h \<Rightarrow> goerr option \<times> 'h" where
  "uploadAndAppend ho c data path h = (case longUpload ho c data (temp_path path) h of
       (Some err, h1) \<Rightarrow> (Some (ErrWrap ''upload resume chunk: '' err ''''), snd (ho_exec ho c (remove_command (temp_path path)) h1))
     | (None, h1) \<Rightarrow> (case ho_exec ho c (append_command path) h1 of
          (Inl err, h2) \<Rightarrow> (Some (ErrWrap ''append resume chunk: '' err ''''), h2)
        | (Inr (_, errout, code), h2) \<Rightarrow>
            (if code \<noteq> 0 then Some (ErrF (''append resume chunk: exit code '' @ string_of_int code @ '': '' @ errout)) else None, h2)))"

definition copy_result :: "nat \<Rightarrow> bool \<Rightarrow> TransferResult" where
  "copy_result n resumed = \<lparr>tr_BytesTransferred = int n, tr_Resumed = resumed, tr_Strategy = ''''\<rparr>"

definition localToRemote ::
  "'h hosts \<Rightarrow> TransferTarget \<Rightarrow> TransferTarget \<Rightarrow> TransferOptions \<Rightarrow> 'h \<Rightarrow> TransferResult res \<times> 'h" where
  "localToRemote ho src dst opts h = (case tt_SSHClient dst of
       None \<Rightarrow> (Inl (no_client ''remote destination''), h)
     | Some c \<Rightarrow> (case GetFileSize ho src h of
          (Inl err, h1) \<Rightarrow> (Inl (ErrWrap ''get source file size: '' err ''''), h1)
        | (Inr totalSize, h1) \<Rightarrow>
            (let (offset, h2) = (if to_Resume opts then resume_offset ho dst totalSize h1 else (0, h1)) in
             (case ho_read ho (tt_Path src) h2 of
                (Inl err, h3) \<Rightarrow> (Inl (ErrWrap ''open local source: '' err ''''), h3)
              | (Inr content, h3) \<Rightarrow>
                  (case if 0 < offset then uploadAndAppend ho c (drop offset content) (tt_Path dst) h3
                        else longUpload ho c content (tt_Path dst) h3 of
                     (Some err, h4) \<Rightarrow> (Inl err, h4)
                   | (None, h4) \<Rightarrow> (Inr (copy_result (offset + length (drop offset content)) (0 < offset)), h4))))))"

text \<open>The writer that discards the first \<open>offset\<close> bytes of a download: what it hands on of a sequence of writes.\<close>

record offsetSkipWriter =
  sw_offset :: nat
  sw_skipped :: nat
  sw_delegate :: string

definition skip_Write :: "offsetSkipWriter \<Rightarrow> string \<Rightarrow> offsetSkipWriter" where
  "skip_Write w p =
     (if sw_skipped w < sw_offset w then
        (let remaining = sw_offset w - sw_skipped w in
         if length p \<le> remaining then w\<lparr>sw_skipped := sw_skipped w + length p\<rparr>
         else w\<lparr>sw_skipped := sw_offset w, sw_delegate := sw_delegate w @ drop remaining p\<rparr>)
      else w\<lparr>sw_delegate := sw_delegate w @ p\<rparr>)"

definition remoteToLocal ::
  "'h hosts \<Rightarrow> TransferTarget \<Rightarrow> TransferTarget \<Rightarrow> TransferOptions \<Rightarrow> 'h \<Rightarrow> TransferResult res \<times> 'h" where
  "remoteToLocal ho src dst opts h = (case tt_SSHClient src of
       None \<Rightarrow> (Inl (no_client ''remote source''), h)
     | Some c \<Rightarrow> (case GetFileSize ho src h of
          (Inl err, h1) \<Rightarrow> (Inl (ErrWrap ''get source file size: '' err ''''), h1)
        | (Inr totalSize, h1) \<Rightarrow>
            (let (offset, h2) = (if to_Resume opts then resume_offset ho dst totalSize h1 else (0, h1)) in
             (case ho_open ho (tt_Path dst) (offset = 0) h2 of
                (Some err, h3) \<Rightarrow> (Inl (ErrWrap ''open local destination: '' err ''''), h3)
              | (None, h3) \<Rightarrow> (case longDownload ho c (tt_Path src) h3 of
                   ((derr, bytes), h4) \<Rightarrow>
                     (let kept = sw_delegate (skip_Write \<lparr>sw_offset = offset, sw_skipped = 0, sw_delegate = ''''\<rparr> bytes) in
                      (case ho_append ho (tt_Path dst) kept h4 of
                         (Some err, h5) \<Rightarrow> (Inl err, h5)
                       | (None, h5) \<Rightarrow> (case derr of
                            Some err \<Rightarrow> (Inl err, h5)
                          | None \<Rightarrow> (Inr (copy_result (offset + length kept) (0 < offset)), h5)))))))))"

text \<open>Download and upload run side by side over a pipe, on different hosts; here one after the other. When the download
  fails, the upload has got what was downloaded until then.\<close>

definition scp_remoteToRemote ::
  "'h hosts \<Rightarrow> TransferTarget \<Rightarrow> TransferTarget \<Rightarrow> 'h \<Rightarrow> TransferResult res \<times> 'h" where
  "scp_remoteToRemote ho src dst h = (case (tt_SSHClient src, tt_SSHClient dst) of
       (None, _) \<Rightarrow> (Inl (no_client ''remote source''), h)
     | (Some c, None) \<Rightarrow> (Inl (no_client ''remote destination''), h)
     | (Some c, Some d) \<Rightarrow> (case GetFileSize ho src h of
          (Inl err, h1) \<Rightarrow> (Inl (ErrWrap ''get source file size: '' err ''''), h1)
        | (Inr _, h1) \<Rightarrow>
            (let ((derr, bytes), h2) = ho_download ho c (tt_Path src) h1;
                 (uerr, h3) = ho_upload ho d bytes (tt_Path dst) h2
             in case derr of
                  Some err \<Rightarrow> (Inl (ErrWrap ''download failed: '' err ''''), h3)
                | None \<Rightarrow> (case uerr of
                     Some err \<Rightarrow> (Inl (ErrWrap ''upload failed: '' err ''''), h3)
                   | None \<Rightarrow> (Inr (copy_result (length bytes) False), h3)))))"

definition scp_transferOnce ::
  "'h hosts \<Rightarrow> TransferTarget \<Rightarrow> TransferTarget \<Rightarrow> TransferOptions \<Rightarrow> nat \<Rightarrow> 'h \<Rightarrow> TransferResult res \<times> 'h" where
  "scp_transferOnce ho src dst opts attempt h =
     (if tt_IsLocal src \<and> \<not> tt_IsLocal dst then localToRemote ho src dst opts h
      else if \<not> tt_IsLocal src \<and> tt_IsLocal dst then remoteToLocal ho src dst opts h
      else if \<not> tt_IsLocal src \<and> \<not> tt_IsLocal dst then scp_remoteToRemote ho src dst h
      else (Inl (ErrF ''local-to-local transfer not supported''), h))"

definition scp_Transfer ::
  "'h hosts \<Rightarrow> TransferTarget \<Rightarrow> TransferTarget \<Rightarrow> TransferOptions \<Rightarrow> 'h \<Rightarrow> TransferResult res \<times> 'h" where
  "scp_Transfer ho src dst opts h =
     with_strategy SCPStrategy (transfer_attempts ho (scp_transferOnce ho src dst opts)
       (''transfer failed after '' @ string_of_int (max_attempts opts) @ '' attempts: '') 0 (nat (max_attempts opts)) None h)"

subsection \<open>Copies by rsync (\<open>rsync.go\<close>, \<open>exec.go\<close>)\<close>

definition rsync_args :: "TransferOptions \<Rightarrow> string list" where
  "rsync_args opts = [''-avz'', ''--partial'', ''--append-verify'', ''--mkpath''] @
     (if to_Callback opts then [''--progress''] else [])"

definition remote_spec :: "TransferTarget \<Rightarrow> string" where
  "remote_spec t = tt_User t @ ''@'' @ tt_Host t @ '':'' @ tt_Path t"

definition ssh_port :: "TransferTarget \<Rightarrow> string" where
  "ssh_port t = ''ssh -p '' @ string_of_int (tt_Port t)"

definition rsync_command :: "TransferTarget \<Rightarrow> TransferTarget \<Rightarrow> TransferOptions \<Rightarrow> string" where
  "rsync_command src dst opts =
     (let args = rsync_args opts @ (if tt_Port dst \<noteq> 0 \<and> tt_Port dst \<noteq> 22 then [''-e '' @ ShellQuote (ssh_port dst)] else [])
      in ''rsync '' @ join_at CHR 32 args @ '' '' @ ShellQuote (tt_Path src) @ '' '' @ ShellQuote (remote_spec dst))"

definition rsync_remoteToRemote ::
  "'h hosts \<Rightarrow> TransferTarget \<Rightarrow> TransferTarget \<Rightarrow> TransferOptions \<Rightarrow> 'h \<Rightarrow> TransferResult res \<times> 'h" where
  "rsync_remoteToRemote ho src dst opts h = (case tt_SSHClient src of
       None \<Rightarrow> (Inl (no_client ''remote source''), h)
     | Some c \<Rightarrow> (case ho_exec ho c (rsync_command src dst opts) h of
          (Inl err, h1) \<Rightarrow> (case ho_ctxErr ho h1 of
               Some e \<Rightarrow> (Inl (ErrWrap ''rsync remote-to-remote: '' ErrTransferInactivity ('': '' @ err_text e)), h1)
             | None \<Rightarrow> (Inl (ErrWrap ''rsync remote-to-remote failed: '' err ''''), h1))
        | (Inr (_, errout, code), h1) \<Rightarrow> (case classifyRsyncExit code of
               Some e \<Rightarrow> (Inl (ErrWrap ''rsync remote-to-remote failed: '' e ('': '' @ TrimSpace errout)), h1)
             | None \<Rightarrow> (Inr (copy_result 0 False), h1))))"

definition execLocalRsync :: "'h hosts \<Rightarrow> string list \<Rightarrow> 'h \<Rightarrow> TransferResult res \<times> 'h" where
  "execLocalRsync ho argv h =
     (if argv = [] then (Inl (ErrF ''empty rsync command''), h)
      else (case ho_rsync ho argv h of
          (NotStarted err, h1) \<Rightarrow> (Inl (ErrWrap ''start rsync: '' err ''''), h1)
        | (RunExited code errout, h1) \<Rightarrow>
            if code = 0 then (Inr (copy_result 0 False), h1)
            else (case ho_ctxErr ho h1 of
                Some e \<Rightarrow> (Inl (ErrWrap ''rsync failed: '' ErrTransferInactivity ('': '' @ err_text e)), h1)
              | None \<Rightarrow> (case classifyRsyncExit code of
                   Some e \<Rightarrow> (Inl (ErrWrap ''rsync failed: '' e ('': '' @ errout)), h1)
                 | None \<Rightarrow> (Inl (ErrF (''rsync failed: exit status '' @ string_of_int code @ '': '' @ errout)), h1)))
        | (RunFailed err errout, h1) \<Rightarrow> (case ho_ctxErr ho h1 of
                Some e \<Rightarrow> (Inl (ErrWrap ''rsync failed: '' ErrTransferInactivity ('': '' @ err_text e)), h1)
              | None \<Rightarrow> (Inl (ErrWrap ''rsync failed: '' err ('': '' @ errout)), h1))))"

definition rsync_argv :: "TransferOptions \<Rightarrow> TransferTarget \<Rightarrow> string \<Rightarrow> string \<Rightarrow> string list" where
  "rsync_argv opts remote srcSpec dstSpec = [''rsync''] @ rsync_args opts @
     (if tt_Port remote \<noteq> 0 \<and> tt_Port remote \<noteq> 22 then [''-e'', ssh_port remote] else []) @ [srcSpec, dstSpec]"

definition rsync_transferOnce ::
  "'h hosts \<Rightarrow> TransferTarget \<Rightarrow> TransferTarget \<Rightarrow> TransferOptions \<Rightarrow> nat \<Rightarrow> 'h \<Rightarrow> TransferResult res \<times> 'h" where
  "rsync_transferOnce ho src dst opts attempt h =
     (if tt_IsLocal src \<and> \<not> tt_IsLocal dst then
        execLocalRsync ho (rsync_argv opts dst (tt_Path src) (remote_spec dst)) h
      else if \<not> tt_IsLocal src \<and> tt_IsLocal dst then
        execLocalRsync ho (rsync_argv opts src (remote_spec src) (tt_Path dst)) h
      else if \<not> tt_IsLocal src \<and> \<not> tt_IsLocal dst then rsync_remoteToRemote ho src dst opts h
      else (Inl (ErrF ''unsupported transfer mode for rsync''), h))"

definition rsync_Transfer ::
  "'h hosts \<Rightarrow> TransferTarget \<Rightarrow> TransferTarget \<Rightarrow> TransferOptions \<Rightarrow> 'h \<Rightarrow> TransferResult res \<times> 'h" where
  "rsync_Transfer ho src dst opts h =
     with_strategy RsyncStrategy (transfer_attempts ho (rsync_transferOnce ho src dst opts)
       (''rsync transfer failed after '' @ string_of_int (max_attempts opts) @ '' attempts: '') 0 (nat (max_attempts opts)) None h)"

definition strategy_Transfer ::
  "'h hosts \<Rightarrow> TransferStrategy \<Rightarrow> TransferTarget \<Rightarrow> TransferTarget \<Rightarrow> TransferOptions \<Rightarrow> 'h \<Rightarrow> TransferResult res \<times> 'h" where
  "strategy_Transfer ho s = (case s of SCPStrategy \<Rightarrow> scp_Transfer ho | RsyncStrategy \<Rightarrow> rsync_Transfer ho)"

subsection \<open>Paths of the local host (\<open>path/filepath\<close>)\<close>

fun clean_segments :: "bool \<Rightarrow> string list \<Rightarrow> string list \<Rightarrow> string list" where
  "clean_segments rooted out [] = rev out"
| "clean_segments rooted out (seg # segs) =
     (if seg = '''' \<or> seg = ''.'' then clean_segments rooted out segs
      else if seg = ''..'' then
        clean_segments rooted (if out \<noteq> [] \<and> hd out \<noteq> ''..'' then tl out else if rooted then out else ''..'' # out) segs
      else clean_segments rooted (seg # out) segs)"

definition path_Clean :: "string \<Rightarrow> string" where
  "path_Clean p =
     (let rooted = HasPrefix p ''/''; segs = clean_segments rooted [] (split_at CHR ''/'' p)
      in if rooted then CHR ''/'' # join_at CHR ''/'' segs
         else if segs = [] then ''.'' else join_at CHR ''/'' segs)"

definition path_Join :: "string \<Rightarrow> string \<Rightarrow> string" where
  "path_Join a b = (if a \<noteq> '''' then path_Clean (a @ ''/'' @ b) else if b \<noteq> '''' then path_Clean b else '''')"

definition path_Dir :: "string \<Rightarrow> string" where
  "path_Dir p = path_Clean (rev (dropWhile (\<lambda>c. c \<noteq> CHR ''/'') (rev p)))"

subsection \<open>Directories (\<open>directory.go\<close>)\<close>

record FileInfo =
  fi_RelativePath :: string
  fi_Size :: int

record FileTransferInfo =
  ft_RelativePath :: string
  ft_Size :: int
  ft_Transferred :: bool
  ft_Skipped :: bool
  ft_Error :: string

record DirectoryTransferResult =
  dr_TotalFiles :: nat
  dr_TransferredFiles :: nat
  dr_SkippedFiles :: nat
  dr_FailedFiles :: nat
  dr_TotalBytes :: int
  dr_TransferredBytes :: int
  dr_FileResults :: "FileTransferInfo list"

definition list_line :: "string \<Rightarrow> FileInfo list" where
  "list_line line =
     (if line = '''' then []
      else (case cut_at CHR 9 line of
          None \<Rightarrow> []
        | Some (n, path) \<Rightarrow>
            [\<lparr>fi_RelativePath = path, fi_Size = (case Sscanf_d n of None \<Rightarrow> 0 | Some v \<Rightarrow> v)\<rparr>]))"

definition list_command :: "string \<Rightarrow> string" where
  "list_command rootPath = ''cd '' @ ShellQuote rootPath @ '' && find . -type f -printf '' @
     in_quotes (''%s'' @ CHR 92 # ''t%P'' @ CHR 92 # ''n'') @ '' 2>/dev/null''"

definition listRemoteFiles :: "'h hosts \<Rightarrow> nat \<Rightarrow> string \<Rightarrow> 'h \<Rightarrow> FileInfo list res \<times> 'h" where
  "listRemoteFiles ho c rootPath h = (case ho_exec ho c (list_command rootPath) h of
       (Inl err, h1) \<Rightarrow> (Inl (ErrWrap ''list remote files: '' err ''''), h1)
     | (Inr (out, errout, code), h1) \<Rightarrow>
         if code \<noteq> 0 then (Inl (ErrF (''list remote files: exit code '' @ string_of_int code @ '': '' @ errout)), h1)
         else (Inr (concat (map list_line (split_at CHR 10 (TrimSpace out)))), h1))"

definition listLocalFiles :: "'h hosts \<Rightarrow> string \<Rightarrow> 'h \<Rightarrow> FileInfo list res \<times> 'h" where
  "listLocalFiles ho rootPath h = (let (r, h1) = ho_walk ho rootPath h in
     (map_sum id (map (\<lambda>(p, n). \<lparr>fi_RelativePath = p, fi_Size = n\<rparr>)) r, h1))"

definition listFiles :: "'h hosts \<Rightarrow> TransferTarget \<Rightarrow> 'h \<Rightarrow> FileInfo list res \<times> 'h" where
  "listFiles ho t h =
     (if tt_IsLocal t then listLocalFiles ho (tt_Path t) h
      else (case tt_SSHClient t of
          None \<Rightarrow> (Inl (no_client ''remote target''), h)
        | Some c \<Rightarrow> listRemoteFiles ho c (tt_Path t) h))"

definition mkdir_command :: "string \<Rightarrow> string" where
  "mkdir_command path = ''mkdir -p '' @ ShellQuote path"

definition make_dir :: "'h hosts \<Rightarrow> TransferTarget \<Rightarrow> string \<Rightarrow> string \<Rightarrow> string \<Rightarrow> string \<Rightarrow> 'h \<Rightarrow> goerr option \<times> 'h" where
  "make_dir ho t local remote missing failed h =
     (if tt_IsLocal t then ho_mkdirAll ho local h
      else (case tt_SSHClient t of
          None \<Rightarrow> (Some (no_client missing), h)
        | Some c \<Rightarrow> (case ho_exec ho c (mkdir_command remote) h of
             (Inl err, h1) \<Rightarrow> (Some err, h1)
           | (Inr (_, errout, code), h1) \<Rightarrow> (if code \<noteq> 0 then Some (ErrF (failed @ errout)) else None, h1))))"

definition ensureDestDir :: "'h hosts \<Rightarrow> TransferTarget \<Rightarrow> 'h \<Rightarrow> goerr option \<times> 'h" where
  "ensureDestDir ho dst = make_dir ho dst (tt_Path dst) (tt_Path dst) ''remote destination'' ''mkdir failed: ''"

definition ensureParentDir :: "'h hosts \<Rightarrow> TransferTarget \<Rightarrow> 'h \<Rightarrow> goerr option \<times> 'h" where
  "ensureParentDir ho t = make_dir ho t (path_Dir (tt_Path t))
     (map (\<lambda>c. if c = CHR 92 then CHR ''/'' else c) (path_Dir (tt_Path t))) ''remote target'' ''mkdir -p failed: ''"

definition file_target :: "TransferTarget \<Rightarrow> string \<Rightarrow> TransferTarget" where
  "file_target t rel = t\<lparr>tt_Path := if tt_IsLocal t then path_Join (tt_Path t) rel else tt_Path t @ ''/'' @ rel\<rparr>"

datatype copy_outcome = CopyFailed string | CopySkipped | CopyDone

text \<open>Whether the file is there already: the same size and the same checksum.\<close>

definition already_there :: "'h hosts \<Rightarrow> TransferTarget \<Rightarrow> TransferTarget \<Rightarrow> int \<Rightarrow> 'h \<Rightarrow> bool \<times> 'h" where
  "already_there ho fileSrc fileDst n h = (case FileExists ho fileDst h of
       (Inr True, h1) \<Rightarrow> (case GetFileSize ho fileDst h1 of
            (Inr dstSize, h2) \<Rightarrow>
              if dstSize = n then (let (r, h3) = Verify ho 3 fileSrc fileDst h2 in (is_ok r, h3)) else (False, h2)
          | (Inl _, h2) \<Rightarrow> (False, h2))
     | (_, h1) \<Rightarrow> (False, h1))"

definition copy_file ::
  "'h hosts \<Rightarrow> TransferTarget \<Rightarrow> TransferTarget \<Rightarrow> TransferOptions \<Rightarrow> FileInfo \<Rightarrow> 'h \<Rightarrow> copy_outcome \<times> 'h" where
  "copy_file ho src dst opts fi h =
     (let fileSrc = file_target src (fi_RelativePath fi); fileDst = file_target dst (fi_RelativePath fi) in
      (case ensureParentDir ho fileDst h of
         (Some err, h1) \<Rightarrow> (CopyFailed (''create parent dir: '' @ err_text err), h1)
       | (None, h1) \<Rightarrow> (case already_there ho fileSrc fileDst (fi_Size fi) h1 of
            (True, h2) \<Rightarrow> (CopySkipped, h2)
          | (False, h2) \<Rightarrow>
              (let (strategy, h3) = Select ho (fi_Size fi) opts fileSrc h2 in
               (case strategy_Transfer ho strategy fileSrc fileDst opts h3 of
                  (Inl err, h4) \<Rightarrow> (CopyFailed (err_text err), h4)
                | (Inr _, h4) \<Rightarrow> (case Verify ho 3 fileSrc fileDst h4 of
                     (Inl err, h5) \<Rightarrow> (CopyFailed (''checksum verification failed: '' @ err_text err), h5)
                   | (Inr _, h5) \<Rightarrow> (CopyDone, h5)))))))"

definition add_outcome :: "FileInfo \<Rightarrow> copy_outcome \<Rightarrow> DirectoryTransferResult \<Rightarrow> DirectoryTransferResult" where
  "add_outcome fi out r =
     (let info = \<lparr>ft_RelativePath = fi_RelativePath fi, ft_Size = fi_Size fi, ft_Transferred = False, ft_Skipped = False,
            ft_Error = ''''\<rparr>;
          add = (\<lambda>x r. r\<lparr>dr_FileResults := dr_FileResults r @ [x]\<rparr>)
      in case out of
           CopyFailed text \<Rightarrow> add (info\<lparr>ft_Error := text\<rparr>) (r\<lparr>dr_FailedFiles := dr_FailedFiles r + 1\<rparr>)
         | CopySkipped \<Rightarrow> add (info\<lparr>ft_Transferred := True, ft_Skipped := True\<rparr>)
             (r\<lparr>dr_SkippedFiles := dr_SkippedFiles r + 1, dr_TransferredFiles := dr_TransferredFiles r + 1,
                dr_TransferredBytes := dr_TransferredBytes r + fi_Size fi\<rparr>)
         | CopyDone \<Rightarrow> add (info\<lparr>ft_Transferred := True\<rparr>)
             (r\<lparr>dr_TransferredFiles := dr_TransferredFiles r + 1, dr_TransferredBytes := dr_TransferredBytes r + fi_Size fi\<rparr>))"

fun transfer_files ::
  "'h hosts \<Rightarrow> TransferTarget \<Rightarrow> TransferTarget \<Rightarrow> TransferOptions \<Rightarrow> FileInfo list \<Rightarrow> DirectoryTransferResult \<Rightarrow> 'h \<Rightarrow>
     (DirectoryTransferResult \<times> goerr option) \<times> 'h" where
  "transfer_files ho src dst opts [] r h = ((r, None), h)"
| "transfer_files ho src dst opts (fi # fis) r h = (case ho_ctxErr ho h of
       Some e \<Rightarrow> ((r, Some e), h)
     | None \<Rightarrow> (let (out, h1) = copy_file ho src dst opts fi h in
          transfer_files ho src dst opts fis (add_outcome fi out r) h1))"

definition directory_Transfer ::
  "'h hosts \<Rightarrow> TransferTarget \<Rightarrow> TransferTarget \<Rightarrow> TransferOptions \<Rightarrow> 'h \<Rightarrow>
     (DirectoryTransferResult option \<times> goerr option) \<times> 'h" where
  "directory_Transfer ho src dst opts h = (case listFiles ho src h of
       (Inl err, h1) \<Rightarrow> ((None, Some (ErrWrap ''list source files: '' err '''')), h1)
     | (Inr files, h1) \<Rightarrow> (case ensureDestDir ho dst h1 of
          (Some err, h2) \<Rightarrow> ((None, Some (ErrWrap ''create destination directory: '' err '''')), h2)
        | (None, h2) \<Rightarrow>
            (let r = \<lparr>dr_TotalFiles = length files, dr_TransferredFiles = 0, dr_SkippedFiles = 0, dr_FailedFiles = 0,
                   dr_TotalBytes = sum_list (map fi_Size files), dr_TransferredBytes = 0, dr_FileResults = []\<rparr>;
                 ((r1, err), h3) = transfer_files ho src dst opts files r h2
             in ((Some r1, err), h3))))"

fun verify_files ::
  "'h hosts \<Rightarrow> TransferTarget \<Rightarrow> TransferTarget \<Rightarrow> FileInfo list \<Rightarrow> string list \<Rightarrow> 'h \<Rightarrow> (string list \<times> goerr option) \<times> 'h" where
  "verify_files ho src dst [] failed h = ((failed, None), h)"
| "verify_files ho src dst (fi # fis) failed h = (case ho_ctxErr ho h of
       Some e \<Rightarrow> ((failed, Some e), h)
     | None \<Rightarrow> (let (r, h1) = Verify ho 3 (file_target src (fi_RelativePath fi)) (file_target dst (fi_RelativePath fi)) h in
          verify_files ho src dst fis (if is_ok r then failed else failed @ [fi_RelativePath fi]) h1))"

definition directory_Verify ::
  "'h hosts \<Rightarrow> TransferTarget \<Rightarrow> TransferTarget \<Rightarrow> 'h \<Rightarrow> (string list \<times> goerr option) \<times> 'h" where
  "directory_Verify ho src dst h = (case listFiles ho src h of
       (Inl err, h1) \<Rightarrow> (([], Some (ErrWrap ''list source files: '' err '''')), h1)
     | (Inr files, h1) \<Rightarrow> verify_files ho src dst files [] h1)"

definition directory_Rollback :: "'h hosts \<Rightarrow> TransferTarget \<Rightarrow> 'h \<Rightarrow> goerr option \<times> 'h" where
  "directory_Rollback ho dst h =
     (if tt_IsLocal dst then ho_removeAll ho (tt_Path dst) h
      else (case tt_SSHClient dst of
          None \<Rightarrow> (Some (no_client ''remote destination''), h)
        | Some c \<Rightarrow> (case ho_exec ho c (''rm -rf '' @ ShellQuote (tt_Path dst)) h of
             (Inl err, h1) \<Rightarrow> (Some (ErrWrap ''remove remote directory: '' err ''''), h1)
           | (Inr (_, errout, code), h1) \<Rightarrow>
               (if code \<noteq> 0 then Some (ErrF (''remove remote directory: exit code '' @ string_of_int code @ '': '' @ errout)) else None, h1))))"

subsection \<open>Steps (\<open>step.go\<close>)\<close>

record FileTransferStep =
  fs_Source :: TransferTarget
  fs_Dest :: TransferTarget
  fs_MaxRetries :: int
  fs_Options :: TransferOptions
  fs_selectedStrategy :: "TransferStrategy option"
  fs_fileSize :: int

definition NewFileTransferStep :: "TransferTarget \<Rightarrow> TransferTarget \<Rightarrow> TransferOptions \<Rightarrow> FileTransferStep" where
  "NewFileTransferStep src dst opts = \<lparr>fs_Source = src, fs_Dest = dst, fs_MaxRetries = 3, fs_Options = opts,
     fs_selectedStrategy = None, fs_fileSize = 0\<rparr>"

record PrepareData =
  pd_Strategy :: string
  pd_FileSize :: int
  pd_DiskFree :: int
  pd_Resumed :: bool

definition disk_check :: "'h hosts \<Rightarrow> TransferTarget \<Rightarrow> int \<Rightarrow> 'h \<Rightarrow> int res \<times> 'h" where
  "disk_check ho dst fileSize h = (case (tt_IsLocal dst, tt_SSHClient dst) of
       (False, Some c) \<Rightarrow> (case GetRemoteDiskFree ho c (tt_Path dst) h of
            (Inl _, h1) \<Rightarrow> (Inr 0, h1)
          | (Inr diskFree, h1) \<Rightarrow>
              if diskFree < fileSize then
                (Inl (ErrF (''insufficient disk space at destination: have '' @ string_of_int diskFree @ '' bytes, need '' @
                   string_of_int fileSize @ '' bytes'')), h1)
              else (Inr diskFree, h1))
     | _ \<Rightarrow> (Inr 0, h))"

definition partial_there :: "'h hosts \<Rightarrow> TransferTarget \<Rightarrow> int \<Rightarrow> 'h \<Rightarrow> bool \<times> 'h" where
  "partial_there ho dst fileSize h = (let (offset, h1) = resume_offset ho dst fileSize h in (0 < offset, h1))"

definition step_Prepare :: "'h hosts \<Rightarrow> FileTransferStep \<Rightarrow> 'h \<Rightarrow> PrepareData res \<times> FileTransferStep \<times> 'h" where
  "step_Prepare ho s h = (case FileExists ho (fs_Source s) h of
       (Inl err, h1) \<Rightarrow> (Inl (ErrWrap ''check source exists: '' err ''''), s, h1)
     | (Inr False, h1) \<Rightarrow> (Inl (ErrF (''source file does not exist: '' @ tt_Path (fs_Source s))), s, h1)
     | (Inr True, h1) \<Rightarrow> (case GetFileSize ho (fs_Source s) h1 of
          (Inl err, h2) \<Rightarrow> (Inl (ErrWrap ''get source file size: '' err ''''), s, h2)
        | (Inr fileSize, h2) \<Rightarrow>
            (let s1 = s\<lparr>fs_fileSize := fileSize\<rparr> in
             (case disk_check ho (fs_Dest s) fileSize h2 of
                (Inl err, h3) \<Rightarrow> (Inl err, s1, h3)
              | (Inr diskFree, h3) \<Rightarrow>
                  (let (strategy, h4) = Select ho fileSize (fs_Options s) (fs_Source s) h3;
                       (resumed, h5) = (if to_Resume (fs_Options s) then partial_there ho (fs_Dest s) fileSize h4 else (False, h4))
                   in (Inr \<lparr>pd_Strategy = strategy_Name strategy, pd_FileSize = fileSize, pd_DiskFree = diskFree,
                         pd_Resumed = resumed\<rparr>, s1\<lparr>fs_selectedStrategy := Some strategy\<rparr>, h5))))))"

text \<open>With a progress callback of the step context the copy has one too.\<close>

definition step_Apply :: "'h hosts \<Rightarrow> bool \<Rightarrow> FileTransferStep \<Rightarrow> 'h \<Rightarrow> TransferResult res \<times> FileTransferStep \<times> 'h" where
  "step_Apply ho progress s h =
     (let (strategy, h1) = (case fs_selectedStrategy s of
            Some x \<Rightarrow> (x, h)
          | None \<Rightarrow> Select ho (fs_fileSize s) (fs_Options s) (fs_Source s) h);
          opts = (if progress then (fs_Options s)\<lparr>to_Callback := True\<rparr> else fs_Options s);
          (r, h2) = strategy_Transfer ho strategy (fs_Source s) (fs_Dest s) opts h1
      in (map_sum (\<lambda>err. ErrWrap ''transfer failed: '' err '''') id r, s\<lparr>fs_selectedStrategy := Some strategy\<rparr>, h2))"

definition step_Verify :: "'h hosts \<Rightarrow> FileTransferStep \<Rightarrow> 'h \<Rightarrow> string res \<times> 'h" where
  "step_Verify ho s h = (let (r, h1) = Verify ho (fs_MaxRetries s) (fs_Source s) (fs_Dest s) h in
     (map_sum (\<lambda>err. ErrWrap ''checksum verification failed: '' err '''') id r, h1))"

definition step_Rollback :: "'h hosts \<Rightarrow> FileTransferStep \<Rightarrow> 'h \<Rightarrow> goerr option \<times> 'h" where
  "step_Rollback ho s h = (let (r, h1) = DeleteFile ho (fs_Dest s) h in
     (map_option (\<lambda>err. ErrWrap ''rollback failed (could not delete file): '' err '''') r, h1))"

definition dirStep_Prepare :: "'h hosts \<Rightarrow> TransferTarget \<Rightarrow> 'h \<Rightarrow> nat res \<times> 'h" where
  "dirStep_Prepare ho src h = (let (r, h1) = listFiles ho src h in
     (map_sum (\<lambda>err. ErrWrap ''list source files: '' err '''') length r, h1))"

definition dirStep_Apply ::
  "'h hosts \<Rightarrow> bool \<Rightarrow> TransferTarget \<Rightarrow> TransferTarget \<Rightarrow> TransferOptions \<Rightarrow> 'h \<Rightarrow> DirectoryTransferResult option res \<times> 'h" where
  "dirStep_Apply ho progress src dst opts h =
     (let ((r, err), h1) = directory_Transfer ho src dst (if progress then opts\<lparr>to_Callback := True\<rparr> else opts) h
      in (case err of Some e \<Rightarrow> Inl (ErrWrap ''directory transfer failed: '' e '''') | None \<Rightarrow> Inr r, h1))"

definition dirStep_Verify :: "'h hosts \<Rightarrow> TransferTarget \<Rightarrow> TransferTarget \<Rightarrow> 'h \<Rightarrow> unit res \<times> 'h" where
  "dirStep_Verify ho src dst h =
     (let ((failed, err), h1) = directory_Verify ho src dst h
      in (case err of
            Some e \<Rightarrow> Inl (ErrWrap ''directory verification failed: '' e '''')
          | None \<Rightarrow> if failed \<noteq> [] then Inl (ErrF (''checksum mismatch for '' @ string_of_nat (length failed) @ '' files: '' @
                intersperse_concat '', '' failed)) else Inr (), h1))"

definition dirStep_Rollback :: "'h hosts \<Rightarrow> TransferTarget \<Rightarrow> 'h \<Rightarrow> goerr option \<times> 'h" where
  "dirStep_Rollback ho dst h = (let (r, h1) = directory_Rollback ho dst h in
     (map_option (\<lambda>err. ErrWrap ''directory rollback failed: '' err '''') r, h1))"

end
