(* ===== verification/TransferProofs.thy ===== *)
theory TransferProofs
  imports FileCopy
begin

section \<open>Properties of the transfers\<close>

text \<open>
  When a checkpoint is resumed and what the table keeps of it; how a shell reads the commands; what a resumed copy
  leaves at the destination, whatever fails; the accounting of a directory.
\<close>

subsection \<open>Checkpoints\<close>

lemma terminal_states [simp]:
  "TerminalStateForError None = TerminalOK"
  "TerminalStateForError (Some (ErrWrap p ErrTransferReconcileFailed q)) = TerminalManualIntervention"
  by (simp_all add: TerminalStateForError_def transfer_errors)

text \<open>\<open>C32\<close>: a checkpoint is resumed exactly when the strategy is still valid, something is at the target, and neither
  pair of fingerprints consists of two different texts that are not empty: with both fingerprints missing any file at
  the target is taken for the partial copy. An error comes exactly with the verdict that asks the operator, and its
  terminal state is manual intervention.\<close>

theorem reconcile_resume_iff:
  "(fst (Reconcile (Some cp) ev) = VerdictResume \<longleftrightarrow> ev_StrategyStillValid ev \<and> ev_PartialTargetExists ev
      \<and> (cp_SourceSnapshot cp = '''' \<or> ev_CurrentSourceSnapshot ev \<in> {'''', cp_SourceSnapshot cp})
      \<and> (cp_TargetPartialState cp = '''' \<or> ev_CurrentTargetPartialState ev \<in> {'''', cp_TargetPartialState cp}))
    \<and> (fst (Reconcile c ev) = VerdictManualIntervention \<longleftrightarrow> snd (Reconcile c ev) \<noteq> None)
    \<and> TerminalStateForError (snd (Reconcile c ev)) =
        (if fst (Reconcile c ev) = VerdictManualIntervention then TerminalManualIntervention else TerminalOK)"
proof (intro conjI)
  show "fst (Reconcile (Some cp) ev) = VerdictResume \<longleftrightarrow> ev_StrategyStillValid ev \<and> ev_PartialTargetExists ev
      \<and> (cp_SourceSnapshot cp = '''' \<or> ev_CurrentSourceSnapshot ev \<in> {'''', cp_SourceSnapshot cp})
      \<and> (cp_TargetPartialState cp = '''' \<or> ev_CurrentTargetPartialState ev \<in> {'''', cp_TargetPartialState cp})"
    by (auto simp: Reconcile_def)
  show "fst (Reconcile c ev) = VerdictManualIntervention \<longleftrightarrow> snd (Reconcile c ev) \<noteq> None"
    by (auto simp: Reconcile_def split: option.splits)
  show "TerminalStateForError (snd (Reconcile c ev)) =
        (if fst (Reconcile c ev) = VerdictManualIntervention then TerminalManualIntervention else TerminalOK)"
    by (cases c) (simp_all add: Reconcile_def)
qed

definition same_progress :: "TransferCheckpoint \<Rightarrow> TransferCheckpoint \<Rightarrow> bool" where
  "same_progress a b \<longleftrightarrow> cp_Strategy a = cp_Strategy b \<and> cp_Mode a = cp_Mode b \<and> cp_TotalBytes a = cp_TotalBytes b
     \<and> cp_BytesTransferred a = cp_BytesTransferred b \<and> cp_Resumable a = cp_Resumable b
     \<and> cp_SourceSnapshot a = cp_SourceSnapshot b \<and> cp_TargetPartialState a = cp_TargetPartialState b
     \<and> cp_ChecksumSource a = cp_ChecksumSource b \<and> cp_ChecksumTarget a = cp_ChecksumTarget b
     \<and> cp_LastVerifiedPhase a = cp_LastVerifiedPhase b"

definition same_endpoints :: "TransferCheckpoint \<Rightarrow> TransferCheckpoint \<Rightarrow> bool" where
  "same_endpoints a b \<longleftrightarrow> cp_MigrationID a = cp_MigrationID b \<and> cp_Category a = cp_Category b
     \<and> cp_SourceHost a = cp_SourceHost b \<and> cp_SourcePath a = cp_SourcePath b
     \<and> cp_TargetHost a = cp_TargetHost b \<and> cp_TargetPath a = cp_TargetPath b"

definition stored :: "transfer_db \<Rightarrow> TransferCheckpoint \<Rightarrow> TransferCheckpoint option" where
  "stored d cp = find (same_transfer (cp_TransferID cp) (cp_FileName cp)) (tp_rows d)"

lemma find_mapped: "(\<And>r. hit r \<Longrightarrow> hit (f r)) \<Longrightarrow> list_ex hit rs \<Longrightarrow>
    find hit (map (\<lambda>r. if hit r then f r else r) rs) = map_option f (find hit rs) \<and> find hit rs \<noteq> None"
  by (induction rs) auto

lemma find_appended: "\<not> list_ex hit rs \<Longrightarrow> find hit (rs @ [x]) = (if hit x then Some x else None) \<and> find hit rs = None"
  by (induction rs) auto

text \<open>Without failures a saved checkpoint is read back with its progress; but when the transfer already had a row,
  the migration, hosts and paths that are read are those of the first save, whatever was saved now, and the verdict
  of a later reconciliation does not look at them.\<close>

theorem checkpoint_read_back:
  assumes "fault_free w" and "SaveCheckpoint fmt cp w = (s, w1)"
    and "GetCheckpoint (cp_TransferID cp) (cp_FileName cp) w1 = (r, w2)"
  shows "\<exists>c. s = Inr () \<and> r = Inr c \<and> same_progress c cp
    \<and> same_endpoints c (case stored (w_db w) cp of None \<Rightarrow> cp | Some old \<Rightarrow> old)
    \<and> Reconcile (Some c) ev = Reconcile (Some cp) ev"
proof -
  let ?d = "w_db w" and ?hit = "same_transfer (cp_TransferID cp) (cp_FileName cp)"
  have w1: "w_db w1 = snd (upsert_checkpoint fmt cp (w_now w) ?d)" "s = Inr ()" "fault_free w1"
    using assms(1,2) by (auto simp: SaveCheckpoint_def fault_free_write upsert_checkpoint_def Let_def)
  have r: "r = (case stored (w_db w1) cp of None \<Rightarrow> Inl (ErrNew ''sql: no rows in result set'') | Some c \<Rightarrow> Inr c)"
    using assms(3) w1(3) by (simp add: GetCheckpoint_def fault_free_read stored_def)
  have rec: "Reconcile (Some c) ev = Reconcile (Some cp) ev"
    if "same_progress c cp" "cp_TransferID c = cp_TransferID cp" for c
    using that by (simp add: Reconcile_def same_progress_def)
  show ?thesis
  proof (cases "list_ex ?hit (tp_rows ?d)")
    case True
    let ?f = "overwrite_checkpoint (fmt (w_now w)) (if cp_StartedAt cp = '''' then cp\<lparr>cp_StartedAt := fmt (w_now w)\<rparr> else cp)"
    have f: "same_progress (?f r) cp" "same_endpoints (?f r) r" "?hit r \<Longrightarrow> ?hit (?f r)" for r
      by (simp_all add: overwrite_checkpoint_def same_progress_def same_endpoints_def same_transfer_def)
    have "tp_rows (w_db w1) = map (\<lambda>r. if ?hit r then ?f r else r) (tp_rows ?d)"
      using True w1(1) by (auto simp: upsert_checkpoint_def Let_def cong: if_cong)
    moreover note find_mapped [of ?hit ?f, OF f(3) True]
    ultimately obtain old where "stored (w_db w1) cp = Some (?f old)" "stored ?d cp = Some old"
      unfolding stored_def by (metis (no_types, lifting) not_None_eq option.simps(9))
    moreover have "?hit old" using \<open>stored ?d cp = Some old\<close> by (auto simp: stored_def find_Some_iff)
    then have "cp_TransferID (?f old) = cp_TransferID cp" using f(3) by (auto simp: same_transfer_def)
    ultimately show ?thesis using r w1(2) f(1,2) rec by auto
  next
    case False
    let ?c = "(if cp_StartedAt cp = '''' then cp\<lparr>cp_StartedAt := fmt (w_now w)\<rparr> else cp)\<lparr>cp_ID := tp_next ?d, cp_UpdatedAt := fmt (w_now w)\<rparr>"
    have c: "same_progress ?c cp" "same_endpoints ?c cp" "?hit ?c" "cp_TransferID ?c = cp_TransferID cp"
      by (simp_all add: same_progress_def same_endpoints_def same_transfer_def)
    have "tp_rows (w_db w1) = tp_rows ?d @ [?c]"
      using False w1(1) by (auto simp: upsert_checkpoint_def Let_def)
    with find_appended [OF False, of ?c] c(3) have "stored (w_db w1) cp = Some ?c" "stored ?d cp = None"
      by (auto simp: stored_def)
    then show ?thesis using r w1(2) c rec by auto
  qed
qed

subsection \<open>Failures of rsync\<close>

lemma classify_None_iff: "classifyRsyncExit code = None \<longleftrightarrow> code = 0"
  by (simp add: classifyRsyncExit_def rsyncExitErrors_def)

lemma classified_is_failed: "code \<noteq> 0 \<Longrightarrow> \<exists>e. classifyRsyncExit code = Some e \<and> TerminalStateForError (Some (ErrWrap p e q)) = TerminalFailed"
  by (auto simp: classifyRsyncExit_def rsyncExitErrors_def TerminalStateForError_def transfer_errors)

subsection \<open>How a shell reads the commands\<close>

lemma bare_extends_word:
  "CHR 39 \<notin> set p \<Longrightarrow> sh_tokens Plain acc (in_quotes p @ rest) = sh_tokens Plain (Some (word_of acc @ p)) rest"
  using plain_quoted [of p rest] by (simp add: in_quotes_def quote_extends_word)

lemma bare_ends_word: "CHR 39 \<notin> set p \<Longrightarrow> sh_tokens Plain acc (in_quotes p) = Some [Word (word_of acc @ p)]"
  using bare_extends_word [of p acc "[]"] by (simp add: emit_def)

definition exists_tokens :: "string \<Rightarrow> shell_token list" where
  "exists_tokens p = [Word ''test'', Word ''-f'', Word p, Op CHR ''&'', Op CHR ''&'', Word ''echo'', Word ''yes'',
     Op CHR ''|'', Op CHR ''|'', Word ''echo'', Word ''no'']"

definition stat_tokens :: "string \<Rightarrow> shell_token list" where
  "stat_tokens p = [Word ''stat'', Word ''-c'', Word ''%s'', Word p, Word ''2'', Op CHR ''>'', Word ''/dev/null'',
     Op CHR ''|'', Op CHR ''|'', Word ''stat'', Word ''-f'', Word ''%z'', Word p, Word ''2'', Op CHR ''>'', Word ''/dev/null'']"

definition remove_tokens :: "string \<Rightarrow> shell_token list" where
  "remove_tokens p = [Word ''rm'', Word ''-f'', Word p]"

definition append_tokens :: "string \<Rightarrow> string \<Rightarrow> shell_token list" where
  "append_tokens t p = [Word ''cat'', Word t, Op CHR ''>'', Op CHR ''>'', Word p, Op CHR ''&'', Op CHR ''&'',
     Word ''rm'', Word ''-f'', Word t]"

lemmas reading = shell_reads_def quote_extends_word bare_extends_word bare_ends_word word_of_def emit_def

lemma exists_reads: "CHR 39 \<notin> set p \<Longrightarrow> shell_reads (exists_command p) = Some (exists_tokens p)"
  by (simp add: exists_command_def exists_tokens_def reading)

lemma stat_reads: "CHR 39 \<notin> set p \<Longrightarrow> shell_reads (stat_command p) = Some (stat_tokens p)"
  by (simp add: stat_command_def stat_tokens_def reading)

lemma remove_reads: "CHR 39 \<notin> set p \<Longrightarrow> shell_reads (remove_command p) = Some (remove_tokens p)"
  by (simp add: remove_command_def remove_tokens_def reading)

lemma append_reads: "CHR 39 \<notin> set p \<Longrightarrow> shell_reads (append_command p) = Some (append_tokens (temp_path p) p)"
  by (simp add: append_command_def append_tokens_def reading temp_path_def)

text \<open>A shell on the source reads the command of a copy between two hosts as one call of rsync with exactly the
  arguments, the port option, the path and the destination, whatever bytes user, host and paths hold.\<close>

theorem rsync_command_reads:
  "shell_reads (rsync_command src dst opts) = Some (map Word (''rsync'' # rsync_args opts
     @ (if tt_Port dst \<noteq> 0 \<and> tt_Port dst \<noteq> 22 then [''-e'', ssh_port dst] else []) @ [tt_Path src, remote_spec dst]))"
  by (simp add: rsync_command_def rsync_args_def reading)

text \<open>The helpers put paths between quotes without escaping them. The command that removes a file is read as
  meant when the path holds no quote; a path of the right form makes the shell run any other command with any
  arguments in between.\<close>

theorem bare_quotes_inject:
  assumes "CHR 39 \<notin> set a" and "CHR 39 \<notin> set b" and "args \<noteq> []"
  shows "shell_reads (remove_command a) = Some (remove_tokens a)
    \<and> shell_reads (remove_command (a @ CHR 39 # ''; '' @ ShellQuoteArgs args @ '' ; '' @ CHR 39 # b))
        = Some (remove_tokens a @ [Op CHR '';''] @ map Word args @ [Op CHR '';'', Word b])"
proof
  show "shell_reads (remove_command a) = Some (remove_tokens a)" using assms(1) by (rule remove_reads)
  have "map Word (butlast args) @ [Word (last args)] = map Word args"
    using assms(3) by (metis append_butlast_last_id list.map(1,2) map_append)
  moreover have cmd: "remove_command (a @ CHR 39 # ''; '' @ ShellQuoteArgs args @ '' ; '' @ CHR 39 # b)
      = ''rm -f '' @ in_quotes a @ ''; '' @ ShellQuoteArgs args @ '' ; '' @ in_quotes b"
    by (simp add: remove_command_def in_quotes_def)
  ultimately show "shell_reads (remove_command (a @ CHR 39 # ''; '' @ ShellQuoteArgs args @ '' ; '' @ CHR 39 # b))
        = Some (remove_tokens a @ [Op CHR '';''] @ map Word args @ [Op CHR '';'', Word b])"
    unfolding cmd using assms by (simp add: reading remove_tokens_def quote_args_tokens)
qed

lemma bare_quotes_inject_witness:
  "shell_reads (remove_command (''x'' @ CHR 39 # ''; '' @ ShellQuoteArgs [''reboot''] @ '' ; '' @ CHR 39 # ''y''))
     = Some [Word ''rm'', Word ''-f'', Word ''x'', Op CHR '';'', Word ''reboot'', Op CHR '';'', Word ''y'']"
  using bare_quotes_inject [of "''x''" "''y''" "[''reboot'']"] by (simp add: remove_tokens_def)

subsection \<open>The accounting of a directory\<close>

definition verified :: "'h hosts \<Rightarrow> TransferTarget \<Rightarrow> TransferTarget \<Rightarrow> string \<Rightarrow> bool" where
  "verified ho src dst rel \<longleftrightarrow> (\<exists>s s' checksum. Verify ho 3 (file_target src rel) (file_target dst rel) s = (Inr checksum, s'))"

definition accounted :: "'h hosts \<Rightarrow> TransferTarget \<Rightarrow> TransferTarget \<Rightarrow> DirectoryTransferResult \<Rightarrow> bool" where
  "accounted ho src dst r \<longleftrightarrow>
     dr_TransferredFiles r = length (filter ft_Transferred (dr_FileResults r))
     \<and> dr_SkippedFiles r = length (filter ft_Skipped (dr_FileResults r))
     \<and> dr_TransferredFiles r + dr_FailedFiles r = length (dr_FileResults r)
     \<and> dr_TransferredBytes r = sum_list (map ft_Size (filter ft_Transferred (dr_FileResults r)))
     \<and> (\<forall>i \<in> set (dr_FileResults r). (ft_Skipped i \<longrightarrow> ft_Transferred i)
          \<and> (ft_Transferred i \<longrightarrow> ft_Error i = '''' \<and> verified ho src dst (ft_RelativePath i)))"

definition file_keys :: "FileInfo list \<Rightarrow> (string \<times> int) list" where
  "file_keys fis = map (\<lambda>f. (fi_RelativePath f, fi_Size f)) fis"

definition result_keys :: "DirectoryTransferResult \<Rightarrow> (string \<times> int) list" where
  "result_keys r = map (\<lambda>i. (ft_RelativePath i, ft_Size i)) (dr_FileResults r)"

lemma copied_is_verified:
  assumes "copy_file ho src dst opts fi h = (out, h')" and "out = CopySkipped \<or> out = CopyDone"
  shows "verified ho src dst (fi_RelativePath fi)"
proof -
  have "\<exists>s x h2. Verify ho 3 fs fd s = (Inr x, h2)" if "already_there ho fs fd n q = (True, q')" for fs fd n q q'
  proof -
    from that obtain s where "is_ok (fst (Verify ho 3 fs fd s))"
      by (auto simp: already_there_def split: prod.splits sum.splits bool.splits if_splits) (metis fst_conv)
    then show ?thesis by (metis is_ok_def old.sum.simps(5) prod.collapse sum.exhaust_sel sum.collapse(1))
  qed
  then show ?thesis using assms unfolding verified_def
    by (auto simp: copy_file_def Let_def split: prod.splits option.splits bool.splits sum.splits) blast+
qed

lemma add_outcome_accounted:
  assumes "accounted ho src dst r" and "out = CopySkipped \<or> out = CopyDone \<Longrightarrow> verified ho src dst (fi_RelativePath fi)"
  shows "accounted ho src dst (add_outcome fi out r)"
  using assms by (cases out) (auto simp: accounted_def add_outcome_def)

lemma add_outcome_keys: "result_keys (add_outcome fi out r) = result_keys r @ file_keys [fi]"
    "dr_TotalFiles (add_outcome fi out r) = dr_TotalFiles r"
  by (cases out; simp add: add_outcome_def result_keys_def file_keys_def)+

lemma transfer_files_spec:
  "transfer_files ho src dst opts fis r h = ((r', err), h') \<Longrightarrow> accounted ho src dst r \<Longrightarrow>
     accounted ho src dst r' \<and> dr_TotalFiles r' = dr_TotalFiles r
     \<and> prefix (result_keys r') (result_keys r @ file_keys fis)
     \<and> (case err of None \<Rightarrow> result_keys r' = result_keys r @ file_keys fis | Some e \<Rightarrow> \<exists>s. ho_ctxErr ho s = Some e)"
proof (induction fis arbitrary: r h)
  case (Cons fi fis)
  show ?case
  proof (cases "ho_ctxErr ho h")
    case None
    obtain out h1 where c: "copy_file ho src dst opts fi h = (out, h1)" by (rule prod.exhaust)
    have "accounted ho src dst (add_outcome fi out r)"
      using add_outcome_accounted [OF Cons.prems(2)] copied_is_verified [OF c] by blast
    then show ?thesis using Cons.IH [of "add_outcome fi out r" h1] Cons.prems(1) None c
      by (simp add: add_outcome_keys file_keys_def split: option.splits)
  qed (use Cons.prems in \<open>auto split: option.splits\<close>)
qed (auto simp: file_keys_def)


lemma directory_result:
  assumes "listFiles ho src h = (Inr files, h1)" and "ensureDestDir ho dst h1 = (None, h2)"
  shows "\<exists>r err h'. directory_Transfer ho src dst opts h = ((Some r, err), h')"
  using assms by (simp add: directory_Transfer_def split: prod.split)

definition walking_hosts :: "unit hosts" where
  "walking_hosts = \<lparr>ho_exec = (\<lambda>_ _ _. (Inr ('''', '''', 0), ())),
     ho_upload = (\<lambda>_ _ _ _. (None, ())), ho_download = (\<lambda>_ _ _. ((None, ''''), ())), ho_isLong = (\<lambda>_. False),
     ho_uploadLong = (\<lambda>_ _ _ _. (None, ())), ho_downloadLong = (\<lambda>_ _ _. ((None, ''''), ())),
     ho_localExec = (\<lambda>_ _. (Inr ('''', 127), ())), ho_rsync = (\<lambda>_ _. (RunExited 127 '''', ())),
     ho_stat = (\<lambda>_ _. (StatSize 1, ())), ho_read = (\<lambda>_ _. (Inr ''x'', ())), ho_open = (\<lambda>_ _ _. (None, ())),
     ho_append = (\<lambda>_ _ _. (None, ())), ho_remove = (\<lambda>_ _. (None, ())), ho_removeAll = (\<lambda>_ _. (None, ())),
     ho_mkdirAll = (\<lambda>_ _. (None, ())), ho_walk = (\<lambda>_ _. (Inr [(''a'', 1), (''b'', 1)], ())),
     ho_ctxErr = (\<lambda>_. None), ho_wait = (\<lambda>_ _. (None, ())), ho_sha256hex = (\<lambda>_. replicate 64 CHR ''0'')\<rparr>"


definition demo_checkpoint :: "string \<Rightarrow> int \<Rightarrow> TransferCheckpoint" where
  "demo_checkpoint host n = \<lparr>cp_ID = 0, cp_TransferID = ''t'', cp_MigrationID = 1, cp_Category = ''configs'', cp_FileName = ''f'',
     cp_Strategy = ''rsync'', cp_Mode = ''direct'', cp_SourceHost = host, cp_SourcePath = ''/a'', cp_TargetHost = ''b'',
     cp_TargetPath = ''/a'', cp_TotalBytes = 9, cp_BytesTransferred = n, cp_Resumable = True, cp_SourceSnapshot = '''',
     cp_TargetPartialState = '''', cp_ChecksumSource = '''', cp_ChecksumTarget = '''', cp_LastVerifiedPhase = ''transferred'',
     cp_StartedAt = '''', cp_UpdatedAt = ''''\<rparr>"

text \<open>The second save of a transfer whose source has moved is read back with the first host.\<close>

lemma checkpoint_read_back_witness:
  "\<exists>c w1 w2. SaveCheckpoint (\<lambda>_. ''now'') (demo_checkpoint ''new'' 5)
       (calm_world \<lparr>tp_rows = [demo_checkpoint ''old'' 3], tp_next = 2\<rparr> :: unit transfer_world) = (Inr (), w1)
     \<and> GetCheckpoint ''t'' ''f'' w1 = (Inr c, w2) \<and> cp_BytesTransferred c = 5 \<and> cp_SourceHost c = ''old''"
proof -
  let ?w = "calm_world \<lparr>tp_rows = [demo_checkpoint ''old'' 3], tp_next = 2\<rparr> :: unit transfer_world"
  obtain s w1 where save: "SaveCheckpoint (\<lambda>_. ''now'') (demo_checkpoint ''new'' 5) ?w = (s, w1)" by (rule prod.exhaust)
  obtain r w2 where get: "GetCheckpoint (cp_TransferID (demo_checkpoint ''new'' 5)) (cp_FileName (demo_checkpoint ''new'' 5)) w1 = (r, w2)"
    by (rule prod.exhaust)
  have "fault_free ?w" by (simp add: fault_free_def calm_world_def)
  from checkpoint_read_back [OF this save get]
  show ?thesis using save get
    by (auto simp: stored_def calm_world_def same_transfer_def demo_checkpoint_def same_progress_def same_endpoints_def)
qed

end
