(* ===== verification/CopyProofs.thy ===== *)
theory CopyProofs
  imports TransferProofs
begin

section \<open>What a resumed copy leaves at the destination\<close>

text \<open>
  The behaviour of hosts that the copies rely on, over the files of each SSH client and of the local host, with every
  call allowed to fail half-way; and the copies over SFTP from the local host under it.
\<close>

subsection \<open>Hosts\<close>

type_synonym 'h remote_view = "nat \<Rightarrow> string \<Rightarrow> 'h \<Rightarrow> string option"
type_synonym 'h local_view = "string \<Rightarrow> 'h \<Rightarrow> string option"

definition same_but :: "(nat \<times> string) set \<Rightarrow> 'h remote_view \<Rightarrow> 'h local_view \<Rightarrow> 'h \<Rightarrow> 'h \<Rightarrow> bool" where
  "same_but ps rf lf h h' \<longleftrightarrow> (\<forall>c p. (c, p) \<notin> ps \<longrightarrow> rf c p h' = rf c p h) \<and> (\<forall>p. lf p h' = lf p h)"

definition text_of :: "string option \<Rightarrow> string" where
  "text_of f = (case f of None \<Rightarrow> '''' | Some x \<Rightarrow> x)"

text \<open>The commands, by how a shell reads them: a test and a size do not change files; a removal removes or not; an
  appending command appends a beginning of the temporary file, all of it when it reports success.\<close>

definition exists_ok :: "'h hosts \<Rightarrow> 'h remote_view \<Rightarrow> 'h local_view \<Rightarrow> bool" where
  "exists_ok ho rf lf \<longleftrightarrow> (\<forall>c cmd p h r h'. shell_reads cmd = Some (exists_tokens p) \<longrightarrow> ho_exec ho c cmd h = (r, h') \<longrightarrow>
     same_but {} rf lf h h' \<and> (\<forall>out e k. r = Inr (out, e, k) \<longrightarrow> (TrimSpace out = ''yes'') = (rf c p h \<noteq> None)))"

definition stat_ok :: "'h hosts \<Rightarrow> 'h remote_view \<Rightarrow> 'h local_view \<Rightarrow> bool" where
  "stat_ok ho rf lf \<longleftrightarrow> (\<forall>c cmd p h r h'. shell_reads cmd = Some (stat_tokens p) \<longrightarrow> ho_exec ho c cmd h = (r, h') \<longrightarrow>
     same_but {} rf lf h h' \<and> (\<forall>out e. r = Inr (out, e, 0) \<longrightarrow>
       (\<exists>x. rf c p h = Some x \<and> TrimSpace out = string_of_nat (length x))))"

definition remove_ok :: "'h hosts \<Rightarrow> 'h remote_view \<Rightarrow> 'h local_view \<Rightarrow> bool" where
  "remove_ok ho rf lf \<longleftrightarrow> (\<forall>c cmd p h r h'. shell_reads cmd = Some (remove_tokens p) \<longrightarrow> ho_exec ho c cmd h = (r, h') \<longrightarrow>
     same_but {(c, p)} rf lf h h')"

definition append_ok :: "'h hosts \<Rightarrow> 'h remote_view \<Rightarrow> 'h local_view \<Rightarrow> bool" where
  "append_ok ho rf lf \<longleftrightarrow> (\<forall>c cmd t p h r h'. shell_reads cmd = Some (append_tokens t p) \<longrightarrow> t \<noteq> p \<longrightarrow>
     ho_exec ho c cmd h = (r, h') \<longrightarrow>
     same_but {(c, p), (c, t)} rf lf h h'
     \<and> (rf c p h' = rf c p h \<or> (\<exists>k. rf c p h' = Some (text_of (rf c p h) @ take k (text_of (rf c t h)))))
     \<and> (\<forall>out e. r = Inr (out, e, 0) \<longrightarrow> rf c p h' = Some (text_of (rf c p h) @ text_of (rf c t h))))"

definition upload_ok :: "(nat \<Rightarrow> string \<Rightarrow> string \<Rightarrow> 'h \<Rightarrow> goerr option \<times> 'h) \<Rightarrow> 'h remote_view \<Rightarrow> 'h local_view \<Rightarrow> bool" where
  "upload_ok up rf lf \<longleftrightarrow> (\<forall>c data p h r h'. up c data p h = (r, h') \<longrightarrow> same_but {(c, p)} rf lf h h'
     \<and> (rf c p h' = rf c p h \<or> (\<exists>k. rf c p h' = Some (take k data))) \<and> (r = None \<longrightarrow> rf c p h' = Some data))"

definition local_ok :: "'h hosts \<Rightarrow> 'h remote_view \<Rightarrow> 'h local_view \<Rightarrow> bool" where
  "local_ok ho rf lf \<longleftrightarrow>
     (\<forall>p h r h'. ho_stat ho p h = (r, h') \<longrightarrow> same_but {} rf lf h h' \<and>
        (\<forall>n. r = StatSize n \<longrightarrow> (\<exists>x. lf p h = Some x \<and> n = int (length x))))
     \<and> (\<forall>p h r h'. ho_read ho p h = (r, h') \<longrightarrow> same_but {} rf lf h h' \<and> (\<forall>x. r = Inr x \<longrightarrow> lf p h = Some x))
     \<and> (\<forall>n h. same_but {} rf lf h (snd (ho_wait ho n h)))"

definition hosts_ok :: "'h hosts \<Rightarrow> 'h remote_view \<Rightarrow> 'h local_view \<Rightarrow> bool" where
  "hosts_ok ho rf lf \<longleftrightarrow> exists_ok ho rf lf \<and> stat_ok ho rf lf \<and> remove_ok ho rf lf \<and> append_ok ho rf lf
     \<and> upload_ok (ho_upload ho) rf lf \<and> upload_ok (ho_uploadLong ho) rf lf \<and> local_ok ho rf lf"

lemma same_but_trans: "same_but ps rf lf h h1 \<Longrightarrow> same_but qs rf lf h1 h2 \<Longrightarrow> same_but (ps \<union> qs) rf lf h h2"
  by (simp add: same_but_def)

lemma same_but_refl [simp]: "same_but ps rf lf h h"
  by (simp add: same_but_def)

lemma same_but_local: "same_but ps rf lf h h' \<Longrightarrow> lf p h' = lf p h"
  by (simp add: same_but_def)

lemma same_but_remote: "same_but ps rf lf h h' \<Longrightarrow> (c, p) \<notin> ps \<Longrightarrow> rf c p h' = rf c p h"
  by (simp add: same_but_def)

subsection \<open>The helpers\<close>

lemma takeWhile_all: "list_all P s \<Longrightarrow> takeWhile P s = s"
  by (simp add: list_all_iff)

lemma Sscanf_digits:
  assumes "Sscanf_d (string_of_nat n) = Some v"
  shows "v = int n"
proof -
  obtain c s where cs: "string_of_nat n = c # s" by (cases "string_of_nat n") auto
  have digits: "list_all is_digit (c # s)" "digits_value (c # s) = int n" using string_of_nat_digits [of n] cs by simp_all
  then have c: "\<not> (c = CHR 32 \<or> c = CHR 9)" "\<not> HasPrefix (c # s) ''-''" "\<not> HasPrefix (c # s) ''+''"
    by (auto simp: is_digit_def HasPrefix_def)
  have "Sscanf_d (c # s) = Atoi (c # s)"
    using c digits(1) by (simp add: Sscanf_d_def Let_def takeWhile_all)
  then show ?thesis using assms digits c(2,3) unfolding cs by (simp add: Atoi_def Let_def split: if_splits)
qed

lemma exists_spec:
  assumes "hosts_ok ho rf lf" and "CHR 39 \<notin> set p" and "remoteFileExists ho c p h = (r, h')"
  shows "same_but {} rf lf h h' \<and> (r = Inr b \<longrightarrow> b = (rf c p h \<noteq> None))"
proof -
  obtain q where q: "ho_exec ho c (exists_command p) h = (q, h')"
    using assms(3) by (auto simp: remoteFileExists_def split: prod.splits sum.splits)
  have "exists_ok ho rf lf" using assms(1) by (simp add: hosts_ok_def)
  with exists_reads [OF assms(2)] q have "same_but {} rf lf h h'"
    "\<forall>out e k. q = Inr (out, e, k) \<longrightarrow> (TrimSpace out = ''yes'') = (rf c p h \<noteq> None)"
    unfolding exists_ok_def by blast+
  then show ?thesis using assms(3) q by (auto simp: remoteFileExists_def split: sum.splits)
qed

lemma size_spec:
  assumes "hosts_ok ho rf lf" and "CHR 39 \<notin> set p" and "getRemoteFileSize ho c p h = (r, h')"
  shows "same_but {} rf lf h h' \<and> (r = Inr n \<longrightarrow> (\<exists>x. rf c p h = Some x \<and> n = int (length x)))"
proof -
  obtain q where q: "ho_exec ho c (stat_command p) h = (q, h')"
    using assms(3) by (auto simp: getRemoteFileSize_def split: prod.splits sum.splits if_splits option.splits)
  have "stat_ok ho rf lf" using assms(1) by (simp add: hosts_ok_def)
  with stat_reads [OF assms(2)] q have "same_but {} rf lf h h'"
    "\<forall>out e. q = Inr (out, e, 0) \<longrightarrow> (\<exists>x. rf c p h = Some x \<and> TrimSpace out = string_of_nat (length x))"
    unfolding stat_ok_def by blast+
  then show ?thesis using assms(3) q Sscanf_digits
    by (fastforce simp: getRemoteFileSize_def split: sum.splits prod.splits if_splits option.splits)
qed

lemma offset_spec:
  assumes "hosts_ok ho rf lf" and "CHR 39 \<notin> set (tt_Path t)" and "\<not> tt_IsLocal t" "tt_SSHClient t = Some c"
    and "resume_offset ho t total_size h = (n, h')"
  shows "same_but {} rf lf h h' \<and> (0 < n \<longrightarrow> (\<exists>x. rf c (tt_Path t) h = Some x \<and> n = length x \<and> int n < total_size))"
proof -
  obtain q h1 where q: "remoteFileExists ho c (tt_Path t) h = (q, h1)" by (cases "remoteFileExists ho c (tt_Path t) h")
  obtain s h2 where s: "getRemoteFileSize ho c (tt_Path t) h1 = (s, h2)" by (cases "getRemoteFileSize ho c (tt_Path t) h1")
  have same1: "same_but {} rf lf h h1" using exists_spec [OF assms(1,2) q] by blast
  have same2: "same_but {} rf lf h1 h2" and len: "\<And>n. s = Inr n \<Longrightarrow> \<exists>x. rf c (tt_Path t) h1 = Some x \<and> n = int (length x)"
    using size_spec [OF assms(1,2) s] by blast+
  have "rf c (tt_Path t) h1 = rf c (tt_Path t) h" using same_but_remote [OF same1] by simp
  with len have len: "\<And>n. s = Inr n \<Longrightarrow> \<exists>x. rf c (tt_Path t) h = Some x \<and> n = int (length x)" by simp
  have same12: "same_but {} rf lf h h2" using same_but_trans [OF same1 same2] by simp
  show ?thesis
  proof (cases "q = Inr True")
    case True
    then show ?thesis using assms(5) q s len same12 assms(3,4)
      by (fastforce simp: resume_offset_def FileExists_def GetFileSize_def split: sum.splits if_splits)
  next
    case False
    then show ?thesis using assms(5) q same1 assms(3,4)
      by (auto simp: resume_offset_def FileExists_def split: sum.splits bool.splits)
  qed
qed

lemma longUpload_spec:
  assumes "hosts_ok ho rf lf" and "longUpload ho c data p h = (r, h')"
  shows "same_but {(c, p)} rf lf h h' \<and> (rf c p h' = rf c p h \<or> (\<exists>k. rf c p h' = Some (take k data)))
    \<and> (r = None \<longrightarrow> rf c p h' = Some data)"
proof -
  obtain up where "upload_ok up rf lf" "up c data p h = (r, h')"
    using assms by (cases "ho_isLong ho c") (auto simp: hosts_ok_def longUpload_def)
  then show ?thesis unfolding upload_ok_def by blast
qed

lemma temp_path_differs [simp]: "temp_path p \<noteq> p"
  by (simp add: temp_path_def)

lemma append_spec:
  assumes "hosts_ok ho rf lf" and "CHR 39 \<notin> set p" and "rf c p h = Some f" and "uploadAndAppend ho c data p h = (r, h')"
  shows "lf q h' = lf q h \<and> (\<exists>k. rf c p h' = Some (f @ take k data)) \<and> (r = None \<longrightarrow> rf c p h' = Some (f @ data))"
proof -
  have ok: "remove_ok ho rf lf" "append_ok ho rf lf" using assms(1) by (simp_all add: hosts_ok_def)
  obtain u h1 where u: "longUpload ho c data (temp_path p) h = (u, h1)" by (cases "longUpload ho c data (temp_path p) h")
  have up: "same_but {(c, temp_path p)} rf lf h h1" "u = None \<longrightarrow> rf c (temp_path p) h1 = Some data"
    using longUpload_spec [OF assms(1) u] by blast+
  have f1: "rf c p h1 = Some f" "lf q h1 = lf q h" using up(1) assms(3) by (simp_all add: same_but_def) (metis temp_path_differs)
  have nq: "CHR 39 \<notin> set (temp_path p)" using assms(2) by (simp add: temp_path_def)
  show ?thesis
  proof (cases u)
    case None
    obtain x h2 where x: "ho_exec ho c (append_command p) h1 = (x, h2)" by (cases "ho_exec ho c (append_command p) h1")
    note ap = ok(2)[unfolded append_ok_def, rule_format, OF append_reads [OF assms(2)] temp_path_differs x]
    have data: "text_of (rf c (temp_path p) h1) = data" "text_of (rf c p h1) = f"
      using up(2) None f1 by (simp_all add: text_of_def)
    have "rf c p h2 = Some f \<or> (\<exists>k. rf c p h2 = Some (f @ take k data))" using ap f1(1) data by auto
    then have k: "\<exists>k. rf c p h2 = Some (f @ take k data)" by (metis append_Nil2 take0)
    have "lf q h2 = lf q h" using ap f1(2) by (simp add: same_but_def)
    moreover have "h' = h2 \<and> (r = None \<longrightarrow> rf c p h2 = Some (f @ data))"
      using assms(4) u x None ap data by (auto simp: uploadAndAppend_def split: sum.splits if_splits prod.splits)
    ultimately show ?thesis using k by simp
  next
    case (Some err)
    then have h': "h' = snd (ho_exec ho c (remove_command (temp_path p)) h1)" "r \<noteq> None"
      using assms(4) u by (auto simp: uploadAndAppend_def)
    obtain x h2 where x: "ho_exec ho c (remove_command (temp_path p)) h1 = (x, h2)" by (cases "ho_exec ho c (remove_command (temp_path p)) h1")
    note rm = ok(1)[unfolded remove_ok_def, rule_format, OF remove_reads [OF nq] x]
    have "rf c p h2 = Some f" "lf q h2 = lf q h" using rm f1 by (simp_all add: same_but_def) (metis temp_path_differs)
    then show ?thesis using h' x by (auto intro: exI [of _ 0])
  qed
qed

subsection \<open>One attempt, and all of them\<close>

text \<open>\<open>D\<close> is what the destination held at first, \<open>S\<close> the source: at any time the destination holds a beginning of the
  source, or \<open>D\<close> followed by a part of what the source holds after the length of \<open>D\<close>.\<close>

definition in_copy :: "string \<Rightarrow> string \<Rightarrow> string option \<Rightarrow> bool" where
  "in_copy D S f \<longleftrightarrow> f = None \<or> (\<exists>k. f = Some (take k S)) \<or> (\<exists>k. f = Some (D @ take k (drop (length D) S)))"

definition copied :: "string \<Rightarrow> string \<Rightarrow> string option \<Rightarrow> bool" where
  "copied D S f \<longleftrightarrow> f = Some S \<or> (0 < length D \<and> length D < length S \<and> f = Some (D @ drop (length D) S))"

lemma in_copy_taken: "in_copy D S (Some (take k S))"
  by (auto simp: in_copy_def)

lemma in_copy_append:
  assumes "in_copy D S (Some f)" and "0 < length f" "length f < length S"
  shows "in_copy D S (Some (f @ take k (drop (length f) S)))" and "copied D S (Some (f @ drop (length f) S))"
proof -
  from assms(1) consider j where "f = take j S" | j where "f = D @ take j (drop (length D) S)" by (auto simp: in_copy_def)
  then have "in_copy D S (Some (f @ take k (drop (length f) S))) \<and> copied D S (Some (f @ drop (length f) S))"
  proof cases
    case 1
    with assms(3) have f: "f = take (length f) S" by (metis append_eq_conv_conj append_take_drop_id)
    then have "f @ take k (drop (length f) S) = take (length f + k) S" by (metis take_add)
    moreover have "f @ drop (length f) S = S" using f by (metis append_take_drop_id)
    ultimately show ?thesis by (auto simp: in_copy_def copied_def)
  next
    case 2
    have D: "length D < length S" using 2 assms(3) by simp
    let ?r = "drop (length D) S"
    have j: "length f = length D + length (take j ?r)" "take j ?r = take (length (take j ?r)) ?r"
      using 2 by (simp_all add: take_all_iff min_def)
    then have d: "drop (length f) S = drop (length (take j ?r)) ?r" by (simp add: add.commute)
    have "f @ take k (drop (length f) S) = D @ take (length (take j ?r) + k) ?r"
      unfolding d using 2 j(2) by (metis append_assoc take_add)
    moreover have "f @ drop (length f) S = D @ ?r"
      unfolding d using 2 j(2) by (metis append_assoc append_take_drop_id)
    ultimately show ?thesis using D assms(2) by (cases "D = []") (auto simp: in_copy_def copied_def)
  qed
  then show "in_copy D S (Some (f @ take k (drop (length f) S)))" "copied D S (Some (f @ drop (length f) S))" by blast+
qed

lemma local_spec:
  assumes "hosts_ok ho rf lf"
  shows "ho_stat ho p h = (r, h') \<Longrightarrow> same_but {} rf lf h h' \<and> (r = StatSize n \<longrightarrow> (\<exists>x. lf p h = Some x \<and> n = int (length x)))"
    and "ho_read ho p h = (q, h') \<Longrightarrow> same_but {} rf lf h h' \<and> (q = Inr x \<longrightarrow> lf p h = Some x)"
    and "same_but {} rf lf h (snd (ho_wait ho m h))"
  using assms by (auto simp: hosts_ok_def local_ok_def)

lemma attempt_spec:
  assumes ok: "hosts_ok ho rf lf" and src: "tt_IsLocal src" and dst: "\<not> tt_IsLocal dst" "tt_SSHClient dst = Some c"
    and q: "CHR 39 \<notin> set (tt_Path dst)" and S: "lf (tt_Path src) h = Some S" and f: "in_copy D S (rf c (tt_Path dst) h)"
    and run: "localToRemote ho src dst opts h = (r, h')"
  shows "lf (tt_Path src) h' = Some S \<and> in_copy D S (rf c (tt_Path dst) h')
    \<and> (r = Inr res \<longrightarrow> copied D S (rf c (tt_Path dst) h') \<and> tr_BytesTransferred res = int (length S))"
proof -
  obtain s h1 where st: "ho_stat ho (tt_Path src) h = (s, h1)" by (cases "ho_stat ho (tt_Path src) h")
  note s1 = local_spec(1) [OF ok st]
  have same1: "same_but {} rf lf h h1" using s1 by blast
  show ?thesis
  proof (cases s)
    case (StatSize n)
    then have n: "n = int (length S)" using s1 S by fastforce
    obtain off h2 where o: "(if to_Resume opts then resume_offset ho dst n h1 else (0, h1)) = (off, h2)"
      by (cases "if to_Resume opts then resume_offset ho dst n h1 else (0, h1)")
    have same12: "same_but {} rf lf h1 h2"
      and off1: "0 < off \<longrightarrow> (\<exists>x. rf c (tt_Path dst) h1 = Some x \<and> off = length x \<and> int off < n)"
      using offset_spec [OF ok q dst, of n h1 off h2] o by (auto split: if_splits)
    have same2: "same_but {} rf lf h h2" using same_but_trans [OF same1 same12] by simp
    have off: "0 < off \<Longrightarrow> \<exists>x. rf c (tt_Path dst) h2 = Some x \<and> off = length x \<and> off < length S"
      using off1 n same_but_remote [OF same12, of c "tt_Path dst"] by auto
    obtain y h3 where y: "ho_read ho (tt_Path src) h2 = (y, h3)" by (cases "ho_read ho (tt_Path src) h2")
    note s3 = local_spec(2) [OF ok y]
    have same3: "same_but {} rf lf h h3" "rf c (tt_Path dst) h3 = rf c (tt_Path dst) h2"
      using same_but_trans [OF same2, of "{}" h3] same_but_remote [of "{}" rf lf h2 h3] s3 by simp_all
    have at3: "lf (tt_Path src) h3 = Some S" "in_copy D S (rf c (tt_Path dst) h3)"
      using same3(1) S f by (simp_all add: same_but_def)
    show ?thesis
    proof (cases y)
      case (Inl e)
      then show ?thesis using run st StatSize o y at3 src dst
        by (auto simp: localToRemote_def GetFileSize_def getLocalFileSize_def)
    next
      case (Inr content)
      then have content: "content = S" using s3 same2 S by (auto simp: same_but_def)
      let ?up = "if 0 < off then uploadAndAppend ho c (drop off S) (tt_Path dst) h3 else longUpload ho c S (tt_Path dst) h3"
      obtain e h4 where e: "?up = (e, h4)" by (cases ?up)
      have res: "h' = h4" "r = Inr res \<longrightarrow> e = None \<and> res = copy_result (off + length (drop off S)) (0 < off)"
        using run st StatSize o y Inr content e src dst
        by (auto simp: localToRemote_def GetFileSize_def getLocalFileSize_def split: option.splits)
      have "lf (tt_Path src) h4 = Some S \<and> in_copy D S (rf c (tt_Path dst) h4) \<and> (e = None \<longrightarrow> copied D S (rf c (tt_Path dst) h4))"
      proof (cases "0 < off")
        case True
        then obtain x where x: "rf c (tt_Path dst) h3 = Some x" "off = length x" "off < length S" using off same3(2) by auto
        have up: "uploadAndAppend ho c (drop (length x) S) (tt_Path dst) h3 = (e, h4)" using e True x(2) by simp
        note ap = append_spec [OF ok q x(1) up, of "tt_Path src"]
        have "in_copy D S (Some x)" using at3(2) x(1) by simp
        then have part: "\<And>k. in_copy D S (Some (x @ take k (drop (length x) S)))" "copied D S (Some (x @ drop (length x) S))"
          using in_copy_append [of D S x] x True by auto
        obtain k where "rf c (tt_Path dst) h4 = Some (x @ take k (drop (length x) S))" using ap by blast
        then have "in_copy D S (rf c (tt_Path dst) h4)" using part(1) by simp
        with ap at3(1) part(2) show ?thesis by auto
      next
        case False
        then have up: "longUpload ho c S (tt_Path dst) h3 = (e, h4)" using e by simp
        note ul = longUpload_spec [OF ok up]
        have "in_copy D S (rf c (tt_Path dst) h4)"
          using ul at3(2) by (elim conjE disjE exE) (simp_all add: in_copy_taken)
        then show ?thesis using ul at3(1) by (auto simp: same_but_def copied_def)
      qed
      moreover have "off \<le> length S" using off by fastforce
      ultimately show ?thesis using res by (auto simp: copy_result_def)
    qed
  qed (use run st same1 S f src dst in \<open>auto simp: localToRemote_def GetFileSize_def getLocalFileSize_def same_but_def\<close>)
qed

lemma attempts_spec:
  assumes ok: "hosts_ok ho rf lf" and src: "tt_IsLocal src" and dst: "\<not> tt_IsLocal dst" "tt_SSHClient dst = Some c"
    and q: "CHR 39 \<notin> set (tt_Path dst)"
  shows "lf (tt_Path src) h = Some S \<Longrightarrow> in_copy D S (rf c (tt_Path dst) h) \<Longrightarrow>
    transfer_attempts ho (scp_transferOnce ho src dst opts) failure a n prev h = (r, h') \<Longrightarrow>
    lf (tt_Path src) h' = Some S \<and> in_copy D S (rf c (tt_Path dst) h')
    \<and> (r = Inr res \<longrightarrow> copied D S (rf c (tt_Path dst) h') \<and> tr_BytesTransferred res = int (length S))"
proof (induction n arbitrary: a prev h)
  case (Suc n)
  show ?case
  proof (cases "ho_ctxErr ho h")
    case None
    obtain x h1 where x: "localToRemote ho src dst opts h = (x, h1)" by (cases "localToRemote ho src dst opts h")
    then have once: "scp_transferOnce ho src dst opts a h = (x, h1)" using src dst(1) by (simp add: scp_transferOnce_def)
    note at = attempt_spec [OF ok src dst q Suc.prems(1,2) x]
    show ?thesis
    proof (cases x)
      case (Inr y)
      then show ?thesis using Suc.prems(3) at None once by auto
    next
      case (Inl e)
      obtain v h2 where w: "ho_wait ho (a + 1) h1 = (v, h2)" by (cases "ho_wait ho (a + 1) h1")
      then have same: "same_but {} rf lf h1 h2" using local_spec(3) [OF ok, of h1 "a + 1"] by simp
      then have at2: "lf (tt_Path src) h2 = Some S" "in_copy D S (rf c (tt_Path dst) h2)"
        using at by (simp_all add: same_but_def)
      show ?thesis using Suc.prems(3) at at2 None once Inl w Suc.IH [of h1] Suc.IH [of h2]
        by (auto split: option.splits if_splits)
    qed
  qed (use Suc.prems in auto)
qed (auto split: option.splits)


subsection \<open>A file that is no beginning of the source\<close>

definition calm_hosts :: "'h hosts \<Rightarrow> 'h remote_view \<Rightarrow> 'h local_view \<Rightarrow> bool" where
  "calm_hosts ho rf lf \<longleftrightarrow> (\<forall>h. ho_ctxErr ho h = None)
     \<and> (\<forall>c cmd p h. shell_reads cmd = Some (exists_tokens p) \<longrightarrow> is_ok (fst (ho_exec ho c cmd h)))
     \<and> (\<forall>c cmd p h. shell_reads cmd = Some (stat_tokens p) \<longrightarrow> rf c p h \<noteq> None \<longrightarrow> (\<exists>out e. fst (ho_exec ho c cmd h) = Inr (out, e, 0)))
     \<and> (\<forall>c cmd t p h. shell_reads cmd = Some (append_tokens t p) \<longrightarrow> rf c t h \<noteq> None \<longrightarrow> (\<exists>out e. fst (ho_exec ho c cmd h) = Inr (out, e, 0)))
     \<and> (\<forall>c data p h. fst (longUpload ho c data p h) = None)
     \<and> (\<forall>p h x. lf p h = Some x \<longrightarrow> fst (ho_stat ho p h) = StatSize (int (length x)) \<and> fst (ho_read ho p h) = Inr x)"

lemma calm_spec:
  assumes "calm_hosts ho rf lf"
  shows "ho_ctxErr ho h = None"
    and "shell_reads cmd = Some (exists_tokens p) \<Longrightarrow> is_ok (fst (ho_exec ho c cmd h))"
    and "shell_reads cmd = Some (stat_tokens p) \<Longrightarrow> rf c p h = Some x \<Longrightarrow> \<exists>out e h'. ho_exec ho c cmd h = (Inr (out, e, 0), h')"
    and "shell_reads cmd = Some (append_tokens t p) \<Longrightarrow> rf c t h = Some x \<Longrightarrow> \<exists>out e h'. ho_exec ho c cmd h = (Inr (out, e, 0), h')"
    and "longUpload ho c data p h = (u, h1) \<Longrightarrow> u = None"
    and "lf p h = Some x \<Longrightarrow> \<exists>h'. ho_stat ho p h = (StatSize (int (length x)), h')"
    and "lf p h = Some x \<Longrightarrow> \<exists>h'. ho_read ho p h = (Inr x, h')"
  using assms unfolding calm_hosts_def by (metis fst_conv option.distinct(1) surj_pair)+

lemma Sscanf_string_of_nat:
  assumes "n < 2 ^ 63"
  shows "Sscanf_d (string_of_nat n) = Some (int n)"
proof -
  obtain c s where cs: "string_of_nat n = c # s" by (cases "string_of_nat n") auto
  have digits: "list_all is_digit (c # s)" using string_of_nat_digits [of n] cs by simp
  then have c: "\<not> (c = CHR 32 \<or> c = CHR 9)" "\<not> HasPrefix (c # s) ''-''" "\<not> HasPrefix (c # s) ''+''"
    by (auto simp: is_digit_def HasPrefix_def)
  have "Sscanf_d (c # s) = Atoi (c # s)" using c digits by (simp add: Sscanf_d_def Let_def takeWhile_all)
  then show ?thesis using Atoi_string_of_nat [OF assms] cs by simp
qed

lemma calm_exists:
  assumes "hosts_ok ho rf lf" "calm_hosts ho rf lf" and "CHR 39 \<notin> set p" and "remoteFileExists ho c p h = (r, h')"
  shows "r = Inr (rf c p h \<noteq> None)"
proof -
  have "is_ok (fst (ho_exec ho c (exists_command p) h))"
    by (rule calm_spec(2) [OF assms(2) exists_reads [OF assms(3)]])
  then obtain b where "r = Inr b" using assms(4) by (auto simp: remoteFileExists_def split: prod.splits sum.splits)
  then show ?thesis using exists_spec [OF assms(1,3,4), of b] by simp
qed

lemma calm_size:
  assumes "hosts_ok ho rf lf" "calm_hosts ho rf lf" and "CHR 39 \<notin> set p" and "rf c p h = Some x" "length x < 2 ^ 63"
    and "getRemoteFileSize ho c p h = (r, h')"
  shows "r = Inr (int (length x))"
proof -
  obtain out e h1 where ex: "ho_exec ho c (stat_command p) h = (Inr (out, e, 0), h1)"
    using calm_spec(3) [OF assms(2) stat_reads [OF assms(3)] assms(4)] by blast
  have "stat_ok ho rf lf" using assms(1) by (simp add: hosts_ok_def)
  with stat_reads [OF assms(3)] ex assms(4) have "TrimSpace out = string_of_nat (length x)"
    unfolding stat_ok_def by (metis option.inject)
  then show ?thesis using assms(5,6) ex by (simp add: getRemoteFileSize_def Sscanf_string_of_nat)
qed

lemma calm_offset:
  assumes "hosts_ok ho rf lf" "calm_hosts ho rf lf" and "CHR 39 \<notin> set (tt_Path t)" and "\<not> tt_IsLocal t" "tt_SSHClient t = Some c"
    and "rf c (tt_Path t) h = Some x" "0 < length x" "length x < 2 ^ 63" "int (length x) < total_size"
    and "resume_offset ho t total_size h = (n, h')"
  shows "n = length x"
proof -
  obtain q h1 where q: "remoteFileExists ho c (tt_Path t) h = (q, h1)" by (cases "remoteFileExists ho c (tt_Path t) h")
  have qT: "q = Inr True" using calm_exists [OF assms(1-3) q] assms(6) by simp
  have "same_but {} rf lf h h1" using exists_spec [OF assms(1,3) q] by blast
  then have x1: "rf c (tt_Path t) h1 = Some x" using assms(6) by (simp add: same_but_def)
  obtain s h2 where s: "getRemoteFileSize ho c (tt_Path t) h1 = (s, h2)" by (cases "getRemoteFileSize ho c (tt_Path t) h1")
  have "s = Inr (int (length x))" by (rule calm_size [OF assms(1-3) x1 assms(8) s])
  then show ?thesis using assms(4,5,7,9,10) q qT s by (simp add: resume_offset_def FileExists_def GetFileSize_def)
qed

lemma calm_append:
  assumes "hosts_ok ho rf lf" "calm_hosts ho rf lf" and "CHR 39 \<notin> set p" and "uploadAndAppend ho c data p h = (r, h')"
  shows "r = None"
proof -
  obtain u h1 where u: "longUpload ho c data (temp_path p) h = (u, h1)" by (cases "longUpload ho c data (temp_path p) h")
  have uN: "u = None" using calm_spec(5) [OF assms(2) u] .
  then have "rf c (temp_path p) h1 = Some data" using longUpload_spec [OF assms(1) u] by blast
  then obtain out e h2 where "ho_exec ho c (append_command p) h1 = (Inr (out, e, 0), h2)"
    using calm_spec(4) [OF assms(2) append_reads [OF assms(3)]] by blast
  then show ?thesis using assms(4) u uN by (simp add: uploadAndAppend_def)
qed

lemma calm_copy:
  assumes ok: "hosts_ok ho rf lf" "calm_hosts ho rf lf" and src: "tt_IsLocal src" and dst: "\<not> tt_IsLocal dst" "tt_SSHClient dst = Some c"
    and q: "CHR 39 \<notin> set (tt_Path dst)" and S: "lf (tt_Path src) h = Some S" and D: "rf c (tt_Path dst) h = Some D"
    and len: "0 < length D" "length D < length S" "length D < 2 ^ 63" and opts: "to_Resume opts" "0 \<le> to_MaxRetries opts"
    and run: "scp_Transfer ho src dst opts h = (r, h')"
  shows "r = Inr \<lparr>tr_BytesTransferred = int (length S), tr_Resumed = True, tr_Strategy = ''scp''\<rparr>
    \<and> rf c (tt_Path dst) h' = Some (D @ drop (length D) S)"
proof -
  obtain h1 where st: "ho_stat ho (tt_Path src) h = (StatSize (int (length S)), h1)"
    using calm_spec(6) [OF ok(2) S] by blast
  have same1: "same_but {} rf lf h h1" using local_spec(1) [OF ok(1) st] by blast
  obtain off h2 where o: "resume_offset ho dst (int (length S)) h1 = (off, h2)" by (cases "resume_offset ho dst (int (length S)) h1")
  have D1: "rf c (tt_Path dst) h1 = Some D" "lf (tt_Path src) h1 = Some S" using same1 S D by (simp_all add: same_but_def)
  have off: "off = length D" using calm_offset [OF ok q dst D1(1) len(1,3) _ o] len(2) by simp
  have same2: "same_but {} rf lf h1 h2" using offset_spec [OF ok(1) q dst o] by blast
  have D2: "rf c (tt_Path dst) h2 = Some D" "lf (tt_Path src) h2 = Some S" using same2 D1 by (simp_all add: same_but_def)
  obtain h3 where y: "ho_read ho (tt_Path src) h2 = (Inr S, h3)"
    using calm_spec(7) [OF ok(2) D2(2)] by blast
  have "same_but {} rf lf h2 h3" using local_spec(2) [OF ok(1) y] by blast
  then have D3: "rf c (tt_Path dst) h3 = Some D" using D2 by (simp add: same_but_def)
  obtain e h4 where e: "uploadAndAppend ho c (drop (length D) S) (tt_Path dst) h3 = (e, h4)"
    by (cases "uploadAndAppend ho c (drop (length D) S) (tt_Path dst) h3")
  have eN: "e = None" by (rule calm_append [OF ok q e])
  then have end4: "rf c (tt_Path dst) h4 = Some (D @ drop (length D) S)" using append_spec [OF ok(1) q D3 e] by blast
  have once: "scp_transferOnce ho src dst opts 0 h = (Inr (copy_result (length S) True), h4)"
    using st o off y e eN src dst opts(1) len
    by (simp add: scp_transferOnce_def localToRemote_def GetFileSize_def getLocalFileSize_def)
  obtain n where n: "nat (max_attempts opts) = Suc n"
    using opts(2) by (cases "nat (max_attempts opts)") (auto simp: max_attempts_def split: if_splits)
  have "ho_ctxErr ho h = None" by (rule calm_spec(1) [OF ok(2)])
  then show ?thesis using run end4 once n
    by (auto simp: scp_Transfer_def with_strategy_def strategy_Name_def copy_result_def)
qed

text \<open>The offset from which a copy goes on is the size of whatever file is at the destination: when nothing fails
  and a shorter file is there that is no beginning of the source, the copy reports success as a resumed one, at
  the first attempt, and what it leaves is not the source.\<close>

theorem foreign_file_is_completed:
  assumes "hosts_ok ho rf lf" "calm_hosts ho rf lf" and "tt_IsLocal src" and "\<not> tt_IsLocal dst" "tt_SSHClient dst = Some c"
    and "CHR 39 \<notin> set (tt_Path dst)" and "lf (tt_Path src) h = Some S" and "rf c (tt_Path dst) h = Some D"
    and "0 < length D" "length D < length S" "length D < 2 ^ 63" and "to_Resume opts" "0 \<le> to_MaxRetries opts"
    and "\<not> prefix D S" and "scp_Transfer ho src dst opts h = (r, h')"
  shows "r = Inr \<lparr>tr_BytesTransferred = int (length S), tr_Resumed = True, tr_Strategy = ''scp''\<rparr>
    \<and> rf c (tt_Path dst) h' = Some (D @ drop (length D) S) \<and> rf c (tt_Path dst) h' \<noteq> Some S"
  using calm_copy [OF assms(1-13,15)] assms(14) by (metis option.inject prefixI)

subsection \<open>Hosts that behave\<close>

definition arg_at :: "nat \<Rightarrow> shell_token list \<Rightarrow> string" where
  "arg_at n ts = (case drop n ts of Word w # _ \<Rightarrow> w | _ \<Rightarrow> '''')"

type_synonym demo_state = "(nat \<times> string \<Rightarrow> string option) \<times> (string \<Rightarrow> string option)"

definition demo_exec :: "nat \<Rightarrow> string \<Rightarrow> demo_state \<Rightarrow> (string \<times> string \<times> int) res \<times> demo_state" where
  "demo_exec c cmd s = (case shell_reads cmd of
       None \<Rightarrow> (Inr ('''', '''', 2), s)
     | Some ts \<Rightarrow>
         if ts = exists_tokens (arg_at 2 ts) then
           (Inr (if fst s (c, arg_at 2 ts) \<noteq> None then ''yes'' else ''no'', '''', 0), s)
         else if ts = stat_tokens (arg_at 3 ts) then (case fst s (c, arg_at 3 ts) of
             None \<Rightarrow> (Inr ('''', '''', 1), s)
           | Some x \<Rightarrow> (Inr (string_of_nat (length x), '''', 0), s))
         else if ts = remove_tokens (arg_at 2 ts) then (Inr ('''', '''', 0), ((fst s)((c, arg_at 2 ts) := None), snd s))
         else if ts = append_tokens (arg_at 1 ts) (arg_at 4 ts) then (case fst s (c, arg_at 1 ts) of
             None \<Rightarrow> (Inr ('''', '''', 1), s)
           | Some x \<Rightarrow> (Inr ('''', '''', 0),
               ((fst s)((c, arg_at 4 ts) := Some (text_of (fst s (c, arg_at 4 ts)) @ x), (c, arg_at 1 ts) := None), snd s)))
         else (Inr ('''', '''', 127), s))"

definition demo_hosts :: "demo_state hosts" where
  "demo_hosts = \<lparr>ho_exec = demo_exec,
     ho_upload = (\<lambda>c data p s. (None, ((fst s)((c, p) := Some data), snd s))),
     ho_download = (\<lambda>c p s. ((None, text_of (fst s (c, p))), s)),
     ho_isLong = (\<lambda>c. True),
     ho_uploadLong = (\<lambda>c data p s. (None, ((fst s)((c, p) := Some data), snd s))),
     ho_downloadLong = (\<lambda>c p s. ((None, text_of (fst s (c, p))), s)),
     ho_localExec = (\<lambda>argv s. (Inr ('''', 127), s)), ho_rsync = (\<lambda>argv s. (RunExited 127 '''', s)),
     ho_stat = (\<lambda>p s. (case snd s p of None \<Rightarrow> StatMissing (ErrF ''missing'') | Some x \<Rightarrow> StatSize (int (length x)), s)),
     ho_read = (\<lambda>p s. (case snd s p of None \<Rightarrow> Inl (ErrF ''missing'') | Some x \<Rightarrow> Inr x, s)),
     ho_open = (\<lambda>p trunc s. (None, s)), ho_append = (\<lambda>p x s. (None, s)), ho_remove = (\<lambda>p s. (None, s)),
     ho_removeAll = (\<lambda>p s. (None, s)), ho_mkdirAll = (\<lambda>p s. (None, s)), ho_walk = (\<lambda>p s. (Inr [], s)),
     ho_ctxErr = (\<lambda>s. None), ho_wait = (\<lambda>n s. (None, s)), ho_sha256hex = (\<lambda>x. replicate 64 CHR ''0'')\<rparr>"

abbreviation demo_remote :: "demo_state remote_view" where "demo_remote \<equiv> \<lambda>c p s. fst s (c, p)"
abbreviation demo_local :: "demo_state local_view" where "demo_local \<equiv> \<lambda>p s. snd s p"

lemma dropWhile_none: "list_all (\<lambda>c. \<not> P c) s \<Longrightarrow> dropWhile P s = s"
  by (cases s) auto

lemma TrimSpace_digits [simp]: "TrimSpace (string_of_nat n) = string_of_nat n"
proof -
  have "\<not> is_space c" if "c \<in> set (string_of_nat n)" for c
    using string_of_nat_chars [OF that] by (auto simp: is_digit_def is_space_def)
  then show ?thesis by (simp add: TrimSpace_def dropWhile_none list_all_iff)
qed

lemma token_args [simp]:
  "arg_at 2 (exists_tokens p) = p" "arg_at 3 (stat_tokens p) = p" "arg_at 2 (remove_tokens p) = p"
  "arg_at (Suc 0) (append_tokens t p) = t" "arg_at 4 (append_tokens t p) = p"
  by (simp_all add: exists_tokens_def stat_tokens_def remove_tokens_def append_tokens_def arg_at_def)

lemma tokens_differ [simp]:
  "stat_tokens p \<noteq> exists_tokens q" "remove_tokens p \<noteq> exists_tokens q" "append_tokens t p \<noteq> exists_tokens q"
  "remove_tokens p \<noteq> stat_tokens q" "append_tokens t p \<noteq> stat_tokens q" "append_tokens t p \<noteq> remove_tokens q"
  by (simp_all add: exists_tokens_def stat_tokens_def remove_tokens_def append_tokens_def)

lemma demo_exists: "shell_reads cmd = Some (exists_tokens p) \<Longrightarrow>
    demo_exec c cmd s = (Inr (if fst s (c, p) \<noteq> None then ''yes'' else ''no'', '''', 0), s)"
  by (simp add: demo_exec_def)

lemma demo_stat: "shell_reads cmd = Some (stat_tokens p) \<Longrightarrow> demo_exec c cmd s =
    (case fst s (c, p) of None \<Rightarrow> (Inr ('''', '''', 1), s) | Some x \<Rightarrow> (Inr (string_of_nat (length x), '''', 0), s))"
  by (simp add: demo_exec_def)

lemma demo_remove: "shell_reads cmd = Some (remove_tokens p) \<Longrightarrow>
    demo_exec c cmd s = (Inr ('''', '''', 0), ((fst s)((c, p) := None), snd s))"
  by (simp add: demo_exec_def)

lemma demo_append: "shell_reads cmd = Some (append_tokens t p) \<Longrightarrow> demo_exec c cmd s =
    (case fst s (c, t) of
       None \<Rightarrow> (Inr ('''', '''', 1), s)
     | Some x \<Rightarrow> (Inr ('''', '''', 0), ((fst s)((c, p) := Some (text_of (fst s (c, p)) @ x), (c, t) := None), snd s)))"
  by (simp add: demo_exec_def split: option.split)

lemma whole_taken [simp]: "\<exists>k. x = take k x"
  by (metis order_refl take_all)

lemma demo_hosts_ok: "hosts_ok demo_hosts demo_remote demo_local"
  unfolding hosts_ok_def
proof (intro conjI)
  show "exists_ok demo_hosts demo_remote demo_local"
    by (auto simp: exists_ok_def demo_hosts_def demo_exists TrimSpace_def is_space_def)
  show "stat_ok demo_hosts demo_remote demo_local"
    by (auto simp: stat_ok_def demo_hosts_def demo_stat split: option.splits)
  show "remove_ok demo_hosts demo_remote demo_local"
    by (auto simp: remove_ok_def demo_hosts_def demo_remove same_but_def)
  show "append_ok demo_hosts demo_remote demo_local"
    by (auto simp: append_ok_def demo_hosts_def demo_append same_but_def text_of_def split: option.splits)
  show "local_ok demo_hosts demo_remote demo_local"
    by (auto simp: local_ok_def demo_hosts_def split: option.splits)
qed (auto simp: upload_ok_def demo_hosts_def same_but_def)

lemma demo_calm: "calm_hosts demo_hosts demo_remote demo_local"
  unfolding calm_hosts_def
  by (auto simp: demo_hosts_def demo_exists demo_stat demo_append longUpload_def split: option.splits)

definition demo_source :: TransferTarget where
  "demo_source = \<lparr>tt_Host = '''', tt_Port = 0, tt_User = '''', tt_Path = ''/src'', tt_SSHClient = None, tt_IsLocal = True\<rparr>"

definition demo_dest :: TransferTarget where
  "demo_dest = \<lparr>tt_Host = ''b'', tt_Port = 22, tt_User = ''root'', tt_Path = ''/dst'', tt_SSHClient = Some 1, tt_IsLocal = False\<rparr>"

definition demo_files :: "string \<Rightarrow> demo_state" where
  "demo_files D = ((\<lambda>_. None)((1, ''/dst'') := Some D), (\<lambda>_. None)(''/src'' := Some ''hello''))"

definition demo_options :: TransferOptions where
  "demo_options = \<lparr>to_Resume = True, to_MaxRetries = 0, to_Callback = False\<rparr>"

lemmas demo_defs = demo_source_def demo_dest_def demo_files_def demo_options_def


lemma foreign_file_is_completed_witness:
  "\<exists>r h'. scp_Transfer demo_hosts demo_source demo_dest demo_options (demo_files ''xy'') = (r, h')
     \<and> is_ok r \<and> demo_remote 1 ''/dst'' h' = Some ''xyllo''"
proof -
  obtain r h' where run: "scp_Transfer demo_hosts demo_source demo_dest demo_options (demo_files ''xy'') = (r, h')" by (rule prod.exhaust)
  show ?thesis
    using foreign_file_is_completed [OF demo_hosts_ok demo_calm _ _ _ _ _ _ _ _ _ _ _ _ run, of 1 "''hello''" "''xy''"] run
    by (simp add: demo_defs)
qed

end
