(* ===== verification/Distro.thy ===== *)
theory Distro
  imports ShellText Topology
begin

section \<open>Distributions and packages of a host (\<open>migration/distro.go\<close>, \<open>migration/packages.go\<close>)\<close>

text \<open>
  What a distribution is, how its package manager is driven, and the collector and the applier of the
  category \<open>packages\<close>. A host is any state that answers commands: \<open>tg_exec\<close> is \<open>ExecContext\<close>, \<open>tg_long\<close> the
  command without a time limit where the connection has one, \<open>tg_ctxErr\<close> the error of the context,
  \<open>tg_sanitize\<close> the redaction of error texts, and \<open>tg_range\<close> the order in which \<open>range\<close> visits the keys of a
  map. The answer of a command is its output, its error output, its exit code and the error of the call.
\<close>

type_synonym exec_out = "string \<times> string \<times> int \<times> goerr option"

type_synonym 'h ssh = "string \<Rightarrow> 'h \<Rightarrow> exec_out \<times> 'h"

record 'h target_ops =
  tg_exec :: "'h ssh"
  tg_long :: "'h ssh option"
  tg_ctxErr :: "'h \<Rightarrow> goerr option"
  tg_sanitize :: "string \<Rightarrow> string"
  tg_range :: "string list \<Rightarrow> string list"

definition execLongOrContext :: "'h target_ops \<Rightarrow> 'h ssh" where
  "execLongOrContext ops = (case tg_long ops of Some lc \<Rightarrow> lc | None \<Rightarrow> tg_exec ops)"

definition out_lines :: "string \<Rightarrow> string list" where
  "out_lines s = split_at CHR 10 s"

text \<open>\<open>strings.Trim\<close> at one character, and \<open>strings.EqualFold\<close> on ASCII text.\<close>

definition Trim_char :: "char \<Rightarrow> string \<Rightarrow> string" where
  "Trim_char c s = rev (dropWhile ((=) c) (rev (dropWhile ((=) c) s)))"

definition EqualFold :: "string \<Rightarrow> string \<Rightarrow> bool" where
  "EqualFold a b \<longleftrightarrow> ToLower a = ToLower b"

definition contains_fold :: "string list \<Rightarrow> string \<Rightarrow> bool" where
  "contains_fold slice s \<longleftrightarrow> list_ex (\<lambda>v. EqualFold v s) slice"

subsection \<open>Distributions\<close>

record DistroInfo =
  di_Name :: string
  di_Family :: string
  di_Version :: string
  di_PackageManager :: string

definition distroFamily :: "string \<Rightarrow> string" where
  "distroFamily i =
     (if i \<in> {''debian'', ''ubuntu'', ''linuxmint'', ''raspbian''} then ''debian''
      else if i \<in> {''rhel'', ''centos'', ''rocky'', ''almalinux'', ''fedora'', ''ol''} then ''rhel''
      else if i \<in> {''arch'', ''manjaro'', ''garuda''} then ''arch''
      else if i = ''alpine'' then ''alpine''
      else if i \<in> {''opensuse-leap'', ''opensuse-tumbleweed'', ''suse'', ''sles''} then ''suse''
      else ''unknown'')"

definition distroPackageManager :: "string \<Rightarrow> string" where
  "distroPackageManager i =
     (if i \<in> {''debian'', ''ubuntu'', ''linuxmint'', ''raspbian''} then ''apt''
      else if i \<in> {''rhel'', ''centos'', ''rocky'', ''almalinux'', ''fedora'', ''ol''} then ''dnf''
      else if i \<in> {''arch'', ''manjaro'', ''garuda''} then ''pacman''
      else if i = ''alpine'' then ''apk''
      else if i \<in> {''opensuse-leap'', ''opensuse-tumbleweed'', ''suse'', ''sles''} then ''zypper''
      else ''unknown'')"

definition os_release_line :: "string \<Rightarrow> DistroInfo \<Rightarrow> DistroInfo" where
  "os_release_line raw info =
     (let line = TrimSpace raw;
          info1 = (if HasPrefix line ''ID='' then info\<lparr>di_Name := Trim_char CHR 34 (drop 3 line)\<rparr> else info)
      in if HasPrefix line ''VERSION_ID='' then info1\<lparr>di_Version := Trim_char CHR 34 (drop 11 line)\<rparr> else info1)"

definition DetectDistro :: "'h target_ops \<Rightarrow> 'h \<Rightarrow> DistroInfo res \<times> 'h" where
  "DetectDistro ops h = (case tg_exec ops ''cat /etc/os-release'' h of
       ((_, _, _, Some err), h1) \<Rightarrow> (Inl (ErrWrap ''failed to read /etc/os-release: '' err ''''), h1)
     | ((out, _, _, None), h1) \<Rightarrow>
         (let info = fold os_release_line (out_lines out)
                \<lparr>di_Name = '''', di_Family = '''', di_Version = '''', di_PackageManager = ''''\<rparr>
          in if di_Name info = '''' then (Inl (ErrF ''could not detect distro from /etc/os-release''), h1)
             else (Inr (info\<lparr>di_Family := distroFamily (di_Name info),
                             di_PackageManager := distroPackageManager (di_Name info)\<rparr>), h1)))"

datatype DistroAdapter = AptAdapter | DnfAdapter | PacmanAdapter | ApkAdapter | ZypperAdapter

definition GetAdapter :: "DistroInfo \<Rightarrow> DistroAdapter res" where
  "GetAdapter info = (let f = di_Family info in
     if f = ''debian'' then Inr AptAdapter
     else if f = ''rhel'' then Inr DnfAdapter
     else if f = ''arch'' then Inr PacmanAdapter
     else if f = ''alpine'' then Inr ApkAdapter
     else if f = ''suse'' then Inr ZypperAdapter
     else Inl (ErrF (''unsupported distro '' @ quoted (if di_Name info = '''' then ''unknown'' else di_Name info)
       @ '' (family '' @ quoted f @ ''): no package manager adapter '' @ em_dash
       @ '' automatic package/service migration is not supported for this distribution'')))"

definition PackageManager :: "DistroAdapter \<Rightarrow> string" where
  "PackageManager a = (case a of AptAdapter \<Rightarrow> ''apt'' | DnfAdapter \<Rightarrow> ''dnf'' | PacmanAdapter \<Rightarrow> ''pacman''
     | ApkAdapter \<Rightarrow> ''apk'' | ZypperAdapter \<Rightarrow> ''zypper'')"

definition rpm_list :: string where
  "rpm_list = ''rpm -qa --qf '' @ CHR 39 # ''%{NAME}'' @ [CHR 92, CHR ''n'', CHR 39]"

definition ListPackages :: "DistroAdapter \<Rightarrow> string" where
  "ListPackages a = (case a of
       AptAdapter \<Rightarrow> ''dpkg-query -W -f='' @ CHR 39 # ''${db:Status-Abbrev} ${binary:Package}'' @ [CHR 92, CHR ''n'', CHR 39]
     | DnfAdapter \<Rightarrow> rpm_list
     | PacmanAdapter \<Rightarrow> ''pacman -Qq''
     | ApkAdapter \<Rightarrow> ''apk info''
     | ZypperAdapter \<Rightarrow> rpm_list)"

definition InstallPackages :: "DistroAdapter \<Rightarrow> string list \<Rightarrow> string" where
  "InstallPackages a pkgs = (case a of
       AptAdapter \<Rightarrow> ''DEBIAN_FRONTEND=noninteractive apt-get install -y -o Dpkg::Options::=--force-confold -o Dpkg::Options::=--force-confdef ''
         @ ShellQuoteArgs pkgs @ '' </dev/null''
     | DnfAdapter \<Rightarrow> ''dnf install -y '' @ ShellQuoteArgs pkgs
     | PacmanAdapter \<Rightarrow> ''pacman -S --noconfirm '' @ ShellQuoteArgs pkgs
     | ApkAdapter \<Rightarrow> ''apk add '' @ ShellQuoteArgs pkgs
     | ZypperAdapter \<Rightarrow> ''zypper install -y '' @ ShellQuoteArgs pkgs)"

definition RemovePackages :: "DistroAdapter \<Rightarrow> string list \<Rightarrow> string" where
  "RemovePackages a pkgs = (case a of
       AptAdapter \<Rightarrow> ''DEBIAN_FRONTEND=noninteractive apt-get remove -y '' @ ShellQuoteArgs pkgs @ '' </dev/null''
     | DnfAdapter \<Rightarrow> ''dnf remove -y '' @ ShellQuoteArgs pkgs
     | PacmanAdapter \<Rightarrow> ''pacman -Rns --noconfirm '' @ ShellQuoteArgs pkgs
     | ApkAdapter \<Rightarrow> ''apk del '' @ ShellQuoteArgs pkgs
     | ZypperAdapter \<Rightarrow> ''zypper remove -y '' @ ShellQuoteArgs pkgs)"

definition EnableService :: "DistroAdapter \<Rightarrow> string \<Rightarrow> string" where
  "EnableService a name = (if a = ApkAdapter then ''rc-update add '' @ ShellQuote name
     else ''systemctl enable '' @ ShellQuote name)"

definition StartService :: "DistroAdapter \<Rightarrow> string \<Rightarrow> string" where
  "StartService a name = (if a = ApkAdapter then ''rc-service '' @ ShellQuote name @ '' start''
     else ''systemctl start '' @ ShellQuote name)"

definition debian_to_rhel :: "(string \<times> string) list" where
  "debian_to_rhel = [(''python3-dev'', ''python3-devel''), (''python3-pip'', ''python3-pip''),
     (''libssl-dev'', ''openssl-devel''), (''libcurl4-openssl-dev'', ''libcurl-devel''),
     (''build-essential'', ''gcc make''), (''libffi-dev'', ''libffi-devel''), (''libxml2-dev'', ''libxml2-devel''),
     (''libxslt-dev'', ''libxslt-devel''), (''default-libmysqlclient-dev'', ''mysql-devel''),
     (''libpq-dev'', ''postgresql-devel'')]"

definition rhel_to_debian :: "(string \<times> string) list" where
  "rhel_to_debian = [(''python3-devel'', ''python3-dev''), (''openssl-devel'', ''libssl-dev''),
     (''libcurl-devel'', ''libcurl4-openssl-dev''), (''libffi-devel'', ''libffi-dev''),
     (''libxml2-devel'', ''libxml2-dev''), (''libxslt-devel'', ''libxslt-dev''),
     (''mysql-devel'', ''default-libmysqlclient-dev''), (''postgresql-devel'', ''libpq-dev'')]"

definition packageMap :: "string \<Rightarrow> (string \<times> string) list" where
  "packageMap key = (if key = ''debian->rhel'' then debian_to_rhel
     else if key = ''rhel->debian'' then rhel_to_debian else [])"

definition MapPackageName :: "string \<Rightarrow> string \<Rightarrow> string \<Rightarrow> string" where
  "MapPackageName source target pkg =
     (if source = target then pkg
      else (case map_of (packageMap (source @ ''->'' @ target)) pkg of Some mapped \<Rightarrow> mapped | None \<Rightarrow> pkg))"

subsection \<open>Lists of packages\<close>

definition parsePackageName :: "string \<Rightarrow> string \<Rightarrow> string" where
  "parsePackageName line pm =
     (if pm = ''apt'' then
        (case Fields line of
           a # b # _ \<Rightarrow> if a = ''ii'' \<or> a = ''hi'' then b else ''''
         | _ \<Rightarrow> '''')
      else TrimSpace line)"

definition parsePackageList :: "string \<Rightarrow> string \<Rightarrow> string list" where
  "parsePackageList out pm = filter (\<lambda>pkg. pkg \<noteq> '''')
     (map (\<lambda>line. parsePackageName line pm) (filter (\<lambda>line. line \<noteq> '''') (map TrimSpace (out_lines (TrimSpace out)))))"

definition distroFamilyFromPM :: "string \<Rightarrow> string" where
  "distroFamilyFromPM pm =
     (if pm = ''apt'' then ''debian'' else if pm = ''dnf'' \<or> pm = ''yum'' then ''rhel''
      else if pm = ''pacman'' then ''arch'' else if pm = ''apk'' then ''alpine''
      else if pm = ''zypper'' then ''suse'' else ''unknown'')"

text \<open>The start that collector, backup, applier and rollback share: the distribution, then its adapter.\<close>

definition detect_adapter :: "'h target_ops \<Rightarrow> 'h \<Rightarrow> (DistroInfo \<times> DistroAdapter) res \<times> 'h" where
  "detect_adapter ops h = (case DetectDistro ops h of
       (Inl err, h1) \<Rightarrow> (Inl err, h1)
     | (Inr info, h1) \<Rightarrow> (case GetAdapter info of Inl err \<Rightarrow> Inl err | Inr a \<Rightarrow> Inr (info, a), h1))"

record PackagesData =
  pk_Distro :: string
  pk_Packages :: "string list"
  pk_Count :: int

record PackagesBackup =
  pb_Distro :: string
  pb_Packages :: "string list"

definition packages_Collect :: "'h target_ops \<Rightarrow> 'h \<Rightarrow> PackagesData res \<times> 'h" where
  "packages_Collect ops h = (case detect_adapter ops h of
       (Inl err, h1) \<Rightarrow> (Inl err, h1)
     | (Inr (info, a), h1) \<Rightarrow> (case tg_exec ops (ListPackages a) h1 of
          ((_, _, _, Some err), h2) \<Rightarrow> (Inl err, h2)
        | ((out, errout, code, None), h2) \<Rightarrow>
            (let pkgs = parsePackageList out (PackageManager a) in
             (if code \<noteq> 0 then Inl (ErrF (''listing '' @ PackageManager a @ '' packages failed (exit '' @ string_of_int code
                  @ ''): '' @ TrimSpace (firstLine errout)))
              else if pkgs = [] then Inl (ErrF (''listing '' @ PackageManager a @ '' packages returned no packages '' @ em_dash
                  @ '' refusing to record an empty source snapshot (command: '' @ ListPackages a @ '')''))
              else Inr \<lparr>pk_Distro = PackageManager a, pk_Packages = pkgs, pk_Count = int (length pkgs)\<rparr>, h2))))"

definition packages_Backup :: "'h target_ops \<Rightarrow> 'h \<Rightarrow> PackagesBackup res \<times> 'h" where
  "packages_Backup ops h = (case detect_adapter ops h of
       (Inl err, h1) \<Rightarrow> (Inl err, h1)
     | (Inr (info, a), h1) \<Rightarrow> (case tg_exec ops (ListPackages a) h1 of
          ((_, _, _, Some err), h2) \<Rightarrow> (Inl err, h2)
        | ((out, _, code, None), h2) \<Rightarrow>
            (let pkgs = parsePackageList out (PackageManager a) in
             (if code \<noteq> 0 then Inl (ErrF (''listing '' @ PackageManager a @ '' packages for backup failed (exit ''
                  @ string_of_int code @ '')''))
              else if pkgs = [] then Inl (ErrF (''listing '' @ PackageManager a @ '' packages for backup returned no packages ''
                  @ em_dash @ '' refusing to record an empty baseline that rollback would treat as '' @ quoted ''remove everything''))
              else Inr \<lparr>pb_Distro = PackageManager a, pb_Packages = pkgs\<rparr>, h2))))"

subsection \<open>What the target can install\<close>

text \<open>The reader of \<open>apt-cache policy\<close>: the names with a candidate, and the name whose stanza is open.\<close>

definition policy_line :: "string \<Rightarrow> string set \<times> string \<Rightarrow> string set \<times> string" where
  "policy_line line st = (case st of (installable, cur) \<Rightarrow>
     (let trimmed = TrimSpace line in
      if HasSuffix trimmed '':'' \<and> \<not> HasPrefix line '' '' then (installable, TrimSuffix trimmed '':'')
      else if cur \<noteq> '''' \<and> HasPrefix trimmed ''Candidate:'' then
        (let cand = TrimSpace (TrimPrefix trimmed ''Candidate:'')
         in (if cand \<noteq> '''' \<and> cand \<noteq> ''(none)'' then insert cur installable else installable, ''''))
      else st))"

definition parse_policy :: "string \<Rightarrow> string set \<Rightarrow> string set" where
  "parse_policy out installable = fst (fold policy_line (out_lines out) (installable, ''''))"

fun batches :: "nat \<Rightarrow> 'a list \<Rightarrow> 'a list list" where
  "batches n [] = []"
| "batches n (x # xs) = (x # take (n - 1) xs) # batches n (drop (n - 1) xs)"

fun probe_policy :: "'h target_ops \<Rightarrow> string list list \<Rightarrow> string set \<times> bool \<Rightarrow> 'h \<Rightarrow> (string set \<times> bool) \<times> 'h" where
  "probe_policy ops [] st h = (st, h)"
| "probe_policy ops (b # bs) st h = (case tg_exec ops (''apt-cache policy '' @ join_at CHR 32 (map ShellQuote b) @ '' 2>/dev/null'') h of
       ((out, _, code, err), h1) \<Rightarrow>
         probe_policy ops bs (if err \<noteq> None \<or> code \<noteq> 0 then st else (parse_policy out (fst st), True)) h1)"

text \<open>The name without its architecture: everything before a colon that is not the first character.\<close>

definition base_name :: "string \<Rightarrow> string" where
  "base_name p = (case cut_at (CHR '':'') p of Some (a, _) \<Rightarrow> if a = '''' then p else a | None \<Rightarrow> p)"

definition partitionByAvailability :: "'h target_ops \<Rightarrow> string list \<Rightarrow> 'h \<Rightarrow> (string list \<times> string list) \<times> 'h" where
  "partitionByAvailability ops want h =
     (if want = [] then (([], []), h)
      else (case detect_adapter ops h of
          (Inl _, h1) \<Rightarrow> ((want, []), h1)
        | (Inr (_, a), h1) \<Rightarrow>
            if PackageManager a \<noteq> ''apt'' then ((want, []), h1)
            else (case probe_policy ops (batches 300 want) ({}, False) h1 of
                ((installable, probed), h2) \<Rightarrow>
                  (if \<not> probed then (want, []) else partition (\<lambda>p. base_name p \<in> installable) want, h2))))"

subsection \<open>Installing\<close>

record pkgFailure =
  pf_name :: string
  pf_reason :: string

definition failure_reason :: "'h target_ops \<Rightarrow> string \<Rightarrow> int \<Rightarrow> string" where
  "failure_reason ops errout code =
     (let reason = tg_sanitize ops (TrimSpace (firstLine errout))
      in if reason = '''' then ''exit '' @ string_of_int code else reason)"

text \<open>The members of an aborted batch, one at a time; the flag tells that the context was cancelled.\<close>

fun install_each ::
  "'h target_ops \<Rightarrow> DistroAdapter \<Rightarrow> string list \<Rightarrow> nat \<times> pkgFailure list \<Rightarrow> 'h \<Rightarrow> (bool \<times> nat \<times> pkgFailure list) \<times> 'h" where
  "install_each ops a [] (n, fs) h = ((False, n, fs), h)"
| "install_each ops a (p # ps) (n, fs) h =
     (if tg_ctxErr ops h \<noteq> None then ((True, n, fs), h)
      else (case execLongOrContext ops (InstallPackages a [p]) h of
          ((_, errout, code, err), h1) \<Rightarrow>
            install_each ops a ps
              (if err = None \<and> code = 0 then (n + 1, fs)
               else (n, fs @ [\<lparr>pf_name = p, pf_reason = failure_reason ops errout code\<rparr>])) h1))"

fun install_batches ::
  "'h target_ops \<Rightarrow> DistroAdapter \<Rightarrow> string list list \<Rightarrow> nat \<times> pkgFailure list \<Rightarrow> 'h \<Rightarrow> (nat \<times> pkgFailure list) \<times> 'h" where
  "install_batches ops a [] st h = (st, h)"
| "install_batches ops a (b # bs) st h = (case execLongOrContext ops (InstallPackages a b) h of
       ((_, _, code, err), h1) \<Rightarrow>
         if err = None \<and> code = 0 then install_batches ops a bs (fst st + length b, snd st) h1
         else (case install_each ops a b st h1 of
             ((True, n, fs), h2) \<Rightarrow> ((n, fs), h2)
           | ((False, n, fs), h2) \<Rightarrow> install_batches ops a bs (n, fs) h2))"

definition installPackages ::
  "'h target_ops \<Rightarrow> DistroAdapter \<Rightarrow> string list \<Rightarrow> 'h \<Rightarrow> (nat \<times> pkgFailure list) \<times> 'h" where
  "installPackages ops a pkgs h = install_batches ops a (batches 50 pkgs) (0, []) h"

text \<open>What the progress messages of an apply report.\<close>

record packages_report =
  pr_skipped :: nat
  pr_unavailable :: "string list"
  pr_installed :: nat
  pr_failures :: "pkgFailure list"

definition packages_to_install :: "string \<Rightarrow> string \<Rightarrow> string list \<Rightarrow> string list \<Rightarrow> string list" where
  "packages_to_install source_pm target_pm installed pkgs =
     concat (map (\<lambda>pkg. Fields (MapPackageName (distroFamilyFromPM source_pm) (distroFamilyFromPM target_pm) pkg))
       (filter (\<lambda>pkg. pkg \<notin> set installed) pkgs))"

definition packages_Apply :: "'h target_ops \<Rightarrow> PackagesData option \<Rightarrow> 'h \<Rightarrow> packages_report res \<times> 'h" where
  "packages_Apply ops data h = (case data of
       None \<Rightarrow> (Inl (ErrF ''invalid data''), h)
     | Some pd \<Rightarrow> (case detect_adapter ops h of
          (Inl err, h1) \<Rightarrow> (Inl err, h1)
        | (Inr (_, a), h1) \<Rightarrow>
            (let ((out, _), h2) = tg_exec ops (ListPackages a) h1;
                 installed = parsePackageList out (PackageManager a);
                 want = packages_to_install (pk_Distro pd) (PackageManager a) installed (pk_Packages pd);
                 ((available, unavailable), h3) = partitionByAvailability ops want h2;
                 ((n, fs), h4) = installPackages ops a available h3
             in (Inr \<lparr>pr_skipped = length (filter (\<lambda>pkg. pkg \<in> set installed) (pk_Packages pd)),
                      pr_unavailable = unavailable, pr_installed = n, pr_failures = fs\<rparr>, h4))))"

definition packages_Rollback :: "'h target_ops \<Rightarrow> PackagesBackup option \<Rightarrow> 'h \<Rightarrow> goerr option \<times> 'h" where
  "packages_Rollback ops backup h = (case backup of
       None \<Rightarrow> (Some (ErrF ''invalid data''), h)
     | Some pb \<Rightarrow>
         if pb_Packages pb = [] then
           (Some (ErrF (''packages rollback: refusing to remove packages '' @ em_dash @ '' the pre-migration backup recorded zero packages, so removing its complement would strip the entire target'')), h)
         else (case detect_adapter ops h of
             (Inl err, h1) \<Rightarrow> (Some err, h1)
           | (Inr (_, a), h1) \<Rightarrow>
               (let ((out, _), h2) = tg_exec ops (ListPackages a) h1;
                    current = tg_range ops (remdups (parsePackageList out (PackageManager a)));
                    toRemove = filter (\<lambda>pkg. \<not> contains_fold (pb_Packages pb) pkg) current
                in if toRemove = [] then (None, h2)
                   else (case execLongOrContext ops (RemovePackages a toRemove) h2 of
                       ((_, _, _, err), h3) \<Rightarrow> (err, h3)))))"

end
