(* ===== verification/Services.thy ===== *)
theory Services
  imports Distro
begin

section \<open>The services of a host (\<open>migration/services.go\<close>)\<close>

text \<open>The collector and the applier of the category \<open>services\<close>. The report of an apply is what its warnings tell.\<close>

record ServicesData =
  sd_Services :: "string list"
  sd_Count :: int

definition list_enabled :: string where
  "list_enabled = ''systemctl list-unit-files --type=service --state=enabled --no-legend 2>/dev/null''"

text \<open>\<open>strings.Fields(line)[0]\<close>, which the code reads only when there is one.\<close>

definition unit_of :: "string \<Rightarrow> string" where
  "unit_of line = (case Fields line of [] \<Rightarrow> '''' | f # _ \<Rightarrow> TrimSuffix f ''.service'')"

definition service_of_line :: "string \<Rightarrow> string" where
  "service_of_line line =
     (if Contains line ''.service'' then unit_of line
      else if Contains line ''|'' then TrimSpace (hd (split_at (CHR ''|'') line))
      else '''')"

definition services_Collect :: "'h target_ops \<Rightarrow> 'h \<Rightarrow> ServicesData res \<times> 'h" where
  "services_Collect ops h = (case tg_exec ops (list_enabled @ '' || rc-update show 2>/dev/null'') h of
       ((_, _, _, Some err), h1) \<Rightarrow> (Inl err, h1)
     | ((out, _, code, None), h1) \<Rightarrow>
         (let svcs = filter (\<lambda>s. s \<noteq> '''') (map service_of_line (filter (\<lambda>l. l \<noteq> '''') (map TrimSpace (out_lines (TrimSpace out))))) in
          (if code \<noteq> 0 then Inl (ErrF (''listing enabled services failed (exit '' @ string_of_int code
               @ ''): neither systemctl nor rc-update produced output''))
           else if svcs = [] then Inl (ErrF (''service listing returned no enabled services '' @ em_dash
               @ '' refusing to record an empty source snapshot''))
           else Inr \<lparr>sd_Services = svcs, sd_Count = int (length svcs)\<rparr>, h1)))"

definition usesSystemd :: "DistroInfo \<Rightarrow> bool" where
  "usesSystemd info \<longleftrightarrow> di_Family info \<in> {''debian'', ''rhel'', ''arch'', ''suse''}"

text \<open>The units of a listing, as backup and rollback read it.\<close>

definition listed_units :: "string \<Rightarrow> string list" where
  "listed_units out = concat (map (\<lambda>line. case Fields line of [] \<Rightarrow> [] | f # _ \<Rightarrow> [TrimSuffix f ''.service''])
     (filter (\<lambda>line. Contains line ''.service'') (map TrimSpace (out_lines (TrimSpace out)))))"

definition services_Backup :: "'h target_ops \<Rightarrow> 'h \<Rightarrow> string list res \<times> 'h" where
  "services_Backup ops h = (case DetectDistro ops h of
       (Inl err, h1) \<Rightarrow> (Inl err, h1)
     | (Inr info, h1) \<Rightarrow>
         if \<not> usesSystemd info then
           (Inl (ErrF (''service migration is not supported on '' @ quoted (di_Name info) @ '' (family '' @ quoted (di_Family info)
              @ ''): only systemd targets have a verified service backup/rollback path '' @ em_dash
              @ '' OpenRC (Alpine) and unknown init systems are not yet supported'')), h1)
         else (case tg_exec ops list_enabled h1 of
             ((_, _, _, Some err), h2) \<Rightarrow> (Inl err, h2)
           | ((out, _, _, None), h2) \<Rightarrow> (Inr (listed_units out), h2)))"

datatype service_outcome = EnableFailed string int | StartFailed string int | ServiceEnabled string

fun enable_services ::
  "'h target_ops \<Rightarrow> DistroAdapter \<Rightarrow> string list \<Rightarrow> 'h \<Rightarrow> service_outcome list \<times> 'h" where
  "enable_services ops a [] h = ([], h)"
| "enable_services ops a (svc # svcs) h = (case tg_exec ops (EnableService a svc) h of
       ((_, _, code, err), h1) \<Rightarrow>
         if err \<noteq> None \<or> code \<noteq> 0 then
           (let (outs, h2) = enable_services ops a svcs h1 in (EnableFailed svc code # outs, h2))
         else (case tg_exec ops (StartService a svc) h1 of
             ((_, _, code2, _), h2) \<Rightarrow>
               (let (outs, h3) = enable_services ops a svcs h2
                in ((if code2 \<noteq> 0 then StartFailed svc code2 else ServiceEnabled svc) # outs, h3))))"

definition services_Apply :: "'h target_ops \<Rightarrow> ServicesData option \<Rightarrow> 'h \<Rightarrow> service_outcome list res \<times> 'h" where
  "services_Apply ops data h = (case data of
       None \<Rightarrow> (Inl (ErrF ''invalid data''), h)
     | Some sd \<Rightarrow> (case detect_adapter ops h of
          (Inl err, h1) \<Rightarrow> (Inl err, h1)
        | (Inr (_, a), h1) \<Rightarrow> (case enable_services ops a (sd_Services sd) h1 of (outs, h2) \<Rightarrow> (Inr outs, h2))))"

definition disable_command :: "string \<Rightarrow> string" where
  "disable_command svc = ''systemctl disable --now '' @ ShellQuote svc @ '' 2>/dev/null''"

fun disable_services :: "'h target_ops \<Rightarrow> string list \<Rightarrow> 'h \<Rightarrow> 'h" where
  "disable_services ops [] h = h"
| "disable_services ops (svc # svcs) h = disable_services ops svcs (snd (tg_exec ops (disable_command svc) h))"

definition services_Rollback :: "'h target_ops \<Rightarrow> string list option \<Rightarrow> 'h \<Rightarrow> goerr option \<times> 'h" where
  "services_Rollback ops backup h = (case backup of
       None \<Rightarrow> (Some (ErrF ''invalid data''), h)
     | Some kept \<Rightarrow> (case tg_exec ops list_enabled h of
          ((_, _, _, Some err), h1) \<Rightarrow> (Some err, h1)
        | ((out, _, _, None), h1) \<Rightarrow>
            (None, disable_services ops
               (filter (\<lambda>svc. \<not> contains_fold kept svc) (tg_range ops (remdups (listed_units out)))) h1)))"

end
