(* ===== verification/ItemStore.thy ===== *)
theory ItemStore
  imports Services DepMap Pipeline
begin

section \<open>Items of a migration and what is remembered of them (\<open>migration/parity.go\<close>, \<open>migration/repo.go\<close>)\<close>

text \<open>
  The collected data of the six categories, the rows of steps, backups, decisions and item results, and the
  statements on them. A column with JSON holds the value it encodes: a step's data is the envelope its
  collector wrote, and a payload decodes as the data of its own category; decoded as another category its
  fields are all absent (the common field \<open>count\<close> is not read). The entries of a Go map are listed in the order
  in which \<open>range\<close> visits them. Columns that only the wall clock of the database fills are left out.
\<close>

subsection \<open>Collected data\<close>

record FileMeta =
  fm_Mode :: int
  fm_Uname :: string
  fm_Gname :: string

record ConfigsData =
  cf_Files :: "(string \<times> string) list"
  cf_Meta :: "(string \<times> FileMeta) list"
  cf_Count :: int

record UserData =
  ud_Name :: string
  ud_UID :: int
  ud_GID :: int
  ud_HomeDir :: string
  ud_Shell :: string
  ud_Password :: string

record GroupData =
  gd_Name :: string
  gd_GID :: int

record UsersData =
  us_Users :: "UserData list"
  us_Groups :: "GroupData list"
  us_CronJobs :: "(string \<times> string) list"
  us_Firewall :: string

record DockerContainer =
  dc_ID :: string
  dc_Name :: string
  dc_Image :: string
  dc_Status :: string
  dc_Ports :: string
  dc_Env :: "(string \<times> string) list"
  dc_Labels :: "(string \<times> string) list"
  dc_PortBindings :: "string list"
  dc_MountSpecs :: "string list"
  dc_Networks :: "string list"
  dc_RestartPolicy :: string

record DockerVolume =
  dv_Name :: string
  dv_Driver :: string
  dv_Mountpoint :: string

record DockerComposeFile =
  df_Path :: string
  df_Content :: string

record DockerData =
  dk_Containers :: "DockerContainer list"
  dk_Images :: "string list"
  dk_Volumes :: "DockerVolume list"
  dk_ComposeFiles :: "DockerComposeFile list"
  dk_Count :: int

record DBCatalogEntry =
  de_Name :: string
  de_SizeMB :: int

record DatabaseCollectData =
  db_Engine :: string
  db_ExecMode :: string
  db_MigrationMode :: string
  db_Databases :: "DBCatalogEntry list"
  db_DetectedAt :: string
  db_EstimatedBytes :: int
  db_ResumeNote :: string
  db_AllUserDBs :: bool

datatype payload =
    PlPackages PackagesData
  | PlConfigs ConfigsData
  | PlServices ServicesData
  | PlUsers UsersData
  | PlDocker DockerData
  | PlDatabase DatabaseCollectData
  | PlOther
  | PlInvalid

record CategoryData =
  cd_Type :: string
  cd_Data :: payload

text \<open>\<open>json.Unmarshal\<close> into each type.\<close>

definition as_packages :: "payload \<Rightarrow> PackagesData option" where
  "as_packages p = (case p of PlPackages d \<Rightarrow> Some d | PlInvalid \<Rightarrow> None
     | _ \<Rightarrow> Some \<lparr>pk_Distro = '''', pk_Packages = [], pk_Count = 0\<rparr>)"

definition as_configs :: "payload \<Rightarrow> ConfigsData option" where
  "as_configs p = (case p of PlConfigs d \<Rightarrow> Some d | PlInvalid \<Rightarrow> None
     | _ \<Rightarrow> Some \<lparr>cf_Files = [], cf_Meta = [], cf_Count = 0\<rparr>)"

definition as_services :: "payload \<Rightarrow> ServicesData option" where
  "as_services p = (case p of PlServices d \<Rightarrow> Some d | PlInvalid \<Rightarrow> None
     | _ \<Rightarrow> Some \<lparr>sd_Services = [], sd_Count = 0\<rparr>)"

definition as_users :: "payload \<Rightarrow> UsersData option" where
  "as_users p = (case p of PlUsers d \<Rightarrow> Some d | PlInvalid \<Rightarrow> None
     | _ \<Rightarrow> Some \<lparr>us_Users = [], us_Groups = [], us_CronJobs = [], us_Firewall = ''''\<rparr>)"

definition as_docker :: "payload \<Rightarrow> DockerData option" where
  "as_docker p = (case p of PlDocker d \<Rightarrow> Some d | PlInvalid \<Rightarrow> None
     | _ \<Rightarrow> Some \<lparr>dk_Containers = [], dk_Images = [], dk_Volumes = [], dk_ComposeFiles = [], dk_Count = 0\<rparr>)"

definition as_database :: "payload \<Rightarrow> DatabaseCollectData option" where
  "as_database p = (case p of PlDatabase d \<Rightarrow> Some d | PlInvalid \<Rightarrow> None
     | _ \<Rightarrow> Some \<lparr>db_Engine = '''', db_ExecMode = '''', db_MigrationMode = '''', db_Databases = [], db_DetectedAt = '''',
         db_EstimatedBytes = 0, db_ResumeNote = '''', db_AllUserDBs = False\<rparr>)"

subsection \<open>States of an item\<close>

datatype ExecutionState =
    ExecNotApplicable | ExecPending | ExecBlocked | ExecSkipped | ExecApplied | ExecFailed | ExecRolledBack
  | ExecPartiallyApplied

text \<open>\<open>VerifyUnset\<close> is the empty string, the state of a result that was never probed.\<close>

datatype VerificationState =
    VerifyUnset | VerifyNotVerified | VerifyInfra | VerifyRuntime | VerifyApp | VerifyPartial | VerifyFailed
  | VerifyUnresolved

definition verify_text :: "VerificationState \<Rightarrow> string" where
  "verify_text v = (case v of VerifyUnset \<Rightarrow> '''' | VerifyNotVerified \<Rightarrow> ''not_verified'' | VerifyInfra \<Rightarrow> ''infra_verified''
     | VerifyRuntime \<Rightarrow> ''runtime_verified'' | VerifyApp \<Rightarrow> ''app_verified'' | VerifyPartial \<Rightarrow> ''partial_verified''
     | VerifyFailed \<Rightarrow> ''verify_failed'' | VerifyUnresolved \<Rightarrow> ''unresolved'')"

definition ActionApplyFromSource :: string where "ActionApplyFromSource = ''apply_from_source''"
definition ActionKeepTarget :: string where "ActionKeepTarget = ''keep_target''"
definition ActionSkip :: string where "ActionSkip = ''skip''"
definition ActionReviewManual :: string where "ActionReviewManual = ''review_manual''"

lemmas action_names = ActionApplyFromSource_def ActionKeepTarget_def ActionSkip_def ActionReviewManual_def

definition StepStatusPending :: string where "StepStatusPending = ''pending''"
definition StepStatusRunning :: string where "StepStatusRunning = ''running''"
definition StepStatusCompleted :: string where "StepStatusCompleted = ''completed''"
definition StepStatusFailed :: string where "StepStatusFailed = ''failed''"
definition StepStatusApplied :: string where "StepStatusApplied = ''applied''"
definition StepStatusSkipped :: string where "StepStatusSkipped = ''skipped''"

lemmas step_statuses = StepStatusPending_def StepStatusRunning_def StepStatusCompleted_def StepStatusFailed_def
  StepStatusApplied_def StepStatusSkipped_def

record ItemResult =
  ir_MigrationID :: int
  ir_ItemKey :: string
  ir_Category :: string
  ir_ExecutionState :: ExecutionState
  ir_LastExecutionAt :: "stamp option"
  ir_StepRefs :: "int list"
  ir_ExecutionNotes :: string
  ir_VerificationState :: VerificationState
  ir_VerificationLevel :: string
  ir_VerifyEvidence :: string
  ir_VerifyNotes :: string
  ir_BackupRef :: string

record SelectionDecision =
  sl_MigrationID :: int
  sl_ItemKey :: string
  sl_Category :: string
  sl_Action :: string
  sl_DecisionReason :: string
  sl_RiskAcknowledged :: bool
  sl_ManualFollowup :: string

record SelectionHistory =
  lh_MigrationID :: int
  lh_ItemKey :: string
  lh_FromAction :: string
  lh_ToAction :: string
  lh_Reason :: string
  lh_Actor :: string

datatype step_blob = SbEmpty | SbEnvelope CategoryData | SbMalformed

record MigrationStepRecord =
  sr_ID :: int
  sr_MigrationID :: int
  sr_Category :: string
  sr_Action :: string
  sr_Status :: string
  sr_Data :: step_blob
  sr_Error :: string

datatype backup_payload = BpPackages PackagesBackup | BpServices "string list" | BpOther string | BpInvalid

record BackupData =
  bd_Type :: string
  bd_Data :: backup_payload

text \<open>A backup row; its data column is \<open>None\<close> when it is no JSON of a backup.\<close>

record MigrationBackup =
  mb_ID :: int
  mb_MigrationID :: int
  mb_ServerID :: int
  mb_Category :: string
  mb_Data :: "BackupData option"

record VerificationResult =
  vr_MigrationID :: int
  vr_VerificationType :: string
  vr_Target :: string
  vr_Expected :: string
  vr_Actual :: string
  vr_Passed :: bool
  vr_ErrorMessage :: string

record 'h item_db = mig_db +
  step_rows :: "MigrationStepRecord list"
  step_seq :: int
  selection_rows :: "SelectionDecision list"
  decision_rows :: "SelectionHistory list"
  result_rows :: "ItemResult list"
  backup_rows :: "MigrationBackup list"
  backup_seq :: int
  verification_rows :: "VerificationResult list"
  target_host :: 'h

text \<open>What a run of a stage leaves in its log: messages, calls of appliers with what they were given, restores.\<close>

datatype apply_event =
    EvMsg string string
  | EvApply string CategoryData
  | EvRestore string BackupData

type_synonym 'h item_world = "('h item_db, apply_event) world"

subsection \<open>Statements\<close>

text \<open>Rows are kept in the order of their identifiers. \<open>INSERT \<dots> ON CONFLICT DO UPDATE\<close> replaces the row with the same
  key in its place.\<close>

fun upsert_row :: "('r \<Rightarrow> bool) \<Rightarrow> 'r \<Rightarrow> 'r list \<Rightarrow> 'r list" where
  "upsert_row same r [] = [r]"
| "upsert_row same r (x # xs) = (if same x then r # xs else x # upsert_row same r xs)"

definition CreateStep :: "int \<Rightarrow> string \<Rightarrow> string \<Rightarrow> step_blob \<Rightarrow> 'h item_world \<Rightarrow> int res \<times> 'h item_world" where
  "CreateStep mid category action data = db_write (\<lambda>now d.
     (Inr (step_seq d + 1),
      d\<lparr>step_rows := step_rows d @ [\<lparr>sr_ID = step_seq d + 1, sr_MigrationID = mid, sr_Category = category, sr_Action = action,
          sr_Status = StepStatusCompleted, sr_Data = data, sr_Error = ''''\<rparr>], step_seq := step_seq d + 1\<rparr>))"

definition UpdateStepStatus :: "int \<Rightarrow> string \<Rightarrow> string \<Rightarrow> 'h item_world \<Rightarrow> unit res \<times> 'h item_world" where
  "UpdateStepStatus i status err = db_write (\<lambda>now d.
     (Inr (), d\<lparr>step_rows := map (\<lambda>s. if sr_ID s = i then s\<lparr>sr_Status := status, sr_Error := err\<rparr> else s) (step_rows d)\<rparr>))"

definition steps_of :: "int \<Rightarrow> 'h item_db \<Rightarrow> MigrationStepRecord list" where
  "steps_of mid d = filter (\<lambda>s. sr_MigrationID s = mid) (step_rows d)"

definition GetSteps :: "int \<Rightarrow> 'h item_world \<Rightarrow> MigrationStepRecord list res \<times> 'h item_world" where
  "GetSteps mid = db_read (\<lambda>d. Inr (steps_of mid d))"

definition GetLatestStep :: "int \<Rightarrow> string \<Rightarrow> 'h item_world \<Rightarrow> MigrationStepRecord option res \<times> 'h item_world" where
  "GetLatestStep mid action = db_read (\<lambda>d. Inr
     (find (\<lambda>s. sr_MigrationID s = mid \<and> sr_Action s = action \<and> sr_Status s = StepStatusCompleted) (rev (step_rows d))))"

definition CreateBackup ::
  "int \<Rightarrow> int \<Rightarrow> string \<Rightarrow> BackupData option \<Rightarrow> 'h item_world \<Rightarrow> int res \<times> 'h item_world" where
  "CreateBackup mid server category data = db_write (\<lambda>now d.
     (Inr (backup_seq d + 1),
      d\<lparr>backup_rows := backup_rows d @ [\<lparr>mb_ID = backup_seq d + 1, mb_MigrationID = mid, mb_ServerID = server,
          mb_Category = category, mb_Data = data\<rparr>], backup_seq := backup_seq d + 1\<rparr>))"

definition GetBackups :: "int \<Rightarrow> 'h item_world \<Rightarrow> MigrationBackup list res \<times> 'h item_world" where
  "GetBackups mid = db_read (\<lambda>d. Inr (filter (\<lambda>b. mb_MigrationID b = mid) (backup_rows d)))"

definition GetAppliedCategories :: "int \<Rightarrow> 'h item_world \<Rightarrow> string list res \<times> 'h item_world" where
  "GetAppliedCategories mid = db_read (\<lambda>d. Inr (remdups (map sr_Category
     (filter (\<lambda>s. sr_Action s = ''collect'' \<and> sr_Status s = StepStatusApplied) (steps_of mid d)))))"

definition UpsertSelection ::
  "int \<Rightarrow> string \<Rightarrow> string \<Rightarrow> string \<Rightarrow> string \<Rightarrow> bool \<Rightarrow> string \<Rightarrow> 'h item_world \<Rightarrow> unit res \<times> 'h item_world" where
  "UpsertSelection mid key category action reason risk followup = db_write (\<lambda>now d.
     (Inr (), d\<lparr>selection_rows := upsert_row (\<lambda>s. sl_MigrationID s = mid \<and> sl_ItemKey s = key)
        \<lparr>sl_MigrationID = mid, sl_ItemKey = key, sl_Category = category, sl_Action = action, sl_DecisionReason = reason,
         sl_RiskAcknowledged = risk, sl_ManualFollowup = followup\<rparr> (selection_rows d)\<rparr>))"

definition selections_of :: "int \<Rightarrow> 'h item_db \<Rightarrow> SelectionDecision list" where
  "selections_of mid d = filter (\<lambda>s. sl_MigrationID s = mid) (selection_rows d)"

definition GetSelections :: "int \<Rightarrow> 'h item_world \<Rightarrow> SelectionDecision list res \<times> 'h item_world" where
  "GetSelections mid = db_read (\<lambda>d. Inr (selections_of mid d))"

definition AppendSelectionHistory :: "int \<Rightarrow> SelectionHistory \<Rightarrow> 'h item_world \<Rightarrow> unit res \<times> 'h item_world" where
  "AppendSelectionHistory mid h = db_write (\<lambda>now d.
     (Inr (), d\<lparr>decision_rows := decision_rows d @ [h\<lparr>lh_MigrationID := mid\<rparr>]\<rparr>))"

definition GetSelectionHistory :: "int \<Rightarrow> 'h item_world \<Rightarrow> SelectionHistory list res \<times> 'h item_world" where
  "GetSelectionHistory mid = db_read (\<lambda>d. Inr (filter (\<lambda>h. lh_MigrationID h = mid) (decision_rows d)))"

definition ClearSelections :: "int \<Rightarrow> 'h item_world \<Rightarrow> unit res \<times> 'h item_world" where
  "ClearSelections mid = db_write (\<lambda>now d.
     (Inr (), d\<lparr>selection_rows := filter (\<lambda>s. sl_MigrationID s \<noteq> mid) (selection_rows d)\<rparr>))"

definition GetSelection :: "int \<Rightarrow> string \<Rightarrow> 'h item_world \<Rightarrow> string res \<times> 'h item_world" where
  "GetSelection mid key = db_read (\<lambda>d. Inr (case find (\<lambda>s. sl_ItemKey s = key) (selections_of mid d) of
       None \<Rightarrow> '''' | Some s \<Rightarrow> sl_Action s))"

definition same_item :: "int \<Rightarrow> string \<Rightarrow> ItemResult \<Rightarrow> bool" where
  "same_item mid key r \<longleftrightarrow> ir_MigrationID r = mid \<and> ir_ItemKey r = key"

definition UpsertItemResult :: "int \<Rightarrow> ItemResult \<Rightarrow> 'h item_world \<Rightarrow> unit res \<times> 'h item_world" where
  "UpsertItemResult mid r = db_write (\<lambda>now d.
     (Inr (), d\<lparr>result_rows := upsert_row (same_item mid (ir_ItemKey r)) (r\<lparr>ir_MigrationID := mid\<rparr>) (result_rows d)\<rparr>))"

definition results_of :: "int \<Rightarrow> 'h item_db \<Rightarrow> ItemResult list" where
  "results_of mid d = filter (\<lambda>r. ir_MigrationID r = mid) (result_rows d)"

definition GetItemResults :: "int \<Rightarrow> 'h item_world \<Rightarrow> ItemResult list res \<times> 'h item_world" where
  "GetItemResults mid = db_read (\<lambda>d. Inr (results_of mid d))"

definition GetItemResult :: "int \<Rightarrow> string \<Rightarrow> 'h item_world \<Rightarrow> ItemResult option res \<times> 'h item_world" where
  "GetItemResult mid key = db_read (\<lambda>d. Inr (find (same_item mid key) (result_rows d)))"

definition CreateVerificationResult :: "VerificationResult \<Rightarrow> 'h item_world \<Rightarrow> unit res \<times> 'h item_world" where
  "CreateVerificationResult v = db_write (\<lambda>now d. (Inr (), d\<lparr>verification_rows := verification_rows d @ [v]\<rparr>))"

text \<open>Several item results are written one after the other; a write that fails is only logged.\<close>

fun upsert_results :: "int \<Rightarrow> ItemResult list \<Rightarrow> 'h item_world \<Rightarrow> 'h item_world" where
  "upsert_results mid [] w = w"
| "upsert_results mid (r # rs) w = upsert_results mid rs (snd (UpsertItemResult mid r w))"

definition on_target :: "('h \<Rightarrow> 'a \<times> 'h) \<Rightarrow> 'h item_world \<Rightarrow> 'a \<times> 'h item_world" where
  "on_target f w = (case f (target_host (w_db w)) of (x, h) \<Rightarrow> (x, tick (w\<lparr>w_db := (w_db w)\<lparr>target_host := h\<rparr>\<rparr>)))"

definition log_event :: "apply_event \<Rightarrow> 'h item_world \<Rightarrow> 'h item_world" where
  "log_event ev w = w\<lparr>w_log := w_log w @ [ev]\<rparr>"

definition say :: "string \<Rightarrow> string \<Rightarrow> 'h item_world \<Rightarrow> 'h item_world" where
  "say step status = log_event (EvMsg step status)"

end
