(* ===== verification/Probes.thy ===== *)
theory Probes
  imports ItemStore
begin

section \<open>Probes of applied items (\<open>migration/verify_probe.go\<close>)\<close>

text \<open>
  One batch of commands per category tells which items are on the target. The verdicts are a map from item keys;
  a category without a probe has none.
\<close>

record ItemVerdict =
  iv_OK :: bool
  iv_Level :: VerificationState
  iv_Detail :: string

definition confirmed :: "VerificationState \<Rightarrow> string \<Rightarrow> ItemVerdict" where
  "confirmed level detail = \<lparr>iv_OK = True, iv_Level = level, iv_Detail = detail\<rparr>"

definition refuted :: "string \<Rightarrow> ItemVerdict" where
  "refuted reason = \<lparr>iv_OK = False, iv_Level = VerifyUnset, iv_Detail = reason\<rparr>"

type_synonym verdicts = "string \<rightharpoonup> ItemVerdict"

definition itemName :: "string \<Rightarrow> string" where
  "itemName key = (case cut_at (CHR '':'') key of Some (_, rest) \<Rightarrow> rest | None \<Rightarrow> key)"

text \<open>A verdict for every item; of two items with one key the last decides, as in the code's loop.\<close>

definition judge_all :: "(ItemResult \<Rightarrow> ItemVerdict) \<Rightarrow> ItemResult list \<Rightarrow> verdicts" where
  "judge_all j items = fold (\<lambda>r m. m(ir_ItemKey r \<mapsto> j r)) items Map.empty"

definition failAll :: "ItemResult list \<Rightarrow> string \<Rightarrow> verdicts" where
  "failAll items reason = judge_all (\<lambda>_. refuted reason) items"

definition with_bare_names :: "string list \<Rightarrow> string list" where
  "with_bare_names pkgs = pkgs @ map base_name pkgs"

definition probePackages :: "'h target_ops \<Rightarrow> ItemResult list \<Rightarrow> 'h \<Rightarrow> verdicts \<times> 'h" where
  "probePackages ops items h = (case DetectDistro ops h of
       (Inl err, h1) \<Rightarrow> (failAll items (''could not detect target distro: '' @ err_text err), h1)
     | (Inr info, h1) \<Rightarrow> (case GetAdapter info of
          Inl err \<Rightarrow> (failAll items (err_text err), h1)
        | Inr a \<Rightarrow> (case tg_exec ops (ListPackages a) h1 of
             ((out, _, code, err), h2) \<Rightarrow>
               (if err \<noteq> None \<or> code \<noteq> 0
                then failAll items (''package listing on target failed (exit '' @ string_of_int code @ '')'')
                else judge_all (\<lambda>r. if itemName (ir_ItemKey r) \<in> set (with_bare_names (parsePackageList out (PackageManager a)))
                       then confirmed VerifyInfra ''package installed on target''
                       else refuted ''package not installed on target'') items, h2))))"

text \<open>A line of \<open>sha256sum\<close>: the digest, two blanks, the path.\<close>

fun cut_blanks :: "string \<Rightarrow> (string \<times> string) option" where
  "cut_blanks (a # b # s) = (if a = CHR 32 \<and> b = CHR 32 then Some ('''', s)
     else map_option (\<lambda>(x, y). (a # x, y)) (cut_blanks (b # s)))"
| "cut_blanks _ = None"

definition sum_lines :: "string \<Rightarrow> (string \<times> string) list" where
  "sum_lines out = concat (map (\<lambda>line. case cut_blanks (TrimSpace line) of
       None \<Rightarrow> [] | Some (digest, path) \<Rightarrow> [(TrimSpace path, TrimSpace digest)]) (out_lines (TrimSpace out)))"

fun collect_sums :: "'h target_ops \<Rightarrow> string list list \<Rightarrow> (string \<rightharpoonup> string) \<Rightarrow> 'h \<Rightarrow> (string \<rightharpoonup> string) \<times> 'h" where
  "collect_sums ops [] m h = (m, h)"
| "collect_sums ops (b # bs) m h = (case tg_exec ops (''sha256sum '' @ join_at CHR 32 (map ShellQuote b) @ '' 2>/dev/null'') h of
       ((out, _, _, err), h1) \<Rightarrow>
         collect_sums ops bs (if err \<noteq> None then m else m ++ map_of (rev (sum_lines out))) h1)"

definition hash_prefix :: string where "hash_prefix = ''sha256:''"

definition config_verdict :: "(string \<rightharpoonup> string) \<Rightarrow> ItemResult \<Rightarrow> ItemVerdict" where
  "config_verdict digests r =
     (let want = TrimPrefix (ir_VerifyEvidence r) hash_prefix in
      case digests (itemName (ir_ItemKey r)) of
        None \<Rightarrow> refuted ''file missing on target''
      | Some got \<Rightarrow>
          if want = '''' \<or> \<not> HasPrefix (ir_VerifyEvidence r) hash_prefix then refuted ''file present but no expected hash recorded''
          else if got = want then confirmed VerifyInfra ''sha256 matches source''
          else refuted ''content differs from source (sha256 mismatch)'')"

definition probeConfigs :: "'h target_ops \<Rightarrow> ItemResult list \<Rightarrow> 'h \<Rightarrow> verdicts \<times> 'h" where
  "probeConfigs ops items h =
     (if items = [] then (Map.empty, h)
      else (case collect_sums ops (batches 200 (map (\<lambda>r. itemName (ir_ItemKey r)) items)) Map.empty h of
          (digests, h1) \<Rightarrow> (judge_all (config_verdict digests) items, h1)))"

fun list_present :: "'h target_ops \<Rightarrow> string list list \<Rightarrow> bool \<times> string list \<Rightarrow> 'h \<Rightarrow> (bool \<times> string list) \<times> 'h" where
  "list_present ops [] st h = (st, h)"
| "list_present ops (b # bs) st h = (case tg_exec ops (''ls -d '' @ join_at CHR 32 (map ShellQuote b) @ '' 2>/dev/null'') h of
       ((out, _, _, err), h1) \<Rightarrow>
         list_present ops bs (if err \<noteq> None then st
           else (True, snd st @ filter (\<lambda>p. p \<noteq> '''') (map TrimSpace (out_lines (TrimSpace out))))) h1)"

definition probeConfigsPresence :: "'h target_ops \<Rightarrow> ItemResult list \<Rightarrow> 'h \<Rightarrow> verdicts \<times> 'h" where
  "probeConfigsPresence ops items h =
     (if items = [] then (Map.empty, h)
      else (case list_present ops (batches 200 (map (\<lambda>r. itemName (ir_ItemKey r)) items)) (False, []) h of
          ((probed, present), h1) \<Rightarrow>
            (if \<not> probed then failAll items ''could not list files on the target''
             else judge_all (\<lambda>r. if itemName (ir_ItemKey r) \<in> set present then confirmed VerifyInfra ''file present on target''
                    else refuted ''file missing on target after apply'') items, h1)))"

definition unit_verdict :: "string option \<Rightarrow> ItemVerdict" where
  "unit_verdict s = (case s of
       None \<Rightarrow> refuted ''no state reported for unit''
     | Some st \<Rightarrow> if TrimSpace st = ''active'' then confirmed VerifyRuntime ''unit is active''
         else refuted (''unit is '' @ TrimSpace st))"

fun judge_units :: "ItemResult list \<Rightarrow> string list \<Rightarrow> verdicts \<Rightarrow> verdicts" where
  "judge_units [] states m = m"
| "judge_units (r # rs) [] m = judge_units rs [] (m(ir_ItemKey r \<mapsto> unit_verdict None))"
| "judge_units (r # rs) (s # ss) m = judge_units rs ss (m(ir_ItemKey r \<mapsto> unit_verdict (Some s)))"

definition probeServices :: "'h target_ops \<Rightarrow> ItemResult list \<Rightarrow> 'h \<Rightarrow> verdicts \<times> 'h" where
  "probeServices ops items h =
     (if items = [] then (Map.empty, h)
      else (case tg_exec ops (''systemctl is-active '' @ join_at CHR 32 (map (\<lambda>r. ShellQuote (itemName (ir_ItemKey r))) items)
               @ '' 2>/dev/null'') h of
          ((_, _, _, Some err), h1) \<Rightarrow> (failAll items (''service state probe failed: '' @ err_text err), h1)
        | ((out, _, _, None), h1) \<Rightarrow>
            (let states = out_lines (TrimSpace out)
             in (if length states = 1 \<and> TrimSpace (hd states) = ''''
                 then failAll items ''service state probe returned nothing (no systemd on target?)''
                 else judge_units items states Map.empty, h1))))"

definition passwd_names :: "string \<Rightarrow> string list" where
  "passwd_names out = concat (map (\<lambda>line. case cut_at (CHR '':'') line of
       Some (a, _) \<Rightarrow> if a = '''' then [] else [a] | None \<Rightarrow> []) (out_lines out))"

definition probeUsers :: "'h target_ops \<Rightarrow> ItemResult list \<Rightarrow> 'h \<Rightarrow> verdicts \<times> 'h" where
  "probeUsers ops items h = (case tg_exec ops ''getent passwd 2>/dev/null'' h of
       ((_, _, _, Some err), h1) \<Rightarrow> (failAll items (''user listing on target failed: '' @ err_text err), h1)
     | ((out, _, _, None), h1) \<Rightarrow>
         (if passwd_names out = [] then failAll items ''user listing on target returned nothing''
          else judge_all (\<lambda>r. if itemName (ir_ItemKey r) \<in> set (passwd_names out) then confirmed VerifyInfra ''account exists on target''
                 else refuted ''account does not exist on target'') items, h1))"

datatype probeMode = ProbeVerify | ProbePresence

definition probeItemsMode ::
  "'h target_ops \<Rightarrow> string \<Rightarrow> ItemResult list \<Rightarrow> probeMode \<Rightarrow> 'h \<Rightarrow> verdicts \<times> 'h" where
  "probeItemsMode ops category items mode h =
     (if category = ''packages'' then probePackages ops items h
      else if category = ''configs'' then
        (if mode = ProbePresence then probeConfigsPresence ops items h else probeConfigs ops items h)
      else if category = ''services'' then probeServices ops items h
      else if category = ''users'' then probeUsers ops items h
      else (Map.empty, h))"

definition probeItems :: "'h target_ops \<Rightarrow> string \<Rightarrow> ItemResult list \<Rightarrow> 'h \<Rightarrow> verdicts \<times> 'h" where
  "probeItems ops category items = probeItemsMode ops category items ProbeVerify"

definition probeItemsPresence :: "'h target_ops \<Rightarrow> string \<Rightarrow> ItemResult list \<Rightarrow> 'h \<Rightarrow> verdicts \<times> 'h" where
  "probeItemsPresence ops category items = probeItemsMode ops category items ProbePresence"

subsection \<open>What the verdicts are about\<close>

lemma judge_all_dom [simp]: "dom (judge_all j items) = ir_ItemKey ` set items"
proof -
  have "dom (fold (\<lambda>r m. m(ir_ItemKey r \<mapsto> j r)) items m) = dom m \<union> ir_ItemKey ` set items" for m
    by (induction items arbitrary: m) auto
  then show ?thesis by (simp add: judge_all_def)
qed

lemma judge_all_range: "judge_all j items k = Some v \<Longrightarrow> \<exists>r \<in> set items. ir_ItemKey r = k \<and> v = j r"
proof -
  have "fold (\<lambda>r m. m(ir_ItemKey r \<mapsto> j r)) items m k = Some v \<Longrightarrow> m k = Some v \<or> (\<exists>r \<in> set items. ir_ItemKey r = k \<and> v = j r)" for m
  proof (induction items arbitrary: m)
    case (Cons r rs)
    from Cons.IH [OF Cons.prems [unfolded fold.simps o_def]] show ?case by (auto split: if_splits)
  qed simp
  then show "judge_all j items k = Some v \<Longrightarrow> \<exists>r \<in> set items. ir_ItemKey r = k \<and> v = j r" by (force simp: judge_all_def)
qed

lemma failAll_dom [simp]: "dom (failAll items reason) = ir_ItemKey ` set items"
  by (simp add: failAll_def)

lemma judge_units_dom [simp]: "dom (judge_units items states m) = dom m \<union> ir_ItemKey ` set items"
  by (induction items states m rule: judge_units.induct) (simp_all only: judge_units.simps dom_fun_upd, auto)

lemmas probe_defs = probePackages_def probeConfigs_def probeConfigsPresence_def probeServices_def probeUsers_def

text \<open>A probe judges exactly the items it is given, or none in a category it does not know.\<close>

lemma probe_doms:
  "dom (fst (probePackages ops items h)) = ir_ItemKey ` set items"
  "dom (fst (probeConfigs ops items h)) = ir_ItemKey ` set items"
  "dom (fst (probeConfigsPresence ops items h)) = ir_ItemKey ` set items"
  "dom (fst (probeServices ops items h)) = ir_ItemKey ` set items"
  "dom (fst (probeUsers ops items h)) = ir_ItemKey ` set items"
  by (simp_all add: probe_defs Let_def split: prod.split sum.split option.split)

lemma probe_dom:
  assumes "probeItemsMode ops category items mode h = (v, h')"
  shows "dom v = (if category \<in> {''packages'', ''configs'', ''services'', ''users''} then ir_ItemKey ` set items else {})"
proof -
  have "v = fst (probeItemsMode ops category items mode h)" using assms by simp
  then show ?thesis by (simp add: probeItemsMode_def probe_doms del: dom_def)
qed

end
