(* ===== verification/InitialSync.thy ===== *)
theory InitialSync
  imports Probes "HOL-Library.List_Lexorder" "HOL-Library.Char_ord"
begin

section \<open>Applying what was collected (\<open>migration/stages_apply.go\<close>, \<open>reconcile_applied.go\<close>, \<open>backup_ref.go\<close>)\<close>

text \<open>
  The stage that hands the collected data to the appliers, item by item as the operator decided, and the two
  rollbacks of it. A module of the registry is what a collector and an applier do to the target; the modules of
  \<open>packages\<close> and \<open>services\<close> are modelled, the others are arbitrary. What \<open>DatabaseApplier\<close> is configured with
  before the call is part of its module.
\<close>

record 'h CategoryModule =
  cm_Collect :: "'h \<Rightarrow> CategoryData res \<times> 'h"
  cm_Apply :: "CategoryData \<Rightarrow> 'h \<Rightarrow> goerr option \<times> 'h"
  cm_Rollback :: "BackupData \<Rightarrow> 'h \<Rightarrow> goerr option \<times> 'h"

record 'h apply_env =
  ae_Registry :: "string \<rightharpoonup> 'h CategoryModule"
  ae_Categories :: "string list"
  ae_ops :: "'h target_ops"

definition map_ok :: "('a \<Rightarrow> 'b) \<Rightarrow> 'a res \<times> 'h \<Rightarrow> 'b res \<times> 'h" where
  "map_ok f x = (map_sum id f (fst x), snd x)"

definition error_of :: "'a res \<times> 'h \<Rightarrow> goerr option \<times> 'h" where
  "error_of x = ((case fst x of Inl err \<Rightarrow> Some err | Inr _ \<Rightarrow> None), snd x)"

definition packages_module :: "'h target_ops \<Rightarrow> 'h CategoryModule" where
  "packages_module ops =
     \<lparr>cm_Collect = (\<lambda>h. map_ok (\<lambda>d. \<lparr>cd_Type = ''packages'', cd_Data = PlPackages d\<rparr>) (packages_Collect ops h)),
      cm_Apply = (\<lambda>c h. error_of (packages_Apply ops (as_packages (cd_Data c)) h)),
      cm_Rollback = (\<lambda>b. packages_Rollback ops (case bd_Data b of BpPackages pb \<Rightarrow> Some pb | BpInvalid \<Rightarrow> None
         | _ \<Rightarrow> Some \<lparr>pb_Distro = '''', pb_Packages = []\<rparr>))\<rparr>"

definition services_module :: "'h target_ops \<Rightarrow> 'h CategoryModule" where
  "services_module ops =
     \<lparr>cm_Collect = (\<lambda>h. map_ok (\<lambda>d. \<lparr>cd_Type = ''services'', cd_Data = PlServices d\<rparr>) (services_Collect ops h)),
      cm_Apply = (\<lambda>c h. error_of (services_Apply ops (as_services (cd_Data c)) h)),
      cm_Rollback = (\<lambda>b. services_Rollback ops (case bd_Data b of BpServices svcs \<Rightarrow> Some svcs | BpInvalid \<Rightarrow> None
         | _ \<Rightarrow> Some []))\<rparr>"

subsection \<open>Items of a category\<close>

text \<open>The keys of the items of collected data, and the same data with only the items whose key \<open>keep\<close> accepts.\<close>

definition itemKeysFor :: "string \<Rightarrow> CategoryData \<Rightarrow> string list" where
  "itemKeysFor category c = (let p = cd_Data c in
     if category = ''packages'' then (case as_packages p of None \<Rightarrow> [] | Some d \<Rightarrow> map ((@) ''package:'') (pk_Packages d))
     else if category = ''configs'' then (case as_configs p of None \<Rightarrow> [] | Some d \<Rightarrow> map (\<lambda>f. ''config:'' @ fst f) (cf_Files d))
     else if category = ''services'' then (case as_services p of None \<Rightarrow> [] | Some d \<Rightarrow> map ((@) ''service:'') (sd_Services d))
     else if category = ''users'' then (case as_users p of None \<Rightarrow> [] | Some d \<Rightarrow> map (\<lambda>u. ''user:'' @ ud_Name u) (us_Users d))
     else if category = ''docker'' then (case as_docker p of None \<Rightarrow> [] | Some d \<Rightarrow>
       map ((@) ''docker-image:'') (dk_Images d) @ map (\<lambda>v. ''docker-volume:'' @ dv_Name v) (dk_Volumes d)
         @ map (\<lambda>x. ''docker-container:'' @ dc_Name x) (dk_Containers d)
         @ map (\<lambda>x. ''docker-compose:'' @ df_Path x) (dk_ComposeFiles d))
     else if category = ''database'' then (case as_database p of None \<Rightarrow> [] | Some d \<Rightarrow>
       map (\<lambda>e. ''database:'' @ db_Engine d @ '':'' @ de_Name e) (db_Databases d))
     else [])"

definition itemKeysForStep :: "string \<Rightarrow> step_blob \<Rightarrow> string list" where
  "itemKeysForStep category data = (case data of SbEnvelope c \<Rightarrow> itemKeysFor category c | _ \<Rightarrow> [])"

definition filterCategoryToApplySet :: "string \<Rightarrow> payload \<Rightarrow> string list \<Rightarrow> CategoryData" where
  "filterCategoryToApplySet category p applySet =
     (let keep = (\<lambda>key. applySet = [] \<or> key \<in> set applySet) in
      if category = ''packages'' then \<lparr>cd_Type = ''packages'', cd_Data = (case as_packages p of None \<Rightarrow> p
        | Some d \<Rightarrow> PlPackages (d\<lparr>pk_Packages := filter (\<lambda>x. keep (''package:'' @ x)) (pk_Packages d)\<rparr>))\<rparr>
      else if category = ''configs'' then \<lparr>cd_Type = ''configs'', cd_Data = (case as_configs p of None \<Rightarrow> p
        | Some d \<Rightarrow> PlConfigs (d\<lparr>cf_Files := filter (\<lambda>f. keep (''config:'' @ fst f)) (cf_Files d)\<rparr>))\<rparr>
      else if category = ''services'' then \<lparr>cd_Type = ''services'', cd_Data = (case as_services p of None \<Rightarrow> p
        | Some d \<Rightarrow> PlServices (d\<lparr>sd_Services := filter (\<lambda>s. keep (''service:'' @ s)) (sd_Services d)\<rparr>))\<rparr>
      else if category = ''users'' then \<lparr>cd_Type = ''users'', cd_Data = (case as_users p of None \<Rightarrow> p
        | Some d \<Rightarrow> PlUsers (d\<lparr>us_Users := filter (\<lambda>u. keep (''user:'' @ ud_Name u)) (us_Users d)\<rparr>))\<rparr>
      else if category = ''docker'' then \<lparr>cd_Type = ''docker'', cd_Data = (case as_docker p of None \<Rightarrow> p
        | Some d \<Rightarrow> PlDocker (d\<lparr>dk_Images := filter (\<lambda>x. keep (''docker-image:'' @ x)) (dk_Images d),
            dk_Volumes := filter (\<lambda>v. keep (''docker-volume:'' @ dv_Name v)) (dk_Volumes d),
            dk_Containers := filter (\<lambda>x. keep (''docker-container:'' @ dc_Name x)) (dk_Containers d),
            dk_ComposeFiles := filter (\<lambda>x. keep (''docker-compose:'' @ df_Path x)) (dk_ComposeFiles d)\<rparr>))\<rparr>
      else if category = ''database'' then \<lparr>cd_Type = ''database'', cd_Data = (case as_database p of None \<Rightarrow> p
        | Some d \<Rightarrow> PlDatabase (d\<lparr>db_Databases :=
            filter (\<lambda>e. keep (''database:'' @ db_Engine d @ '':'' @ de_Name e)) (db_Databases d)\<rparr>))\<rparr>
      else \<lparr>cd_Type = category, cd_Data = p\<rparr>)"

text \<open>\<open>mergeInventory\<close> on collected data, and the live collect of the target.\<close>

definition merge_collected :: "targetInventory \<Rightarrow> string \<Rightarrow> CategoryData \<Rightarrow> targetInventory" where
  "merge_collected ti category c = (let p = cd_Data c in
     mergeInventory ti category
       (if category = ''packages'' then (case as_packages p of None \<Rightarrow> [] | Some d \<Rightarrow> pk_Packages d)
        else if category = ''configs'' then (case as_configs p of None \<Rightarrow> [] | Some d \<Rightarrow> map fst (cf_Files d))
        else if category = ''services'' then (case as_services p of None \<Rightarrow> [] | Some d \<Rightarrow> sd_Services d)
        else if category = ''docker'' then (case as_docker p of None \<Rightarrow> [] | Some d \<Rightarrow> dk_Images d)
        else [])
       (case as_docker p of None \<Rightarrow> [] | Some d \<Rightarrow> map dv_Name (dk_Volumes d)))"

fun collect_inventory :: "'h apply_env \<Rightarrow> string list \<Rightarrow> targetInventory \<Rightarrow> 'h \<Rightarrow> targetInventory \<times> 'h" where
  "collect_inventory env [] ti h = (ti, h)"
| "collect_inventory env (cat # cats) ti h = (case ae_Registry env cat of
       None \<Rightarrow> collect_inventory env cats ti h
     | Some m \<Rightarrow> (case cm_Collect m h of
          (Inl _, h1) \<Rightarrow> collect_inventory env cats ti h1
        | (Inr td, h1) \<Rightarrow> collect_inventory env cats (merge_collected ti cat td) h1))"

definition buildTargetInventory :: "'h apply_env \<Rightarrow> PipelineContext \<Rightarrow> 'h \<Rightarrow> targetInventory \<times> 'h" where
  "buildTargetInventory env pc h = (if pc_TargetSSH pc = None then (newTargetInventory, h)
     else collect_inventory env (ae_Categories env) newTargetInventory h)"

definition itemHardBlocked :: "string \<Rightarrow> string \<Rightarrow> targetInventory \<Rightarrow> bool" where
  "itemHardBlocked category key ti \<longleftrightarrow> list_ex (\<lambda>d. dp_Kind d = DepHard \<and> \<not> dp_Satisfied d) (depsFor category key ti)"

text \<open>\<open>loadItemDecisions\<close>: of two decisions on one key, which the table excludes, the last would count.\<close>

type_synonym decisions = "string \<rightharpoonup> string"

definition decisions_of :: "SelectionDecision list \<Rightarrow> decisions" where
  "decisions_of sels = map_of (rev (map (\<lambda>s. (sl_ItemKey s, sl_Action s)) sels))"

definition loadItemDecisions :: "PipelineContext \<Rightarrow> 'h item_world \<Rightarrow> decisions \<times> 'h item_world" where
  "loadItemDecisions pc w = (case GetSelections (pc_MigrationID pc) w of
       (Inl _, w1) \<Rightarrow> (Map.empty, w1)
     | (Inr sels, w1) \<Rightarrow> (decisions_of sels, w1))"

definition plan_item :: "int \<Rightarrow> string \<Rightarrow> stamp \<Rightarrow> decisions \<Rightarrow> targetInventory \<Rightarrow> string \<Rightarrow> bool \<times> ItemResult" where
  "plan_item mid category now decisions ti key =
     (let rec = \<lparr>ir_MigrationID = mid, ir_ItemKey = key, ir_Category = category, ir_ExecutionState = ExecPending,
            ir_LastExecutionAt = Some now, ir_StepRefs = [], ir_ExecutionNotes = '''', ir_VerificationState = VerifyUnset,
            ir_VerificationLevel = '''', ir_VerifyEvidence = '''', ir_VerifyNotes = '''', ir_BackupRef = ''''\<rparr>;
          action = (case decisions key of None \<Rightarrow> '''' | Some a \<Rightarrow> a)
      in if itemHardBlocked category key ti then
           (False, rec\<lparr>ir_ExecutionState := ExecBlocked, ir_ExecutionNotes := ''hard dependency unsatisfied at apply time''\<rparr>)
         else if action = ActionKeepTarget \<or> action = ActionSkip then (False, rec\<lparr>ir_ExecutionState := ExecSkipped\<rparr>)
         else if action = ActionReviewManual then (False, rec\<lparr>ir_ExecutionState := ExecNotApplicable\<rparr>)
         else (True, rec))"

definition applyItemPlan ::
  "int \<Rightarrow> MigrationStepRecord \<Rightarrow> stamp \<Rightarrow> decisions \<Rightarrow> targetInventory \<Rightarrow> string list \<times> ItemResult list" where
  "applyItemPlan mid step now decisions ti =
     (let plan = map (plan_item mid (sr_Category step) now decisions ti) (itemKeysForStep (sr_Category step) (sr_Data step))
      in (map (\<lambda>x. ir_ItemKey (snd x)) (filter fst plan), map snd plan))"

subsection \<open>What really arrived (\<open>reconcile_applied.go\<close>)\<close>

definition reconcile_item ::
  "verdicts \<Rightarrow> int \<Rightarrow> string \<Rightarrow> stamp \<Rightarrow> ItemResult \<Rightarrow> ItemResult" where
  "reconcile_item verdicts stepID applyErr now r = (case verdicts (ir_ItemKey r) of
       None \<Rightarrow>
         if applyErr \<noteq> '''' then r\<lparr>ir_ExecutionState := ExecFailed, ir_ExecutionNotes := ''apply failed: '' @ applyErr\<rparr>
         else r\<lparr>ir_ExecutionState := ExecApplied, ir_LastExecutionAt := Some now, ir_StepRefs := [stepID]\<rparr>
     | Some v \<Rightarrow>
         if iv_OK v then r\<lparr>ir_ExecutionState := ExecApplied, ir_LastExecutionAt := Some now, ir_StepRefs := [stepID],
            ir_ExecutionNotes := ''''\<rparr>
         else r\<lparr>ir_ExecutionState := ExecFailed, ir_ExecutionNotes :=
            (if iv_Detail v = '''' then ''not present on the target after apply'' else iv_Detail v)
              @ (if applyErr \<noteq> '''' then '' (apply reported: '' @ applyErr @ '')'' else '''')\<rparr>)"

definition reconcileApplied ::
  "'h target_ops \<Rightarrow> string \<Rightarrow> ItemResult list \<Rightarrow> string list \<Rightarrow> int \<Rightarrow> string \<Rightarrow> stamp \<Rightarrow> 'h \<Rightarrow> ItemResult list \<times> 'h" where
  "reconcileApplied ops category items applySet stepID applyErr now h =
     (let inQuestion = filter (\<lambda>r. ir_ItemKey r \<in> set applySet) items in
      if inQuestion = [] then (items, h)
      else (case probeItemsPresence ops category inQuestion h of
          (verdicts, h1) \<Rightarrow>
            (map (\<lambda>r. if ir_ItemKey r \<in> set applySet then reconcile_item verdicts stepID applyErr now r else r) items, h1)))"

subsection \<open>Restore points (\<open>backup_ref.go\<close>)\<close>

definition backupRefPrefix :: string where "backupRefPrefix = ''backup:''"

definition backupRefFor :: "int \<Rightarrow> string" where
  "backupRefFor i = backupRefPrefix @ string_of_int i"

definition parseBackupRef :: "string \<Rightarrow> int option" where
  "parseBackupRef ref = (if \<not> HasPrefix ref backupRefPrefix then None
     else (case Atoi (TrimPrefix ref backupRefPrefix) of
         None \<Rightarrow> None | Some i \<Rightarrow> if i \<le> 0 then None else Some i))"

definition applyBackupRef :: "(string \<rightharpoonup> string) \<Rightarrow> ItemResult \<Rightarrow> ItemResult" where
  "applyBackupRef refs r = (case refs (ir_Category r) of
       Some ref \<Rightarrow> if ref \<noteq> '''' then r\<lparr>ir_BackupRef := ref\<rparr> else r
     | None \<Rightarrow> r)"

definition applyBackupRefsTo :: "string list \<Rightarrow> (string \<rightharpoonup> string) \<Rightarrow> ItemResult list \<Rightarrow> ItemResult list" where
  "applyBackupRefsTo applySet refs = map (\<lambda>r.
     if ir_ItemKey r \<in> set applySet \<and> ir_ExecutionState r = ExecApplied then applyBackupRef refs r else r)"

definition ItemRestorable :: "ItemResult \<Rightarrow> bool" where
  "ItemRestorable r \<longleftrightarrow> ir_ExecutionState r = ExecApplied \<and> parseBackupRef (ir_BackupRef r) \<noteq> None"

record RollbackScope =
  rs_Restorable :: "string list"
  rs_NoRestore :: "string list"
  rs_NotApplied :: nat
  rs_ByCategory :: "string \<Rightarrow> nat"
  rs_FullyCovered :: bool

definition DescribeRollbackScope :: "ItemResult list \<Rightarrow> RollbackScope" where
  "DescribeRollbackScope items =
     (let applied = filter (\<lambda>r. ir_ExecutionState r = ExecApplied) items;
          lost = map ir_ItemKey (filter (\<lambda>r. \<not> ItemRestorable r) applied)
      in \<lparr>rs_Restorable = map ir_ItemKey (filter ItemRestorable applied), rs_NoRestore = lost,
          rs_NotApplied = length (filter (\<lambda>r. ir_ExecutionState r \<noteq> ExecApplied) items),
          rs_ByCategory = (\<lambda>c. length (filter (\<lambda>r. ItemRestorable r \<and> ir_Category r = c) applied)),
          rs_FullyCovered = (lost = [])\<rparr>)"

definition scope_Summary :: "RollbackScope \<Rightarrow> string" where
  "scope_Summary s =
     (let n = length (rs_Restorable s); m = length (rs_NoRestore s) in
      if n = 0 \<and> m = 0 then ''nothing was applied; there is nothing to roll back''
      else if rs_FullyCovered s then string_of_nat n @ '' applied item(s) can be restored from their backups''
      else string_of_nat n @ '' of '' @ string_of_nat (n + m) @ '' applied item(s) can be restored; ''
        @ string_of_nat m @ '' have no restore point and will NOT be undone'')"

subsection \<open>The rollback inside the stage\<close>

definition mark_rolled_back :: "int \<Rightarrow> string \<Rightarrow> 'h item_world \<Rightarrow> 'h item_world" where
  "mark_rolled_back mid cat w = (case GetItemResults mid w of
       (Inl _, w1) \<Rightarrow> w1
     | (Inr rs, w1) \<Rightarrow> upsert_results mid
         (map (ir_ExecutionState_update (\<lambda>_. ExecRolledBack))
           (filter (\<lambda>r. ir_Category r = cat \<and> ir_ExecutionState r = ExecApplied) rs)) w1)"

definition restore :: "'h apply_env \<Rightarrow> 'h CategoryModule \<Rightarrow> string \<Rightarrow> BackupData \<Rightarrow> 'h item_world \<Rightarrow> goerr option \<times> 'h item_world" where
  "restore env m cat backup w =
     on_target (cm_Rollback m backup) (log_event (EvRestore cat backup) (say ''rollback'' ''progress'' w))"

fun rollback_categories ::
  "'h apply_env \<Rightarrow> int \<Rightarrow> string set \<Rightarrow> (string \<rightharpoonup> BackupData) \<Rightarrow> string list \<Rightarrow> 'h item_world \<Rightarrow> 'h item_world" where
  "rollback_categories env mid appliedCats backups [] w = w"
| "rollback_categories env mid appliedCats backups (cat # cats) w =
     (if cat \<notin> appliedCats then rollback_categories env mid appliedCats backups cats w
      else (case backups cat of
          None \<Rightarrow> rollback_categories env mid appliedCats backups cats w
        | Some backup \<Rightarrow> (case ae_Registry env cat of
             None \<Rightarrow> rollback_categories env mid appliedCats backups cats w
           | Some m \<Rightarrow> (case restore env m cat backup w of
                (Some _, w1) \<Rightarrow> rollback_categories env mid appliedCats backups cats (say ''rollback'' ''warning'' w1)
              | (None, w1) \<Rightarrow> rollback_categories env mid appliedCats backups cats (mark_rolled_back mid cat w1)))))"

definition backup_map :: "MigrationBackup list \<Rightarrow> (string \<rightharpoonup> BackupData)" where
  "backup_map bs = map_of (rev (concat (map (\<lambda>b. case mb_Data b of None \<Rightarrow> [] | Some bd \<Rightarrow> [(mb_Category b, bd)]) bs)))"

definition rollbackApplied :: "'h apply_env \<Rightarrow> PipelineContext \<Rightarrow> string list \<Rightarrow> 'h item_world \<Rightarrow> 'h item_world" where
  "rollbackApplied env pc appliedOrder w =
     (let mid = pc_MigrationID pc; (rs, w1) = GetItemResults mid w;
          cats = (case rs of Inl _ \<Rightarrow> {} | Inr rows \<Rightarrow> ir_Category ` set (filter (\<lambda>r. ir_ExecutionState r = ExecApplied) rows));
          w2 = (case rs of Inl _ \<Rightarrow> w1
              | Inr rows \<Rightarrow> say ''rollback'' (if rs_FullyCovered (DescribeRollbackScope rows) then ''progress'' else ''warning'') w1)
      in (case GetBackups mid w2 of
            (Inl _, w3) \<Rightarrow> w3
          | (Inr bs, w3) \<Rightarrow> rollback_categories env mid cats (backup_map bs) (rev appliedOrder) w3))"

subsection \<open>The stage\<close>

datatype step_result = StepIgnored | StepSkipped | StepApplied | StepFailed goerr

definition skip_reason :: string where
  "skip_reason = ''no items selected to apply (all keep_target/skip/blocked/review_manual)''"

definition record_items ::
  "'h apply_env \<Rightarrow> PipelineContext \<Rightarrow> MigrationStepRecord \<Rightarrow> string list \<Rightarrow> ItemResult list \<Rightarrow> string \<Rightarrow> 'h item_world \<Rightarrow> 'h item_world" where
  "record_items env pc step applySet items err w =
     (case on_target (reconcileApplied (ae_ops env) (sr_Category step) items applySet (sr_ID step) err (formatTime (w_now w))) w of
        (items1, w1) \<Rightarrow> upsert_results (pc_MigrationID pc) (applyBackupRefsTo applySet (pc_BackupRefs pc) items1) w1)"

definition apply_step ::
  "'h apply_env \<Rightarrow> PipelineContext \<Rightarrow> decisions \<Rightarrow> targetInventory \<Rightarrow> MigrationStepRecord \<Rightarrow> 'h item_world
     \<Rightarrow> step_result \<times> 'h item_world" where
  "apply_step env pc decisions ti step w =
     (if sr_Action step \<noteq> ''collect'' \<or> sr_Status step \<noteq> StepStatusCompleted then (StepIgnored, w)
      else (case applyItemPlan (pc_MigrationID pc) step (formatTime (w_now w)) decisions ti of
          (applySet, items) \<Rightarrow>
            if applySet = [] then
              (StepSkipped, say ''initial_sync'' ''warning''
                (snd (UpdateStepStatus (sr_ID step) StepStatusSkipped skip_reason (upsert_results (pc_MigrationID pc) items w))))
            else (case ae_Registry env (sr_Category step) of
               None \<Rightarrow> (StepSkipped, say ''initial_sync'' ''warning'' w)
             | Some m \<Rightarrow> (case sr_Data step of
                  SbEnvelope c \<Rightarrow>
                    (let filtered = filterCategoryToApplySet (sr_Category step) (cd_Data c) applySet;
                         (err, w1) = on_target (cm_Apply m filtered)
                            (log_event (EvApply (sr_Category step) filtered) (say ''initial_sync'' ''progress'' w))
                     in (case err of
                           Some e \<Rightarrow> (StepFailed e, record_items env pc step applySet items (err_text e) w1)
                         | None \<Rightarrow>
                             (case UpdateStepStatus (sr_ID step) StepStatusApplied ''''
                                 (record_items env pc step applySet items '''' w1) of
                                (Inl _, w2) \<Rightarrow> (StepApplied, say ''initial_sync'' ''success'' (say ''initial_sync'' ''warning'' w2))
                              | (Inr _, w2) \<Rightarrow> (StepApplied, say ''initial_sync'' ''success'' w2))))
                | _ \<Rightarrow> (StepSkipped, say ''initial_sync'' ''warning'' w)))))"

fun apply_steps ::
  "'h apply_env \<Rightarrow> PipelineContext \<Rightarrow> decisions \<Rightarrow> targetInventory \<Rightarrow> MigrationStepRecord list \<Rightarrow> string list \<Rightarrow> string list
     \<Rightarrow> 'h item_world \<Rightarrow> (goerr option \<times> string list \<times> string list) \<times> 'h item_world" where
  "apply_steps env pc decisions ti [] applied skipped w = ((None, applied, skipped), w)"
| "apply_steps env pc decisions ti (step # steps) applied skipped w =
     (case tg_ctxErr (ae_ops env) (target_host (w_db w)) of
        Some e \<Rightarrow> ((Some e, applied, skipped), w)
      | None \<Rightarrow> (case apply_step env pc decisions ti step w of
           (StepIgnored, w1) \<Rightarrow> apply_steps env pc decisions ti steps applied skipped w1
         | (StepSkipped, w1) \<Rightarrow> apply_steps env pc decisions ti steps applied (List.insert (sr_Category step) skipped) w1
         | (StepApplied, w1) \<Rightarrow> apply_steps env pc decisions ti steps (applied @ [sr_Category step]) skipped w1
         | (StepFailed e, w1) \<Rightarrow>
             ((Some (ErrWrap (''apply '' @ sr_Category step @ '' failed: '') e ''''), applied, skipped),
              rollbackApplied env pc applied w1)))"

definition skipped_error :: "string list \<Rightarrow> goerr" where
  "skipped_error skipped = ErrF (''initial sync skipped '' @ string_of_nat (length skipped) @ '' categories: ['' @
     join_at CHR 32 (sort skipped) @ '']'')"

definition initialSync_Execute :: "'h apply_env \<Rightarrow> PipelineContext \<Rightarrow> 'h item_world \<Rightarrow> goerr option \<times> 'h item_world" where
  "initialSync_Execute env pc w =
     (case GetSteps (pc_MigrationID pc) (say ''initial_sync'' ''progress'' w) of
        (Inl err, w1) \<Rightarrow> (Some (ErrWrap ''failed to load migration steps: '' err ''''), w1)
      | (Inr steps, w1) \<Rightarrow>
          (let (decisions, w2) = loadItemDecisions pc w1;
               (ti, w3) = on_target (buildTargetInventory env pc) w2;
               ((err, applied, skipped), w4) = apply_steps env pc decisions ti steps [] [] w3
           in (case err of
                 Some e \<Rightarrow> (Some e, w4)
               | None \<Rightarrow>
                   if skipped \<noteq> [] then
                     (Some (skipped_error skipped), if applied \<noteq> [] then rollbackApplied env pc applied w4 else w4)
                   else (None, say ''initial_sync'' ''success'' w4))))"

text \<open>The rollback of the stage, which the pipeline calls.\<close>

fun restore_backups :: "'h apply_env \<Rightarrow> string list \<Rightarrow> MigrationBackup list \<Rightarrow> 'h item_world \<Rightarrow> 'h item_world" where
  "restore_backups env applied [] w = w"
| "restore_backups env applied (b # bs) w =
     (if mb_Category b \<notin> set applied then restore_backups env applied bs w
      else (case (ae_Registry env (mb_Category b), mb_Data b) of
          (Some m, Some bd) \<Rightarrow> (case restore env m (mb_Category b) bd w of
             (Some _, w1) \<Rightarrow> restore_backups env applied bs (say ''rollback'' ''warning'' w1)
           | (None, w1) \<Rightarrow> restore_backups env applied bs w1)
        | _ \<Rightarrow> restore_backups env applied bs w))"

definition initialSync_Rollback :: "'h apply_env \<Rightarrow> PipelineContext \<Rightarrow> 'h item_world \<Rightarrow> goerr option \<times> 'h item_world" where
  "initialSync_Rollback env pc w = (case GetBackups (pc_MigrationID pc) w of
       (Inl err, w1) \<Rightarrow> (Some (ErrWrap ''failed to load backups: '' err ''''), w1)
     | (Inr bs, w1) \<Rightarrow> (case GetAppliedCategories (pc_MigrationID pc) w1 of
          (Inl err, w2) \<Rightarrow> (Some (ErrWrap ''failed to load applied categories: '' err ''''), w2)
        | (Inr cats, w2) \<Rightarrow> (None, restore_backups env cats (rev bs) w2)))"

end
