(* ===== verification/Outcome.thy ===== *)
theory Outcome
  imports InitialSync
begin

section \<open>Verification and outcome (\<open>migration/stages_verify.go\<close>, \<open>migration/stages_finalize.go\<close>)\<close>

text \<open>
  The stage that probes applied items, the stage that derives the outcome of the migration from steps, decisions
  and item results, and the archive stage.
\<close>

subsection \<open>Health verification\<close>

definition recordVerdict ::
  "int \<Rightarrow> ItemResult \<Rightarrow> VerificationState \<Rightarrow> string \<Rightarrow> string \<Rightarrow> string \<Rightarrow> 'h item_world \<Rightarrow> 'h item_world" where
  "recordVerdict mid r state level evidence notes w = snd (UpsertItemResult mid
     (r\<lparr>ir_VerificationState := state, ir_VerificationLevel := level, ir_VerifyEvidence := evidence, ir_VerifyNotes := notes\<rparr>) w)"

text \<open>The applied items by category, and the categories in the order of the code's \<open>range\<close>.\<close>

definition applied_items :: "ItemResult list \<Rightarrow> ItemResult list" where
  "applied_items rs = filter (\<lambda>r. ir_ExecutionState r = ExecApplied) rs"

definition items_in :: "string \<Rightarrow> ItemResult list \<Rightarrow> ItemResult list" where
  "items_in cat rs = filter (\<lambda>r. ir_Category r = cat) rs"

definition applied_categories :: "'h target_ops \<Rightarrow> ItemResult list \<Rightarrow> string list" where
  "applied_categories ops applied = tg_range ops (remdups (map ir_Category applied))"

fun fail_items :: "int \<Rightarrow> string \<Rightarrow> ItemResult list \<Rightarrow> 'h item_world \<Rightarrow> 'h item_world" where
  "fail_items mid reason [] w = w"
| "fail_items mid reason (r # rs) w = fail_items mid reason rs (recordVerdict mid r VerifyFailed '''' '''' reason w)"

definition failVerification :: "'h target_ops \<Rightarrow> int \<Rightarrow> ItemResult list \<Rightarrow> string \<Rightarrow> 'h item_world \<Rightarrow> 'h item_world" where
  "failVerification ops mid applied reason =
     fail_items mid reason (concat (map (\<lambda>cat. items_in cat applied) (applied_categories ops applied)))"

record counts =
  ct_verified :: nat
  ct_failed :: nat
  ct_unprobed :: nat

definition judge_item :: "int \<Rightarrow> verdicts \<Rightarrow> ItemResult \<Rightarrow> counts \<times> 'h item_world \<Rightarrow> counts \<times> 'h item_world" where
  "judge_item mid verdicts r cw = (case cw of (c, w) \<Rightarrow> (case verdicts (ir_ItemKey r) of
       None \<Rightarrow> (c\<lparr>ct_unprobed := ct_unprobed c + 1\<rparr>, w)
     | Some v \<Rightarrow>
         if iv_OK v then
           (c\<lparr>ct_verified := ct_verified c + 1\<rparr>, recordVerdict mid r (iv_Level v) (verify_text (iv_Level v)) (iv_Detail v) '''' w)
         else (c\<lparr>ct_failed := ct_failed c + 1\<rparr>, recordVerdict mid r VerifyFailed '''' '''' (iv_Detail v) w)))"

fun verify_categories ::
  "'h target_ops \<Rightarrow> int \<Rightarrow> ItemResult list \<Rightarrow> string list \<Rightarrow> counts \<times> 'h item_world \<Rightarrow> counts \<times> 'h item_world" where
  "verify_categories ops mid applied [] cw = cw"
| "verify_categories ops mid applied (cat # cats) cw =
     (if cat = ''docker'' then verify_categories ops mid applied cats cw
      else (case on_target (probeItems ops cat (items_in cat applied)) (snd cw) of
          (verdicts, w1) \<Rightarrow> verify_categories ops mid applied cats
            (if dom verdicts = {} then ((fst cw)\<lparr>ct_unprobed := ct_unprobed (fst cw) + length (items_in cat applied)\<rparr>, w1)
             else fold (judge_item mid verdicts) (items_in cat applied) (fst cw, w1))))"

definition docker_ps :: string where
  "docker_ps = ''docker ps --format '' @ CHR 39 # ''{{.Names}} {{.Status}}'' @ CHR 39 # '' 2>/dev/null''"

definition up_containers :: "string \<Rightarrow> string list" where
  "up_containers out = concat (map (\<lambda>line. case Fields line of
       a # b # _ \<Rightarrow> if HasPrefix b ''Up'' then [a] else [] | _ \<Rightarrow> []) (out_lines (TrimSpace out)))"

definition docker_verdict :: "string list option \<Rightarrow> ItemResult \<Rightarrow> ItemVerdict" where
  "docker_verdict up r = (case up of
       None \<Rightarrow> refuted ''could not list containers on the target''
     | Some names \<Rightarrow> if TrimPrefix (ir_ItemKey r) ''docker-container:'' \<in> set names then confirmed VerifyRuntime ''container reported Up''
         else refuted ''container is not running on the target'')"

definition verify_docker_item ::
  "int \<Rightarrow> string list option \<Rightarrow> ItemResult \<Rightarrow> counts \<times> 'h item_world \<Rightarrow> counts \<times> 'h item_world" where
  "verify_docker_item mid up r cw = (case cw of (c, w) \<Rightarrow> (let v = docker_verdict up r in
     if iv_OK v then (c\<lparr>ct_verified := ct_verified c + 1\<rparr>, recordVerdict mid r VerifyRuntime ''runtime'' (iv_Detail v) '''' w)
     else (c\<lparr>ct_failed := ct_failed c + 1\<rparr>, recordVerdict mid r VerifyFailed '''' '''' (iv_Detail v) w)))"

definition verify_docker :: "'h target_ops \<Rightarrow> int \<Rightarrow> ItemResult list \<Rightarrow> counts \<times> 'h item_world \<Rightarrow> counts \<times> 'h item_world" where
  "verify_docker ops mid items cw =
     (if items = [] then cw
      else (case on_target (tg_exec ops docker_ps) (snd cw) of
          ((out, _, _, err), w1) \<Rightarrow>
            (let listed = (err = None \<and> TrimSpace out \<noteq> '''');
                 w2 = (if listed then say ''health_verification'' ''progress'' w1 else w1)
             in fold (verify_docker_item mid (if listed then Some (up_containers out) else None)) items (fst cw, w2))))"

definition healthVerification_Execute ::
  "'h target_ops \<Rightarrow> PipelineContext \<Rightarrow> 'h item_world \<Rightarrow> goerr option \<times> 'h item_world" where
  "healthVerification_Execute ops pc w =
     (let mid = pc_MigrationID pc;
          (rs, w1) = GetItemResults mid (say ''health_verification'' ''progress'' w);
          applied = (case rs of Inl _ \<Rightarrow> [] | Inr rows \<Rightarrow> applied_items rows)
      in (case on_target (tg_exec ops ''echo ok'') w1 of
            ((_, _, _, Some err), w2) \<Rightarrow>
              (Some (ErrWrap ''target health check failed: '' err ''''),
               failVerification ops mid applied (''target unreachable: '' @ err_text err) w2)
          | ((out, _, _, None), w2) \<Rightarrow>
              if out \<noteq> ''ok'' @ [CHR 10] then
                (Some (ErrF (''target health check failed: unexpected output '' @ quoted out)),
                 failVerification ops mid applied ''target health check returned unexpected output'' w2)
              else (case verify_docker ops mid (items_in ''docker'' applied)
                      (verify_categories ops mid applied (applied_categories ops applied)
                        (\<lparr>ct_verified = 0, ct_failed = 0, ct_unprobed = 0\<rparr>, w2)) of
                  (c, w3) \<Rightarrow> (None, say ''health_verification'' (if 0 < ct_failed c then ''warning'' else ''success'') w3))))"

subsection \<open>The outcome\<close>

definition StatusCompleted :: string where "StatusCompleted = ''completed''"
definition StatusCompletedWithDrift :: string where "StatusCompletedWithDrift = ''completed_with_drift''"
definition StatusCompletedWithManualGaps :: string where "StatusCompletedWithManualGaps = ''completed_with_manual_gaps''"
definition StatusCompletedPartial :: string where "StatusCompletedPartial = ''completed_partial''"
definition StatusCompletedWithUnresolvedDrift :: string where
  "StatusCompletedWithUnresolvedDrift = ''completed_with_unresolved_drift''"
definition StatusVerificationFailed :: string where "StatusVerificationFailed = ''verification_failed''"
definition StatusVerificationPartial :: string where "StatusVerificationPartial = ''verification_partial''"

lemmas outcome_names = StatusCompleted_def StatusCompletedWithDrift_def StatusCompletedWithManualGaps_def
  StatusCompletedPartial_def StatusCompletedWithUnresolvedDrift_def StatusVerificationFailed_def StatusVerificationPartial_def

record tally =
  tl_blocked :: nat
  tl_applied :: nat
  tl_failed :: nat
  tl_verifyFailed :: nat
  tl_unresolved :: nat
  tl_keepTarget :: nat
  tl_skipReview :: nat
  tl_intended :: nat

definition count_item :: "decisions \<Rightarrow> ItemResult \<Rightarrow> tally \<Rightarrow> tally" where
  "count_item sel r t = (case ir_ExecutionState r of
       ExecBlocked \<Rightarrow> t\<lparr>tl_blocked := tl_blocked t + 1\<rparr>
     | ExecPending \<Rightarrow> t\<lparr>tl_intended := tl_intended t + 1\<rparr>
     | ExecFailed \<Rightarrow> t\<lparr>tl_failed := tl_failed t + 1, tl_intended := tl_intended t + 1\<rparr>
     | ExecSkipped \<Rightarrow> if sel (ir_ItemKey r) = Some ActionKeepTarget then t\<lparr>tl_keepTarget := tl_keepTarget t + 1\<rparr>
         else t\<lparr>tl_skipReview := tl_skipReview t + 1\<rparr>
     | ExecNotApplicable \<Rightarrow> t\<lparr>tl_skipReview := tl_skipReview t + 1\<rparr>
     | ExecApplied \<Rightarrow>
         (let t1 = t\<lparr>tl_applied := tl_applied t + 1, tl_intended := tl_intended t + 1\<rparr> in
          if ir_VerificationState r = VerifyFailed then t1\<lparr>tl_verifyFailed := tl_verifyFailed t1 + 1\<rparr>
          else if ir_VerificationState r \<in> {VerifyInfra, VerifyRuntime, VerifyApp, VerifyPartial} then t1
          else t1\<lparr>tl_unresolved := tl_unresolved t1 + 1\<rparr>)
     | _ \<Rightarrow> t)"

definition no_items :: tally where
  "no_items = \<lparr>tl_blocked = 0, tl_applied = 0, tl_failed = 0, tl_verifyFailed = 0, tl_unresolved = 0, tl_keepTarget = 0,
     tl_skipReview = 0, tl_intended = 0\<rparr>"

definition tally_items :: "decisions \<Rightarrow> ItemResult list \<Rightarrow> tally" where
  "tally_items sel rs = fold (count_item sel) rs no_items"

definition num :: "nat \<Rightarrow> string" where "num n = string_of_nat n"

definition deriveStatusFromItems :: "ItemResult list \<Rightarrow> SelectionDecision list \<Rightarrow> nat \<Rightarrow> string \<times> string" where
  "deriveStatusFromItems rs sels failedSteps =
     (let t = tally_items (decisions_of sels) rs; out = tl_blocked t + tl_skipReview t in
      if 0 < tl_verifyFailed t then
        (StatusVerificationFailed, num (tl_verifyFailed t) @ '' item(s) failed verification; '' @ num (tl_applied t) @ '' applied, ''
           @ num out @ '' skipped/blocked'')
      else if 0 < tl_unresolved t \<or> 0 < tl_intended t \<and> tl_applied t = 0 then
        (StatusVerificationPartial, num (tl_unresolved t) @ '' applied item(s) unverified/unresolved; ''
           @ num (tl_applied t - tl_unresolved t) @ '' verified, '' @ num out @ '' skipped/blocked'')
      else if 0 < tl_failed t \<or> 0 < failedSteps then
        (StatusCompletedPartial, num (tl_failed t + failedSteps) @ '' item(s) failed to apply; '' @ num (tl_applied t) @ '' applied, ''
           @ num out @ '' skipped/blocked'')
      else if 0 < tl_skipReview t then
        (StatusCompletedWithUnresolvedDrift, num (tl_skipReview t) @ '' item(s) skipped/review_manual (unresolved drift); ''
           @ num (tl_applied t) @ '' applied, '' @ num (tl_keepTarget t) @ '' keep_target'')
      else if 0 < tl_blocked t then
        (StatusCompletedWithUnresolvedDrift, num (tl_blocked t) @ '' item(s) hard-blocked (unresolved); ''
           @ num (tl_applied t) @ '' applied, '' @ num (tl_keepTarget t) @ '' keep_target'')
      else if 0 < tl_keepTarget t then
        (StatusCompletedWithDrift, num (tl_keepTarget t) @ '' item(s) accepted as drift (keep_target); '' @ num (tl_applied t) @ '' applied'')
      else (StatusCompleted, ''''))"

definition count_status :: "string set \<Rightarrow> MigrationStepRecord list \<Rightarrow> nat" where
  "count_status names steps = length (filter (\<lambda>s. sr_Status s \<in> names) steps)"

definition StageInitialSync :: string where "StageInitialSync = ''initial_sync''"
definition StageHealthVerification :: string where "StageHealthVerification = ''health_verification''"
definition StageFinalization :: string where "StageFinalization = ''finalization''"
definition StageArchive :: string where "StageArchive = ''archive''"

text \<open>\<open>None\<close> stands for the empty status, which leaves the row as it is.\<close>

definition deriveMigrationStatus :: "int \<Rightarrow> 'h item_world \<Rightarrow> (string \<times> string) option \<times> 'h item_world" where
  "deriveMigrationStatus mid w = (case GetSteps mid w of
       (Inl _, w1) \<Rightarrow> (None, w1)
     | (Inr steps, w1) \<Rightarrow>
         (let (sel, w2) = GetSelections mid w1;
              sels = (case sel of Inl _ \<Rightarrow> [] | Inr s \<Rightarrow> s);
              failed = count_status {StepStatusFailed} steps;
              skipped = count_status {StepStatusSkipped} steps;
              applied = count_status {StepStatusApplied, StepStatusCompleted} steps;
              (items, w3) = GetItemResults mid w2;
              rs = (case items of Inl _ \<Rightarrow> [] | Inr r \<Rightarrow> r);
              gap = length (filter (\<lambda>s. sl_Action s = ActionSkip \<or> sl_Action s = ActionReviewManual) sels)
          in (Some (if rs \<noteq> [] then deriveStatusFromItems rs sels failed
                    else if 0 < failed then
                      (StatusCompletedPartial, num failed @ '' step(s) failed; '' @ num applied @ '' applied, '' @ num skipped @ '' skipped'')
                    else if 0 < gap then
                      (StatusCompletedWithManualGaps, num gap @ '' item(s) skipped/review_manual requiring follow-up; '' @ num applied
                         @ '' applied, '' @ num skipped @ '' skipped'')
                    else (StatusCompleted, '''')), w3)))"

fun finish_steps :: "MigrationStepRecord list \<Rightarrow> 'h item_world \<Rightarrow> 'h item_world" where
  "finish_steps [] w = w"
| "finish_steps (s # ss) w =
     (if sr_Status s = StepStatusApplied then
        (case UpdateStepStatus (sr_ID s) StepStatusCompleted '''' w of
           (Inl _, w1) \<Rightarrow> finish_steps ss (say ''finalization'' ''warning'' w1)
         | (Inr _, w1) \<Rightarrow> finish_steps ss w1)
      else finish_steps ss w)"

definition finalization_Execute :: "PipelineContext \<Rightarrow> 'h item_world \<Rightarrow> goerr option \<times> 'h item_world" where
  "finalization_Execute pc w =
     (let mid = pc_MigrationID pc in
      case GetSteps mid (say ''finalization'' ''progress'' w) of
        (Inl err, w1) \<Rightarrow> (Some (ErrWrap ''failed to load steps: '' err ''''), w1)
      | (Inr steps, w1) \<Rightarrow>
          (let w2 = finish_steps steps w1;
               w3 = snd (CreateVerificationResult \<lparr>vr_MigrationID = mid, vr_VerificationType = ''finalization'', vr_Target = ''target'',
                  vr_Expected = '''', vr_Actual = '''', vr_Passed = True, vr_ErrorMessage = ''''\<rparr> w2);
               (outcome, w4) = deriveMigrationStatus mid w3;
               w5 = (case outcome of
                    None \<Rightarrow> w4
                  | Some (status, reason) \<Rightarrow> (case UpdateMigrationStatus mid status reason w4 of
                       (Inl _, w') \<Rightarrow> w'
                     | (Inr _, w') \<Rightarrow> say ''finalization'' ''progress'' w'))
           in (None, say ''finalization'' ''success'' w5)))"

definition archive_Execute :: "PipelineContext \<Rightarrow> 'h item_world \<Rightarrow> goerr option \<times> 'h item_world" where
  "archive_Execute pc w = (None, say ''archive'' ''success'' (snd (CreateAuditEntry
     \<lparr>au_MigrationID = pc_MigrationID pc, au_EventType = ''migration_archived'', au_PreviousState = '''',
      au_NewState = State_String StateCommitted, au_Actor = ''pipeline''\<rparr> (say ''archive'' ''progress'' w))))"

subsection \<open>The stages as the pipeline sees them\<close>

definition item_stage ::
  "(PipelineContext \<Rightarrow> 'h item_world \<Rightarrow> goerr option \<times> 'h item_world)
     \<Rightarrow> (nat \<Rightarrow> fault) \<Rightarrow> (nat \<Rightarrow> int) \<Rightarrow> ('h, unit) item_db_ext stage_fun" where
  "item_stage f flt clk pc n d =
     (let (r, w) = f pc \<lparr>w_db = d, w_log = [], w_tick = n, w_env = flt, w_clock = clk\<rparr> in (r, pc, w_db w, w_tick w - n))"

definition no_rollback :: "PipelineContext \<Rightarrow> 'h item_world \<Rightarrow> goerr option \<times> 'h item_world" where
  "no_rollback pc w = (None, w)"

definition item_stages :: "'h apply_env \<Rightarrow> (nat \<Rightarrow> fault) \<Rightarrow> (nat \<Rightarrow> int) \<Rightarrow> ('h, unit) item_db_ext PipelineStageHandler list" where
  "item_stages env flt clk =
     [\<lparr>sh_Name = StageInitialSync, sh_Execute = item_stage (initialSync_Execute env) flt clk,
       sh_Rollback = item_stage (initialSync_Rollback env) flt clk\<rparr>,
      \<lparr>sh_Name = StageHealthVerification, sh_Execute = item_stage (healthVerification_Execute (ae_ops env)) flt clk,
       sh_Rollback = item_stage no_rollback flt clk\<rparr>,
      \<lparr>sh_Name = StageFinalization, sh_Execute = item_stage finalization_Execute flt clk,
       sh_Rollback = item_stage no_rollback flt clk\<rparr>,
      \<lparr>sh_Name = StageArchive, sh_Execute = item_stage archive_Execute flt clk,
       sh_Rollback = item_stage no_rollback flt clk\<rparr>]"

end
