(* ===== verification/PackageProofs.thy ===== *)
theory PackageProofs
  imports Services
begin

section \<open>What appliers do to a target\<close>

text \<open>
  The commands an applier sends, the packages a target ends up with, and what a rollback may take away. A host
  beside which the commands are recorded stands for any host.
\<close>

subsection \<open>Recording commands\<close>

definition record_cmds :: "'h ssh \<Rightarrow> (string list \<times> 'h) ssh" where
  "record_cmds ex cmd s = (case s of (cmds, h) \<Rightarrow> (case ex cmd h of (out, h1) \<Rightarrow> (out, (cmds @ [cmd], h1))))"

definition recorded :: "'h target_ops \<Rightarrow> (string list \<times> 'h) target_ops" where
  "recorded ops = \<lparr>tg_exec = record_cmds (tg_exec ops), tg_long = map_option record_cmds (tg_long ops),
     tg_ctxErr = (\<lambda>s. tg_ctxErr ops (snd s)), tg_sanitize = tg_sanitize ops, tg_range = tg_range ops\<rparr>"

lemma recorded_simps [simp]:
  "tg_exec (recorded ops) cmd (cmds, h) = (fst (tg_exec ops cmd h), (cmds @ [cmd], snd (tg_exec ops cmd h)))"
  "tg_range (recorded ops) = tg_range ops" "tg_sanitize (recorded ops) = tg_sanitize ops"
  "tg_ctxErr (recorded ops) s = tg_ctxErr ops (snd s)"
  "execLongOrContext (recorded ops) cmd (cmds, h) =
     (fst (execLongOrContext ops cmd h), (cmds @ [cmd], snd (execLongOrContext ops cmd h)))"
  by (auto simp: recorded_def record_cmds_def execLongOrContext_def split: prod.splits option.splits)

text \<open>\<open>range\<close> visits every key of a map once.\<close>

definition fair_range :: "'h target_ops \<Rightarrow> bool" where
  "fair_range ops \<longleftrightarrow> (\<forall>xs. set (tg_range ops xs) = set xs)"

definition os_release :: string where "os_release = ''cat /etc/os-release''"

lemma recorded_DetectDistro:
  "DetectDistro (recorded ops) (cmds, h) = (fst (DetectDistro ops h), (cmds @ [os_release], snd (DetectDistro ops h)))"
  by (auto simp: DetectDistro_def os_release_def Let_def split: prod.splits option.splits)

lemma recorded_detect:
  "detect_adapter (recorded ops) (cmds, h) = (fst (detect_adapter ops h), (cmds @ [os_release], snd (detect_adapter ops h)))"
  by (auto simp: detect_adapter_def recorded_DetectDistro split: prod.splits sum.splits)

subsection \<open>The rollback of packages\<close>

lemma contains_foldI: "p \<in> set kept \<Longrightarrow> contains_fold kept p"
  by (auto simp: contains_fold_def list_ex_iff EqualFold_def)

text \<open>What a shell makes of the command that removes packages: the manager, the operation and exactly these names.\<close>

definition manager_words :: "DistroAdapter \<Rightarrow> string list" where
  "manager_words a = (case a of AptAdapter \<Rightarrow> [''DEBIAN_FRONTEND=noninteractive'', ''apt-get'', ''remove'', ''-y'']
     | DnfAdapter \<Rightarrow> [''dnf'', ''remove'', ''-y''] | PacmanAdapter \<Rightarrow> [''pacman'', ''-Rns'', ''--noconfirm'']
     | ApkAdapter \<Rightarrow> [''apk'', ''del''] | ZypperAdapter \<Rightarrow> [''zypper'', ''remove'', ''-y''])"

definition no_stdin :: "DistroAdapter \<Rightarrow> shell_token list" where
  "no_stdin a = (if a = AptAdapter then [Op CHR ''<'', Word ''/dev/null''] else [])"

lemma no_stdin_tokens: "sh_tokens Plain (Some x) '' </dev/null'' = Some [Word x, Op CHR ''<'', Word ''/dev/null'']"
  by (simp add: emit_def word_of_def)

lemma words_of_list: "xs \<noteq> [] \<Longrightarrow> map Word (butlast xs) @ Word (last xs) # ts = map Word xs @ ts"
  by (induction xs) auto

lemma args_then:
  assumes "pkgs \<noteq> []"
  shows "sh_tokens Plain None (ShellQuoteArgs pkgs @ '' </dev/null'') = Some (map Word pkgs @ [Op CHR ''<'', Word ''/dev/null''])"
    "sh_tokens Plain None (ShellQuoteArgs pkgs) = Some (map Word pkgs)"
proof -
  show "sh_tokens Plain None (ShellQuoteArgs pkgs @ '' </dev/null'') = Some (map Word pkgs @ [Op CHR ''<'', Word ''/dev/null''])"
    unfolding quote_args_tokens [OF assms] no_stdin_tokens option.map words_of_list [OF assms] ..
  have "sh_tokens Plain None (ShellQuoteArgs pkgs @ []) = Some (map Word pkgs @ [])"
    unfolding quote_args_tokens [OF assms] sh_tokens.simps emit_def option.case option.map words_of_list [OF assms] ..
  then show "sh_tokens Plain None (ShellQuoteArgs pkgs) = Some (map Word pkgs)" by simp
qed

lemma packages_remove_reads:
  assumes "pkgs \<noteq> []"
  shows "shell_reads (RemovePackages a pkgs) = Some (map Word (manager_words a @ pkgs) @ no_stdin a)"
  by (cases a) (simp_all add: shell_reads_def RemovePackages_def manager_words_def no_stdin_def emit_def word_of_def args_then [OF assms])



subsection \<open>Installing around broken packages\<close>

text \<open>A target that behaves: a command that installs packages succeeds exactly when all of them are installable,
  installs them then, and may install some of them when it fails; nothing is ever cancelled.\<close>

definition installs_like :: "'h target_ops \<Rightarrow> DistroAdapter \<Rightarrow> (string \<Rightarrow> bool) \<Rightarrow> ('h \<Rightarrow> string set) \<Rightarrow> bool" where
  "installs_like ops a good inst \<longleftrightarrow> (\<forall>h. tg_ctxErr ops h = None) \<and>
     (\<forall>ps h out errout code err h'. ps \<noteq> [] \<longrightarrow> execLongOrContext ops (InstallPackages a ps) h = ((out, errout, code, err), h') \<longrightarrow>
        (if list_all good ps then err = None \<and> code = 0 \<and> inst h' = inst h \<union> set ps
         else (err = None \<longrightarrow> code \<noteq> 0) \<and> inst h \<subseteq> inst h' \<and> inst h' \<subseteq> inst h \<union> {p \<in> set ps. good p}))"

lemma installs_likeD:
  assumes "installs_like ops a good inst" "ps \<noteq> []"
    and "execLongOrContext ops (InstallPackages a ps) h = ((out, errout, code, err), h')"
  shows "list_all good ps \<Longrightarrow> err = None \<and> code = 0 \<and> inst h' = inst h \<union> set ps"
    "\<not> list_all good ps \<Longrightarrow> (err = None \<longrightarrow> code \<noteq> 0) \<and> inst h \<subseteq> inst h' \<and> inst h' \<subseteq> inst h \<union> {p \<in> set ps. good p}"
proof -
  have "if list_all good ps then err = None \<and> code = 0 \<and> inst h' = inst h \<union> set ps
      else (err = None \<longrightarrow> code \<noteq> 0) \<and> inst h \<subseteq> inst h' \<and> inst h' \<subseteq> inst h \<union> {p \<in> set ps. good p}"
    using assms(1) [unfolded installs_like_def, THEN conjunct2, rule_format, OF assms(2,3)] .
  then show "list_all good ps \<Longrightarrow> err = None \<and> code = 0 \<and> inst h' = inst h \<union> set ps"
    "\<not> list_all good ps \<Longrightarrow> (err = None \<longrightarrow> code \<noteq> 0) \<and> inst h \<subseteq> inst h' \<and> inst h' \<subseteq> inst h \<union> {p \<in> set ps. good p}"
    by simp_all
qed

lemma install_each_spec:
  assumes "installs_like ops a good inst" and "install_each ops a ps (n, fs) h = ((c, n', fs'), h')"
  shows "\<not> c \<and> n' = n + length (filter good ps) \<and> map pf_name fs' = map pf_name fs @ filter (\<lambda>p. \<not> good p) ps
    \<and> inst h' = inst h \<union> {p \<in> set ps. good p}"
  using assms(2)
proof (induction ps arbitrary: n fs h)
  case (Cons p ps)
  obtain out errout code err h1 where run: "execLongOrContext ops (InstallPackages a [p]) h = ((out, errout, code, err), h1)"
    by (metis prod.exhaust)
  have "tg_ctxErr ops h = None" using assms(1) by (simp add: installs_like_def)
  with Cons.prems run have rest: "install_each ops a ps (if err = None \<and> code = 0 then (n + 1, fs)
      else (n, fs @ [\<lparr>pf_name = p, pf_reason = failure_reason ops errout code\<rparr>])) h1 = ((c, n', fs'), h')" by simp
  note law = installs_likeD [OF assms(1) _ run]
  show ?case
  proof (cases "good p")
    case True
    with law(1) have "err = None \<and> code = 0 \<and> inst h1 = inst h \<union> {p}" by simp
    with Cons.IH [of "n + 1" fs h1] rest True show ?thesis by auto
  next
    case False
    with law(2) have "\<not> (err = None \<and> code = 0)" "inst h1 = inst h" by auto
    with Cons.IH [of n "fs @ [\<lparr>pf_name = p, pf_reason = failure_reason ops errout code\<rparr>]" h1] rest False
    show ?thesis by auto
  qed
qed simp

lemma install_batches_spec:
  assumes "installs_like ops a good inst" and "list_all (\<lambda>b. b \<noteq> []) bs" and "install_batches ops a bs (n, fs) h = ((n', fs'), h')"
  shows "n' = n + length (filter good (concat bs)) \<and> map pf_name fs' = map pf_name fs @ filter (\<lambda>p. \<not> good p) (concat bs)
    \<and> inst h' = inst h \<union> {p \<in> set (concat bs). good p}"
  using assms(2,3)
proof (induction bs arbitrary: n fs h)
  case (Cons b bs)
  obtain out errout code err h1 where run: "execLongOrContext ops (InstallPackages a b) h = ((out, errout, code, err), h1)"
    by (metis prod.exhaust)
  note law = installs_likeD [OF assms(1) _ run]
  show ?case
  proof (cases "list_all good b")
    case True
    with law(1) Cons.prems(1) have ok: "err = None" "code = 0" "inst h1 = inst h \<union> set b" by auto
    then have "install_batches ops a bs (n + length b, fs) h1 = ((n', fs'), h')" using Cons.prems(2) run by simp
    moreover have "filter good b = b" "filter (\<lambda>p. \<not> good p) b = []" using True by (auto simp: list_all_iff filter_id_conv filter_empty_conv)
    ultimately show ?thesis using Cons.IH [of "n + length b" fs h1] Cons.prems(1) ok True by (auto simp: list_all_iff)
  next
    case False
    with law(2) Cons.prems(1) have bad: "\<not> (err = None \<and> code = 0)" "inst h \<subseteq> inst h1" "inst h1 \<subseteq> inst h \<union> {p \<in> set b. good p}"
      by auto
    obtain c n2 fs2 h2 where each: "install_each ops a b (n, fs) h1 = ((c, n2, fs2), h2)" by (metis prod.exhaust)
    from install_each_spec [OF assms(1) each] have e: "\<not> c" "n2 = n + length (filter good b)"
        "map pf_name fs2 = map pf_name fs @ filter (\<lambda>p. \<not> good p) b" "inst h2 = inst h \<union> {p \<in> set b. good p}"
      using bad by auto
    then have "install_batches ops a bs (n2, fs2) h2 = ((n', fs'), h')" using Cons.prems(2) run each bad(1) by auto
    then show ?thesis using Cons.IH [of n2 fs2 h2] Cons.prems(1) e by auto
  qed
qed simp

lemma batches_spec: "0 < n \<Longrightarrow> concat (batches n xs) = xs \<and> list_all (\<lambda>b. b \<noteq> [] \<and> length b \<le> n) (batches n xs)"
  by (induction n xs rule: batches.induct) (auto simp: min_def)

text \<open>\<open>C20\<close>: on a target that behaves, a broken package costs only itself: whatever was installed before, every
  installable package of the list is installed afterwards and no other, the number reported is theirs, and the
  failures reported are exactly the packages that cannot be installed, in their order.\<close>

theorem broken_packages_cost_only_themselves:
  assumes "installs_like ops a good inst" and "installPackages ops a pkgs h = ((n, fs), h')"
  shows "inst h' = inst h \<union> {p \<in> set pkgs. good p} \<and> n = length (filter good pkgs)
    \<and> map pf_name fs = filter (\<lambda>p. \<not> good p) pkgs"
proof -
  have "concat (batches 50 pkgs) = pkgs" "list_all (\<lambda>b. b \<noteq> []) (batches 50 pkgs)"
    using batches_spec [of 50 pkgs] by (simp_all add: list_all_iff)
  with install_batches_spec [OF assms(1), of "batches 50 pkgs" 0 "[]" h n fs h'] assms(2) show ?thesis
    by (simp add: installPackages_def)
qed

text \<open>A host with \<open>dnf\<close> that reads its commands as a shell does and cannot install one package.\<close>

definition token_word :: "shell_token \<Rightarrow> string" where
  "token_word t = (case t of Word w \<Rightarrow> w | Op _ \<Rightarrow> '''')"

definition demo_good :: "string \<Rightarrow> bool" where
  "demo_good p \<longleftrightarrow> p \<noteq> ''nginx''"

definition dnf_exec :: "string set ssh" where
  "dnf_exec cmd h = (case map_option (map token_word) (shell_reads cmd) of
       Some (x # y # z # ps) \<Rightarrow>
         if x = ''dnf'' \<and> y = ''install'' then
           if list_all demo_good ps then (('''', '''', 0, None), h \<union> set ps) else (('''', ''broken'', 1, None), h)
         else (('''', '''', 127, None), h)
     | _ \<Rightarrow> (('''', '''', 127, None), h))"

definition dnf_ops :: "string set target_ops" where
  "dnf_ops = \<lparr>tg_exec = dnf_exec, tg_long = None, tg_ctxErr = (\<lambda>_. None), tg_sanitize = id, tg_range = id\<rparr>"

lemma dnf_installs: "installs_like dnf_ops DnfAdapter demo_good (\<lambda>s. s)"
proof -
  have "shell_reads (InstallPackages DnfAdapter ps) = Some (map Word ([''dnf'', ''install'', ''-y''] @ ps))" if "ps \<noteq> []" for ps
    by (simp add: shell_reads_def InstallPackages_def emit_def word_of_def args_then [OF that])
  then show ?thesis
    by (auto simp: installs_like_def dnf_ops_def execLongOrContext_def dnf_exec_def token_word_def o_def split: if_splits)
qed

theorem broken_packages_cost_only_themselves_witness:
  "snd (installPackages dnf_ops DnfAdapter [''git'', ''nginx'', ''curl''] {''bash''})
      = {''bash''} \<union> {p \<in> set [''git'', ''nginx'', ''curl'']. demo_good p}
    \<and> fst (fst (installPackages dnf_ops DnfAdapter [''git'', ''nginx'', ''curl''] {''bash''})) = length (filter demo_good [''git'', ''nginx'', ''curl''])
    \<and> map pf_name (snd (fst (installPackages dnf_ops DnfAdapter [''git'', ''nginx'', ''curl''] {''bash''})))
      = filter (\<lambda>p. \<not> demo_good p) [''git'', ''nginx'', ''curl'']"
  by (rule broken_packages_cost_only_themselves [OF dnf_installs]) simp


subsection \<open>The rollback of services\<close>

lemma recorded_disable:
  "disable_services (recorded ops) svcs (cmds, h) = (cmds @ map disable_command svcs, disable_services ops svcs h)"
  by (induction svcs arbitrary: cmds h) simp_all

lemma services_rollback_commands:
  assumes "fair_range ops" and "tg_exec ops list_enabled h = ((out, errout, code, None), h1)"
    and "services_Rollback (recorded ops) (Some kept) ([], h) = (r, (cmds, h'))"
  shows "r = None \<and> (\<exists>svcs. cmds = list_enabled # map disable_command svcs
    \<and> set svcs = {s \<in> set (listed_units out). \<not> contains_fold kept s})"
  using assms unfolding services_Rollback_def
  by (auto simp: recorded_disable fair_range_def intro!: exI [of _ "filter _ _"])


text \<open>A target whose \<open>systemctl\<close> failed once and works later.\<close>

definition flaky_exec :: "nat ssh" where
  "flaky_exec cmd n = (if cmd = os_release then (''ID=debian'', '''', 0, None)
     else if n = 1 then ('''', ''Failed to connect to bus'', 1, None)
     else (''ssh.service enabled'' @ CHR 10 # ''nginx.service enabled'', '''', 0, None), Suc n)"

definition flaky_ops :: "nat target_ops" where
  "flaky_ops = \<lparr>tg_exec = flaky_exec, tg_long = None, tg_ctxErr = (\<lambda>_. None), tg_sanitize = id, tg_range = id\<rparr>"

lemma flaky_detect: "\<exists>info. DetectDistro flaky_ops 0 = (Inr info, 1) \<and> usesSystemd info"
  by (simp add: DetectDistro_def flaky_ops_def flaky_exec_def os_release_def Let_def out_lines_def os_release_line_def TrimSpace_def
      is_space_def HasPrefix_def Trim_char_def distroFamily_def usesSystemd_def)


end
