(* ===== verification/ItemProofs.thy ===== *)
theory ItemProofs
  imports Outcome PackageProofs
begin

section \<open>What the item stages keep\<close>

text \<open>
  The selection of items, the outcome that is derived from them, and an invariant of the item results under
  every stage and every failure.
\<close>

subsection \<open>The filter of an apply\<close>

lemmas payload_views = as_packages_def as_configs_def as_services_def as_users_def as_docker_def as_database_def

lemma keys_of_filtered:
  assumes "S \<noteq> []"
  shows "itemKeysFor category (filterCategoryToApplySet category p S) =
     filter (\<lambda>k. k \<in> set S) (itemKeysFor category \<lparr>cd_Type = t, cd_Data = p\<rparr>)"
proof -
  have own: "as_packages (PlPackages d1) = Some d1" "as_configs (PlConfigs d2) = Some d2" "as_services (PlServices d3) = Some d3"
      "as_users (PlUsers d4) = Some d4" "as_docker (PlDocker d5) = Some d5" "as_database (PlDatabase d6) = Some d6"
    for d1 d2 d3 d4 d5 d6 by (simp_all add: payload_views)
  consider "category = ''packages''" | "category = ''configs''" | "category = ''services''" | "category = ''users''"
    | "category = ''docker''" | "category = ''database''"
    | "category \<notin> {''packages'', ''configs'', ''services'', ''users'', ''docker'', ''database''}" by auto
  then show ?thesis using assms
    by cases (simp_all add: itemKeysFor_def filterCategoryToApplySet_def Let_def own filter_map o_def split: option.split)
qed

lemma keys_ignore_type: "itemKeysFor category \<lparr>cd_Type = t, cd_Data = cd_Data c\<rparr> = itemKeysFor category c"
  by (simp add: itemKeysFor_def)

text \<open>\<open>C36\<close>: the data handed to an applier has exactly the items of the collected data whose keys are in the apply set,
  in their order; but of users it filters only the accounts, so the groups, the crontabs and the firewall rules of
  the source are handed on whatever the operator decided about the accounts.\<close>

theorem filter_keeps_chosen_items:
  "(applySet \<noteq> [] \<longrightarrow> itemKeysFor category (filterCategoryToApplySet category (cd_Data c) applySet)
      = filter (\<lambda>k. k \<in> set applySet) (itemKeysFor category c))
   \<and> (case as_users (cd_Data (filterCategoryToApplySet ''users'' (PlUsers d) applySet)) of
        None \<Rightarrow> False
      | Some d' \<Rightarrow> us_Groups d' = us_Groups d \<and> us_CronJobs d' = us_CronJobs d \<and> us_Firewall d' = us_Firewall d
          \<and> (applySet \<noteq> [] \<longrightarrow> us_Users d' = filter (\<lambda>u. ''user:'' @ ud_Name u \<in> set applySet) (us_Users d)))"
  using keys_of_filtered [of applySet category "cd_Data c" "cd_Type c"] keys_ignore_type [of category "cd_Type c" c]
  by (auto simp: filterCategoryToApplySet_def as_users_def)

theorem filter_keeps_chosen_items_witness:
  "let d = \<lparr>us_Users = [], us_Groups = [], us_CronJobs = [(''mallory'', ''* * * * * run'')], us_Firewall = ''''\<rparr>;
       c = \<lparr>cd_Type = ''services'', cd_Data = PlServices \<lparr>sd_Services = [''a'', ''b''], sd_Count = 2\<rparr>\<rparr> in
   ([''service:b''] \<noteq> [] \<longrightarrow> itemKeysFor ''services'' (filterCategoryToApplySet ''services'' (cd_Data c) [''service:b''])
      = filter (\<lambda>k. k \<in> set [''service:b'']) (itemKeysFor ''services'' c))
   \<and> (case as_users (cd_Data (filterCategoryToApplySet ''users'' (PlUsers d) [''service:b''])) of
        None \<Rightarrow> False
      | Some d' \<Rightarrow> us_Groups d' = us_Groups d \<and> us_CronJobs d' = us_CronJobs d \<and> us_Firewall d' = us_Firewall d
          \<and> ([''service:b''] \<noteq> [] \<longrightarrow> us_Users d' = filter (\<lambda>u. ''user:'' @ ud_Name u \<in> set [''service:b'']) (us_Users d)))"
  unfolding Let_def by (rule filter_keeps_chosen_items)

subsection \<open>The outcome\<close>

definition is_verified :: "VerificationState \<Rightarrow> bool" where
  "is_verified v \<longleftrightarrow> v \<in> {VerifyInfra, VerifyRuntime, VerifyApp, VerifyPartial}"

definition count_items :: "(ItemResult \<Rightarrow> bool) \<Rightarrow> ItemResult list \<Rightarrow> nat" where
  "count_items P rs = length (filter P rs)"

lemma count_items_simps [simp]:
  "count_items P [] = 0" "count_items P (r # rs) = (if P r then 1 else 0) + count_items P rs"
  by (simp_all add: count_items_def)

lemma count_items_zero: "count_items P rs = 0 \<longleftrightarrow> (\<forall>r \<in> set rs. \<not> P r)"
  by (auto simp: count_items_def filter_empty_conv)

definition kept_target :: "decisions \<Rightarrow> ItemResult \<Rightarrow> bool" where
  "kept_target sel r \<longleftrightarrow> ir_ExecutionState r = ExecSkipped \<and> sel (ir_ItemKey r) = Some ActionKeepTarget"

definition state_is :: "ExecutionState \<Rightarrow> ItemResult \<Rightarrow> bool" where
  "state_is s r \<longleftrightarrow> ir_ExecutionState r = s"

text \<open>The tally counts what its fields are named after.\<close>

lemma count_item_adds:
  "count_item sel r t =
     \<lparr>tl_blocked = tl_blocked t + (if state_is ExecBlocked r then 1 else 0),
      tl_applied = tl_applied t + (if state_is ExecApplied r then 1 else 0),
      tl_failed = tl_failed t + (if state_is ExecFailed r then 1 else 0),
      tl_verifyFailed = tl_verifyFailed t + (if state_is ExecApplied r \<and> ir_VerificationState r = VerifyFailed then 1 else 0),
      tl_unresolved = tl_unresolved t + (if state_is ExecApplied r
         \<and> ir_VerificationState r \<noteq> VerifyFailed \<and> \<not> is_verified (ir_VerificationState r) then 1 else 0),
      tl_keepTarget = tl_keepTarget t + (if kept_target sel r then 1 else 0),
      tl_skipReview = tl_skipReview t + (if state_is ExecNotApplicable r
         \<or> state_is ExecSkipped r \<and> \<not> kept_target sel r then 1 else 0),
      tl_intended = tl_intended t + (if ir_ExecutionState r \<in> {ExecPending, ExecFailed, ExecApplied} then 1 else 0)\<rparr>"
  by (cases t; cases "ir_ExecutionState r")
    (simp_all add: count_item_def state_is_def kept_target_def is_verified_def Let_def)

lemma tally_from:
  "fold (count_item sel) rs t =
     \<lparr>tl_blocked = tl_blocked t + count_items (state_is ExecBlocked) rs,
      tl_applied = tl_applied t + count_items (state_is ExecApplied) rs,
      tl_failed = tl_failed t + count_items (state_is ExecFailed) rs,
      tl_verifyFailed = tl_verifyFailed t + count_items (\<lambda>r. state_is ExecApplied r \<and> ir_VerificationState r = VerifyFailed) rs,
      tl_unresolved = tl_unresolved t + count_items (\<lambda>r. state_is ExecApplied r
         \<and> ir_VerificationState r \<noteq> VerifyFailed \<and> \<not> is_verified (ir_VerificationState r)) rs,
      tl_keepTarget = tl_keepTarget t + count_items (kept_target sel) rs,
      tl_skipReview = tl_skipReview t + count_items (\<lambda>r. state_is ExecNotApplicable r
         \<or> state_is ExecSkipped r \<and> \<not> kept_target sel r) rs,
      tl_intended = tl_intended t + count_items (\<lambda>r. ir_ExecutionState r \<in> {ExecPending, ExecFailed, ExecApplied}) rs\<rparr>"
  by (induction rs arbitrary: t) (simp_all only: fold.simps o_apply id_apply count_item_adds tally.simps count_items_simps
      add.assoc add_0_right, simp)

lemmas tally_fields = tally_from [where t = no_items, folded tally_items_def]

definition settled :: "ItemResult \<Rightarrow> bool" where
  "settled r \<longleftrightarrow> (ir_ExecutionState r = ExecApplied \<and> is_verified (ir_VerificationState r))
     \<or> ir_ExecutionState r \<in> {ExecPending, ExecRolledBack, ExecPartiallyApplied}"

lemma outcome_completed:
  "fst (deriveStatusFromItems rs sels failedSteps) = StatusCompleted \<longleftrightarrow>
     failedSteps = 0 \<and> list_all settled rs \<and> (list_ex (state_is ExecPending) rs \<longrightarrow> list_ex (state_is ExecApplied) rs)"
proof -
  let ?t = "tally_items (decisions_of sels) rs"
  have "fst (deriveStatusFromItems rs sels failedSteps) = StatusCompleted \<longleftrightarrow>
      tl_verifyFailed ?t = 0 \<and> tl_unresolved ?t = 0 \<and> (tl_intended ?t = 0 \<or> tl_applied ?t \<noteq> 0) \<and> tl_failed ?t = 0
      \<and> failedSteps = 0 \<and> tl_skipReview ?t = 0 \<and> tl_blocked ?t = 0 \<and> tl_keepTarget ?t = 0"
    by (simp add: deriveStatusFromItems_def Let_def outcome_names)
  moreover have "\<dots> \<longleftrightarrow> failedSteps = 0 \<and> list_all settled rs \<and> (list_ex (state_is ExecPending) rs \<longrightarrow> list_ex (state_is ExecApplied) rs)"
  proof -
    have "(\<not> state_is ExecBlocked r \<and> \<not> state_is ExecFailed r \<and> \<not> (state_is ExecApplied r \<and> ir_VerificationState r = VerifyFailed)
        \<and> \<not> (state_is ExecApplied r \<and> ir_VerificationState r \<noteq> VerifyFailed \<and> \<not> is_verified (ir_VerificationState r))
        \<and> \<not> kept_target sel r \<and> \<not> (state_is ExecNotApplicable r \<or> state_is ExecSkipped r \<and> \<not> kept_target sel r)) = settled r" for sel r
      by (cases "ir_ExecutionState r") (auto simp: state_is_def settled_def kept_target_def is_verified_def)
    then have "(\<forall>r \<in> set rs. \<not> state_is ExecBlocked r \<and> \<not> state_is ExecFailed r \<and> \<not> (state_is ExecApplied r \<and> ir_VerificationState r = VerifyFailed)
        \<and> \<not> (state_is ExecApplied r \<and> ir_VerificationState r \<noteq> VerifyFailed \<and> \<not> is_verified (ir_VerificationState r))
        \<and> \<not> kept_target (decisions_of sels) r
        \<and> \<not> (state_is ExecNotApplicable r \<or> state_is ExecSkipped r \<and> \<not> kept_target (decisions_of sels) r)) = list_all settled rs"
      by (simp add: list_all_iff)
    moreover have "list_all settled rs \<Longrightarrow> ir_ExecutionState r = ExecFailed \<Longrightarrow> r \<notin> set rs" for r
      by (auto simp: list_all_iff settled_def)
    ultimately show ?thesis
      unfolding tally_fields no_items_def by (simp add: count_items_zero list_ex_iff state_is_def) (blast)
  qed
  ultimately show ?thesis by simp
qed

text \<open>\<open>C12\<close>: the outcome of a migration with item results is \<open>completed\<close> exactly when no step failed, every item is applied
  and verified, or rolled back, or applied in part, or still pending, and an item is applied if one is pending: an
  item that was taken back again, or never run, does not keep a migration from being reported as completed.\<close>

theorem completed_outcome_iff:
  "fst (deriveStatusFromItems rs sels failedSteps) = StatusCompleted \<longleftrightarrow>
     failedSteps = 0 \<and> list_all settled rs \<and> (list_ex (state_is ExecPending) rs \<longrightarrow> list_ex (state_is ExecApplied) rs)"
  by (rule outcome_completed)


subsection \<open>What statements leave alone\<close>

abbreviation result_table :: "'h item_world \<Rightarrow> ItemResult list" where
  "result_table w \<equiv> result_rows (w_db w)"

lemma db_read_snd [simp]: "w_db (snd (db_read f w)) = w_db w" "w_log (snd (db_read f w)) = w_log w"
  by (cases "db_read f w", auto dest: db_read_frames)+

lemma db_write_keeps:
  assumes "\<And>now d. fld (snd (f now d)) = fld d"
  shows "fld (w_db (snd (db_write f w))) = fld (w_db w)"
  using assms db_write_snd [of f w] by (metis prod.collapse)

lemma db_write_log [simp]: "w_log (snd (db_write f w)) = w_log w"
  by (cases "db_write f w") (auto dest: db_write_frames)

lemma item_statements_keep_results [simp]:
  "result_table (snd (UpdateStepStatus i status err w)) = result_table w"
  "result_table (snd (CreateVerificationResult v w)) = result_table w"
  "result_table (snd (UpdateMigrationStatus i status msg w)) = result_table w"
  "result_table (snd (CreateAuditEntry e w)) = result_table w"
  by (simp_all add: UpdateStepStatus_def CreateVerificationResult_def UpdateMigrationStatus_def CreateAuditEntry_def
      on_mig_def db_write_keeps [where fld = result_rows])

lemma item_reads [simp]:
  "w_db (snd (GetSteps mid w)) = w_db w" "w_db (snd (GetSelections mid w)) = w_db w" "w_db (snd (GetItemResults mid w)) = w_db w"
  "w_db (snd (GetBackups mid w)) = w_db w" "w_db (snd (GetAppliedCategories mid w)) = w_db w"
  by (simp_all add: GetSteps_def GetSelections_def GetItemResults_def GetBackups_def GetAppliedCategories_def)

lemma item_read_frames:
  "GetSteps mid w = (x1, w1) \<Longrightarrow> w_db w1 = w_db w" "GetSelections mid w = (x2, w1) \<Longrightarrow> w_db w1 = w_db w"
  "GetItemResults mid w = (x3, w1) \<Longrightarrow> w_db w1 = w_db w" "GetBackups mid w = (x4, w1) \<Longrightarrow> w_db w1 = w_db w"
  "GetAppliedCategories mid w = (x5, w1) \<Longrightarrow> w_db w1 = w_db w" "loadItemDecisions pc w = (x6, w1) \<Longrightarrow> w_db w1 = w_db w"
  by (auto simp: loadItemDecisions_def GetSteps_def GetSelections_def GetItemResults_def GetBackups_def GetAppliedCategories_def
      dest: db_read_frames split: prod.splits sum.splits)

lemma say_db [simp]: "w_db (say a b w) = w_db w" "w_db (log_event ev w) = w_db w"
  by (simp_all add: say_def log_event_def)

lemma on_target_results [simp]: "result_table (snd (on_target f w)) = result_table w"
  by (simp add: on_target_def split: prod.split)

lemma on_target_keeps: "on_target f w = (x, w1) \<Longrightarrow> result_table w1 = result_table w"
  using on_target_results [of f w] by simp

lemma upsert_row_all: "list_all P xs \<Longrightarrow> P r \<Longrightarrow> list_all P (upsert_row same r xs)"
  by (induction xs) auto

text \<open>A property of single rows that does not look at the migration is kept by writing rows that have it.\<close>

definition row_property :: "(ItemResult \<Rightarrow> bool) \<Rightarrow> bool" where
  "row_property P \<longleftrightarrow> (\<forall>r mid. P r \<longrightarrow> P (r\<lparr>ir_MigrationID := mid\<rparr>))"

lemma upsert_keeps_property:
  assumes "row_property P" "P r" "list_all P (result_table w)"
  shows "list_all P (result_table (snd (UpsertItemResult mid r w)))"
proof -
  have "P (r\<lparr>ir_MigrationID := mid\<rparr>)" using assms(1,2) by (simp add: row_property_def)
  then have "list_all P (upsert_row (same_item mid (ir_ItemKey r)) (r\<lparr>ir_MigrationID := mid\<rparr>) (result_table w))"
    using assms(3) by (simp add: upsert_row_all)
  then show ?thesis
    using assms(3) db_write_snd [of "\<lambda>now d. (Inr (), d\<lparr>result_rows := upsert_row (same_item mid (ir_ItemKey r))
        (r\<lparr>ir_MigrationID := mid\<rparr>) (result_rows d)\<rparr>)" w, OF prod.collapse [symmetric]]
    by (auto simp: UpsertItemResult_def)
qed

lemma upserts_keep_property:
  "row_property P \<Longrightarrow> list_all P rs \<Longrightarrow> list_all P (result_table w) \<Longrightarrow> list_all P (result_table (upsert_results mid rs w))"
  by (induction rs arbitrary: w) (simp_all add: upsert_keeps_property)

lemma results_of_property: "list_all P (result_rows d) \<Longrightarrow> list_all P (results_of mid d)"
  by (auto simp: list_all_iff results_of_def)

lemma read_results:
  assumes "GetItemResults mid w = (Inr rs, w')"
  shows "rs = results_of mid (w_db w)"
  using assms db_read_ok [of _ w rs w'] unfolding GetItemResults_def by fastforce

subsection \<open>Configurations are never verified\<close>

text \<open>No stage records the digest that the probe of a configuration compares with, so no row of a configuration
  ever reaches a verified state.\<close>

definition never_hashed :: "ItemResult \<Rightarrow> bool" where
  "never_hashed r \<longleftrightarrow> \<not> HasPrefix (ir_VerifyEvidence r) hash_prefix
     \<and> (ir_Category r = ''configs'' \<longrightarrow> \<not> is_verified (ir_VerificationState r))"

lemma never_hashed_property: "row_property never_hashed"
  by (simp add: row_property_def never_hashed_def)

lemma planned_rows: "list_all never_hashed (snd (applyItemPlan mid step now dec ti))"
  by (auto simp: applyItemPlan_def plan_item_def never_hashed_def Let_def list_all_iff hash_prefix_def HasPrefix_def is_verified_def)

lemma reconciled_rows:
  assumes "list_all never_hashed items" and "reconcileApplied ops cat items S sid err now h = (items', h')"
  shows "list_all never_hashed items'"
proof -
  have "never_hashed (reconcile_item v sid err now r) = never_hashed r" for v r
    by (auto simp: reconcile_item_def never_hashed_def split: option.split)
  then show ?thesis using assms by (auto simp: reconcileApplied_def Let_def list_all_iff split: if_splits prod.splits)
qed

lemma stamped_rows: "list_all never_hashed items \<Longrightarrow> list_all never_hashed (applyBackupRefsTo S refs items)"
  by (auto simp: applyBackupRefsTo_def applyBackupRef_def list_all_iff never_hashed_def split: option.splits if_splits)

lemma record_items_keep:
  assumes "list_all never_hashed (result_table w)" "list_all never_hashed items"
  shows "list_all never_hashed (result_table (record_items env pc step S items err w))"
proof -
  obtain items1 w1 where run: "on_target (reconcileApplied (ae_ops env) (sr_Category step) items S (sr_ID step) err (formatTime (w_now w))) w
      = (items1, w1)" by fastforce
  then have "list_all never_hashed items1"
    using reconciled_rows [OF assms(2)] by (auto simp: on_target_def split: prod.splits)
  moreover have "result_table w1 = result_table w" using run on_target_results by (metis snd_conv)
  ultimately show ?thesis using assms(1) run
    by (simp add: record_items_def upserts_keep_property [OF never_hashed_property] stamped_rows)
qed

lemma apply_step_keeps:
  assumes "list_all never_hashed (result_table w)"
  shows "list_all never_hashed (result_table (snd (apply_step env pc dec ti step w)))"
proof -
  obtain S items where plan: "applyItemPlan (pc_MigrationID pc) step (formatTime (w_now w)) dec ti = (S, items)" by fastforce
  then have i: "list_all never_hashed items" using planned_rows by (metis snd_conv)
  have t: "list_all never_hashed (result_table w1)" if "on_target f (log_event ev (say a b w)) = (x, w1)" for f ev a b x w1
    using that assms on_target_results [of f "log_event ev (say a b w)"] by simp
  have u: "list_all never_hashed (result_table w2)"
    if "UpdateStepStatus k st e (record_items env pc step S items err w1) = (x, w2)" "list_all never_hashed (result_table w1)" for k st e x err w1 w2
    using record_items_keep [OF that(2) i, of env pc step S err] item_statements_keep_results(1) [of k st e "record_items env pc step S items err w1"] that(1)
    by simp
  show ?thesis
    by (auto simp: apply_step_def plan Let_def assms i upserts_keep_property [OF never_hashed_property]
        intro: t u record_items_keep [OF _ i] split: prod.split option.split sum.split step_blob.split)
qed


lemma mark_rolled_back_keeps:
  assumes "list_all never_hashed (result_table w)"
  shows "list_all never_hashed (result_table (mark_rolled_back mid cat w))"
proof -
  have "list_all never_hashed (map (ir_ExecutionState_update (\<lambda>_. ExecRolledBack)) (filter P rs))"
    if "GetItemResults mid w = (Inr rs, w1)" for rs w1 P
    using results_of_property [OF assms, of mid] read_results [OF that] by (auto simp: list_all_iff never_hashed_def)
  moreover have "result_table w1 = result_table w" if "GetItemResults mid w = (x, w1)" for x w1
    using that item_reads(3) [of mid w] by simp
  ultimately show ?thesis using assms
    by (auto simp: mark_rolled_back_def upserts_keep_property [OF never_hashed_property] split: prod.split sum.split)
qed

lemma restore_results: "restore env m cat backup w = (x, w1) \<Longrightarrow> result_table w1 = result_table w"
  using on_target_results [of "cm_Rollback m backup" "log_event (EvRestore cat backup) (say ''rollback'' ''progress'' w)"]
  by (simp add: restore_def)

lemma rollback_categories_keep:
  "list_all never_hashed (result_table w) \<Longrightarrow>
     list_all never_hashed (result_table (rollback_categories env mid cats backups order w))"
proof (induction order arbitrary: w)
  case (Cons c cs)
  show ?case using Cons.prems
    by (auto simp: restore_results intro!: Cons.IH mark_rolled_back_keeps split: option.split prod.split)
qed simp

lemma rollbackApplied_keeps:
  "list_all never_hashed (result_table w) \<Longrightarrow> list_all never_hashed (result_table (rollbackApplied env pc order w))"
proof -
  assume P: "list_all never_hashed (result_table w)"
  have "result_table w2 = result_table w1" if "GetBackups mid w1 = (x, w2)" for mid x w1 and w2 :: "'a item_world"
    using that item_reads(4) [of mid w1] by simp
  moreover have "result_table w2 = result_table w1" if "GetItemResults mid w1 = (x, w2)" for mid x w1 and w2 :: "'a item_world"
    using that item_reads(3) [of mid w1] by simp
  ultimately show ?thesis using P
    by (auto simp: rollbackApplied_def Let_def intro!: rollback_categories_keep split: prod.split sum.split)
qed

lemma apply_steps_keep:
  "list_all never_hashed (result_table w) \<Longrightarrow>
     list_all never_hashed (result_table (snd (apply_steps env pc dec ti steps applied skipped w)))"
proof (induction steps arbitrary: applied skipped w)
  case (Cons s ss)
  have "list_all never_hashed (result_table w1)" if "apply_step env pc dec ti s w = (x, w1)" for x w1
    using apply_step_keeps [OF Cons.prems, of env pc dec ti s] that by simp
  then show ?case using Cons.prems
    by (auto intro!: Cons.IH rollbackApplied_keeps split: option.split prod.split step_result.split)
qed simp

lemma initialSync_keeps:
  assumes "list_all never_hashed (result_table w)"
  shows "list_all never_hashed (result_table (snd (initialSync_Execute env pc w)))"
proof -
  obtain x w1 where w1: "GetSteps (pc_MigrationID pc) (say ''initial_sync'' ''progress'' w) = (x, w1)" by fastforce
  obtain dec w2 where w2: "loadItemDecisions pc w1 = (dec, w2)" by fastforce
  obtain ti w3 where w3: "on_target (buildTargetInventory env pc) w2 = (ti, w3)" by fastforce
  have k: "list_all never_hashed (result_table w3)" "list_all never_hashed (result_table w1)"
    using assms item_read_frames(1) [OF w1] item_read_frames(6) [OF w2] on_target_keeps [OF w3] by simp_all
  show ?thesis
  proof (cases x)
    case (Inr steps)
    obtain err applied skipped w4 where w4: "apply_steps env pc dec ti steps [] [] w3 = ((err, applied, skipped), w4)"
      by (metis prod.exhaust)
    with apply_steps_keep [OF k(1), of env pc dec ti steps "[]" "[]"] have "list_all never_hashed (result_table w4)" by simp
    then show ?thesis by (simp add: initialSync_Execute_def w1 w2 w3 w4 Inr rollbackApplied_keeps split: option.split)
  qed (simp add: initialSync_Execute_def w1 k)
qed

lemma initialSync_Rollback_keeps:
  "result_table (snd (initialSync_Rollback env pc w)) = result_table w"
proof -
  have "result_table (restore_backups env cats bs w) = result_table w" for cats bs w
    by (induction bs arbitrary: w) (auto simp: restore_results split: option.split prod.split)
  then show ?thesis
    by (auto simp: initialSync_Rollback_def split: prod.split sum.split dest!: item_read_frames)
qed


text \<open>What probes attest never looks like a digest, and the probe of configurations attests nothing about rows without one.\<close>

definition attests :: "verdicts \<Rightarrow> (ItemVerdict \<Rightarrow> bool) \<Rightarrow> bool" where
  "attests v P \<longleftrightarrow> (\<forall>k x. v k = Some x \<longrightarrow> iv_OK x \<longrightarrow> P x)"

lemma attests_empty [simp]: "attests Map.empty P"
  by (simp add: attests_def)

lemma attests_judge: "(\<And>r. r \<in> set items \<Longrightarrow> iv_OK (j r) \<Longrightarrow> P (j r)) \<Longrightarrow> attests (judge_all j items) P"
  by (auto simp: attests_def dest!: judge_all_range)

lemma attests_fail [simp]: "attests (failAll items reason) P"
  by (auto simp: failAll_def refuted_def intro: attests_judge)

lemma attests_upd: "attests m P \<Longrightarrow> (iv_OK x \<Longrightarrow> P x) \<Longrightarrow> attests (m(k \<mapsto> x)) P"
  by (simp add: attests_def)

lemma unit_verdict_OK: "iv_OK (unit_verdict s) \<Longrightarrow> unit_verdict s = confirmed VerifyRuntime ''unit is active''"
  by (auto simp: unit_verdict_def refuted_def split: option.splits if_splits)

lemma attests_units:
  assumes "P (confirmed VerifyRuntime ''unit is active'')"
  shows "attests m P \<Longrightarrow> attests (judge_units items states m) P"
proof (induction items states m rule: judge_units.induct)
  case (2 r rs m)
  then show ?case using assms unit_verdict_OK [of None] by (simp only: judge_units.simps) (metis attests_upd)
next
  case (3 r rs s ss m)
  then show ?case using assms unit_verdict_OK [of "Some s"] by (simp only: judge_units.simps) (metis attests_upd)
qed simp

definition no_digest :: "ItemVerdict \<Rightarrow> bool" where
  "no_digest x \<longleftrightarrow> \<not> HasPrefix (iv_Detail x) hash_prefix"

lemma no_digest_texts [simp]:
  "no_digest (confirmed l ''package installed on target'')" "no_digest (confirmed l ''sha256 matches source'')"
  "no_digest (confirmed l ''unit is active'')" "no_digest (confirmed l ''account exists on target'')"
  "no_digest (confirmed l ''container reported Up'')"
  by (simp_all add: no_digest_def confirmed_def HasPrefix_def hash_prefix_def)

lemma refuted_not_OK [simp]: "\<not> iv_OK (refuted reason)"
  by (simp add: refuted_def)

lemma probes_attest:
  assumes "list_all never_hashed items" and "probeItems ops cat items h = (v, h')"
  shows "attests v (\<lambda>x. no_digest x \<and> cat \<noteq> ''configs'')"
proof -
  have p: "attests (fst (probePackages ops items h)) no_digest" "attests (fst (probeServices ops items h)) no_digest"
    "attests (fst (probeUsers ops items h)) no_digest"
    by (auto simp: probePackages_def probeServices_def probeUsers_def Let_def intro!: attests_judge attests_units
        split: prod.split sum.split option.split if_splits)
  have "\<not> iv_OK (config_verdict m r)" if "r \<in> set items" for m r
    using assms(1) that by (auto simp: config_verdict_def never_hashed_def list_all_iff Let_def split: option.split)
  then have c: "attests (fst (probeConfigs ops items h)) (\<lambda>_. False)"
    by (auto simp: probeConfigs_def intro!: attests_judge split: prod.split)
  have "v = fst (probeItems ops cat items h)" using assms(2) by simp
  then show ?thesis using p c by (auto simp: probeItems_def probeItemsMode_def attests_def)
qed

lemma recordVerdict_keeps:
  assumes "never_hashed r" "list_all never_hashed (result_table w)" "\<not> HasPrefix evidence hash_prefix"
    and "ir_Category r = ''configs'' \<Longrightarrow> \<not> is_verified state"
  shows "list_all never_hashed (result_table (recordVerdict mid r state level evidence notes w))"
  unfolding recordVerdict_def
  by (rule upsert_keeps_property [OF never_hashed_property]) (use assms in \<open>auto simp: never_hashed_def\<close>)

lemma failed_verdict_keeps:
  "never_hashed r \<Longrightarrow> list_all never_hashed (result_table w) \<Longrightarrow>
     list_all never_hashed (result_table (recordVerdict mid r VerifyFailed level '''' notes w))"
  by (rule recordVerdict_keeps) (auto simp: HasPrefix_def hash_prefix_def is_verified_def)

lemma fail_items_keep:
  "list_all never_hashed rs \<Longrightarrow> list_all never_hashed (result_table w) \<Longrightarrow>
     list_all never_hashed (result_table (fail_items mid reason rs w))"
  by (induction rs arbitrary: w) (simp_all add: failed_verdict_keeps)

lemma failVerification_keeps:
  "list_all never_hashed applied \<Longrightarrow> list_all never_hashed (result_table w) \<Longrightarrow>
     list_all never_hashed (result_table (failVerification ops mid applied reason w))"
  unfolding failVerification_def by (rule fail_items_keep) (auto simp: list_all_iff items_in_def)

lemma judge_items_keep:
  assumes "list_all never_hashed items" and "list_all (\<lambda>r. ir_Category r = cat) items"
    and "attests v (\<lambda>x. no_digest x \<and> cat \<noteq> ''configs'')" and "list_all never_hashed (result_table (snd cw))"
  shows "list_all never_hashed (result_table (snd (fold (judge_item mid v) items cw)))"
  using assms(1,2,4)
proof (induction items arbitrary: cw)
  case (Cons r rs)
  have "list_all never_hashed (result_table (snd (judge_item mid v r cw)))"
    using Cons.prems assms(3)
    by (auto simp: judge_item_def attests_def no_digest_def intro!: recordVerdict_keeps failed_verdict_keeps
        split: prod.split option.split)
  then show ?case using Cons by simp
qed simp

lemma verify_categories_keep:
  assumes "list_all never_hashed applied" and "list_all never_hashed (result_table (snd cw))"
  shows "list_all never_hashed (result_table (snd (verify_categories ops mid applied cats cw)))"
  using assms(2)
proof (induction cats arbitrary: cw)
  case (Cons cat cats)
  obtain v w1 where run: "on_target (probeItems ops cat (items_in cat applied)) (snd cw) = (v, w1)" by fastforce
  have i: "list_all never_hashed (items_in cat applied)" "list_all (\<lambda>r. ir_Category r = cat) (items_in cat applied)"
    using assms(1) by (auto simp: items_in_def list_all_iff)
  have "attests v (\<lambda>x. no_digest x \<and> cat \<noteq> ''configs'')"
    using probes_attest [OF i(1)] run by (auto simp: on_target_def split: prod.splits)
  moreover have "list_all never_hashed (result_table w1)" using on_target_keeps [OF run] Cons.prems by simp
  ultimately have "list_all never_hashed (result_table (snd (fold (judge_item mid v) (items_in cat applied) (fst cw, w1))))"
    using judge_items_keep [OF i, of v "(fst cw, w1)"] by simp
  with \<open>list_all never_hashed (result_table w1)\<close> Cons show ?case by (simp add: run)
qed simp

lemma verify_docker_keeps:
  assumes "list_all never_hashed items" "list_all (\<lambda>r. ir_Category r = ''docker'') items"
    and "list_all never_hashed (result_table (snd cw))"
  shows "list_all never_hashed (result_table (snd (verify_docker ops mid items cw)))"
proof -
  have f: "list_all never_hashed (result_table (snd (fold (verify_docker_item mid up) items cw)))"
    if "list_all never_hashed (result_table (snd cw))" for up cw
    using assms(1,2) that
  proof (induction items arbitrary: cw)
    case (Cons r rs)
    have "list_all never_hashed (result_table (snd (verify_docker_item mid up r cw)))"
      using Cons.prems
      by (auto simp: verify_docker_item_def Let_def docker_verdict_def confirmed_def HasPrefix_def hash_prefix_def
          intro!: recordVerdict_keeps failed_verdict_keeps split: prod.split option.split)
    then show ?case using Cons by simp
  qed simp
  show ?thesis using assms(3)
    by (auto simp: verify_docker_def Let_def intro!: f dest!: on_target_keeps split: prod.split)
qed

lemma healthVerification_keeps:
  assumes "list_all never_hashed (result_table w)"
  shows "list_all never_hashed (result_table (snd (healthVerification_Execute ops pc w)))"
proof -
  obtain rs w1 where w1: "GetItemResults (pc_MigrationID pc) (say ''health_verification'' ''progress'' w) = (rs, w1)" by fastforce
  let ?applied = "case rs of Inl _ \<Rightarrow> [] | Inr rows \<Rightarrow> applied_items rows"
  have a: "list_all never_hashed ?applied"
    using results_of_property [OF assms, of "pc_MigrationID pc"] w1
    by (auto simp: list_all_iff applied_items_def dest!: read_results split: sum.split)
  then have d: "list_all never_hashed (items_in ''docker'' ?applied)"
      "list_all (\<lambda>r. ir_Category r = ''docker'') (items_in ''docker'' ?applied)"
    by (auto simp: list_all_iff items_in_def)
  obtain out w2 where w2: "on_target (tg_exec ops ''echo ok'') w1 = (out, w2)" by fastforce
  have k: "list_all never_hashed (result_table w2)"
    using assms item_read_frames(3) [OF w1] on_target_keeps [OF w2] by simp
  obtain c w3 where w3: "verify_docker ops (pc_MigrationID pc) (items_in ''docker'' ?applied)
     (verify_categories ops (pc_MigrationID pc) ?applied (applied_categories ops ?applied)
        (\<lparr>ct_verified = 0, ct_failed = 0, ct_unprobed = 0\<rparr>, w2)) = (c, w3)" by fastforce
  have "list_all never_hashed (result_table w3)"
    using verify_docker_keeps [OF d verify_categories_keep [OF a]] w3 k by (metis snd_conv)
  then show ?thesis
    using k a by (simp add: healthVerification_Execute_def Let_def w1 w2 w3 failVerification_keeps split: prod.split option.split)
qed

lemma finalization_keeps: "result_table (snd (finalization_Execute pc w)) = result_table w"
proof -
  have f: "result_table (finish_steps ss w) = result_table w" for ss w
  proof (induction ss arbitrary: w)
    case (Cons s ss)
    have "result_table w1 = result_table w" if "UpdateStepStatus i st e w = (x, w1)" for i st e x w1
      using that item_statements_keep_results(1) [of i st e w] by simp
    then show ?case by (auto simp: Cons.IH split: prod.split sum.split)
  qed simp
  have d: "result_table w2 = result_table w1" if "deriveMigrationStatus mid w1 = (x, w2)" for mid x w1 and w2 :: "'a item_world"
    using that by (auto simp: deriveMigrationStatus_def Let_def dest!: item_read_frames split: prod.splits sum.splits)
  have u: "result_table w2 = result_table w1" if "UpdateMigrationStatus i st e w1 = (x, w2)" for i st e x w1 and w2 :: "'a item_world"
    using that item_statements_keep_results(3) [of i st e w1] by simp
  show ?thesis
    by (auto simp: finalization_Execute_def Let_def f dest!: item_read_frames d u split: prod.split sum.split option.split)
qed

lemma archive_keeps: "result_table (snd (archive_Execute pc w)) = result_table w"
  by (simp add: archive_Execute_def)



subsection \<open>A migration to evaluate\<close>

definition item_migration :: Migration where
  "item_migration = \<lparr>mg_ID = 7, mg_SourceID = 3, mg_TargetID = 4, mg_Status = ''running'', mg_State = ''running'', mg_Error = '''',
     mg_CompletedAt = None, mg_Config = CfgEmpty\<rparr>"

definition item_context :: PipelineContext where
  "item_context = \<lparr>pc_MigrationID = 7, pc_Migration = item_migration, pc_Config = DefaultMigrationConfig, pc_SourceSSH = Some 1,
     pc_TargetSSH = Some 2, pc_CheckpointData = Map.empty, pc_BackupRefs = Map.empty\<rparr>"

definition item_database ::
  "MigrationStepRecord list \<Rightarrow> SelectionDecision list \<Rightarrow> ItemResult list \<Rightarrow> MigrationBackup list \<Rightarrow> 'h \<Rightarrow> 'h item_db" where
  "item_database steps sels rs backups h =
     \<lparr>fence_rows = [], fence_seq = 0, stage_rows = [], stage_seq = 0, switch_rows = [], switch_seq = 0,
      mig_rows = [item_migration], audit_rows = [], cutover_rows = [], cutover_seq = 0,
      step_rows = steps, step_seq = int (length steps), selection_rows = sels, decision_rows = [], result_rows = rs,
      backup_rows = backups, backup_seq = int (length backups), verification_rows = [], target_host = h\<rparr>"

definition applied_config :: ItemResult where
  "applied_config = \<lparr>ir_MigrationID = 7, ir_ItemKey = ''config:/etc/app.conf'', ir_Category = ''configs'',
     ir_ExecutionState = ExecApplied, ir_LastExecutionAt = None, ir_StepRefs = [1], ir_ExecutionNotes = '''',
     ir_VerificationState = VerifyUnset, ir_VerificationLevel = '''', ir_VerifyEvidence = '''', ir_VerifyNotes = '''', ir_BackupRef = ''''\<rparr>"



text \<open>One item that was taken back again is no obstacle to \<open>completed\<close>; one that failed is.\<close>

theorem completed_outcome_iff_witness:
  "fst (deriveStatusFromItems [applied_config\<lparr>ir_ExecutionState := ExecRolledBack\<rparr>] [] 0) = StatusCompleted
    \<and> fst (deriveStatusFromItems [applied_config\<lparr>ir_ExecutionState := ExecFailed\<rparr>] [] 0) \<noteq> StatusCompleted"
  by (simp add: completed_outcome_iff settled_def state_is_def applied_config_def)

end
