(* ===== verification/SyncProofs.thy ===== *)
theory SyncProofs
  imports ItemProofs Execute
begin

section \<open>What the apply stage hands to appliers, and what happens after it\<close>

text \<open>
  Only chosen items reach an applier; an attempt that skips a category fails, and the retry after it succeeds
  without applying anything; the rollback of a finalized migration restores nothing; the commit overwrites the
  outcome that was derived from the evidence.
\<close>

subsection \<open>Calls of appliers\<close>

definition calls :: "'h item_world \<Rightarrow> (string \<times> CategoryData) list" where
  "calls w = concat (map (\<lambda>ev. case ev of EvApply cat data \<Rightarrow> [(cat, data)] | _ \<Rightarrow> []) (w_log w))"

definition restores :: "'h item_world \<Rightarrow> string list" where
  "restores w = concat (map (\<lambda>ev. case ev of EvRestore cat _ \<Rightarrow> [cat] | _ \<Rightarrow> []) (w_log w))"

text \<open>A world later than another: the same environment, and time has not run back.\<close>

definition later :: "'h item_world \<Rightarrow> 'h item_world \<Rightarrow> bool" where
  "later w w' \<longleftrightarrow> w_env w' = w_env w \<and> w_tick w \<le> w_tick w'"

lemma later_refl [simp]: "later w w"
  by (simp add: later_def)

lemma later_trans: "later w w1 \<Longrightarrow> later w1 w2 \<Longrightarrow> later w w2"
  by (auto simp: later_def)

lemma later_fault_free: "later w w' \<Longrightarrow> fault_free w \<Longrightarrow> fault_free w'"
  by (auto simp: later_def fault_free_def)

lemma log_cong: "w_log w' = w_log w \<Longrightarrow> calls w' = calls w \<and> restores w' = restores w"
  by (simp add: calls_def restores_def)

lemma db_write_later [simp]: "later w (snd (db_write f w))"
  using db_write_frames [of f w "fst (db_write f w)" "snd (db_write f w)"] by (simp add: later_def)

lemma db_read_later [simp]: "later w (snd (db_read g w))"
  using db_read_frames [of g w "fst (db_read g w)" "snd (db_read g w)"] by (simp add: later_def)

text \<open>Statements, messages and calls: what each does to the log and to time.\<close>

lemma say_frames [simp]:
  "calls (say a b w) = calls w" "restores (say a b w) = restores w" "later w (say a b w)" "w_db (say a b w) = w_db w"
  by (simp_all add: calls_def restores_def say_def log_event_def later_def)

lemma apply_event_frames [simp]:
  "calls (log_event (EvApply cat data) w) = calls w @ [(cat, data)]" "restores (log_event (EvApply cat data) w) = restores w"
  "calls (log_event (EvRestore cat b) w) = calls w" "restores (log_event (EvRestore cat b) w) = restores w @ [cat]"
  "later w (log_event ev w)"
  by (simp_all add: calls_def restores_def log_event_def later_def)

lemma on_target_frames [simp]:
  "calls (snd (on_target f w)) = calls w" "restores (snd (on_target f w)) = restores w" "later w (snd (on_target f w))"
  "step_rows (w_db (snd (on_target f w))) = step_rows (w_db w)"
  by (auto simp: on_target_def calls_def restores_def later_def split: prod.split)

lemma statement_frames [simp]:
  "calls (snd (db_write f w)) = calls w" "restores (snd (db_write f w)) = restores w"
  "calls (snd (db_read g w)) = calls w" "restores (snd (db_read g w)) = restores w"
  by (simp_all add: calls_def restores_def)

lemmas item_statements = UpdateStepStatus_def UpsertItemResult_def GetSteps_def GetSelections_def GetItemResults_def
  GetBackups_def GetAppliedCategories_def

lemma item_statement_frames [simp]:
  "calls (snd (UpdateStepStatus i st e w)) = calls w" "restores (snd (UpdateStepStatus i st e w)) = restores w"
  "later w (snd (UpdateStepStatus i st e w))"
  "calls (snd (UpsertItemResult mid r w)) = calls w" "restores (snd (UpsertItemResult mid r w)) = restores w"
  "later w (snd (UpsertItemResult mid r w))"
  "step_rows (w_db (snd (UpsertItemResult mid r w))) = step_rows (w_db w)"
  by (simp_all add: item_statements db_write_keeps [where fld = step_rows])

lemma upsert_results_frames [simp]:
  "calls (upsert_results mid rs w) = calls w" "restores (upsert_results mid rs w) = restores w"
  "step_rows (w_db (upsert_results mid rs w)) = step_rows (w_db w)"
  by (induction rs arbitrary: w) simp_all

lemma upsert_results_later [simp]: "later w (upsert_results mid rs w)"
proof (induction rs arbitrary: w)
  case (Cons r rs)
  show ?case using Cons [of "snd (UpsertItemResult mid r w)"] by (auto intro: later_trans item_statement_frames(6))
qed simp

lemma record_items_frames [simp]:
  "calls (record_items env pc step S items err w) = calls w" "restores (record_items env pc step S items err w) = restores w"
  "later w (record_items env pc step S items err w)"
  "step_rows (w_db (record_items env pc step S items err w)) = step_rows (w_db w)"
proof -
  obtain x w1 where run: "on_target (reconcileApplied (ae_ops env) (sr_Category step) items S (sr_ID step) err (formatTime (w_now w))) w
      = (x, w1)" by fastforce
  note fr = on_target_frames [where w = w and f = "reconcileApplied (ae_ops env) (sr_Category step) items S (sr_ID step) err (formatTime (w_now w))",
      unfolded run snd_conv]
  show "calls (record_items env pc step S items err w) = calls w" "restores (record_items env pc step S items err w) = restores w"
    "step_rows (w_db (record_items env pc step S items err w)) = step_rows (w_db w)"
    using fr by (simp_all add: record_items_def run)
  show "later w (record_items env pc step S items err w)"
    using fr(3) by (auto simp: record_items_def run intro: later_trans upsert_results_later)
qed

lemma mark_rolled_back_frames [simp]:
  "calls (mark_rolled_back mid cat w) = calls w" "restores (mark_rolled_back mid cat w) = restores w"
  "step_rows (w_db (mark_rolled_back mid cat w)) = step_rows (w_db w)" "later w (mark_rolled_back mid cat w)"
proof -
  obtain x w1 where run: "GetItemResults mid w = (x, w1)" by fastforce
  then have w1: "w1 = snd (db_read (\<lambda>d. Inr (results_of mid d) :: ItemResult list res) w)" by (simp add: GetItemResults_def)
  have fr: "calls w1 = calls w" "restores w1 = restores w" "later w w1" "w_db w1 = w_db w"
    by (simp_all add: w1)
  then show "calls (mark_rolled_back mid cat w) = calls w" "restores (mark_rolled_back mid cat w) = restores w"
    "step_rows (w_db (mark_rolled_back mid cat w)) = step_rows (w_db w)"
    by (simp_all add: mark_rolled_back_def run split: sum.split)
  show "later w (mark_rolled_back mid cat w)"
    using fr(3) by (auto simp: mark_rolled_back_def run intro: later_trans upsert_results_later split: sum.split)
qed

lemma restore_frames:
  assumes "restore env m cat b w = (x, w1)"
  shows "calls w1 = calls w \<and> restores w1 = restores w @ [cat] \<and> step_rows (w_db w1) = step_rows (w_db w) \<and> later w w1"
proof -
  let ?w = "log_event (EvRestore cat b) (say ''rollback'' ''progress'' w)"
  have "w1 = snd (on_target (cm_Rollback m b) ?w)" using assms by (simp add: restore_def)
  moreover have "later w ?w" using later_trans [OF say_frames(3) apply_event_frames(5)] .
  moreover have "later ?w (snd (on_target (cm_Rollback m b) ?w))" by (rule on_target_frames(3))
  ultimately show ?thesis by (auto intro: later_trans)
qed

lemma rollback_categories_frames:
  "calls (rollback_categories env mid cats backups order w) = calls w
   \<and> step_rows (w_db (rollback_categories env mid cats backups order w)) = step_rows (w_db w)
   \<and> restores (rollback_categories env mid cats backups order w) = restores w @
       filter (\<lambda>c. c \<in> cats \<and> backups c \<noteq> None \<and> ae_Registry env c \<noteq> None) order"
proof (induction order arbitrary: w)
  case (Cons c cs)
  then show ?case by (auto split: option.split prod.split dest!: restore_frames simp: Cons.IH)
qed simp

lemma rollback_categories_later: "later w (rollback_categories env mid cats backups order w)"
proof (induction order arbitrary: w)
  case (Cons c cs)
  have "later w (rollback_categories env mid cats backups cs (say a b w1))"
      "later w (rollback_categories env mid cats backups cs (mark_rolled_back mid c w1))" if "later w w1" for w1 a b
    using Cons.IH that by (meson later_trans mark_rolled_back_frames(4) say_frames(3))+
  then show ?case using Cons.IH by (auto split: option.split prod.split dest!: restore_frames)
qed simp

lemma rollbackApplied_frames:
  "calls (rollbackApplied env pc order w) = calls w
   \<and> step_rows (w_db (rollbackApplied env pc order w)) = step_rows (w_db w) \<and> later w (rollbackApplied env pc order w)"
proof -
  let ?mid = "pc_MigrationID pc"
  obtain rs w1 where w1: "GetItemResults ?mid w = (rs, w1)" by fastforce
  let ?w2 = "case rs of Inl _ \<Rightarrow> w1 | Inr rows \<Rightarrow> say ''rollback''
     (if rs_FullyCovered (DescribeRollbackScope rows) then ''progress'' else ''warning'') w1"
  obtain bs w3 where w3: "GetBackups ?mid ?w2 = (bs, w3)" by fastforce
  have "w1 = snd (db_read (\<lambda>d. Inr (results_of ?mid d) :: ItemResult list res) w)" using w1 by (simp add: GetItemResults_def)
  then have 1: "calls w1 = calls w \<and> step_rows (w_db w1) = step_rows (w_db w) \<and> later w w1" by simp
  have 2: "calls ?w2 = calls w1 \<and> step_rows (w_db ?w2) = step_rows (w_db w1) \<and> later w1 ?w2" by (simp split: sum.split)
  have "w3 = snd (db_read (\<lambda>d. Inr (filter (\<lambda>b. mb_MigrationID b = ?mid) (backup_rows d)) :: MigrationBackup list res) ?w2)"
    using w3 by (simp add: GetBackups_def)
  then have "calls w3 = calls ?w2 \<and> step_rows (w_db w3) = step_rows (w_db ?w2) \<and> later ?w2 w3" by simp
  moreover have "later w w3" if "later ?w2 w3" using 1 2 that by (blast intro: later_trans)
  ultimately have "calls w3 = calls w \<and> step_rows (w_db w3) = step_rows (w_db w) \<and> later w w3" using 1 2 by simp
  then show ?thesis
    by (auto simp: rollbackApplied_def Let_def w1 w3 rollback_categories_frames
        intro: later_trans [OF _ rollback_categories_later] split: sum.split)
qed

subsection \<open>Only chosen items reach an applier\<close>

definition chosen :: "decisions \<Rightarrow> targetInventory \<Rightarrow> string \<Rightarrow> string \<Rightarrow> bool" where
  "chosen dec ti cat k \<longleftrightarrow> \<not> itemHardBlocked cat k ti
     \<and> dec k \<notin> {Some ActionKeepTarget, Some ActionSkip, Some ActionReviewManual}"

lemma plan_item_chosen: "fst (plan_item mid cat now dec ti k) = chosen dec ti cat k" "ir_ItemKey (snd (plan_item mid cat now dec ti k)) = k"
  by (auto simp: plan_item_def chosen_def Let_def action_names split: option.split)

lemma apply_set:
  "fst (applyItemPlan mid step now dec ti) = filter (chosen dec ti (sr_Category step)) (itemKeysForStep (sr_Category step) (sr_Data step))"
  by (simp add: applyItemPlan_def Let_def filter_map o_def plan_item_chosen)

definition open_step :: "MigrationStepRecord \<Rightarrow> bool" where
  "open_step s \<longleftrightarrow> sr_Action s = ''collect'' \<and> sr_Status s = StepStatusCompleted"

text \<open>A call of an applier that a step accounts for.\<close>

definition call_from :: "decisions \<Rightarrow> targetInventory \<Rightarrow> MigrationStepRecord \<Rightarrow> string \<times> CategoryData \<Rightarrow> bool" where
  "call_from dec ti step x \<longleftrightarrow> open_step step \<and> fst x = sr_Category step
     \<and> itemKeysFor (fst x) (snd x) = filter (chosen dec ti (fst x)) (itemKeysForStep (fst x) (sr_Data step))
     \<and> itemKeysFor (fst x) (snd x) \<noteq> []"

lemma call_from_filtered:
  assumes "open_step step" and "sr_Data step = SbEnvelope c" and "fst (applyItemPlan mid step now dec ti) \<noteq> []"
  shows "call_from dec ti step (sr_Category step,
     filterCategoryToApplySet (sr_Category step) (cd_Data c) (fst (applyItemPlan mid step now dec ti)))"
proof -
  let ?S = "fst (applyItemPlan mid step now dec ti)" and ?ks = "itemKeysFor (sr_Category step) c"
  have S: "?S = filter (chosen dec ti (sr_Category step)) ?ks" using assms(2) by (simp add: apply_set itemKeysForStep_def)
  have "itemKeysFor (sr_Category step) (filterCategoryToApplySet (sr_Category step) (cd_Data c) ?S) = filter (\<lambda>k. k \<in> set ?S) ?ks"
    using keys_of_filtered [OF assms(3), of "sr_Category step" "cd_Data c" "cd_Type c"] by (simp add: keys_ignore_type)
  also have "\<dots> = ?S" unfolding S by (rule filter_cong) auto
  finally show ?thesis using assms S by (simp add: call_from_def itemKeysForStep_def)
qed

lemma apply_step_calls:
  assumes "apply_step env pc dec ti step w = (x, w1)"
  shows "\<exists>new. calls w1 = calls w @ new \<and> list_all (call_from dec ti step) new \<and> (x = StepSkipped \<or> x = StepIgnored \<longrightarrow> new = [])"
proof -
  obtain S items where plan: "applyItemPlan (pc_MigrationID pc) step (formatTime (w_now w)) dec ti = (S, items)" by fastforce
  then have S: "S = fst (applyItemPlan (pc_MigrationID pc) step (formatTime (w_now w)) dec ti)" by simp
  show ?thesis
  proof (cases "open_step step \<and> S \<noteq> []")
    case False
    then show ?thesis using assms plan by (auto simp: apply_step_def open_step_def split: if_splits)
  next
    case True
    have u: "calls w2 = calls w1" if "UpdateStepStatus i st e w1 = (y, w2)" for i st e y w1 and w2 :: "'a item_world"
      using that item_statement_frames(1) [of i st e w1] by simp
    have t: "calls w2 = calls w1" if "on_target f w1 = (y, w2)" for f :: "'a \<Rightarrow> goerr option \<times> 'a" and y w1 w2
      using that on_target_frames(1) [of f w1] by simp
    have c: "list_all (call_from dec ti step) [(sr_Category step, filterCategoryToApplySet (sr_Category step) (cd_Data c) S)]"
      if "sr_Data step = SbEnvelope c" for c
      using call_from_filtered [OF _ that] True S by auto
    show ?thesis using True assms plan
      by (auto simp: apply_step_def open_step_def Let_def dest!: u t c split: option.splits step_blob.splits prod.splits sum.splits)
  qed
qed

lemma apply_steps_calls:
  assumes "apply_steps env pc dec ti steps applied skipped w = (x, w')"
  shows "\<exists>new. calls w' = calls w @ new \<and> list_all (\<lambda>y. list_ex (\<lambda>step. call_from dec ti step y) steps) new"
  using assms
proof (induction steps arbitrary: applied skipped w)
  case (Cons s ss)
  show ?case
  proof (cases "tg_ctxErr (ae_ops env) (target_host (w_db w))")
    case None
    obtain y w1 where step: "apply_step env pc dec ti s w = (y, w1)" by fastforce
    from apply_step_calls [OF this] obtain new1 where n1: "calls w1 = calls w @ new1" "list_all (call_from dec ti s) new1" by blast
    have go: "\<exists>new. calls w' = calls w @ new \<and> list_all (\<lambda>y. list_ex (\<lambda>step. call_from dec ti step y) (s # ss)) new"
      if "apply_steps env pc dec ti ss a k w1 = (x, w')" for a k
    proof -
      from Cons.IH [OF that] obtain new2 where "calls w' = calls w1 @ new2" "list_all (\<lambda>y. list_ex (\<lambda>step. call_from dec ti step y) ss) new2"
        by blast
      with n1 show ?thesis by (intro exI [of _ "new1 @ new2"]) (auto simp: list_all_iff)
    qed
    show ?thesis
    proof (cases y)
      case (StepFailed e)
      then have "calls w' = calls w1" using Cons.prems None step rollbackApplied_frames [of env pc applied w1] by auto
      then show ?thesis using n1 by (intro exI [of _ new1]) (auto simp: list_all_iff)
    qed (use Cons.prems None step go in auto)
  qed (use Cons.prems in auto)
qed auto


lemma read_run:
  "db_read f w = (x, w1) \<Longrightarrow> calls w1 = calls w \<and> restores w1 = restores w \<and> later w w1 \<and> w_db w1 = w_db w"
  using db_read_frames [of f w x w1] by (simp add: calls_def restores_def later_def)

lemma read_runs:
  "GetSteps mid w = (x, w1) \<Longrightarrow> calls w1 = calls w \<and> restores w1 = restores w \<and> later w w1 \<and> w_db w1 = w_db w"
  "loadItemDecisions pc w = (y, w1) \<Longrightarrow> calls w1 = calls w \<and> restores w1 = restores w \<and> later w w1 \<and> w_db w1 = w_db w"
  by (auto simp: GetSteps_def loadItemDecisions_def GetSelections_def dest: read_run split: prod.splits sum.splits)

lemma read_steps: "GetSteps mid w = (Inr steps, w1) \<Longrightarrow> steps = steps_of mid (w_db w)"
  using db_read_ok [of _ w steps w1] unfolding GetSteps_def by fastforce

text \<open>The parts of a run of the stage.\<close>

lemma sync_parts:
  assumes "initialSync_Execute env pc w = (r, w')"
  obtains err w1 where "GetSteps (pc_MigrationID pc) (say ''initial_sync'' ''progress'' w) = (Inl err, w1)" "r \<noteq> None" "w' = w1"
  | w1 dec w2 ti w3 err applied skipped w4 where
      "GetSteps (pc_MigrationID pc) (say ''initial_sync'' ''progress'' w) = (Inr (steps_of (pc_MigrationID pc) (w_db w)), w1)"
      "loadItemDecisions pc w1 = (dec, w2)" "on_target (buildTargetInventory env pc) w2 = (ti, w3)"
      "apply_steps env pc dec ti (steps_of (pc_MigrationID pc) (w_db w)) [] [] w3 = ((err, applied, skipped), w4)"
      "r = (case err of Some e \<Rightarrow> Some e | None \<Rightarrow> if skipped \<noteq> [] then Some (skipped_error skipped) else None)"
      "w' = (case err of Some e \<Rightarrow> w4 | None \<Rightarrow> if skipped \<noteq> [] then if applied \<noteq> [] then rollbackApplied env pc applied w4 else w4
         else say ''initial_sync'' ''success'' w4)"
proof -
  obtain x w1 where w1: "GetSteps (pc_MigrationID pc) (say ''initial_sync'' ''progress'' w) = (x, w1)" by fastforce
  show thesis
  proof (cases x)
    case (Inl err)
    with assms w1 show thesis by (intro that(1)) (auto simp: initialSync_Execute_def)
  next
    case (Inr steps)
    with w1 read_steps have steps: "steps = steps_of (pc_MigrationID pc) (w_db w)" by fastforce
    obtain dec w2 where w2: "loadItemDecisions pc w1 = (dec, w2)" by fastforce
    obtain ti w3 where w3: "on_target (buildTargetInventory env pc) w2 = (ti, w3)" by fastforce
    obtain err applied skipped w4 where w4: "apply_steps env pc dec ti steps [] [] w3 = ((err, applied, skipped), w4)"
      by (metis prod.exhaust)
    show thesis using assms
      by (intro that(2) [of w1 dec w2 ti w3 err applied skipped w4])
        (use w1 w2 w3 w4 in \<open>auto simp: Inr steps initialSync_Execute_def split: option.splits if_splits\<close>)
  qed
qed



subsection \<open>The retry after a skipped category\<close>

text \<open>Nothing fails: no statement, no applier; every category is registered and the context lives.\<close>

definition willing :: "'h apply_env \<Rightarrow> bool" where
  "willing env \<longleftrightarrow> (\<forall>h. tg_ctxErr (ae_ops env) h = None)
     \<and> (\<forall>cat. \<exists>m. ae_Registry env cat = Some m \<and> (\<forall>c h. fst (cm_Apply m c h) = None))"

text \<open>A target that remembers the packages it was given, and a migration whose packages are wanted and whose services
  are all deselected.\<close>

definition demo_sync_module :: "string set CategoryModule" where
  "demo_sync_module = \<lparr>cm_Collect = (\<lambda>h. (Inl (ErrF ''not collected''), h)),
     cm_Apply = (\<lambda>c h. (None, case cd_Data c of PlPackages d \<Rightarrow> h \<union> set (pk_Packages d) | _ \<Rightarrow> h)),
     cm_Rollback = (\<lambda>b h. (None, {}))\<rparr>"

definition demo_sync_env :: "string set apply_env" where
  "demo_sync_env = \<lparr>ae_Registry = (\<lambda>_. Some demo_sync_module), ae_Categories = [''packages'', ''services''], ae_ops = dnf_ops\<rparr>"

definition demo_sync_step :: "int \<Rightarrow> string \<Rightarrow> payload \<Rightarrow> MigrationStepRecord" where
  "demo_sync_step i cat p = \<lparr>sr_ID = i, sr_MigrationID = 7, sr_Category = cat, sr_Action = ''collect'', sr_Status = StepStatusPending,
     sr_Data = SbEnvelope \<lparr>cd_Type = cat, cd_Data = p\<rparr>, sr_Error = ''''\<rparr>"

definition demo_sync_world :: "string set item_world" where
  "demo_sync_world = calm_world (item_database
     [demo_sync_step 1 ''packages'' (PlPackages \<lparr>pk_Distro = ''debian'', pk_Packages = [''git'', ''nginx''], pk_Count = 2\<rparr>),
      demo_sync_step 2 ''services'' (PlServices \<lparr>sd_Services = [], sd_Count = 0\<rparr>)] [] [] [] {''bash''})"

lemma willing_demo [simp]: "willing demo_sync_env"
  by (simp add: willing_def demo_sync_env_def demo_sync_module_def dnf_ops_def)

lemma fault_free_calm [simp]: "fault_free (calm_world d)"
  by (simp add: calm_world_def fault_free_def)

lemma demo_sync_calm [simp]: "fault_free demo_sync_world"
  by (simp add: demo_sync_world_def)


definition ids_where :: "(MigrationStepRecord \<Rightarrow> bool) \<Rightarrow> int \<Rightarrow> 'h item_db \<Rightarrow> int list" where
  "ids_where P mid d = map sr_ID (filter P (steps_of mid d))"

definition open_ids :: "int \<Rightarrow> 'h item_db \<Rightarrow> int list" where
  "open_ids = ids_where open_step"

lemma open_ids_cong: "step_rows d' = step_rows d \<Longrightarrow> open_ids mid d' = open_ids mid d"
  by (simp add: open_ids_def ids_where_def steps_of_def)

text \<open>An update that makes a property false removes exactly the identifier of its row.\<close>

lemma update_ids:
  assumes "fault_free w" and "\<And>s. \<not> P (s\<lparr>sr_Status := st, sr_Error := e\<rparr>)"
  shows "ids_where P mid (w_db (snd (UpdateStepStatus i st e w))) = filter (\<lambda>j. j \<noteq> i) (ids_where P mid (w_db w))"
proof -
  have "step_rows (w_db (snd (UpdateStepStatus i st e w)))
      = map (\<lambda>s. if sr_ID s = i then s\<lparr>sr_Status := st, sr_Error := e\<rparr> else s) (step_rows (w_db w))"
    using assms(1) by (simp add: UpdateStepStatus_def fault_free_write)
  moreover have "map sr_ID (filter P (filter (\<lambda>s. sr_MigrationID s = mid)
        (map (\<lambda>s. if sr_ID s = i then s\<lparr>sr_Status := st, sr_Error := e\<rparr> else s) rows)))
      = filter (\<lambda>j. j \<noteq> i) (map sr_ID (filter P (filter (\<lambda>s. sr_MigrationID s = mid) rows)))" for rows
    by (induction rows) (simp_all add: assms(2))
  ultimately show ?thesis by (simp add: ids_where_def steps_of_def)
qed

lemma update_closes:
  assumes "fault_free w" and "st \<noteq> StepStatusCompleted"
  shows "fst (UpdateStepStatus i st e w) = Inr ()"
    "open_ids mid (w_db (snd (UpdateStepStatus i st e w))) = filter (\<lambda>j. j \<noteq> i) (open_ids mid (w_db w))"
  using assms(1) update_ids [where w = w and P = open_step and st = st and e = e] assms(2)
  by (simp_all add: open_ids_def open_step_def UpdateStepStatus_def fault_free_write)

lemma apply_step_closes:
  assumes "willing env" "fault_free w" and "apply_step env pc dec ti step w = (x, w1)"
  shows "later w w1 \<and> (if open_step step
     then (x = StepSkipped \<or> x = StepApplied) \<and> open_ids mid (w_db w1) = filter (\<lambda>j. j \<noteq> sr_ID step) (open_ids mid (w_db w))
     else x = StepIgnored \<and> w1 = w)"
proof (cases "open_step step")
  case False
  then show ?thesis using assms(3) by (auto simp: apply_step_def open_step_def split: if_splits)
next
  case True
  obtain S items where plan: "applyItemPlan (pc_MigrationID pc) step (formatTime (w_now w)) dec ti = (S, items)" by fastforce
  obtain m where m: "ae_Registry env (sr_Category step) = Some m" "\<And>c h. fst (cm_Apply m c h) = None"
    using assms(1) [unfolded willing_def] by metis
  let ?i = "sr_ID step"
  show ?thesis
  proof (cases "S = []")
    case True
    let ?u = "upsert_results (pc_MigrationID pc) items w" and ?st = "StepStatusSkipped"
    have f: "fault_free ?u" by (rule later_fault_free [OF upsert_results_later assms(2)])
    have "later w (say ''initial_sync'' ''warning'' (snd (UpdateStepStatus ?i ?st skip_reason ?u)))"
      by (rule later_trans [OF upsert_results_later later_trans [OF item_statement_frames(3) say_frames(3)]])
    moreover have "open_ids mid (w_db ?u) = open_ids mid (w_db w)" by (rule open_ids_cong) simp
    moreover have "x = StepSkipped \<and> w1 = say ''initial_sync'' ''warning'' (snd (UpdateStepStatus ?i ?st skip_reason ?u))"
      using assms(3) plan True \<open>open_step step\<close> by (auto simp: apply_step_def open_step_def)
    moreover have "?st \<noteq> StepStatusCompleted" by (simp add: step_statuses)
    ultimately show ?thesis using update_closes(2) [OF f, of ?st mid ?i skip_reason] \<open>open_step step\<close> by simp
  next
    case False
    have "itemKeysForStep (sr_Category step) (sr_Data step) \<noteq> []"
      using False plan apply_set [of "pc_MigrationID pc" step "formatTime (w_now w)" dec ti] by auto
    then obtain c where c: "sr_Data step = SbEnvelope c" by (auto simp: itemKeysForStep_def split: step_blob.splits)
    let ?d = "filterCategoryToApplySet (sr_Category step) (cd_Data c) S"
    let ?w0 = "log_event (EvApply (sr_Category step) ?d) (say ''initial_sync'' ''progress'' w)"
    obtain e w2 where w2: "on_target (cm_Apply m ?d) ?w0 = (e, w2)" by fastforce
    have e: "e = None" using w2 m(2) by (auto simp: on_target_def split: prod.splits) (metis fst_conv)
    have "later ?w0 w2" using on_target_frames(3) [of ?w0 "cm_Apply m ?d"] unfolding w2 by simp
    then have l2: "later w w2" by (rule later_trans [OF later_trans [OF say_frames(3) apply_event_frames(5)]])
    let ?w3 = "record_items env pc step S items '''' w2"
    have l3: "later w ?w3" by (rule later_trans [OF l2 record_items_frames(3)])
    have f3: "fault_free ?w3" by (rule later_fault_free [OF l3 assms(2)])
    have o: "open_ids mid (w_db ?w3) = open_ids mid (w_db w)"
      by (rule open_ids_cong) (use on_target_frames(4) [of "cm_Apply m ?d" ?w0] w2 in simp)
    have st: "StepStatusApplied \<noteq> StepStatusCompleted" by (simp add: step_statuses)
    obtain w4 where w4: "UpdateStepStatus ?i StepStatusApplied '''' ?w3 = (Inr (), w4)"
      using update_closes(1) [OF f3 st, of ?i "''''"] by (metis prod.collapse)
    have l4: "later w w4" using later_trans [OF l3 item_statement_frames(3)] w4 by (metis snd_conv)
    have "open_ids mid (w_db w4) = filter (\<lambda>j. j \<noteq> ?i) (open_ids mid (w_db w))"
      using update_closes(2) [OF f3 st, of mid ?i "''''"] w4 o by simp
    then show ?thesis using assms(3) plan False \<open>open_step step\<close> m(1) c w2 e w4 l4
      by (auto simp: apply_step_def open_step_def Let_def intro: later_trans [OF l4 say_frames(3)])
  qed
qed

lemma apply_steps_close:
  assumes "willing env" "fault_free w" and "apply_steps env pc dec ti steps applied skipped w = ((err, a, k), w')"
  shows "err = None \<and> later w w'
    \<and> open_ids mid (w_db w') = filter (\<lambda>j. j \<notin> set (map sr_ID (filter open_step steps))) (open_ids mid (w_db w))"
  using assms(2,3)
proof (induction steps arbitrary: applied skipped w)
  case (Cons s ss)
  obtain x w1 where step: "apply_step env pc dec ti s w = (x, w1)" by fastforce
  note one = apply_step_closes [OF assms(1) Cons.prems(1) step, of mid]
  have f1: "fault_free w1" by (rule later_fault_free [OF conjunct1 [OF one] Cons.prems(1)])
  have "tg_ctxErr (ae_ops env) (target_host (w_db w)) = None" using assms(1) by (simp add: willing_def)
  with Cons.prems(2) step one obtain a' k' where "apply_steps env pc dec ti ss a' k' w1 = ((err, a, k), w')"
    by (cases x) (auto split: if_splits)
  from Cons.IH [OF f1 this] have rest: "err = None" "later w1 w'"
      "open_ids mid (w_db w') = filter (\<lambda>j. j \<notin> set (map sr_ID (filter open_step ss))) (open_ids mid (w_db w1))" by simp_all
  have "later w w'" by (rule later_trans [OF conjunct1 [OF one] rest(2)])
  with rest one show ?case by (cases "open_step s") (simp_all add: conj_commute)
qed simp

lemma nothing_open:
  assumes "\<forall>h. tg_ctxErr (ae_ops env) h = None" and "\<forall>s \<in> set steps. \<not> open_step s"
  shows "apply_steps env pc dec ti steps applied skipped w = ((None, applied, skipped), w)"
  using assms(2) by (induction steps) (simp_all add: assms(1) apply_step_def open_step_def)



subsection \<open>After the finalization\<close>

definition applied_ids :: "int \<Rightarrow> 'h item_db \<Rightarrow> int list" where
  "applied_ids = ids_where (\<lambda>s. sr_Status s = StepStatusApplied)"

lemma update_unapplies:
  assumes "fault_free w"
  shows "applied_ids mid (w_db (snd (UpdateStepStatus i StepStatusCompleted e w))) = filter (\<lambda>j. j \<noteq> i) (applied_ids mid (w_db w))"
proof -
  have "StepStatusCompleted \<noteq> StepStatusApplied" by (simp add: step_statuses)
  then show ?thesis using update_ids [OF assms, of "\<lambda>s. sr_Status s = StepStatusApplied"] by (simp add: applied_ids_def)
qed

lemma finish_steps_unapply:
  "fault_free w \<Longrightarrow> later w (finish_steps ss w) \<and> applied_ids mid (w_db (finish_steps ss w))
     = filter (\<lambda>j. j \<notin> set (map sr_ID (filter (\<lambda>s. sr_Status s = StepStatusApplied) ss))) (applied_ids mid (w_db w))"
proof (induction ss arbitrary: w)
  case (Cons s ss)
  show ?case
  proof (cases "sr_Status s = StepStatusApplied")
    case True
    let ?w1 = "snd (UpdateStepStatus (sr_ID s) StepStatusCompleted '''' w)"
    have l: "later w ?w1" by simp
    have "finish_steps (s # ss) w = finish_steps ss ?w1"
      using True Cons.prems by (simp add: UpdateStepStatus_def fault_free_write)
    with Cons.IH [OF later_fault_free [OF l Cons.prems]] update_unapplies [OF Cons.prems, of mid "sr_ID s" "''''"] True
    show ?thesis using later_trans [OF l] by (simp add: conj_commute)
  next
    case False
    then show ?thesis using Cons.IH [OF Cons.prems] by simp
  qed
qed simp


lemma statements_keep_steps [simp]:
  "step_rows (w_db (snd (CreateVerificationResult v w))) = step_rows (w_db w)"
  "step_rows (w_db (snd (UpdateMigrationStatus i status msg w))) = step_rows (w_db w)"
  by (simp_all add: CreateVerificationResult_def UpdateMigrationStatus_def on_mig_def db_write_keeps [where fld = step_rows])

lemma derive_run:
  "deriveMigrationStatus mid w = (x, w1) \<Longrightarrow> w_db w1 = w_db w \<and> later w w1"
  by (auto simp: deriveMigrationStatus_def GetSteps_def GetSelections_def GetItemResults_def Let_def later_trans
      dest!: read_run split: prod.splits sum.splits intro: later_trans)

lemma finalization_unapplies:
  assumes "fault_free w"
  shows "later w (snd (finalization_Execute pc w))"
    "applied_ids (pc_MigrationID pc) (w_db (snd (finalization_Execute pc w))) = []"
    "fst (finalization_Execute pc w) = None"
proof -
  let ?mid = "pc_MigrationID pc" and ?w0 = "say ''finalization'' ''progress'' w"
  have f0: "fault_free ?w0" by (rule later_fault_free [OF say_frames(3) assms])
  have g: "GetSteps ?mid ?w0 = (Inr (steps_of ?mid (w_db w)), tick ?w0)" using f0 by (simp add: GetSteps_def fault_free_read)
  let ?w1 = "tick ?w0"
  have f1: "fault_free ?w1" using f0 by simp
  have "later w ?w0" by (rule say_frames(3))
  then have l1: "later w ?w1" by (auto simp: later_def)
  let ?w2 = "finish_steps (steps_of ?mid (w_db w)) ?w1"
  have u: "later ?w1 ?w2" "applied_ids ?mid (w_db ?w2) = []"
    using finish_steps_unapply [OF f1, of "steps_of ?mid (w_db w)" ?mid]
    by (simp_all add: applied_ids_def ids_where_def filter_empty_conv)
  define w3 where "w3 = snd (CreateVerificationResult \<lparr>vr_MigrationID = ?mid, vr_VerificationType = ''finalization'', vr_Target = ''target'',
     vr_Expected = '''', vr_Actual = '''', vr_Passed = True, vr_ErrorMessage = ''''\<rparr> ?w2)"
  have 3: "later ?w2 w3" "step_rows (w_db w3) = step_rows (w_db ?w2)" by (simp_all add: w3_def) (simp add: CreateVerificationResult_def)
  obtain out w4 where w4: "deriveMigrationStatus ?mid w3 = (out, w4)" by fastforce
  note 4 = derive_run [OF w4]
  define w5 where "w5 = (case out of None \<Rightarrow> w4 | Some (status, reason) \<Rightarrow> (case UpdateMigrationStatus ?mid status reason w4 of
     (Inl _, w') \<Rightarrow> w' | (Inr _, w') \<Rightarrow> say ''finalization'' ''progress'' w'))"
  have um: "later w4 v \<and> step_rows (w_db v) = step_rows (w_db w4)" if "UpdateMigrationStatus i a b w4 = (x, v)" for i a b x v
    using that statements_keep_steps(2) [of i a b w4] db_write_later [of w4] unfolding UpdateMigrationStatus_def by (metis snd_conv)
  have 5: "later w4 w5 \<and> step_rows (w_db w5) = step_rows (w_db w4)"
    by (auto simp: w5_def dest!: um split: option.split prod.split sum.split intro: later_trans [OF _ say_frames(3)])
  have r: "finalization_Execute pc w = (None, say ''finalization'' ''success'' w5)"
    by (simp add: finalization_Execute_def Let_def g w3_def [symmetric] w4 w5_def)
  show "fst (finalization_Execute pc w) = None" by (simp add: r)
  show "later w (snd (finalization_Execute pc w))"
    unfolding r snd_conv
    by (rule later_trans [OF l1 later_trans [OF u(1) later_trans [OF 3(1) later_trans [OF conjunct2 [OF 4]
      later_trans [OF conjunct1 [OF 5] say_frames(3)]]]]])
  have "step_rows (w_db w5) = step_rows (w_db ?w2)" using 3(2) 4 5 by simp
  then show "applied_ids ?mid (w_db (snd (finalization_Execute pc w))) = []"
    using u(2) by (simp add: r applied_ids_def ids_where_def steps_of_def)
qed



subsection \<open>The commit overwrites the outcome\<close>

lemma on_mig_mig_of: "(\<And>m. mg_ID (f m) = mg_ID m) \<Longrightarrow> mig_of (on_mig i f d) i = map_option f (mig_of d i)"
proof -
  assume "\<And>m. mg_ID (f m) = mg_ID m"
  then have "find (\<lambda>m. mg_ID m = i) (map (\<lambda>m. if mg_ID m = i then f m else m) rows) = map_option f (find (\<lambda>m. mg_ID m = i) rows)" for rows
    by (induction rows) auto
  then show ?thesis by (simp add: mig_of_def on_mig_def)
qed

lemma step_update_keeps [simp]:
  "result_rows (w_db (snd (UpdateStepStatus i st e w))) = result_rows (w_db w)"
  "mig_rows (w_db (snd (UpdateStepStatus i st e w))) = mig_rows (w_db w)"
  "result_rows (w_db (snd (CreateVerificationResult v w))) = result_rows (w_db w)"
  "mig_rows (w_db (snd (CreateVerificationResult v w))) = mig_rows (w_db w)"
  by (simp_all add: UpdateStepStatus_def CreateVerificationResult_def db_write_keeps [where fld = result_rows] db_write_keeps [where fld = mig_rows])

lemma finish_steps_keep [simp]:
  "result_rows (w_db (finish_steps ss w)) = result_rows (w_db w) \<and> mig_rows (w_db (finish_steps ss w)) = mig_rows (w_db w)"
proof (induction ss arbitrary: w)
  case (Cons s ss)
  show ?case
    using Cons.IH step_update_keeps(1,2) [of "sr_ID s" StepStatusCompleted "''''" w]
    by (cases "UpdateStepStatus (sr_ID s) StepStatusCompleted '''' w") (auto split: sum.split)
qed simp

text \<open>What a finalization without faults writes into the row of a migration that has item results.\<close>

lemma finalization_writes:
  assumes "fault_free w" and "finalization_Execute pc w = (e, w1)" and "results_of (pc_MigrationID pc) (w_db w) \<noteq> []"
  obtains sels n where "mig_of (w_db w1) (pc_MigrationID pc)
    = map_option (\<lambda>m. m\<lparr>mg_Status := fst (deriveStatusFromItems (results_of (pc_MigrationID pc) (w_db w)) sels n),
        mg_Error := snd (deriveStatusFromItems (results_of (pc_MigrationID pc) (w_db w)) sels n)\<rparr>)
      (mig_of (w_db w) (pc_MigrationID pc))"
proof -
  let ?mid = "pc_MigrationID pc" and ?w0 = "say ''finalization'' ''progress'' w"
  have f0: "fault_free ?w0" by (rule later_fault_free [OF say_frames(3) assms(1)])
  have g: "GetSteps ?mid ?w0 = (Inr (steps_of ?mid (w_db w)), tick ?w0)" using f0 by (simp add: GetSteps_def fault_free_read)
  let ?w2 = "finish_steps (steps_of ?mid (w_db w)) (tick ?w0)"
  have "fault_free (tick ?w0)" using f0 by simp
  then have f2: "fault_free ?w2" using finish_steps_unapply later_fault_free by blast
  define w3 where "w3 = snd (CreateVerificationResult \<lparr>vr_MigrationID = ?mid, vr_VerificationType = ''finalization'', vr_Target = ''target'',
     vr_Expected = '''', vr_Actual = '''', vr_Passed = True, vr_ErrorMessage = ''''\<rparr> ?w2)"
  have rows: "result_rows (w_db w3) = result_rows (w_db w)" "mig_rows (w_db w3) = mig_rows (w_db w)" by (simp_all add: w3_def)
  have f3: "fault_free w3" unfolding w3_def CreateVerificationResult_def by (rule later_fault_free [OF db_write_later f2])
  let ?sels = "selections_of ?mid (w_db w3)" and ?n = "count_status {StepStatusFailed} (steps_of ?mid (w_db w3))"
  let ?out = "deriveStatusFromItems (results_of ?mid (w_db w)) ?sels ?n" and ?w4 = "tick (tick (tick w3))"
  have d: "deriveMigrationStatus ?mid w3 = (Some ?out, ?w4)"
    using f3 rows(1) assms(3)
    by (simp add: deriveMigrationStatus_def GetSteps_def GetSelections_def GetItemResults_def fault_free_read results_of_def)
  have u: "UpdateMigrationStatus ?mid a b ?w4 = (Inr (), tick (?w4\<lparr>w_db := on_mig ?mid (\<lambda>m. m\<lparr>mg_Status := a, mg_Error := b\<rparr>) (w_db w3)\<rparr>))" for a b
    using f3 by (simp add: UpdateMigrationStatus_def fault_free_write)
  have "w_db w1 = on_mig ?mid (\<lambda>m. m\<lparr>mg_Status := fst ?out, mg_Error := snd ?out\<rparr>) (w_db w3)"
    using assms(2) by (auto simp: finalization_Execute_def Let_def g w3_def [symmetric] d u split: prod.splits)
  then have "mig_of (w_db w1) ?mid = map_option (\<lambda>m. m\<lparr>mg_Status := fst ?out, mg_Error := snd ?out\<rparr>) (mig_of (w_db w3) ?mid)"
    by (simp add: on_mig_mig_of)
  with rows(2) show thesis by (intro that [of ?sels ?n]) (simp add: mig_of_def)
qed

lemma committed_status: "StateString StateCommitted = StatusCompleted"
  by (simp add: StateString_def stateString_def StatusCompleted_def)

lemma commit_writes:
  assumes "fault_free v" and "commit_run sm i v = (Inr (), v1)" and "mig_of (w_db v) i = Some m"
  shows "\<exists>m2. mig_of (w_db v1) i = Some m2 \<and> mg_Status m2 = StatusCompleted"
  using assms by (auto simp: commit_run_def SetMigrationStateContext_def SetMigrationState_def SetMigrationCompletedAt_def or_warn_def emit_def
      fault_free_write Let_def on_mig_mig_of committed_status split: option.splits prod.splits)



end
