(* ===== verification/ParityEngine.thy ===== *)
theory ParityEngine
  imports Outcome
begin

section \<open>The comparison of source and target (\<open>migration/parity_engine.go\<close>)\<close>

text \<open>
  What was collected from the source when the migration was planned is compared, item by item, with a live collect of
  the target; the result carries what the operator decided, what was applied and what was verified. The bulk policies
  decide many items at once, the summary counts, and the follow-up lists what is still open. The lookup of the target
  server and its connection are parameters that may fail; progress messages of a comparison are left out. Entries
  of a Go map are visited in the order in which they are listed. Shares are rationals, in percent as the code has them.
\<close>

subsection \<open>Items\<close>

datatype ParityStatus =
    ParitySame | ParityMissingOnTarget | ParityDifferent | ParityStale | ParityUnsupported
  | ParitySelectedForApply | ParityAcceptedTarget | ParitySkippedByUser | ParityManualRequired
  | ParityApplied | ParityVerified | ParityUnresolved

definition ApplyLevelSafe :: int where "ApplyLevelSafe = 1"
definition ApplyLevelWarn :: int where "ApplyLevelWarn = 2"
definition ApplyLevelGuarded :: int where "ApplyLevelGuarded = 3"
definition ApplyLevelManual :: int where "ApplyLevelManual = 4"

lemmas apply_levels = ApplyLevelSafe_def ApplyLevelWarn_def ApplyLevelGuarded_def ApplyLevelManual_def

definition DecisionUndecided :: string where "DecisionUndecided = ''undecided''"

text \<open>\<open>None\<close> as execution state is the empty string of an item without a result.\<close>

record ParityItem =
  pi_Category :: string
  pi_ItemKey :: string
  pi_SourceValue :: string
  pi_TargetValue :: string
  pi_Status :: ParityStatus
  pi_DecisionState :: string
  pi_Suggested :: string
  pi_ApplyLevel :: int
  pi_Deps :: "DependencyRef list"
  pi_HardBlocked :: bool
  pi_Warnings :: "string list"
  pi_ExecutionState :: "ExecutionState option"
  pi_LastExecutionAt :: "stamp option"
  pi_VerificationState :: VerificationState
  pi_VerificationLevel :: string
  pi_VerifyEvidence :: string
  pi_DecisionReason :: string
  pi_RiskAcknowledged :: bool
  pi_ManualFollowup :: string

text \<open>An item as the comparisons make it: present with the same name on the target, or missing there.\<close>

definition new_item :: "string \<Rightarrow> string \<Rightarrow> string \<Rightarrow> bool \<Rightarrow> int \<Rightarrow> DependencyRef list \<Rightarrow> ParityItem" where
  "new_item category key name present level deps =
     \<lparr>pi_Category = category, pi_ItemKey = key, pi_SourceValue = name, pi_TargetValue = (if present then name else ''''),
      pi_Status = (if present then ParitySame else ParityMissingOnTarget), pi_DecisionState = '''',
      pi_Suggested = ActionApplyFromSource, pi_ApplyLevel = level, pi_Deps = deps, pi_HardBlocked = False, pi_Warnings = [],
      pi_ExecutionState = None, pi_LastExecutionAt = None, pi_VerificationState = VerifyUnset, pi_VerificationLevel = '''',
      pi_VerifyEvidence = '''', pi_DecisionReason = '''', pi_RiskAcknowledged = False, pi_ManualFollowup = ''''\<rparr>"

definition hasUnsatisfiedHardDep :: "ParityItem \<Rightarrow> bool" where
  "hasUnsatisfiedHardDep it \<longleftrightarrow> list_ex (\<lambda>d. dp_Kind d = DepHard \<and> \<not> dp_Satisfied d) (pi_Deps it)"

subsection \<open>Comparisons by category\<close>

text \<open>Data that does not decode leaves the zero value, and so does a target that was not collected.\<close>

definition comparePackages :: "payload \<Rightarrow> payload option \<Rightarrow> ParityItem list" where
  "comparePackages src tgt =
     (let there = (case Option.bind tgt as_packages of None \<Rightarrow> [] | Some d \<Rightarrow> pk_Packages d)
      in map (\<lambda>p. new_item ''packages'' (''package:'' @ p) p (p \<in> set there) ApplyLevelSafe [])
        (case as_packages src of None \<Rightarrow> [] | Some d \<Rightarrow> pk_Packages d))"

definition config_item :: "(string \<times> string) list \<Rightarrow> targetInventory \<Rightarrow> string \<times> string \<Rightarrow> ParityItem" where
  "config_item there ti f =
     (let key = ''config:'' @ fst f; deps = buildDeps ''configs'' key ti [] in
      case map_of there (fst f) of
        None \<Rightarrow> new_item ''configs'' key (fst f) False ApplyLevelWarn deps
      | Some content \<Rightarrow>
          if snd f \<noteq> content then
            (new_item ''configs'' key (fst f) True ApplyLevelWarn deps)
              \<lparr>pi_Status := ParityDifferent, pi_Warnings := [''target config differs '' @ em_dash @ '' apply overwrites it'']\<rparr>
          else new_item ''configs'' key (fst f) True ApplyLevelWarn deps)"

definition compareConfigs :: "payload \<Rightarrow> payload option \<Rightarrow> targetInventory \<Rightarrow> ParityItem list" where
  "compareConfigs src tgt ti =
     (let there = (case Option.bind tgt as_configs of None \<Rightarrow> [] | Some d \<Rightarrow> cf_Files d)
      in map (config_item there ti) (case as_configs src of None \<Rightarrow> [] | Some d \<Rightarrow> cf_Files d))"

definition compareServices :: "payload \<Rightarrow> payload option \<Rightarrow> targetInventory \<Rightarrow> ParityItem list" where
  "compareServices src tgt ti =
     (let there = (case Option.bind tgt as_services of None \<Rightarrow> [] | Some d \<Rightarrow> sd_Services d)
      in map (\<lambda>s. new_item ''services'' (''service:'' @ s) s (s \<in> set there) ApplyLevelGuarded
           (buildDeps ''services'' (''service:'' @ s) ti []))
        (case as_services src of None \<Rightarrow> [] | Some d \<Rightarrow> sd_Services d))"

definition compareUsers :: "payload \<Rightarrow> payload option \<Rightarrow> ParityItem list" where
  "compareUsers src tgt =
     (let there = (case Option.bind tgt as_users of None \<Rightarrow> [] | Some d \<Rightarrow> map ud_Name (us_Users d))
      in map (\<lambda>u. new_item ''users'' (''user:'' @ ud_Name u) (ud_Name u) (ud_Name u \<in> set there) ApplyLevelGuarded [])
        (case as_users src of None \<Rightarrow> [] | Some d \<Rightarrow> us_Users d))"

definition no_docker :: DockerData where
  "no_docker = \<lparr>dk_Containers = [], dk_Images = [], dk_Volumes = [], dk_ComposeFiles = [], dk_Count = 0\<rparr>"

definition compareDocker :: "payload \<Rightarrow> payload option \<Rightarrow> targetInventory \<Rightarrow> ParityItem list" where
  "compareDocker src tgt ti =
     (let sd = (case as_docker src of None \<Rightarrow> no_docker | Some d \<Rightarrow> d);
          td = (case Option.bind tgt as_docker of None \<Rightarrow> no_docker | Some d \<Rightarrow> d)
      in map (\<lambda>img. new_item ''docker'' (''docker-image:'' @ img) img (img \<in> set (dk_Images td)) ApplyLevelSafe []) (dk_Images sd)
       @ map (\<lambda>v. new_item ''docker'' (''docker-volume:'' @ dv_Name v) (dv_Name v) (dv_Name v \<in> set (map dv_Name (dk_Volumes td)))
           ApplyLevelGuarded []) (dk_Volumes sd)
       @ map (\<lambda>x. new_item ''docker'' (''docker-container:'' @ dc_Name x) (dc_Name x) (dc_Name x \<in> set (map dc_Name (dk_Containers td)))
           ApplyLevelGuarded (buildDeps ''docker'' (''docker-container:'' @ dc_Name x) ti [])) (dk_Containers sd))"

definition compareDatabase :: "payload \<Rightarrow> payload option \<Rightarrow> targetInventory \<Rightarrow> ParityItem list" where
  "compareDatabase src tgt ti =
     (let there = (case Option.bind tgt as_database of None \<Rightarrow> [] | Some d \<Rightarrow> map de_Name (db_Databases d))
      in (case as_database src of None \<Rightarrow> [] | Some d \<Rightarrow>
           map (\<lambda>e. let key = ''database:'' @ db_Engine d @ '':'' @ de_Name e in
             new_item ''database'' key (de_Name e) (de_Name e \<in> set there) ApplyLevelGuarded (buildDeps ''database'' key ti []))
           (db_Databases d)))"

definition compareCategory :: "string \<Rightarrow> CategoryData \<Rightarrow> CategoryData option \<Rightarrow> targetInventory \<Rightarrow> ParityItem list" where
  "compareCategory category src tgt ti =
     (let s = cd_Data src; t = map_option cd_Data tgt in
      if category = ''packages'' then comparePackages s t
      else if category = ''configs'' then compareConfigs s t ti
      else if category = ''services'' then compareServices s t ti
      else if category = ''users'' then compareUsers s t
      else if category = ''docker'' then compareDocker s t ti
      else if category = ''database'' then compareDatabase s t ti
      else [])"

subsection \<open>The comparison\<close>

record 'h parity_env =
  py_env :: "'h apply_env"
  py_server :: "int \<Rightarrow> goerr option"
  py_ssh :: "int \<Rightarrow> goerr option"

record ParityResult =
  pa_MigrationID :: int
  pa_Items :: "ParityItem list"
  pa_Freshness :: string
  pa_ComputedAt :: stamp

definition collected_sources :: "MigrationStepRecord list \<Rightarrow> string \<rightharpoonup> CategoryData" where
  "collected_sources steps = fold (\<lambda>s m. case sr_Data s of SbEnvelope c \<Rightarrow> m(sr_Category s \<mapsto> c) | _ \<Rightarrow> m)
     (filter (\<lambda>s. sr_Action s = ''collect'' \<and> (sr_Status s = StepStatusCompleted \<or> sr_Status s = StepStatusApplied)) steps) Map.empty"

fun collect_targets ::
  "'h apply_env \<Rightarrow> string list \<Rightarrow> (string \<rightharpoonup> CategoryData) \<times> targetInventory \<Rightarrow> 'h
     \<Rightarrow> ((string \<rightharpoonup> CategoryData) \<times> targetInventory) \<times> 'h" where
  "collect_targets env [] st h = (st, h)"
| "collect_targets env (cat # cats) st h = (case ae_Registry env cat of
       None \<Rightarrow> collect_targets env cats st h
     | Some m \<Rightarrow> (case cm_Collect m h of
          (Inl _, h1) \<Rightarrow> collect_targets env cats st h1
        | (Inr td, h1) \<Rightarrow> collect_targets env cats ((fst st)(cat \<mapsto> td), merge_collected (snd st) cat td) h1))"

definition compare_all ::
  "string list \<Rightarrow> (string \<rightharpoonup> CategoryData) \<Rightarrow> (string \<rightharpoonup> CategoryData) \<Rightarrow> targetInventory \<Rightarrow> ParityItem list" where
  "compare_all cats sources targets ti =
     concat (map (\<lambda>cat. case sources cat of None \<Rightarrow> [] | Some src \<Rightarrow> compareCategory cat src (targets cat) ti) cats)"

text \<open>Of several rows with one key, which the tables exclude, the last would count.\<close>

definition selection_by_key :: "SelectionDecision list \<Rightarrow> string \<rightharpoonup> SelectionDecision" where
  "selection_by_key sels = map_of (rev (map (\<lambda>s. (sl_ItemKey s, s)) sels))"

definition result_by_key :: "ItemResult list \<Rightarrow> string \<rightharpoonup> ItemResult" where
  "result_by_key rs = map_of (rev (map (\<lambda>r. (ir_ItemKey r, r)) rs))"

definition enrich_item :: "(string \<rightharpoonup> SelectionDecision) \<Rightarrow> (string \<rightharpoonup> ItemResult) \<Rightarrow> ParityItem \<Rightarrow> ParityItem" where
  "enrich_item sels rs it =
     (let it1 = (case sels (pi_ItemKey it) of
           Some s \<Rightarrow> it\<lparr>pi_DecisionState := sl_Action s, pi_DecisionReason := sl_DecisionReason s,
              pi_RiskAcknowledged := sl_RiskAcknowledged s, pi_ManualFollowup := sl_ManualFollowup s\<rparr>
         | None \<Rightarrow> it\<lparr>pi_DecisionState := DecisionUndecided\<rparr>);
          it2 = it1\<lparr>pi_HardBlocked := hasUnsatisfiedHardDep it1\<rparr>
      in (case rs (pi_ItemKey it) of
            Some r \<Rightarrow> it2\<lparr>pi_ExecutionState := Some (ir_ExecutionState r), pi_LastExecutionAt := ir_LastExecutionAt r,
              pi_VerificationState := ir_VerificationState r, pi_VerificationLevel := ir_VerificationLevel r,
              pi_VerifyEvidence := ir_VerifyEvidence r\<rparr>
          | None \<Rightarrow> it2))"

definition enrichItems :: "int \<Rightarrow> ParityItem list \<Rightarrow> 'h item_world \<Rightarrow> ParityItem list \<times> 'h item_world" where
  "enrichItems mid items w =
     (let (sels, w1) = GetSelections mid w; (rs, w2) = GetItemResults mid w1 in
      (map (enrich_item (case sels of Inl _ \<Rightarrow> Map.empty | Inr s \<Rightarrow> selection_by_key s)
         (case rs of Inl _ \<Rightarrow> Map.empty | Inr r \<Rightarrow> result_by_key r)) items, w2))"

definition ComputeParity :: "'h parity_env \<Rightarrow> int \<Rightarrow> 'h item_world \<Rightarrow> ParityResult res \<times> 'h item_world" where
  "ComputeParity pe mid w = (case GetMigration mid w of
       (Inl err, w1) \<Rightarrow> (Inl (ErrWrap ''migration not found: '' err ''''), w1)
     | (Inr m, w1) \<Rightarrow> (case py_server pe (mg_TargetID m) of
          Some err \<Rightarrow> (Inl (ErrWrap ''target server not found: '' err ''''), w1)
        | None \<Rightarrow> (case py_ssh pe (mg_TargetID m) of
             Some err \<Rightarrow> (Inl (ErrWrap ''target SSH connection failed: '' err ''''), w1)
           | None \<Rightarrow> (case GetSteps mid w1 of
                (Inl err, w2) \<Rightarrow> (Inl (ErrWrap ''read plan steps: '' err ''''), w2)
              | (Inr steps, w2) \<Rightarrow>
                  (let cats = ae_Categories (py_env pe);
                       ((targets, ti), w3) = on_target (collect_targets (py_env pe) cats (Map.empty, newTargetInventory)) w2;
                       (items, w4) = enrichItems mid (compare_all cats (collected_sources steps) targets ti) w3
                   in (Inr \<lparr>pa_MigrationID = mid, pa_Items = items, pa_Freshness = ''fresh'',
                            pa_ComputedAt = formatTime (w_now w3)\<rparr>, w4))))))"

subsection \<open>The summary\<close>

record ParitySummary =
  su_ObservedParity :: rat
  su_DecisionCoverage :: rat
  su_ExecutionCompletion :: rat
  su_VerificationConfidence :: rat
  su_ManualDeferredBurden :: rat
  su_AcceptedDrift :: nat
  su_UnresolvedDrift :: nat
  su_ManualGaps :: nat
  su_Failed :: nat
  su_Passed :: nat

definition pct :: "nat \<Rightarrow> nat \<Rightarrow> rat" where
  "pct n len = (if len = 0 then 0 else of_nat n / of_nat len * 100)"

record parity_counts =
  pn_decided :: nat
  pn_executed :: nat
  pn_verified :: nat
  pn_manual :: nat
  pn_accepted :: nat
  pn_unresolved :: nat
  pn_failed :: nat
  pn_passed :: nat

definition no_counts :: parity_counts where
  "no_counts = \<lparr>pn_decided = 0, pn_executed = 0, pn_verified = 0, pn_manual = 0, pn_accepted = 0, pn_unresolved = 0,
     pn_failed = 0, pn_passed = 0\<rparr>"

definition summary_item :: "decisions \<Rightarrow> (string \<rightharpoonup> ItemResult) \<Rightarrow> ParityItem \<Rightarrow> parity_counts \<Rightarrow> parity_counts" where
  "summary_item sels rs it n =
     (let action = (case sels (pi_ItemKey it) of None \<Rightarrow> '''' | Some a \<Rightarrow> a);
          n1 = (if action \<noteq> '''' then n\<lparr>pn_decided := pn_decided n + 1\<rparr> else n)
      in if action = ActionKeepTarget \<or> pi_Status it = ParityAcceptedTarget then
           n1\<lparr>pn_accepted := pn_accepted n1 + 1, pn_passed := pn_passed n1 + 1\<rparr>
         else if action = ActionSkip \<or> action = ActionReviewManual then n1\<lparr>pn_manual := pn_manual n1 + 1\<rparr>
         else (case rs (pi_ItemKey it) of
             Some r \<Rightarrow>
               if ir_ExecutionState r = ExecApplied then
                 (let n2 = n1\<lparr>pn_executed := pn_executed n1 + 1\<rparr> in
                  if ir_VerificationState r \<in> {VerifyInfra, VerifyRuntime, VerifyApp, VerifyPartial} then
                    n2\<lparr>pn_verified := pn_verified n2 + 1, pn_passed := pn_passed n2 + 1\<rparr>
                  else if ir_VerificationState r = VerifyFailed then
                    n2\<lparr>pn_failed := pn_failed n2 + 1, pn_unresolved := pn_unresolved n2 + 1\<rparr>
                  else n2\<lparr>pn_unresolved := pn_unresolved n2 + 1\<rparr>)
               else if action = ActionApplyFromSource then n1\<lparr>pn_unresolved := pn_unresolved n1 + 1\<rparr> else n1
           | None \<Rightarrow> if action = ActionApplyFromSource then n1\<lparr>pn_unresolved := pn_unresolved n1 + 1\<rparr> else n1))"

definition summarize :: "decisions \<Rightarrow> (string \<rightharpoonup> ItemResult) \<Rightarrow> ParityItem list \<Rightarrow> ParitySummary" where
  "summarize sels rs items =
     (let n = fold (summary_item sels rs) items no_counts; len = length items in
      if items = [] then \<lparr>su_ObservedParity = 0, su_DecisionCoverage = 0, su_ExecutionCompletion = 0, su_VerificationConfidence = 0,
        su_ManualDeferredBurden = 0, su_AcceptedDrift = 0, su_UnresolvedDrift = 0, su_ManualGaps = 0, su_Failed = 0, su_Passed = 0\<rparr>
      else \<lparr>su_ObservedParity = pct (length (filter (\<lambda>it. pi_Status it = ParitySame) items)) len,
        su_DecisionCoverage = pct (pn_decided n) len,
        su_ExecutionCompletion = pct (pn_executed n) (max 1 (pn_decided n)),
        su_VerificationConfidence = pct (pn_verified n) (max 1 (pn_executed n)),
        su_ManualDeferredBurden = pct (pn_manual n) len,
        su_AcceptedDrift = pn_accepted n, su_UnresolvedDrift = pn_unresolved n, su_ManualGaps = pn_manual n,
        su_Failed = pn_failed n, su_Passed = pn_passed n\<rparr>)"

definition ComputeParitySummary :: "int \<Rightarrow> ParityItem list \<Rightarrow> 'h item_world \<Rightarrow> ParitySummary \<times> 'h item_world" where
  "ComputeParitySummary mid items w =
     (let (sels, w1) = GetSelections mid w; (rs, w2) = GetItemResults mid w1 in
      (summarize (case sels of Inl _ \<Rightarrow> Map.empty | Inr s \<Rightarrow> decisions_of s)
         (case rs of Inl _ \<Rightarrow> Map.empty | Inr r \<Rightarrow> result_by_key r) items, w2))"

subsection \<open>Bulk decisions\<close>

datatype BulkPolicy =
    BulkApplySafe | BulkAcceptRiskyUnchanged | BulkSkipSelected | BulkReviewManualSelected | BulkClear | BulkOther string

record BulkResult =
  br_Policy :: BulkPolicy
  br_Applied :: nat
  br_Accepted :: nat
  br_Skipped :: nat
  br_Manual :: nat
  br_Items :: "SelectionDecision list"

definition existingAction :: "ParityItem \<Rightarrow> SelectionDecision list \<Rightarrow> string" where
  "existingAction it existing = (case find (\<lambda>d. sl_ItemKey d = pi_ItemKey it) existing of None \<Rightarrow> '''' | Some d \<Rightarrow> sl_Action d)"

text \<open>The decision of a policy on one item, if it makes one, and the count that goes up.\<close>

definition bulk_action :: "BulkPolicy \<Rightarrow> SelectionDecision list \<Rightarrow> ParityItem \<Rightarrow> string option" where
  "bulk_action policy existing it = (case policy of
       BulkApplySafe \<Rightarrow>
         if pi_ApplyLevel it > ApplyLevelWarn \<or> hasUnsatisfiedHardDep it then None else Some ActionApplyFromSource
     | BulkAcceptRiskyUnchanged \<Rightarrow>
         if pi_ApplyLevel it \<noteq> ApplyLevelGuarded \<or> pi_Status it \<noteq> ParitySame then None else Some ActionKeepTarget
     | BulkSkipSelected \<Rightarrow> if existingAction it existing = ActionKeepTarget then None else Some ActionSkip
     | BulkReviewManualSelected \<Rightarrow> if existingAction it existing = ActionKeepTarget then None else Some ActionReviewManual
     | _ \<Rightarrow> None)"

definition bulk_count :: "BulkPolicy \<Rightarrow> SelectionDecision list \<Rightarrow> ParityItem \<Rightarrow> BulkResult \<Rightarrow> BulkResult" where
  "bulk_count policy existing it r = (case policy of
       BulkApplySafe \<Rightarrow>
         if bulk_action policy existing it = None then r\<lparr>br_Manual := br_Manual r + 1\<rparr> else r\<lparr>br_Applied := br_Applied r + 1\<rparr>
     | BulkAcceptRiskyUnchanged \<Rightarrow>
         if pi_ApplyLevel it \<noteq> ApplyLevelGuarded then r\<lparr>br_Skipped := br_Skipped r + 1\<rparr>
         else if pi_Status it \<noteq> ParitySame then r\<lparr>br_Manual := br_Manual r + 1\<rparr>
         else r\<lparr>br_Accepted := br_Accepted r + 1\<rparr>
     | BulkReviewManualSelected \<Rightarrow>
         if bulk_action policy existing it = None then r\<lparr>br_Skipped := br_Skipped r + 1\<rparr> else r\<lparr>br_Manual := br_Manual r + 1\<rparr>
     | _ \<Rightarrow> r\<lparr>br_Skipped := br_Skipped r + 1\<rparr>)"

fun bulk_items ::
  "int \<Rightarrow> BulkPolicy \<Rightarrow> SelectionDecision list \<Rightarrow> ParityItem list \<Rightarrow> BulkResult \<Rightarrow> 'h item_world
     \<Rightarrow> BulkResult res \<times> 'h item_world" where
  "bulk_items mid policy existing [] r w = (Inr r, w)"
| "bulk_items mid policy existing (it # its) r w =
     (if pi_ItemKey it \<in> sl_ItemKey ` set existing then
        bulk_items mid policy existing its (r\<lparr>br_Skipped := br_Skipped r + 1\<rparr>) w
      else (case bulk_action policy existing it of
          None \<Rightarrow> bulk_items mid policy existing its (bulk_count policy existing it r) w
        | Some action \<Rightarrow> (case UpsertSelection mid (pi_ItemKey it) (pi_Category it) action '''' False '''' w of
             (Inl err, w1) \<Rightarrow> (Inl err, w1)
           | (Inr _, w1) \<Rightarrow>
               (let r1 = bulk_count policy existing it r in
                bulk_items mid policy existing its
                  (r1\<lparr>br_Items := br_Items r1 @ [\<lparr>sl_MigrationID = mid, sl_ItemKey = pi_ItemKey it, sl_Category = pi_Category it,
                     sl_Action = action, sl_DecisionReason = '''', sl_RiskAcknowledged = False, sl_ManualFollowup = ''''\<rparr>]\<rparr>) w1))))"

definition BulkApply :: "'h parity_env \<Rightarrow> int \<Rightarrow> BulkPolicy \<Rightarrow> 'h item_world \<Rightarrow> BulkResult res \<times> 'h item_world" where
  "BulkApply pe mid policy w = (case ComputeParity pe mid w of
       (Inl err, w1) \<Rightarrow> (Inl err, w1)
     | (Inr parity, w1) \<Rightarrow>
         (let (sels, w2) = GetSelections mid w1;
              existing = (case sels of Inl _ \<Rightarrow> [] | Inr s \<Rightarrow> s);
              start = \<lparr>br_Policy = policy, br_Applied = 0, br_Accepted = 0, br_Skipped = 0, br_Manual = 0, br_Items = []\<rparr>
          in if policy = BulkClear then (case ClearSelections mid w2 of
                 (Inl err, w3) \<Rightarrow> (Inl err, w3)
               | (Inr _, w3) \<Rightarrow> bulk_items mid policy [] (pa_Items parity) start w3)
             else bulk_items mid policy existing (pa_Items parity) start w2))"

subsection \<open>What is still open\<close>

definition open_item :: "decisions \<Rightarrow> (string \<rightharpoonup> VerificationState) \<Rightarrow> ParityItem \<Rightarrow> bool" where
  "open_item sels vs it \<longleftrightarrow>
     (let action = (case sels (pi_ItemKey it) of None \<Rightarrow> '''' | Some a \<Rightarrow> a) in
      action = ActionSkip \<or> action = ActionReviewManual \<or> action = '''' \<and> pi_Status it \<noteq> ParitySame
      \<or> vs (pi_ItemKey it) = Some VerifyFailed)"

definition GetFollowUp :: "'h parity_env \<Rightarrow> int \<Rightarrow> 'h item_world \<Rightarrow> ParityResult res \<times> 'h item_world" where
  "GetFollowUp pe mid w = (case ComputeParity pe mid w of
       (Inl err, w1) \<Rightarrow> (Inl err, w1)
     | (Inr parity, w1) \<Rightarrow>
         (let (sels, w2) = GetSelections mid w1; (rs, w3) = GetItemResults mid w2 in
          (Inr \<lparr>pa_MigrationID = mid,
                pa_Items = filter (open_item (case sels of Inl _ \<Rightarrow> Map.empty | Inr s \<Rightarrow> decisions_of s)
                  (case rs of Inl _ \<Rightarrow> Map.empty
                   | Inr r \<Rightarrow> map_of (rev (map (\<lambda>x. (ir_ItemKey x, ir_VerificationState x)) r)))) (pa_Items parity),
                pa_Freshness = ''fresh'', pa_ComputedAt = formatTime (w_now w3)\<rparr>, w3)))"

end
