(* ===== verification/ParityProofs.thy ===== *)
theory ParityProofs
  imports ParityEngine ItemProofs
begin

section \<open>Properties of the comparison and of the bulk decisions\<close>

text \<open>
  The items of the comparison are the items the apply stage plans, with the same blocking dependencies, except for
  compose files, which are applied but never shown; what a bulk policy decides, as one equation over the decisions;
  the bounds of the summary.
\<close>

subsection \<open>The items are those of the apply stage\<close>

lemma new_item_fields [simp]:
  "pi_ItemKey (new_item c k s p l d) = k" "pi_Deps (new_item c k s p l d) = d" "pi_ApplyLevel (new_item c k s p l d) = l"
  by (simp_all add: new_item_def)

lemma config_item_fields [simp]:
  "pi_ItemKey (config_item there ti f) = ''config:'' @ fst f"
  "pi_Deps (config_item there ti f) = buildDeps ''configs'' (''config:'' @ fst f) ti []"
  by (simp_all add: config_item_def Let_def split: option.split)

lemma enrich_fields [simp]:
  "pi_ItemKey (enrich_item sels rs it) = pi_ItemKey it" "pi_Deps (enrich_item sels rs it) = pi_Deps it"
  "pi_ApplyLevel (enrich_item sels rs it) = pi_ApplyLevel it" "pi_Status (enrich_item sels rs it) = pi_Status it"
  "pi_Category (enrich_item sels rs it) = pi_Category it"
  "pi_HardBlocked (enrich_item sels rs it) = hasUnsatisfiedHardDep it"
  by (simp_all add: enrich_item_def hasUnsatisfiedHardDep_def Let_def split: option.split)

definition compose_prefix :: string where "compose_prefix = ''docker-compose:''"

lemma filter_keys: "(\<And>x. x \<in> set xs \<Longrightarrow> P x) \<Longrightarrow> filter P xs = xs"
  by (induction xs) simp_all

lemma key_prefixes:
  "\<not> HasPrefix (''package:'' @ x) compose_prefix" "\<not> HasPrefix (''config:'' @ x) compose_prefix"
  "\<not> HasPrefix (''service:'' @ x) compose_prefix" "\<not> HasPrefix (''user:'' @ x) compose_prefix"
  "\<not> HasPrefix (''docker-image:'' @ x) compose_prefix" "\<not> HasPrefix (''docker-volume:'' @ x) compose_prefix"
  "\<not> HasPrefix (''docker-container:'' @ x) compose_prefix" "\<not> HasPrefix (''database:'' @ x) compose_prefix"
  "HasPrefix (''docker-compose:'' @ x) compose_prefix"
  by (simp_all add: HasPrefix_def compose_prefix_def)

lemma no_deps:
  "depsFor ''packages'' k ti = []" "depsFor ''users'' k ti = []"
  "depsFor ''docker'' (''docker-image:'' @ x) ti = []" "depsFor ''docker'' (''docker-volume:'' @ x) ti = []"
  by (simp_all add: depsFor_def Let_def containerNameFromKey_def TrimPrefix_def HasPrefix_def)

lemma no_item_deps: "pi_Deps (new_item ''docker'' (''docker-image:'' @ x) s p l []) = depsFor ''docker'' (''docker-image:'' @ x) ti"
    "pi_Deps (new_item ''docker'' (''docker-volume:'' @ x) s p l []) = depsFor ''docker'' (''docker-volume:'' @ x) ti"
  unfolding no_deps by (simp_all only: new_item_fields)

lemma plain_deps [simp]: "buildDeps cat k ti [] = depsFor cat k ti"
  by (simp add: buildDeps_def)

definition known_categories :: "string set" where
  "known_categories = {''packages'', ''configs'', ''services'', ''users'', ''docker'', ''database''}"

lemma compare_by_category:
  "compareCategory ''packages'' src tgt ti = comparePackages (cd_Data src) (map_option cd_Data tgt)"
  "compareCategory ''configs'' src tgt ti = compareConfigs (cd_Data src) (map_option cd_Data tgt) ti"
  "compareCategory ''services'' src tgt ti = compareServices (cd_Data src) (map_option cd_Data tgt) ti"
  "compareCategory ''users'' src tgt ti = compareUsers (cd_Data src) (map_option cd_Data tgt)"
  "compareCategory ''docker'' src tgt ti = compareDocker (cd_Data src) (map_option cd_Data tgt) ti"
  "compareCategory ''database'' src tgt ti = compareDatabase (cd_Data src) (map_option cd_Data tgt) ti"
  "cat \<notin> known_categories \<Longrightarrow> compareCategory cat src tgt ti = []"
  by (simp_all add: compareCategory_def known_categories_def Let_def)

lemma keys_by_category:
  "itemKeysFor ''packages'' c = (case as_packages (cd_Data c) of None \<Rightarrow> [] | Some d \<Rightarrow> map ((@) ''package:'') (pk_Packages d))"
  "itemKeysFor ''configs'' c = (case as_configs (cd_Data c) of None \<Rightarrow> [] | Some d \<Rightarrow> map (\<lambda>f. ''config:'' @ fst f) (cf_Files d))"
  "itemKeysFor ''services'' c = (case as_services (cd_Data c) of None \<Rightarrow> [] | Some d \<Rightarrow> map ((@) ''service:'') (sd_Services d))"
  "itemKeysFor ''users'' c = (case as_users (cd_Data c) of None \<Rightarrow> [] | Some d \<Rightarrow> map (\<lambda>u. ''user:'' @ ud_Name u) (us_Users d))"
  "itemKeysFor ''docker'' c = (case as_docker (cd_Data c) of None \<Rightarrow> [] | Some d \<Rightarrow>
     map ((@) ''docker-image:'') (dk_Images d) @ map (\<lambda>v. ''docker-volume:'' @ dv_Name v) (dk_Volumes d)
       @ map (\<lambda>x. ''docker-container:'' @ dc_Name x) (dk_Containers d) @ map (\<lambda>x. ''docker-compose:'' @ df_Path x) (dk_ComposeFiles d))"
  "itemKeysFor ''database'' c = (case as_database (cd_Data c) of None \<Rightarrow> [] | Some d \<Rightarrow>
     map (\<lambda>e. ''database:'' @ db_Engine d @ '':'' @ de_Name e) (db_Databases d))"
  "cat \<notin> known_categories \<Longrightarrow> itemKeysFor cat c = []"
  by (simp_all add: itemKeysFor_def known_categories_def Let_def)

lemma category_cases:
  "cat = ''packages'' \<or> cat = ''configs'' \<or> cat = ''services'' \<or> cat = ''users'' \<or> cat = ''docker'' \<or> cat = ''database''
    \<or> cat \<notin> known_categories"
  unfolding known_categories_def insert_iff empty_iff by argo

lemma filter_map_keys: "(\<And>x. P (f x)) \<Longrightarrow> filter P (map f xs) = map f xs" "(\<And>x. \<not> P (f x)) \<Longrightarrow> filter P (map f xs) = []"
  by (induction xs) simp_all

lemma compared_packages:
  "map pi_ItemKey (comparePackages s t) = (case as_packages s of None \<Rightarrow> [] | Some d \<Rightarrow> map ((@) ''package:'') (pk_Packages d))"
  "it \<in> set (comparePackages s t) \<Longrightarrow> pi_Deps it = []"
  by (auto simp: comparePackages_def Let_def o_def split: option.splits)

lemma compared_configs:
  "map pi_ItemKey (compareConfigs s t ti) = (case as_configs s of None \<Rightarrow> [] | Some d \<Rightarrow> map (\<lambda>f. ''config:'' @ fst f) (cf_Files d))"
  "it \<in> set (compareConfigs s t ti) \<Longrightarrow> pi_Deps it = depsFor ''configs'' (pi_ItemKey it) ti"
  unfolding compareConfigs_def Let_def by (auto simp: o_def split: option.split)

lemma compared_services:
  "map pi_ItemKey (compareServices s t ti) = (case as_services s of None \<Rightarrow> [] | Some d \<Rightarrow> map ((@) ''service:'') (sd_Services d))"
  "it \<in> set (compareServices s t ti) \<Longrightarrow> pi_Deps it = depsFor ''services'' (pi_ItemKey it) ti"
  unfolding compareServices_def Let_def by (auto simp: o_def split: option.splits)

lemma compared_users:
  "map pi_ItemKey (compareUsers s t) = (case as_users s of None \<Rightarrow> [] | Some d \<Rightarrow> map (\<lambda>u. ''user:'' @ ud_Name u) (us_Users d))"
  "it \<in> set (compareUsers s t) \<Longrightarrow> pi_Deps it = []"
  unfolding compareUsers_def Let_def by (auto simp: o_def split: option.splits)

lemma compared_docker:
  "map pi_ItemKey (compareDocker s t ti) = (case as_docker s of None \<Rightarrow> [] | Some d \<Rightarrow>
     map ((@) ''docker-image:'') (dk_Images d) @ map (\<lambda>v. ''docker-volume:'' @ dv_Name v) (dk_Volumes d)
       @ map (\<lambda>x. ''docker-container:'' @ dc_Name x) (dk_Containers d))"
  "it \<in> set (compareDocker s t ti) \<Longrightarrow> pi_Deps it = depsFor ''docker'' (pi_ItemKey it) ti"
proof -
  show "map pi_ItemKey (compareDocker s t ti) = (case as_docker s of None \<Rightarrow> [] | Some d \<Rightarrow>
     map ((@) ''docker-image:'') (dk_Images d) @ map (\<lambda>v. ''docker-volume:'' @ dv_Name v) (dk_Volumes d)
       @ map (\<lambda>x. ''docker-container:'' @ dc_Name x) (dk_Containers d))"
    unfolding compareDocker_def Let_def by (simp add: o_def no_docker_def split: option.splits)
  show "pi_Deps it = depsFor ''docker'' (pi_ItemKey it) ti" if "it \<in> set (compareDocker s t ti)"
    using that unfolding compareDocker_def Let_def set_append set_map
    by (elim UnE imageE) (simp_all only: new_item_fields no_deps plain_deps)
qed

lemma compared_database:
  "map pi_ItemKey (compareDatabase s t ti) = (case as_database s of None \<Rightarrow> [] | Some d \<Rightarrow>
     map (\<lambda>e. ''database:'' @ db_Engine d @ '':'' @ de_Name e) (db_Databases d))"
  "it \<in> set (compareDatabase s t ti) \<Longrightarrow> pi_Deps it = depsFor ''database'' (pi_ItemKey it) ti"
  unfolding compareDatabase_def Let_def by (auto simp: o_def split: option.splits)

lemmas compared = compared_packages compared_configs compared_services compared_users compared_docker compared_database

lemma compared_keys:
  "map pi_ItemKey (compareCategory cat src tgt ti) = filter (\<lambda>k. \<not> HasPrefix k compose_prefix) (itemKeysFor cat src)"
  using category_cases [of cat]
  by (elim disjE; simp only: compare_by_category keys_by_category compared list.map filter.simps not_False_eq_True)
    (simp_all only: filter_map_keys filter_append key_prefixes not_False_eq_True not_not option.case_distrib [of "filter _"] filter.simps
       append_Nil2)

lemma compared_deps: "it \<in> set (compareCategory cat src tgt ti) \<Longrightarrow> pi_Deps it = depsFor cat (pi_ItemKey it) ti"
  using category_cases [of cat]
  by (elim disjE; simp only: compare_by_category no_deps list.set empty_iff compared not_False_eq_True)


subsection \<open>What a bulk policy decides\<close>

definition decided :: "int \<Rightarrow> 'h item_db \<Rightarrow> decisions" where
  "decided mid d = decisions_of (selections_of mid d)"

text \<open>The key of the table: a migration has one row per item.\<close>

definition one_row_each :: "int \<Rightarrow> 'h item_db \<Rightarrow> bool" where
  "one_row_each mid d \<longleftrightarrow> distinct (map sl_ItemKey (selections_of mid d))"

text \<open>What a policy wants for an item nobody has decided, and for all of them.\<close>

definition sweep :: "BulkPolicy \<Rightarrow> ParityItem \<Rightarrow> string option" where
  "sweep policy it = (case policy of
       BulkApplySafe \<Rightarrow> if pi_ApplyLevel it \<le> ApplyLevelWarn \<and> \<not> hasUnsatisfiedHardDep it then Some ActionApplyFromSource else None
     | BulkAcceptRiskyUnchanged \<Rightarrow>
         if pi_ApplyLevel it = ApplyLevelGuarded \<and> pi_Status it = ParitySame then Some ActionKeepTarget else None
     | BulkSkipSelected \<Rightarrow> Some ActionSkip
     | BulkReviewManualSelected \<Rightarrow> Some ActionReviewManual
     | _ \<Rightarrow> None)"

primrec swept :: "BulkPolicy \<Rightarrow> ParityItem list \<Rightarrow> decisions" where
  "swept policy [] = Map.empty"
| "swept policy (it # its) = (case sweep policy it of None \<Rightarrow> Map.empty | Some a \<Rightarrow> [pi_ItemKey it \<mapsto> a]) ++ swept policy its"

lemma sweep_enriched [simp]: "sweep policy (enrich_item sels rs it) = sweep policy it"
  by (cases policy) (simp_all add: sweep_def hasUnsatisfiedHardDep_def)

lemma swept_enriched [simp]: "swept policy (map (enrich_item sels rs) its) = swept policy its"
  by (induction its) (simp_all split: option.split)

lemma swept_keys: "swept policy its k = Some a \<Longrightarrow> k \<in> set (map pi_ItemKey its)"
  by (induction its) (auto simp: map_add_Some_iff split: option.splits if_splits)

lemma swept_filter: "swept policy (filter (\<lambda>it. P (pi_ItemKey it)) its) k = (if P k then swept policy its k else None)"
  by (induction its) (auto simp: map_add_def split: option.splits)

lemma bulk_action_sweep:
  "pi_ItemKey it \<notin> sl_ItemKey ` set existing \<Longrightarrow> bulk_action policy existing it = sweep policy it"
proof -
  assume "pi_ItemKey it \<notin> sl_ItemKey ` set existing"
  then have "find (\<lambda>d. sl_ItemKey d = pi_ItemKey it) existing = None" by (force simp: find_None_iff image_iff)
  then have "existingAction it existing = ''''" by (simp add: existingAction_def)
  then show ?thesis by (cases policy) (auto simp: bulk_action_def sweep_def action_names)
qed

lemma upsert_of_migration:
  "sl_MigrationID new = mid \<Longrightarrow> filter (\<lambda>s. sl_MigrationID s = mid) (upsert_row (\<lambda>s. sl_MigrationID s = mid \<and> sl_ItemKey s = k) new rows)
    = upsert_row (\<lambda>s. sl_ItemKey s = k) new (filter (\<lambda>s. sl_MigrationID s = mid) rows)"
  by (induction rows) auto

lemma upsert_keys:
  "map sl_ItemKey (upsert_row (\<lambda>s. sl_ItemKey s = sl_ItemKey new) new rows) =
    (if sl_ItemKey new \<in> set (map sl_ItemKey rows) then map sl_ItemKey rows else map sl_ItemKey rows @ [sl_ItemKey new])"
  by (induction rows) auto

lemma decisions_of_distinct:
  assumes "distinct (map sl_ItemKey sels)"
  shows "decisions_of sels = map_of (map (\<lambda>s. (sl_ItemKey s, sl_Action s)) sels)"
  unfolding decisions_of_def using assms
  by (subst map_of_inject_set) (simp_all add: o_def rev_map [symmetric])

lemma upsert_decides:
  "map_of (map (\<lambda>s. (sl_ItemKey s, sl_Action s)) (upsert_row (\<lambda>s. sl_ItemKey s = sl_ItemKey new) new rows))
    = (map_of (map (\<lambda>s. (sl_ItemKey s, sl_Action s)) rows))(sl_ItemKey new \<mapsto> sl_Action new)"
  by (induction rows) (auto simp: fun_eq_iff)

lemma decision_written:
  assumes "fault_free w" and "one_row_each mid (w_db w)"
  obtains w' rows where "UpsertSelection mid k c a re ra mf w = (Inr (), w')" "fault_free w'" "one_row_each mid (w_db w')"
    "decided mid (w_db w') = (decided mid (w_db w))(k \<mapsto> a)" "w_db w' = (w_db w)\<lparr>selection_rows := rows\<rparr>"
proof -
  let ?new = "\<lparr>sl_MigrationID = mid, sl_ItemKey = k, sl_Category = c, sl_Action = a, sl_DecisionReason = re,
    sl_RiskAcknowledged = ra, sl_ManualFollowup = mf\<rparr>"
  let ?rows = "upsert_row (\<lambda>s. sl_MigrationID s = mid \<and> sl_ItemKey s = k) ?new (selection_rows (w_db w))"
  let ?d = "(w_db w)\<lparr>selection_rows := ?rows\<rparr>"
  have s: "selections_of mid ?d = upsert_row (\<lambda>s. sl_ItemKey s = sl_ItemKey ?new) ?new (selections_of mid (w_db w))"
    by (simp add: selections_of_def upsert_of_migration)
  have one: "one_row_each mid ?d" using assms(2) by (simp only: one_row_each_def s upsert_keys) (simp split: if_split)
  have "decided mid ?d = (decided mid (w_db w))(k \<mapsto> a)"
    using decisions_of_distinct [OF one [unfolded one_row_each_def]] decisions_of_distinct [OF assms(2) [unfolded one_row_each_def]]
      upsert_decides [of ?new "selections_of mid (w_db w)"]
    by (simp add: decided_def s)
  then show thesis using assms(1) one
    by (intro that [of "tick (w\<lparr>w_db := ?d\<rparr>)" ?rows]) (simp_all add: UpsertSelection_def fault_free_write)
qed

lemma bulk_items_decide:
  assumes "fault_free w" and "one_row_each mid (w_db w)"
  shows "\<exists>r' w' rows. bulk_items mid policy existing its r w = (Inr r', w') \<and> fault_free w' \<and> one_row_each mid (w_db w')
    \<and> decided mid (w_db w') = decided mid (w_db w) ++ swept policy (filter (\<lambda>it. pi_ItemKey it \<notin> sl_ItemKey ` set existing) its)
    \<and> w_db w' = (w_db w)\<lparr>selection_rows := rows\<rparr>"
  using assms
proof (induction its arbitrary: r w)
  case Nil
  then show ?case by (auto intro: exI [of _ "selection_rows (w_db w)"])
next
  case (Cons it its)
  show ?case
  proof (cases "pi_ItemKey it \<in> sl_ItemKey ` set existing \<or> sweep policy it = None")
    case True
    then show ?thesis using Cons.IH [OF Cons.prems] by (auto simp: bulk_action_sweep)
  next
    case False
    then obtain a where a: "sweep policy it = Some a" by auto
    obtain v rows where v: "UpsertSelection mid (pi_ItemKey it) (pi_Category it) a '''' False '''' w = (Inr (), v)" "fault_free v"
        "one_row_each mid (w_db v)" "decided mid (w_db v) = (decided mid (w_db w))(pi_ItemKey it \<mapsto> a)"
        "w_db v = (w_db w)\<lparr>selection_rows := rows\<rparr>"
      by (rule decision_written [OF Cons.prems])
    have "\<exists>r1. bulk_items mid policy existing (it # its) r w = bulk_items mid policy existing its r1 v"
      using v(1) a False by (simp add: bulk_action_sweep Let_def) (rule exI, rule refl)
    then obtain r1 where r1: "bulk_items mid policy existing (it # its) r w = bulk_items mid policy existing its r1 v" ..
    from Cons.IH [OF v(2,3), of r1] obtain r' w' rows' where w': "bulk_items mid policy existing its r1 v = (Inr r', w')"
        "fault_free w'" "one_row_each mid (w_db w')" "w_db w' = (w_db v)\<lparr>selection_rows := rows'\<rparr>"
        "decided mid (w_db w') = decided mid (w_db v) ++ swept policy (filter (\<lambda>it. pi_ItemKey it \<notin> sl_ItemKey ` set existing) its)"
      by blast
    have "w_db w' = (w_db w)\<lparr>selection_rows := rows'\<rparr>" using w'(4) v(5) by simp
    moreover have "decided mid (w_db w') = decided mid (w_db w)
        ++ swept policy (filter (\<lambda>it. pi_ItemKey it \<notin> sl_ItemKey ` set existing) (it # its))"
      using w'(5) v(4) a False by simp
    ultimately show ?thesis using r1 w'(1-3) by metis
  qed
qed

text \<open>The items before anything is remembered of them.\<close>

definition raw_items :: "'h parity_env \<Rightarrow> int \<Rightarrow> 'h item_db \<Rightarrow> ParityItem list" where
  "raw_items pe mid d =
     (let cats = ae_Categories (py_env pe);
          (targets, ti) = fst (collect_targets (py_env pe) cats (Map.empty, newTargetInventory) (target_host d))
      in compare_all cats (collected_sources (steps_of mid d)) targets ti)"

definition same_tables :: "'h item_db \<Rightarrow> 'h item_db \<Rightarrow> bool" where
  "same_tables d d' \<longleftrightarrow> selection_rows d' = selection_rows d \<and> step_rows d' = step_rows d \<and> mig_rows d' = mig_rows d"

lemma parity_computed:
  assumes "fault_free w" and "ComputeParity pe mid w = (Inr parity, w1)"
  shows "fault_free w1 \<and> same_tables (w_db w) (w_db w1)
    \<and> target_host (w_db w1) = snd (collect_targets (py_env pe) (ae_Categories (py_env pe)) (Map.empty, newTargetInventory) (target_host (w_db w)))
    \<and> (\<exists>sels rs. pa_Items parity = map (enrich_item sels rs) (raw_items pe mid (w_db w)))"
  using assms
  by (auto simp: ComputeParity_def GetMigration_def GetSteps_def fault_free_read on_target_def enrichItems_def GetSelections_def
      GetItemResults_def raw_items_def same_tables_def fault_free_def db_read_def Let_def split: option.splits prod.splits)
    (rule exI, rule exI, rule ballI, rule refl)

lemma collect_keeps:
  assumes "\<And>cat m h. ae_Registry env cat = Some m \<Longrightarrow> snd (cm_Collect m h) = h"
  shows "snd (collect_targets env cats st h) = h"
proof (induction cats arbitrary: st h)
  case (Cons cat cats)
  show ?case
  proof (cases "ae_Registry env cat")
    case (Some m)
    have "snd (cm_Collect m h) = h" by (rule assms [OF Some])
    then show ?thesis using Some Cons.IH by (cases "cm_Collect m h") (auto split: sum.split)
  qed (simp add: Cons.IH)
qed simp

lemma bulk_decides:
  assumes "fault_free w" and "one_row_each mid (w_db w)" and "BulkApply pe mid policy w = (Inr r, w1)"
  shows "fault_free w1 \<and> one_row_each mid (w_db w1) \<and> step_rows (w_db w1) = step_rows (w_db w)
    \<and> target_host (w_db w1) = snd (collect_targets (py_env pe) (ae_Categories (py_env pe)) (Map.empty, newTargetInventory) (target_host (w_db w)))
    \<and> decided mid (w_db w1) = (if policy = BulkClear then Map.empty
        else swept policy (raw_items pe mid (w_db w)) ++ decided mid (w_db w))"
proof -
  obtain parity v where v: "ComputeParity pe mid w = (Inr parity, v)"
    using assms(3) by (auto simp: BulkApply_def split: prod.splits sum.splits)
  note c = parity_computed [OF assms(1) v]
  then obtain sels rs where items: "pa_Items parity = map (enrich_item sels rs) (raw_items pe mid (w_db w))" by blast
  have sel: "selections_of mid (w_db v) = selections_of mid (w_db w)" using c by (simp add: same_tables_def selections_of_def)
  have g: "GetSelections mid v = (Inr (selections_of mid (w_db w)), tick v)"
    using c sel by (simp add: GetSelections_def fault_free_read)
  let ?start = "\<lparr>br_Policy = policy, br_Applied = 0, br_Accepted = 0, br_Skipped = 0, br_Manual = 0, br_Items = []\<rparr>"
  show ?thesis
  proof (cases "policy = BulkClear")
    case True
    let ?v = "tick ((tick v)\<lparr>w_db := (w_db v)\<lparr>selection_rows := filter (\<lambda>s. sl_MigrationID s \<noteq> mid) (selection_rows (w_db v))\<rparr>\<rparr>)"
    have clear: "ClearSelections mid (tick v) = (Inr (), ?v)" using c by (simp add: ClearSelections_def fault_free_write)
    have e: "selections_of mid (w_db ?v) = []" by (simp add: selections_of_def filter_empty_conv)
    have f: "fault_free ?v" "one_row_each mid (w_db ?v)" "decided mid (w_db ?v) = Map.empty"
      using c e by (simp_all add: one_row_each_def decided_def decisions_of_def)
    have n: "swept BulkClear its = Map.empty" for its by (induction its) (simp_all add: sweep_def)
    have b: "bulk_items mid BulkClear [] (pa_Items parity) ?start ?v = (Inr r, w1)"
      using assms(3) v g clear True by (simp add: BulkApply_def Let_def)
    show ?thesis using bulk_items_decide [OF f(1,2), of BulkClear "[]" "pa_Items parity" ?start] b f(3) n c True
      by (auto simp: same_tables_def)
  next
    case False
    let ?ex = "selections_of mid (w_db w)"
    have f: "fault_free (tick v)" "one_row_each mid (w_db (tick v))" "decided mid (w_db (tick v)) = decided mid (w_db w)"
      using c sel assms(2) by (simp_all add: one_row_each_def decided_def)
    have b: "bulk_items mid policy ?ex (pa_Items parity) ?start (tick v) = (Inr r, w1)"
      using assms(3) v g False by (simp add: BulkApply_def Let_def)
    from bulk_items_decide [OF f(1,2), of policy ?ex "pa_Items parity" ?start] b obtain rows where
        w1: "fault_free w1" "one_row_each mid (w_db w1)" "w_db w1 = (w_db v)\<lparr>selection_rows := rows\<rparr>"
        "decided mid (w_db w1) = decided mid (w_db w)
          ++ swept policy (filter (\<lambda>it. pi_ItemKey it \<notin> sl_ItemKey ` set ?ex) (pa_Items parity))"
      using f(3) by auto
    have dom: "decided mid (w_db w) k = None \<longleftrightarrow> k \<notin> sl_ItemKey ` set ?ex" for k
      by (simp add: decided_def decisions_of_def map_of_eq_None_iff image_image)
    have "decided mid (w_db w1) = swept policy (raw_items pe mid (w_db w)) ++ decided mid (w_db w)"
    proof
      fix k
      show "decided mid (w_db w1) k = (swept policy (raw_items pe mid (w_db w)) ++ decided mid (w_db w)) k"
        using dom [of k] swept_filter [of policy "\<lambda>k. k \<notin> sl_ItemKey ` set ?ex" "pa_Items parity" k]
        by (auto simp: w1(4) map_add_def items split: option.split)
    qed
    then show ?thesis using w1 c False by (simp add: same_tables_def)
  qed
qed

text \<open>\<open>C14\<close>: when nothing fails, a bulk policy leaves every decision of the operator as it is and decides exactly the items
  that have none, each as the policy wants it: a safe sweep applies only items of the two low levels whose hard
  dependencies are satisfied, and the acceptance of risky items keeps only guarded ones that are equal; clearing
  removes every decision.\<close>

theorem bulk_policy_respects_operator:
  assumes "fault_free w" and "one_row_each mid (w_db w)" and "BulkApply pe mid policy w = (Inr r, w1)"
  shows "decided mid (w_db w1) = (if policy = BulkClear then Map.empty
    else swept policy (raw_items pe mid (w_db w)) ++ decided mid (w_db w))"
  using bulk_decides [OF assms] by blast


lemma raw_keys: "it \<in> set (raw_items pe mid d) \<Longrightarrow> \<not> HasPrefix (pi_ItemKey it) compose_prefix"
proof -
  have "\<not> HasPrefix (pi_ItemKey it) compose_prefix" if "it \<in> set (compareCategory cat src tgt ti)" for cat src tgt ti
  proof -
    have "pi_ItemKey it \<in> set (map pi_ItemKey (compareCategory cat src tgt ti))" using that by simp
    then show ?thesis unfolding compared_keys by simp
  qed
  then show "it \<in> set (raw_items pe mid d) \<Longrightarrow> ?thesis"
    by (auto simp: raw_items_def compare_all_def Let_def split: prod.splits option.splits)
qed

text \<open>\<open>C22\<close>: a sweep that skips everything, or reserves everything for review, still lets the apply stage write every
  compose file that was collected: no policy can reach them, because the comparison never shows them.\<close>

theorem compose_files_escape_decisions:
  assumes "fault_free w" and "one_row_each mid (w_db w)" and "BulkApply pe mid policy w = (Inr r, w1)"
    and "decided mid (w_db w) (''docker-compose:'' @ path) = None"
  shows "fst (plan_item mid ''docker'' now (decided mid (w_db w1)) ti (''docker-compose:'' @ path))"
proof -
  let ?k = "''docker-compose:'' @ path"
  have "swept policy (raw_items pe mid (w_db w)) ?k = None"
    using swept_keys [of policy "raw_items pe mid (w_db w)" ?k] raw_keys [of _ pe mid "w_db w"] key_prefixes(9) [of path]
    by (cases "swept policy (raw_items pe mid (w_db w)) ?k") fastforce+
  then have n: "decided mid (w_db w1) ?k = None" using bulk_decides [OF assms(1-3)] assms(4) by (simp only: map_add_None split: if_split) simp
  have d: "depsFor ''docker'' ?k ti = []"
    by (simp add: depsFor_def Let_def containerNameFromKey_def TrimPrefix_def HasPrefix_def)
  show ?thesis unfolding plan_item_def Let_def itemHardBlocked_def n d by (simp add: action_names)
qed

subsection \<open>The bounds of the summary\<close>

lemma summary_step:
  "pn_decided (summary_item sels rs it n) \<le> Suc (pn_decided n)" "pn_manual (summary_item sels rs it n) \<le> Suc (pn_manual n)"
  "pn_executed (summary_item sels rs it n) \<le> Suc (pn_executed n)"
  "pn_verified (summary_item sels rs it n) + pn_executed n \<le> pn_verified n + pn_executed (summary_item sels rs it n)"
  by (auto simp: summary_item_def Let_def split: option.split)

lemma summary_counts:
  "pn_decided (fold (summary_item sels rs) its n) \<le> length its + pn_decided n
    \<and> pn_manual (fold (summary_item sels rs) its n) \<le> length its + pn_manual n
    \<and> pn_executed (fold (summary_item sels rs) its n) \<le> length its + pn_executed n
    \<and> pn_verified (fold (summary_item sels rs) its n) + pn_executed n \<le> pn_verified n + pn_executed (fold (summary_item sels rs) its n)"
proof (induction its arbitrary: n)
  case (Cons it its)
  from Cons.IH [of "summary_item sels rs it n"] summary_step [of sels rs it n] show ?case by simp
qed simp

lemma pct_range: "n \<le> t \<Longrightarrow> 0 \<le> pct n t \<and> pct n t \<le> 100"
  by (simp add: pct_def divide_le_eq)

lemma pct_at_most: "1 \<le> t \<Longrightarrow> pct a t \<le> of_nat a * 100"
proof -
  assume "1 \<le> t"
  then have "(of_nat a :: rat) * 1 \<le> of_nat a * of_nat t" by (intro mult_left_mono) auto
  with \<open>1 \<le> t\<close> show ?thesis by (simp add: pct_def divide_le_eq)
qed

definition applied_undecided :: "(string \<rightharpoonup> ItemResult) \<Rightarrow> ParityItem \<Rightarrow> bool" where
  "applied_undecided rs it \<longleftrightarrow> pi_Status it \<noteq> ParityAcceptedTarget
     \<and> (case rs (pi_ItemKey it) of None \<Rightarrow> False | Some r \<Rightarrow> ir_ExecutionState r = ExecApplied)"

lemma undecided_counts:
  "list_all (applied_undecided rs) its \<Longrightarrow> pn_decided (fold (summary_item Map.empty rs) its n) = pn_decided n
    \<and> pn_executed (fold (summary_item Map.empty rs) its n) = length its + pn_executed n"
proof (induction its arbitrary: n)
  case (Cons it its)
  have "pn_decided (summary_item Map.empty rs it n) = pn_decided n" "pn_executed (summary_item Map.empty rs it n) = Suc (pn_executed n)"
    using Cons.prems by (auto simp: summary_item_def Let_def applied_undecided_def action_names split: option.splits)
  with Cons show ?case by simp
qed simp

text \<open>Four of the five shares of the summary are percentages; the share of decided items that were executed is not:
  it has the items as its only bound, and reaches it, a hundred per cent for every item, when the operator decided
  nothing and every item was applied.\<close>

theorem summary_shares_bounded:
  "list_all (\<lambda>share. 0 \<le> share (summarize sels rs items) \<and> share (summarize sels rs items) \<le> 100)
     [su_ObservedParity, su_DecisionCoverage, su_VerificationConfidence, su_ManualDeferredBurden]
   \<and> 0 \<le> su_ExecutionCompletion (summarize sels rs items)
   \<and> su_ExecutionCompletion (summarize sels rs items) \<le> 100 * of_nat (length items)
   \<and> (list_all (applied_undecided rs) items \<longrightarrow>
        su_ExecutionCompletion (summarize Map.empty rs items) = 100 * of_nat (length items))"
proof -
  let ?n = "fold (summary_item sels rs) items no_counts"
  have c: "pn_decided ?n \<le> length items" "pn_manual ?n \<le> length items" "pn_executed ?n \<le> length items" "pn_verified ?n \<le> pn_executed ?n"
    using summary_counts [of sels rs items no_counts] by (simp_all add: no_counts_def)
  have s: "length (filter (\<lambda>it. pi_Status it = ParitySame) items) \<le> length items" by simp
  have v: "pn_verified ?n \<le> max 1 (pn_executed ?n)" using c(4) by simp
  have "pct (pn_executed ?n) (max 1 (pn_decided ?n)) \<le> of_nat (pn_executed ?n) * 100"
    by (rule pct_at_most) simp
  moreover have "of_nat (pn_executed ?n) * (100::rat) \<le> 100 * of_nat (length items)" using c(3) by simp
  ultimately have e: "pct (pn_executed ?n) (max 1 (pn_decided ?n)) \<le> 100 * of_nat (length items)" by linarith
  have "su_ExecutionCompletion (summarize Map.empty rs items) = 100 * of_nat (length items)" if "list_all (applied_undecided rs) items"
    using undecided_counts [OF that, of no_counts] by (simp add: summarize_def Let_def no_counts_def pct_def)
  moreover have "0 \<le> pct a b" for a b by (simp add: pct_def)
  ultimately show ?thesis
    using e pct_range [OF c(1)] pct_range [OF c(2)] pct_range [OF s] pct_range [OF v] by (simp add: summarize_def Let_def)
qed

subsection \<open>An example\<close>

definition demo_docker_step :: MigrationStepRecord where
  "demo_docker_step = \<lparr>sr_ID = 1, sr_MigrationID = 7, sr_Category = ''docker'', sr_Action = ''collect'', sr_Status = StepStatusCompleted,
     sr_Data = SbEnvelope \<lparr>cd_Type = ''docker'', cd_Data = PlDocker \<lparr>dk_Containers = [], dk_Images = [''nginx:1.25''], dk_Volumes = [],
       dk_ComposeFiles = [\<lparr>df_Path = ''/srv/app/compose.yml'', df_Content = ''services:''\<rparr>], dk_Count = 1\<rparr>\<rparr>, sr_Error = ''''\<rparr>"

definition demo_parity_env :: "string set parity_env" where
  "demo_parity_env = \<lparr>py_env = \<lparr>ae_Registry = (\<lambda>_. Some \<lparr>cm_Collect = (\<lambda>h. (Inl (ErrF ''no docker''), h)),
       cm_Apply = (\<lambda>c h. (None, h)), cm_Rollback = (\<lambda>b h. (None, h))\<rparr>), ae_Categories = [''docker''], ae_ops = dnf_ops\<rparr>,
     py_server = (\<lambda>_. None), py_ssh = (\<lambda>_. None)\<rparr>"

definition demo_parity_world :: "string set item_world" where
  "demo_parity_world = calm_world (item_database [demo_docker_step] [] [] [] {})"

lemma demo_parity_facts [simp]:
  "fault_free demo_parity_world" "one_row_each mid (w_db demo_parity_world)" "decided mid (w_db demo_parity_world) = Map.empty"
  "mig_of (w_db demo_parity_world) 7 = Some item_migration"
  by (simp_all add: demo_parity_world_def calm_world_def fault_free_def item_database_def one_row_each_def selections_of_def decided_def
      decisions_of_def mig_of_def item_migration_def)

lemma demo_parity_runs:
  assumes "fault_free w" and "mig_of (w_db w) 7 = Some item_migration" and "one_row_each 7 (w_db w)"
  shows "\<exists>r w1. BulkApply demo_parity_env 7 BulkSkipSelected w = (Inr r, w1) \<and> mig_of (w_db w1) 7 = Some item_migration"
proof -
  have "\<exists>parity v. ComputeParity demo_parity_env 7 w = (Inr parity, v)"
    using assms(1,2) by (simp add: ComputeParity_def GetMigration_def GetSteps_def fault_free_read demo_parity_env_def on_target_def
        enrichItems_def split_beta Let_def)
  then obtain parity v where v: "ComputeParity demo_parity_env 7 w = (Inr parity, v)" by blast
  note c = parity_computed [OF assms(1) v]
  have f: "fault_free v" "one_row_each 7 (w_db (tick v))" "mig_of (w_db v) 7 = Some item_migration"
    using c assms(2,3) by (simp_all add: same_tables_def one_row_each_def selections_of_def mig_of_def)
  let ?start = "\<lparr>br_Policy = BulkSkipSelected, br_Applied = 0, br_Accepted = 0, br_Skipped = 0, br_Manual = 0, br_Items = []\<rparr>"
  from bulk_items_decide [OF fault_free_tick [OF f(1)] f(2), of BulkSkipSelected "selections_of 7 (w_db v)" "pa_Items parity" ?start]
  obtain r w1 rows where "bulk_items 7 BulkSkipSelected (selections_of 7 (w_db v)) (pa_Items parity) ?start (tick v) = (Inr r, w1)"
      "w_db w1 = (w_db v)\<lparr>selection_rows := rows\<rparr>" by auto
  then show ?thesis
    using f(1,3) by (simp add: BulkApply_def v GetSelections_def fault_free_read Let_def mig_of_def)
qed

theorem bulk_policy_respects_operator_witness:
  "\<exists>r w1. BulkApply demo_parity_env 7 BulkSkipSelected demo_parity_world = (Inr r, w1)
    \<and> decided 7 (w_db w1) = swept BulkSkipSelected (raw_items demo_parity_env 7 (w_db demo_parity_world)) ++ Map.empty"
proof -
  obtain r w1 where b: "BulkApply demo_parity_env 7 BulkSkipSelected demo_parity_world = (Inr r, w1)"
    using demo_parity_runs [OF demo_parity_facts(1,4,2)] by blast
  with bulk_policy_respects_operator [OF demo_parity_facts(1,2) b] show ?thesis by simp
qed

theorem compose_files_escape_decisions_witness:
  "\<exists>w1. fst (plan_item 7 ''docker'' (Stamp 0) (decided 7 (w_db w1)) newTargetInventory (''docker-compose:'' @ ''/srv/app/compose.yml''))
    \<and> (\<exists>r. BulkApply demo_parity_env 7 BulkSkipSelected demo_parity_world = (Inr r, w1))"
proof -
  obtain r w1 where b: "BulkApply demo_parity_env 7 BulkSkipSelected demo_parity_world = (Inr r, w1)"
    using demo_parity_runs [OF demo_parity_facts(1,4,2)] by blast
  from compose_files_escape_decisions [OF demo_parity_facts(1,2) b, of "''/srv/app/compose.yml''" "Stamp 0" newTargetInventory] b
  show ?thesis by auto
qed


theorem summary_shares_bounded_witness:
  "let it = new_item ''configs'' ''config:/etc/app.conf'' ''/etc/app.conf'' True ApplyLevelWarn [] in
   su_ExecutionCompletion (summarize Map.empty [''config:/etc/app.conf'' \<mapsto> applied_config] [it, it]) = 200"
  using summary_shares_bounded [of Map.empty "[''config:/etc/app.conf'' \<mapsto> applied_config]"
      "[new_item ''configs'' ''config:/etc/app.conf'' ''/etc/app.conf'' True ApplyLevelWarn [],
        new_item ''configs'' ''config:/etc/app.conf'' ''/etc/app.conf'' True ApplyLevelWarn []]"]
  by (simp add: Let_def applied_undecided_def applied_config_def new_item_def)

end
