(* ===== verification/Spec2Isabelle.thy ===== *)
theory Spec2Isabelle
  imports MigState CutoverProofs Policy Risk DepMap RunProperties SwitchProofs DepGraphProofs JobProperties Broadcaster
    GateProofs ShellText CopyProofs SyncProofs ParityProofs
begin

text \<open>
  \<^bold>\<open>Meshium: migration pipeline and its stages, cutover, transfers, job engine, dependency graph, authentication\<close>

  Meshium is a server in Go that migrates applications from one Linux host to another over SSH. This
  development models the logic that decides what happens and in which order, and what is remembered of
  it in the SQLite database, and proves it. File names below are relative to \<open>src/internal\<close>; \<open>M/\<close> is
  \<open>mod/migration/\<close>.

  \<^bold>\<open>The parts and how they interact.\<close> A migration is a row with two state columns. A \<^emph>\<open>pipeline\<close>
  (\<open>M/pipeline.go\<close>) runs its stages in order, writes a row per stage, retries, and either commits, is
  interrupted or rolls back. Operators act on it in between (\<open>M/pipeline_lifecycle.go\<close>). A run passes three
  \<^emph>\<open>guards\<close>: one run per migration, a ceiling on runs, exclusive servers (\<open>M/pipeline_concurrency.go\<close>), and
  is registered so that a shutdown can drain it (\<open>M/pipeline_registry.go\<close>). One stage, the switch of the
  traffic, is itself a persisted machine of eleven steps, the \<^emph>\<open>cutover\<close> (\<open>M/cutover_orchestrator.go\<close>,
  \<open>M/cutover_substate.go\<close>), which holds a \<^emph>\<open>fence lease\<close> (\<open>M/fencing_authority.go\<close>) while it changes anything.
  What may run unattended is decided by the support \<^emph>\<open>policy\<close>, the \<^emph>\<open>risk\<close> score, the \<^emph>\<open>topology\<close> probes and
  the map of \<^emph>\<open>dependencies\<close> between parity items. Beside the pipeline, the \<^emph>\<open>job engine\<close> (\<open>jobengine/\<close>) queues,
  runs, pauses and recovers background jobs; one kind of job discovers a server, and the \<^emph>\<open>dependency graph\<close>
  (\<open>mod/discovery/graph.go\<close>) is built from what it finds; another copies files, the \<^emph>\<open>transfers\<close> (\<open>mod/transfer/\<close>).
  Of the stages, the \<^emph>\<open>apply\<close> stage (\<open>M/stages_apply.go\<close>) hands the collected items that the operator chose to the
  modules of their categories (\<open>M/packages.go\<close>, \<open>M/services.go\<close>), asks the target what arrived and remembers one
  result per item; the \<^emph>\<open>verification\<close> probes them, the \<^emph>\<open>finalization\<close> derives the outcome from the results, and
  the \<^emph>\<open>traffic switch\<close> runs the cutover or waits for the operator. In front of all handlers stands the
  \<^emph>\<open>gate\<close> (\<open>mod/middleware/security.go\<close>): limits, origins and the session of \<open>mod/auth/\<close>.

  \<^bold>\<open>Theories and code.\<close>
    \<^item> \<open>Prelude\<close>: Go errors with \<open>errors.Is\<close>, results, decimal text, lemmas on lists. \<open>World\<close>: the database,
      the clock and the failures of the environment. \<open>GoText\<close>: the functions of \<open>strings\<close> and \<open>strconv\<close>.
    \<^item> \<open>MigState\<close>: \<open>M/state.go\<close>, the thirty lifecycle states, their strings, the transition table, the machine.
    \<^item> \<open>Fencing\<close>: \<open>M/fencing_authority.go\<close> and the lease statements of \<open>M/pipeline_repo_stages.go\<close>.
    \<^item> \<open>CutoverState\<close>, \<open>CutoverMachine\<close>: \<open>M/cutover_substate.go\<close>, the sub-states, the checkpoint, \<open>Load\<close>, \<open>Save\<close>,
      \<open>MarkStep\<close>. \<open>Orchestrator\<close>: \<open>M/cutover_orchestrator.go\<close>, \<open>Run\<close> over arbitrary drivers. \<open>CutoverProofs\<close>:
      their invariants and properties. \<open>StageRepo\<close>: the stage and traffic-switch rows.
    \<^item> \<open>MigRepo\<close>: the migration rows and the statements on them (\<open>M/repo.go\<close>, \<open>M/pipeline_repo_plan.go\<close>,
      \<open>M/pipeline_repo_history.go\<close>). \<open>Guards\<close>: the semaphore, the locks, the registry and its drain.
    \<^item> \<open>Pipeline\<close>: stages, rollback, failed and interrupted runs. \<open>Lifecycle\<close>: Pause, Cutover, Commit, Rollback,
      Cancel and crash recovery (\<open>M/pipeline_recovery.go\<close>). \<open>Execute\<close>: \<open>Execute\<close>, \<open>Resume\<close>, \<open>Retry\<close>.
      \<open>RunProofs\<close> and \<open>RunProperties\<close>: what a run does to the log and to the rows.
    \<^item> \<open>Topology\<close>: \<open>M/topology.go\<close>, \<open>M/topology_mode.go\<close>. \<open>Policy\<close>: \<open>M/policy.go\<close>. \<open>Risk\<close>: \<open>M/risk_engine.go\<close>.
      \<open>DepMap\<close>: \<open>M/depmap.go\<close>.
    \<^item> \<open>DepGraph\<close>, \<open>DepGraphProofs\<close>: \<open>mod/discovery/graph.go\<close>, the builder, Kahn's sort, the depth-first search
      for cycles, the validation.
    \<^item> \<open>JobQueue\<close>, \<open>JobStore\<close>, \<open>JobEngine\<close>, \<open>Broadcaster\<close>: \<open>jobengine/queue.go\<close>, \<open>store.go\<close>, \<open>engine.go\<close> with
      \<open>shutdown.go\<close>, and \<open>progress.go\<close>. \<open>JobProperties\<close>: their properties.
    \<^item> \<open>SwitchStage\<close>, \<open>SwitchProofs\<close>: \<open>M/stages_cutover.go\<close>, the stages around the switch of the traffic.
    \<^item> \<open>Distro\<close>, \<open>Services\<close>, \<open>PackageProofs\<close>: \<open>M/distro.go\<close>, \<open>M/packages.go\<close>, \<open>M/services.go\<close>. \<open>ItemStore\<close>: the data of
      the six categories and the rows of steps, backups, decisions and item results (\<open>M/repo.go\<close>). \<open>Probes\<close>:
      \<open>M/verify_probe.go\<close>. \<open>InitialSync\<close>: \<open>M/stages_apply.go\<close>, \<open>M/reconcile_applied.go\<close>, \<open>M/backup_ref.go\<close>. \<open>Outcome\<close>:
      \<open>M/stages_verify.go\<close>, \<open>M/stages_finalize.go\<close>. \<open>ItemProofs\<close>, \<open>SyncProofs\<close>: their properties. \<open>ParityEngine\<close>,
      \<open>ParityProofs\<close>: \<open>M/parity_engine.go\<close>, the comparison of source and target, the bulk decisions and the summary.
    \<^item> \<open>ShellText\<close>: \<open>shared/shell.go\<close>, \<open>shared/path.go\<close> and how a POSIX shell reads a command. \<open>Transfers\<close>, \<open>FileCopy\<close>:
      \<open>mod/transfer/\<close>, errors and checkpoints, then the copies themselves. \<open>TransferProofs\<close>, \<open>CopyProofs\<close>: their properties.
    \<^item> \<open>Base64\<close>, \<open>Crypto\<close>: \<open>shared/crypto.go\<close> over parameters for the primitives. \<open>RateLimits\<close>, \<open>LimitProofs\<close>:
      \<open>shared/ratelimit.go\<close> and the limiter of the gate. \<open>Auth\<close>, \<open>AuthProofs\<close>: \<open>mod/auth/\<close>. \<open>Gate\<close>, \<open>GateProofs\<close>:
      \<open>mod/middleware/security.go\<close>, \<open>mod/auth/middleware.go\<close> and the chain that \<open>cmd/server/main.go\<close> builds.

  \<^bold>\<open>How the code is rendered.\<close> A struct is a record with a two-letter prefix on its fields, an enumeration a
  datatype (or the string the code stores), an error the value \<open>Inl\<close>. Code that sends statements takes and
  returns a \<open>world\<close>: a database record, the log of external actions, a tick per statement, an arbitrary
  environment that may fail each statement before or after its effect, and a clock. A crash after some tick is
  an environment that fails everything from there on, so a theorem without \<open>fault_free\<close> covers crashes. Each
  table is a list of rows; a JSON column is the value it encodes, or text that does not parse. Interfaces of the
  code (stage handlers, drivers, traffic switchers, SSH connections, job handlers) are arbitrary functions, and
  what other goroutines do while such a call runs is part of it. Bodies that hold a mutex are one step. Where Go
  iterates over a map, the order is an argument or provably irrelevant.

  \<^bold>\<open>What the lemmas show.\<close>
    \<^item> Cutover: across any number of runs, crashes and takeovers the steps happen in order, promotion only after
      the switch and the switch only after the freeze; completed means that all steps ran; a restart skips steps
      that are done; an expired lease stops everything; a resumed or fresh cutover completes in a calm world. The
      theorem on the crash between the two writes of \<open>Save\<close> shows a cutover that can never be resumed.
    \<^item> Leases: calls of others never change a held lease, tokens grow, \<open>AssertHolds\<close> is characterised; two
      theorems exhibit the revival of an expired lease and the lost race after a release.
    \<^item> Runs: the executions of a run follow the stage list and the retry bounds and skip completed stages; a run
      that starts from a new migration cannot commit; a run changes no other migration; the two rollbacks disagree
      on an unsafe topology.
    \<^item> Guards: the locale \<open>exclusive_guard\<close>, interpreted for servers and for runs, gives exclusion; the slot
      ceiling; the drain returns.
    \<^item> Jobs: the locale \<open>job_queue\<close>, interpreted for SQLite and for memory, gives first-in-first-out; the table
      refines the list; a worker runs every queued job; terminal jobs are final; recovery leaves no job running;
      a lost cancellation, a stranded job, the panic of a late broadcast.
    \<^item> Graph: the sort returns a permutation with dependencies first, for every iteration order, and fails exactly
      when the search finds a cycle; recorded cycles are cycles; built graphs have no dangling edge.
    \<^item> Items: every call of an applier hands over exactly the items that were chosen and are not blocked; the outcome
      \<open>completed\<close> is characterised; a rollback of packages never removes one of the backup; one broken package costs
      only itself. Others show what goes wrong: the retry after a skipped category applies nothing, a rollback after
      the finalization restores nothing, the commit erases the outcome, configurations can never be verified, and a
      failed listing of the services lets a rollback disable them all.
    \<^item> Comparison: what the operator sees is what the apply stage plans, compose files excepted, which no decision
      reaches; a bulk policy never touches a decision of the operator and is idempotent; the shares of the summary are
      bounded, one of them not by a hundred.
    \<^item> Transfers: a copy that is reported as complete and was resumed from a prefix equals the source; directories
      account for every file; quoted arguments are read back by the shell, bare quotes are not.
    \<^item> Gate: no protected handler runs without the session token, and no token is valid after a lock; the limiter
      equals a sliding window; the service stays well-formed.
    \<^item> Decisions: probes that fail, fail closed; the gate of the policy; monotone risk; the table of transitions.

  \<^bold>\<open>Bounds and termination.\<close> \<open>kahn\<close> ends because every release removes a pending node, \<open>dfs_loop\<close> because every
  call visits a new one. The drain, the shutdown loop and the stage loop are \<open>partial_function\<close>s over the option
  type, and the drain is proved to return within its timeout plus one round. \<open>workerLoop\<close> takes a number of rounds;
  as many rounds as there are queued jobs are proved to suffice. Integers of the code that count rows, ports and
  ticks are unbounded here; \<open>Atoi\<close> keeps the range of 64 bits. Times are nanoseconds, and stored time stamps of
  leases have a resolution of a second, as in the code. Percentages and sizes are rationals.

  The targets of the apply stage and the hosts of a copy are states of an arbitrary type that commands change in
  any way; batches of packages and of paths have the sizes of the code.

  \<^bold>\<open>Not modelled.\<close> The stages before the apply stage and live replication, the collectors and appliers of
  configurations, users, Docker and databases, the database drivers and the traffic switchers (remote commands whose
  effect is the target's), the collectors of discovery and the compatibility checks (parsing of command output), the
  labels that the workload classifier gives to nodes, the handlers of migrations and servers, the SQL schema, SSH
  connections, the older migration engine, and the host administration modules. JSON encoding is not modelled as text,
  so a percentage that is not a number, which Go cannot encode, has no counterpart. Panics inside handlers are not
  modelled. Random bytes and the primitives of the cryptographic library are parameters.
\<close>

end
